(* ===== verification/Prelude.thy ===== *)
theory Prelude
  imports Complex_Main "HOL-Library.AList"
begin

text \<open>
  What every component of the development shares: the exceptions that the Python code
  raises or lets pass, the state-and-exception monad in which stateful code is written,
  the proof rules for that monad (collection \<open>hoare_rules\<close>), dictionaries as association
  lists, and the dynamically typed values of decoded JSON.
\<close>

named_theorems hoare_rules \<open>rules for reasoning about stateful Python code\<close>
named_theorems st_simps \<open>equations that run stateful Python code on a state\<close>


section \<open>Exceptions\<close>

text \<open>
  One constructor per exception class that matters to a handler or to a claim. The string
  of \<open>NameError\<close> and \<open>AttributeError\<close> is the missing name, that of \<open>PlainError\<close>
  (an instance of \<open>Exception\<close> itself) and \<open>OperationalError\<close> (SQLite) the message.
  \<open>TransferError\<close> is boto's \<open>ResumableUploadException\<close> and \<open>ResumableDownloadException\<close> with its
  disposition, \<open>HTTPException\<close> the base class of \<open>httplib\<close>'s errors.
\<close>

datatype disposition = START_OVER | WAIT_BEFORE_RETRY | ABORT

datatype py_exc =
    KeyError string
  | IndexError
  | TypeError
  | ValueError
  | NameError string
  | AttributeError string
  | IOError
  | OSError int
  | OperationalError string
  | ServiceError string
  | TimeoutError
  | RoleSyntaxError string
  | PlainError string
  | ImportError string
  | SystemExit int
  | HTTPException
  | InvalidUriError
  | TransferError disposition
  | AssertionError
  | StillRunning

text \<open>
  \<open>StillRunning\<close> is no exception of the program: it is the outcome of a loop that has used up
  the number of rounds a run of the model allows it. No handler of the code is modelled as
  catching it; a claim that a loop ends says that the outcome is another one.
\<close>

text \<open>
  The subclasses of Python 2's \<open>StandardError\<close>. \<open>ServiceError\<close> stands for boto's
  \<open>BotoServerError\<close> and its subclass \<open>EC2ResponseError\<close>, which derive from it.
\<close>

fun is_standard_error :: "py_exc \<Rightarrow> bool" where
  "is_standard_error TimeoutError = False"
| "is_standard_error (RoleSyntaxError _) = False"
| "is_standard_error (PlainError _) = False"
| "is_standard_error (SystemExit _) = False"
| "is_standard_error HTTPException = False"
| "is_standard_error InvalidUriError = False"
| "is_standard_error (TransferError _) = False"
| "is_standard_error StillRunning = False"
| "is_standard_error _ = True"


section \<open>Stateful computations that may raise\<close>

type_synonym ('s, 'a) st = "'s \<Rightarrow> (py_exc + 'a) \<times> 's"

definition ret :: "'a \<Rightarrow> ('s, 'a) st" where
  "ret x s = (Inr x, s)"

definition raise :: "py_exc \<Rightarrow> ('s, 'a) st" where
  "raise e s = (Inl e, s)"

definition lift_sum :: "py_exc + 'a \<Rightarrow> ('s, 'a) st" where
  "lift_sum r s = (r, s)"

definition bnd :: "('s, 'a) st \<Rightarrow> ('a \<Rightarrow> ('s, 'b) st) \<Rightarrow> ('s, 'b) st" where
  "bnd m f s = (case m s of (Inl e, s') \<Rightarrow> (Inl e, s') | (Inr x, s') \<Rightarrow> f x s')"

definition andthen :: "('s, 'a) st \<Rightarrow> ('s, 'b) st \<Rightarrow> ('s, 'b) st" where
  "andthen m m' = bnd m (\<lambda>_. m')"

definition gets :: "('s \<Rightarrow> 'a) \<Rightarrow> ('s, 'a) st" where
  "gets f s = (Inr (f s), s)"

definition modify :: "('s \<Rightarrow> 's) \<Rightarrow> ('s, unit) st" where
  "modify f s = (Inr (), f s)"

text \<open>\<open>try: m except p: h\<close>: the handler runs from the state in which \<open>m\<close> raised.\<close>

definition try_except ::
  "('s, 'a) st \<Rightarrow> (py_exc \<Rightarrow> bool) \<Rightarrow> (py_exc \<Rightarrow> ('s, 'a) st) \<Rightarrow> ('s, 'a) st" where
  "try_except m p h s =
     (case m s of (Inl e, s') \<Rightarrow> if p e then h e s' else (Inl e, s') | (Inr x, s') \<Rightarrow> (Inr x, s'))"

primrec for_each :: "('a \<Rightarrow> ('s, unit) st) \<Rightarrow> 'a list \<Rightarrow> ('s, unit) st" where
  "for_each f [] = ret ()"
| "for_each f (x # xs) = andthen (f x) (for_each f xs)"

primrec map_st :: "('a \<Rightarrow> ('s, 'b) st) \<Rightarrow> 'a list \<Rightarrow> ('s, 'b list) st" where
  "map_st f [] = ret []"
| "map_st f (x # xs) = bnd (f x) (\<lambda>y. bnd (map_st f xs) (\<lambda>ys. ret (y # ys)))"

lemma ret_apply [st_simps]: "ret x s = (Inr x, s)"
  by (simp add: ret_def)

lemma raise_apply [st_simps]: "raise e s = (Inl e, s)"
  by (simp add: raise_def)

lemma lift_sum_apply [st_simps]: "lift_sum r s = (r, s)"
  by (simp add: lift_sum_def)

lemma gets_apply [simp, st_simps]: "gets f s = (Inr (f s), s)"
  by (simp add: gets_def)

lemma modify_apply [simp, st_simps]: "modify f s = (Inr (), f s)"
  by (simp add: modify_def)

lemmas st_defs = bnd_def andthen_def ret_def raise_def lift_sum_def try_except_def

lemma bnd_ret [simp]: "bnd (ret x) f = f x"
  by (simp add: fun_eq_iff bnd_def ret_def)

lemma bnd_raise [simp]: "bnd (raise e) f = raise e"
  by (simp add: fun_eq_iff bnd_def raise_def)

lemma bnd_lift [simp]:
  "bnd (lift_sum (Inr x)) f = f x"
  "bnd (lift_sum (Inl e)) f = raise e"
  by (simp_all add: fun_eq_iff bnd_def raise_def lift_sum_def)

lemma bnd_gets [simp]: "bnd (gets g) f s = f (g s) s"
  by (simp add: bnd_def)

lemma bnd_modify [simp]: "bnd (modify h) f s = f () (h s)"
  by (simp add: bnd_def)

lemma andthen_ret [simp]: "andthen (ret x) m = m"
  by (simp add: andthen_def)

lemma andthen_raise [simp]: "andthen (raise e) m = raise e"
  by (simp add: andthen_def)

lemma andthen_modify [simp]: "andthen (modify h) m s = m (h s)"
  by (simp add: andthen_def)

lemma bnd_assoc: "bnd (bnd m f) g = bnd m (\<lambda>x. bnd (f x) g)"
  by (auto simp: fun_eq_iff bnd_def split: prod.splits sum.splits)

lemma bnd_ret_right [simp]: "bnd m ret = m"
  by (auto simp: fun_eq_iff bnd_def ret_def split: prod.splits sum.splits)

lemma bnd_run [st_simps]:
  "m s = (Inr x, s') \<Longrightarrow> bnd m f s = f x s'"
  "m s = (Inl e, s') \<Longrightarrow> bnd m f s = (Inl e, s')"
  by (simp_all add: bnd_def)

lemma andthen_run [st_simps]:
  "m s = (Inr x, s') \<Longrightarrow> andthen m m' s = m' s'"
  "m s = (Inl e, s') \<Longrightarrow> andthen m m' s = (Inl e, s')"
  by (simp_all add: andthen_def bnd_def)

lemma bnd_InrE:
  assumes "bnd m f s = (Inr y, t)"
  obtains x s' where "m s = (Inr x, s')" and "f x s' = (Inr y, t)"
  using assms by (auto simp: bnd_def split: prod.splits sum.splits)

lemma andthen_InrE:
  assumes "andthen m m' s = (Inr y, t)"
  obtains x s' where "m s = (Inr x, s')" and "m' s' = (Inr y, t)"
  using assms by (auto simp: andthen_def bnd_def split: prod.splits sum.splits)

lemma for_each_append: "for_each f (xs @ ys) = andthen (for_each f xs) (for_each f ys)"
  by (induction xs) (auto simp: andthen_def bnd_assoc)

lemma for_each_modify: "for_each (\<lambda>x. modify (g x)) xs s = (Inr (), fold g xs s)"
  by (induction xs arbitrary: s) (auto simp: ret_def)


text \<open>
  \<open>while True\<close>: the body is repeated until it returns a value, raises, or the allowed number of
  rounds is used up.
\<close>

primrec loop_st :: "nat \<Rightarrow> ('s, 'a option) st \<Rightarrow> ('s, 'a) st" where
  "loop_st 0 body = raise StillRunning"
| "loop_st (Suc n) body = bnd body (\<lambda>r. case r of Some x \<Rightarrow> ret x | None \<Rightarrow> loop_st n body)"

text \<open>
  A loop ends within \<open>n\<close> rounds when every round that goes on lowers a measure that starts
  below \<open>n\<close>; more rounds than needed change nothing.
\<close>

lemma loop_st_ends:
  assumes step: "\<And>s s'. P s \<Longrightarrow> body s = (Inr None, s') \<Longrightarrow> P s' \<and> \<mu> s' < (\<mu> s :: nat)"
    and body: "\<And>s. P s \<Longrightarrow> fst (body s) \<noteq> Inl StillRunning"
    and start: "P s" "\<mu> s < n"
  shows "fst (loop_st n body s) \<noteq> Inl StillRunning"
  using start
proof (induction n arbitrary: s)
  case (Suc n)
  obtain r s' where run: "body s = (r, s')" by fastforce
  show ?case
  proof (cases "r = Inr None")
    case True
    with step [OF Suc.prems(1)] run have "P s'" "\<mu> s' < \<mu> s" by auto
    then have "fst (loop_st n body s') \<noteq> Inl StillRunning" using Suc.IH Suc.prems(2) by simp
    with run True show ?thesis by (simp add: bnd_def)
  next
    case False
    with run body [OF Suc.prems(1)] show ?thesis
      by (auto simp: bnd_def ret_def split: sum.splits option.splits)
  qed
qed simp

lemma loop_st_more:
  assumes "fst (loop_st n body s) \<noteq> Inl StillRunning" and "n \<le> m"
  shows "loop_st m body s = loop_st n body s"
  using assms
proof (induction n arbitrary: m s)
  case 0
  then show ?case by (simp add: raise_def)
next
  case (Suc n)
  then obtain k where m: "m = Suc k" "n \<le> k" by (metis Suc_le_D Suc_le_mono)
  obtain r s' where run: "body s = (r, s')" by fastforce
  show ?case
  proof (cases "r = Inr None")
    case True
    with Suc.prems(1) run have "fst (loop_st n body s') \<noteq> Inl StillRunning" by (simp add: bnd_def)
    with Suc.IH m(2) have "loop_st k body s' = loop_st n body s'" by blast
    with run True m show ?thesis by (simp add: bnd_def)
  next
    case False
    with run m show ?thesis by (auto simp: bnd_def split: sum.splits option.splits)
  qed
qed

text \<open>A loop that ends does so in a round that starts from a state with the invariant.\<close>

lemma loop_st_last_round:
  assumes "P s" and "\<And>s s'. P s \<Longrightarrow> body s = (Inr None, s') \<Longrightarrow> P s'"
    and "loop_st n body s = (r, t)" and "r \<noteq> Inl StillRunning"
  shows "\<exists>s1. P s1 \<and> (case r of Inl e \<Rightarrow> body s1 = (Inl e, t) | Inr x \<Rightarrow> body s1 = (Inr (Some x), t))"
  using assms(1,3)
proof (induction n arbitrary: s)
  case 0
  with assms(4) show ?case by (auto simp: raise_def)
next
  case (Suc n)
  obtain r1 s1 where run: "body s = (r1, s1)" by fastforce
  show ?case
  proof (cases "r1 = Inr None")
    case True
    with run Suc.prems(2) have "loop_st n body s1 = (r, t)" by (simp add: bnd_def)
    with Suc.IH assms(2) [OF Suc.prems(1)] run True show ?thesis by blast
  next
    case False
    with run Suc.prems show ?thesis
      by (intro exI [of _ s]) (auto simp: bnd_def ret_def split: sum.splits option.splits)
  qed
qed


subsection \<open>Hoare triples\<close>

text \<open>
  \<open>hoare P m Q\<close>: started in a state that satisfies \<open>P\<close>, the computation ends with an
  outcome (an exception or a value) and a state that satisfy \<open>Q\<close>. Computations are total
  functions, so the triple is total correctness.
\<close>

definition hoare ::
  "('s \<Rightarrow> bool) \<Rightarrow> ('s, 'a) st \<Rightarrow> (py_exc + 'a \<Rightarrow> 's \<Rightarrow> bool) \<Rightarrow> bool" where
  "hoare P m Q \<longleftrightarrow> (\<forall>s. P s \<longrightarrow> Q (fst (m s)) (snd (m s)))"

lemma hoareI: "(\<And>s r t. P s \<Longrightarrow> m s = (r, t) \<Longrightarrow> Q r t) \<Longrightarrow> hoare P m Q"
  unfolding hoare_def by (metis prod.collapse)

lemma hoareD: "hoare P m Q \<Longrightarrow> P s \<Longrightarrow> m s = (r, t) \<Longrightarrow> Q r t"
  by (auto simp: hoare_def)

lemma hoare_conseq:
  "hoare P m Q \<Longrightarrow> (\<And>s. P' s \<Longrightarrow> P s) \<Longrightarrow> (\<And>r s. Q r s \<Longrightarrow> Q' r s) \<Longrightarrow> hoare P' m Q'"
  by (auto simp: hoare_def)

text \<open>An invariant is kept on every path, exceptions included.\<close>

definition keeps :: "('s \<Rightarrow> bool) \<Rightarrow> ('s, 'a) st \<Rightarrow> bool" where
  "keeps I m \<longleftrightarrow> hoare I m (\<lambda>_. I)"

lemma keepsI: "(\<And>s r t. I s \<Longrightarrow> m s = (r, t) \<Longrightarrow> I t) \<Longrightarrow> keeps I m"
  unfolding keeps_def by (rule hoareI)

lemma keepsD: "keeps I m \<Longrightarrow> I s \<Longrightarrow> m s = (r, t) \<Longrightarrow> I t"
  unfolding keeps_def by (rule hoareD)

lemma keeps_basic [hoare_rules]:
  "keeps I (ret x)" "keeps I (raise e)" "keeps I (lift_sum r)" "keeps I (gets f)"
  by (simp_all add: keeps_def hoare_def ret_def raise_def lift_sum_def)

lemma keeps_modify [hoare_rules]: "(\<And>s. I s \<Longrightarrow> I (f s)) \<Longrightarrow> keeps I (modify f)"
  by (simp add: keeps_def hoare_def)

lemma keeps_bnd [hoare_rules]: "keeps I m \<Longrightarrow> (\<And>x. keeps I (f x)) \<Longrightarrow> keeps I (bnd m f)"
  by (fastforce simp: keeps_def hoare_def bnd_def split: prod.splits sum.splits)

lemma keeps_andthen [hoare_rules]: "keeps I m \<Longrightarrow> keeps I m' \<Longrightarrow> keeps I (andthen m m')"
  by (simp add: andthen_def keeps_bnd)

lemma keeps_try_except [hoare_rules]:
  "keeps I m \<Longrightarrow> (\<And>e. p e \<Longrightarrow> keeps I (h e)) \<Longrightarrow> keeps I (try_except m p h)"
  by (fastforce simp: keeps_def hoare_def try_except_def split: prod.splits sum.splits)

lemma keeps_if [hoare_rules]:
  "(b \<Longrightarrow> keeps I m) \<Longrightarrow> (\<not> b \<Longrightarrow> keeps I m') \<Longrightarrow> keeps I (if b then m else m')"
  by simp

lemma keeps_for_each [hoare_rules]:
  "(\<And>x. x \<in> set xs \<Longrightarrow> keeps I (f x)) \<Longrightarrow> keeps I (for_each f xs)"
  by (induction xs) (auto intro: keeps_basic keeps_andthen)

lemma keeps_map_st [hoare_rules]:
  "(\<And>x. x \<in> set xs \<Longrightarrow> keeps I (f x)) \<Longrightarrow> keeps I (map_st f xs)"
  by (induction xs) (auto intro!: keeps_basic keeps_bnd)

lemma keeps_loop_st [hoare_rules]: "keeps I body \<Longrightarrow> keeps I (loop_st n body)"
proof (induction n)
  case (Suc n)
  then have "keeps I (case r of Some x \<Rightarrow> ret x | None \<Rightarrow> loop_st n body)" for r
    by (cases r) (auto intro: keeps_basic)
  with Suc.prems show ?case by (auto intro: keeps_bnd)
qed (auto intro: keeps_basic)

lemma keeps_case_option [hoare_rules]:
  "(x = None \<Longrightarrow> keeps I m) \<Longrightarrow> (\<And>y. x = Some y \<Longrightarrow> keeps I (f y)) \<Longrightarrow>
   keeps I (case x of None \<Rightarrow> m | Some y \<Rightarrow> f y)"
  by (cases x) auto

lemma keeps_case_sum [hoare_rules]:
  "(\<And>e. x = Inl e \<Longrightarrow> keeps I (f e)) \<Longrightarrow> (\<And>y. x = Inr y \<Longrightarrow> keeps I (g y)) \<Longrightarrow>
   keeps I (case x of Inl e \<Rightarrow> f e | Inr y \<Rightarrow> g y)"
  by (cases x) auto

lemma keeps_case_list [hoare_rules]:
  "(x = [] \<Longrightarrow> keeps I m) \<Longrightarrow> (\<And>y ys. x = y # ys \<Longrightarrow> keeps I (f y ys)) \<Longrightarrow>
   keeps I (case x of [] \<Rightarrow> m | y # ys \<Rightarrow> f y ys)"
  by (cases x) auto

lemma keeps_let [hoare_rules]: "(\<And>y. y = x \<Longrightarrow> keeps I (f y)) \<Longrightarrow> keeps I (Let x f)"
  by simp


section \<open>Dictionaries\<close>

text \<open>
  A Python dict is an association list with distinct keys. The order of the list stands for
  the dict's iteration order, which the language leaves open: a theorem about code that
  iterates over a dict it was given holds for every order. \<open>AList.update\<close> overwrites in
  place or adds at the end, \<open>AList.delete\<close> is \<open>del d[k]\<close> on a present key.
\<close>

type_synonym ('k, 'v) dict = "('k \<times> 'v) list"

abbreviation dget :: "('k, 'v) dict \<Rightarrow> 'k \<Rightarrow> 'v option" where
  "dget \<equiv> map_of"

abbreviation dset :: "'k \<Rightarrow> 'v \<Rightarrow> ('k, 'v) dict \<Rightarrow> ('k, 'v) dict" where
  "dset \<equiv> AList.update"

abbreviation ddel :: "'k \<Rightarrow> ('k, 'v) dict \<Rightarrow> ('k, 'v) dict" where
  "ddel \<equiv> AList.delete"

definition dict_ok :: "('k, 'v) dict \<Rightarrow> bool" where
  "dict_ok d \<longleftrightarrow> distinct (map fst d)"

lemma dget_dset: "dget (dset k v d) k' = (if k' = k then Some v else dget d k')"
  by (simp add: update_conv')

lemma dget_ddel: "dget (ddel k d) k' = (if k' = k then None else dget d k')"
  by (simp add: delete_conv')

lemma dict_ok_Nil [simp]: "dict_ok []"
  by (simp add: dict_ok_def)

lemma dict_ok_dset [simp]: "dict_ok d \<Longrightarrow> dict_ok (dset k v d)"
  by (simp add: dict_ok_def distinct_update)

lemma dict_ok_ddel [simp]: "dict_ok d \<Longrightarrow> dict_ok (ddel k d)"
  by (simp add: dict_ok_def distinct_delete)

text \<open>\<open>d[k]\<close> for string keys.\<close>

definition dlookup :: "(string, 'v) dict \<Rightarrow> string \<Rightarrow> py_exc + 'v" where
  "dlookup d k = (case dget d k of None \<Rightarrow> Inl (KeyError k) | Some v \<Rightarrow> Inr v)"

lemma dlookup_Inr_iff [simp]: "dlookup d k = Inr v \<longleftrightarrow> dget d k = Some v"
  by (simp add: dlookup_def split: option.splits)

lemma dlookup_Inl_iff [simp]: "dlookup d k = Inl e \<longleftrightarrow> dget d k = None \<and> e = KeyError k"
  by (auto simp: dlookup_def split: option.splits)


section \<open>Dynamically typed values\<close>

text \<open>
  The values that reach the code from decoded JSON or from the option parser. Floats are
  exact rationals: rounding of binary floating point is not modelled.
\<close>

datatype pyval =
    PNone
  | PBool bool
  | PInt int
  | PFloat rat
  | PStr string
  | PList "pyval list"
  | PDict "(string \<times> pyval) list"

type_synonym pydict = "(string, pyval) dict"

fun py_truth :: "pyval \<Rightarrow> bool" where
  "py_truth PNone = False"
| "py_truth (PBool b) = b"
| "py_truth (PInt i) = (i \<noteq> 0)"
| "py_truth (PFloat q) = (q \<noteq> 0)"
| "py_truth (PStr s) = (s \<noteq> [])"
| "py_truth (PList xs) = (xs \<noteq> [])"
| "py_truth (PDict d) = (d \<noteq> [])"

text \<open>\<open>d.get(k)\<close>: a missing key gives \<open>None\<close>.\<close>

definition pget :: "pydict \<Rightarrow> string \<Rightarrow> pyval" where
  "pget d k = (case dget d k of None \<Rightarrow> PNone | Some v \<Rightarrow> v)"

definition opt_str :: "string option \<Rightarrow> pyval" where
  "opt_str s = (case s of None \<Rightarrow> PNone | Some x \<Rightarrow> PStr x)"

text \<open>
  Numbers: \<open>as_num\<close> reads the values that take part in arithmetic (booleans count as 0
  and 1). A product with a string or a list repeats it, which is why \<open>py_mul\<close> does not fail
  on every non-number; only an integer repeats.
\<close>

fun as_num :: "pyval \<Rightarrow> rat option" where
  "as_num (PBool b) = Some (if b then 1 else 0)"
| "as_num (PInt i) = Some (of_int i)"
| "as_num (PFloat q) = Some q"
| "as_num _ = None"

fun as_index :: "pyval \<Rightarrow> int option" where
  "as_index (PBool b) = Some (if b then 1 else 0)"
| "as_index (PInt i) = Some i"
| "as_index _ = None"

definition repeat_list :: "int \<Rightarrow> 'a list \<Rightarrow> 'a list" where
  "repeat_list n xs = concat (replicate (nat n) xs)"

definition num_val :: "pyval \<Rightarrow> pyval \<Rightarrow> rat \<Rightarrow> pyval" where
  "num_val a b q =
     (case (as_index a, as_index b) of (Some _, Some _) \<Rightarrow> PInt \<lfloor>q\<rfloor> | _ \<Rightarrow> PFloat q)"

definition py_mul :: "pyval \<Rightarrow> pyval \<Rightarrow> py_exc + pyval" where
  "py_mul a b =
     (case (as_num a, as_num b) of
        (Some x, Some y) \<Rightarrow> Inr (num_val a b (x * y))
      | _ \<Rightarrow>
         (case (as_index a, b) of
            (Some n, PStr s) \<Rightarrow> Inr (PStr (repeat_list n s))
          | (Some n, PList xs) \<Rightarrow> Inr (PList (repeat_list n xs))
          | _ \<Rightarrow>
             (case (a, as_index b) of
                (PStr s, Some n) \<Rightarrow> Inr (PStr (repeat_list n s))
              | (PList xs, Some n) \<Rightarrow> Inr (PList (repeat_list n xs))
              | _ \<Rightarrow> Inl TypeError)))"

definition py_add :: "pyval \<Rightarrow> pyval \<Rightarrow> py_exc + pyval" where
  "py_add a b =
     (case (as_num a, as_num b) of
        (Some x, Some y) \<Rightarrow> Inr (num_val a b (x + y))
      | _ \<Rightarrow>
         (case (a, b) of
            (PStr s, PStr t) \<Rightarrow> Inr (PStr (s @ t))
          | (PList xs, PList ys) \<Rightarrow> Inr (PList (xs @ ys))
          | _ \<Rightarrow> Inl TypeError))"

lemma as_num_num_val: "as_num (num_val a b q) =
   (case (as_index a, as_index b) of (Some _, Some _) \<Rightarrow> Some (of_int \<lfloor>q\<rfloor>) | _ \<Rightarrow> Some q)"
  by (simp add: num_val_def split: option.splits)

lemma as_index_num: "as_index a = Some n \<Longrightarrow> as_num a = Some (of_int n)"
  by (cases a) auto

lemma as_num_py_mul:
  assumes "as_num a = Some x" and "as_num b = Some y" and "py_mul a b = Inr c"
  shows "as_num c = Some (x * y)"
  using assms by (auto simp: py_mul_def as_num_num_val dest!: as_index_num split: option.splits
      simp flip: of_int_mult)

lemma as_num_py_add:
  assumes "as_num a = Some x" and "as_num b = Some y" and "py_add a b = Inr c"
  shows "as_num c = Some (x + y)"
  using assms by (auto simp: py_add_def as_num_num_val dest!: as_index_num split: option.splits
      simp flip: of_int_add)

lemma py_mul_num_total: "as_num a = Some x \<Longrightarrow> as_num b = Some y \<Longrightarrow> \<exists>c. py_mul a b = Inr c"
  by (simp add: py_mul_def)

lemma py_add_num_total: "as_num a = Some x \<Longrightarrow> as_num b = Some y \<Longrightarrow> \<exists>c. py_add a b = Inr c"
  by (simp add: py_add_def)

end
