(* ===== verification/PyString.thy ===== *)
theory PyString
  imports Prelude
begin

text \<open>
  The string operations of Python 2 that the code uses, on byte strings (\<open>string\<close> is a list
  of 8-bit characters, as \<open>str\<close> is in Python 2), and their laws. The laws that proofs about
  several components share are in the collection \<open>str_laws\<close>.
\<close>

named_theorems str_laws \<open>laws of the Python string operations\<close>

abbreviation nl :: char where "nl \<equiv> CHR 0x0A"
abbreviation squote :: char where "squote \<equiv> CHR 0x27"


section \<open>Prefixes and suffixes\<close>

definition py_startswith :: "string \<Rightarrow> string \<Rightarrow> bool" where
  "py_startswith s p \<longleftrightarrow> take (length p) s = p"

definition py_endswith :: "string \<Rightarrow> string \<Rightarrow> bool" where
  "py_endswith s p \<longleftrightarrow> length p \<le> length s \<and> drop (length s - length p) s = p"

lemma py_startswith_iff: "py_startswith s p \<longleftrightarrow> (\<exists>r. s = p @ r)"
  unfolding py_startswith_def by (metis append_eq_conv_conj append_take_drop_id)

lemma py_startswith_append [simp]: "py_startswith (p @ r) p"
  by (simp add: py_startswith_def)

lemma py_startswith_refl [simp]: "py_startswith p p"
  by (simp add: py_startswith_def)

lemma py_startswith_trans: "py_startswith s p \<Longrightarrow> py_startswith p q \<Longrightarrow> py_startswith s q"
  by (auto simp: py_startswith_iff)

lemma py_startswith_drop: "py_startswith s p \<Longrightarrow> s = p @ drop (length p) s"
  by (auto simp: py_startswith_iff)

lemma py_endswith_iff: "py_endswith s p \<longleftrightarrow> (\<exists>r. s = r @ p)"
proof
  assume "py_endswith s p"
  then have "s = take (length s - length p) s @ p"
    by (auto simp: py_endswith_def) (metis append_take_drop_id)
  then show "\<exists>r. s = r @ p" ..
next
  assume "\<exists>r. s = r @ p"
  then show "py_endswith s p" by (auto simp: py_endswith_def)
qed

lemma py_endswith_append [simp]: "py_endswith (r @ p) p"
  by (auto simp: py_endswith_iff)


section \<open>Splitting and joining\<close>

text \<open>\<open>s.split(c)\<close> for a one-character separator, and \<open>sep.join(xs)\<close>.\<close>

fun py_split :: "char \<Rightarrow> string \<Rightarrow> string list" where
  "py_split c [] = [[]]"
| "py_split c (x # xs) =
     (if x = c then [] # py_split c xs
      else (case py_split c xs of [] \<Rightarrow> [[x]] | y # ys \<Rightarrow> (x # y) # ys))"

fun py_join :: "string \<Rightarrow> string list \<Rightarrow> string" where
  "py_join sep [] = []"
| "py_join sep [x] = x"
| "py_join sep (x # y # zs) = x @ sep @ py_join sep (y # zs)"

lemma py_split_not_Nil [simp]: "py_split c s \<noteq> []"
  by (induction s) (auto split: list.splits)

lemma py_join_Cons: "xs \<noteq> [] \<Longrightarrow> py_join sep (x # xs) = x @ sep @ py_join sep xs"
  by (cases xs) auto

lemma py_split_free: "c \<notin> set s \<Longrightarrow> py_split c s = [s]"
  by (induction s) auto

lemma py_split_append: "c \<notin> set a \<Longrightarrow> py_split c (a @ c # b) = a # py_split c b"
  by (induction a) auto

lemma py_join_split [str_laws]: "py_join [c] (py_split c s) = s"
proof (induction s)
  case (Cons x xs)
  then show ?case
    by (cases "py_split c xs"; cases "tl (py_split c xs)") (auto split: list.splits)
qed simp

lemma py_split_join [str_laws]:
  "xs \<noteq> [] \<Longrightarrow> \<forall>x \<in> set xs. c \<notin> set x \<Longrightarrow> py_split c (py_join [c] xs) = xs"
proof (induction xs)
  case (Cons x xs)
  then show ?case
    by (cases "xs = []") (auto simp: py_split_free py_split_append py_join_Cons)
qed simp

lemma py_split_parts_free: "p \<in> set (py_split c s) \<Longrightarrow> c \<notin> set p"
  by (induction s arbitrary: p) (auto split: list.splits if_splits)

lemma py_split_parts_subset: "p \<in> set (py_split c s) \<Longrightarrow> set p \<subseteq> set s"
  by (induction s arbitrary: p) (auto split: list.splits if_splits, blast)

text \<open>\<open>s.find(c)\<close>: the index of the first occurrence, or -1.\<close>

fun py_find :: "char \<Rightarrow> string \<Rightarrow> int" where
  "py_find c [] = -1"
| "py_find c (x # xs) =
     (if x = c then 0 else (let i = py_find c xs in if i = -1 then -1 else i + 1))"

lemma py_find_ge: "-1 \<le> py_find c s"
  by (induction s) (auto simp: Let_def)

lemma py_find_none [simp]: "py_find c s = -1 \<longleftrightarrow> c \<notin> set s"
proof (induction s)
  case (Cons x xs)
  then show ?case using py_find_ge [of c xs] by (auto simp: Let_def)
qed simp

text \<open>\<open>s.split(c, 1)\<close>: split at the first separator only.\<close>

fun py_split1 :: "char \<Rightarrow> string \<Rightarrow> string list" where
  "py_split1 c [] = [[]]"
| "py_split1 c (x # xs) =
     (if x = c then [[], xs]
      else (case py_split1 c xs of [] \<Rightarrow> [[x]] | y # ys \<Rightarrow> (x # y) # ys))"

lemma py_split1_free: "c \<notin> set s \<Longrightarrow> py_split1 c s = [s]"
  by (induction s) auto

lemma py_split1_append: "c \<notin> set a \<Longrightarrow> py_split1 c (a @ c # b) = [a, b]"
  by (induction a) auto


section \<open>Replacement\<close>

text \<open>
  \<open>s.replace(old, new)\<close>: left to right, occurrences do not overlap; an empty \<open>old\<close>
  matches before every character and at the end.
\<close>

function py_replace :: "string \<Rightarrow> string \<Rightarrow> string \<Rightarrow> string" where
  "py_replace old new s =
     (if old = [] then new @ concat (map (\<lambda>x. x # new) s)
      else if s = [] then []
      else if py_startswith s old then new @ py_replace old new (drop (length old) s)
      else hd s # py_replace old new (tl s))"
  by pat_completeness auto
termination
  by (relation "measure (\<lambda>(old, new, s). length s)") auto

declare py_replace.simps [simp del]

lemma py_replace_Nil [simp]: "old \<noteq> [] \<Longrightarrow> py_replace old new [] = []"
  by (simp add: py_replace.simps)

lemma py_replace_char:
  "py_replace [c] new s = concat (map (\<lambda>x. if x = c then new else [x]) s)"
proof (induction s)
  case (Cons x s)
  then show ?case
    by (subst py_replace.simps) (auto simp: py_startswith_def)
qed simp

lemma py_replace_absent:
  assumes "old \<noteq> []" and "hd old \<notin> set s"
  shows "py_replace old new s = s"
  using assms(2)
proof (induction s)
  case Nil
  then show ?case using assms(1) by simp
next
  case (Cons x s)
  have "\<not> py_startswith (x # s) old"
    using assms(1) Cons.prems by (cases old) (auto simp: py_startswith_def)
  then show ?case
    using Cons assms(1) by (subst py_replace.simps) auto
qed


section \<open>Case and white space\<close>

definition lower_char :: "char \<Rightarrow> char" where
  "lower_char c = (if 65 \<le> (of_char c :: nat) \<and> (of_char c :: nat) \<le> 90
                   then char_of ((of_char c :: nat) + 32) else c)"

definition upper_char :: "char \<Rightarrow> char" where
  "upper_char c = (if 97 \<le> (of_char c :: nat) \<and> (of_char c :: nat) \<le> 122
                   then char_of ((of_char c :: nat) - 32) else c)"

definition py_lower :: "string \<Rightarrow> string" where
  "py_lower = map lower_char"

definition py_upper :: "string \<Rightarrow> string" where
  "py_upper = map upper_char"

definition is_space :: "char \<Rightarrow> bool" where
  "is_space c \<longleftrightarrow> c \<in> {CHR '' '', CHR 0x09, CHR 0x0A, CHR 0x0B, CHR 0x0C, CHR 0x0D}"

definition py_strip :: "string \<Rightarrow> string" where
  "py_strip s = rev (dropWhile is_space (rev (dropWhile is_space s)))"

lemma dropWhile_space_id: "s = [] \<or> \<not> is_space (hd s) \<Longrightarrow> dropWhile is_space s = s"
  by (cases s) auto

lemma py_strip_id:
  assumes "s = [] \<or> \<not> is_space (hd s) \<and> \<not> is_space (last s)"
  shows "py_strip s = s"
proof -
  have "dropWhile is_space s = s" "dropWhile is_space (rev s) = rev s"
    using assms by (auto intro!: dropWhile_space_id simp: hd_rev)
  then show ?thesis by (simp add: py_strip_def)
qed


section \<open>Decimal numbers\<close>

definition digit_char :: "nat \<Rightarrow> char" where
  "digit_char d = char_of (48 + d)"

fun nat_str :: "nat \<Rightarrow> string" where
  "nat_str n = (if n < 10 then [digit_char n] else nat_str (n div 10) @ [digit_char (n mod 10)])"

declare nat_str.simps [simp del]

definition int_str :: "int \<Rightarrow> string" where
  "int_str i = (if i < 0 then CHR ''-'' # nat_str (nat (- i)) else nat_str (nat i))"

definition is_digit :: "char \<Rightarrow> bool" where
  "is_digit c \<longleftrightarrow> 48 \<le> (of_char c :: nat) \<and> (of_char c :: nat) \<le> 57"

definition digits_val :: "string \<Rightarrow> nat" where
  "digits_val s = foldl (\<lambda>n c. n * 10 + (of_char c - 48)) 0 s"

text \<open>\<open>int(s)\<close> on plain decimal numerals with an optional sign and surrounding white space.\<close>

definition py_int :: "string \<Rightarrow> py_exc + int" where
  "py_int s0 =
     (let s = py_strip s0;
          neg = (s \<noteq> [] \<and> hd s = CHR ''-'');
          ds = (if s \<noteq> [] \<and> (hd s = CHR ''-'' \<or> hd s = CHR ''+'') then tl s else s)
      in if ds = [] \<or> \<not> list_all is_digit ds then Inl ValueError
         else Inr (if neg then - int (digits_val ds) else int (digits_val ds)))"

lemma of_char_digit: "d < 10 \<Longrightarrow> (of_char (digit_char d) :: nat) = 48 + d"
  by (simp add: digit_char_def)

lemma is_digit_digit_char: "d < 10 \<Longrightarrow> is_digit (digit_char d)"
  by (simp add: is_digit_def of_char_digit)

lemma nat_str_not_Nil [simp]: "nat_str n \<noteq> []"
  by (subst nat_str.simps) simp

lemma nat_str_digits: "list_all is_digit (nat_str n)"
proof (induction n rule: nat_str.induct)
  case (1 n)
  then show ?case by (subst nat_str.simps) (auto simp: is_digit_digit_char)
qed

lemma digits_val_snoc: "digits_val (s @ [c]) = digits_val s * 10 + (of_char c - 48)"
  by (simp add: digits_val_def)

lemma digits_val_nat_str [simp]: "digits_val (nat_str n) = n"
proof (induction n rule: nat_str.induct)
  case (1 n)
  show ?case
  proof (cases "n < 10")
    case True
    then show ?thesis by (subst nat_str.simps) (simp add: digits_val_def of_char_digit)
  next
    case False
    then show ?thesis
      using 1 by (subst nat_str.simps) (simp add: digits_val_snoc of_char_digit)
  qed
qed

lemma nat_str_inj [simp]: "nat_str m = nat_str n \<longleftrightarrow> m = n"
  by (metis digits_val_nat_str)

lemma not_digit_not_in_nat_str: "\<not> is_digit c \<Longrightarrow> c \<notin> set (nat_str n)"
  using nat_str_digits [of n] by (auto simp: list_all_iff)

lemma py_int_digits:
  assumes "ds \<noteq> []" and "list_all is_digit ds"
  shows "py_int ds = Inr (int (digits_val ds))" and "py_int (CHR ''-'' # ds) = Inr (- int (digits_val ds))"
proof -
  have no_space: "\<not> is_space c" if "is_digit c" for c using that by (auto simp: is_digit_def is_space_def)
  have no_sign: "c \<noteq> CHR ''-'' \<and> c \<noteq> CHR ''+''" if "is_digit c" for c using that by (auto simp: is_digit_def)
  have hd: "is_digit (hd ds)" and last: "is_digit (last ds)" using assms by (auto simp: list_all_iff)
  have "py_strip ds = ds" using assms(1) hd last no_space by (intro py_strip_id) auto
  then show "py_int ds = Inr (int (digits_val ds))" using assms no_sign [OF hd] by (simp add: py_int_def)
  have "py_strip (CHR ''-'' # ds) = CHR ''-'' # ds" using assms(1) last no_space by (intro py_strip_id) (auto simp: is_space_def)
  then show "py_int (CHR ''-'' # ds) = Inr (- int (digits_val ds))" using assms by (simp add: py_int_def)
qed

lemma py_int_int_str [simp]: "py_int (int_str i) = Inr i"
  by (simp add: int_str_def py_int_digits nat_str_digits)

end
