(* ===== verification/World.thy ===== *)
theory World
  imports PyString
begin

text \<open>
  The environment of the program: the objects that the cloud services hand back, the calls
  that the program makes on them and on the operating system, and the answers.

  Nothing is assumed of a service. The state of the outside world is the list of the calls
  made so far (\<open>trail\<close>), and an environment \<open>env\<close> answers a call as any function of that
  list, the call itself included at its end: the same call made twice can be answered
  differently, fail, or depend on everything that was done before. A claim that needs some
  documented behaviour of a service says so as a hypothesis on \<open>env\<close>.
\<close>

named_theorems call_rules \<open>which calls a computation can make\<close>


section \<open>Objects\<close>

text \<open>
  Attributes of boto's \<open>Instance\<close>, \<open>Reservation\<close>, \<open>SpotInstanceRequest\<close>, \<open>Volume\<close>
  and \<open>KeyPair\<close> that the code reads. \<open>None\<close> is an attribute that the reply did not carry.
\<close>

record ec2_instance =
  i_id :: string
  i_image_id :: string
  i_dns_name :: string
  i_private_dns_name :: string
  i_state :: string
  i_key_name :: "string option"
  i_type :: string
  i_launch_time :: string
  i_placement :: string
  i_spot_id :: "string option"

record reservation =
  r_groups :: "string list"
  r_instances :: "ec2_instance list"

record spot_request =
  s_id :: string
  s_state :: string
  s_key_name :: "string option"
  s_type :: string
  s_create_time :: string
  s_groups :: "string list"

record volume =
  v_id :: string
  v_status :: string
  v_attached_to :: "string option"

record keypair =
  kp_material :: string
  kp_fingerprint :: string

text \<open>The keyword arguments of \<open>run_instances\<close> and \<open>request_spot_instances\<close>.\<close>

record run_request =
  rq_image_id :: pyval
  rq_min_count :: pyval
  rq_max_count :: pyval
  rq_key_name :: pyval
  rq_security_groups :: pyval
  rq_user_data :: pyval
  rq_instance_type :: pyval
  rq_placement :: pyval

record spot_order =
  so_price :: pyval
  so_image_id :: pyval
  so_count :: pyval
  so_key_name :: pyval
  so_security_groups :: pyval
  so_user_data :: pyval
  so_instance_type :: pyval
  so_placement :: pyval


section \<open>Calls\<close>

text \<open>Calls to IAM, to the operating system and the local machine, and to EC2.\<close>

datatype (plugins only: code size) iam_call =
    IamGetUser string
  | IamListPolicies string
  | IamDeletePolicy string string
  | IamListGroups string
  | IamRemoveFromGroup string string
  | IamListCerts string
  | IamDeleteCert string string
  | IamListAccessKeys string
  | IamCreateUser string
  | IamAddUserToGroup string string
  | IamPutUserPolicy string string string
  | IamCreateLoginProfile string string
  | IamCreateAccessKey string
  | IamDeleteAccessKey string string
  | IamListUsers

datatype (plugins only: code size) os_call =
    AuditLog string
  | NowText
  | ReadClock
  | Sleep nat
  | Shell string
  | Popen string
  | UrlOpen string nat
  | ReadUrlFile string
  | HostByName string
  | Prompt string
  | Print string
  | WriteFile string string
  | RemoveFile string
  | OpenForWriting nat string bool
  | MakeDir nat string
  | MakeDirs string
  | EC2Runner pydict

datatype (plugins only: code size) call =
    Iam iam_call
  | Os os_call
  | GetAllInstances "string list option" "(string \<times> string) list option"
  | RunInstances run_request
  | RequestSpot spot_order
  | GetAllSpotRequests "string list option" "(string \<times> string) list option"
  | CancelSpot string
  | TerminateInstances "string list"
  | UpdateInstance string
  | GetAllSecurityGroups
  | CreateSecurityGroup string string
  | AuthorizeSourceGroup string string
  | AuthorizeCidr string string int int string
  | RevokeCidr string string int int string
  | DeleteSecurityGroup string
  | GetAllVolumes "string list"
  | CreateVolume pyval pyval pyval
  | AttachVolume string string string
  | DetachVolume string string
  | DeleteVolume string
  | CreateSnapshot string
  | CreateKeyPair string
  | GetKeyPair string


section \<open>Environments\<close>

record env =
  ans_instances :: "call list \<Rightarrow> py_exc + reservation list"
  ans_reservation :: "call list \<Rightarrow> py_exc + reservation"
  ans_spots :: "call list \<Rightarrow> py_exc + spot_request list"
  ans_groups :: "call list \<Rightarrow> py_exc + string list"
  ans_volumes :: "call list \<Rightarrow> py_exc + volume list"
  ans_volume :: "call list \<Rightarrow> py_exc + volume"
  ans_keypair :: "call list \<Rightarrow> py_exc + keypair"
  ans_access_key :: "call list \<Rightarrow> py_exc + string \<times> string"
  ans_unit :: "call list \<Rightarrow> py_exc + unit"
  ans_text :: "call list \<Rightarrow> py_exc + string"
  ans_texts :: "call list \<Rightarrow> py_exc + string list"
  ans_clock :: "call list \<Rightarrow> rat"

text \<open>The environment in which every call fails; the witnesses of the claims override its answers.\<close>

definition env0 :: env where
  "env0 = \<lparr>ans_instances = (\<lambda>_. Inl (ServiceError [])), ans_reservation = (\<lambda>_. Inl (ServiceError [])),
     ans_spots = (\<lambda>_. Inl (ServiceError [])), ans_groups = (\<lambda>_. Inl (ServiceError [])),
     ans_volumes = (\<lambda>_. Inl (ServiceError [])), ans_volume = (\<lambda>_. Inl (ServiceError [])),
     ans_keypair = (\<lambda>_. Inl (ServiceError [])), ans_access_key = (\<lambda>_. Inl (ServiceError [])),
     ans_unit = (\<lambda>_. Inl (ServiceError [])), ans_text = (\<lambda>_. Inl (ServiceError [])),
     ans_texts = (\<lambda>_. Inl (ServiceError [])), ans_clock = (\<lambda>_. 0)\<rparr>"

text \<open>Components extend this record with the state they keep themselves.\<close>

record world =
  trail :: "call list"

definition world0 :: world where
  "world0 = \<lparr>trail = []\<rparr>"

definition perform :: "(call list \<Rightarrow> py_exc + 'r) \<Rightarrow> call \<Rightarrow> ('w world_scheme, 'r) st" where
  "perform ans c w = (ans (trail w @ [c]), w\<lparr>trail := trail w @ [c]\<rparr>)"

definition do_call :: "env \<Rightarrow> call \<Rightarrow> ('w world_scheme, unit) st" where
  "do_call E c = perform (ans_unit E) c"

definition clock :: "env \<Rightarrow> ('w world_scheme, rat) st" where
  "clock E = perform (\<lambda>h. Inr (ans_clock E h)) (Os ReadClock)"

definition sleep :: "nat \<Rightarrow> ('w world_scheme, unit) st" where
  "sleep n = perform (\<lambda>_. Inr ()) (Os (Sleep n))"

text \<open>
  What a loop with a deadline relies on: a clock reading is at least as late as an earlier one
  plus the seconds slept in between.
\<close>

fun seconds :: "call \<Rightarrow> nat" where
  "seconds (Os (Sleep n)) = n"
| "seconds _ = 0"

definition slept :: "call list \<Rightarrow> rat" where
  "slept cs = of_nat (sum_list (map seconds cs))"

definition clock_runs :: "env \<Rightarrow> bool" where
  "clock_runs E \<longleftrightarrow> (\<forall>h cs. ans_clock E (h @ [Os ReadClock]) + slept cs
     \<le> ans_clock E (h @ [Os ReadClock] @ cs @ [Os ReadClock]))"

lemma slept_simps [simp]: "slept [] = 0" "slept (c # cs) = of_nat (seconds c) + slept cs"
  "slept (cs @ ds) = slept cs + slept ds"
  by (simp_all add: slept_def)

lemma perform_run [st_simps]:
  "ans (trail w @ [c]) = r \<Longrightarrow> perform ans c w = (r, w\<lparr>trail := trail w @ [c]\<rparr>)"
  by (simp add: perform_def)

lemma do_call_run [st_simps]:
  "ans_unit E (trail w @ [c]) = r \<Longrightarrow> do_call E c w = (r, w\<lparr>trail := trail w @ [c]\<rparr>)"
  by (simp add: do_call_def perform_def)

lemma clock_run [st_simps]:
  "clock E w = (Inr (ans_clock E (trail w @ [Os ReadClock])), w\<lparr>trail := trail w @ [Os ReadClock]\<rparr>)"
  by (simp add: clock_def perform_def)


section \<open>Which calls are made\<close>

text \<open>
  \<open>only_calls P m\<close>: on every path, exceptions included, every call that \<open>m\<close> makes
  satisfies \<open>P\<close>; nothing made before is forgotten.
\<close>

definition only_calls :: "(call \<Rightarrow> bool) \<Rightarrow> ('w world_scheme, 'a) st \<Rightarrow> bool" where
  "only_calls P m \<longleftrightarrow> (\<forall>w. \<exists>cs. trail (snd (m w)) = trail w @ cs \<and> list_all P cs)"

lemma only_callsI:
  "(\<And>w r w'. m w = (r, w') \<Longrightarrow> \<exists>cs. trail w' = trail w @ cs \<and> list_all P cs) \<Longrightarrow> only_calls P m"
  unfolding only_calls_def by (metis prod.collapse)

lemma only_callsD:
  "only_calls P m \<Longrightarrow> m w = (r, w') \<Longrightarrow> \<exists>cs. trail w' = trail w @ cs \<and> list_all P cs"
  unfolding only_calls_def by (metis snd_conv)

lemma only_calls_mono: "only_calls P m \<Longrightarrow> (\<And>c. P c \<Longrightarrow> Q c) \<Longrightarrow> only_calls Q m"
  unfolding only_calls_def by (metis list.pred_mono_strong)

lemma only_calls_bnd [call_rules]:
  assumes m: "only_calls P m" and f: "\<And>x. only_calls P (f x)"
  shows "only_calls P (bnd m f)"
proof (rule only_callsI)
  fix w r w'
  assume run: "bnd m f w = (r, w')"
  obtain r1 w1 where 1: "m w = (r1, w1)" by fastforce
  then obtain cs1 where cs1: "trail w1 = trail w @ cs1" "list_all P cs1"
    using only_callsD [OF m] by blast
  show "\<exists>cs. trail w' = trail w @ cs \<and> list_all P cs"
  proof (cases r1)
    case (Inl e)
    with run 1 cs1 show ?thesis by (auto simp: bnd_def)
  next
    case (Inr x)
    with run 1 have "f x w1 = (r, w')" by (simp add: bnd_def)
    then obtain cs2 where "trail w' = trail w1 @ cs2" "list_all P cs2"
      using only_callsD [OF f] by blast
    with cs1 show ?thesis by (intro exI [of _ "cs1 @ cs2"]) simp
  qed
qed

lemma only_calls_pure [call_rules]:
  "only_calls P (ret x)" "only_calls P (raise e)" "only_calls P (lift_sum r)"
  "only_calls P (gets f)"
  by (auto simp: only_calls_def ret_def raise_def lift_sum_def)

lemma only_calls_modify [call_rules]:
  "(\<And>w. trail (f w) = trail w) \<Longrightarrow> only_calls P (modify f)"
  by (simp add: only_calls_def)

lemma only_calls_perform [call_rules]: "P c \<Longrightarrow> only_calls P (perform ans c)"
  by (simp add: only_calls_def perform_def)

lemma only_calls_do_call [call_rules]: "P c \<Longrightarrow> only_calls P (do_call E c)"
  by (simp add: do_call_def only_calls_perform)

lemma only_calls_clock [call_rules]: "P (Os ReadClock) \<Longrightarrow> only_calls P (clock E)"
  by (simp add: clock_def only_calls_perform)

lemma only_calls_sleep [call_rules]: "P (Os (Sleep n)) \<Longrightarrow> only_calls P (sleep n)"
  by (simp add: sleep_def only_calls_perform)

lemma only_calls_loop_st [call_rules]: "only_calls P body \<Longrightarrow> only_calls P (loop_st n body)"
proof (induction n)
  case (Suc n)
  then have "only_calls P (case r of Some x \<Rightarrow> ret x | None \<Rightarrow> loop_st n body)" for r
    by (cases r) (auto intro: only_calls_pure)
  with Suc.prems show ?case by (auto intro: only_calls_bnd)
qed (auto intro: only_calls_pure)

lemma only_calls_andthen [call_rules]:
  "only_calls P m \<Longrightarrow> only_calls P m' \<Longrightarrow> only_calls P (andthen m m')"
  by (simp add: andthen_def only_calls_bnd)

lemma only_calls_for_each [call_rules]:
  "(\<And>x. x \<in> set xs \<Longrightarrow> only_calls P (f x)) \<Longrightarrow> only_calls P (for_each f xs)"
  by (induction xs) (auto intro: only_calls_pure only_calls_andthen)

lemma only_calls_map_st [call_rules]:
  "(\<And>x. x \<in> set xs \<Longrightarrow> only_calls P (f x)) \<Longrightarrow> only_calls P (map_st f xs)"
  by (induction xs) (auto intro!: only_calls_pure only_calls_bnd)

lemma only_calls_if [call_rules]:
  "(b \<Longrightarrow> only_calls P m) \<Longrightarrow> (\<not> b \<Longrightarrow> only_calls P m') \<Longrightarrow> only_calls P (if b then m else m')"
  by simp

lemma only_calls_case_option [call_rules]:
  "(x = None \<Longrightarrow> only_calls P m) \<Longrightarrow> (\<And>y. x = Some y \<Longrightarrow> only_calls P (f y)) \<Longrightarrow>
   only_calls P (case x of None \<Rightarrow> m | Some y \<Rightarrow> f y)"
  by (cases x) auto

lemma only_calls_case_list [call_rules]:
  "(x = [] \<Longrightarrow> only_calls P m) \<Longrightarrow> (\<And>y ys. x = y # ys \<Longrightarrow> only_calls P (f y ys)) \<Longrightarrow>
   only_calls P (case x of [] \<Rightarrow> m | y # ys \<Rightarrow> f y ys)"
  by (cases x) auto

lemma only_calls_let [call_rules]: "(\<And>y. y = x \<Longrightarrow> only_calls P (f y)) \<Longrightarrow> only_calls P (Let x f)"
  by simp

lemma only_calls_try_except [call_rules]:
  assumes m: "only_calls P m" and h: "\<And>e. only_calls P (h e)"
  shows "only_calls P (try_except m p h)"
proof (rule only_callsI)
  fix w r w'
  assume run: "try_except m p h w = (r, w')"
  obtain r1 w1 where 1: "m w = (r1, w1)" by fastforce
  then obtain cs1 where cs1: "trail w1 = trail w @ cs1" "list_all P cs1"
    using only_callsD [OF m] by blast
  show "\<exists>cs. trail w' = trail w @ cs \<and> list_all P cs"
  proof (cases "\<exists>e. r1 = Inl e \<and> p e")
    case True
    then obtain e where "h e w1 = (r, w')" using run 1 by (auto simp: try_except_def)
    then obtain cs2 where "trail w' = trail w1 @ cs2" "list_all P cs2"
      using only_callsD [OF h] by blast
    with cs1 show ?thesis by (intro exI [of _ "cs1 @ cs2"]) simp
  next
    case False
    with run 1 cs1 show ?thesis by (cases r1) (auto simp: try_except_def)
  qed
qed

end
