(* ===== verification/CloudUtil.thy ===== *)
theory CloudUtil
  imports World
begin

text \<open>
  \<open>hadoop/cloud/util.py\<close>: quoting of environment assignments for the boot script of an
  instance, merging of configuration and options, and \<open>url_get\<close> with its retry loop.
  The specification of quoting is a reader for the fragment of the POSIX shell's word
  syntax that the quoting relies on (\<open>sh_words\<close>); it is not part of the program.
\<close>


section \<open>Quoting\<close>

definition bash_quote :: "string option \<Rightarrow> string" where
  "bash_quote text =
     (case text of
        None \<Rightarrow> []
      | Some t \<Rightarrow> [squote] @ py_replace [squote] [squote, CHR 0x5C, squote, squote] t @ [squote])"

definition bash_quote_env :: "string \<Rightarrow> py_exc + string" where
  "bash_quote_env env =
     (if py_find (CHR ''='') env = -1 then Inr env
      else (case py_split (CHR ''='') env of
              [var, val] \<Rightarrow> Inr (var @ ''='' @ bash_quote (Some val))
            | _ \<Rightarrow> Inl ValueError))"

fun quote_env_strings :: "string list \<Rightarrow> py_exc + string" where
  "quote_env_strings [] = Inr []"
| "quote_env_strings (s # ss) =
     (case bash_quote_env s of
        Inl e \<Rightarrow> Inl e
      | Inr q \<Rightarrow> (case quote_env_strings ss of
                   Inl e \<Rightarrow> Inl e
                 | Inr rest \<Rightarrow> Inr (q @ '' '' @ rest)))"

fun quote_pairs :: "(string, string option) dict \<Rightarrow> string" where
  "quote_pairs [] = []"
| "quote_pairs ((key, val) # ps) = key @ ''='' @ bash_quote val @ '' '' @ quote_pairs ps"

definition build_env_string ::
  "string list \<Rightarrow> (string, string option) dict \<Rightarrow> py_exc + string" where
  "build_env_string env_strings pairs =
     (case quote_env_strings env_strings of
        Inl e \<Rightarrow> Inl e
      | Inr env \<Rightarrow> Inr (butlast (env @ quote_pairs pairs)))"

definition xstr :: "string option \<Rightarrow> string" where
  "xstr s = (case s of None \<Rightarrow> [] | Some t \<Rightarrow> t)"


subsection \<open>What a shell reads\<close>

text \<open>
  The characters that stand for themselves outside quotes: letters, digits and the
  punctuation that POSIX gives no meaning in a word.
\<close>

definition sh_plain :: "char \<Rightarrow> bool" where
  "sh_plain c \<longleftrightarrow>
     c \<in> set ''abcdefghijklmnopqrstuvwxyzABCDEFGHIJKLMNOPQRSTUVWXYZ0123456789_=+-.,:/@%^''"

text \<open>
  Reading words: \<open>cur\<close> is the word being read (\<open>None\<close> between words), the boolean says
  whether the reader is inside single quotes. The result is \<open>None\<close> when a character would
  be interpreted (expansion, redirection, separators) or a quote stays open.
\<close>

definition so_far :: "string option \<Rightarrow> string" where
  "so_far cur = (case cur of None \<Rightarrow> [] | Some w \<Rightarrow> w)"

fun sh_words :: "bool \<Rightarrow> string option \<Rightarrow> string \<Rightarrow> string list option" where
  "sh_words True cur [] = None"
| "sh_words False cur [] = Some (case cur of None \<Rightarrow> [] | Some w \<Rightarrow> [w])"
| "sh_words True cur (c # cs) =
     (if c = CHR 0x27 then sh_words False cur cs else sh_words True (Some (so_far cur @ [c])) cs)"
| "sh_words False cur (c # cs) =
     (if c = CHR 0x27 then sh_words True (Some (so_far cur)) cs
      else if c = CHR '' '' then
        (case cur of None \<Rightarrow> sh_words False None cs
         | Some w \<Rightarrow> map_option ((#) w) (sh_words False None cs))
      else if c = CHR 0x5C then
        (case cs of [] \<Rightarrow> None
         | d # ds \<Rightarrow> if d = nl then None else sh_words False (Some (so_far cur @ [d])) ds)
      else if sh_plain c then sh_words False (Some (so_far cur @ [c])) cs
      else None)"

lemma so_far_simps [simp]: "so_far None = []" "so_far (Some w) = w"
  by (simp_all add: so_far_def)

lemma sh_words_quoted_body:
  "sh_words True (Some w)
     (py_replace [squote] [squote, CHR 0x5C, squote, squote] t @ squote # rest) =
   sh_words False (Some (w @ t)) rest"
proof (induction t arbitrary: w)
  case (Cons c t)
  then show ?case by (cases "c = squote") (simp_all add: py_replace_char)
qed simp

text \<open>Whatever the text, a shell reads the quoted text back as it was.\<close>

lemma sh_words_bash_quote:
  "t \<noteq> None \<or> cur \<noteq> None \<Longrightarrow>
   sh_words False cur (bash_quote t @ rest) = sh_words False (Some (so_far cur @ xstr t)) rest"
  by (cases t) (auto simp: bash_quote_def xstr_def sh_words_quoted_body)

lemma sh_plain_special [simp]:
  "\<not> sh_plain squote" "\<not> sh_plain (CHR '' '')" "\<not> sh_plain (CHR 0x5C)" "sh_plain (CHR ''='')"
  by (simp_all add: sh_plain_def)

lemma sh_words_plain:
  assumes "list_all sh_plain p" and "p \<noteq> []"
  shows "sh_words False cur (p @ rest) = sh_words False (Some (so_far cur @ p)) rest"
  using assms
proof (induction p arbitrary: cur)
  case (Cons c p)
  then have "c \<noteq> squote" "c \<noteq> CHR '' ''" "c \<noteq> CHR 0x5C" by auto
  with Cons show ?case by (cases "p = []") auto
qed simp


section \<open>The environment string of an instance\<close>

text \<open>
  The assignments that \<open>bash_quote_env\<close> is made for: at most one \<open>=\<close>, and a name that
  needs no quoting. The value may hold any character but \<open>=\<close>.
\<close>

definition env_ok :: "string \<Rightarrow> bool" where
  "env_ok s \<longleftrightarrow> s \<noteq> [] \<and> list_all sh_plain (takeWhile (\<lambda>c. c \<noteq> CHR ''='') s)
     \<and> count_list s (CHR ''='') \<le> 1"

lemma py_split_length: "length (py_split c s) = Suc (count_list s c)"
  by (induction s) (auto split: list.splits)

lemma bash_quote_env_error:
  "bash_quote_env s = Inl e \<longleftrightarrow> e = ValueError \<and> 2 \<le> count_list s (CHR ''='')"
proof -
  have "count_list s (CHR ''='') = 0 \<longleftrightarrow> CHR ''='' \<notin> set s" by (simp add: count_list_0_iff)
  then show ?thesis
    using py_split_length [of "CHR ''=''" s]
    by (auto simp: bash_quote_env_def split: list.splits)
qed

lemma env_ok_cases:
  assumes "env_ok s"
  obtains (plain) "CHR ''='' \<notin> set s" "list_all sh_plain s" "s \<noteq> []"
  | (assign) v x where "s = v @ CHR ''='' # x" "CHR ''='' \<notin> set v" "CHR ''='' \<notin> set x"
      "list_all sh_plain v"
proof (cases "CHR ''='' \<in> set s")
  case True
  then obtain v x where s: "s = v @ CHR ''='' # x" and v: "CHR ''='' \<notin> set v"
    by (metis split_list_first)
  then have "takeWhile (\<lambda>c. c \<noteq> CHR ''='') s = v"
    by (auto simp: takeWhile_append takeWhile_eq_all_conv)
  moreover have "count_list x (CHR ''='') = 0"
    using assms s by (simp add: env_ok_def)
  ultimately show ?thesis
    using assms s v by (intro assign [of v x]) (auto simp: env_ok_def count_list_0_iff)
next
  case False
  then have "takeWhile (\<lambda>c. c \<noteq> CHR ''='') s = s" by (auto simp: takeWhile_eq_all_conv)
  with False assms show ?thesis by (intro plain) (simp_all add: env_ok_def)
qed

lemma bash_quote_env_reads_back:
  assumes "env_ok s"
  obtains q where "bash_quote_env s = Inr q"
    and "\<And>rest. sh_words False None (q @ rest) = sh_words False (Some s) rest"
  using assms
proof (cases rule: env_ok_cases)
  case plain
  with that [of s] show ?thesis by (simp add: bash_quote_env_def sh_words_plain)
next
  case (assign v x)
  let ?q = "v @ ''='' @ bash_quote (Some x)"
  have "bash_quote_env s = Inr ?q"
    using assign by (simp add: bash_quote_env_def py_split_append py_split_free)
  moreover have "sh_words False None (?q @ rest) = sh_words False (Some s) rest" for rest
    using assign sh_words_plain [of "v @ ''=''" None "bash_quote (Some x) @ rest"]
    by (simp add: sh_words_bash_quote xstr_def)
  ultimately show ?thesis by (rule that)
qed

text \<open>A piece of shell text that is read as one given word, whatever follows it.\<close>

definition reads_as :: "string \<Rightarrow> string \<Rightarrow> bool" where
  "reads_as q s \<longleftrightarrow> (\<forall>rest. sh_words False None (q @ rest) = sh_words False (Some s) rest)"

lemma sh_words_join:
  assumes "list_all2 reads_as qs ss"
  shows "sh_words False None (py_join '' '' qs) = Some ss"
  using assms
proof (induction rule: list_all2_induct)
  case (Cons q qs s ss)
  show ?case
  proof (cases qs)
    case Nil
    then show ?thesis
      using Cons.hyps spec [OF Cons.hyps(1) [unfolded reads_as_def], of "[]"] by simp
  next
    case (Cons q' qs')
    then have "py_join '' '' (q # qs) = q @ ('' '' @ py_join '' '' qs)"
      by simp
    then have "sh_words False None (py_join '' '' (q # qs)) =
        map_option ((#) s) (sh_words False None (py_join '' '' qs))"
      using Cons.hyps(1) by (simp add: reads_as_def)
    then show ?thesis using Cons.IH by simp
  qed
qed simp

lemma butlast_pieces: "butlast (concat (map (\<lambda>q. q @ '' '') qs)) = py_join '' '' qs"
proof (induction qs)
  case (Cons q qs)
  then show ?case by (cases qs) (auto simp: butlast_append)
qed simp

lemma quote_env_strings_pieces:
  assumes "\<forall>s \<in> set ss. env_ok s"
  shows "\<exists>qs. quote_env_strings ss = Inr (concat (map (\<lambda>q. q @ '' '') qs)) \<and> list_all2 reads_as qs ss"
  using assms
proof (induction ss)
  case (Cons s ss)
  then obtain qs where qs: "quote_env_strings ss = Inr (concat (map (\<lambda>q. q @ '' '') qs))"
      "list_all2 reads_as qs ss"
    by auto
  obtain q where "bash_quote_env s = Inr q" "reads_as q s"
    using bash_quote_env_reads_back [of s] Cons.prems by (auto simp: reads_as_def)
  with qs show ?case by (intro exI [of _ "q # qs"]) simp
qed simp

definition key_ok :: "string \<Rightarrow> bool" where
  "key_ok k \<longleftrightarrow> list_all sh_plain k"

definition pair_word :: "string \<times> string option \<Rightarrow> string" where
  "pair_word p = fst p @ ''='' @ xstr (snd p)"

lemma quote_pairs_pieces:
  assumes "\<forall>(k, v) \<in> set ps. key_ok k"
  shows "\<exists>qs. quote_pairs ps = concat (map (\<lambda>q. q @ '' '') qs) \<and>
    list_all2 reads_as qs (map pair_word ps)"
  using assms
proof (induction ps)
  case (Cons p ps)
  obtain k v where p: "p = (k, v)" by fastforce
  from Cons obtain qs where qs: "quote_pairs ps = concat (map (\<lambda>q. q @ '' '') qs)"
      "list_all2 reads_as qs (map pair_word ps)"
    by auto
  have "reads_as (k @ ''='' @ bash_quote v) (pair_word p)"
    unfolding reads_as_def
  proof
    fix rest
    have "sh_words False None ((k @ ''='') @ bash_quote v @ rest) =
        sh_words False (Some (k @ ''='')) (bash_quote v @ rest)"
      using Cons.prems p by (subst sh_words_plain) (auto simp: key_ok_def)
    then show "sh_words False None ((k @ ''='' @ bash_quote v) @ rest) =
        sh_words False (Some (pair_word p)) rest"
      by (simp add: p pair_word_def sh_words_bash_quote)
  qed
  with qs p show ?case by (intro exI [of _ "(k @ ''='' @ bash_quote v) # qs"]) simp
qed simp




lemma bash_quote_env_Inr: "bash_quote_env s = Inr q \<Longrightarrow> count_list s (CHR ''='') < 2"
  using bash_quote_env_error [of s ValueError] by force

lemma quote_env_strings_error:
  "s \<in> set ss \<Longrightarrow> 2 \<le> count_list s (CHR ''='') \<Longrightarrow> \<exists>e. quote_env_strings ss = Inl e"
  by (induction ss) (auto dest: bash_quote_env_Inr split: sum.splits)

text \<open>
  A value that contains an equals sign is refused. The assignment is split at every \<open>=\<close> and
  unpacked into two variables, so an option such as \<open>-e OPTS=-Dx=y\<close> makes the launch raise
  \<open>ValueError\<close>, whatever else is in the environment.
\<close>

theorem build_env_string_rejects_equals:
  assumes "s \<in> set env_strings" and "2 \<le> count_list s (CHR ''='')"
  shows "build_env_string env_strings pairs = Inl ValueError"
proof -
  have only: "quote_env_strings ss = Inl e \<Longrightarrow> e = ValueError" for ss e
    by (induction ss) (auto simp: bash_quote_env_error split: sum.splits)
  then show ?thesis
    using quote_env_strings_error [OF assms] by (auto simp: build_env_string_def)
qed

theorem build_env_string_rejects_equals_witness:
  "build_env_string [''A=1'', ''OPTS=-Dx=y''] [] = Inl ValueError"
  by (rule build_env_string_rejects_equals [where s = "''OPTS=-Dx=y''"]) simp_all


section \<open>Configuration and options\<close>

text \<open>
  \<open>config.items(section)\<close> of the standard \<open>ConfigParser\<close> is a parameter: \<open>None\<close> is the
  \<open>NoSectionError\<close> that the code passes over.
\<close>

type_synonym config = "string \<Rightarrow> (string, string) dict option"

definition config_value :: "string \<Rightarrow> pyval" where
  "config_value value =
     (if nl \<in> set value then PList (map PStr (py_split nl value)) else PStr value)"

definition merge_config_with_options :: "string \<Rightarrow> config \<Rightarrow> pydict \<Rightarrow> pydict" where
  "merge_config_with_options section_name config options =
     (let res = (case config section_name of
                   None \<Rightarrow> []
                 | Some items \<Rightarrow> fold (\<lambda>(key, value). dset key (config_value value)) items [])
      in fold (\<lambda>(key, v) res. if v \<noteq> PNone then dset key v res else res) options res)"

lemma dget_fold_config:
  "distinct (map fst items) \<Longrightarrow>
   dget (fold (\<lambda>(key, value). dset key (config_value value)) items acc) k =
     (case dget items k of None \<Rightarrow> dget acc k | Some v \<Rightarrow> Some (config_value v))"
proof (induction items arbitrary: acc)
  case (Cons p items)
  obtain key v where "p = (key, v)" by fastforce
  with Cons show ?case
    by (auto simp: dget_dset map_of_eq_None_iff [symmetric] split: option.splits)
qed simp

lemma dget_fold_options:
  "distinct (map fst options) \<Longrightarrow>
   dget (fold (\<lambda>(key, v) res. if v \<noteq> PNone then dset key v res else res) options acc) k =
     (case dget options k of Some v \<Rightarrow> if v = PNone then dget acc k else Some v | None \<Rightarrow> dget acc k)"
proof (induction options arbitrary: acc)
  case (Cons p options)
  obtain key v where "p = (key, v)" by fastforce
  with Cons show ?case
    by (auto simp: dget_dset map_of_eq_None_iff [symmetric] split: option.splits)
qed simp

text \<open>
  The command line wins. Merging gives every key the value of the option where one was given,
  else the value of the cluster's section of the configuration file (its lines as a list
  when it has several), else nothing; a missing section counts as empty.
\<close>

theorem merge_config_with_options_get:
  assumes "dict_ok options" and "\<And>items. config sec = Some items \<Longrightarrow> dict_ok items"
  shows "dget (merge_config_with_options sec config options) k =
    (if pget options k \<noteq> PNone then Some (pget options k)
     else case config sec of None \<Rightarrow> None | Some items \<Rightarrow> map_option config_value (dget items k))"
  using assms
  by (auto simp: merge_config_with_options_def dict_ok_def dget_fold_config dget_fold_options
      pget_def split: option.splits)

theorem merge_config_with_options_get_witness:
  "dget (merge_config_with_options ''c''
      (\<lambda>s. if s = ''c'' then Some [(''image_id'', ''ami-1''), (''key_name'', ''k'')] else None)
      [(''image_id'', PNone), (''key_name'', PStr ''mine'')]) ''key_name'' = Some (PStr ''mine'')"
proof -
  let ?opts = "[(''image_id'', PNone), (''key_name'', PStr ''mine'')]"
  have o: "dict_ok ?opts" by (simp add: dict_ok_def)
  have c: "dict_ok items"
    if "(if ''c'' = ''c'' then Some [(''image_id'', ''ami-1''), (''key_name'', ''k'')] else None) = Some items"
    for items :: "(string, string) dict"
    using that by (auto simp: dict_ok_def)
  show ?thesis
    using merge_config_with_options_get [where config = "\<lambda>s. if s = ''c'' then
        Some [(''image_id'', ''ami-1''), (''key_name'', ''k'')] else None" and sec = "''c''", OF o c]
    by (simp add: pget_def)
qed


section \<open>Fetching a URL\<close>

text \<open>
  \<open>URLError\<close> is a subclass of \<open>IOError\<close>; other exceptions of \<open>urlopen\<close> leave the loop.
\<close>

function url_get_loop ::
  "env \<Rightarrow> string \<Rightarrow> nat \<Rightarrow> int \<Rightarrow> int \<Rightarrow> ('w world_scheme, string) st" where
  "url_get_loop E url timeout retries attempts w =
     (case perform (ans_text E) (Os (UrlOpen url timeout)) w of
        (Inr body, w') \<Rightarrow> (Inr body, w')
      | (Inl e, w') \<Rightarrow>
          if e = IOError then
            (if attempts + 1 > retries then (Inl e, w')
             else url_get_loop E url timeout retries (attempts + 1) w')
          else (Inl e, w'))"
  by pat_completeness auto
termination
  by (relation "measure (\<lambda>(E, url, timeout, retries, attempts, w). nat (retries - attempts))") auto

declare url_get_loop.simps [simp del]

definition url_get :: "env \<Rightarrow> string \<Rightarrow> nat \<Rightarrow> int \<Rightarrow> ('w world_scheme, string) st" where
  "url_get E url timeout retries = url_get_loop E url timeout retries 0"

text \<open>
  The outcomes of a retry loop: after \<open>k\<close> failed openings the next one decides, or the
  budget of failures is used up.
\<close>

lemma url_get_loop_outcome:
  "\<exists>k. url_get_loop E url timeout retries attempts w =
         (ans_text E (trail w @ replicate (Suc k) (Os (UrlOpen url timeout))),
          w\<lparr>trail := trail w @ replicate (Suc k) (Os (UrlOpen url timeout))\<rparr>)
     \<and> k \<le> nat (retries - attempts)
     \<and> (\<forall>j < k. ans_text E (trail w @ replicate (Suc j) (Os (UrlOpen url timeout))) = Inl IOError)
     \<and> (ans_text E (trail w @ replicate (Suc k) (Os (UrlOpen url timeout))) = Inl IOError
          \<longrightarrow> k = nat (retries - attempts))"
proof (induction E url timeout retries attempts w rule: url_get_loop.induct)
  case (1 E url timeout retries attempts w)
  let ?c = "Os (UrlOpen url timeout)" and ?w = "w\<lparr>trail := trail w @ [Os (UrlOpen url timeout)]\<rparr>"
  show ?case
  proof (cases "ans_text E (trail w @ [?c]) = Inl IOError \<and> attempts + 1 \<le> retries")
    case True
    then have run: "url_get_loop E url timeout retries attempts w =
        url_get_loop E url timeout retries (attempts + 1) ?w"
      by (subst url_get_loop.simps) (simp add: perform_def)
    have snoc: "trail ?w @ replicate (Suc n) ?c = trail w @ replicate (Suc (Suc n)) ?c" for n
      by simp
    obtain k where k: "url_get_loop E url timeout retries (attempts + 1) ?w =
         (ans_text E (trail ?w @ replicate (Suc k) ?c),
          ?w\<lparr>trail := trail ?w @ replicate (Suc k) ?c\<rparr>)"
        "k \<le> nat (retries - (attempts + 1))"
        "\<forall>j < k. ans_text E (trail ?w @ replicate (Suc j) ?c) = Inl IOError"
        "ans_text E (trail ?w @ replicate (Suc k) ?c) = Inl IOError
          \<longrightarrow> k = nat (retries - (attempts + 1))"
      using "1.IH" [of "Inl IOError" ?w IOError] True by (auto simp: perform_def)
    show ?thesis
    proof (intro exI [of _ "Suc k"] conjI)
      show "\<forall>j < Suc k. ans_text E (trail w @ replicate (Suc j) ?c) = Inl IOError"
        using k(3) True unfolding snoc by (auto simp: less_Suc_eq_0_disj)
    qed (use k True run in \<open>simp_all only: snoc, auto\<close>)
  next
    case False
    then show ?thesis
      by (intro exI [of _ 0], subst url_get_loop.simps) (auto simp: perform_def split: sum.splits)
  qed
qed


text \<open>
  The retry loop stops. It opens the URL at most \<open>retries + 1\<close> times, stops at the first
  opening that does not fail with \<open>URLError\<close> and hands its outcome on, and lets the
  \<open>URLError\<close> out only when every one of the \<open>retries + 1\<close> openings failed.
\<close>

theorem url_get_bounded:
  "\<exists>k \<le> nat retries. url_get E url timeout retries w =
         (ans_text E (trail w @ replicate (Suc k) (Os (UrlOpen url timeout))),
          w\<lparr>trail := trail w @ replicate (Suc k) (Os (UrlOpen url timeout))\<rparr>)
     \<and> (\<forall>j < k. ans_text E (trail w @ replicate (Suc j) (Os (UrlOpen url timeout))) = Inl IOError)
     \<and> (fst (url_get E url timeout retries w) = Inl IOError \<longrightarrow> k = nat retries)"
proof -
  obtain k where k: "url_get_loop E url timeout retries 0 w =
         (ans_text E (trail w @ replicate (Suc k) (Os (UrlOpen url timeout))),
          w\<lparr>trail := trail w @ replicate (Suc k) (Os (UrlOpen url timeout))\<rparr>)"
      "k \<le> nat retries"
      "\<forall>j < k. ans_text E (trail w @ replicate (Suc j) (Os (UrlOpen url timeout))) = Inl IOError"
      "ans_text E (trail w @ replicate (Suc k) (Os (UrlOpen url timeout))) = Inl IOError \<longrightarrow> k = nat retries"
    using url_get_loop_outcome [of E url timeout retries 0 w] by auto
  show ?thesis
    unfolding url_get_def using k by (intro exI [of _ k] conjI) (simp_all only: fst_conv)
qed


theorem url_get_bounded_witness:
  "\<exists>k \<le> nat 2. url_get (env0\<lparr>ans_text := \<lambda>h. if length h = 2 then Inr ''page'' else Inl IOError\<rparr>)
       ''u'' 10 2 world0 =
     (if k = 1 then Inr ''page'' else Inl IOError,
      \<lparr>trail = replicate (Suc k) (Os (UrlOpen ''u'' 10))\<rparr>)"
proof -
  let ?E = "env0\<lparr>ans_text := \<lambda>h. if length h = 2 then Inr ''page'' else Inl IOError\<rparr>"
  let ?c = "Os (UrlOpen ''u'' 10)"
  obtain k where "k \<le> nat 2"
    "url_get ?E ''u'' 10 2 world0 = (ans_text ?E (trail world0 @ replicate (Suc k) ?c),
       world0\<lparr>trail := trail world0 @ replicate (Suc k) ?c\<rparr>)"
    using url_get_bounded [where E = ?E and url = "''u''" and timeout = 10 and retries = 2 and w = world0]
    by blast
  then show ?thesis by (intro exI [of _ k]) (simp add: world0_def)
qed

end
