(* ===== verification/AuditLog.thy ===== *)
theory AuditLog
  imports CloudUtil
begin

text \<open>
  \<open>audit.py\<close>: the audit log, and the two helpers with which the setuid scripts write into
  a student's home directory under the student's own user id.
\<close>


section \<open>The audit log\<close>

definition audit_message :: "string \<Rightarrow> string" where
  "audit_message message = py_replace [nl] [CHR 0x5C, CHR ''n''] message"

definition audit_line :: "string \<Rightarrow> string \<Rightarrow> string \<Rightarrow> string" where
  "audit_line now user message = now @ '': '' @ user @ '': '' @ audit_message message @ [nl]"

definition audit_log :: "env \<Rightarrow> string \<Rightarrow> ('w world_scheme, unit) st" where
  "audit_log E message = do_call E (Os (AuditLog (audit_message message)))"

text \<open>
  A log entry is one line. Whatever a request puts into the message (it is logged with values
  that the student chose), splitting the written text at newlines gives exactly one entry,
  so that no entry can be forged.
\<close>

theorem audit_line_single:
  assumes "nl \<notin> set now" and "nl \<notin> set user"
  shows "py_split nl (audit_line now user message) =
    [now @ '': '' @ user @ '': '' @ audit_message message, []]"
proof -
  have "nl \<notin> set (audit_message message)"
    by (auto simp: audit_message_def py_replace_char split: if_splits)
  then have "nl \<notin> set (now @ '': '' @ user @ '': '' @ audit_message message)"
    using assms by simp
  from py_split_append [OF this, of "[]"] show ?thesis
    by (simp add: audit_line_def)
qed

theorem audit_line_single_witness:
  "py_split nl (audit_line ''2011-04-01T10:00:00'' ''cs61c-ab'' (''x'' @ [nl] @ ''forged: root: y'')) =
    [''2011-04-01T10:00:00: cs61c-ab: x'' @ [CHR 0x5C] @ ''nforged: root: y'', []]"
  using audit_line_single [of "''2011-04-01T10:00:00''" "''cs61c-ab''" "''x'' @ [nl] @ ''forged: root: y''"]
  by (simp add: audit_message_def py_replace_char)


section \<open>Writing as the calling user\<close>

text \<open>
  The process runs setuid: its real user id is the student's, its effective user id the
  privileged account's. The state holds both; a file operation is performed with the
  effective user id of the moment, which is the first argument of its call. \<open>print\<close> is a
  call because it stands outside the \<open>try\<close> and can fail.
\<close>

record ids = world +
  ruid :: nat
  euid :: nat

definition setreuid :: "nat \<Rightarrow> nat \<Rightarrow> (ids, unit) st" where
  "setreuid r e = modify (\<lambda>w. w\<lparr>ruid := r, euid := e\<rparr>)"

text \<open>
  \<open>try: m finally: c\<close>: \<open>c\<close> runs on every path; the outcome is that of \<open>m\<close> unless \<open>c\<close> raises.
\<close>

definition try_finally :: "('s, 'a) st \<Rightarrow> ('s, unit) st \<Rightarrow> ('s, 'a) st" where
  "try_finally m c s =
     (case m s of (r, s') \<Rightarrow>
        (case c s' of (Inl e, s'') \<Rightarrow> (Inl e, s'') | (Inr _, s'') \<Rightarrow> (r, s'')))"

text \<open>The result is whether a file object is returned (\<open>False\<close> is \<open>None\<close>).\<close>

definition is_OSError :: "py_exc \<Rightarrow> bool" where
  "is_OSError e \<longleftrightarrow> (case e of OSError _ \<Rightarrow> True | _ \<Rightarrow> False)"

definition safe_open_write :: "env \<Rightarrow> string \<Rightarrow> bool \<Rightarrow> (ids, bool) st" where
  "safe_open_write E the_file may_overwrite =
     bnd (gets ruid) (\<lambda>real_uid.
     bnd (gets euid) (\<lambda>effective_uid.
     andthen (setreuid effective_uid real_uid)
    (andthen (if may_overwrite
              then do_call E (Os (Print (''Writing '' @ the_file @ '' (possibly overwriting)...'')))
              else do_call E (Os (Print (''Writing '' @ the_file @ '' (if it doesn't exist)...''))))
    (bnd (try_finally
            (try_except
               (bnd (gets euid) (\<lambda>uid.
                  andthen (do_call E (Os (OpenForWriting uid the_file (\<not> may_overwrite)))) (ret True)))
               is_OSError (\<lambda>_. ret False))
            (setreuid real_uid effective_uid))
          ret))))"

definition EISDIR :: int where "EISDIR = 21"
definition EEXIST :: int where "EEXIST = 17"

definition safe_make_dir :: "env \<Rightarrow> string \<Rightarrow> (ids, unit) st" where
  "safe_make_dir E the_dir =
     andthen (do_call E (Os (Print (''Creating directory '' @ the_dir @ '' (if it doesn't exist)...''))))
    (bnd (gets ruid) (\<lambda>real_uid.
     bnd (gets euid) (\<lambda>effective_uid.
     andthen (setreuid effective_uid real_uid)
     (try_finally
        (try_except
           (bnd (gets euid) (\<lambda>uid. do_call E (Os (MakeDir uid the_dir))))
           is_OSError
           (\<lambda>e. if e \<noteq> OSError EISDIR \<and> e \<noteq> OSError EEXIST then raise e else ret ()))
        (setreuid real_uid effective_uid)))))"

text \<open>The file operations of a call, and the user id they are performed with.\<close>

fun file_uid :: "call \<Rightarrow> nat option" where
  "file_uid (Os (OpenForWriting uid _ _)) = Some uid"
| "file_uid (Os (MakeDir uid _)) = Some uid"
| "file_uid _ = None"

definition print_works :: "env \<Rightarrow> bool" where
  "print_works E \<longleftrightarrow> (\<forall>h s. ans_unit E (h @ [Os (Print s)]) = Inr ())"

lemmas audit_run_defs = st_defs setreuid_def do_call_def perform_def try_finally_def

text \<open>
  Files are opened as the student. When printing works, \<open>safe_open_write\<close> performs every
  file operation with the user id of the calling student, never the privileged one, and on
  every path - success, a failed open, any exception - both user ids are back as they were.
\<close>

theorem safe_open_write_as_user:
  assumes "print_works E" and "safe_open_write E f b w = (r, w')"
  shows "\<exists>cs. trail w' = trail w @ cs \<and> list_all (\<lambda>c. file_uid c \<in> {None, Some (ruid w)}) cs
     \<and> ruid w' = ruid w \<and> euid w' = euid w"
  using assms
  by (auto simp: safe_open_write_def audit_run_defs print_works_def
      split: sum.splits if_splits prod.splits)

theorem safe_open_write_as_user_witness:
  "safe_open_write (env0\<lparr>ans_unit := \<lambda>_. Inr ()\<rparr>) ''/h/k.pem'' True
     \<lparr>trail = [], ruid = 1000, euid = 7\<rparr> =
     (Inr True,
      \<lparr>trail = [Os (Print ''Writing /h/k.pem (possibly overwriting)...''),
                Os (OpenForWriting 1000 ''/h/k.pem'' False)], ruid = 1000, euid = 7\<rparr>)"
  (is "?run = ?res")
proof -
  let ?E = "env0\<lparr>ans_unit := \<lambda>_. Inr ()\<rparr>"
  have p: "print_works ?E" by (simp add: print_works_def)
  have run: "?run = ?res"
    by (simp add: safe_open_write_def audit_run_defs)
  from safe_open_write_as_user [OF p run] show ?thesis using run by simp
qed

text \<open>
  The same for directories, without a condition: \<open>safe_make_dir\<close> prints before it switches,
  so that nothing can leave the user ids switched.
\<close>

theorem safe_make_dir_as_user:
  assumes "safe_make_dir E d w = (r, w')"
  shows "\<exists>cs. trail w' = trail w @ cs \<and> list_all (\<lambda>c. file_uid c \<in> {None, Some (ruid w)}) cs
     \<and> ruid w' = ruid w \<and> euid w' = euid w"
  using assms
  by (auto simp: safe_make_dir_def audit_run_defs split: sum.splits if_splits prod.splits)

theorem safe_make_dir_as_user_witness:
  "\<exists>w'. safe_make_dir (env0\<lparr>ans_unit := \<lambda>h. if length h = 2 then Inl (OSError 17) else Inr ()\<rparr>)
      ''/h/d'' \<lparr>trail = [], ruid = 1000, euid = 7\<rparr> = (Inr (), w') \<and> ruid w' = 1000 \<and> euid w' = 7"
proof -
  let ?E = "env0\<lparr>ans_unit := \<lambda>h. if length h = 2 then Inl (OSError 17) else Inr ()\<rparr>"
  let ?w = "\<lparr>trail = [], ruid = 1000, euid = 7\<rparr> :: ids"
  obtain r w' where run: "safe_make_dir ?E ''/h/d'' ?w = (r, w')" by fastforce
  moreover have "r = Inr ()"
    using run by (auto simp: safe_make_dir_def audit_run_defs is_OSError_def EEXIST_def)
  ultimately show ?thesis
    using safe_make_dir_as_user [OF run] by auto
qed

text \<open>
  The one gap. In \<open>safe_open_write\<close> the message is printed after the switch and before the
  \<open>try\<close>; when printing fails (a closed standard output) the exception leaves the process with
  the two user ids switched and nothing opened.
\<close>

theorem safe_open_write_print_failure:
  assumes "\<And>h s. ans_unit E (h @ [Os (Print s)]) = Inl e"
  shows "fst (safe_open_write E f b w) = Inl e
     \<and> ruid (snd (safe_open_write E f b w)) = euid w
     \<and> euid (snd (safe_open_write E f b w)) = ruid w"
  using assms by (simp add: safe_open_write_def audit_run_defs)

theorem safe_open_write_print_failure_witness:
  "euid (snd (safe_open_write (env0\<lparr>ans_unit := \<lambda>_. Inl IOError\<rparr>) ''f'' True
     \<lparr>trail = [], ruid = 1000, euid = 7\<rparr>)) = 1000"
  using safe_open_write_print_failure [where E = "env0\<lparr>ans_unit := \<lambda>_. Inl IOError\<rparr>"
      and f = "''f''" and b = True and w = "\<lparr>trail = [], ruid = 1000, euid = 7\<rparr>"]
  by simp

end
