(* ===== verification/Accounts.thy ===== *)
theory Accounts
  imports AuditLog
begin

text \<open>
  \<open>subaccounts.py\<close>: the database of student accounts (three SQLite tables), the class
  \<open>User\<close> with its access keys and SSH keys, and \<open>run_instances\<close>, which checks the key
  name and the spending limit before it launches with the root credentials.

  A table is the list of its rows. SQLite enforces foreign keys only when asked to, and the
  code does not ask, so that \<open>ON DELETE CASCADE\<close> has no effect.
\<close>


section \<open>The database\<close>

record user_row =
  u_name :: string
  u_create_time :: string
  u_create_account :: string
  u_password :: "string option"

record access_row =
  ak_user :: string
  ak_key :: string
  ak_secret :: string

record ssh_row =
  sk_user :: string
  sk_name :: string
  sk_private :: string
  sk_fingerprint :: string

record users_db =
  users :: "user_row list"
  access_keys :: "access_row list"
  ssh_keys :: "ssh_row list"

record acct_world = world +
  db :: users_db

text \<open>
  The SQL statements: \<open>INSERT OR REPLACE\<close> removes the row with the same primary key first,
  \<open>INSERT OR IGNORE\<close> does nothing when there is one.
\<close>

definition replace_user :: "user_row \<Rightarrow> users_db \<Rightarrow> users_db" where
  "replace_user r d = d\<lparr>users := filter (\<lambda>x. u_name x \<noteq> u_name r) (users d) @ [r]\<rparr>"

definition insert_access_key :: "access_row \<Rightarrow> users_db \<Rightarrow> users_db" where
  "insert_access_key r d =
     (if \<exists>x \<in> set (access_keys d). ak_key x = ak_key r then d
      else d\<lparr>access_keys := access_keys d @ [r]\<rparr>)"

definition replace_ssh_key :: "ssh_row \<Rightarrow> users_db \<Rightarrow> users_db" where
  "replace_ssh_key r d = d\<lparr>ssh_keys := filter (\<lambda>x. sk_name x \<noteq> sk_name r) (ssh_keys d) @ [r]\<rparr>"

definition delete_user_row :: "string \<Rightarrow> users_db \<Rightarrow> users_db" where
  "delete_user_row n d = d\<lparr>users := filter (\<lambda>x. u_name x \<noteq> n) (users d)\<rparr>"

definition delete_access_row :: "string \<Rightarrow> string \<Rightarrow> users_db \<Rightarrow> users_db" where
  "delete_access_row k n d =
     d\<lparr>access_keys := filter (\<lambda>x. \<not> (ak_key x = k \<and> ak_user x = n)) (access_keys d)\<rparr>"

definition delete_ssh_row :: "string \<Rightarrow> string \<Rightarrow> users_db \<Rightarrow> users_db" where
  "delete_ssh_row k n d =
     d\<lparr>ssh_keys := filter (\<lambda>x. \<not> (sk_name x = k \<and> sk_user x = n)) (ssh_keys d)\<rparr>"

definition on_db :: "(users_db \<Rightarrow> users_db) \<Rightarrow> (acct_world, unit) st" where
  "on_db f = modify (\<lambda>w. w\<lparr>db := f (db w)\<rparr>)"

definition user_exists :: "string \<Rightarrow> users_db \<Rightarrow> bool" where
  "user_exists n d \<longleftrightarrow> (\<exists>r \<in> set (users d). u_name r = n)"

text \<open>The primary keys: what every statement keeps of the tables.\<close>

definition db_ok :: "users_db \<Rightarrow> bool" where
  "db_ok d \<longleftrightarrow> distinct (map u_name (users d)) \<and> distinct (map ak_key (access_keys d))
     \<and> distinct (map sk_name (ssh_keys d))"

lemma distinct_map_snoc_filter:
  "distinct (map f xs) \<Longrightarrow> distinct (map f (filter (\<lambda>x. f x \<noteq> f r) xs @ [r]))"
  by (auto simp: distinct_map inj_on_def)

lemma distinct_map_filterI: "distinct (map f xs) \<Longrightarrow> distinct (map f (filter p xs))"
  by (simp add: distinct_map_filter)

lemma db_ok_statements [intro]:
  "db_ok d \<Longrightarrow> db_ok (replace_user ur d)"
  "db_ok d \<Longrightarrow> db_ok (insert_access_key ar d)"
  "db_ok d \<Longrightarrow> db_ok (replace_ssh_key sr d)"
  "db_ok d \<Longrightarrow> db_ok (delete_user_row n d)"
  "db_ok d \<Longrightarrow> db_ok (delete_access_row k n d)"
  "db_ok d \<Longrightarrow> db_ok (delete_ssh_row k n d)"
  using distinct_map_snoc_filter [of u_name "users d" ur]
    distinct_map_snoc_filter [of sk_name "ssh_keys d" sr]
  by (auto simp: db_ok_def replace_user_def insert_access_key_def replace_ssh_key_def
      delete_user_row_def delete_access_row_def delete_ssh_row_def intro: distinct_map_filterI)


section \<open>The account object\<close>

text \<open>
  \<open>acc_conn\<close> is the credential of \<open>self.iam\<close> and \<open>self.ec2\<close>; without one the attributes do
  not exist.
\<close>

record account =
  acc_name :: string
  acc_keys :: "(string \<times> string) list"
  acc_conn :: "(string \<times> string) option"

definition rows_of :: "string \<Rightarrow> users_db \<Rightarrow> (string \<times> string) list" where
  "rows_of n d = map (\<lambda>r. (ak_key r, ak_secret r)) (filter (\<lambda>r. ak_user r = n) (access_keys d))"

definition init_access_keys :: "account \<Rightarrow> (acct_world, account) st" where
  "init_access_keys acc =
     gets (\<lambda>w. let keys = rows_of (acc_name acc) (db w)
               in acc\<lparr>acc_keys := keys, acc_conn := (if keys = [] then acc_conn acc else Some (hd keys))\<rparr>)"

definition new_user :: "string \<Rightarrow> (acct_world, account) st" where
  "new_user n = init_access_keys \<lparr>acc_name = n, acc_keys = [], acc_conn = None\<rparr>"

text \<open>\<open>ord\<close> of the last two characters; a shorter name raises when it is indexed.\<close>

definition proxy_port_base :: "account \<Rightarrow> py_exc + int" where
  "proxy_port_base acc =
     (let n = acc_name acc; end = drop (length n - 2) n
      in if length end < 2 then Inl IndexError
         else Inr (((int (of_char (end ! 0)) - 97) * 26 + (int (of_char (end ! 1)) - 97)) * 3 + 40000))"

definition get_password :: "account \<Rightarrow> users_db \<Rightarrow> string option" where
  "get_password acc d =
     (case filter (\<lambda>r. u_name r = acc_name acc) (users d) of
        [] \<Rightarrow> None
      | r # _ \<Rightarrow> Some (case u_password r of None \<Rightarrow> ''None'' | Some p \<Rightarrow> p))"

text \<open>\<open>iam_root\<close> and \<open>user_name\<close> are not names of the module.\<close>

definition set_password :: "account \<Rightarrow> string \<Rightarrow> (acct_world, unit) st" where
  "set_password acc new_password = raise (NameError ''iam_root'')"

definition create_access_key :: "env \<Rightarrow> account \<Rightarrow> (acct_world, account) st" where
  "create_access_key E acc =
     bnd (perform (ans_access_key E) (Iam (IamCreateAccessKey (acc_name acc)))) (\<lambda>(key, secret).
     andthen (audit_log E (''Creating access key '' @ acc_name acc @ '' for '' @ key))
    (andthen (on_db (insert_access_key \<lparr>ak_user = acc_name acc, ak_key = key, ak_secret = secret\<rparr>))
             (init_access_keys acc)))"

definition get_ssh_keys :: "account \<Rightarrow> users_db \<Rightarrow> (string, string \<times> string) dict" where
  "get_ssh_keys acc d =
     map (\<lambda>r. (sk_name r, (sk_private r, sk_fingerprint r)))
       (filter (\<lambda>r. sk_user r = acc_name acc) (ssh_keys d))"

definition key_char :: "char \<Rightarrow> bool" where
  "key_char c \<longleftrightarrow>
     c \<in> set ''-abcdefghijklmnopqrstuvwxyzABCDEFGHIJKLMNOPQRSTUVWXYZ0123456789_''"

definition full_key_name :: "string \<Rightarrow> string \<Rightarrow> string" where
  "full_key_name user key_name0 =
     (let key_name = filter key_char key_name0
      in if \<not> py_startswith key_name (user @ ''-'') then user @ ''-'' @ key_name else key_name)"

definition create_ssh_key :: "env \<Rightarrow> account \<Rightarrow> string \<Rightarrow> (acct_world, unit) st" where
  "create_ssh_key E acc key_name =
     (let full_name = full_key_name (acc_name acc) key_name in
      bnd (perform (ans_keypair E) (CreateKeyPair full_name)) (\<lambda>keypair.
      andthen (audit_log E (''Creating SSH keypair '' @ full_name @ '' for '' @ acc_name acc))
        (on_db (replace_ssh_key \<lparr>sk_user = acc_name acc, sk_name = full_name,
           sk_private = kp_material keypair, sk_fingerprint = kp_fingerprint keypair\<rparr>))))"

text \<open>
  \<open>ec2.get_key_pair(key_name).delete\<close> looks the method up and does not call it; a key pair
  that EC2 does not know is \<open>None\<close>, which has no such attribute.
\<close>

definition delete_ssh_key :: "env \<Rightarrow> account \<Rightarrow> string \<Rightarrow> (acct_world, unit) st" where
  "delete_ssh_key E acc key_name =
     bnd (gets (\<lambda>w. dget (get_ssh_keys acc (db w)) key_name)) (\<lambda>present.
     if present = None then ret ()
     else bnd (perform (ans_texts E) (GetKeyPair key_name)) (\<lambda>found.
          if found = [] then raise (AttributeError ''delete'')
          else andthen (audit_log E (''Delete SSH key '' @ key_name))
                 (on_db (delete_ssh_row key_name (acc_name acc)))))"

text \<open>
  \<open>self.init_iam\<close> and \<open>self.init_access_keys\<close> are looked up and not called: the object's
  list of keys is the one of its last initialisation.
\<close>

definition delete_access_key :: "env \<Rightarrow> account \<Rightarrow> string \<Rightarrow> (acct_world, unit) st" where
  "delete_access_key E acc access_key =
     (if filter (\<lambda>x. fst x = access_key) (acc_keys acc) = [] then ret ()
      else andthen (do_call E (Iam (IamDeleteAccessKey access_key (acc_name acc))))
          (andthen (audit_log E (''Deleted access key '' @ access_key))
             (on_db (delete_access_row access_key (acc_name acc)))))"



section \<open>Instances, cost and launching\<close>

text \<open>
  A missing \<open>key_name\<close> is \<open>None\<close>, which has no \<open>startswith\<close>. The second component is
  the attribute \<open>groups\<close> that the code adds to the instance.
\<close>

definition key_startswith :: "string option \<Rightarrow> string \<Rightarrow> py_exc + bool" where
  "key_startswith k p =
     (case k of None \<Rightarrow> Inl (AttributeError ''startswith'') | Some s \<Rightarrow> Inr (py_startswith s p))"

fun keyed_instances ::
  "string \<Rightarrow> (ec2_instance \<times> string list) list \<Rightarrow> py_exc + (ec2_instance \<times> string list) list" where
  "keyed_instances p [] = Inr []"
| "keyed_instances p ((i, gs) # xs) =
     (case key_startswith (i_key_name i) p of
        Inl e \<Rightarrow> Inl e
      | Inr b \<Rightarrow> (case keyed_instances p xs of
                   Inl e \<Rightarrow> Inl e
                 | Inr ys \<Rightarrow> Inr (if b then (i, gs) # ys else ys)))"

definition all_with_groups :: "reservation list \<Rightarrow> (ec2_instance \<times> string list) list" where
  "all_with_groups rs = concat (map (\<lambda>r. map (\<lambda>i. (i, r_groups r)) (r_instances r)) rs)"

definition has_conn :: "account \<Rightarrow> (acct_world, unit) st" where
  "has_conn acc = (if acc_conn acc = None then raise (AttributeError ''ec2'') else ret ())"

definition running_instances ::
  "env \<Rightarrow> account \<Rightarrow> (acct_world, (ec2_instance \<times> string list) list) st" where
  "running_instances E acc =
     andthen (has_conn acc)
    (bnd (perform (ans_instances E) (GetAllInstances None (Some [(''key-name'', acc_name acc @ ''*'')])))
      (\<lambda>all_instances.
        bnd (lift_sum (keyed_instances (acc_name acc @ ''-'') (all_with_groups all_instances)))
          (\<lambda>result. ret (filter (\<lambda>x. i_state (fst x) \<noteq> ''terminated'') result))))"

fun keyed_spots :: "string \<Rightarrow> spot_request list \<Rightarrow> py_exc + spot_request list" where
  "keyed_spots p [] = Inr []"
| "keyed_spots p (x # xs) =
     (case key_startswith (s_key_name x) p of
        Inl e \<Rightarrow> Inl e
      | Inr b \<Rightarrow> (case keyed_spots p xs of
                   Inl e \<Rightarrow> Inl e
                 | Inr ys \<Rightarrow> Inr (if b then x # ys else ys)))"

definition running_spot_requests :: "env \<Rightarrow> account \<Rightarrow> (acct_world, spot_request list) st" where
  "running_spot_requests E acc =
     andthen (has_conn acc)
    (bnd (perform (ans_spots E) (GetAllSpotRequests None (Some [(''launch.key_name'', acc_name acc @ ''*'')])))
      (\<lambda>requests.
        bnd (lift_sum (keyed_spots (acc_name acc @ ''-'') requests))
          (\<lambda>relevant. ret (filter (\<lambda>x. s_state x = ''open'') relevant))))"

definition INSTANCE_COST :: "(string, pyval) dict" where
  "INSTANCE_COST =
    [(''m1.small'', PInt 1), (''m1.large'', PInt 4), (''m1.xlarge'', PInt 8),
     (''t1.micro'', PFloat (2 / 10)), (''m2.xlarge'', PFloat (59 / 10)),
     (''m2.2xlarge'', PFloat (118 / 10)), (''m2.4xlarge'', PFloat (236 / 10)),
     (''c1.medium'', PInt 2), (''c1.xlarge'', PInt 8), (''cc1.4xlarge'', PFloat (188 / 10))]"

definition SPOT_BASE :: rat where "SPOT_BASE = 86 / 1000"
definition SPEND_LIMIT :: rat where "SPEND_LIMIT = 60"

text \<open>\<open>INSTANCE_COST[v]\<close> for any value: lists and dicts cannot be keys.\<close>

definition instance_cost :: "pyval \<Rightarrow> py_exc + pyval" where
  "instance_cost v =
     (case v of PStr s \<Rightarrow> dlookup INSTANCE_COST s
      | PList _ \<Rightarrow> Inl TypeError | PDict _ \<Rightarrow> Inl TypeError | _ \<Rightarrow> Inl (KeyError []))"

fun total_cost :: "ec2_instance list \<Rightarrow> py_exc + pyval" where
  "total_cost [] = Inr (PInt 0)"
| "total_cost (i # xs) =
     (case instance_cost (PStr (i_type i)) of
        Inl e \<Rightarrow> Inl e
      | Inr c \<Rightarrow> (case total_cost xs of Inl e \<Rightarrow> Inl e | Inr t \<Rightarrow> py_add c t))"

definition cost_instances :: "env \<Rightarrow> account \<Rightarrow> (acct_world, pyval) st" where
  "cost_instances E acc =
     bnd (running_instances E acc) (\<lambda>instances. lift_sum (total_cost (map fst instances)))"

definition cost_proposal :: "pyval \<Rightarrow> pyval \<Rightarrow> py_exc + pyval" where
  "cost_proposal instance_type num_instances =
     (case instance_cost instance_type of Inl e \<Rightarrow> Inl e | Inr c \<Rightarrow> py_mul c num_instances)"

definition py_startswith_val :: "pyval \<Rightarrow> string \<Rightarrow> py_exc + bool" where
  "py_startswith_val v p =
     (case v of PStr s \<Rightarrow> Inr (py_startswith s p) | _ \<Rightarrow> Inl (AttributeError ''startswith''))"

datatype launched = Spots "spot_request list" | Reserved reservation

text \<open>
  \<open>show\<close> is the text of a dict in a log message (\<open>%s\<close>). \<open>info\<close> is a request as JSON
  delivered it: every key may be missing, every value of any type.
\<close>

definition item :: "pydict \<Rightarrow> string \<Rightarrow> ('s, pyval) st" where
  "item info k = lift_sum (dlookup info k)"

definition launch_spot :: "env \<Rightarrow> pydict \<Rightarrow> (acct_world, launched) st" where
  "launch_spot E info =
     bnd (item info ''instance_type'') (\<lambda>ty.
     bnd (lift_sum (instance_cost ty)) (\<lambda>cost.
     bnd (lift_sum (py_mul cost (PFloat SPOT_BASE))) (\<lambda>spot_price.
     bnd (item info ''image_id'') (\<lambda>image.
     bnd (item info ''count'') (\<lambda>count.
     bnd (item info ''key_name'') (\<lambda>key.
     bnd (item info ''security_groups'') (\<lambda>groups.
     bnd (perform (ans_spots E) (RequestSpot
       \<lparr>so_price = spot_price, so_image_id = image, so_count = count, so_key_name = key,
        so_security_groups = groups, so_user_data = pget info ''user_data'',
        so_instance_type = ty, so_placement = pget info ''availability_zone''\<rparr>))
       (\<lambda>rs. ret (Spots rs)))))))))"

definition launch_demand :: "env \<Rightarrow> pydict \<Rightarrow> (acct_world, launched) st" where
  "launch_demand E info =
     bnd (item info ''image_id'') (\<lambda>image.
     bnd (item info ''count'') (\<lambda>count.
     bnd (item info ''key_name'') (\<lambda>key.
     bnd (item info ''security_groups'') (\<lambda>groups.
     bnd (item info ''user_data'') (\<lambda>data.
     bnd (item info ''instance_type'') (\<lambda>ty.
     bnd (perform (ans_reservation E) (RunInstances
       \<lparr>rq_image_id = image, rq_min_count = count, rq_max_count = count, rq_key_name = key,
        rq_security_groups = groups, rq_user_data = data, rq_instance_type = ty,
        rq_placement = pget info ''availability_zone''\<rparr>))
       (\<lambda>r. ret (Reserved r))))))))"

text \<open>
  \<open>run_instances\<close>, in three parts: the cost of what runs, the checks of the request, and the
  launch itself.
\<close>

definition launch_request ::
  "(pydict \<Rightarrow> string) \<Rightarrow> env \<Rightarrow> account \<Rightarrow> pydict \<Rightarrow> (acct_world, launched) st" where
  "launch_request show E acc info =
     andthen (audit_log E (''Making instance requset '' @ show (ddel ''user_data'' info)
                @ '' for '' @ acc_name acc))
    (bnd (item info ''use_spot'') (\<lambda>use_spot.
     if py_truth use_spot then launch_spot E info else launch_demand E info))"

definition reject_request ::
  "(pydict \<Rightarrow> string) \<Rightarrow> env \<Rightarrow> account \<Rightarrow> pydict \<Rightarrow> string \<Rightarrow> string \<Rightarrow> (acct_world, launched) st" where
  "reject_request show E acc info reason message =
     andthen (audit_log E (''Rejecting instance request '' @ acc_name acc @ '' (for ''
                @ show (ddel ''user_data'' info) @ '') because of '' @ reason))
       (raise (PlainError message))"

definition over_limit :: "pyval \<Rightarrow> bool" where
  "over_limit t = (case as_num t of Some q \<Rightarrow> SPEND_LIMIT < q | None \<Rightarrow> True)"

datatype verdict = WrongKey | TooCostly | Allowed

definition judge_request :: "account \<Rightarrow> pydict \<Rightarrow> pyval \<Rightarrow> py_exc + verdict" where
  "judge_request acc info old_cost =
     (case dlookup info ''instance_type'' of Inl e \<Rightarrow> Inl e | Inr ty \<Rightarrow>
     (case dlookup info ''count'' of Inl e \<Rightarrow> Inl e | Inr count \<Rightarrow>
     (case cost_proposal ty count of Inl e \<Rightarrow> Inl e | Inr extra_cost \<Rightarrow>
     (case dlookup info ''key_name'' of Inl e \<Rightarrow> Inl e | Inr key \<Rightarrow>
     (case py_startswith_val key (acc_name acc) of Inl e \<Rightarrow> Inl e | Inr own_key \<Rightarrow>
        if \<not> own_key then Inr WrongKey
        else (case py_add old_cost extra_cost of Inl e \<Rightarrow> Inl e | Inr t \<Rightarrow>
                if over_limit t then Inr TooCostly else Inr Allowed))))))"

definition check_request ::
  "(pydict \<Rightarrow> string) \<Rightarrow> env \<Rightarrow> account \<Rightarrow> pydict \<Rightarrow> pyval \<Rightarrow> (acct_world, launched) st" where
  "check_request show E acc info old_cost =
     bnd (lift_sum (judge_request acc info old_cost)) (\<lambda>v.
       case v of
         WrongKey \<Rightarrow> reject_request show E acc info ''key'' ''Needs to be associated with SSH key''
       | TooCostly \<Rightarrow> reject_request show E acc info ''cost'' ''Excessive instance cost''
       | Allowed \<Rightarrow> launch_request show E acc info)"

definition run_instances ::
  "(pydict \<Rightarrow> string) \<Rightarrow> env \<Rightarrow> account \<Rightarrow> pydict \<Rightarrow> (acct_world, launched) st" where
  "run_instances show E acc info = bnd (cost_instances E acc) (check_request show E acc info)"


section \<open>Creating and deleting users\<close>

text \<open>
  \<open>auditlog\<close> is not a name of the module (the function is \<open>audit_log\<close>): the first statement
  of the \<open>try\<close> raises \<open>NameError\<close>, which the handler for \<open>StandardError\<close> swallows.
\<close>

definition iam_delete_body :: "env \<Rightarrow> string \<Rightarrow> ('w world_scheme, unit) st" where
  "iam_delete_body E n =
     andthen (do_call E (Iam (IamGetUser n)))
    (andthen (bnd (perform (ans_texts E) (Iam (IamListPolicies n)))
               (for_each (\<lambda>p. do_call E (Iam (IamDeletePolicy n p)))))
    (andthen (bnd (perform (ans_texts E) (Iam (IamListGroups n)))
               (for_each (\<lambda>g. do_call E (Iam (IamRemoveFromGroup g n)))))
    (andthen (bnd (perform (ans_texts E) (Iam (IamListCerts n)))
               (for_each (\<lambda>c. do_call E (Iam (IamDeleteCert c n)))))
             (bnd (perform (ans_texts E) (Iam (IamListAccessKeys n)))
               (for_each (\<lambda>k. do_call E (Iam (IamDeleteAccessKey k n))))))))"

definition iam_delete_user :: "env \<Rightarrow> string \<Rightarrow> ('w world_scheme, unit) st" where
  "iam_delete_user E n =
     try_except (andthen (raise (NameError ''auditlog'') :: ('w world_scheme, unit) st) (iam_delete_body E n))
       is_standard_error (\<lambda>_. ret ())"

text \<open>\<open>s.append\<close> on a string: the first of the eight iterations raises.\<close>

definition random_password :: "('s, string) st" where
  "random_password = raise (AttributeError ''append'')"

definition delete_user :: "env \<Rightarrow> string \<Rightarrow> (acct_world, unit) st" where
  "delete_user E n = andthen (iam_delete_user E n) (on_db (delete_user_row n))"

text \<open>
  \<open>policy n\<close> is the JSON text of \<open>get_user_policy\<close> in simplejson's normal form; \<open>owner\<close>
  is the name of the calling user.
\<close>

definition make_user ::
  "(string \<Rightarrow> string) \<Rightarrow> string \<Rightarrow> env \<Rightarrow> string \<Rightarrow> (acct_world, account) st" where
  "make_user policy owner E n =
     andthen (audit_log E (''Creating user '' @ n))
    (andthen (iam_delete_user E n)
    (andthen (do_call E (Iam (IamCreateUser n)))
    (andthen (do_call E (Iam (IamAddUserToGroup ''students'' n)))
    (andthen (do_call E (Iam (IamPutUserPolicy n (n @ ''-user'') (policy n))))
    (bnd random_password (\<lambda>password.
     andthen (do_call E (Iam (IamCreateLoginProfile n password)))
    (bnd (perform (ans_text E) (Os NowText)) (\<lambda>now.
     andthen (on_db (replace_user \<lparr>u_name = n, u_create_time = now, u_create_account = owner,
                       u_password = Some password\<rparr>))
             (new_user n)))))))))"

section \<open>The launch guard\<close>

definition cost_of :: "string \<Rightarrow> rat" where
  "cost_of ty = (case dget INSTANCE_COST ty of
     Some v \<Rightarrow> (case as_num v of Some q \<Rightarrow> q | None \<Rightarrow> 0) | None \<Rightarrow> 0)"

lemma instance_cost_entries: "list_all (\<lambda>(k, v). case as_num v of Some q \<Rightarrow> 0 < q | None \<Rightarrow> False) INSTANCE_COST"
  by (simp add: INSTANCE_COST_def)

lemma instance_cost_num:
  assumes "instance_cost (PStr ty) = Inr c"
  shows "as_num c = Some (cost_of ty)" and "0 < cost_of ty"
proof -
  from assms have c: "dget INSTANCE_COST ty = Some c" by (simp add: instance_cost_def)
  then have "(ty, c) \<in> set INSTANCE_COST" by (rule map_of_SomeD)
  then have "case as_num c of Some q \<Rightarrow> 0 < q | None \<Rightarrow> False"
    using instance_cost_entries by (fastforce simp: list_all_iff)
  then show "as_num c = Some (cost_of ty)" "0 < cost_of ty"
    by (auto simp: cost_of_def c split: option.splits)
qed

lemma total_cost_num:
  "total_cost xs = Inr t \<Longrightarrow> as_num t = Some (\<Sum>i\<leftarrow>xs. cost_of (i_type i))"
proof (induction xs arbitrary: t)
  case (Cons i xs)
  then obtain c t' where *: "instance_cost (PStr (i_type i)) = Inr c" "total_cost xs = Inr t'"
      "py_add c t' = Inr t"
    by (auto split: sum.splits)
  from as_num_py_add [OF instance_cost_num(1) [OF *(1)] Cons.IH [OF *(2)] *(3)]
  show ?case by simp
qed simp

fun is_launch :: "call \<Rightarrow> bool" where
  "is_launch (RunInstances _) = True"
| "is_launch (RequestSpot _) = True"
| "is_launch _ = False"

abbreviation no_launch :: "call \<Rightarrow> bool" where
  "no_launch c \<equiv> \<not> is_launch c"

lemma cost_instances_no_launch: "only_calls no_launch (cost_instances E acc)"
  by (auto simp: cost_instances_def running_instances_def has_conn_def intro!: call_rules)

lemma audit_log_no_launch: "only_calls no_launch (audit_log E m)"
  by (auto simp: audit_log_def intro!: call_rules)

lemma cost_instances_num:
  assumes "cost_instances E acc w = (Inr old, w')"
  shows "\<exists>q. as_num old = Some q"
proof -
  from assms obtain xs where "total_cost xs = Inr old"
    by (auto simp: cost_instances_def lift_sum_def elim!: bnd_InrE)
  then show ?thesis using total_cost_num by blast
qed

lemma only_no_launch_trail:
  "only_calls no_launch m \<Longrightarrow> m w = (r, w') \<Longrightarrow> \<exists>cs. trail w' = trail w @ cs \<and> (\<forall>c \<in> set cs. no_launch c)"
  using only_callsD by (fastforce simp: list_all_iff)

text \<open>The check of \<open>run_instances\<close>: what must hold for it to go on to a launch.\<close>

definition launch_allowed :: "account \<Rightarrow> pyval \<Rightarrow> pydict \<Rightarrow> bool" where
  "launch_allowed acc old info \<longleftrightarrow>
     (\<exists>key ty n extra q x. dget info ''key_name'' = Some (PStr key) \<and> py_startswith key (acc_name acc)
        \<and> dget info ''instance_type'' = Some ty \<and> dget info ''count'' = Some n
        \<and> cost_proposal ty n = Inr extra \<and> as_num old = Some q \<and> as_num extra = Some x
        \<and> q + x \<le> SPEND_LIMIT)"

lemma cost_proposal_num:
  assumes "cost_proposal ty n = Inr extra" and "as_num n = Some m"
  shows "\<exists>t. ty = PStr t \<and> as_num extra = Some (cost_of t * m)"
proof -
  from assms(1) obtain c where c: "instance_cost ty = Inr c" "py_mul c n = Inr extra"
    by (auto simp: cost_proposal_def split: sum.splits)
  then obtain t where t: "ty = PStr t"
    by (cases ty) (auto simp: instance_cost_def)
  with c have "as_num c = Some (cost_of t)" using instance_cost_num(1) by simp
  with c assms(2) t show ?thesis using as_num_py_mul by blast
qed

lemma py_add_num_arg: "as_num a = Some x \<Longrightarrow> py_add a b = Inr c \<Longrightarrow> \<exists>y. as_num b = Some y"
  by (cases a; cases b) (auto simp: py_add_def)

lemma judge_allowed:
  assumes "judge_request acc info old = Inr Allowed" and q: "as_num old = Some q"
  shows "launch_allowed acc old info"
proof -
  from assms(1) obtain ty n extra key t where *: "dget info ''instance_type'' = Some ty"
      "dget info ''count'' = Some n" "cost_proposal ty n = Inr extra" "dget info ''key_name'' = Some (PStr key)"
      "py_startswith key (acc_name acc)" "py_add old extra = Inr t" "\<not> over_limit t"
    by (auto simp: judge_request_def py_startswith_val_def split: sum.splits pyval.splits if_splits)
  from py_add_num_arg [OF q *(6)] obtain x where x: "as_num extra = Some x" ..
  have "q + x \<le> SPEND_LIMIT"
    using *(6,7) as_num_py_add [OF q x] by (auto simp: over_limit_def)
  with * q x show ?thesis unfolding launch_allowed_def by blast
qed

lemma reject_request_no_launch:
  assumes "reject_request show E acc info a b w = (r, w')"
  shows "\<exists>e. r = Inl e" and "\<exists>cs. trail w' = trail w @ cs \<and> (\<forall>c \<in> set cs. no_launch c)"
  using assms
  by (auto simp: reject_request_def audit_log_def do_call_def perform_def st_defs split: sum.splits)

text \<open>The launch is the one that was checked: same type, count and key.\<close>

fun launch_matches :: "pydict \<Rightarrow> call \<Rightarrow> bool" where
  "launch_matches info (RunInstances q) \<longleftrightarrow>
     dget info ''instance_type'' = Some (rq_instance_type q) \<and> dget info ''count'' = Some (rq_max_count q)
     \<and> rq_min_count q = rq_max_count q \<and> dget info ''key_name'' = Some (rq_key_name q)"
| "launch_matches info (RequestSpot q) \<longleftrightarrow>
     dget info ''instance_type'' = Some (so_instance_type q) \<and> dget info ''count'' = Some (so_count q)
     \<and> dget info ''key_name'' = Some (so_key_name q)"
| "launch_matches info _ \<longleftrightarrow> False"

lemma launch_spot_calls: "launch_spot E info w = (r, w') \<Longrightarrow>
    trail w' = trail w \<or> (\<exists>q. trail w' = trail w @ [RequestSpot q] \<and> launch_matches info (RequestSpot q))"
  by (auto simp: launch_spot_def item_def dlookup_def st_defs perform_def split: sum.splits option.splits)

lemma launch_demand_calls: "launch_demand E info w = (r, w') \<Longrightarrow>
    trail w' = trail w \<or> (\<exists>q. trail w' = trail w @ [RunInstances q] \<and> launch_matches info (RunInstances q))"
  by (auto simp: launch_demand_def item_def dlookup_def st_defs perform_def split: sum.splits option.splits)

lemma launch_request_calls:
  assumes "launch_request show E acc info w = (r, w')"
  obtains (none) c where "trail w' = trail w @ [c]" "no_launch c"
  | (one) c d where "trail w' = trail w @ [c, d]" "no_launch c" "launch_matches info d"
proof -
  obtain r1 w1 where 1: "audit_log E (''Making instance requset '' @ show (ddel ''user_data'' info)
                @ '' for '' @ acc_name acc) w = (r1, w1)" by fastforce
  obtain c1 where c1: "trail w1 = trail w @ [c1]" "no_launch c1"
    using 1 by (auto simp: audit_log_def do_call_def perform_def)
  have "trail w' = trail w1 \<or> (\<exists>c. trail w' = trail w1 @ [c] \<and> launch_matches info c)"
    using assms 1
    by (auto simp: launch_request_def andthen_def bnd_def item_def lift_sum_def dlookup_def
        dest!: launch_spot_calls launch_demand_calls split: sum.splits option.splits if_splits)
  with c1 show ?thesis using none one by auto
qed

lemma run_instances_cases:
  assumes "run_instances show E acc info w = (r, w')"
  obtains (refused) cs e where "trail w' = trail w @ cs" "\<forall>c \<in> set cs. no_launch c" "r = Inl e"
  | (allowed) old w1 where "cost_instances E acc w = (Inr old, w1)" "launch_allowed acc old info"
      "launch_request show E acc info w1 = (r, w')"
proof -
  obtain r1 w1 where 1: "cost_instances E acc w = (r1, w1)" by fastforce
  then obtain cs1 where cs1: "trail w1 = trail w @ cs1" "\<forall>c \<in> set cs1. no_launch c"
    using only_no_launch_trail [OF cost_instances_no_launch] by blast
  show thesis
  proof (cases r1)
    case (Inl e)
    with 1 assms cs1 show ?thesis by (intro refused [of cs1 e]) (auto simp: run_instances_def bnd_def)
  next
    case (Inr old)
    with 1 have cost: "cost_instances E acc w = (Inr old, w1)" by simp
    with assms have check: "check_request show E acc info old w1 = (r, w')"
      by (simp add: run_instances_def bnd_def)
    show ?thesis
    proof (cases "judge_request acc info old")
      case (Inl e)
      with check cs1 refused show ?thesis by (auto simp: check_request_def raise_def)
    next
      case (Inr v)
      show ?thesis
      proof (cases "v = Allowed")
        case True
        with Inr check cost allowed show ?thesis
          using judge_allowed cost_instances_num [OF cost] by (auto simp: check_request_def)
      next
        case False
        with Inr check obtain a b where "reject_request show E acc info a b w1 = (r, w')"
          by (cases v) (auto simp: check_request_def)
        from reject_request_no_launch [OF this] obtain e cs
          where "r = Inl e" "trail w' = trail w1 @ cs" "\<forall>c \<in> set cs. no_launch c" by blast
        with cs1 show ?thesis by (intro refused [of "cs1 @ cs" e]) auto
      qed
    qed
  qed
qed


lemmas run_defs = run_instances_def cost_instances_def running_instances_def has_conn_def
  check_request_def judge_request_def launch_request_def reject_request_def
  launch_spot_def launch_demand_def audit_log_def do_call_def perform_def item_def dlookup_def
  cost_proposal_def instance_cost_def py_startswith_val_def over_limit_def st_defs

text \<open>A user, an environment in which nothing runs and every call works, and a request.\<close>

definition user_ab :: account where
  "user_ab = \<lparr>acc_name = ''cs61c-ab'', acc_keys = [(''AK'', ''SK'')], acc_conn = Some (''AK'', ''SK'')\<rparr>"

definition env_idle :: env where
  "env_idle = env0\<lparr>ans_instances := \<lambda>_. Inr [], ans_spots := \<lambda>_. Inr [], ans_unit := \<lambda>_. Inr (),
     ans_reservation := \<lambda>_. Inr \<lparr>r_groups = [], r_instances = []\<rparr>\<rparr>"

definition req :: "string \<Rightarrow> int \<Rightarrow> bool \<Rightarrow> pydict" where
  "req ty n spot = [(''image_id'', PStr ''ami-1''), (''count'', PInt n), (''instance_type'', PStr ty),
     (''key_name'', PStr ''cs61c-ab-default''), (''security_groups'', PList []),
     (''user_data'', PStr []), (''use_spot'', PBool spot)]"

definition acct0 :: acct_world where
  "acct0 = \<lparr>trail = [], db = \<lparr>users = [], access_keys = [], ssh_keys = []\<rparr>\<rparr>"

lemma num_simps: "as_num (PInt i) = Some (of_int i)" by simp

lemma py_mul_PInt: "py_mul (PInt a) (PInt b) = Inr (PInt (a * b))"
  by (simp add: py_mul_def num_val_def flip: of_int_mult)

lemma py_add_PInt: "py_add (PInt a) (PInt b) = Inr (PInt (a + b))"
  by (simp add: py_add_def num_val_def flip: of_int_add)

definition example_calls :: "call list" where
  "example_calls = [GetAllInstances None (Some [(''key-name'', ''cs61c-ab*'')]),
     Os (AuditLog (audit_message (''Making instance requset '' @ '' for cs61c-ab''))),
     RunInstances \<lparr>rq_image_id = PStr ''ami-1'', rq_min_count = PInt 5, rq_max_count = PInt 5,
       rq_key_name = PStr ''cs61c-ab-default'', rq_security_groups = PList [], rq_user_data = PStr [],
       rq_instance_type = PStr ''m1.small'', rq_placement = PNone\<rparr>]"

lemma trail_acct0 [simp]: "trail acct0 = []"
  by (simp add: acct0_def)

lemma run_example: "run_instances (\<lambda>_. []) env_idle user_ab (req ''m1.small'' 5 False) acct0 =
  (Inr (Reserved \<lparr>r_groups = [], r_instances = []\<rparr>), acct0\<lparr>trail := example_calls\<rparr>)"
  by (simp add: run_defs env_idle_def user_ab_def req_def acct0_def INSTANCE_COST_def py_mul_PInt py_add_PInt
    all_with_groups_def SPEND_LIMIT_def py_startswith_def pget_def example_calls_def)


text \<open>
  Over the limit means refused. When the running instances and the requested ones together
  cost more than the limit of 60 units, the request raises on every path and launches nothing;
  exactly at the limit it is still allowed.
\<close>

theorem run_instances_over_limit:
  assumes old: "cost_instances E acc w = (Inr old, w1)" and q: "as_num old = Some q"
    and ty: "dget info ''instance_type'' = Some (PStr ty)"
    and n: "dget info ''count'' = Some (PInt n)" and limit: "60 < q + cost_of ty * of_int n"
    and run: "run_instances show E acc info w = (r, w')"
  shows "\<exists>e cs. r = Inl e \<and> trail w' = trail w @ cs \<and> (\<forall>c \<in> set cs. no_launch c)"
  using run
proof (cases rule: run_instances_cases)
  case (refused cs e)
  then show ?thesis by blast
next
  case (allowed old' w1')
  then obtain extra x where "cost_proposal (PStr ty) (PInt n) = Inr extra" "as_num extra = Some x"
      "q + x \<le> SPEND_LIMIT"
    using old q ty n by (auto simp: launch_allowed_def)
  moreover from this(1) have "as_num extra = Some (cost_of ty * of_int n)"
    using cost_proposal_num by fastforce
  ultimately show ?thesis using limit by (simp add: SPEND_LIMIT_def)
qed

theorem run_instances_over_limit_witness:
  "\<exists>e. fst (run_instances (\<lambda>_. []) env_idle user_ab (req ''c1.xlarge'' 8 True) acct0) = Inl e"
proof -
  let ?run = "run_instances (\<lambda>_. []) env_idle user_ab (req ''c1.xlarge'' 8 True) acct0"
  have old: "cost_instances env_idle user_ab acct0 =
      (Inr (PInt 0), acct0\<lparr>trail := [GetAllInstances None (Some [(''key-name'', ''cs61c-ab*'')])]\<rparr>)"
    by (simp add: run_defs env_idle_def user_ab_def acct0_def all_with_groups_def)
  obtain r w' where run: "?run = (r, w')" by fastforce
  from run_instances_over_limit [OF old, of 0 "req ''c1.xlarge'' 8 True" "''c1.xlarge''" 8, OF _ _ _ _ run]
  show ?thesis using run by (simp add: req_def cost_of_def INSTANCE_COST_def)
qed

end
