(* ===== verification/SpendLimit.thy ===== *)
theory SpendLimit
  imports Accounts
begin

text \<open>
  The spending limit of \<open>subaccounts.py\<close> seen over time: the step relation of what EC2 runs
  while users launch through \<open>run_instances\<close>, the invariant that the limit is, and the two
  kinds of spending that the check does not see.
\<close>


section \<open>The spending limit over time\<close>

text \<open>
  What EC2 runs for all users together, and how it changes. \<open>ec2_shows\<close> is what EC2 documents of
  a listing filtered by \<open>key-name\<close> with a wildcard: the instances whose key name begins with the
  text before the star. A launch that EC2 accepts starts at most \<open>max_count\<close> instances of the
  requested type with the requested key.
\<close>

definition key_begins :: "ec2_instance \<Rightarrow> string \<Rightarrow> bool" where
  "key_begins i p = (case i_key_name i of None \<Rightarrow> False | Some k \<Rightarrow> py_startswith k p)"

definition ec2_shows :: "env \<Rightarrow> string \<Rightarrow> ec2_instance list \<Rightarrow> acct_world \<Rightarrow> bool" where
  "ec2_shows E n fleet w \<longleftrightarrow>
     (\<exists>rs. ans_instances E (trail w @ [GetAllInstances None (Some [(''key-name'', n @ ''*'')])]) = Inr rs
        \<and> concat (map r_instances rs) = filter (\<lambda>i. key_begins i n) fleet)"

inductive fleet_step :: "account \<Rightarrow> ec2_instance list \<Rightarrow> ec2_instance list \<Rightarrow> bool" for acc where
  launch: "\<lbrakk>ec2_shows E (acc_name acc) fleet w;
     run_instances show E acc info w = (Inr (Reserved rv), w');
     last (trail w') = RunInstances q; rq_max_count q = PInt n; int (length new) \<le> max 0 n;
     \<forall>i \<in> set new. rq_instance_type q = PStr (i_type i) \<and> rq_key_name q = opt_str (i_key_name i)\<rbrakk>
     \<Longrightarrow> fleet_step acc fleet (fleet @ new)"
| others: "\<forall>i \<in> set new. \<not> key_begins i (acc_name acc @ ''-'') \<Longrightarrow> fleet_step acc fleet (fleet @ new)"
| change: "i_state i \<noteq> ''terminated'' \<Longrightarrow>
     fleet_step acc (xs @ i # ys) (xs @ i\<lparr>i_state := st\<rparr> # ys)"
| vanish: "fleet_step acc (xs @ i # ys) (xs @ ys)"

inductive fleet_reachable :: "account \<Rightarrow> ec2_instance list \<Rightarrow> bool" for acc where
  start: "fleet_reachable acc []"
| step: "fleet_reachable acc fleet \<Longrightarrow> fleet_step acc fleet fleet' \<Longrightarrow> fleet_reachable acc fleet'"

definition counted :: "account \<Rightarrow> ec2_instance \<Rightarrow> bool" where
  "counted acc i \<longleftrightarrow> key_begins i (acc_name acc @ ''-'') \<and> i_state i \<noteq> ''terminated''"

definition fleet_cost :: "account \<Rightarrow> ec2_instance list \<Rightarrow> rat" where
  "fleet_cost acc fleet = (\<Sum>i\<leftarrow>filter (counted acc) fleet. cost_of (i_type i))"

lemma cost_of_nonneg: "0 \<le> cost_of ty"
proof (cases "dget INSTANCE_COST ty")
  case (Some c)
  then have "0 < cost_of ty" by (intro instance_cost_num(2) [of ty c]) (simp add: instance_cost_def)
  then show ?thesis by simp
qed (simp add: cost_of_def)

lemma sum_cost_nonneg: "0 \<le> (\<Sum>i\<leftarrow>xs. cost_of (i_type i))"
  by (intro sum_list_nonneg) (auto simp: cost_of_nonneg)

lemma fleet_cost_append: "fleet_cost acc (xs @ ys) = fleet_cost acc xs + fleet_cost acc ys"
  by (simp add: fleet_cost_def)

lemma keyed_instances_filter:
  "keyed_instances p xs = Inr ys \<Longrightarrow> map fst ys = filter (\<lambda>i. key_begins i p) (map fst xs)"
  by (induction xs arbitrary: ys)
    (auto simp: key_begins_def key_startswith_def split: sum.splits if_splits option.splits)

lemma map_fst_all_with_groups: "map fst (all_with_groups rs) = concat (map r_instances rs)"
  by (induction rs) (auto simp: all_with_groups_def comp_def)

lemma key_begins_dash: "key_begins i (n @ ''-'') \<Longrightarrow> key_begins i n"
  by (auto simp: key_begins_def py_startswith_iff split: option.splits)

lemma map_fst_filter: "map fst (filter (\<lambda>x. P (fst x)) xs) = filter P (map fst xs)"
  by (induction xs) auto

lemma cost_instances_fleet:
  assumes shows_: "ec2_shows E (acc_name acc) fleet w"
    and cost: "cost_instances E acc w = (Inr old, w1)"
  shows "as_num old = Some (fleet_cost acc fleet)"
proof -
  let ?n = "acc_name acc"
  obtain rs where rs:
      "ans_instances E (trail w @ [GetAllInstances None (Some [(''key-name'', ?n @ ''*'')])]) = Inr rs"
      "concat (map r_instances rs) = filter (\<lambda>i. key_begins i ?n) fleet"
    using shows_ by (auto simp: ec2_shows_def)
  obtain ys where ys: "keyed_instances (?n @ ''-'') (all_with_groups rs) = Inr ys"
      "total_cost (map fst (filter (\<lambda>x. i_state (fst x) \<noteq> ''terminated'') ys)) = Inr old"
    using cost rs(1) by (auto simp: cost_instances_def running_instances_def has_conn_def
        perform_def st_defs split: if_splits sum.splits)
  have "map fst (filter (\<lambda>x. i_state (fst x) \<noteq> ''terminated'') ys) = filter (counted acc) fleet"
    unfolding map_fst_filter [of "\<lambda>i. i_state i \<noteq> ''terminated''"]
      keyed_instances_filter [OF ys(1)] map_fst_all_with_groups rs(2) filter_filter
    by (intro filter_cong) (auto simp: counted_def dest: key_begins_dash)
  with total_cost_num [OF ys(2)] show ?thesis by (simp add: fleet_cost_def)
qed


lemma launched_cost:
  assumes run: "run_instances show E acc info w = (Inr (Reserved rv), w')"
    and shows_: "ec2_shows E (acc_name acc) fleet w"
    and last: "last (trail w') = RunInstances q" and n: "rq_max_count q = PInt n"
  shows "\<exists>t. rq_instance_type q = PStr t \<and> fleet_cost acc fleet + cost_of t * of_int n \<le> SPEND_LIMIT"
  using run
proof (cases rule: run_instances_cases)
  case (allowed old w1)
  from allowed(3) show ?thesis
  proof (cases rule: launch_request_calls)
    case (none c)
    with last show ?thesis by auto
  next
    case (one c d)
    with last have "launch_matches info (RunInstances q)" by simp
    moreover obtain ty m extra x where "dget info ''instance_type'' = Some ty"
        "dget info ''count'' = Some m" "cost_proposal ty m = Inr extra" "as_num extra = Some x"
        "fleet_cost acc fleet + x \<le> SPEND_LIMIT"
      using allowed(2) cost_instances_fleet [OF shows_ allowed(1)] by (auto simp: launch_allowed_def)
    moreover from this n \<open>launch_matches info (RunInstances q)\<close>
      obtain t where "ty = PStr t" "as_num extra = Some (cost_of t * of_int n)"
      using cost_proposal_num [of ty m extra "of_int n"] by auto
    ultimately show ?thesis by (intro exI [of _ t]) auto
  qed
qed (simp)

lemma fleet_cost_change:
  "i_state i \<noteq> ''terminated'' \<Longrightarrow> fleet_cost acc (xs @ i\<lparr>i_state := st\<rparr> # ys) \<le> fleet_cost acc (xs @ i # ys)"
  using cost_of_nonneg by (simp add: fleet_cost_def counted_def key_begins_def)

lemma fleet_cost_vanish: "fleet_cost acc (xs @ ys) \<le> fleet_cost acc (xs @ i # ys)"
  using cost_of_nonneg by (simp add: fleet_cost_def)

lemma fleet_cost_new:
  assumes "\<forall>i \<in> set new. i_type i = t"
  shows "fleet_cost acc new \<le> of_nat (length new) * cost_of t"
  using assms
proof (induction new)
  case (Cons i new)
  then show ?case
    using cost_of_nonneg [of t] by (auto simp: fleet_cost_def algebra_simps)
qed (simp add: fleet_cost_def)

lemma fleet_step_cost:
  assumes "fleet_step acc fleet fleet'" and "fleet_cost acc fleet \<le> SPEND_LIMIT"
  shows "fleet_cost acc fleet' \<le> SPEND_LIMIT"
  using assms
proof (induction rule: fleet_step.induct)
  case (launch E fleet w _ info rv w' q n new)
  from launched_cost [OF launch(2,1,3,4)] obtain t where t: "rq_instance_type q = PStr t"
      "fleet_cost acc fleet + cost_of t * of_int n \<le> SPEND_LIMIT" by blast
  have "fleet_cost acc new \<le> of_nat (length new) * cost_of t"
    using launch.hyps(6) t(1) by (intro fleet_cost_new) auto
  moreover have "of_nat (length new) * cost_of t \<le> max 0 (of_int n) * cost_of t"
  proof (rule mult_right_mono [OF _ cost_of_nonneg])
    have "of_int (int (length new)) \<le> (of_int (max 0 n) :: rat)"
      using launch.hyps(5) by (simp only: of_int_le_iff)
    then show "of_nat (length new) \<le> (max 0 (of_int n) :: rat)" by (simp add: max_def split: if_splits)
  qed
  ultimately show ?case
    using t(2) launch.prems by (cases "0 \<le> n") (auto simp: fleet_cost_append max_def mult.commute)
next
  case (others new fleet)
  then have "fleet_cost acc new = 0"
    by (induction new) (auto simp: fleet_cost_def counted_def)
  with others show ?case by (simp add: fleet_cost_append)
next
  case (change i xs ys st)
  then show ?case using fleet_cost_change order_trans by blast
next
  case (vanish xs i ys)
  then show ?case using fleet_cost_vanish order_trans by blast
qed



text \<open>
  What the limit does not see. The key check accepts every key that begins with the user's
  name, the cost counts only keys that begin with the name and a dash: whatever runs under
  keys of the first kind alone is counted as nothing.
\<close>

theorem undashed_keys_cost_nothing:
  assumes "ec2_shows E (acc_name acc) fleet w"
    and "\<forall>i \<in> set fleet. \<not> key_begins i (acc_name acc @ ''-'')"
    and "cost_instances E acc w = (Inr old, w1)"
  shows "as_num old = Some 0"
proof -
  have "filter (counted acc) fleet = []"
    using assms(2) by (auto simp: filter_empty_conv counted_def)
  with cost_instances_fleet [OF assms(1,3)] show ?thesis by (simp add: fleet_cost_def)
qed

definition env_ten :: env where
  "env_ten = env_idle\<lparr>ans_instances := \<lambda>_. Inr [\<lparr>r_groups = [], r_instances =
     [\<lparr>i_id = ''i-1'', i_image_id = ''ami-1'', i_dns_name = [], i_private_dns_name = [],
       i_state = ''running'', i_key_name = Some ''cs61c-abc'', i_type = ''m2.4xlarge'',
       i_launch_time = [], i_placement = [], i_spot_id = None\<rparr>]\<rparr>]\<rparr>"

theorem undashed_keys_cost_nothing_witness:
  "\<exists>old. fst (cost_instances env_ten user_ab acct0) = Inr old \<and> as_num old = Some 0"
proof -
  let ?fleet = "concat (map r_instances (case ans_instances env_ten [] of Inr rs \<Rightarrow> rs | Inl _ \<Rightarrow> []))"
  have s: "ec2_shows env_ten (acc_name user_ab) ?fleet acct0"
    by (simp add: ec2_shows_def env_ten_def user_ab_def key_begins_def py_startswith_def)
  have d: "\<forall>i \<in> set ?fleet. \<not> key_begins i (acc_name user_ab @ ''-'')"
    by (simp add: env_ten_def user_ab_def key_begins_def py_startswith_def)
  obtain w1 where c: "cost_instances env_ten user_ab acct0 = (Inr (PInt 0), w1)"
    by (simp add: run_defs env_ten_def user_ab_def all_with_groups_def key_startswith_def py_startswith_def)
  from undashed_keys_cost_nothing [OF s d c] c show ?thesis by simp
qed

text \<open>
  Spot requests are not limited. The cost of what a user runs does not depend on the user's
  spot requests in any way: any number of pending ones passes the check.
\<close>

theorem cost_ignores_spot_requests:
  "cost_instances (E\<lparr>ans_spots := f\<rparr>) acc w = cost_instances E acc w"
  by (simp add: cost_instances_def running_instances_def)

end
