(* ===== verification/AccountKeys.thy ===== *)
theory AccountKeys
  imports Accounts
begin

text \<open>
  The keys and users of \<open>subaccounts.py\<close>: ownership and isolation of SSH keys, the invariant of
  the database over every sequence of operations, what deleting and creating a user really
  does, and the proxy ports.
\<close>


section \<open>Keys\<close>

lemma full_key_name_prefix: "py_startswith (full_key_name user k) (user @ ''-'')"
  by (simp add: full_key_name_def Let_def py_startswith_def)

text \<open>
  The name of a new key belongs to its user. Whatever name is asked for, the full name begins
  with the user's name and a dash, only the characters of the user's name and those allowed in
  key names occur in it, and asking for the full name again changes nothing.
\<close>

theorem full_key_name_owned:
  "py_startswith (full_key_name user k) (user @ ''-'')
   \<and> (\<forall>c \<in> set (full_key_name user k). c \<in> set user \<or> key_char c)
   \<and> (list_all key_char user \<longrightarrow> full_key_name user (full_key_name user k) = full_key_name user k)"
proof -
  have dash: "key_char (CHR ''-'')" by (simp add: key_char_def)
  have "filter key_char (full_key_name user k) = full_key_name user k" if "list_all key_char user"
    using that dash by (auto simp: full_key_name_def Let_def list_all_iff filter_id_conv)
  moreover note full_key_name_prefix [of user k]
  moreover have "\<forall>c \<in> set (full_key_name user k). c \<in> set user \<or> key_char c"
    using dash by (auto simp: full_key_name_def Let_def)
  ultimately show ?thesis by (auto simp: full_key_name_def [of user "full_key_name user k"])
qed

theorem full_key_name_owned_witness:
  "full_key_name ''cs61c-ab'' (full_key_name ''cs61c-ab'' ''my key;'') = ''cs61c-ab-mykey''"
proof -
  have a: "list_all key_char ''cs61c-ab''" by (simp add: key_char_def)
  have b: "full_key_name ''cs61c-ab'' ''my key;'' = ''cs61c-ab-mykey''"
    by (simp add: full_key_name_def key_char_def py_startswith_def)
  from full_key_name_owned [of "''cs61c-ab''" "''my key;''"] a b show ?thesis by simp
qed

text \<open>Every row of the table of SSH keys is named after its owner.\<close>

definition ssh_owned :: "users_db \<Rightarrow> bool" where
  "ssh_owned d \<longleftrightarrow> (\<forall>r \<in> set (ssh_keys d). py_startswith (sk_name r) (sk_user r @ ''-''))"

definition db_inv :: "acct_world \<Rightarrow> bool" where
  "db_inv w \<longleftrightarrow> db_ok (db w) \<and> ssh_owned (db w)"

lemma ssh_owned_statements [intro]:
  "ssh_owned d \<Longrightarrow> ssh_owned (replace_user ur d)"
  "ssh_owned d \<Longrightarrow> ssh_owned (insert_access_key ar d)"
  "ssh_owned d \<Longrightarrow> ssh_owned (delete_user_row n d)"
  "ssh_owned d \<Longrightarrow> ssh_owned (delete_access_row k n d)"
  "ssh_owned d \<Longrightarrow> ssh_owned (delete_ssh_row k n d)"
  "ssh_owned d \<Longrightarrow> py_startswith (sk_name sr) (sk_user sr @ ''-'') \<Longrightarrow> ssh_owned (replace_ssh_key sr d)"
  by (auto simp: ssh_owned_def replace_user_def insert_access_key_def replace_ssh_key_def
      delete_user_row_def delete_access_row_def delete_ssh_row_def)

lemma keeps_perform_db [hoare_rules]: "keeps db_inv (perform ans c)"
  by (simp add: keeps_def hoare_def perform_def db_inv_def)

lemma keeps_calls_db [hoare_rules]: "keeps db_inv (do_call E c)" "keeps db_inv (audit_log E m)"
  by (simp_all add: do_call_def audit_log_def keeps_perform_db)

lemma keeps_on_db [hoare_rules]:
  "(\<And>d. db_ok d \<Longrightarrow> ssh_owned d \<Longrightarrow> db_ok (f d) \<and> ssh_owned (f d)) \<Longrightarrow> keeps db_inv (on_db f)"
  unfolding on_db_def by (rule keeps_modify) (auto simp: db_inv_def)

lemma keeps_create_ssh_key: "keeps db_inv (create_ssh_key E acc k)"
  unfolding create_ssh_key_def
  by (intro hoare_rules) (auto simp: full_key_name_prefix)

lemma keeps_key_ops:
  "keeps db_inv (init_access_keys acc)"
  "keeps db_inv (create_access_key E acc)"
  "keeps db_inv (delete_ssh_key E acc k)"
  "keeps db_inv (delete_access_key E acc ak)"
  "keeps db_inv (delete_user E n)"
  by (auto simp: init_access_keys_def create_access_key_def delete_ssh_key_def delete_access_key_def
      delete_user_def iam_delete_user_def intro!: hoare_rules)

text \<open>The operations of \<open>subaccounts.py\<close> that write to the database, in any order, by anyone.\<close>

inductive acct_step :: "acct_world \<Rightarrow> acct_world \<Rightarrow> bool" where
  ssh_key: "create_ssh_key E acc k w = (r, w') \<Longrightarrow> acct_step w w'"
| drop_ssh_key: "delete_ssh_key E acc k w = (r, w') \<Longrightarrow> acct_step w w'"
| access_key: "create_access_key E acc w = (r', w') \<Longrightarrow> acct_step w w'"
| drop_access_key: "delete_access_key E acc ak w = (r, w') \<Longrightarrow> acct_step w w'"
| drop_user: "delete_user E n w = (r, w') \<Longrightarrow> acct_step w w'"
| add_user: "make_user policy owner E n w = (r', w') \<Longrightarrow> acct_step w w'"

inductive_cases acct_stepE: "acct_step w w'"

inductive acct_reachable :: "acct_world \<Rightarrow> bool" where
  empty: "db w = \<lparr>users = [], access_keys = [], ssh_keys = []\<rparr> \<Longrightarrow> acct_reachable w"
| step: "acct_reachable w \<Longrightarrow> acct_step w w' \<Longrightarrow> acct_reachable w'"

lemma keeps_make_user: "keeps db_inv (make_user policy owner E n)"
  by (auto simp: make_user_def iam_delete_user_def random_password_def intro!: hoare_rules)

lemma acct_step_inv: "acct_step w w' \<Longrightarrow> db_inv w \<Longrightarrow> db_inv w'"
  by (erule acct_stepE)
    (blast intro: keepsD [OF keeps_create_ssh_key] keepsD [OF keeps_make_user]
       keeps_key_ops [THEN keepsD])+

text \<open>
  C22: the database stays consistent. After any sequence of key and user operations, whatever the
  services answer and whichever of them fail half-way, every table has unique primary keys
  and every SSH key is named after the user who owns it.
\<close>

theorem database_consistent:
  assumes "acct_reachable w"
  shows "db_ok (db w) \<and> ssh_owned (db w)"
  using assms
proof (induction rule: acct_reachable.induct)
  case (empty w)
  then show ?case by (simp add: db_ok_def ssh_owned_def)
next
  case (step w w')
  then show ?case using acct_step_inv by (simp add: db_inv_def)
qed

lemma same_name_prefix:
  assumes "py_startswith x (u @ ''-'')" and "py_startswith x (v @ ''-'')" and "u \<noteq> v"
  shows "py_startswith u (v @ ''-'') \<or> py_startswith v (u @ ''-'')"
proof -
  obtain a where "x = u @ (CHR ''-'' # a)" using assms(1) by (auto simp: py_startswith_iff)
  moreover obtain b where "x = v @ (CHR ''-'' # b)" using assms(2) by (auto simp: py_startswith_iff)
  ultimately have "u @ (CHR ''-'' # a) = v @ (CHR ''-'' # b)" by simp
  then obtain us where "(u = v @ us \<and> us @ (CHR ''-'' # a) = CHR ''-'' # b)
      \<or> (u @ us = v \<and> CHR ''-'' # a = us @ (CHR ''-'' # b))"
    by (auto simp: append_eq_append_conv2)
  then show ?thesis
    using assms(3) by (cases us) (auto simp: py_startswith_iff)
qed

lemma create_ssh_key_db:
  assumes "create_ssh_key E acc k w = (r, w')"
  shows "(db w' = db w \<and> r \<noteq> Inr ()) \<or>
    (\<exists>kp. ans_keypair E (trail w @ [CreateKeyPair (full_key_name (acc_name acc) k)]) = Inr kp
      \<and> db w' = replace_ssh_key \<lparr>sk_user = acc_name acc, sk_name = full_key_name (acc_name acc) k,
           sk_private = kp_material kp, sk_fingerprint = kp_fingerprint kp\<rparr> (db w))"
  using assms
  by (auto simp: create_ssh_key_def Let_def st_defs perform_def audit_log_def do_call_def on_db_def
      modify_def split: sum.splits)

definition ssh_rows :: "string \<Rightarrow> acct_world \<Rightarrow> ssh_row list" where
  "ssh_rows n w = filter (\<lambda>r. sk_user r = n) (ssh_keys (db w))"

text \<open>
  Users are isolated. Creating an SSH key leaves the rows of every other user as they are, as
  long as neither name is the other one with a dash and more text after it: the table replaces
  by key name alone, and only such names could produce the same key name.
\<close>

theorem create_ssh_key_isolated:
  assumes "ssh_owned (db w)" and "create_ssh_key E acc k w = (r, w')"
    and "v \<noteq> acc_name acc" and "\<not> py_startswith v (acc_name acc @ ''-'')"
    and "\<not> py_startswith (acc_name acc) (v @ ''-'')"
  shows "ssh_rows v w' = ssh_rows v w"
proof -
  let ?f = "full_key_name (acc_name acc) k"
  have "sk_name x \<noteq> ?f" if "x \<in> set (ssh_keys (db w))" "sk_user x = v" for x
    using that assms(1,3-5) same_name_prefix [of ?f "acc_name acc" v] full_key_name_prefix
    by (auto simp: ssh_owned_def)
  then have "filter (\<lambda>x. sk_name x \<noteq> ?f \<and> sk_user x = v) (ssh_keys (db w)) = ssh_rows v w"
    unfolding ssh_rows_def by (intro filter_cong) auto
  then show ?thesis
    using create_ssh_key_db [OF assms(2)] assms(3)
    by (auto simp: replace_ssh_key_def ssh_rows_def)
qed

text \<open>
  A created key can be read back. When \<open>create_ssh_key\<close> succeeds, \<open>get_ssh_keys\<close> gives the
  private key and the fingerprint that EC2 returned, under the full name.
\<close>

theorem create_ssh_key_lookup:
  assumes "create_ssh_key E acc k w = (Inr (), w')"
  shows "\<exists>kp. ans_keypair E (trail w @ [CreateKeyPair (full_key_name (acc_name acc) k)]) = Inr kp
    \<and> dget (get_ssh_keys acc (db w')) (full_key_name (acc_name acc) k)
        = Some (kp_material kp, kp_fingerprint kp)"
proof -
  let ?f = "full_key_name (acc_name acc) k"
  obtain kp where stored: "ans_keypair E (trail w @ [CreateKeyPair ?f]) = Inr kp"
    "db w' = replace_ssh_key \<lparr>sk_user = acc_name acc, sk_name = ?f,
           sk_private = kp_material kp, sk_fingerprint = kp_fingerprint kp\<rparr> (db w)"
    using create_ssh_key_db [OF assms] by blast
  have "dget (map (\<lambda>r. (sk_name r, sk_private r, sk_fingerprint r))
      (filter (\<lambda>r. sk_name r \<noteq> ?f \<and> sk_user r = acc_name acc) xs)) ?f = None" for xs :: "ssh_row list"
    by (auto simp: map_of_eq_None_iff)
  with stored show ?thesis
    by (intro exI [of _ kp]) (simp add: replace_ssh_key_def get_ssh_keys_def map_add_def)
qed

text \<open>The environment in which everything works, and the world after a key was made in it.\<close>

definition env_keys :: env where
  "env_keys = env_idle\<lparr>ans_keypair := \<lambda>_. Inr \<lparr>kp_material = ''PEM'', kp_fingerprint = ''FP''\<rparr>,
     ans_texts := \<lambda>_. Inr [''cs61c-ab-default'']\<rparr>"

definition world_key :: acct_world where
  "world_key = snd (create_ssh_key env_keys user_ab ''default'' acct0)"

lemma world_key_run: "create_ssh_key env_keys user_ab ''default'' acct0 = (Inr (), world_key)"
proof -
  have "fst (create_ssh_key env_keys user_ab ''default'' acct0) = Inr ()"
    by (simp add: create_ssh_key_def env_keys_def env_idle_def user_ab_def acct0_def Let_def st_defs
        perform_def audit_log_def do_call_def on_db_def modify_def)
  then show ?thesis by (metis prod.collapse world_key_def)
qed

theorem database_consistent_witness: "db_ok (db world_key) \<and> ssh_owned (db world_key)"
proof -
  have "acct_reachable acct0" by (rule acct_reachable.empty) (simp add: acct0_def)
  then have "acct_reachable world_key"
    using acct_step.ssh_key [OF world_key_run] by (rule acct_reachable.step)
  then show ?thesis by (rule database_consistent)
qed

theorem create_ssh_key_isolated_witness:
  "ssh_rows ''cs61c-ac'' world_key = ssh_rows ''cs61c-ac'' acct0"
proof -
  have o: "ssh_owned (db acct0)" by (simp add: ssh_owned_def acct0_def)
  show ?thesis
    using create_ssh_key_isolated [OF o world_key_run, of "''cs61c-ac''"]
    by (simp add: user_ab_def py_startswith_def)
qed

theorem create_ssh_key_lookup_witness:
  "dget (get_ssh_keys user_ab (db world_key)) (full_key_name ''cs61c-ab'' ''default'') = Some (''PEM'', ''FP'')"
  using create_ssh_key_lookup [OF world_key_run] by (simp add: env_keys_def user_ab_def)

text \<open>
  A key that is deleted here stays in EC2. On success \<open>delete_ssh_key\<close> has made exactly two
  calls, a lookup of the key pair and the log entry - the method \<open>delete\<close> is named and not
  called - while the user's row, and with it the private key, is gone.
\<close>

theorem delete_ssh_key_keeps_keypair:
  assumes "delete_ssh_key E acc k w = (Inr (), w')"
    and "dget (get_ssh_keys acc (db w)) k \<noteq> None"
  shows "trail w' = trail w @ [GetKeyPair k, Os (AuditLog (audit_message (''Delete SSH key '' @ k)))]
    \<and> dget (get_ssh_keys acc (db w')) k = None"
  using assms
  by (auto simp: delete_ssh_key_def st_defs perform_def audit_log_def do_call_def on_db_def modify_def
      delete_ssh_row_def get_ssh_keys_def map_of_eq_None_iff split: sum.splits if_splits)

theorem delete_ssh_key_keeps_keypair_witness:
  "dget (get_ssh_keys user_ab (db (snd (delete_ssh_key env_keys user_ab ''cs61c-ab-default'' world_key))))
     ''cs61c-ab-default'' = None"
proof -
  have key: "full_key_name ''cs61c-ab'' ''default'' = ''cs61c-ab-default''"
    by (simp add: full_key_name_def key_char_def py_startswith_def)
  have db: "db world_key = \<lparr>users = [], access_keys = [], ssh_keys = [\<lparr>sk_user = ''cs61c-ab'',
      sk_name = ''cs61c-ab-default'', sk_private = ''PEM'', sk_fingerprint = ''FP''\<rparr>]\<rparr>"
    by (simp add: world_key_def create_ssh_key_def env_keys_def env_idle_def user_ab_def acct0_def
        Let_def st_defs perform_def audit_log_def do_call_def on_db_def modify_def replace_ssh_key_def key)
  then have present: "dget (get_ssh_keys user_ab (db world_key)) ''cs61c-ab-default'' \<noteq> None"
    by (simp add: get_ssh_keys_def user_ab_def)
  obtain w' where run: "delete_ssh_key env_keys user_ab ''cs61c-ab-default'' world_key = (Inr (), w')"
    using present by (simp add: delete_ssh_key_def env_keys_def env_idle_def st_defs perform_def
        audit_log_def do_call_def on_db_def modify_def)
  from delete_ssh_key_keeps_keypair [OF run present] run show ?thesis by simp
qed



section \<open>Deleting and creating users\<close>

lemma iam_delete_user_silent: "iam_delete_user E n w = (Inr (), w)"
  by (simp add: iam_delete_user_def try_except_def raise_def ret_def)

text \<open>
  Deleting a user leaves the identity alive. \<open>delete_user\<close> always returns normally and makes
  no call to IAM at all - the misspelt log function ends the deletion before it starts and the
  handler hides it; it removes the user's row and leaves the rows of the access keys and SSH
  keys, which the tables declare to be deleted with it.
\<close>

theorem delete_user_effect:
  "fst (delete_user E n w) = Inr ()
   \<and> trail (snd (delete_user E n w)) = trail w
   \<and> \<not> user_exists n (db (snd (delete_user E n w)))
   \<and> access_keys (db (snd (delete_user E n w))) = access_keys (db w)
   \<and> ssh_keys (db (snd (delete_user E n w))) = ssh_keys (db w)"
  by (simp add: delete_user_def andthen_def bnd_def iam_delete_user_silent on_db_def
      delete_user_row_def user_exists_def)

text \<open>
  No user can be created. Whatever the services answer, \<open>make_user\<close> raises and writes nothing
  to the database. When IAM does what it is asked, the exception is that of appending to a
  string in \<open>random_password\<close>, and the identity, its group and its policy already exist.
\<close>

theorem make_user_always_fails:
  "(\<exists>e. fst (make_user policy owner E n w) = Inl e) \<and> db (snd (make_user policy owner E n w)) = db w
   \<and> ((\<forall>h. ans_unit E h = Inr ()) \<longrightarrow>
        fst (make_user policy owner E n w) = Inl (AttributeError ''append'')
        \<and> trail (snd (make_user policy owner E n w)) = trail w @
            [Os (AuditLog (audit_message (''Creating user '' @ n))), Iam (IamCreateUser n),
             Iam (IamAddUserToGroup ''students'' n), Iam (IamPutUserPolicy n (n @ ''-user'') (policy n))])"
  by (auto simp: make_user_def audit_log_def do_call_def perform_def andthen_def bnd_def
      iam_delete_user_silent random_password_def raise_def split: sum.splits)

theorem make_user_always_fails_witness:
  "fst (make_user (\<lambda>_. []) ''root'' env_idle ''cs61c-zz'' acct0) = Inl (AttributeError ''append'')"
proof -
  have "\<forall>h. ans_unit env_idle h = Inr ()" by (simp add: env_idle_def)
  with make_user_always_fails [of "\<lambda>_. []" "''root''" env_idle "''cs61c-zz''" acct0] show ?thesis by simp
qed


section \<open>Proxy ports\<close>

definition is_lower :: "char \<Rightarrow> bool" where
  "is_lower c \<longleftrightarrow> 97 \<le> (of_char c :: nat) \<and> (of_char c :: nat) \<le> 122"

definition port_name :: "string \<Rightarrow> bool" where
  "port_name n \<longleftrightarrow> 2 \<le> length n \<and> list_all is_lower (drop (length n - 2) n)"

lemma port_name_cases:
  assumes "port_name n"
  obtains c d where "drop (length n - 2) n = [c, d]" "is_lower c" "is_lower d"
proof -
  have "length (drop (length n - 2) n) = 2" using assms by (simp add: port_name_def)
  then obtain c d where "drop (length n - 2) n = [c, d]"
    by (metis (no_types) One_nat_def Suc_1 length_0_conv length_Suc_conv)
  with assms that show ?thesis by (simp add: port_name_def)
qed

lemma proxy_port_value:
  assumes "drop (length (acc_name acc) - 2) (acc_name acc) = [c, d]"
  shows "proxy_port_base acc = Inr (((int (of_char c) - 97) * 26 + (int (of_char d) - 97)) * 3 + 40000)"
  unfolding proxy_port_base_def Let_def assms by simp

lemma base26_eq:
  fixes c d c' d' :: int
  assumes "0 \<le> d" "d < 26" "0 \<le> d'" "d' < 26" "c * 26 + d = c' * 26 + d'"
  shows "c = c' \<and> d = d'"
proof -
  have "c = (c * 26 + d) div 26" "c' = (c' * 26 + d') div 26" using assms(1-4) by simp_all
  with assms(5) show ?thesis by simp
qed

text \<open>
  Every account has its own three proxy ports. For accounts whose names end in two lower-case
  letters the ports \<open>base\<close>, \<open>base + 1\<close>, \<open>base + 2\<close> are valid port numbers between 40000 and
  42027, and two accounts share one of them only if their last two letters are the same.
\<close>

theorem proxy_ports_distinct:
  assumes "port_name (acc_name a)" and "port_name (acc_name b)"
  shows "\<exists>p q. proxy_port_base a = Inr p \<and> proxy_port_base b = Inr q
    \<and> 40000 \<le> p \<and> p + 2 \<le> 42027
    \<and> ((\<exists>i \<in> {0, 1, 2}. \<exists>j \<in> {0, 1, 2}. p + i = q + j)
        \<longrightarrow> drop (length (acc_name a) - 2) (acc_name a) = drop (length (acc_name b) - 2) (acc_name b))"
proof -
  obtain c d where a: "drop (length (acc_name a) - 2) (acc_name a) = [c, d]" "is_lower c" "is_lower d"
    using port_name_cases [OF assms(1)] by blast
  obtain c' d' where b: "drop (length (acc_name b) - 2) (acc_name b) = [c', d']" "is_lower c'" "is_lower d'"
    using port_name_cases [OF assms(2)] by blast
  define val :: "char \<Rightarrow> int" where "val x = int (of_char x) - 97" for x
  have val: "0 \<le> val x \<and> val x < 26" if "is_lower x" for x
    using that by (simp add: is_lower_def val_def)
  have inj: "x = y" if "val x = val y" for x y
    using that by (simp add: val_def)
  let ?p = "(val c * 26 + val d) * 3 + 40000" and ?q = "(val c' * 26 + val d') * 3 + 40000"
  have same: "c = c' \<and> d = d'" if "\<exists>i \<in> {0, 1, 2}. \<exists>j \<in> {0, 1, 2}. ?p + i = ?q + j"
  proof -
    from that have "val c * 26 + val d = val c' * 26 + val d'" by auto
    with base26_eq [of "val d" "val d'" "val c" "val c'"] val a(2,3) b(2,3) inj
    show ?thesis by blast
  qed
  show ?thesis
    using val [OF a(2)] val [OF a(3)] same a(1) b(1)
    by (intro exI [of _ ?p] exI [of _ ?q])
      (auto simp: proxy_port_value [OF a(1)] proxy_port_value [OF b(1)] val_def)
qed

theorem proxy_ports_distinct_witness:
  "proxy_port_base \<lparr>acc_name = ''cs61c-ab'', acc_keys = [], acc_conn = None\<rparr> = Inr 40003
   \<and> proxy_port_base \<lparr>acc_name = ''cs61c-zz'', acc_keys = [], acc_conn = None\<rparr> = Inr 42025"
proof -
  let ?a = "\<lparr>acc_name = ''cs61c-ab'', acc_keys = [], acc_conn = None\<rparr>"
  let ?b = "\<lparr>acc_name = ''cs61c-zz'', acc_keys = [], acc_conn = None\<rparr>"
  have "port_name (acc_name ?a)" "port_name (acc_name ?b)"
    by (simp_all add: port_name_def is_lower_def)
  from proxy_ports_distinct [OF this] show ?thesis
    by (simp add: proxy_port_base_def Let_def)
qed

end
