(* ===== verification/Usage.thy ===== *)
theory Usage
  imports AccountKeys
begin

text \<open>
  \<open>record_usage.py\<close>: the database of instance usage that the cron job fills, the SQL views
  that turn it into hours, and the report. The tables are lists of rows; the connection is in
  autocommit mode with explicit transactions, so that the state also holds the snapshot to
  which an open transaction would roll back. SQLite's \<open>julianday\<close> is a parameter \<open>jd\<close>
  (\<open>None\<close> on a text it cannot read), the number that it reads off a text in arithmetic a
  parameter \<open>num\<close>.
\<close>


section \<open>The tables\<close>

record inst_row =
  in_id :: string
  in_type :: string
  in_start :: "rat option"
  in_end :: "rat option"
  in_seen :: "rat option"
  in_spot :: bool
  in_user :: string

text \<open>The times of a stop are bound as ISO texts, unconverted.\<close>

record stop_row =
  st_id :: string
  st_stopped :: string
  st_running :: "string option"

record pend_row =
  pr_id :: string
  pr_type :: string
  pr_time :: "rat option"
  pr_user :: string

record usage_db =
  instances :: "inst_row list"
  instance_stopped :: "stop_row list"
  pending_spots :: "pend_row list"

record usage_world = world +
  udb :: usage_db
  saved :: "usage_db option"

definition on_udb :: "(usage_db \<Rightarrow> usage_db) \<Rightarrow> (usage_world, unit) st" where
  "on_udb f = modify (\<lambda>w. w\<lparr>udb := f (udb w)\<rparr>)"

definition begin_tx :: "(usage_world, unit) st" where
  "begin_tx w = (case saved w of
     None \<Rightarrow> (Inr (), w\<lparr>saved := Some (udb w)\<rparr>)
   | Some _ \<Rightarrow> (Inl (OperationalError ''cannot start a transaction within a transaction''), w))"

definition commit_tx :: "(usage_world, unit) st" where
  "commit_tx w = (case saved w of
     None \<Rightarrow> (Inl (OperationalError ''cannot commit - no transaction is active''), w)
   | Some _ \<Rightarrow> (Inr (), w\<lparr>saved := None\<rparr>))"

text \<open>The end of the process: the connection closes and an open transaction is rolled back.\<close>

definition close_db :: "usage_world \<Rightarrow> usage_world" where
  "close_db w = (case saved w of None \<Rightarrow> w | Some d \<Rightarrow> w\<lparr>udb := d, saved := None\<rparr>)"

definition replace_instance :: "inst_row \<Rightarrow> usage_db \<Rightarrow> usage_db" where
  "replace_instance r d =
     d\<lparr>instances := filter (\<lambda>x. in_id x \<noteq> in_id r) (instances d) @ [r]\<rparr>"

definition replace_pending :: "pend_row \<Rightarrow> usage_db \<Rightarrow> usage_db" where
  "replace_pending r d =
     d\<lparr>pending_spots := filter (\<lambda>x. pr_id x \<noteq> pr_id r) (pending_spots d) @ [r]\<rparr>"

text \<open>\<open>INSERT INTO instance_stopped\<close>: the primary key is the pair of instance and stop time.\<close>

definition insert_stop :: "string \<Rightarrow> string \<Rightarrow> (usage_world, unit) st" where
  "insert_stop i now w =
     (if \<exists>r \<in> set (instance_stopped (udb w)). st_id r = i \<and> st_stopped r = now
      then (Inl (OperationalError ''columns instance_id, stopped_time are not unique''), w)
      else on_udb (\<lambda>d. d\<lparr>instance_stopped := instance_stopped d
             @ [\<lparr>st_id = i, st_stopped = now, st_running = None\<rparr>]\<rparr>) w)"


section \<open>Recording instances\<close>

definition user_from_key :: "string \<Rightarrow> string" where
  "user_from_key key_name =
     (if py_startswith key_name ''cs'' then py_join ''-'' (take 2 (py_split (CHR ''-'') key_name))
      else hd (py_split (CHR ''-'') key_name))"

definition user_of_key :: "string option \<Rightarrow> py_exc + string" where
  "user_of_key k = (case k of None \<Rightarrow> Inl (AttributeError ''startswith'') | Some s \<Rightarrow> Inr (user_from_key s))"

text \<open>The two \<open>SELECT\<close> loops: the value of the last matching row, \<open>None\<close> without one.\<close>

definition old_end_time :: "string \<Rightarrow> usage_db \<Rightarrow> rat option" where
  "old_end_time i d = foldl (\<lambda>_ r. in_end r) None (filter (\<lambda>r. in_id r = i) (instances d))"

definition old_stop_time :: "string \<Rightarrow> usage_db \<Rightarrow> string option" where
  "old_stop_time i d = foldl (\<lambda>_ r. Some (st_stopped r)) None
     (filter (\<lambda>r. st_id r = i \<and> st_running r = None) (instance_stopped d))"

definition row_of :: "(string \<Rightarrow> rat option) \<Rightarrow> string \<Rightarrow> ec2_instance \<Rightarrow> string \<Rightarrow> rat option \<Rightarrow> inst_row" where
  "row_of jd now i user end_time =
     \<lparr>in_id = i_id i, in_type = i_type i, in_start = jd (i_launch_time i), in_end = end_time,
      in_seen = jd now, in_spot = (i_spot_id i \<noteq> None), in_user = user\<rparr>"

definition syntax_error :: py_exc where
  "syntax_error = OperationalError ''near WHERE: syntax error''"

text \<open>
  One iteration of the loop of \<open>update_instances\<close>. The statement that should close a stop,
  \<open>UPDATE instance_stopped WHERE ... SET ...\<close>, is not SQL: preparing it raises.
\<close>

definition record_instance ::
  "(string \<Rightarrow> rat option) \<Rightarrow> string \<Rightarrow> ec2_instance \<Rightarrow> (usage_world, unit) st" where
  "record_instance jd now i =
     andthen begin_tx
    (bnd (lift_sum (user_of_key (i_key_name i))) (\<lambda>username.
     bnd (gets (\<lambda>w. old_end_time (i_id i) (udb w))) (\<lambda>old_end.
     bnd (gets (\<lambda>w. old_stop_time (i_id i) (udb w))) (\<lambda>old_stop.
     andthen (if i_state i = ''terminated'' \<and> old_end = None
              then on_udb (replace_instance (row_of jd now i username (jd now))) else ret ())
    (andthen (if i_state i \<noteq> ''stopped'' \<and> i_state i \<noteq> ''terminated'' \<and> old_stop \<noteq> None
              then raise syntax_error else ret ())
    (andthen (if i_state i \<noteq> ''terminated''
              then on_udb (replace_instance (row_of jd now i username None)) else ret ())
    (andthen (if i_state i = ''stopped'' then insert_stop (i_id i) now else ret ())
             commit_tx)))))))"

definition name_filter :: "string \<Rightarrow> string option \<Rightarrow> (string \<times> string) list option" where
  "name_filter field username =
     (case username of None \<Rightarrow> None
      | Some u \<Rightarrow> if u = [] then None else Some [(field, u @ ''*'')])"

definition update_instances ::
  "(string \<Rightarrow> rat option) \<Rightarrow> env \<Rightarrow> string option \<Rightarrow> (usage_world, unit) st" where
  "update_instances jd E username =
     bnd (perform (ans_instances E) (GetAllInstances None (name_filter ''key-name'' username))) (\<lambda>all_instances.
     bnd (perform (ans_text E) (Os NowText)) (\<lambda>now.
     for_each (\<lambda>res. for_each (record_instance jd now) (r_instances res)) all_instances))"


section \<open>Recording spot requests\<close>

definition record_spot :: "(string \<Rightarrow> rat option) \<Rightarrow> spot_request \<Rightarrow> (usage_world, unit) st" where
  "record_spot jd x =
     bnd (lift_sum (user_of_key (s_key_name x))) (\<lambda>username.
     if s_state x = ''open''
     then on_udb (replace_pending \<lparr>pr_id = s_id x, pr_type = s_type x,
            pr_time = jd (s_create_time x), pr_user = username\<rparr>)
     else ret ())"

definition update_spot_requests ::
  "(string \<Rightarrow> rat option) \<Rightarrow> env \<Rightarrow> string option \<Rightarrow> (usage_world, unit) st" where
  "update_spot_requests jd E username =
     bnd (perform (ans_spots E) (GetAllSpotRequests None (name_filter ''launch.key_name'' username))) (\<lambda>requests.
     andthen begin_tx
    (andthen (on_udb (\<lambda>d. d\<lparr>pending_spots :=
                (case username of
                   Some u \<Rightarrow> if u = [] then [] else filter (\<lambda>r. pr_user r \<noteq> u) (pending_spots d)
                 | None \<Rightarrow> [])\<rparr>))
    (andthen (for_each (record_spot jd) requests)
             commit_tx)))"

text \<open>\<open>usage_cron.py\<close>: both updates, then the process ends.\<close>

definition usage_cron :: "(string \<Rightarrow> rat option) \<Rightarrow> env \<Rightarrow> usage_world \<Rightarrow> (py_exc + unit) \<times> usage_world" where
  "usage_cron jd E w =
     (case andthen (update_instances jd E None) (update_spot_requests jd E None) w of
        (r, w') \<Rightarrow> (r, close_db w'))"


section \<open>Hours and cost\<close>

text \<open>SQLite's \<open>round\<close>: to the nearest integer, halves away from zero.\<close>

definition sql_round :: "rat \<Rightarrow> rat" where
  "sql_round x = (if 0 \<le> x then of_int \<lfloor>x + 1 / 2\<rfloor> else - of_int \<lfloor>- x + 1 / 2\<rfloor>)"

text \<open>\<open>SUM\<close> over a group: \<open>NULL\<close> values are skipped, and a sum of nothing is \<open>NULL\<close>.\<close>

definition sql_sum :: "rat option list \<Rightarrow> rat option" where
  "sql_sum xs = (let ys = concat (map (\<lambda>x. case x of None \<Rightarrow> [] | Some y \<Rightarrow> [y]) xs)
                 in if ys = [] then None else Some (sum_list ys))"

definition instance_stopped_time :: "(string \<Rightarrow> rat) \<Rightarrow> usage_db \<Rightarrow> string \<Rightarrow> rat option" where
  "instance_stopped_time num d i =
     sql_sum (map (\<lambda>r. case st_running r of None \<Rightarrow> None
                       | Some t \<Rightarrow> Some ((num t - num (st_stopped r)) * 24))
       (filter (\<lambda>r. st_id r = i) (instance_stopped d)))"

definition billed_hours :: "(string \<Rightarrow> rat) \<Rightarrow> usage_db \<Rightarrow> inst_row \<Rightarrow> rat option \<Rightarrow> rat option" where
  "billed_hours num d r end_time =
     (case (end_time, in_start r) of
        (Some e, Some s) \<Rightarrow>
          Some (sql_round (24 * (e - s)
            - (case instance_stopped_time num d (in_id r) of None \<Rightarrow> 0 | Some h \<Rightarrow> h) + 1 / 2))
      | _ \<Rightarrow> None)"

definition finished_instance_times :: "(string \<Rightarrow> rat) \<Rightarrow> usage_db \<Rightarrow> (inst_row \<times> rat option) list" where
  "finished_instance_times num d =
     map (\<lambda>r. (r, billed_hours num d r (in_end r))) (filter (\<lambda>r. in_end r \<noteq> None) (instances d))"

definition pending_instance_times ::
  "(string \<Rightarrow> rat) \<Rightarrow> rat \<Rightarrow> usage_db \<Rightarrow> (inst_row \<times> rat option) list" where
  "pending_instance_times num now d =
     map (\<lambda>r. (r, billed_hours num d r (Some now))) (filter (\<lambda>r. in_end r = None) (instances d))"

definition COST_BASE :: rat where "COST_BASE = 85 / 1000"
definition SPOT_FACTOR :: rat where "SPOT_FACTOR = 7 / 10"

definition spot_to_type :: "bool \<Rightarrow> string" where
  "spot_to_type is_spot = (if is_spot then ''spot'' else ''demand'')"

type_synonym hour_row = "bool \<times> string \<times> rat option"

text \<open>
  \<open>GROUP BY is_spot, instance_type\<close>: one row per group; their order is the database's.
\<close>

definition group_hours :: "string \<Rightarrow> (inst_row \<times> rat option) list \<Rightarrow> hour_row list" where
  "group_hours user rows =
     (let mine = filter (\<lambda>(r, _). in_user r = user) rows
      in map (\<lambda>(sp, ty). (sp, ty, sql_sum (map snd (filter (\<lambda>(r, _). in_spot r = sp \<and> in_type r = ty) mine))))
           (remdups (map (\<lambda>(r, _). (in_spot r, in_type r)) mine)))"

definition group_pending :: "string \<Rightarrow> pend_row list \<Rightarrow> hour_row list" where
  "group_pending user rows =
     (let mine = filter (\<lambda>r. pr_user r = user) rows
      in map (\<lambda>ty. (True, ty, Some (of_nat (length (filter (\<lambda>r. pr_type r = ty) mine)))))
           (remdups (map pr_type mine)))"

text \<open>
  \<open>fmt\<close> lays out the line of a row (hours, type, kind, price, subtotal), \<open>fmt_total\<close> the last
  one; both are Python's \<open>%\<close> on floats. The price list is that of \<open>subaccounts.py\<close>, which
  \<open>record_usage.py\<close> repeats. A sum of hours that is \<open>NULL\<close> cannot be multiplied.
\<close>

definition type_cost :: "string \<Rightarrow> py_exc + rat" where
  "type_cost ty = (case dlookup INSTANCE_COST ty of
     Inl e \<Rightarrow> Inl e
   | Inr v \<Rightarrow> (case as_num v of None \<Rightarrow> Inl TypeError | Some q \<Rightarrow> Inr q))"

fun report_rows ::
  "(rat \<Rightarrow> string \<Rightarrow> string \<Rightarrow> rat \<Rightarrow> rat \<Rightarrow> string) \<Rightarrow> hour_row list \<Rightarrow> py_exc + string \<times> rat" where
  "report_rows fmt [] = Inr ([], 0)"
| "report_rows fmt ((is_spot, ty, hours) # rows) =
     (case type_cost ty of Inl e \<Rightarrow> Inl e | Inr c \<Rightarrow>
        (let estimate = (if is_spot then c * COST_BASE * SPOT_FACTOR else c * COST_BASE) in
         case hours of None \<Rightarrow> Inl TypeError | Some h \<Rightarrow>
           (case report_rows fmt rows of Inl e \<Rightarrow> Inl e | Inr (text, t) \<Rightarrow>
              Inr (fmt h ty (spot_to_type is_spot) estimate (estimate * h) @ text, estimate * h + t))))"

definition report_set ::
  "(rat \<Rightarrow> string \<Rightarrow> string \<Rightarrow> rat \<Rightarrow> rat \<Rightarrow> string) \<Rightarrow> (rat \<Rightarrow> string) \<Rightarrow> hour_row list
     \<Rightarrow> py_exc + string \<times> rat" where
  "report_set fmt fmt_total rows =
     (case report_rows fmt rows of Inl e \<Rightarrow> Inl e | Inr (text, t) \<Rightarrow>
        Inr (text @ (if rows = [] then ''(none)'' @ [nl] else []) @ fmt_total t, t))"

text \<open>
  The report of a user. The views are evaluated at the time \<open>julianday('now')\<close> of the query, read
  from the clock.
\<close>

definition section_text :: "string \<Rightarrow> string \<Rightarrow> string" where
  "section_text title description = title @ [nl] @ description"

definition user_report ::
  "(string \<Rightarrow> rat option) \<Rightarrow> (string \<Rightarrow> rat) \<Rightarrow> (rat \<Rightarrow> string \<Rightarrow> string \<Rightarrow> rat \<Rightarrow> rat \<Rightarrow> string)
     \<Rightarrow> (rat \<Rightarrow> string) \<Rightarrow> env \<Rightarrow> string \<Rightarrow> bool \<Rightarrow> bool \<Rightarrow> (usage_world, string \<times> rat) st" where
  "user_report jd num fmt fmt_total E username include_pending include_live =
     andthen (if include_live
              then andthen (update_instances jd E (Some username)) (update_spot_requests jd E (Some username))
              else ret ())
    (bnd (gets (\<lambda>w. group_hours username (finished_instance_times num (udb w)))) (\<lambda>finished.
     bnd (clock E) (\<lambda>now.
     bnd (gets (\<lambda>w. group_hours username (pending_instance_times num now (udb w)))) (\<lambda>pending.
     bnd (gets (\<lambda>w. group_pending username (pending_spots (udb w)))) (\<lambda>spots.
     bnd (if include_pending \<and> spots \<noteq> [] then lift_sum (report_set fmt fmt_total spots) else ret ([], 0))
       (\<lambda>(d1, s1).
     bnd (if include_pending \<and> pending \<noteq> [] then lift_sum (report_set fmt fmt_total pending) else ret ([], 0))
       (\<lambda>(d2, s2).
     bnd (lift_sum (report_set fmt fmt_total finished)) (\<lambda>(d3, s3).
     ret ((if include_pending \<and> spots \<noteq> [] then section_text ''Pending spot requests:'' d1 else [])
          @ (if include_pending \<and> pending \<noteq> [] then section_text ''Running instances:'' d2 else [])
          @ section_text ''Finished instances:'' d3, s1 + s2 + s3)))))))))"

definition known_users :: "usage_db \<Rightarrow> string list" where
  "known_users d = remdups (map in_user (instances d))"


section \<open>Who is charged\<close>

lemma count_list_1_split:
  assumes "count_list u c = 1"
  obtains a b where "u = a @ c # b" "c \<notin> set a" "c \<notin> set b"
proof -
  have "c \<in> set u" using assms count_list_0_iff [of u c] by fastforce
  then obtain a b where ab: "u = a @ c # b" "c \<notin> set a" by (metis split_list_first)
  moreover have "count_list b c = 0" using assms ab by simp
  ultimately show ?thesis using that by (simp add: count_list_0_iff)
qed

lemma user_from_key_cs:
  assumes "py_startswith u ''cs''" and "count_list u (CHR ''-'') = 1" and "py_startswith k (u @ ''-'')"
  shows "user_from_key k = u"
proof -
  obtain a b where u: "u = a @ CHR ''-'' # b" "CHR ''-'' \<notin> set a" "CHR ''-'' \<notin> set b"
    using assms(2) by (rule count_list_1_split)
  obtain r where r: "k = u @ CHR ''-'' # r" using assms(3) by (auto simp: py_startswith_iff)
  then have "k = a @ CHR ''-'' # (b @ CHR ''-'' # r)" using u by simp
  then have "py_split (CHR ''-'') k = a # b # py_split (CHR ''-'') r"
    using u by (simp add: py_split_append)
  moreover have "py_startswith k ''cs''"
    using assms(1) r by (metis py_startswith_append py_startswith_trans)
  ultimately show ?thesis using u by (simp add: user_from_key_def)
qed

lemma user_from_key_plain:
  assumes "\<not> py_startswith u ''cs''" and "CHR ''-'' \<notin> set u" and "py_startswith k (u @ ''-'')"
  shows "user_from_key k = u"
proof -
  obtain r where r: "k = u @ CHR ''-'' # r" using assms(3) by (auto simp: py_startswith_iff)
  have "\<not> py_startswith k ''cs''"
  proof
    assume "py_startswith k ''cs''"
    then have "\<exists>s. u @ CHR ''-'' # r = CHR ''c'' # CHR ''s'' # s" using r by (simp add: py_startswith_iff)
    then show False
      using assms(1) by (cases u; cases "tl u") (auto simp: py_startswith_def)
  qed
  moreover have "py_split (CHR ''-'') k = u # py_split (CHR ''-'') r"
    using r assms(2) by (simp add: py_split_append)
  ultimately show ?thesis by (simp add: user_from_key_def)
qed

text \<open>
  Usage is charged to its user. For a class account (\<open>cs\<close>..., one dash) and for any other name
  without a dash, the user that the accounting reads off a key created for that user is the
  user itself, whatever name the key was given.
\<close>

theorem user_from_key_full_name:
  assumes "py_startswith u ''cs'' \<and> count_list u (CHR ''-'') = 1
    \<or> \<not> py_startswith u ''cs'' \<and> CHR ''-'' \<notin> set u"
  shows "user_from_key (full_key_name u k) = u"
  using assms user_from_key_cs user_from_key_plain full_key_name_prefix by blast

theorem user_from_key_full_name_witness:
  "user_from_key (full_key_name ''cs61c-ab'' ''x-y-z'') = ''cs61c-ab''
   \<and> user_from_key (full_key_name ''charles'' ''k'') = ''charles''"
  using user_from_key_full_name [of "''cs61c-ab''" "''x-y-z''"]
    user_from_key_full_name [of "''charles''" "''k''"]
  by (simp add: py_startswith_def)

text \<open>
  The staff account is not charged. A name that begins with \<open>cs\<close> and has no dash, such as
  \<open>cs61c\<close> itself, is never the user that the accounting reads off one of its keys: the
  usage is charged to a name that does not exist.
\<close>

theorem user_from_key_misses_undashed:
  assumes "py_startswith u ''cs''" and "CHR ''-'' \<notin> set u"
  shows "user_from_key (full_key_name u k) \<noteq> u"
proof -
  obtain r where r: "full_key_name u k = u @ CHR ''-'' # r"
    using full_key_name_prefix [of u k] by (auto simp: py_startswith_iff)
  obtain x xs where x: "py_split (CHR ''-'') r = x # xs" by (cases "py_split (CHR ''-'') r") auto
  have "py_startswith (full_key_name u k) ''cs''"
    using assms(1) r by (metis py_startswith_append py_startswith_trans)
  moreover have "py_split (CHR ''-'') (full_key_name u k) = u # x # xs"
    using r x assms(2) by (simp add: py_split_append)
  ultimately show ?thesis by (simp add: user_from_key_def)
qed

theorem user_from_key_misses_undashed_witness:
  "user_from_key (full_key_name ''cs61c'' ''default'') \<noteq> ''cs61c''"
  using user_from_key_misses_undashed [of "''cs61c''" "''default''"] by (simp add: py_startswith_def)

end
