(* ===== verification/UsageHistory.thy ===== *)
theory UsageHistory
  imports Usage
begin

text \<open>
  What the usage database says after many runs of the cron job: a specification of the update
  as a sequence of atomic steps and the proof that the transactions of the code implement it,
  then the facts about recorded instances, stops, hours and spot requests.
\<close>


section \<open>The update as atomic steps\<close>

definition record_spec ::
  "(string \<Rightarrow> rat option) \<Rightarrow> string \<Rightarrow> ec2_instance \<Rightarrow> usage_db \<Rightarrow> py_exc + usage_db" where
  "record_spec jd now i d =
     (case user_of_key (i_key_name i) of Inl e \<Rightarrow> Inl e | Inr user \<Rightarrow>
        if i_state i = ''terminated'' then
          Inr (if old_end_time (i_id i) d = None
               then replace_instance (row_of jd now i user (jd now)) d else d)
        else if i_state i = ''stopped'' then
          (if \<exists>r \<in> set (instance_stopped d). st_id r = i_id i \<and> st_stopped r = now
           then Inl (OperationalError ''columns instance_id, stopped_time are not unique'')
           else Inr ((replace_instance (row_of jd now i user None) d)
                  \<lparr>instance_stopped := instance_stopped d
                     @ [\<lparr>st_id = i_id i, st_stopped = now, st_running = None\<rparr>]\<rparr>))
        else if old_stop_time (i_id i) d \<noteq> None then Inl syntax_error
        else Inr (replace_instance (row_of jd now i user None) d))"

fun record_all ::
  "(string \<Rightarrow> rat option) \<Rightarrow> string \<Rightarrow> ec2_instance list \<Rightarrow> usage_db \<Rightarrow> (py_exc + unit) \<times> usage_db" where
  "record_all jd now [] d = (Inr (), d)"
| "record_all jd now (i # is) d =
     (case record_spec jd now i d of Inl e \<Rightarrow> (Inl e, d) | Inr d' \<Rightarrow> record_all jd now is d')"

lemma record_instance_spec:
  assumes "saved w = None"
  shows "case record_spec jd now i (udb w) of
      Inr d \<Rightarrow> record_instance jd now i w = (Inr (), w\<lparr>udb := d\<rparr>)
    | Inl e \<Rightarrow> \<exists>w'. record_instance jd now i w = (Inl e, w') \<and> close_db w' = w"
  using assms
  by (cases w) (auto simp: record_spec_def record_instance_def st_defs begin_tx_def commit_tx_def gets_def
      on_udb_def modify_def insert_stop_def replace_instance_def close_db_def split: sum.splits)

lemma record_instances_spec:
  assumes "saved w = None"
  shows "\<exists>w'. for_each (record_instance jd now) is w = (fst (record_all jd now is (udb w)), w')
     \<and> close_db w' = w\<lparr>udb := snd (record_all jd now is (udb w))\<rparr>
     \<and> (fst (record_all jd now is (udb w)) = Inr () \<longrightarrow> saved w' = None)"
  using assms
proof (induction "is" arbitrary: w)
  case Nil
  then show ?case by (simp add: ret_def close_db_def)
next
  case (Cons i "is")
  show ?case
  proof (cases "record_spec jd now i (udb w)")
    case (Inl e)
    with record_instance_spec [OF Cons.prems, of jd now i]
    obtain w' where "record_instance jd now i w = (Inl e, w')" "close_db w' = w" by auto
    with Inl show ?thesis by (auto simp: andthen_def bnd_def)
  next
    case (Inr d)
    let ?w = "w\<lparr>udb := d\<rparr>"
    from Inr record_instance_spec [OF Cons.prems, of jd now i]
    have "record_instance jd now i w = (Inr (), ?w)" by simp
    moreover obtain w' where "for_each (record_instance jd now) is ?w = (fst (record_all jd now is d), w')"
        "close_db w' = ?w\<lparr>udb := snd (record_all jd now is d)\<rparr>"
        "fst (record_all jd now is d) = Inr () \<longrightarrow> saved w' = None"
      using Cons.IH [of ?w] Cons.prems by auto
    ultimately show ?thesis
      using Inr Cons.prems by (auto simp: andthen_def bnd_def)
  qed
qed

lemma for_each_nested: "for_each (\<lambda>x. for_each f (g x)) xs = for_each f (concat (map g xs))"
  by (induction xs) (simp_all add: for_each_append)

definition observed :: "reservation list \<Rightarrow> ec2_instance list" where
  "observed rs = concat (map r_instances rs)"

text \<open>
  C6: an update is a sequence of atomic steps. Whatever EC2 lists, the update behaves like the
  specification that takes the instances one at a time, changes the tables for each completely
  or not at all, and ends at the first one that fails: after the process has ended, the
  database is exactly what the specification leaves.
\<close>

theorem update_instances_atomic:
  assumes "saved w = None"
    and "ans_instances E (trail w @ [GetAllInstances None (name_filter ''key-name'' user)]) = Inr rs"
    and "ans_text E (trail w @ [GetAllInstances None (name_filter ''key-name'' user), Os NowText]) = Inr now"
  shows "fst (update_instances jd E user w) = fst (record_all jd now (observed rs) (udb w))
    \<and> udb (close_db (snd (update_instances jd E user w))) = snd (record_all jd now (observed rs) (udb w))"
proof -
  let ?w = "w\<lparr>trail := trail w @ [GetAllInstances None (name_filter ''key-name'' user), Os NowText]\<rparr>"
  have run: "update_instances jd E user w = for_each (record_instance jd now) (observed rs) ?w"
    using assms(2,3)
    by (simp add: update_instances_def bnd_def perform_def for_each_nested observed_def)
  from assms(1) have "saved ?w = None" by simp
  from record_instances_spec [OF this, of jd now "observed rs"] show ?thesis
    unfolding run by auto
qed

lemma record_all_append:
  "record_all jd now (xs @ ys) d =
     (case record_all jd now xs d of (Inl e, d') \<Rightarrow> (Inl e, d') | (Inr _, d') \<Rightarrow> record_all jd now ys d')"
  by (induction xs arbitrary: d) (auto split: sum.splits)


section \<open>Stops\<close>

text \<open>The updates only ever add rows with an empty \<open>running_time\<close>.\<close>

lemma replace_instance_stops [simp]:
  "instance_stopped (replace_instance r d) = instance_stopped d"
  "pending_spots (replace_instance r d) = pending_spots d"
  by (simp_all add: replace_instance_def)

lemma record_spec_stops:
  assumes "record_spec jd now i d = Inr d'"
  shows "\<exists>new. instance_stopped d' = instance_stopped d @ new \<and> (\<forall>r \<in> set new. st_running r = None)"
    and "pending_spots d' = pending_spots d"
  using assms by (auto simp: record_spec_def split: sum.splits if_splits)

lemma record_all_stops:
  "\<exists>new. instance_stopped (snd (record_all jd now is d)) = instance_stopped d @ new
     \<and> (\<forall>r \<in> set new. st_running r = None)"
proof (induction "is" arbitrary: d)
  case (Cons i "is")
  show ?case
  proof (cases "record_spec jd now i d")
    case (Inr d')
    obtain n1 where n1: "instance_stopped d' = instance_stopped d @ n1" "\<forall>r \<in> set n1. st_running r = None"
      using record_spec_stops(1) [OF Inr] by blast
    obtain n2 where "instance_stopped (snd (record_all jd now is d')) = instance_stopped d' @ n2"
        "\<forall>r \<in> set n2. st_running r = None" using Cons.IH by blast
    with n1 Inr show ?thesis by (intro exI [of _ "n1 @ n2"]) auto
  qed simp
qed simp

lemma record_all_pending [simp]: "pending_spots (snd (record_all jd now is d)) = pending_spots d"
  by (induction "is" arbitrary: d) (auto dest: record_spec_stops(2) split: sum.splits)

lemma foldl_last_Some: "foldl (\<lambda>_ r. Some (f r)) x rs \<noteq> None \<longleftrightarrow> rs \<noteq> [] \<or> x \<noteq> None"
  by (induction rs arbitrary: x) simp_all

lemma old_stop_time_iff:
  "old_stop_time i d \<noteq> None \<longleftrightarrow> (\<exists>r \<in> set (instance_stopped d). st_id r = i \<and> st_running r = None)"
  unfolding old_stop_time_def foldl_last_Some by (auto simp: filter_empty_conv)

lemma old_stop_time_record_all:
  assumes "old_stop_time i d \<noteq> None"
  shows "old_stop_time i (snd (record_all jd now is d)) \<noteq> None"
proof -
  obtain new where "instance_stopped (snd (record_all jd now is d)) = instance_stopped d @ new"
    using record_all_stops by blast
  with assms show ?thesis unfolding old_stop_time_iff by auto
qed

lemma record_all_restarted:
  assumes "i \<in> set is" and "i_state i \<notin> {''stopped'', ''terminated''}" and "old_stop_time (i_id i) d \<noteq> None"
  shows "\<exists>e. fst (record_all jd now is d) = Inl e"
proof -
  obtain xs ys where split: "is = xs @ i # ys" using assms(1) by (meson split_list)
  obtain r d' where xs: "record_all jd now xs d = (r, d')" by fastforce
  then have "old_stop_time (i_id i) d' \<noteq> None" using old_stop_time_record_all assms(3) by (metis snd_conv)
  then have "\<exists>e. record_spec jd now i d' = Inl e"
    using assms(2) by (auto simp: record_spec_def split: sum.splits)
  with xs show ?thesis by (cases r) (auto simp: split record_all_append)
qed

lemma record_instances_closed:
  assumes "saved w = None"
  shows "udb (close_db (snd (for_each (record_instance jd now) is w))) = snd (record_all jd now is (udb w))"
    and "fst (for_each (record_instance jd now) is w) = fst (record_all jd now is (udb w))"
  using record_instances_spec [OF assms, of jd now "is"] by auto

text \<open>
  C8: a restarted instance stops the accounting for good. While the database has an open stop
  for an instance and EC2 lists that instance as running again, every cron run fails: the
  statement that should close the stop is not SQL. The open stop is still there afterwards, so
  that the next run fails as well, and the table of pending spot requests is never updated.
\<close>

theorem restarted_instance_blocks_cron:
  assumes "saved w = None"
    and "ans_instances E (trail w @ [GetAllInstances None None]) = Inr rs"
    and "i \<in> set (observed rs)" and "i_state i \<notin> {''stopped'', ''terminated''}"
    and "old_stop_time (i_id i) (udb w) \<noteq> None"
  shows "\<exists>e w'. usage_cron jd E w = (Inl e, w') \<and> saved w' = None
    \<and> old_stop_time (i_id i) (udb w') \<noteq> None
    \<and> pending_spots (udb w') = pending_spots (udb w)"
proof -
  let ?h = "trail w @ [GetAllInstances None None, Os NowText]"
  let ?w = "w\<lparr>trail := ?h\<rparr>"
  have closed: "saved (close_db v) = None" for v by (simp add: close_db_def split: option.splits)
  show ?thesis
  proof (cases "ans_text E ?h")
    case (Inl e)
    with assms have "usage_cron jd E w = (Inl e, close_db ?w)"
      by (simp add: usage_cron_def update_instances_def st_defs perform_def name_filter_def)
    moreover have "close_db ?w = ?w" using assms(1) by (simp add: close_db_def)
    ultimately show ?thesis using assms by simp
  next
    case (Inr now)
    let ?m = "for_each (record_instance jd now) (observed rs) ?w"
    have "update_instances jd E None w = ?m"
      using assms(2) Inr by (simp add: update_instances_def bnd_def perform_def name_filter_def
          for_each_nested observed_def)
    moreover obtain e where e: "fst ?m = Inl e"
      using record_instances_closed(2) [of ?w jd now "observed rs"] assms(1)
        record_all_restarted [OF assms(3-5)] by auto
    ultimately have "usage_cron jd E w = (Inl e, close_db (snd ?m))"
      by (cases ?m) (simp add: usage_cron_def st_defs)
    then show ?thesis
      using record_instances_closed(1) [of ?w jd now "observed rs"] assms(1,5) closed
        old_stop_time_record_all by auto
  qed
qed

text \<open>An instance in a given state, the listing that holds only it, and databases with and without its stop.\<close>

definition inst_in :: "string \<Rightarrow> ec2_instance" where
  "inst_in state =
     \<lparr>i_id = ''i-1'', i_image_id = [], i_dns_name = [], i_private_dns_name = [], i_state = state,
      i_key_name = Some ''cs61c-ab-k'', i_type = ''c1.medium'', i_launch_time = ''t0'',
      i_placement = [], i_spot_id = None\<rparr>"

definition env_lists :: "ec2_instance list \<Rightarrow> spot_request list \<Rightarrow> env" where
  "env_lists is ss = env0\<lparr>ans_instances := (\<lambda>_. Inr [\<lparr>r_groups = [], r_instances = is\<rparr>]),
     ans_spots := (\<lambda>_. Inr ss), ans_text := (\<lambda>_. Inr ''t1'')\<rparr>"

definition usage0 :: usage_world where
  "usage0 = \<lparr>trail = [], udb = \<lparr>instances = [], instance_stopped = [], pending_spots = []\<rparr>, saved = None\<rparr>"

definition usage_stopped :: usage_world where
  "usage_stopped = usage0\<lparr>udb := (udb usage0)\<lparr>instance_stopped :=
     [\<lparr>st_id = ''i-1'', st_stopped = ''t0'', st_running = None\<rparr>]\<rparr>\<rparr>"

lemmas usage_examples = inst_in_def env_lists_def usage0_def usage_stopped_def env0_def

theorem update_instances_atomic_witness:
  "udb (close_db (snd (update_instances (\<lambda>_. Some 1) (env_lists [inst_in ''running''] []) None usage0)))
   = snd (record_all (\<lambda>_. Some 1) ''t1'' [inst_in ''running''] (udb usage0))"
  using update_instances_atomic [of usage0 "env_lists [inst_in ''running''] []" None
      "[\<lparr>r_groups = [], r_instances = [inst_in ''running'']\<rparr>]" "''t1''" "\<lambda>_. Some 1"]
  by (simp add: env_lists_def env0_def usage0_def observed_def)

theorem restarted_instance_blocks_cron_witness:
  "\<exists>e w'. usage_cron (\<lambda>_. Some 1) (env_lists [inst_in ''running''] []) usage_stopped = (Inl e, w')
     \<and> saved w' = None \<and> old_stop_time ''i-1'' (udb w') \<noteq> None \<and> pending_spots (udb w') = []"
  using restarted_instance_blocks_cron [of usage_stopped "env_lists [inst_in ''running''] []"
      "[\<lparr>r_groups = [], r_instances = [inst_in ''running'']\<rparr>]" "inst_in ''running''" "\<lambda>_. Some 1"]
  by (simp add: usage_examples observed_def old_stop_time_def)


section \<open>Reachable databases and the hours charged\<close>

text \<open>
  The databases that any number of cron runs and reports leave, from the empty one, whatever
  EC2 answers: every run may meet another environment.
\<close>

inductive usage_reachable :: "(string \<Rightarrow> rat option) \<Rightarrow> usage_world \<Rightarrow> bool" for jd where
  start: "usage_reachable jd usage0"
| cron: "usage_reachable jd w \<Longrightarrow> usage_cron jd E w = (r, w') \<Longrightarrow> usage_reachable jd w'"
| report: "usage_reachable jd w \<Longrightarrow> user_report jd num fmt fmt_total E u p l w = (r, w') \<Longrightarrow>
    usage_reachable jd (close_db w')"

definition stops_open :: "usage_db \<Rightarrow> bool" where
  "stops_open d \<longleftrightarrow> (\<forall>r \<in> set (instance_stopped d). st_running r = None)"

definition usage_inv :: "usage_world \<Rightarrow> bool" where
  "usage_inv w \<longleftrightarrow> stops_open (udb w) \<and> (\<forall>d. saved w = Some d \<longrightarrow> stops_open d)"

lemma usage_inv_on_udb [hoare_rules]:
  "(\<And>d. stops_open d \<Longrightarrow> stops_open (f d)) \<Longrightarrow> keeps usage_inv (on_udb f)"
  by (auto simp: on_udb_def usage_inv_def intro!: hoare_rules)

lemma usage_inv_tx [hoare_rules]: "keeps usage_inv begin_tx" "keeps usage_inv commit_tx"
  by (auto simp: begin_tx_def commit_tx_def usage_inv_def intro!: keepsI split: option.splits)

lemma usage_inv_perform [hoare_rules]: "keeps usage_inv (perform ans c)"
  by (auto simp: perform_def usage_inv_def intro!: keepsI)

lemma usage_inv_insert_stop [hoare_rules]: "keeps usage_inv (insert_stop i now)"
  by (auto simp: insert_stop_def on_udb_def usage_inv_def stops_open_def intro!: keepsI split: if_splits)

lemma stops_open_replace [simp]: "stops_open (replace_instance r d) = stops_open d"
  "stops_open (replace_pending p d) = stops_open d"
  "stops_open (d\<lparr>pending_spots := ps\<rparr>) = stops_open d"
  by (simp_all add: stops_open_def replace_pending_def)

lemma usage_inv_updates [hoare_rules]:
  "keeps usage_inv (update_instances jd E u)" "keeps usage_inv (update_spot_requests jd E u)"
  by (auto simp: update_instances_def record_instance_def update_spot_requests_def record_spot_def
      intro!: hoare_rules)

lemma usage_inv_close: "usage_inv w \<Longrightarrow> usage_inv (close_db w)"
  by (simp add: close_db_def usage_inv_def split: option.splits)

lemma usage_inv_reachable: "usage_reachable jd w \<Longrightarrow> usage_inv w"
proof (induction rule: usage_reachable.induct)
  case start
  then show ?case by (simp add: usage0_def usage_inv_def stops_open_def)
next
  case (cron w E r w')
  obtain w1 where "andthen (update_instances jd E None) (update_spot_requests jd E None) w = (r, w1)"
      and w': "w' = close_db w1"
    using cron.hyps(2) by (auto simp: usage_cron_def split: prod.splits)
  moreover have "keeps usage_inv (andthen (update_instances jd E None) (update_spot_requests jd E None))"
    by (intro hoare_rules)
  ultimately show ?case using keepsD cron.IH usage_inv_close w' by metis
next
  case (report w num fmt fmt_total E u p l r w')
  have "keeps usage_inv (user_report jd num fmt fmt_total E u p l)"
    by (auto simp: user_report_def clock_def intro!: hoare_rules split: prod.splits)
  then show ?case using keepsD report usage_inv_close by metis
qed

lemma sql_sum_None: "sql_sum (map (\<lambda>_. None) xs) = None"
  by (simp add: sql_sum_def Let_def)

lemma stopped_time_None:
  assumes "stops_open d"
  shows "instance_stopped_time num d i = None"
proof -
  have "map (\<lambda>r. case st_running r of None \<Rightarrow> None | Some t \<Rightarrow> Some ((num t - num (st_stopped r)) * 24))
      (filter (\<lambda>r. st_id r = i) (instance_stopped d)) =
    map (\<lambda>_. None) (filter (\<lambda>r. st_id r = i) (instance_stopped d))"
    using assms by (auto simp: stops_open_def)
  then show ?thesis by (simp only: instance_stopped_time_def sql_sum_None)
qed

lemma sql_round_up: "0 \<le> x \<Longrightarrow> x < sql_round (x + 1 / 2) \<and> sql_round (x + 1 / 2) \<le> x + 1"
  by (simp add: sql_round_def) linarith

text \<open>
  C10: the time an instance was stopped is charged. In every database that cron runs and reports
  can leave, a finished instance is charged for the whole span from its launch to its
  termination, rounded up (a whole number of hours gets one more), and a pending one for the
  span up to the report: no stop is ever deducted.
\<close>

theorem stopped_time_never_deducted:
  assumes "usage_reachable jd w" and "in_start r = Some s" and "s \<le> e"
  shows "\<exists>h. billed_hours num (udb w) r (Some e) = Some h \<and> 24 * (e - s) < h \<and> h \<le> 24 * (e - s) + 1"
proof -
  have "instance_stopped_time num (udb w) (in_id r) = None"
    using usage_inv_reachable [OF assms(1)] stopped_time_None by (simp add: usage_inv_def)
  then show ?thesis
    using assms(2,3) sql_round_up [of "24 * (e - s)"] by (simp add: billed_hours_def algebra_simps)
qed

theorem stopped_time_never_deducted_witness:
  "\<exists>h. billed_hours (\<lambda>_. 0) (udb usage0)
      \<lparr>in_id = ''i-1'', in_type = ''c1.medium'', in_start = Some 0, in_end = Some 1, in_seen = None,
       in_spot = False, in_user = ''cs61c-ab''\<rparr> (Some 1) = Some h \<and> 24 < h \<and> h \<le> 25"
  using stopped_time_never_deducted [OF usage_reachable.start, of
      "\<lparr>in_id = ''i-1'', in_type = ''c1.medium'', in_start = Some 0, in_end = Some 1, in_seen = None,
        in_spot = False, in_user = ''cs61c-ab''\<rparr>" 0 1 "\<lambda>_. 0"]
  by simp


section \<open>What is recorded\<close>

definition rows_of_id :: "string \<Rightarrow> usage_db \<Rightarrow> inst_row list" where
  "rows_of_id i d = filter (\<lambda>r. in_id r = i) (instances d)"

lemma rows_of_id_replace:
  "rows_of_id i (replace_instance r d) = (if in_id r = i then [r] else rows_of_id i d)"
  by (auto simp: rows_of_id_def replace_instance_def intro: filter_cong)

lemma rows_of_id_stops [simp]: "rows_of_id i (d\<lparr>instance_stopped := s\<rparr>) = rows_of_id i d"
  by (simp add: rows_of_id_def)

lemma in_id_row_of [simp]: "in_id (row_of jd now i u e) = i_id i"
  by (simp add: row_of_def)

lemma record_spec_other:
  "record_spec jd now j d = Inr d' \<Longrightarrow> i_id j \<noteq> i \<Longrightarrow> rows_of_id i d' = rows_of_id i d"
  by (auto simp: record_spec_def rows_of_id_replace split: sum.splits if_splits)

lemma record_spec_ended:
  assumes "record_spec jd now j d = Inr d'" and "i_state j = ''terminated''" and "old_end_time (i_id j) d \<noteq> None"
  shows "d' = d"
  using assms by (auto simp: record_spec_def split: sum.splits)

lemma record_all_keeps_rows:
  assumes "\<And>j. j \<in> set is \<Longrightarrow> i_id j = i \<Longrightarrow> i_state j = ''terminated'' \<and> old_end_time i d \<noteq> None"
  shows "rows_of_id i (snd (record_all jd now is d)) = rows_of_id i d"
  using assms
proof (induction "is" arbitrary: d)
  case (Cons j "is")
  show ?case
  proof (cases "record_spec jd now j d")
    case (Inr d')
    have same: "rows_of_id i d' = rows_of_id i d"
    proof (cases "i_id j = i")
      case True
      with Cons.prems [of j] have "i_state j = ''terminated''" "old_end_time (i_id j) d \<noteq> None" by auto
      then show ?thesis using record_spec_ended [OF Inr] by blast
    next
      case False
      then show ?thesis using record_spec_other [OF Inr] by blast
    qed
    then have e: "old_end_time i d' = old_end_time i d" by (simp add: old_end_time_def rows_of_id_def)
    have "rows_of_id i (snd (record_all jd now is d')) = rows_of_id i d'"
    proof (rule Cons.IH)
      show "i_state x = ''terminated'' \<and> old_end_time i d' \<noteq> None" if "x \<in> set is" "i_id x = i" for x
        unfolding e using Cons.prems [of x] that by simp
    qed
    with Inr same show ?thesis by simp
  qed simp
qed simp

lemma update_instances_db:
  assumes "saved w = None"
  shows "\<exists>now rs. udb (close_db (snd (update_instances jd E u w))) = snd (record_all jd now (observed rs) (udb w))
    \<and> (ans_instances E (trail w @ [GetAllInstances None (name_filter ''key-name'' u)]) = Inr rs \<or> rs = [])"
proof (cases "ans_instances E (trail w @ [GetAllInstances None (name_filter ''key-name'' u)])")
  case (Inl e)
  with assms have "udb (close_db (snd (update_instances jd E u w))) = udb w"
    by (simp add: update_instances_def bnd_def perform_def close_db_def)
  then show ?thesis by (intro exI [of _ "[]"]) (simp add: observed_def)
next
  case (Inr rs)
  show ?thesis
  proof (cases "ans_text E (trail w @ [GetAllInstances None (name_filter ''key-name'' u), Os NowText])")
    case (Inl e)
    with assms Inr have "udb (close_db (snd (update_instances jd E u w))) = udb w"
      by (simp add: update_instances_def bnd_def perform_def close_db_def)
    then show ?thesis by (intro exI [of _ "[]"]) (simp add: observed_def)
  next
    case (Inr now)
    have "update_instances jd E u w = for_each (record_instance jd now) (observed rs)
        (w\<lparr>trail := trail w @ [GetAllInstances None (name_filter ''key-name'' u), Os NowText]\<rparr>)"
      using Inr \<open>ans_instances E _ = Inr rs\<close>
      by (simp add: update_instances_def bnd_def perform_def for_each_nested observed_def)
    then show ?thesis
      using record_instances_closed(1) [of "w\<lparr>trail := _\<rparr>" jd now "observed rs"] assms
        \<open>ans_instances E _ = Inr rs\<close> by auto
  qed
qed


definition usage_open :: usage_world where
  "usage_open = usage0\<lparr>udb := (udb usage0)\<lparr>instances :=
     [\<lparr>in_id = ''i-2'', in_type = ''c1.medium'', in_start = Some 0, in_end = None, in_seen = Some 0,
       in_spot = False, in_user = ''cs61c-ab''\<rparr>]\<rparr>\<rparr>"


text \<open>What a complete update records of each instance it lists.\<close>

definition recorded ::
  "(string \<Rightarrow> rat option) \<Rightarrow> string \<Rightarrow> ec2_instance \<Rightarrow> usage_db \<Rightarrow> usage_db \<Rightarrow> bool" where
  "recorded jd now i d d' \<longleftrightarrow>
     (case i_key_name i of None \<Rightarrow> False | Some k \<Rightarrow>
        rows_of_id (i_id i) d' =
          (if i_state i \<noteq> ''terminated'' then [row_of jd now i (user_from_key k) None]
           else if old_end_time (i_id i) d = None then [row_of jd now i (user_from_key k) (jd now)]
           else rows_of_id (i_id i) d))"

lemma record_spec_row:
  assumes "record_spec jd now i d = Inr d'"
  shows "recorded jd now i d d'"
  using assms by (auto simp: recorded_def record_spec_def rows_of_id_replace user_of_key_def
      split: sum.splits if_splits option.splits)

lemma record_all_row:
  assumes "record_all jd now is d = (Inr (), d')" and "distinct (map i_id is)" and "i \<in> set is"
  shows "recorded jd now i d d'"
  using assms
proof (induction "is" arbitrary: d)
  case (Cons j "is")
  obtain d1 where d1: "record_spec jd now j d = Inr d1" "record_all jd now is d1 = (Inr (), d')"
    using Cons.prems(1) by (auto split: sum.splits)
  show ?case
  proof (cases "i = j")
    case True
    then have "i_id x \<noteq> i_id i" if "x \<in> set is" for x
      using Cons.prems(2) that \<open>i = j\<close> by (metis distinct.simps(2) imageI list.simps(9) set_map)
    then have "rows_of_id (i_id i) (snd (record_all jd now is d1)) = rows_of_id (i_id i) d1"
      by (intro record_all_keeps_rows) blast
    then have "rows_of_id (i_id i) d' = rows_of_id (i_id i) d1" by (simp add: d1(2))
    with record_spec_row [OF d1(1)] True show ?thesis by (simp only: recorded_def)
  next
    case False
    then have "i \<in> set is" and "i_id j \<noteq> i_id i" using Cons.prems(2,3) by force+
    then have "rows_of_id (i_id i) d1 = rows_of_id (i_id i) d" using record_spec_other d1(1) by blast
    moreover from this have "old_end_time (i_id i) d1 = old_end_time (i_id i) d"
      by (simp add: old_end_time_def rows_of_id_def)
    moreover have "recorded jd now i d1 d'" using Cons.IH [OF d1(2)] Cons.prems(2) \<open>i \<in> set is\<close> by simp
    ultimately show ?thesis by (simp only: recorded_def)
  qed
qed simp




section \<open>Spot requests\<close>

definition spot_row :: "(string \<Rightarrow> rat option) \<Rightarrow> spot_request \<Rightarrow> pend_row" where
  "spot_row jd x = \<lparr>pr_id = s_id x, pr_type = s_type x, pr_time = jd (s_create_time x),
     pr_user = user_from_key (the (s_key_name x))\<rparr>"

lemma for_each_record_spot:
  assumes "\<And>x. x \<in> set ss \<Longrightarrow> s_key_name x \<noteq> None"
  shows "for_each (record_spot jd) ss w =
    (Inr (), w\<lparr>udb := fold replace_pending (map (spot_row jd) (filter (\<lambda>x. s_state x = ''open'') ss)) (udb w)\<rparr>)"
  using assms
proof (induction ss arbitrary: w)
  case (Cons x ss)
  then obtain k where k: "s_key_name x = Some k" by (metis list.set_intros(1) not_None_eq)
  have "record_spot jd x w =
      (Inr (), if s_state x = ''open'' then w\<lparr>udb := replace_pending (spot_row jd x) (udb w)\<rparr> else w)"
    by (simp add: record_spot_def user_of_key_def k on_udb_def ret_def spot_row_def)
  with Cons show ?case by (simp add: andthen_def bnd_def)
qed (simp add: ret_def)

lemma fold_replace_pending:
  "distinct (map pr_id (pending_spots d @ ps)) \<Longrightarrow>
   fold replace_pending ps d = d\<lparr>pending_spots := pending_spots d @ ps\<rparr>"
proof (induction ps arbitrary: d)
  case (Cons p ps)
  have "replace_pending p d = d\<lparr>pending_spots := pending_spots d @ [p]\<rparr>"
  proof -
    have "filter (\<lambda>x. pr_id x \<noteq> pr_id p) (pending_spots d) = pending_spots d"
    proof (rule filter_True, rule ballI)
      fix x
      assume "x \<in> set (pending_spots d)"
      then have "pr_id x \<in> pr_id ` set (pending_spots d)" by (rule imageI)
      moreover have "pr_id p \<notin> pr_id ` set (pending_spots d)" using Cons.prems by simp
      ultimately show "pr_id x \<noteq> pr_id p" by metis
    qed
    then show ?thesis by (simp add: replace_pending_def)
  qed
  with Cons show ?case by simp
qed simp

text \<open>
  A full update of the spot requests makes the table exactly the open requests that EC2
  lists: what was there before is gone, and one that is filled or cancelled is not there.
\<close>

theorem update_spot_requests_exact:
  assumes "saved w = None"
    and "ans_spots E (trail w @ [GetAllSpotRequests None None]) = Inr ss"
    and "\<And>x. x \<in> set ss \<Longrightarrow> s_key_name x \<noteq> None" and "distinct (map s_id ss)"
  shows "\<exists>w'. update_spot_requests jd E None w = (Inr (), w') \<and> saved w' = None
    \<and> udb w' = (udb w)\<lparr>pending_spots := map (spot_row jd) (filter (\<lambda>x. s_state x = ''open'') ss)\<rparr>"
proof -
  let ?o = "filter (\<lambda>x. s_state x = ''open'') ss"
  have "distinct (map s_id ?o)" using assms(4) by (rule distinct_map_filter)
  then have "distinct (map pr_id (pending_spots ((udb w)\<lparr>pending_spots := []\<rparr>) @ map (spot_row jd) ?o))"
    by (simp add: comp_def spot_row_def)
  from fold_replace_pending [OF this]
  have fold: "fold replace_pending (map (spot_row jd) ?o) ((udb w)\<lparr>pending_spots := []\<rparr>) =
      (udb w)\<lparr>pending_spots := map (spot_row jd) ?o\<rparr>" by simp
  show ?thesis
    using assms(1,2) for_each_record_spot [of ss jd, OF assms(3)] fold
    by (simp add: update_spot_requests_def st_defs perform_def name_filter_def begin_tx_def on_udb_def
        modify_def commit_tx_def)
qed

theorem update_spot_requests_exact_witness:
  "\<exists>w'. update_spot_requests (\<lambda>_. None) (env_lists []
      [\<lparr>s_id = ''s-1'', s_state = ''open'', s_key_name = Some ''ann-k'', s_type = ''m1.large'',
        s_create_time = ''t0'', s_groups = []\<rparr>]) None usage0 = (Inr (), w')
    \<and> pending_spots (udb w') = [\<lparr>pr_id = ''s-1'', pr_type = ''m1.large'', pr_time = None, pr_user = ''ann''\<rparr>]"
  using update_spot_requests_exact [of usage0 "env_lists []
      [\<lparr>s_id = ''s-1'', s_state = ''open'', s_key_name = Some ''ann-k'', s_type = ''m1.large'',
        s_create_time = ''t0'', s_groups = []\<rparr>]"
      "[\<lparr>s_id = ''s-1'', s_state = ''open'', s_key_name = Some ''ann-k'', s_type = ''m1.large'',
        s_create_time = ''t0'', s_groups = []\<rparr>]" "\<lambda>_. None"]
  by (fastforce simp: usage_examples spot_row_def user_from_key_def py_startswith_def)


section \<open>Reports\<close>

text \<open>The price of an hour and the sum that the report should show.\<close>

definition hour_price :: "hour_row \<Rightarrow> rat" where
  "hour_price row = (case row of (sp, ty, _) \<Rightarrow> cost_of ty * COST_BASE * (if sp then SPOT_FACTOR else 1))"

lemma type_cost_known: "ty \<in> fst ` set INSTANCE_COST \<Longrightarrow> type_cost ty = Inr (cost_of ty)"
  by (auto simp: INSTANCE_COST_def type_cost_def dlookup_def cost_of_def)

lemma type_cost_unknown: "ty \<notin> fst ` set INSTANCE_COST \<Longrightarrow> type_cost ty = Inl (KeyError ty)"
  by (simp add: type_cost_def dlookup_def flip: map_of_eq_None_iff)

lemma report_rows_total:
  assumes "\<forall>(_, ty, h) \<in> set rows. ty \<in> fst ` set INSTANCE_COST \<and> h \<noteq> None"
  shows "\<exists>text. report_rows fmt rows =
    Inr (text, \<Sum>(sp, ty, h) \<leftarrow> rows. hour_price (sp, ty, h) * the h)"
  using assms
proof (induction rows)
  case (Cons row rows)
  obtain sp ty h where row: "row = (sp, ty, h)" by (metis prod_cases3)
  with Cons.prems obtain q where q: "ty \<in> fst ` set INSTANCE_COST" "h = Some q" by fastforce
  obtain t where "report_rows fmt rows = Inr (t, \<Sum>(sp, ty, h) \<leftarrow> rows. hour_price (sp, ty, h) * the h)"
    using Cons by force
  with q row show ?case by (simp add: type_cost_known hour_price_def Let_def)
qed simp

text \<open>
  A report adds up. When every row has a known instance type and its hours, the report is
  produced and its total is the sum over the rows of the hours times the hourly price of the
  type, lowered by the spot factor on spot rows.
\<close>

theorem report_set_total:
  assumes "\<forall>(_, ty, h) \<in> set rows. ty \<in> fst ` set INSTANCE_COST \<and> h \<noteq> None"
  shows "\<exists>text. report_set fmt fmt_total rows =
    Inr (text, \<Sum>(sp, ty, h) \<leftarrow> rows. hour_price (sp, ty, h) * the h)"
  using report_rows_total [OF assms, of fmt] by (auto simp: report_set_def)

theorem report_set_total_witness:
  "\<exists>text. report_set (\<lambda>_ _ _ _ _. []) (\<lambda>_. []) [(True, ''m1.large'', Some 2), (False, ''m1.small'', Some 3)]
     = Inr (text, 4 * (85 / 1000) * (7 / 10) * 2 + 85 / 1000 * 3)"
proof -
  let ?rows = "[(True, ''m1.large'', Some 2), (False, ''m1.small'', Some 3)] :: hour_row list"
  have "\<forall>(_, ty, h) \<in> set ?rows. ty \<in> fst ` set INSTANCE_COST \<and> h \<noteq> None"
    by (simp add: INSTANCE_COST_def)
  from report_set_total [OF this]
  show ?thesis by (simp add: hour_price_def cost_of_def INSTANCE_COST_def COST_BASE_def SPOT_FACTOR_def)
qed

end
