(* ===== verification/CloudProvider.thy ===== *)
theory CloudProvider
  imports CloudUtil
begin

text \<open>
  \<open>hadoop/cloud/cluster.py\<close>, \<open>hadoop/cloud/providers/ec2.py\<close> (class \<open>Ec2Cluster\<close>) and
  \<open>cs61cec2.py\<close>: a cluster is a name, and the security groups \<open>name\<close> and \<open>name-role\<close>
  make instances its members. The two classes differ in three methods; \<open>cl_class\<close> says which
  of them an object is. Progress messages and debug logging are left out.
\<close>


section \<open>Clusters\<close>

datatype cluster_class = Ec2Cluster | CS61CEc2Cluster

record cluster =
  cl_class :: cluster_class
  cl_name :: string
  cl_config_dir :: string

definition get_provider_code :: "cluster \<Rightarrow> string" where
  "get_provider_code cl = (case cl_class cl of Ec2Cluster \<Rightarrow> ''ec2'' | CS61CEc2Cluster \<Rightarrow> ''cs61cec2'')"

text \<open>
  The dummy provider and the absent module of the \<open>rackspace\<close> provider are outside the model:
  both are the value \<open>None\<close>.
\<close>

definition get_cluster :: "string \<Rightarrow> py_exc + cluster_class option" where
  "get_cluster provider =
     (if provider = ''dummy'' then Inr None
      else if provider = ''ec2'' then Inr (Some Ec2Cluster)
      else if provider = ''cs61cec2'' then Inr (Some CS61CEc2Cluster)
      else if provider = ''rackspace'' then Inl (ImportError ''hadoop.cloud.providers.rackspace'')
      else Inl (KeyError provider))"

text \<open>The class \<open>Instance\<close>: what the services see of an instance.\<close>

record host =
  h_id :: string
  h_public_ip :: string
  h_private_ip :: string

definition host_of :: "ec2_instance \<Rightarrow> host" where
  "host_of i = \<lparr>h_id = i_id i, h_public_ip = i_dns_name i, h_private_ip = i_private_dns_name i\<rparr>"


section \<open>Names of groups\<close>

definition role_char :: "char \<Rightarrow> bool" where
  "role_char c \<longleftrightarrow> c \<in> set ''abcdefghijklmnopqrstuvwxyzABCDEFGHIJKLMNOPQRSTUVWXYZ0123456789_+''"

text \<open>
  \<open>$\<close> in a pattern matches at the end and also before a newline at the end, which is why a role
  with a newline at its end passes the check.
\<close>

definition drop_final_nl :: "string \<Rightarrow> string" where
  "drop_final_nl s = (if s \<noteq> [] \<and> last s = nl then butlast s else s)"

definition role_ok :: "string \<Rightarrow> bool" where
  "role_ok role \<longleftrightarrow> drop_final_nl role \<noteq> [] \<and> list_all role_char (drop_final_nl role)"

definition check_role_name :: "string \<Rightarrow> ('s, unit) st" where
  "check_role_name role =
     (if role_ok role then ret ()
      else raise (RoleSyntaxError (''Invalid role name '' @ [squote] @ role @ [squote])))"

definition group_name_for_role :: "cluster \<Rightarrow> string \<Rightarrow> ('s, string) st" where
  "group_name_for_role cl role =
     andthen (check_role_name role) (ret (cl_name cl @ ''-'' @ role))"

definition get_group_names :: "cluster \<Rightarrow> string list \<Rightarrow> ('s, string list) st" where
  "get_group_names cl roles =
     bnd (map_st (group_name_for_role cl) roles) (\<lambda>names. ret (cl_name cl # names))"

definition get_all_group_names :: "env \<Rightarrow> ('w world_scheme, string list) st" where
  "get_all_group_names E = perform (ans_groups E) GetAllSecurityGroups"

text \<open>
  The cluster's name is pasted into the pattern without quoting it. Of the characters with a
  meaning in patterns, the model has the full stop (any character but a newline); a name with
  another one is outside the model. \<open>name_rest pat s\<close> is what remains of \<open>s\<close> after a match of
  the name at its start.
\<close>

fun name_rest :: "string \<Rightarrow> string \<Rightarrow> string option" where
  "name_rest [] s = Some s"
| "name_rest (p # ps) [] = None"
| "name_rest (p # ps) (c # s) =
     (if p = c \<or> p = CHR ''.'' \<and> c \<noteq> nl then name_rest ps s else None)"

definition is_cluster_group :: "string \<Rightarrow> string \<Rightarrow> bool" where
  "is_cluster_group name g =
     (case name_rest name g of
        None \<Rightarrow> False
      | Some rest0 \<Rightarrow>
          let rest = drop_final_nl rest0 in
          rest = [] \<or> (hd rest = CHR ''-'' \<and> tl rest \<noteq> [] \<and> list_all role_char (tl rest)))"

definition get_all_group_names_for_cluster :: "env \<Rightarrow> cluster \<Rightarrow> ('w world_scheme, string list) st" where
  "get_all_group_names_for_cluster E cl =
     bnd (get_all_group_names E) (\<lambda>all_group_names.
     ret (if cl_name cl \<notin> set all_group_names then []
          else filter (is_cluster_group (cl_name cl)) all_group_names))"


section \<open>Groups and access\<close>

definition create_groups :: "env \<Rightarrow> cluster \<Rightarrow> string \<Rightarrow> ('w world_scheme, unit) st" where
  "create_groups E cl role =
     andthen (check_role_name role)
    (bnd (get_all_group_names E) (\<lambda>names.
     andthen (if cl_name cl \<notin> set names
              then andthen (do_call E (CreateSecurityGroup (cl_name cl) (''Cluster ('' @ cl_name cl @ '')'')))
                  (andthen (do_call E (AuthorizeSourceGroup (cl_name cl) (cl_name cl)))
                           (do_call E (AuthorizeCidr (cl_name cl) ''tcp'' 22 22 ''0.0.0.0/0'')))
              else ret ())
    (bnd (group_name_for_role cl role) (\<lambda>role_group.
     if role_group \<notin> set names
     then do_call E (CreateSecurityGroup role_group (''Role '' @ role @ '' ('' @ cl_name cl @ '')''))
     else ret ()))))"

definition authorize_role ::
  "env \<Rightarrow> cluster \<Rightarrow> string \<Rightarrow> int \<Rightarrow> int \<Rightarrow> string \<Rightarrow> ('w world_scheme, unit) st" where
  "authorize_role E cl role from_port to_port cidr_ip =
     andthen (check_role_name role)
    (bnd (group_name_for_role cl role) (\<lambda>role_group.
     andthen (do_call E (RevokeCidr role_group ''tcp'' from_port to_port cidr_ip))
             (do_call E (AuthorizeCidr role_group ''tcp'' from_port to_port cidr_ip))))"

definition delete_cluster_groups :: "env \<Rightarrow> cluster \<Rightarrow> ('w world_scheme, unit) st" where
  "delete_cluster_groups E cl =
     bnd (get_all_group_names_for_cluster E cl) (\<lambda>group_names.
     for_each (\<lambda>g. do_call E (DeleteSecurityGroup g)) group_names)"


section \<open>Instances of a cluster\<close>

definition state_matches :: "string option \<Rightarrow> ec2_instance \<Rightarrow> bool" where
  "state_matches state_filter i = (case state_filter of None \<Rightarrow> True | Some s \<Rightarrow> i_state i = s)"

text \<open>A reservation contributes its instances once for every group of that name.\<close>

definition in_group :: "string \<Rightarrow> string option \<Rightarrow> reservation list \<Rightarrow> ec2_instance list" where
  "in_group group_name state_filter all_instances =
     concat (map (\<lambda>res. concat (map (\<lambda>g. if g = group_name
                                         then filter (state_matches state_filter) (r_instances res) else [])
                               (r_groups res)))
       all_instances)"

definition get_instances ::
  "env \<Rightarrow> string \<Rightarrow> string option \<Rightarrow> ('w world_scheme, ec2_instance list) st" where
  "get_instances E group_name state_filter =
     bnd (perform (ans_instances E) (GetAllInstances None None))
       (\<lambda>all_instances. ret (in_group group_name state_filter all_instances))"

definition get_instances_in_role ::
  "env \<Rightarrow> cluster \<Rightarrow> string \<Rightarrow> string option \<Rightarrow> ('w world_scheme, host list) st" where
  "get_instances_in_role E cl role state_filter =
     andthen (check_role_name role)
    (bnd (group_name_for_role cl role) (\<lambda>grp.
     bnd (get_instances E grp state_filter) (\<lambda>is.
     ret (map host_of is))))"

definition instance_line :: "string \<Rightarrow> ec2_instance \<Rightarrow> string" where
  "instance_line role i =
     py_join [CHR 0x09] [role, i_id i, i_image_id i, i_dns_name i, i_private_dns_name i, i_state i,
       xstr (i_key_name i), i_type i, i_launch_time i, i_placement i]"

definition say :: "env \<Rightarrow> string \<Rightarrow> ('w world_scheme, unit) st" where
  "say E line = do_call E (Os (Print line))"

definition print_status ::
  "env \<Rightarrow> cluster \<Rightarrow> string list \<Rightarrow> string option \<Rightarrow> ('w world_scheme, unit) st" where
  "print_status E cl roles state_filter =
     (if roles = []
      then bnd (get_instances E (cl_name cl) state_filter) (for_each (\<lambda>i. say E (instance_line [] i)))
      else for_each (\<lambda>role.
             bnd (group_name_for_role cl role) (\<lambda>grp.
             bnd (get_instances E grp state_filter) (for_each (\<lambda>i. say E (instance_line role i)))))
           roles)"

text \<open>\<open>check_running\<close> returns the instances, or \<open>False\<close> (here \<open>None\<close>) on another number.\<close>

definition check_running ::
  "env \<Rightarrow> cluster \<Rightarrow> string \<Rightarrow> nat \<Rightarrow> ('w world_scheme, host list option) st" where
  "check_running E cl role number =
     bnd (get_instances_in_role E cl role (Some ''running'')) (\<lambda>instances.
     if length instances \<noteq> number
     then andthen (say E (''Expected '' @ nat_str number @ '' instances in role '' @ role @ '', but was ''
                    @ nat_str (length instances)))
            (ret None)
     else ret (Some instances))"

text \<open>
  \<open>get_clusters_with_role\<close> looks only at the first instance of a reservation. The class of the
  course keeps the reservations whose key begins with the user's name.
\<close>

definition cluster_names :: "string \<Rightarrow> string list \<Rightarrow> string list" where
  "cluster_names role groups =
     map (\<lambda>g. take (length g - length (''-'' @ role)) g)
       (filter (\<lambda>g. py_endswith g (''-'' @ role)) groups)"

fun clusters_with_role ::
  "(ec2_instance \<Rightarrow> py_exc + bool) \<Rightarrow> string \<Rightarrow> string \<Rightarrow> reservation list \<Rightarrow> py_exc + string list" where
  "clusters_with_role mine role state [] = Inr []"
| "clusters_with_role mine role state (res # rs) =
     (case r_instances res of
        [] \<Rightarrow> Inl IndexError
      | i # _ \<Rightarrow>
          (case mine i of Inl e \<Rightarrow> Inl e | Inr b \<Rightarrow>
             (case clusters_with_role mine role state rs of Inl e \<Rightarrow> Inl e | Inr cs \<Rightarrow>
                Inr ((if b \<and> i_state i = state then cluster_names role (r_groups res) else []) @ cs))))"

definition get_clusters_with_role ::
  "env \<Rightarrow> cluster_class \<Rightarrow> string \<Rightarrow> string \<Rightarrow> string \<Rightarrow> ('w world_scheme, string list) st" where
  "get_clusters_with_role E cls username role state =
     bnd (perform (ans_instances E) (GetAllInstances None None)) (\<lambda>all_instances.
     lift_sum (clusters_with_role
       (\<lambda>i. case cls of
              Ec2Cluster \<Rightarrow> Inr True
            | CS61CEc2Cluster \<Rightarrow> (case i_key_name i of
                None \<Rightarrow> Inl (AttributeError ''startswith'') | Some k \<Rightarrow> Inr (py_startswith k username)))
       role state all_instances))"


section \<open>Launching\<close>

text \<open>The class \<open>InstanceUserData\<close>; \<open>gz\<close> is gzip compression.\<close>

record user_data =
  ud_filename :: string
  ud_replacements :: "(string, string option) dict"

definition read_user_data :: "env \<Rightarrow> user_data \<Rightarrow> ('w world_scheme, string) st" where
  "read_user_data E ud =
     bnd (perform (ans_text E) (Os (ReadUrlFile (ud_filename ud)))) (\<lambda>contents.
     ret (foldl (\<lambda>c (m, r). py_replace m (xstr r) c) contents (ud_replacements ud)))"

definition read_as_gzip_stream ::
  "(string \<Rightarrow> string) \<Rightarrow> env \<Rightarrow> user_data \<Rightarrow> ('w world_scheme, string) st" where
  "read_as_gzip_stream gz E ud = bnd (read_user_data E ud) (\<lambda>c. ret (gz c))"

definition kw_get :: "pydict \<Rightarrow> string \<Rightarrow> pyval \<Rightarrow> pyval" where
  "kw_get kwargs k dflt = (case dget kwargs k of None \<Rightarrow> dflt | Some v \<Rightarrow> v)"

text \<open>The part that both classes share: groups, user data, names of the security groups.\<close>

definition prepare_launch ::
  "(string \<Rightarrow> string) \<Rightarrow> env \<Rightarrow> cluster \<Rightarrow> string list \<Rightarrow> user_data \<Rightarrow> pydict
     \<Rightarrow> ('w world_scheme, string \<times> pyval) st" where
  "prepare_launch gz E cl roles ud kwargs =
     andthen (for_each (\<lambda>role. andthen (check_role_name role) (create_groups E cl role)) roles)
    (bnd (read_as_gzip_stream gz E ud) (\<lambda>data.
     bnd (get_group_names cl roles) (\<lambda>names.
     bnd (lift_sum (py_add (PList (map PStr names)) (kw_get kwargs ''security_groups'' (PList []))))
       (\<lambda>groups. ret (data, groups)))))"

definition ec2_launch_instances ::
  "(string \<Rightarrow> string) \<Rightarrow> env \<Rightarrow> cluster \<Rightarrow> string list \<Rightarrow> pyval \<Rightarrow> pyval \<Rightarrow> pyval \<Rightarrow> user_data \<Rightarrow> pydict
     \<Rightarrow> ('w world_scheme, string list) st" where
  "ec2_launch_instances gz E cl roles number image_id size_id ud kwargs =
     bnd (prepare_launch gz E cl roles ud kwargs) (\<lambda>(data, groups).
     bnd (perform (ans_reservation E) (RunInstances
           \<lparr>rq_image_id = image_id, rq_min_count = number, rq_max_count = number,
            rq_key_name = kw_get kwargs ''key_name'' PNone, rq_security_groups = groups,
            rq_user_data = PStr data, rq_instance_type = size_id,
            rq_placement = kw_get kwargs ''placement'' PNone\<rparr>)) (\<lambda>reservation.
     ret (map i_id (r_instances reservation))))"

text \<open>
  The course's class sends the request to the privileged runner; \<open>b64\<close> is base64 encoding.
  \<open>[request in result]\<close> is a list of one boolean, and \<open>wait_for_spot_instances\<close> is called as
  if it were a function of the module, which has none of that name.
\<close>

definition runner_request ::
  "(string \<Rightarrow> string) \<Rightarrow> pyval \<Rightarrow> pyval \<Rightarrow> pyval \<Rightarrow> string \<Rightarrow> pyval \<Rightarrow> pydict \<Rightarrow> pydict" where
  "runner_request b64 number image_id size_id data groups kwargs =
     [(''image_id'', image_id), (''count'', number), (''key_name'', kw_get kwargs ''key_name'' PNone),
      (''security_groups'', groups), (''instance_type'', size_id),
      (''placement'', kw_get kwargs ''placement'' PNone),
      (''placement_group'', kw_get kwargs ''placement_group'' PNone),
      (''use_spot'', kw_get kwargs ''use_spot'' (PBool False)), (''user_data'', PStr (b64 data))]"

definition cs61c_launch_instances ::
  "(string \<Rightarrow> string) \<Rightarrow> (string \<Rightarrow> string) \<Rightarrow> env \<Rightarrow> cluster \<Rightarrow> string list \<Rightarrow> pyval \<Rightarrow> pyval \<Rightarrow> pyval
     \<Rightarrow> user_data \<Rightarrow> pydict \<Rightarrow> ('w world_scheme, string list) st" where
  "cs61c_launch_instances gz b64 E cl roles number image_id size_id ud kwargs =
     bnd (prepare_launch gz E cl roles ud kwargs) (\<lambda>(data, groups).
     bnd (perform (ans_texts E) (Os (EC2Runner (runner_request b64 number image_id size_id data groups kwargs))))
       (\<lambda>result.
     if py_truth (kw_get kwargs ''use_spot'' (PBool False)) then raise (NameError ''wait_for_spot_instances'')
     else ret result))"

definition launch_instances ::
  "(string \<Rightarrow> string) \<Rightarrow> (string \<Rightarrow> string) \<Rightarrow> env \<Rightarrow> cluster \<Rightarrow> string list \<Rightarrow> pyval \<Rightarrow> pyval \<Rightarrow> pyval
     \<Rightarrow> user_data \<Rightarrow> pydict \<Rightarrow> ('w world_scheme, string list) st" where
  "launch_instances gz b64 E cl =
     (case cl_class cl of Ec2Cluster \<Rightarrow> ec2_launch_instances gz E cl
      | CS61CEc2Cluster \<Rightarrow> cs61c_launch_instances gz b64 E cl)"


section \<open>Waiting\<close>

definition all_started :: "reservation list \<Rightarrow> bool" where
  "all_started rs \<longleftrightarrow> list_all (\<lambda>r. list_all (\<lambda>i. i_state i = ''running'') (r_instances r)) rs"

fun is_service_error :: "py_exc \<Rightarrow> bool" where
  "is_service_error (ServiceError _) = True"
| "is_service_error _ = False"

definition wait_round :: "env \<Rightarrow> string list \<Rightarrow> rat \<Rightarrow> rat \<Rightarrow> ('w world_scheme, unit option) st" where
  "wait_round E ids start timeout =
     bnd (clock E) (\<lambda>now.
     if now - start \<ge> timeout then raise TimeoutError
     else bnd (try_except (bnd (perform (ans_instances E) (GetAllInstances (Some ids) None))
                             (\<lambda>rs. ret (all_started rs)))
                 is_service_error (\<lambda>_. ret False)) (\<lambda>started.
          if started then ret (Some ()) else andthen (sleep 1) (ret None)))"

definition wait_for_instances ::
  "nat \<Rightarrow> env \<Rightarrow> string list \<Rightarrow> rat \<Rightarrow> ('w world_scheme, unit) st" where
  "wait_for_instances rounds E ids timeout =
     bnd (clock E) (\<lambda>start. loop_st rounds (wait_round E ids start timeout))"

text \<open>\<open>cs61cec2.py\<close> does not import \<open>time\<close>.\<close>

definition wait_for_spot_instances :: "env \<Rightarrow> string list \<Rightarrow> ('s, string list) st" where
  "wait_for_spot_instances E request_ids = raise (NameError ''time'')"


section \<open>Terminating\<close>

definition terminate_running :: "env \<Rightarrow> cluster \<Rightarrow> ('w world_scheme, unit) st" where
  "terminate_running E cl =
     bnd (get_instances E (cl_name cl) (Some ''running'')) (\<lambda>instances.
     if instances = [] then ret () else do_call E (TerminateInstances (map i_id instances)))"

definition get_spot_requests :: "env \<Rightarrow> string \<Rightarrow> ('w world_scheme, spot_request list) st" where
  "get_spot_requests E grp =
     bnd (perform (ans_spots E) (GetAllSpotRequests None None))
       (\<lambda>requests. ret (filter (\<lambda>x. grp \<in> set (s_groups x)) requests))"

definition terminate_cluster_instances :: "env \<Rightarrow> cluster \<Rightarrow> ('w world_scheme, unit) st" where
  "terminate_cluster_instances E cl =
     (case cl_class cl of
        Ec2Cluster \<Rightarrow> terminate_running E cl
      | CS61CEc2Cluster \<Rightarrow>
          bnd (get_spot_requests E (cl_name cl)) (\<lambda>requests.
          andthen (for_each (\<lambda>x. do_call E (CancelSpot (s_id x))) requests)
            (terminate_running E cl)))"

end
