(* ===== verification/CloudStorage.thy ===== *)
theory CloudStorage
  imports CloudProvider
begin

text \<open>
  \<open>hadoop/cloud/storage.py\<close> and class \<open>Ec2Storage\<close> of \<open>providers/ec2.py\<close>: the JSON file that
  records which volumes belong to which role of a cluster, and the operations that create,
  attach, list and delete the volumes. The state has the decoded contents of the cluster's file,
  \<open>None\<close> when there is no file; reading back what was written is taken for granted, and the
  file can be written.
\<close>


section \<open>The specification of volumes\<close>

text \<open>
  An entry of the spec file is a JSON object; \<open>None\<close> is a key that is missing. Mount points and
  devices are strings; size and snapshot are passed on as they are.
\<close>

record spec_entry =
  sp_size_gb :: "pyval option"
  sp_mount_point :: "string option"
  sp_device :: "string option"
  sp_snapshot_id :: "pyval option"

record volume_spec =
  vs_size :: pyval
  vs_mount_point :: string
  vs_device :: string
  vs_snapshot_id :: pyval

type_synonym spec_file = "(string, spec_entry list) dict"

definition need :: "string \<Rightarrow> 'a option \<Rightarrow> py_exc + 'a" where
  "need k x = (case x of None \<Rightarrow> Inl (KeyError k) | Some v \<Rightarrow> Inr v)"

definition volume_spec_of :: "spec_entry \<Rightarrow> py_exc + volume_spec" where
  "volume_spec_of d =
     (case need ''size_gb'' (sp_size_gb d) of Inl e \<Rightarrow> Inl e | Inr s \<Rightarrow>
     (case need ''mount_point'' (sp_mount_point d) of Inl e \<Rightarrow> Inl e | Inr m \<Rightarrow>
     (case need ''device'' (sp_device d) of Inl e \<Rightarrow> Inl e | Inr v \<Rightarrow>
     (case need ''snapshot_id'' (sp_snapshot_id d) of Inl e \<Rightarrow> Inl e | Inr i \<Rightarrow>
        Inr \<lparr>vs_size = s, vs_mount_point = m, vs_device = v, vs_snapshot_id = i\<rparr>))))"

fun map_sum :: "('a \<Rightarrow> py_exc + 'b) \<Rightarrow> 'a list \<Rightarrow> py_exc + 'b list" where
  "map_sum f [] = Inr []"
| "map_sum f (x # xs) =
     (case f x of Inl e \<Rightarrow> Inl e | Inr y \<Rightarrow>
        (case map_sum f xs of Inl e \<Rightarrow> Inl e | Inr ys \<Rightarrow> Inr (y # ys)))"

definition volume_specs_for_role :: "spec_file \<Rightarrow> string \<Rightarrow> py_exc + volume_spec list" where
  "volume_specs_for_role spec role =
     (case dlookup spec role of Inl e \<Rightarrow> Inl e | Inr ds \<Rightarrow> map_sum volume_spec_of ds)"

definition mapping_string :: "(string \<times> string) list \<Rightarrow> string" where
  "mapping_string ms = py_join '';'' (map (\<lambda>(m, d). m @ '','' @ d) ms)"

definition spec_mapping :: "spec_entry \<Rightarrow> py_exc + string \<times> string" where
  "spec_mapping d =
     (case need ''mount_point'' (sp_mount_point d) of Inl e \<Rightarrow> Inl e | Inr m \<Rightarrow>
     (case need ''device'' (sp_device d) of Inl e \<Rightarrow> Inl e | Inr v \<Rightarrow> Inr (m, v)))"

definition spec_mappings_string :: "spec_file \<Rightarrow> string \<Rightarrow> py_exc + string" where
  "spec_mappings_string spec role =
     (case dlookup spec role of Inl e \<Rightarrow> Inl e | Inr ds \<Rightarrow>
        (case map_sum spec_mapping ds of Inl e \<Rightarrow> Inl e | Inr ms \<Rightarrow> Inr (mapping_string ms)))"


section \<open>The recorded volumes\<close>

record mountable =
  mv_volume_id :: string
  mv_mount_point :: string
  mv_device :: string

type_synonym volume_file = "(string, mountable list list) dict option"

definition load :: "volume_file \<Rightarrow> (string, mountable list list) dict" where
  "load f = (case f of None \<Rightarrow> [] | Some d \<Rightarrow> d)"

definition file_roles :: "volume_file \<Rightarrow> string list" where
  "file_roles f = map fst (load f)"

definition get_instance_storage_for_role :: "string \<Rightarrow> volume_file \<Rightarrow> mountable list list" where
  "get_instance_storage_for_role role f = (case dget (load f) role of None \<Rightarrow> [] | Some l \<Rightarrow> l)"

definition add_instance_storage_for_role :: "string \<Rightarrow> mountable list \<Rightarrow> volume_file \<Rightarrow> volume_file" where
  "add_instance_storage_for_role role mvs f =
     Some (dset role (get_instance_storage_for_role role f @ [mvs]) (load f))"

definition remove_instance_storage_for_role :: "string \<Rightarrow> volume_file \<Rightarrow> py_exc + volume_file" where
  "remove_instance_storage_for_role role f =
     (if dget (load f) role = None then Inl (KeyError role) else Inr (Some (ddel role (load f))))"

record cloud_world = world +
  vfile :: volume_file


section \<open>Volumes of a cluster\<close>

definition create_volumes ::
  "env \<Rightarrow> pyval \<Rightarrow> volume_spec list \<Rightarrow> ('w world_scheme, mountable list) st" where
  "create_volumes E zone specs =
     map_st (\<lambda>spec.
       bnd (perform (ans_volume E) (CreateVolume (vs_size spec) zone (vs_snapshot_id spec))) (\<lambda>v.
       ret \<lparr>mv_volume_id = v_id v, mv_mount_point = vs_mount_point spec, mv_device = vs_device spec\<rparr>))
     specs"

definition on_vfile :: "(volume_file \<Rightarrow> volume_file) \<Rightarrow> (cloud_world, unit) st" where
  "on_vfile f = modify (\<lambda>w. w\<lparr>vfile := f (vfile w)\<rparr>)"

definition storage_create_one :: "env \<Rightarrow> string \<Rightarrow> pyval \<Rightarrow> spec_file \<Rightarrow> (cloud_world, unit) st" where
  "storage_create_one E role zone spec =
     bnd (lift_sum (volume_specs_for_role spec role)) (\<lambda>specs.
     bnd (create_volumes E zone specs) (\<lambda>mvs.
     on_vfile (add_instance_storage_for_role role mvs)))"

text \<open>\<open>spec\<close> is the decoded spec file, or the error of opening or decoding it.\<close>

definition storage_create ::
  "env \<Rightarrow> string \<Rightarrow> nat \<Rightarrow> pyval \<Rightarrow> py_exc + spec_file \<Rightarrow> (cloud_world, unit) st" where
  "storage_create E role number_of_instances zone spec =
     bnd (lift_sum spec) (\<lambda>spec.
     for_each (\<lambda>_. storage_create_one E role zone spec) [0..<number_of_instances])"

definition storage_mappings_string :: "string \<Rightarrow> volume_file \<Rightarrow> string" where
  "storage_mappings_string role f =
     mapping_string (foldl (\<lambda>d mv. dset (mv_mount_point mv) (mv_device mv) d) []
       (concat (get_instance_storage_for_role role f)))"

definition has_any_storage :: "string list \<Rightarrow> volume_file \<Rightarrow> bool" where
  "has_any_storage roles f \<longleftrightarrow> list_ex (\<lambda>r. get_instance_storage_for_role r f \<noteq> []) roles"

definition get_ec2_volumes_dict ::
  "env \<Rightarrow> mountable list list \<Rightarrow> ('w world_scheme, (string, volume) dict) st" where
  "get_ec2_volumes_dict E mvl =
     bnd (perform (ans_volumes E) (GetAllVolumes (map mv_volume_id (concat mvl)))) (\<lambda>volumes.
     ret (foldl (\<lambda>d v. dset (v_id v) v d) [] volumes))"

text \<open>
  The status line of a volume reads its attribute \<open>availabilityZone\<close>. boto's \<open>Volume\<close> stores the
  zone as \<open>zone\<close> and has no attribute of that name.
\<close>

definition print_volume :: "string \<Rightarrow> volume \<Rightarrow> ('s, unit) st" where
  "print_volume role v = raise (AttributeError ''availabilityZone'')"

definition print_group :: "(string, volume) dict \<Rightarrow> string \<Rightarrow> mountable list \<Rightarrow> ('s, unit) st" where
  "print_group vols role mvs =
     for_each (\<lambda>mv. bnd (lift_sum (dlookup vols (mv_volume_id mv))) (print_volume role)) mvs"

definition print_role_status :: "env \<Rightarrow> string \<Rightarrow> (cloud_world, unit) st" where
  "print_role_status E role =
     bnd (gets (\<lambda>w. get_instance_storage_for_role role (vfile w))) (\<lambda>mvl.
     bnd (get_ec2_volumes_dict E mvl) (\<lambda>vols.
     for_each (print_group vols role) mvl))"

definition storage_print_status :: "env \<Rightarrow> string list option \<Rightarrow> (cloud_world, unit) st" where
  "storage_print_status E roles =
     bnd (case roles of None \<Rightarrow> gets (\<lambda>w. file_roles (vfile w)) | Some rs \<Rightarrow> ret rs) (\<lambda>rs.
     for_each (print_role_status E) rs)"


subsection \<open>Attaching\<close>

text \<open>
  A group of volumes is available if all its volumes are; the instance that a volume which is
  not available is attached to leaves the dictionary of free instances.
\<close>

fun scan_volumes ::
  "(string, volume) dict \<Rightarrow> mountable list \<Rightarrow> bool \<times> (string, host) dict
     \<Rightarrow> py_exc + bool \<times> (string, host) dict" where
  "scan_volumes vols [] (available, free) = Inr (available, free)"
| "scan_volumes vols (mv # mvs) (available, free) =
     (case dlookup vols (mv_volume_id mv) of Inl e \<Rightarrow> Inl e | Inr v \<Rightarrow>
        if v_status v \<noteq> ''available''
        then scan_volumes vols mvs (False, (case v_attached_to v of None \<Rightarrow> free | Some i \<Rightarrow> ddel i free))
        else scan_volumes vols mvs (available, free))"

fun scan_groups ::
  "(string, volume) dict \<Rightarrow> mountable list list \<Rightarrow> (string, host) dict
     \<Rightarrow> py_exc + (string, host) dict \<times> mountable list list" where
  "scan_groups vols [] free = Inr (free, [])"
| "scan_groups vols (mvs # mvl) free =
     (case scan_volumes vols mvs (True, free) of Inl e \<Rightarrow> Inl e | Inr (available, free') \<Rightarrow>
        (case scan_groups vols mvl free' of Inl e \<Rightarrow> Inl e | Inr (free'', groups) \<Rightarrow>
           Inr (free'', if available then mvs # groups else groups)))"

definition attach_group ::
  "env \<Rightarrow> (string, volume) dict \<Rightarrow> host \<Rightarrow> mountable list \<Rightarrow> ('w world_scheme, unit) st" where
  "attach_group E vols h mvs =
     for_each (\<lambda>mv.
       bnd (lift_sum (dlookup vols (mv_volume_id mv))) (\<lambda>v.
       do_call E (AttachVolume (v_id v) (h_id h) (mv_device mv)))) mvs"

text \<open>\<open>ord\<close> is the order in which the dictionary of free instances is iterated.\<close>

definition storage_attach ::
  "((string, host) dict \<Rightarrow> (string, host) dict) \<Rightarrow> env \<Rightarrow> string \<Rightarrow> host list \<Rightarrow> (cloud_world, unit) st" where
  "storage_attach ord E role hosts =
     bnd (gets (\<lambda>w. get_instance_storage_for_role role (vfile w))) (\<lambda>mvl.
     if mvl = [] then ret ()
     else bnd (get_ec2_volumes_dict E mvl) (\<lambda>vols.
          bnd (lift_sum (scan_groups vols mvl (foldl (\<lambda>d h. dset (h_id h) h d) [] hosts))) (\<lambda>(free, groups).
          for_each (\<lambda>(h, mvs). attach_group E vols h mvs) (zip (map snd (ord free)) groups))))"


subsection \<open>Deleting\<close>

fun storage_delete :: "env \<Rightarrow> string list \<Rightarrow> (cloud_world, unit) st" where
  "storage_delete E [] = ret ()"
| "storage_delete E (role # roles) =
     bnd (gets (\<lambda>w. get_instance_storage_for_role role (vfile w))) (\<lambda>mvl.
     bnd (get_ec2_volumes_dict E mvl) (\<lambda>vols.
     if list_ex (\<lambda>v. v_status v \<noteq> ''available'') (map snd vols) then ret ()
     else andthen (for_each (\<lambda>v. do_call E (DeleteVolume (v_id v))) (map snd vols))
         (andthen (bnd (gets (\<lambda>w. remove_instance_storage_for_role role (vfile w))) (\<lambda>r.
                   bnd (lift_sum r) (\<lambda>f. on_vfile (\<lambda>_. f))))
            (storage_delete E roles))))"


subsection \<open>Formatted snapshots\<close>

definition run_command_on_instance :: "env \<Rightarrow> string \<Rightarrow> string \<Rightarrow> string \<Rightarrow> ('w world_scheme, unit) st" where
  "run_command_on_instance E dns ssh_options command =
     do_call E (Os (Shell (''ssh '' @ ssh_options @ '' root@'' @ dns @ '' '' @ [squote] @ command @ [squote])))"

definition wait_for_volume_round :: "env \<Rightarrow> string \<Rightarrow> ('w world_scheme, unit option) st" where
  "wait_for_volume_round E vid =
     bnd (perform (ans_volumes E) (GetAllVolumes [vid])) (\<lambda>volumes.
     case volumes of
       [] \<Rightarrow> raise IndexError
     | v # _ \<Rightarrow> if v_status v = ''available'' then ret (Some ()) else andthen (sleep 1) (ret None))"

definition wait_for_volume :: "nat \<Rightarrow> env \<Rightarrow> string \<Rightarrow> ('w world_scheme, unit) st" where
  "wait_for_volume rounds E vid = loop_st rounds (wait_for_volume_round E vid)"

definition mkfs_script :: string where
  "mkfs_script = concat (map (\<lambda>l. [nl] @ ''      '' @ l)
     [''while true ; do'', ''  echo '' @ [squote] @ ''Waiting for /dev/sdj...'' @ [squote] @ '';'',
      ''  if [ -e /dev/sdj ]; then break; fi;'', ''  sleep 1;'', ''done;'',
      ''mkfs.ext3 -F -m 0.5 /dev/sdj'']) @ [nl] @ ''    ''"

definition create_formatted_snapshot ::
  "nat \<Rightarrow> env \<Rightarrow> pyval \<Rightarrow> pyval \<Rightarrow> pyval \<Rightarrow> pyval \<Rightarrow> string \<Rightarrow> ('w world_scheme, unit) st" where
  "create_formatted_snapshot rounds E sz zone image_id key_name ssh_options =
     bnd (perform (ans_reservation E) (RunInstances
           \<lparr>rq_image_id = image_id, rq_min_count = PInt 1, rq_max_count = PInt 1, rq_key_name = key_name,
            rq_security_groups = PNone, rq_user_data = PNone, rq_instance_type = PStr ''m1.small'',
            rq_placement = zone\<rparr>)) (\<lambda>reservation.
     case r_instances reservation of
       [] \<Rightarrow> raise IndexError
     | i # _ \<Rightarrow>
         bnd (try_except (andthen (wait_for_instances rounds E [i_id i] 600) (ret True))
                (\<lambda>e. e = TimeoutError) (\<lambda>_. ret False)) (\<lambda>started.
         if \<not> started then ret ()
         else andthen (sleep 60)
             (bnd (perform (ans_text E) (UpdateInstance (i_id i))) (\<lambda>dns.
              bnd (perform (ans_volume E) (CreateVolume sz zone PNone)) (\<lambda>v.
              andthen (do_call E (AttachVolume (v_id v) (i_id i) ''/dev/sdj''))
             (andthen (run_command_on_instance E dns ssh_options mkfs_script)
             (andthen (do_call E (DetachVolume (v_id v) (i_id i)))
             (andthen (do_call E (CreateSnapshot (v_id v)))
             (andthen (wait_for_volume rounds E (v_id v))
             (andthen (do_call E (DeleteVolume (v_id v)))
                      (do_call E (TerminateInstances [i_id i]))))))))))))"

end
