(* ===== verification/CloudService.thy ===== *)
theory CloudService
  imports CloudStorage
begin

text \<open>
  \<open>hadoop/cloud/service.py\<close>: launching, listing, logging in to, and terminating the Hadoop and
  ZooKeeper services of a cluster. The surroundings that the code takes for granted are one
  record: compression and base64, the rounds allowed to waiting loops, the iteration order of
  dictionaries, the process environment, the directory of boot scripts, the user name, and the
  text of values that \<open>%s\<close> prints in Python's own notation.
\<close>


section \<open>Surroundings\<close>

record site =
  site_gzip :: "string \<Rightarrow> string"
  site_b64 :: "string \<Rightarrow> string"
  site_rounds :: nat
  site_order :: "(string, host) dict \<Rightarrow> (string, host) dict"
  site_environ :: "(string, string) dict"
  site_data_path :: string
  site_username :: string
  site_repr :: "pyval \<Rightarrow> string"

fun fmt_val :: "site \<Rightarrow> pyval \<Rightarrow> string" where
  "fmt_val S (PStr s) = s"
| "fmt_val S (PInt i) = int_str i"
| "fmt_val S PNone = ''None''"
| "fmt_val S v = site_repr S v"

text \<open>\<open>xstr\<close> of a dynamically typed value.\<close>

definition xstr_val :: "site \<Rightarrow> pyval \<Rightarrow> string" where
  "xstr_val S v = (if v = PNone then [] else fmt_val S v)"

definition path_join :: "string \<Rightarrow> string \<Rightarrow> string" where
  "path_join a b =
     (if py_startswith b ''/'' then b
      else if a = [] \<or> py_endswith a ''/'' then a @ b else a @ ''/'' @ b)"

definition NAMENODE :: string where "NAMENODE = ''nn''"
definition SECONDARY_NAMENODE :: string where "SECONDARY_NAMENODE = ''snn''"
definition JOBTRACKER :: string where "JOBTRACKER = ''jt''"
definition DATANODE :: string where "DATANODE = ''dn''"
definition TASKTRACKER :: string where "TASKTRACKER = ''tt''"
definition MASTER :: string where "MASTER = ''master''"


section \<open>Templates\<close>

record template =
  it_roles :: "string list"
  it_number :: int
  it_image_id :: pyval
  it_size_id :: pyval
  it_key_name :: pyval
  it_public_key :: pyval
  it_private_key :: pyval
  it_user_data_file_template :: pyval
  it_placement :: pyval
  it_user_packages :: pyval
  it_auto_shutdown :: pyval
  it_env_strings :: pyval
  it_security_groups :: pyval

text \<open>Iterating over a value: a string gives its characters, a dict its keys.\<close>

fun py_iter :: "pyval \<Rightarrow> py_exc + pyval list" where
  "py_iter (PStr s) = Inr (map (\<lambda>c. PStr [c]) s)"
| "py_iter (PList xs) = Inr xs"
| "py_iter (PDict d) = Inr (map (\<lambda>p. PStr (fst p)) d)"
| "py_iter _ = Inl TypeError"

definition add_env_strings :: "pyval \<Rightarrow> template \<Rightarrow> py_exc + template" where
  "add_env_strings new it =
     (case py_iter (if py_truth (it_env_strings it) then it_env_strings it else PList []) of
        Inl e \<Rightarrow> Inl e
      | Inr old \<Rightarrow>
         (case py_iter new of
            Inl e \<Rightarrow> Inl e
          | Inr xs \<Rightarrow> Inr (it\<lparr>it_env_strings := PList (old @ xs)\<rparr>)))"

text \<open>Values on which the code calls a string method.\<close>

fun opt_text :: "pyval \<Rightarrow> py_exc + string option" where
  "opt_text PNone = Inr None"
| "opt_text (PStr s) = Inr (Some s)"
| "opt_text _ = Inl (AttributeError ''replace'')"

fun need_text :: "pyval \<Rightarrow> py_exc + string" where
  "need_text (PStr s) = Inr s"
| "need_text _ = Inl (AttributeError ''find'')"

definition env_string_texts :: "pyval \<Rightarrow> py_exc + string list" where
  "env_string_texts v =
     (if \<not> py_truth v then Inr []
      else (case py_iter v of Inl e \<Rightarrow> Inl e | Inr xs \<Rightarrow> map_sum need_text xs))"


section \<open>Launching instances\<close>

datatype service = HadoopService | ZooKeeperService

definition get_service_code :: "service \<Rightarrow> string" where
  "get_service_code sv = (case sv of HadoopService \<Rightarrow> ''hadoop'' | ZooKeeperService \<Rightarrow> ''zookeeper'')"

definition get_service :: "string \<Rightarrow> py_exc + service" where
  "get_service name =
     (if name = ''hadoop'' then Inr HadoopService
      else if name = ''zookeeper'' then Inr ZooKeeperService else Inl (KeyError name))"

definition default_user_data_file :: "site \<Rightarrow> service \<Rightarrow> cluster \<Rightarrow> string" where
  "default_user_data_file S sv cl =
     path_join (site_data_path S) (get_service_code sv @ ''-'' @ get_provider_code cl @ ''-init-remote.sh'')"

definition ebs_mappings :: "string list \<Rightarrow> volume_file \<Rightarrow> string" where
  "ebs_mappings roles f =
     foldl (\<lambda>m role. if has_any_storage [role] f then storage_mappings_string role f else m) [] roles"

text \<open>The text that replaces \<open>%ENV%\<close> in the boot script.\<close>

definition boot_env :: "site \<Rightarrow> template \<Rightarrow> volume_file \<Rightarrow> py_exc + string" where
  "boot_env S it f =
     (case dlookup (site_environ S) ''AWS_ACCESS_KEY_ID'' of Inl e \<Rightarrow> Inl e | Inr key \<Rightarrow>
     (case dlookup (site_environ S) ''AWS_SECRET_ACCESS_KEY'' of Inl e \<Rightarrow> Inl e | Inr secret \<Rightarrow>
     (case env_string_texts (it_env_strings it) of Inl e \<Rightarrow> Inl e | Inr envs \<Rightarrow>
     (case opt_text (it_user_packages it) of Inl e \<Rightarrow> Inl e | Inr packages \<Rightarrow>
     (case opt_text (it_auto_shutdown it) of Inl e \<Rightarrow> Inl e | Inr shutdown \<Rightarrow>
        build_env_string envs
          [(''ROLES'', Some (py_join '','' (it_roles it))), (''USER_PACKAGES'', packages),
           (''AUTO_SHUTDOWN'', shutdown), (''EBS_MAPPINGS'', Some (ebs_mappings (it_roles it) f)),
           (''AWS_ACCESS_KEY_ID'', Some key), (''AWS_SECRET_ACCESS_KEY'', Some secret)])))))"

definition file_name :: "pyval \<Rightarrow> py_exc + string" where
  "file_name v = (case v of PStr s \<Rightarrow> Inr s | _ \<Rightarrow> Inl (AttributeError ''strip''))"

text \<open>
  \<open>_launch_instances\<close> gives \<open>None\<close> on a timeout. \<open>print_status\<close> takes a list of roles and is given
  one role, over whose characters it iterates.
\<close>

definition launch_template ::
  "site \<Rightarrow> env \<Rightarrow> service \<Rightarrow> cluster \<Rightarrow> template \<Rightarrow> (cloud_world, host list option) st" where
  "launch_template S E sv cl it =
     bnd (gets (\<lambda>w. boot_env S it (vfile w))) (\<lambda>r.
     bnd (lift_sum r) (\<lambda>envs.
     bnd (lift_sum (if it_user_data_file_template it = PNone then Inr (default_user_data_file S sv cl)
                    else file_name (it_user_data_file_template it))) (\<lambda>file.
     bnd (launch_instances (site_gzip S) (site_b64 S) E cl (it_roles it) (PInt (it_number it))
            (it_image_id it) (it_size_id it)
            \<lparr>ud_filename = file, ud_replacements = [(''%ENV%'', Some envs)]\<rparr>
            [(''key_name'', it_key_name it), (''public_key'', it_public_key it), (''placement'', it_placement it)])
       (\<lambda>instance_ids.
     bnd (try_except (andthen (wait_for_instances (site_rounds S) E instance_ids 600) (ret True))
            (\<lambda>e. e = TimeoutError) (\<lambda>_. ret False)) (\<lambda>started.
     if \<not> started then ret None
     else (case it_roles it of
             [] \<Rightarrow> raise IndexError
           | role # _ \<Rightarrow>
               andthen (print_status E cl (map (\<lambda>c. [c]) role) (Some ''running''))
              (bnd (get_instances_in_role E cl role (Some ''running'')) (\<lambda>hosts.
               ret (Some hosts)))))))))"

definition sanitize_role_name :: "string \<Rightarrow> string" where
  "sanitize_role_name role = py_upper (py_replace ''+'' ''_'' role)"

definition host_env :: "string \<Rightarrow> host \<Rightarrow> string" where
  "host_env role h = sanitize_role_name role @ ''_HOST='' @ h_public_ip h"

text \<open>
  The templates are launched in turn; a role that runs on a single host is announced to the
  templates after it. \<open>len(None)\<close> raises when the only instance did not start in time.
\<close>

fun launch_templates ::
  "site \<Rightarrow> env \<Rightarrow> cluster \<Rightarrow> string list \<Rightarrow> template list \<Rightarrow> (cloud_world, unit) st" where
  "launch_templates S E cl singletons [] = ret ()"
| "launch_templates S E cl singletons (it # its) =
     bnd (lift_sum (add_env_strings (PList (map PStr singletons)) it)) (\<lambda>it'.
     bnd (launch_template S E HadoopService cl it') (\<lambda>instances.
     if it_number it = 1
     then (case instances of
             None \<Rightarrow> raise TypeError
           | Some [h] \<Rightarrow> launch_templates S E cl (singletons @ map (\<lambda>r. host_env r h) (it_roles it)) its
           | Some _ \<Rightarrow> launch_templates S E cl singletons its)
     else launch_templates S E cl singletons its))"


section \<open>The Hadoop service\<close>

definition first_in_role :: "env \<Rightarrow> cluster \<Rightarrow> string \<Rightarrow> ('w world_scheme, host option) st" where
  "first_in_role E cl role =
     bnd (get_instances_in_role E cl role (Some ''running'')) (\<lambda>hs.
     ret (case hs of [] \<Rightarrow> None | h # _ \<Rightarrow> Some h))"

definition get_namenode :: "env \<Rightarrow> cluster \<Rightarrow> ('w world_scheme, host option) st" where
  "get_namenode E cl = first_in_role E cl NAMENODE"

definition get_jobtracker :: "env \<Rightarrow> cluster \<Rightarrow> ('w world_scheme, host option) st" where
  "get_jobtracker E cl = first_in_role E cl JOBTRACKER"

definition public_ip :: "host option \<Rightarrow> ('s, string) st" where
  "public_ip h = (case h of None \<Rightarrow> raise (AttributeError ''public_ip'') | Some x \<Rightarrow> ret (h_public_ip x))"

text \<open>
  The addresses that may reach the cluster: those asked for (a single text is iterated over by
  its characters), or the own one as seen from outside.
\<close>

definition client_cidrs :: "env \<Rightarrow> pyval \<Rightarrow> ('w world_scheme, string list) st" where
  "client_cidrs E cidrs =
     (if \<not> py_truth cidrs
      then bnd (url_get E ''http://checkip.amazonaws.com/'' 10 0) (\<lambda>page. ret [py_strip page @ ''/32''])
      else bnd (lift_sum (py_iter cidrs)) (\<lambda>xs. lift_sum (map_sum need_text xs)))"

definition authorize_client_ports :: "env \<Rightarrow> cluster \<Rightarrow> pyval \<Rightarrow> ('w world_scheme, unit) st" where
  "authorize_client_ports E cl cidrs0 =
     bnd (client_cidrs E cidrs0) (\<lambda>cidrs.
     bnd (get_namenode E cl) (\<lambda>namenode.
     bnd (get_jobtracker E cl) (\<lambda>jobtracker.
     andthen (for_each (\<lambda>cidr.
         andthen (authorize_role E cl NAMENODE 80 80 cidr)
        (andthen (authorize_role E cl JOBTRACKER 50030 50030 cidr)
        (andthen (authorize_role E cl NAMENODE 50070 50070 cidr)
        (andthen (authorize_role E cl TASKTRACKER 50060 50060 cidr)
                 (authorize_role E cl DATANODE 50075 50075 cidr))))) cidrs)
    (bnd (public_ip namenode) (\<lambda>nn.
     bnd (perform (ans_text E) (Os (HostByName nn))) (\<lambda>namenode_ip.
     bnd (public_ip jobtracker) (\<lambda>jt.
     bnd (perform (ans_text E) (Os (HostByName jt))) (\<lambda>jobtracker_ip.
     andthen (authorize_role E cl NAMENODE 8020 8020 (namenode_ip @ ''/32''))
    (andthen (authorize_role E cl NAMENODE 8020 8020 (jobtracker_ip @ ''/32''))
    (andthen (authorize_role E cl JOBTRACKER 8021 8021 (namenode_ip @ ''/32''))
             (authorize_role E cl JOBTRACKER 8021 8021 (jobtracker_ip @ ''/32''))))))))))))"

definition xml_property :: "string \<Rightarrow> string \<Rightarrow> string" where
  "xml_property name val =
     ''  <property>'' @ [nl] @ ''    <name>'' @ name @ ''</name>'' @ [nl]
     @ ''    <value>'' @ val @ ''</value>'' @ [nl] @ ''  </property>'' @ [nl]"

definition hadoop_site_xml :: "string \<Rightarrow> string \<Rightarrow> string \<Rightarrow> string \<Rightarrow> string \<Rightarrow> string" where
  "hadoop_site_xml namenode jobtracker key secret proxy_port =
     ''<?xml version=\"1.0\"?>'' @ [nl]
     @ ''  <?xml-stylesheet type=\"text/xsl\" href=\"configuration.xsl\"?>'' @ [nl]
     @ ''  <!-- Put site-specific property overrides in this file. -->'' @ [nl]
     @ ''  <configuration>'' @ [nl]
     @ xml_property ''hadoop.job.ugi'' ''root,root''
     @ xml_property ''fs.default.name'' (''hdfs://'' @ namenode @ '':8020/'')
     @ xml_property ''mapred.job.tracker'' (jobtracker @ '':8021'')
     @ xml_property ''hadoop.socks.server'' (''localhost:'' @ proxy_port)
     @ xml_property ''hadoop.rpc.socket.factory.class.default'' ''org.apache.hadoop.net.SocksSocketFactory''
     @ xml_property ''fs.s3.awsAccessKeyId'' key
     @ xml_property ''fs.s3.awsSecretAccessKey'' secret
     @ xml_property ''fs.s3n.awsAccessKeyId'' key
     @ xml_property ''fs.s3n.awsSecretAccessKey'' secret
     @ ''  </configuration>'' @ [nl] @ ''  ''"

text \<open>The file is opened, and so emptied, before the text is put together.\<close>

definition create_client_hadoop_site_file ::
  "site \<Rightarrow> env \<Rightarrow> cluster \<Rightarrow> string \<Rightarrow> pyval \<Rightarrow> ('w world_scheme, unit) st" where
  "create_client_hadoop_site_file S E cl config_dir proxy_port =
     bnd (get_namenode E cl) (\<lambda>namenode.
     bnd (get_jobtracker E cl) (\<lambda>jobtracker.
     bnd (lift_sum (dlookup (site_environ S) ''AWS_ACCESS_KEY_ID'')) (\<lambda>key.
     bnd (lift_sum (dlookup (site_environ S) ''AWS_SECRET_ACCESS_KEY'')) (\<lambda>secret.
     let dir = path_join config_dir (cl_name cl); file = path_join dir ''hadoop-site.xml'' in
     andthen (do_call E (Os (MakeDirs dir)))
    (andthen (do_call E (Os (WriteFile file [])))
    (bnd (public_ip namenode) (\<lambda>nn.
     bnd (public_ip jobtracker) (\<lambda>jt.
     do_call E (Os (WriteFile file (hadoop_site_xml nn jt key secret (fmt_val S proxy_port))))))))))))"


subsection \<open>Waiting for the service\<close>

text \<open>
  The pattern \<open><a href="machines.jsp(?:\?type=active)?">(\d+)</a>\<close>, tried at every position;
  the full stop is any character but a newline.
\<close>

definition strip_prefix :: "string \<Rightarrow> string \<Rightarrow> string option" where
  "strip_prefix p s = (if py_startswith s p then Some (drop (length p) s) else None)"

definition tracker_link :: "string \<Rightarrow> nat option" where
  "tracker_link s =
     (case strip_prefix ''<a href=\"machines'' s of
        None \<Rightarrow> None
      | Some [] \<Rightarrow> None
      | Some (c # s1) \<Rightarrow>
          if c = nl then None
          else (case strip_prefix ''jsp'' s1 of
             None \<Rightarrow> None
           | Some s2 \<Rightarrow>
              (case strip_prefix ''\">'' (case strip_prefix ''?type=active'' s2 of None \<Rightarrow> s2 | Some t \<Rightarrow> t) of
                 None \<Rightarrow> None
               | Some s3 \<Rightarrow>
                   let ds = takeWhile is_digit s3 in
                   if ds \<noteq> [] \<and> py_startswith (dropWhile is_digit s3) ''</a>'' then Some (digits_val ds) else None)))"

fun tracker_count :: "string \<Rightarrow> nat" where
  "tracker_count [] = 0"
| "tracker_count (c # s) = (case tracker_link (c # s) of Some n \<Rightarrow> n | None \<Rightarrow> tracker_count s)"

definition number_of_tasktrackers ::
  "env \<Rightarrow> string \<Rightarrow> nat \<Rightarrow> int \<Rightarrow> ('w world_scheme, nat) st" where
  "number_of_tasktrackers E jt_hostname timeout retries =
     bnd (url_get E (''http://'' @ jt_hostname @ '':50030/jobtracker.jsp'') timeout retries)
       (\<lambda>page. ret (tracker_count page))"

definition jobtracker_round :: "env \<Rightarrow> rat \<Rightarrow> rat \<Rightarrow> string \<Rightarrow> ('w world_scheme, nat option) st" where
  "jobtracker_round E start timeout jt =
     bnd (clock E) (\<lambda>now.
     if now - start \<ge> timeout then raise TimeoutError
     else bnd (try_except (bnd (number_of_tasktrackers E jt 1 0) (\<lambda>n. ret (Some n)))
                 (\<lambda>e. e = IOError) (\<lambda>_. ret None)) (\<lambda>r.
          case r of Some n \<Rightarrow> ret (Some n) | None \<Rightarrow> andthen (sleep 1) (ret None)))"

definition tasktracker_round :: "env \<Rightarrow> rat \<Rightarrow> rat \<Rightarrow> string \<Rightarrow> int \<Rightarrow> ('w world_scheme, unit option) st" where
  "tasktracker_round E start timeout jt number =
     bnd (clock E) (\<lambda>now.
     if now - start \<ge> timeout then raise TimeoutError
     else try_except
            (bnd (number_of_tasktrackers E jt 5 2) (\<lambda>n.
             andthen (sleep 1) (ret (if int n < number then None else Some ()))))
            (\<lambda>e. e = IOError) (\<lambda>_. ret None))"

definition wait_for_hadoop :: "nat \<Rightarrow> env \<Rightarrow> cluster \<Rightarrow> int \<Rightarrow> rat \<Rightarrow> ('w world_scheme, unit) st" where
  "wait_for_hadoop rounds E cl number timeout =
     bnd (clock E) (\<lambda>start.
     bnd (get_jobtracker E cl) (\<lambda>jobtracker.
     case jobtracker of
       None \<Rightarrow> ret ()
     | Some h \<Rightarrow>
         bnd (loop_st rounds (jobtracker_round E start timeout (h_public_ip h))) (\<lambda>actual.
         if number > 0 \<and> int actual < number
         then loop_st rounds (tasktracker_round E start timeout (h_public_ip h) number)
         else ret ())))"


subsection \<open>Operations\<close>

definition print_master_url :: "env \<Rightarrow> cluster \<Rightarrow> ('w world_scheme, unit) st" where
  "print_master_url E cl =
     bnd (get_jobtracker E cl) (\<lambda>webserver.
     case webserver of
       None \<Rightarrow> ret ()
     | Some h \<Rightarrow> say E (''Browse the cluster at http://'' @ h_public_ip h @ ''/''))"

definition attach_storage_roles :: "site \<Rightarrow> env \<Rightarrow> cluster \<Rightarrow> string list \<Rightarrow> (cloud_world, unit) st" where
  "attach_storage_roles S E cl roles =
     bnd (gets (\<lambda>w. has_any_storage roles (vfile w))) (\<lambda>any.
     if \<not> any then ret ()
     else andthen (sleep 10)
         (andthen (for_each (\<lambda>role.
              bnd (get_instances_in_role E cl role (Some ''running'')) (\<lambda>hosts.
              storage_attach (site_order S) E role hosts)) roles)
            (storage_print_status E (Some roles))))"

definition hadoop_launch_cluster ::
  "site \<Rightarrow> env \<Rightarrow> cluster \<Rightarrow> template list \<Rightarrow> string \<Rightarrow> pyval \<Rightarrow> pyval \<Rightarrow> (cloud_world, unit) st" where
  "hadoop_launch_cluster S E cl its config_dir client_cidr proxy_port =
     (let roles = concat (map it_roles its);
          trackers = sum_list (map it_number (filter (\<lambda>it. TASKTRACKER \<in> set (it_roles it)) its)) in
      andthen (launch_templates S E cl [] its)
     (andthen (create_client_hadoop_site_file S E cl config_dir proxy_port)
     (andthen (authorize_client_ports E cl client_cidr)
     (andthen (attach_storage_roles S E cl roles)
     (andthen (try_except (wait_for_hadoop (site_rounds S) E cl trackers 600)
                 (\<lambda>e. e = TimeoutError) (\<lambda>_. ret ()))
        (print_master_url E cl))))))"

definition hadoop_launch_master ::
  "site \<Rightarrow> env \<Rightarrow> cluster \<Rightarrow> template \<Rightarrow> string \<Rightarrow> pyval \<Rightarrow> (cloud_world, unit) st" where
  "hadoop_launch_master S E cl it config_dir client_cidr =
     bnd (check_running E cl NAMENODE 0) (\<lambda>running.
     if running = None then ret ()
     else hadoop_launch_cluster S E cl [it] config_dir client_cidr (PInt 6666))"

text \<open>
  \<open>add_env_strings((s))\<close>: the inner parentheses make no tuple, the text itself is the argument,
  and the list is extended by its characters.
\<close>

definition slave_template :: "host \<Rightarrow> template \<Rightarrow> py_exc + template" where
  "slave_template master it =
     foldl (\<lambda>r role. case r of Inl e \<Rightarrow> Inl e | Inr t \<Rightarrow> add_env_strings (PStr (host_env role master)) t)
       (Inr it) [NAMENODE, SECONDARY_NAMENODE, JOBTRACKER]"

definition hadoop_launch_slaves :: "site \<Rightarrow> env \<Rightarrow> cluster \<Rightarrow> template \<Rightarrow> (cloud_world, unit) st" where
  "hadoop_launch_slaves S E cl it =
     bnd (check_running E cl NAMENODE 1) (\<lambda>instances.
     case instances of
       Some (master # _) \<Rightarrow>
         bnd (lift_sum (slave_template master it)) (\<lambda>it'.
         bnd (launch_template S E HadoopService cl it') (\<lambda>_.
         andthen (attach_storage_roles S E cl (it_roles it'))
           (print_master_url E cl)))
     | _ \<Rightarrow> ret ())"

definition hadoop_list_all :: "site \<Rightarrow> env \<Rightarrow> cluster_class \<Rightarrow> ('w world_scheme, unit) st" where
  "hadoop_list_all S E cls =
     bnd (get_clusters_with_role E cls (site_username S) MASTER ''running'') (\<lambda>legacy.
     bnd (get_clusters_with_role E cls (site_username S) NAMENODE ''running'') (\<lambda>clusters.
     if clusters @ legacy = [] then say E ''No running clusters''
     else for_each (say E) (clusters @ legacy)))"

text \<open>Commands on the master; without one the process exits.\<close>

definition with_master :: "env \<Rightarrow> cluster \<Rightarrow> (host \<Rightarrow> ('w world_scheme, unit) st) \<Rightarrow> ('w world_scheme, unit) st" where
  "with_master E cl f =
     bnd (get_namenode E cl) (\<lambda>master.
     case master of None \<Rightarrow> raise (SystemExit 1) | Some h \<Rightarrow> f h)"

definition shell :: "env \<Rightarrow> string \<Rightarrow> ('w world_scheme, unit) st" where
  "shell E command = do_call E (Os (Shell command))"

definition hadoop_login :: "site \<Rightarrow> env \<Rightarrow> cluster \<Rightarrow> pyval \<Rightarrow> ('w world_scheme, unit) st" where
  "hadoop_login S E cl ssh_options =
     with_master E cl (\<lambda>h. shell E (''ssh '' @ xstr_val S ssh_options @ '' root@'' @ h_public_ip h))"

definition proxy_options :: "site \<Rightarrow> pyval \<Rightarrow> string" where
  "proxy_options S proxy_port =
     ''-o \"ConnectTimeout 10\" -o \"ServerAliveInterval 60\" -N -D localhost:'' @ fmt_val S proxy_port"

definition hadoop_proxy :: "site \<Rightarrow> env \<Rightarrow> cluster \<Rightarrow> pyval \<Rightarrow> pyval \<Rightarrow> ('w world_scheme, unit) st" where
  "hadoop_proxy S E cl ssh_options proxy_port =
     with_master E cl (\<lambda>h.
       bnd (perform (ans_text E) (Os (Popen (''ssh '' @ xstr_val S ssh_options @ '' ''
              @ proxy_options S proxy_port @ '' root@'' @ h_public_ip h)))) (\<lambda>pid.
       say E (''export HADOOP_CLOUD_PROXY_PID='' @ pid @ '';'' @ [nl]
              @ ''echo Proxy pid '' @ pid @ '', port '' @ fmt_val S proxy_port @ '';'')))"

definition hadoop_push :: "site \<Rightarrow> env \<Rightarrow> cluster \<Rightarrow> pyval \<Rightarrow> string \<Rightarrow> ('w world_scheme, unit) st" where
  "hadoop_push S E cl ssh_options file =
     with_master E cl (\<lambda>h. shell E (''scp '' @ xstr_val S ssh_options @ '' -r '' @ file @ '' root@'' @ h_public_ip h @ '':''))"

definition hadoop_execute :: "site \<Rightarrow> env \<Rightarrow> cluster \<Rightarrow> pyval \<Rightarrow> string list \<Rightarrow> ('w world_scheme, unit) st" where
  "hadoop_execute S E cl ssh_options args =
     with_master E cl (\<lambda>h. shell E (''ssh '' @ xstr_val S ssh_options @ '' root@'' @ h_public_ip h
       @ '' '' @ [squote] @ py_join '' '' args @ [squote]))"

definition hadoop_update_slaves_file ::
  "site \<Rightarrow> env \<Rightarrow> cluster \<Rightarrow> string \<Rightarrow> string \<Rightarrow> pyval \<Rightarrow> ('w world_scheme, unit) st" where
  "hadoop_update_slaves_file S E cl config_dir ssh_options private_key =
     bnd (check_running E cl NAMENODE 1) (\<lambda>instances.
     case instances of
       Some (master # _) \<Rightarrow>
         bnd (get_instances_in_role E cl DATANODE (Some ''running'')) (\<lambda>slaves.
         let file = path_join (path_join config_dir (cl_name cl)) ''slaves'';
             key = fmt_val S private_key in
         andthen (do_call E (Os (WriteFile file (concat (map (\<lambda>s. h_public_ip s @ [nl]) slaves)))))
        (andthen (shell E (''scp '' @ ssh_options @ '' -r '' @ file @ '' root@'' @ h_public_ip master @ '':/etc/hadoop/conf''))
        (andthen (shell E (''scp '' @ ssh_options @ '' -r '' @ key @ '' root@'' @ h_public_ip master @ '':/root/.ssh/id_rsa''))
           (for_each (\<lambda>s. shell E (''scp '' @ ssh_options @ '' -r '' @ key @ '' root@'' @ h_public_ip s @ '':/root/.ssh/id_rsa'')) slaves))))
     | _ \<Rightarrow> raise (SystemExit 1))"


section \<open>Operations of every service\<close>

definition prompt :: "env \<Rightarrow> string \<Rightarrow> ('w world_scheme, bool) st" where
  "prompt E text0 =
     bnd (perform (ans_text E) (Os (Prompt (text0 @ '' [yes or no]: '')))) (\<lambda>answer.
     ret (py_lower answer = ''yes''))"

text \<open>\<open>_call\<close> prints an exception and goes on.\<close>

definition call_shell :: "env \<Rightarrow> string \<Rightarrow> ('w world_scheme, unit) st" where
  "call_shell E command =
     andthen (say E command)
       (try_except (shell E command) (\<lambda>e. e \<noteq> StillRunning \<and> (\<forall>c. e \<noteq> SystemExit c)) (\<lambda>_. say E []))"

definition terminate_cluster :: "env \<Rightarrow> cluster \<Rightarrow> bool \<Rightarrow> ('w world_scheme, unit) st" where
  "terminate_cluster E cl force =
     andthen (print_status E cl [] (Some ''running''))
    (bnd (if force then ret True else prompt E ''Terminate all instances?'') (\<lambda>yes.
     if \<not> yes then say E ''Not terminating cluster.''
     else andthen (say E ''Terminating cluster'') (terminate_cluster_instances E cl)))"

definition list_storage :: "env \<Rightarrow> (cloud_world, unit) st" where
  "list_storage E = storage_print_status E None"

definition create_storage ::
  "env \<Rightarrow> string \<Rightarrow> nat \<Rightarrow> pyval \<Rightarrow> py_exc + spec_file \<Rightarrow> (cloud_world, unit) st" where
  "create_storage E role number_of_instances zone spec =
     andthen (storage_create E role number_of_instances zone spec) (storage_print_status E None)"

definition attach_storage :: "site \<Rightarrow> env \<Rightarrow> cluster \<Rightarrow> string \<Rightarrow> (cloud_world, unit) st" where
  "attach_storage S E cl role =
     bnd (get_instances_in_role E cl role (Some ''running'')) (\<lambda>hosts.
     andthen (storage_attach (site_order S) E role hosts) (storage_print_status E None))"

text \<open>\<open>storage.delete\<close> takes a list of roles and is given one role: its characters.\<close>

definition delete_storage :: "env \<Rightarrow> bool \<Rightarrow> (cloud_world, unit) st" where
  "delete_storage E force =
     andthen (storage_print_status E None)
    (bnd (if force then ret True
          else prompt E (''Delete all storage volumes? THIS WILL       PERMANENTLY DELETE ALL DATA'')) (\<lambda>yes.
     if \<not> yes then say E ''Not deleting storage volumes.''
     else andthen (say E ''Deleting storage'')
         (bnd (gets (\<lambda>w. file_roles (vfile w))) (\<lambda>roles.
          for_each (\<lambda>role. storage_delete E (map (\<lambda>c. [c]) role)) roles))))"


section \<open>The ZooKeeper service\<close>

definition ZOOKEEPER_ROLE :: string where "ZOOKEEPER_ROLE = ''zk''"

definition zk_authorize_client_ports :: "env \<Rightarrow> cluster \<Rightarrow> pyval \<Rightarrow> ('w world_scheme, unit) st" where
  "zk_authorize_client_ports E cl cidrs0 =
     bnd (client_cidrs E cidrs0) (\<lambda>cidrs.
     for_each (\<lambda>cidr. authorize_role E cl ZOOKEEPER_ROLE 2181 2181 cidr) cidrs)"

text \<open>
  \<open>_update_cluster_membership\<close> takes one argument and is called with two: the call raises. What
  the method would do is \<open>zk_update_cluster_membership\<close>.
\<close>

definition zk_launch_cluster ::
  "site \<Rightarrow> env \<Rightarrow> cluster \<Rightarrow> template list \<Rightarrow> string \<Rightarrow> pyval \<Rightarrow> (cloud_world, unit) st" where
  "zk_launch_cluster S E cl its config_dir client_cidr =
     andthen (for_each (\<lambda>it. andthen (launch_template S E ZooKeeperService cl it) (ret ())) its)
    (andthen (zk_authorize_client_ports E cl client_cidr)
       (raise (if its = [] then IndexError else TypeError)))"

definition zoo_cfg :: "host list \<Rightarrow> string" where
  "zoo_cfg hosts =
     concat (map (\<lambda>l. l @ [nl])
      [''# The number of milliseconds of each tick'', ''tickTime=2000'',
       ''# The number of ticks that the initial'', ''# synchronization phase can take'', ''initLimit=10'',
       ''# The number of ticks that can pass between'',
       ''# sending a request and getting an acknowledgement'', ''syncLimit=5'',
       ''# The directory where the snapshot is stored.'', ''dataDir=/var/log/zookeeper/txlog'',
       ''# The port at which the clients will connect'', ''clientPort=2181'', ''# The servers in the ensemble''])
     @ concat (map (\<lambda>(n, h). ''server.'' @ nat_str n @ ''='' @ h_private_ip h @ '':2888:3888'' @ [nl])
         (zip [1..<Suc (length hosts)] hosts))"

definition zk_update_cluster_membership :: "env \<Rightarrow> cluster \<Rightarrow> string \<Rightarrow> ('w world_scheme, unit) st" where
  "zk_update_cluster_membership E cl public_key =
     (let key = take (length public_key - 4) public_key; ssh = ''-o StrictHostKeyChecking=no'' in
      andthen (sleep 30)
     (bnd (get_instances_in_role E cl ZOOKEEPER_ROLE (Some ''running'')) (\<lambda>hosts.
      andthen (do_call E (Os (WriteFile ''zoo.cfg'' (zoo_cfg hosts))))
     (andthen (for_each (\<lambda>(n, h).
          andthen (call_shell E (''scp -i '' @ key @ '' '' @ ssh @ '' zoo.cfg root@'' @ h_public_ip h @ '':/etc/zookeeper/conf/zoo.cfg''))
         (andthen (do_call E (Os (WriteFile ''myid'' (nat_str n @ [nl]))))
                  (call_shell E (''scp -i '' @ key @ '' '' @ ssh @ '' myid root@'' @ h_public_ip h @ '':/var/log/zookeeper/txlog/myid''))))
        (zip [1..<Suc (length hosts)] hosts))
     (andthen (do_call E (Os (RemoveFile ''zoo.cfg'')))
     (andthen (do_call E (Os (RemoveFile ''myid'')))
     (andthen (for_each (\<lambda>h. call_shell E (''ssh -i '' @ key @ '' '' @ ssh @ '' root@'' @ h_public_ip h @ '' nohup /etc/rc.local &'')) hosts)
              (say E (''ZooKeeper cluster: '' @ py_join '','' (map (\<lambda>h. h_public_ip h @ '':2181'') hosts))))))))))"

end
