(* ===== verification/CloudCli.thy ===== *)
theory CloudCli
  imports CloudService
begin

text \<open>
  \<open>hadoop/cloud/cli.py\<close>: the commands. What the option parser made of the command line (the
  options with their defaults, and the remaining arguments) and the decoded configuration files
  are parameters; so is the content of a spec file. The usage text is left out. A run that
  chooses the dummy provider is outside the model: its result is \<open>None\<close>.
\<close>


section \<open>Options and configuration\<close>

definition DEFAULT_SERVICE_NAME :: string where "DEFAULT_SERVICE_NAME = ''hadoop''"
definition DEFAULT_CLOUD_PROVIDER :: string where "DEFAULT_CLOUD_PROVIDER = ''cs61cec2''"

definition get_config_dir :: "site \<Rightarrow> string \<Rightarrow> pydict \<Rightarrow> string" where
  "get_config_dir S default_dir options =
     (let v = pget options ''config_dir'' in if py_truth v then fmt_val S v else default_dir)"

definition get_service_name :: "pydict \<Rightarrow> pyval" where
  "get_service_name options =
     (let v = pget options ''service'' in if v = PNone then PStr DEFAULT_SERVICE_NAME else v)"

definition get_cloud_provider :: "pydict \<Rightarrow> pyval" where
  "get_cloud_provider options =
     (let v = pget options ''cloud_provider'' in if v = PNone then PStr DEFAULT_CLOUD_PROVIDER else v)"

definition check_options_set :: "env \<Rightarrow> pydict \<Rightarrow> string list \<Rightarrow> ('w world_scheme, unit) st" where
  "check_options_set E options names =
     for_each (\<lambda>name.
       if pget options name = PNone
       then andthen (say E (''Option '' @ [squote] @ name @ [squote] @ '' is missing. Aborting.'')) (raise (SystemExit 1))
       else ret ()) names"

definition check_launch_options_set :: "env \<Rightarrow> cluster \<Rightarrow> pydict \<Rightarrow> ('w world_scheme, unit) st" where
  "check_launch_options_set E cl options =
     (if get_provider_code cl = ''ec2'' \<or> get_provider_code cl = ''cs61cec2''
      then andthen (if pget options ''ami'' = PNone \<and> pget options ''image_id'' = PNone
                    then andthen (say E ''One of ami or image_id must be specified. Aborting.'') (raise (SystemExit 1))
                    else ret ())
             (check_options_set E options [''key_name''])
      else check_options_set E options [''image_id'', ''public_key''])"

definition get_image_id :: "cluster \<Rightarrow> pydict \<Rightarrow> pyval" where
  "get_image_id cl options =
     (if get_provider_code cl = ''ec2''
      then (case dget options ''image_id'' of Some v \<Rightarrow> v | None \<Rightarrow> pget options ''ami'')
      else pget options ''image_id'')"

text \<open>The number of arguments: the cluster and the extra ones, or at least that many.\<close>

definition check_args :: "nat \<Rightarrow> bool \<Rightarrow> string list \<Rightarrow> py_exc + unit" where
  "check_args expected unbounded args =
     (if (if unbounded then length args < expected else length args \<noteq> expected)
      then Inl (SystemExit 2) else Inr ())"

definition as_name :: "site \<Rightarrow> pyval \<Rightarrow> string" where
  "as_name S v = (case v of PStr s \<Rightarrow> s | _ \<Rightarrow> site_repr S v)"

text \<open>
  \<open>parse_options_and_config\<close>: the section of the configuration named like the cluster and the
  options decide; \<open>None\<close> is the dummy provider.
\<close>

definition setup_cluster ::
  "site \<Rightarrow> string \<Rightarrow> config \<Rightarrow> nat \<Rightarrow> bool \<Rightarrow> pydict \<Rightarrow> string list
     \<Rightarrow> py_exc + (pydict \<times> service \<times> cluster) option" where
  "setup_cluster S default_dir config expected unbounded options args =
     (case check_args expected unbounded args of Inl e \<Rightarrow> Inl e | Inr _ \<Rightarrow>
      (let opt = merge_config_with_options (hd args) config options in
       case get_cluster (as_name S (get_cloud_provider opt)) of
         Inl e \<Rightarrow> Inl e
       | Inr None \<Rightarrow> Inr None
       | Inr (Some cls) \<Rightarrow>
          (case get_service (as_name S (get_service_name opt)) of
             Inl e \<Rightarrow> Inl e
           | Inr sv \<Rightarrow> Inr (Some (opt, sv,
               \<lparr>cl_class = cls, cl_name = hd args, cl_config_dir = get_config_dir S default_dir options\<rparr>)))))"


section \<open>Templates of the launch commands\<close>

text \<open>\<open>launch-master\<close> and \<open>launch-slaves\<close> pass thirteen arguments.\<close>

definition full_template :: "cluster \<Rightarrow> pydict \<Rightarrow> string list \<Rightarrow> int \<Rightarrow> template" where
  "full_template cl opt roles number =
     \<lparr>it_roles = roles, it_number = number, it_image_id = get_image_id cl opt,
      it_size_id = pget opt ''instance_type'', it_key_name = pget opt ''key_name'',
      it_public_key = pget opt ''public_key'', it_private_key = pget opt ''private_key'',
      it_user_data_file_template = pget opt ''user_data_file'', it_placement = pget opt ''availability_zone'',
      it_user_packages = pget opt ''user_packages'', it_auto_shutdown = pget opt ''auto_shutdown'',
      it_env_strings = pget opt ''env'', it_security_groups = pget opt ''security_group''\<rparr>"

text \<open>
  \<open>launch-cluster\<close> passes twelve: the private key is missing, and every later argument lands one
  parameter too early; the last parameter keeps its default.
\<close>

definition shifted_template :: "cluster \<Rightarrow> pydict \<Rightarrow> string list \<Rightarrow> int \<Rightarrow> template" where
  "shifted_template cl opt roles number =
     \<lparr>it_roles = roles, it_number = number, it_image_id = get_image_id cl opt,
      it_size_id = pget opt ''instance_type'', it_key_name = pget opt ''key_name'',
      it_public_key = pget opt ''public_key'', it_private_key = pget opt ''user_data_file'',
      it_user_data_file_template = pget opt ''availability_zone'', it_placement = pget opt ''user_packages'',
      it_user_packages = pget opt ''auto_shutdown'', it_auto_shutdown = pget opt ''env'',
      it_env_strings = pget opt ''security_group'', it_security_groups = PList []\<rparr>"

fun pair_templates :: "cluster \<Rightarrow> pydict \<Rightarrow> string list \<Rightarrow> py_exc + template list" where
  "pair_templates cl opt (n # roles # rest) =
     (case py_int n of Inl e \<Rightarrow> Inl e | Inr number \<Rightarrow>
        (case pair_templates cl opt rest of Inl e \<Rightarrow> Inl e | Inr its \<Rightarrow>
           Inr (shifted_template cl opt (py_split (CHR '','') roles) number # its)))"
| "pair_templates cl opt _ = Inr []"

text \<open>
  The templates of \<open>launch-cluster\<close>: one argument after the cluster is the number of slaves; an
  odd number of them beyond that is a usage error.
\<close>

definition cluster_templates :: "cluster \<Rightarrow> pydict \<Rightarrow> string list \<Rightarrow> py_exc + template list" where
  "cluster_templates cl opt args =
     (if length args = 2
      then (case py_int (args ! 1) of Inl e \<Rightarrow> Inl e | Inr n \<Rightarrow>
              Inr [shifted_template cl opt [NAMENODE, SECONDARY_NAMENODE, JOBTRACKER] 1,
                   shifted_template cl opt [DATANODE, TASKTRACKER] n])
      else if length args > 2 \<and> length args mod 2 = 0 then Inl (SystemExit 1)
      else pair_templates cl opt (tl args))"


section \<open>Commands\<close>

definition unimplemented :: "('s, 'a) st" where
  "unimplemented = raise (PlainError ''Unimplemented'')"

text \<open>
  How many arguments a command needs, the cluster included, and whether more are allowed.
\<close>

definition command_args :: "string \<Rightarrow> (nat \<times> bool) option" where
  "command_args command =
     map_of [(''launch-master'', (1, False)), (''launch-slaves'', (2, False)), (''launch-cluster'', (2, True)),
       (''login'', (1, False)), (''proxy'', (1, False)), (''push'', (2, False)), (''exec'', (2, True)),
       (''terminate-cluster'', (1, False)), (''delete-cluster'', (1, False)),
       (''create-formatted-snapshot'', (2, False)), (''list-storage'', (1, False)),
       (''create-storage'', (4, False)), (''attach-storage'', (2, False)), (''delete-storage'', (1, False)),
       (''update-slaves-file'', (1, False)), (''list'', (1, False))] command"

definition run_launch_cluster ::
  "site \<Rightarrow> env \<Rightarrow> string \<Rightarrow> service \<Rightarrow> cluster \<Rightarrow> pydict \<Rightarrow> string list \<Rightarrow> (cloud_world, unit) st" where
  "run_launch_cluster S E default_dir sv cl opt args =
     andthen (check_launch_options_set E cl opt)
    (bnd (lift_sum (cluster_templates cl opt args)) (\<lambda>its.
     case sv of
       HadoopService \<Rightarrow> hadoop_launch_cluster S E cl its (get_config_dir S default_dir opt)
         (pget opt ''client_cidr'') (pget opt ''proxy_port'')
     | ZooKeeperService \<Rightarrow> raise TypeError))"

definition run_command ::
  "site \<Rightarrow> env \<Rightarrow> string \<Rightarrow> (string \<Rightarrow> py_exc + spec_file) \<Rightarrow> service \<Rightarrow> cluster \<Rightarrow> string \<Rightarrow> pydict
     \<Rightarrow> string list \<Rightarrow> (cloud_world, unit) st" where
  "run_command S E default_dir read_spec sv cl command opt args =
     (if command = ''launch-master'' then
        andthen (check_launch_options_set E cl opt)
          (if sv = HadoopService
           then hadoop_launch_master S E cl (full_template cl opt [NAMENODE, SECONDARY_NAMENODE, JOBTRACKER] 1)
                  (get_config_dir S default_dir opt) (pget opt ''client_cidr'')
           else unimplemented)
      else if command = ''launch-slaves'' then
        bnd (lift_sum (py_int (args ! 1))) (\<lambda>n.
        andthen (check_launch_options_set E cl opt)
          (if sv = HadoopService
           then hadoop_launch_slaves S E cl (full_template cl opt [DATANODE, TASKTRACKER] n) else unimplemented))
      else if command = ''launch-cluster'' then run_launch_cluster S E default_dir sv cl opt args
      else if command = ''terminate-cluster'' then
        bnd (lift_sum (dlookup opt ''force'')) (\<lambda>force. terminate_cluster E cl (py_truth force))
      else if command = ''delete-cluster'' then delete_cluster_groups E cl
      else if command = ''list-storage'' then list_storage E
      else if command = ''attach-storage'' then attach_storage S E cl (args ! 1)
      else if command = ''delete-storage'' then
        bnd (lift_sum (dlookup opt ''force'')) (\<lambda>force. delete_storage E (py_truth force))
      else if command = ''create-storage'' then
        bnd (lift_sum (py_int (args ! 2))) (\<lambda>n.
        andthen (check_options_set E opt [''availability_zone''])
          (create_storage E (args ! 1) (nat n) (pget opt ''availability_zone'') (read_spec (args ! 3))))
      else if command = ''create-formatted-snapshot'' then
        bnd (lift_sum (py_int (args ! 1))) (\<lambda>n.
        andthen (check_options_set E opt [''availability_zone'', ''key_name''])
          (create_formatted_snapshot (site_rounds S) E (PInt n) (pget opt ''availability_zone'')
             (PStr ''ami-ec48af85'') (pget opt ''key_name'') (xstr_val S (pget opt ''ssh_options''))))
      else if sv = ZooKeeperService then unimplemented
      else if command = ''list'' then print_status E cl [] (Some ''running'')
      else if command = ''login'' then hadoop_login S E cl (pget opt ''ssh_options'')
      else if command = ''proxy'' then hadoop_proxy S E cl (pget opt ''ssh_options'') (pget opt ''proxy_port'')
      else if command = ''push'' then hadoop_push S E cl (pget opt ''ssh_options'') (args ! 1)
      else if command = ''exec'' then hadoop_execute S E cl (pget opt ''ssh_options'') (tl args)
      else andthen (check_options_set E opt [''private_key''])
             (hadoop_update_slaves_file S E cl (get_config_dir S default_dir opt)
                (xstr_val S (pget opt ''ssh_options'')) (pget opt ''private_key'')))"

definition list_all_clusters :: "site \<Rightarrow> env \<Rightarrow> pydict \<Rightarrow> (cloud_world, unit) st option" where
  "list_all_clusters S E options =
     (case get_service (as_name S (get_service_name options)) of
        Inl e \<Rightarrow> Some (raise e)
      | Inr ZooKeeperService \<Rightarrow> Some unimplemented
      | Inr HadoopService \<Rightarrow>
         (case get_cluster (as_name S (get_cloud_provider options)) of
            Inl e \<Rightarrow> Some (raise e)
          | Inr None \<Rightarrow> None
          | Inr (Some cls) \<Rightarrow> Some (hadoop_list_all S E cls)))"

definition cli_main ::
  "site \<Rightarrow> env \<Rightarrow> string \<Rightarrow> (string \<Rightarrow> py_exc + spec_file) \<Rightarrow> config \<Rightarrow> string option \<Rightarrow> pydict \<Rightarrow> string list
     \<Rightarrow> (cloud_world, unit) st option" where
  "cli_main S E default_dir read_spec config command options args =
     (case command of
        None \<Rightarrow> Some (raise (SystemExit 1))
      | Some c \<Rightarrow>
          if c = ''list'' \<and> args = [] then list_all_clusters S E options
          else (case command_args c of
             None \<Rightarrow> Some (andthen (say E (''Unrecognized command '' @ [squote] @ c @ [squote])) (raise (SystemExit 1)))
           | Some (expected, unbounded) \<Rightarrow>
              (case setup_cluster S default_dir config expected unbounded options args of
                 Inl e \<Rightarrow> Some (raise e)
               | Inr None \<Rightarrow> None
               | Inr (Some (opt, sv, cl)) \<Rightarrow>
                   Some (run_command S E default_dir read_spec sv cl c opt args))))"

end
