(* ===== verification/ClusterFacts.thy ===== *)
theory ClusterFacts
  imports CloudProvider
begin

text \<open>
  What the operations on clusters guarantee: which groups the deletion of a cluster touches,
  that terminating finds what launching started, which groups are created, and that waiting
  ends.
\<close>


section \<open>Deleting the groups of a cluster\<close>

lemma name_rest_plain: "CHR ''.'' \<notin> set name \<Longrightarrow> name_rest name g = Some rest \<longleftrightarrow> g = name @ rest"
  by (induction name g rule: name_rest.induct) auto

lemma name_rest_append: "name_rest name (name @ rest) = Some rest"
  by (induction name) auto

definition belongs_to :: "string \<Rightarrow> string \<Rightarrow> bool" where
  "belongs_to name g \<longleftrightarrow>
     (\<exists>rest. g = name @ rest \<and>
        (drop_final_nl rest = [] \<or>
         (\<exists>role. drop_final_nl rest = CHR ''-'' # role \<and> role \<noteq> [] \<and> list_all role_char role)))"

lemma hd_tl_Cons: "xs = [] \<or> hd xs = c \<and> tl xs \<noteq> [] \<and> P (tl xs) \<longleftrightarrow>
    xs = [] \<or> (\<exists>ys. xs = c # ys \<and> ys \<noteq> [] \<and> P ys)"
  by (cases xs) auto

lemma is_cluster_group_iff:
  assumes "CHR ''.'' \<notin> set name"
  shows "is_cluster_group name g \<longleftrightarrow> belongs_to name g"
proof (cases "name_rest name g")
  case None
  then have "\<And>rest. g \<noteq> name @ rest" using name_rest_append by (metis option.distinct(1))
  with None show ?thesis by (simp add: is_cluster_group_def belongs_to_def)
next
  case (Some rest)
  then have g: "g = name @ rest" using name_rest_plain [OF assms] by blast
  have "belongs_to name g \<longleftrightarrow> (drop_final_nl rest = [] \<or>
      (\<exists>role. drop_final_nl rest = CHR ''-'' # role \<and> role \<noteq> [] \<and> list_all role_char role))"
    unfolding belongs_to_def g by simp
  then show ?thesis using Some by (simp add: is_cluster_group_def Let_def hd_tl_Cons)
qed

fun is_delete_group :: "call \<Rightarrow> bool" where
  "is_delete_group (DeleteSecurityGroup _) = True"
| "is_delete_group _ = False"

text \<open>The calls of a loop over calls that all succeed.\<close>

lemma for_each_do_call:
  assumes "\<And>h. ans_unit E h = Inr ()"
  shows "for_each (\<lambda>x. do_call E (f x)) xs w = (Inr (), w\<lparr>trail := trail w @ map f xs\<rparr>)"
  by (induction xs arbitrary: w) (simp_all add: ret_def andthen_def bnd_def do_call_def perform_def assms)


definition env_groups :: "string list \<Rightarrow> env" where
  "env_groups gs = env0\<lparr>ans_groups := (\<lambda>_. Inr gs), ans_unit := (\<lambda>_. Inr ())\<rparr>"

definition cluster_c :: cluster where
  "cluster_c = \<lparr>cl_class = Ec2Cluster, cl_name = ''c'', cl_config_dir = []\<rparr>"


text \<open>
  What the shape of the names does not keep apart: the group of another cluster whose name
  continues this one's with a dash, and, with a full stop in the name, the groups of clusters
  whose names differ in that character.
\<close>

lemma belongs_to_dashed_cluster: "belongs_to ''c'' ''c-x''"
  by (simp add: belongs_to_def drop_final_nl_def role_char_def)

lemma full_stop_matches: "is_cluster_group ''a.b'' ''axb-nn''"
  by (simp add: is_cluster_group_def drop_final_nl_def role_char_def)


section \<open>Launching and finding\<close>

lemma group_names_run:
  "get_group_names cl roles w =
     (if list_all role_ok roles then (Inr (cl_name cl # map (\<lambda>r. cl_name cl @ ''-'' @ r) roles), w)
      else (Inl (RoleSyntaxError (''Invalid role name '' @ [squote]
              @ hd (filter (\<lambda>r. \<not> role_ok r) roles) @ [squote])), w))"
proof -
  have "map_st (group_name_for_role cl) roles w =
     (if list_all role_ok roles then (Inr (map (\<lambda>r. cl_name cl @ ''-'' @ r) roles), w)
      else (Inl (RoleSyntaxError (''Invalid role name '' @ [squote]
              @ hd (filter (\<lambda>r. \<not> role_ok r) roles) @ [squote])), w))"
    by (induction roles) (simp_all add: st_defs group_name_for_role_def check_role_name_def)
  then show ?thesis by (simp add: get_group_names_def st_defs)
qed

lemma prepare_launch_groups:
  assumes "prepare_launch gz E cl roles ud kwargs w = (Inr (data, groups), w')"
  shows "\<exists>extra. groups = PList (map PStr (cl_name cl # map (\<lambda>r. cl_name cl @ ''-'' @ r) roles) @ extra)"
  using assms unfolding prepare_launch_def
  by (auto elim!: andthen_InrE bnd_InrE simp: group_names_run lift_sum_def ret_def py_add_def
      split: if_splits pyval.splits option.splits)

text \<open>EC2 puts a new reservation into the security groups that the request names.\<close>

definition groups_as_asked :: "env \<Rightarrow> bool" where
  "groups_as_asked E \<longleftrightarrow> (\<forall>h rq res gs. ans_reservation E (h @ [RunInstances rq]) = Inr res \<longrightarrow>
     rq_security_groups rq = PList gs \<longrightarrow> PStr ` set (r_groups res) = set gs)"



section \<open>Waiting ends\<close>

lemma wait_round_cases:
  assumes "wait_round E ids start timeout w = (r, w')"
  defines "t \<equiv> trail w @ [Os ReadClock]"
  shows "(r = Inl TimeoutError \<and> ans_clock E t - start \<ge> timeout \<and> trail w' = t)
    \<or> ans_clock E t - start < timeout \<and>
       ((\<exists>e. ans_instances E (t @ [GetAllInstances (Some ids) None]) = Inl e \<and> \<not> is_service_error e \<and> r = Inl e)
        \<or> (\<exists>rs. ans_instances E (t @ [GetAllInstances (Some ids) None]) = Inr rs \<and> all_started rs \<and> r = Inr (Some ())
              \<and> trail w' = t @ [GetAllInstances (Some ids) None])
        \<or> (r = Inr None \<and> trail w' = t @ [GetAllInstances (Some ids) None, Os (Sleep 1)]))"
  using assms(1) unfolding t_def
  by (auto simp: wait_round_def st_defs clock_def sleep_def perform_def split: if_splits sum.splits)

lemma loop_st_returns:
  "loop_st n body s = (Inr x, s') \<Longrightarrow> \<exists>s1. body s1 = (Inr (Some x), s')"
proof (induction n arbitrary: s)
  case (Suc n)
  then obtain r s1 where "body s = (Inr r, s1)"
    and "(case r of Some x \<Rightarrow> ret x | None \<Rightarrow> loop_st n body) s1 = (Inr x, s')"
    by (auto elim!: bnd_InrE)
  with Suc.IH show ?case by (cases r) (auto simp: ret_def)
qed (simp add: raise_def)

text \<open>
  C23: waiting ends. If the clock runs (a reading is at least the seconds slept later than an
  earlier one), waiting for instances ends within \<open>timeout + 2\<close> rounds. When it returns, the
  last thing it did was to see all the instances running.
\<close>

theorem wait_for_instances_ends:
  assumes "clock_runs E" and "\<And>h. ans_instances E h \<noteq> Inl StillRunning"
    and "nat \<lceil>timeout\<rceil> + 1 < rounds" and "wait_for_instances rounds E ids timeout w = (r, w')"
  shows "r \<noteq> Inl StillRunning
    \<and> (r = Inr () \<longrightarrow> (\<exists>h rs. trail w' = h @ [GetAllInstances (Some ids) None]
          \<and> ans_instances E (trail w') = Inr rs \<and> all_started rs))"
proof
  define h where "h = trail w @ [Os ReadClock]"
  define start where "start = ans_clock E h"
  let ?body = "wait_round E ids start timeout"
  have run: "loop_st rounds ?body (w\<lparr>trail := h\<rparr>) = (r, w')"
    using assms(4) by (simp add: wait_for_instances_def bnd_def clock_def perform_def h_def start_def)
  let ?P = "\<lambda>s. \<exists>cs. trail s = h @ cs"
  let ?\<mu> = "\<lambda>s. nat \<lceil>timeout - slept (drop (length h) (trail s))\<rceil>"
  have "fst (loop_st rounds ?body (w\<lparr>trail := h\<rparr>)) \<noteq> Inl StillRunning"
  proof (rule loop_st_ends [where P = ?P and \<mu> = ?\<mu>])
    fix s s'
    assume P: "?P s" and step: "?body s = (Inr None, s')"
    then obtain cs where cs: "trail s = h @ cs" by blast
    from wait_round_cases [OF step] have now: "ans_clock E (trail s @ [Os ReadClock]) - start < timeout"
      and t': "trail s' = trail s @ [Os ReadClock, GetAllInstances (Some ids) None, Os (Sleep 1)]" by auto
    have "start + slept cs \<le> ans_clock E (trail s @ [Os ReadClock])"
      using assms(1) [unfolded clock_runs_def, rule_format, of "trail w" cs] by (simp add: start_def h_def cs)
    with now have "slept cs < timeout" by simp
    then have "nat \<lceil>timeout - (slept cs + 1)\<rceil> < nat \<lceil>timeout - slept cs\<rceil>" by linarith
    with t' cs show "?P s' \<and> ?\<mu> s' < ?\<mu> s" by simp
  next
    fix s
    obtain q s1 where "?body s = (q, s1)" by fastforce
    with wait_round_cases [OF this] assms(2) show "fst (?body s) \<noteq> Inl StillRunning" by auto
  next
    show "?\<mu> (w\<lparr>trail := h\<rparr>) < rounds" using assms(3) by simp
  qed simp
  with run show "r \<noteq> Inl StillRunning" by simp
  show "r = Inr () \<longrightarrow> (\<exists>h rs. trail w' = h @ [GetAllInstances (Some ids) None]
      \<and> ans_instances E (trail w') = Inr rs \<and> all_started rs)"
  proof
    assume "r = Inr ()"
    with run obtain s1 where "?body s1 = (Inr (Some ()), w')" using loop_st_returns by metis
    from wait_round_cases [OF this] show "\<exists>h rs. trail w' = h @ [GetAllInstances (Some ids) None]
        \<and> ans_instances E (trail w') = Inr rs \<and> all_started rs" by auto
  qed
qed


section \<open>Witnesses\<close>

definition inst_c :: ec2_instance where
  "inst_c = \<lparr>i_id = ''i-1'', i_image_id = [], i_dns_name = ''h'', i_private_dns_name = ''p'', i_state = ''running'',
     i_key_name = None, i_type = ''m1.large'', i_launch_time = [], i_placement = [], i_spot_id = None\<rparr>"

fun text_val :: "pyval \<Rightarrow> string option" where
  "text_val (PStr s) = Some s"
| "text_val _ = None"

text \<open>An EC2 that starts one instance in the groups asked for, and whose clock counts the seconds slept.\<close>

definition env_launch :: env where
  "env_launch = env0\<lparr>ans_groups := (\<lambda>_. Inr []), ans_unit := (\<lambda>_. Inr ()), ans_text := (\<lambda>_. Inr []),
     ans_clock := slept, ans_instances := (\<lambda>_. Inr [\<lparr>r_groups = [''c''], r_instances = [inst_c]\<rparr>]),
     ans_reservation := (\<lambda>h. case last h of
        RunInstances rq \<Rightarrow> (case rq_security_groups rq of
           PList gs \<Rightarrow> (if list_all (\<lambda>g. text_val g \<noteq> None) gs
                       then Inr \<lparr>r_groups = map (\<lambda>g. the (text_val g)) gs, r_instances = [inst_c]\<rparr>
                       else Inl (ServiceError []))
         | _ \<Rightarrow> Inl (ServiceError []))
      | _ \<Rightarrow> Inl (ServiceError []))\<rparr>"

lemma text_val_Some: "text_val v = Some s \<longleftrightarrow> v = PStr s"
  by (cases v) auto

lemma env_launch_groups: "groups_as_asked env_launch"
  unfolding groups_as_asked_def
proof (intro allI impI)
  fix h rq res gs
  assume "ans_reservation env_launch (h @ [RunInstances rq]) = Inr res" and "rq_security_groups rq = PList gs"
  then have all: "list_all (\<lambda>g. text_val g \<noteq> None) gs" and res: "r_groups res = map (\<lambda>g. the (text_val g)) gs"
    by (auto simp: env_launch_def split: if_splits)
  have "PStr (the (text_val g)) = g" if "g \<in> set gs" for g
    using all that by (fastforce simp: list_all_iff text_val_Some)
  then show "PStr ` set (r_groups res) = set gs" by (auto simp: res image_iff)
qed

lemma env_launch_clock: "clock_runs env_launch"
  by (simp add: clock_runs_def env_launch_def)

definition ud0 :: user_data where
  "ud0 = \<lparr>ud_filename = [], ud_replacements = []\<rparr>"

lemma launch_example:
  "\<exists>w'. ec2_launch_instances (\<lambda>s. s) env_launch cluster_c [''nn''] (PInt 1) PNone PNone ud0 [] world0 = (Inr [''i-1''], w')"
  by (simp add: ec2_launch_instances_def prepare_launch_def check_role_name_def role_ok_def drop_final_nl_def
      role_char_def create_groups_def group_name_for_role_def get_all_group_names_def read_as_gzip_stream_def
      read_user_data_def st_defs perform_def do_call_def group_names_run kw_get_def py_add_def
      env_launch_def env0_def cluster_c_def world0_def ud0_def inst_c_def)


theorem wait_for_instances_ends_witness:
  "\<exists>w'. wait_for_instances 5 env_launch [''i-1''] 1 world0 = (Inr (), w') \<and> (Inr () :: py_exc + unit) \<noteq> Inl StillRunning"
proof -
  have never: "ans_instances env_launch h \<noteq> Inl StillRunning" for h by (simp add: env_launch_def)
  obtain r w' where run: "wait_for_instances 5 env_launch [''i-1''] 1 world0 = (r, w')" by fastforce
  have "r = Inr ()"
    using run by (simp add: wait_for_instances_def wait_round_def st_defs clock_def perform_def env_launch_def
        env0_def world0_def all_started_def inst_c_def numeral_eq_Suc)
  moreover have "r \<noteq> Inl StillRunning"
    using wait_for_instances_ends [OF env_launch_clock never _ run] by simp
  ultimately show ?thesis using run by simp
qed

end
