(* ===== verification/StorageFacts.thy ===== *)
theory StorageFacts
  imports CloudStorage ClusterFacts "HOL-Library.Multiset"
begin

text \<open>
  What the storage operations guarantee. The file of volumes is used through an interface, the
  locale \<open>volume_store\<close>: what is found for a role after adding and removing. The facts about
  sequences of additions and removals are proved from the interface and used through its
  interpretation on the JSON file.
\<close>


section \<open>The interface of the file of volumes\<close>

fun remove_each :: "(string \<Rightarrow> 'f \<Rightarrow> py_exc + 'f) \<Rightarrow> string list \<Rightarrow> 'f \<Rightarrow> py_exc + 'f" where
  "remove_each rm [] f = Inr f"
| "remove_each rm (r # rs) f = (case rm r f of Inl e \<Rightarrow> Inl e | Inr f' \<Rightarrow> remove_each rm rs f')"

locale volume_store =
  fixes lookup :: "string \<Rightarrow> 'f \<Rightarrow> 'v list"
    and add :: "string \<Rightarrow> 'v \<Rightarrow> 'f \<Rightarrow> 'f"
    and remove :: "string \<Rightarrow> 'f \<Rightarrow> py_exc + 'f"
    and names :: "'f \<Rightarrow> string list"
  assumes lookup_add: "lookup r (add r' v f) = (if r' = r then lookup r f @ [v] else lookup r f)"
    and lookup_remove: "remove r' f = Inr f' \<Longrightarrow> lookup r f' = (if r' = r then [] else lookup r f)"
    and remove_known: "r \<in> set (names f) \<Longrightarrow> \<exists>f'. remove r f = Inr f'"
    and remove_unknown: "r \<notin> set (names f) \<Longrightarrow> remove r f = Inl (KeyError r)"
    and names_add: "set (names (add r v f)) = insert r (set (names f))"
    and names_remove: "remove r f = Inr f' \<Longrightarrow> set (names f') = set (names f) - {r}"
begin

lemma lookup_adds: "lookup r (fold (add r') vs f) = (if r' = r then lookup r f @ vs else lookup r f)"
  by (induction vs arbitrary: f) (simp_all add: lookup_add)

lemma names_adds: "set (names (fold (add r) vs f)) = (if vs = [] then {} else {r}) \<union> set (names f)"
  by (induction vs arbitrary: f) (auto simp: names_add)

lemma add_then_remove:
  assumes "vs \<noteq> []"
  shows "\<exists>f'. remove r (fold (add r) vs f) = Inr f' \<and> lookup r f' = []"
  using assms remove_known [of r "fold (add r) vs f"] lookup_remove by (fastforce simp: names_adds)

lemma remove_each_known:
  assumes "distinct rs" and "set rs \<subseteq> set (names f)"
  shows "\<exists>f'. remove_each remove rs f = Inr f' \<and> set (names f') = set (names f) - set rs
    \<and> (\<forall>r. lookup r f' = (if r \<in> set rs then [] else lookup r f))"
  using assms
proof (induction rs arbitrary: f)
  case (Cons r rs)
  then obtain f1 where f1: "remove r f = Inr f1" using remove_known by force
  then have "set rs \<subseteq> set (names f1)" using Cons.prems names_remove by auto
  then obtain f' where "remove_each remove rs f1 = Inr f'" "set (names f') = set (names f1) - set rs"
      "\<forall>s. lookup s f' = (if s \<in> set rs then [] else lookup s f1)"
    using Cons.IH [of f1] Cons.prems(1) by auto
  with f1 show ?case using names_remove [OF f1] lookup_remove [OF f1] by auto
qed simp

end

lemma file_roles_iff: "r \<in> set (file_roles f) \<longleftrightarrow> dget (load f) r \<noteq> None"
  by (simp add: file_roles_def map_of_eq_None_iff)

lemma load_Some [simp]: "load (Some d) = d"
  by (simp add: load_def)

interpretation json: volume_store get_instance_storage_for_role add_instance_storage_for_role
  remove_instance_storage_for_role file_roles
proof unfold_locales
  show "get_instance_storage_for_role r (add_instance_storage_for_role r' v f) =
      (if r' = r then get_instance_storage_for_role r f @ [v] else get_instance_storage_for_role r f)"
    for r r' f and v :: "mountable list"
    by (simp add: get_instance_storage_for_role_def add_instance_storage_for_role_def dget_dset)
  show "get_instance_storage_for_role r f' = (if r' = r then [] else get_instance_storage_for_role r f)"
    if "remove_instance_storage_for_role r' f = Inr f'" for r r' f f'
    using that by (auto simp: get_instance_storage_for_role_def remove_instance_storage_for_role_def dget_ddel
        split: if_splits)
  show "\<exists>f'. remove_instance_storage_for_role r f = Inr f'" if "r \<in> set (file_roles f)" for r f
    using that by (simp add: file_roles_iff remove_instance_storage_for_role_def)
  show "remove_instance_storage_for_role r f = Inl (KeyError r)" if "r \<notin> set (file_roles f)" for r f
    using that by (simp add: file_roles_iff remove_instance_storage_for_role_def)
  show "set (file_roles (add_instance_storage_for_role r v f)) = insert r (set (file_roles f))"
    for r f and v :: "mountable list"
    by (rule set_eqI, unfold file_roles_iff insert_iff) (simp add: add_instance_storage_for_role_def dget_dset)
  show "set (file_roles f') = set (file_roles f) - {r}"
    if "remove_instance_storage_for_role r f = Inr f'" for r f f'
    using that by (intro set_eqI, unfold file_roles_iff Diff_iff)
      (auto simp: remove_instance_storage_for_role_def dget_ddel split: if_splits)
qed


section \<open>Creating\<close>

definition fits :: "volume_spec list \<Rightarrow> mountable list \<Rightarrow> bool" where
  "fits specs mvs \<longleftrightarrow> map (\<lambda>m. (mv_mount_point m, mv_device m)) mvs
     = map (\<lambda>s. (vs_mount_point s, vs_device s)) specs"

lemma create_volumes_fits:
  "create_volumes E zone specs w = (r, w') \<Longrightarrow>
   (\<forall>mvs. r = Inr mvs \<longrightarrow> fits specs mvs) \<and> vfile w' = vfile w"
proof (induction specs arbitrary: w r w')
  case (Cons s specs)
  then show ?case
    by (fastforce simp: create_volumes_def st_defs perform_def fits_def split: prod.splits sum.splits)
qed (auto simp: create_volumes_def ret_def fits_def)

lemma create_one:
  assumes "storage_create_one E role zone spec w = (r, w')"
  shows "(vfile w' = vfile w \<and> r \<noteq> Inr ())
    \<or> (\<exists>mvs specs. r = Inr () \<and> vfile w' = add_instance_storage_for_role role mvs (vfile w)
         \<and> volume_specs_for_role spec role = Inr specs \<and> fits specs mvs)"
proof (cases "volume_specs_for_role spec role")
  case (Inl e)
  with assms show ?thesis by (auto simp: storage_create_one_def st_defs)
next
  case (Inr specs)
  obtain q w1 where q: "create_volumes E zone specs w = (q, w1)" by fastforce
  note made = create_volumes_fits [OF q]
  show ?thesis
    using assms Inr q made
    by (cases q) (auto simp: storage_create_one_def bnd_def lift_sum_def on_vfile_def)
qed

lemma create_loop:
  assumes "for_each (\<lambda>_. storage_create_one E role zone spec) (xs :: nat list) w = (r, w')"
  shows "\<exists>mvl. length mvl \<le> length xs \<and> vfile w' = fold (add_instance_storage_for_role role) mvl (vfile w)
    \<and> (r = Inr () \<longrightarrow> length mvl = length xs)
    \<and> (\<forall>mvs \<in> set mvl. \<exists>specs. volume_specs_for_role spec role = Inr specs \<and> fits specs mvs)"
  using assms
proof (induction xs arbitrary: w)
  case Nil
  then show ?case by (intro exI [of _ "[]"]) (simp add: ret_def)
next
  case (Cons x xs)
  obtain q w1 where q: "storage_create_one E role zone spec w = (q, w1)" by fastforce
  from create_one [OF q] show ?case
  proof (elim disjE exE conjE)
    assume "vfile w1 = vfile w" "q \<noteq> Inr ()"
    with Cons.prems q show ?thesis
      by (cases q) (auto simp: andthen_def bnd_def intro!: exI [of _ "[]"])
  next
    fix mvs specs
    assume ok: "q = Inr ()" and w1: "vfile w1 = add_instance_storage_for_role role mvs (vfile w)"
      and specs: "volume_specs_for_role spec role = Inr specs" "fits specs mvs"
    from Cons.prems q ok have "for_each (\<lambda>_. storage_create_one E role zone spec) xs w1 = (r, w')"
      by (simp add: andthen_def bnd_def)
    from Cons.IH [OF this] obtain mvl where "length mvl \<le> length xs"
        "vfile w' = fold (add_instance_storage_for_role role) mvl (vfile w1)"
        "r = Inr () \<longrightarrow> length mvl = length xs"
        "\<forall>mvs \<in> set mvl. \<exists>specs. volume_specs_for_role spec role = Inr specs \<and> fits specs mvs"
      by blast
    with w1 specs show ?thesis by (intro exI [of _ "mvs # mvl"]) auto
  qed
qed

text \<open>
  C13: creating storage records complete sets of volumes. However it ends, the file has for the
  role what it had before and then at most the number of sets asked for, each with one volume
  for every entry of the specification, in its order and with its mount point and device; if it
  ends normally, exactly that number. Other roles keep what they had.
\<close>

theorem storage_create_records:
  assumes "storage_create E role n zone (Inr spec) w = (r, w')"
  shows "\<exists>mvl. get_instance_storage_for_role role (vfile w') = get_instance_storage_for_role role (vfile w) @ mvl
    \<and> length mvl \<le> n \<and> (r = Inr () \<longrightarrow> length mvl = n)
    \<and> (\<forall>mvs \<in> set mvl. \<exists>specs. volume_specs_for_role spec role = Inr specs \<and> fits specs mvs)
    \<and> (\<forall>role'. role' \<noteq> role \<longrightarrow>
          get_instance_storage_for_role role' (vfile w') = get_instance_storage_for_role role' (vfile w))"
proof -
  have "for_each (\<lambda>_. storage_create_one E role zone spec) [0..<n] w = (r, w')"
    using assms by (simp add: storage_create_def bnd_def lift_sum_def)
  from create_loop [OF this] show ?thesis by (fastforce simp: json.lookup_adds)
qed


section \<open>Attaching\<close>

definition vol_dict :: "volume list \<Rightarrow> (string, volume) dict" where
  "vol_dict vl = foldl (\<lambda>d v. dset (v_id v) v d) [] vl"

definition host_dict :: "host list \<Rightarrow> (string, host) dict" where
  "host_dict hosts = foldl (\<lambda>d h. dset (h_id h) h d) [] hosts"

definition all_available :: "(string, volume) dict \<Rightarrow> mountable list \<Rightarrow> bool" where
  "all_available vols mvs \<longleftrightarrow>
     (\<forall>mv \<in> set mvs. \<exists>v. dget vols (mv_volume_id mv) = Some v \<and> v_status v = ''available'')"

text \<open>Some volume of the groups that is in use is attached to this instance.\<close>

definition busy :: "(string, volume) dict \<Rightarrow> mountable list \<Rightarrow> string \<Rightarrow> bool" where
  "busy vols mvs i \<longleftrightarrow> (\<exists>mv \<in> set mvs. \<exists>v. dget vols (mv_volume_id mv) = Some v
     \<and> v_status v \<noteq> ''available'' \<and> v_attached_to v = Some i)"

lemma set_update_subset: "set (AList.update k v d) \<subseteq> insert (k, v) (set d)"
  by (induction d) auto

lemma keys_update: "fst ` set (AList.update k v d) = insert k (fst ` set d)"
  by (induction d) auto

lemma set_delete: "set (AList.delete k d) = {p \<in> set d. fst p \<noteq> k}"
  by (auto simp: AList.delete_eq)

lemma keyed_fold:
  "set (foldl (\<lambda>d x. dset (f x) x d) d xs) \<subseteq> set d \<union> {(f x, x) | x. x \<in> set xs}
   \<and> fst ` set (foldl (\<lambda>d x. dset (f x) x d) d xs) = fst ` set d \<union> f ` set xs
   \<and> (dict_ok d \<longrightarrow> dict_ok (foldl (\<lambda>d x. dset (f x) x d) d xs))"
proof (induction xs arbitrary: d)
  case (Cons x xs)
  have "set (foldl (\<lambda>d x. dset (f x) x d) (dset (f x) x d) xs) \<subseteq> set (dset (f x) x d) \<union> {(f y, y) | y. y \<in> set xs}"
    and "fst ` set (foldl (\<lambda>d x. dset (f x) x d) (dset (f x) x d) xs) = fst ` set (dset (f x) x d) \<union> f ` set xs"
    and "dict_ok (dset (f x) x d) \<longrightarrow> dict_ok (foldl (\<lambda>d x. dset (f x) x d) (dset (f x) x d) xs)"
    using Cons.IH [of "dset (f x) x d"] by blast+
  then show ?case using set_update_subset [of "f x" x d] by (auto simp: keys_update)
qed simp

lemma vol_dict_key: "dget (vol_dict vl) k = Some v \<Longrightarrow> v_id v = k \<and> v \<in> set vl"
  using keyed_fold [of v_id "[]" vl] by (auto simp: vol_dict_def dest!: map_of_SomeD)

lemma scan_volumes_result:
  "scan_volumes vols mvs (a, d) = Inr (a', d') \<Longrightarrow>
   (a' \<longleftrightarrow> a \<and> all_available vols mvs) \<and> set d' = {p \<in> set d. \<not> busy vols mvs (fst p)}
   \<and> (dict_ok d \<longrightarrow> dict_ok d')"
proof (induction mvs arbitrary: a d)
  case (Cons mv mvs)
  then obtain v where v: "dget vols (mv_volume_id mv) = Some v" by (auto split: sum.splits)
  show ?case
  proof (cases "v_status v = ''available''")
    case True
    with Cons.prems v have "scan_volumes vols mvs (a, d) = Inr (a', d')" by (simp add: dlookup_def)
    from Cons.IH [OF this] True v show ?thesis by (auto simp: all_available_def busy_def)
  next
    case False
    let ?d = "case v_attached_to v of None \<Rightarrow> d | Some i \<Rightarrow> ddel i d"
    from False Cons.prems v have "scan_volumes vols mvs (False, ?d) = Inr (a', d')" by (simp add: dlookup_def)
    from Cons.IH [OF this] have ih: "\<not> a'" "set d' = {p \<in> set ?d. \<not> busy vols mvs (fst p)}"
      "dict_ok ?d \<longrightarrow> dict_ok d'" by auto
    moreover have "set ?d = {p \<in> set d. v_attached_to v \<noteq> Some (fst p)}"
      by (auto simp: set_delete split: option.splits)
    moreover have "dict_ok d \<Longrightarrow> dict_ok ?d" by (simp split: option.splits)
    ultimately show ?thesis using False v by (auto simp: all_available_def busy_def)
  qed
qed (simp add: all_available_def busy_def)

lemma busy_append: "busy vols (xs @ ys) i \<longleftrightarrow> busy vols xs i \<or> busy vols ys i"
  by (auto simp: busy_def)

lemma scan_groups_result:
  "scan_groups vols mvl d = Inr (d', groups) \<Longrightarrow>
   groups = filter (all_available vols) mvl \<and> set d' = {p \<in> set d. \<not> busy vols (concat mvl) (fst p)}
   \<and> (dict_ok d \<longrightarrow> dict_ok d')"
proof (induction mvl arbitrary: d groups)
  case (Cons mvs mvl)
  then obtain a d1 gs where 1: "scan_volumes vols mvs (True, d) = Inr (a, d1)"
    and 2: "scan_groups vols mvl d1 = Inr (d', gs)" and gs: "groups = (if a then mvs # gs else gs)"
    by (auto split: sum.splits prod.splits)
  from scan_volumes_result [OF 1] Cons.IH [OF 2] gs show ?case by (auto simp: busy_append)
qed (simp add: busy_def)

definition attach_calls :: "host \<times> mountable list \<Rightarrow> call list" where
  "attach_calls p = map (\<lambda>mv. AttachVolume (mv_volume_id mv) (h_id (fst p)) (mv_device mv)) (snd p)"

lemma attach_group_calls:
  "attach_group E (vol_dict vl) h mvs w = (Inr (), w') \<Longrightarrow> w' = w\<lparr>trail := trail w @ attach_calls (h, mvs)\<rparr>"
proof (induction mvs arbitrary: w)
  case (Cons mv mvs)
  then obtain v where v: "dget (vol_dict vl) (mv_volume_id mv) = Some v"
    and rest: "attach_group E (vol_dict vl) h mvs (w\<lparr>trail := trail w @ [AttachVolume (v_id v) (h_id h) (mv_device mv)]\<rparr>) = (Inr (), w')"
    by (auto simp: attach_group_def lift_sum_def do_call_def perform_def elim!: andthen_InrE bnd_InrE)
  from Cons.IH [OF rest] vol_dict_key [OF v] show ?case by (simp add: attach_calls_def)
qed (simp add: attach_group_def ret_def attach_calls_def)

lemma attach_all_calls:
  "for_each (\<lambda>(h, mvs). attach_group E (vol_dict vl) h mvs) ps w = (Inr (), w') \<Longrightarrow>
   w' = w\<lparr>trail := trail w @ concat (map attach_calls ps)\<rparr>"
proof (induction ps arbitrary: w)
  case (Cons p ps)
  obtain h mvs where p: "p = (h, mvs)" by fastforce
  with Cons.prems obtain w1 where "attach_group E (vol_dict vl) h mvs w = (Inr (), w1)"
    and "for_each (\<lambda>(h, mvs). attach_group E (vol_dict vl) h mvs) ps w1 = (Inr (), w')"
    by (auto elim!: andthen_InrE)
  with Cons.IH attach_group_calls p show ?case by fastforce
qed (simp add: ret_def)

lemma map_fst_zip_take_map: "map (\<lambda>p. f (fst p)) (zip xs ys) = take (length ys) (map f xs)"
  by (induction xs ys rule: list_induct2') simp_all

text \<open>
  The free instances in any order, paired with the available groups.
\<close>

lemma free_pairs:
  assumes scan: "scan_groups vols mvl (host_dict hosts) = Inr (free, groups)" and ord: "mset xs = mset free"
  shows "distinct (map (\<lambda>p. h_id (fst p)) (zip (map snd xs) groups))"
    and "(h, mvs) \<in> set (zip (map snd xs) groups) \<Longrightarrow> h \<in> set hosts \<and> \<not> busy vols (concat mvl) (h_id h)
      \<and> mvs \<in> set mvl \<and> all_available vols mvs"
    and "length (zip (map snd xs) groups) = min (card {i \<in> h_id ` set hosts. \<not> busy vols (concat mvl) i})
      (length (filter (all_available vols) mvl))"
proof -
  have xs: "set xs = set free" "length xs = length free"
    using ord by (metis mset_eq_setD, metis mset_eq_length)
  note scanned = scan_groups_result [OF scan]
  have keyed: "set (host_dict hosts) \<subseteq> {(h_id h, h) | h. h \<in> set hosts}" "dict_ok (host_dict hosts)"
    "fst ` set (host_dict hosts) = h_id ` set hosts"
    using keyed_fold [of h_id "[]" hosts] by (auto simp: host_dict_def)
  then have ok: "dict_ok free" and free: "\<And>k h. (k, h) \<in> set free \<Longrightarrow> k = h_id h \<and> h \<in> set hosts"
    using scanned by auto
  have "map (\<lambda>p. h_id (snd p)) xs = map fst xs"
    using free xs(1) by (force intro: map_cong)
  moreover have "distinct (map fst xs)"
    using ok ord by (simp add: dict_ok_def) (metis mset_map mset_eq_imp_distinct_iff)
  ultimately have "distinct (map (\<lambda>p. h_id (snd p)) xs)" by metis
  then have "distinct (map h_id (map snd xs))" by (simp add: comp_def)
  then have "distinct (take (length groups) (map h_id (map snd xs)))" by (rule distinct_take)
  then show "distinct (map (\<lambda>p. h_id (fst p)) (zip (map snd xs) groups))"
    unfolding map_fst_zip_take_map .
  show "h \<in> set hosts \<and> \<not> busy vols (concat mvl) (h_id h) \<and> mvs \<in> set mvl \<and> all_available vols mvs"
    if "(h, mvs) \<in> set (zip (map snd xs) groups)"
  proof -
    from that have "h \<in> set (map snd xs)" "mvs \<in> set groups" by (rule set_zip_leftD, rule set_zip_rightD)
    then have "h \<in> snd ` set free" using xs(1) by simp
    then obtain k where "(k, h) \<in> set free" by force
    with free scanned have "h \<in> set hosts" "\<not> busy vols (concat mvl) (h_id h)" by auto
    with \<open>mvs \<in> set groups\<close> scanned show ?thesis by auto
  qed
  have "set free = {p \<in> set (host_dict hosts). \<not> busy vols (concat mvl) (fst p)}" using scanned by blast
  then have "fst ` set free = {i \<in> fst ` set (host_dict hosts). \<not> busy vols (concat mvl) i}" by auto
  moreover have "length free = card (fst ` set free)"
    using ok by (simp add: dict_ok_def) (metis distinct_card length_map set_map)
  ultimately show "length (zip (map snd xs) groups) = min (card {i \<in> h_id ` set hosts. \<not> busy vols (concat mvl) i})
      (length (filter (all_available vols) mvl))"
    using xs(2) scanned keyed(3) by simp
qed

text \<open>
  C12: attaching gives each free instance at most one whole group of volumes. When it returns, the
  calls after the query are exactly the attachments of some pairs of an instance and a group:
  the instances are given ones and pairwise different, none of them holds a volume of the role
  already, every volume of the group was available, and as many pairs are made as there are
  available groups and free instances, whatever the order of the dictionary.
\<close>

theorem storage_attach_pairs:
  assumes "storage_attach ord E role hosts w = (Inr (), w')" and "\<forall>d. mset (ord d) = mset d"
    and "get_instance_storage_for_role role (vfile w) = mvl" and "mvl \<noteq> []"
  shows "\<exists>vl pairs. ans_volumes E (trail w @ [GetAllVolumes (map mv_volume_id (concat mvl))]) = Inr vl
    \<and> trail w' = trail w @ GetAllVolumes (map mv_volume_id (concat mvl)) # concat (map attach_calls pairs)
    \<and> distinct (map (\<lambda>p. h_id (fst p)) pairs)
    \<and> (\<forall>(h, mvs) \<in> set pairs. h \<in> set hosts \<and> \<not> busy (vol_dict vl) (concat mvl) (h_id h)
          \<and> mvs \<in> set mvl \<and> all_available (vol_dict vl) mvs)
    \<and> length pairs = min (card {i \<in> h_id ` set hosts. \<not> busy (vol_dict vl) (concat mvl) i})
                         (length (filter (all_available (vol_dict vl)) mvl))"
proof -
  let ?q = "GetAllVolumes (map mv_volume_id (concat mvl))"
  obtain vl free groups where vl: "ans_volumes E (trail w @ [?q]) = Inr vl"
    and scan: "scan_groups (vol_dict vl) mvl (host_dict hosts) = Inr (free, groups)"
    and run: "for_each (\<lambda>(h, mvs). attach_group E (vol_dict vl) h mvs) (zip (map snd (ord free)) groups)
        (w\<lparr>trail := trail w @ [?q]\<rparr>) = (Inr (), w')"
    using assms(1,3,4)
    by (auto simp: storage_attach_def get_ec2_volumes_dict_def lift_sum_def perform_def ret_def
        vol_dict_def host_dict_def elim!: bnd_InrE)
  from free_pairs [OF scan, of "ord free"] vl attach_all_calls [OF run] assms(2) show ?thesis
    by (intro exI [of _ vl] exI [of _ "zip (map snd (ord free)) groups"]) auto
qed


section \<open>Deleting\<close>

text \<open>A query of EC2 that answered that the volume is there and available.\<close>

definition seen_available :: "env \<Rightarrow> call list \<Rightarrow> string \<Rightarrow> bool" where
  "seen_available E h i \<longleftrightarrow> (\<exists>before ids later vl v. h = before @ [GetAllVolumes ids] @ later
     \<and> ans_volumes E (before @ [GetAllVolumes ids]) = Inr vl
     \<and> v \<in> set vl \<and> v_id v = i \<and> v_status v = ''available'')"

definition deletes_seen :: "env \<Rightarrow> call list \<Rightarrow> call list \<Rightarrow> bool" where
  "deletes_seen E h cs \<longleftrightarrow> (\<forall>pre post i. cs = pre @ DeleteVolume i # post \<longrightarrow> seen_available E (h @ pre) i)"

lemma seen_available_mono: "seen_available E h i \<Longrightarrow> seen_available E (h @ h') i"
  unfolding seen_available_def by (metis append.assoc)

lemma deletes_seen_append:
  assumes "deletes_seen E h cs" and "deletes_seen E (h @ cs) ds"
  shows "deletes_seen E h (cs @ ds)"
  unfolding deletes_seen_def
proof (intro allI impI)
  fix pre post i
  assume "cs @ ds = pre @ DeleteVolume i # post"
  then consider us where "cs = pre @ DeleteVolume i # us" | us where "pre = cs @ us" "ds = us @ DeleteVolume i # post"
    by (auto simp: append_eq_append_conv2 append_eq_Cons_conv Cons_eq_append_conv)
  then show "seen_available E (h @ pre) i"
  proof cases
    case 1
    with assms(1) show ?thesis by (auto simp: deletes_seen_def)
  next
    case 2
    with assms(2) show ?thesis by (auto simp: deletes_seen_def)
  qed
qed

lemma deletes_seen_all:
  assumes "\<And>i. DeleteVolume i \<in> set cs \<Longrightarrow> seen_available E h i"
  shows "deletes_seen E h cs"
  unfolding deletes_seen_def
proof (intro allI impI)
  fix pre post i
  assume "cs = pre @ DeleteVolume i # post"
  then have "DeleteVolume i \<in> set cs" by simp
  with assms show "seen_available E (h @ pre) i" by (blast intro: seen_available_mono)
qed

lemma for_each_do_call_prefix:
  "for_each (\<lambda>x. do_call E (f x)) xs w = (r, w') \<Longrightarrow>
   \<exists>n. w' = w\<lparr>trail := trail w @ map f (take n xs)\<rparr> \<and> (r = Inr () \<longrightarrow> length xs \<le> n)"
proof (induction xs arbitrary: w)
  case (Cons x xs)
  let ?w = "w\<lparr>trail := trail w @ [f x]\<rparr>"
  show ?case
  proof (cases "ans_unit E (trail w @ [f x])")
    case (Inl e)
    with Cons.prems show ?thesis
      by (intro exI [of _ 1]) (auto simp: andthen_def bnd_def do_call_def perform_def)
  next
    case (Inr u)
    then have "do_call E (f x) w = (Inr (), ?w)" by (simp add: do_call_def perform_def)
    with Cons.prems have "for_each (\<lambda>x. do_call E (f x)) xs ?w = (r, w')"
      by (simp add: andthen_def bnd_def)
    from Cons.IH [OF this] obtain n where "w' = ?w\<lparr>trail := trail ?w @ map f (take n xs)\<rparr>"
      "r = Inr () \<longrightarrow> length xs \<le> n" by blast
    then show ?thesis by (intro exI [of _ "Suc n"]) simp
  qed
qed (simp add: ret_def)

lemma storage_delete_seen:
  "storage_delete E roles w = (r, w') \<Longrightarrow> \<exists>cs. trail w' = trail w @ cs \<and> deletes_seen E (trail w) cs"
proof (induction roles arbitrary: w)
  case Nil
  then show ?case by (intro exI [of _ "[]"]) (simp add: ret_def deletes_seen_def)
next
  case (Cons role roles)
  let ?mvl = "get_instance_storage_for_role role (vfile w)"
  let ?q = "GetAllVolumes (map mv_volume_id (concat ?mvl))"
  let ?w = "w\<lparr>trail := trail w @ [?q]\<rparr>"
  have q: "deletes_seen E (trail w) [?q]" by (rule deletes_seen_all) simp
  show ?case
  proof (cases "ans_volumes E (trail w @ [?q])")
    case (Inl e)
    with Cons.prems q show ?thesis by (auto simp: get_ec2_volumes_dict_def bnd_def perform_def)
  next
    case (Inr vl)
    then have query: "get_ec2_volumes_dict E ?mvl w = (Inr (vol_dict vl), ?w)"
      by (simp add: get_ec2_volumes_dict_def bnd_def perform_def ret_def vol_dict_def)
    show ?thesis
    proof (cases "list_ex (\<lambda>v. v_status v \<noteq> ''available'') (map snd (vol_dict vl))")
      case True
      with Cons.prems query q show ?thesis by (auto simp: bnd_def ret_def)
    next
      case False
      let ?vs = "map snd (vol_dict vl)"
      let ?del = "for_each (\<lambda>v. do_call E (DeleteVolume (v_id v))) ?vs"
      have run: "andthen ?del (andthen (bnd (gets (\<lambda>w. remove_instance_storage_for_role role (vfile w))) (\<lambda>r.
                   bnd (lift_sum r) (\<lambda>f. on_vfile (\<lambda>_. f)))) (storage_delete E roles)) ?w = (r, w')"
        using Cons.prems query False by (simp add: bnd_def)
      obtain q1 w1 where del: "?del ?w = (q1, w1)" by fastforce
      obtain n where "w1 = ?w\<lparr>trail := trail ?w @ map (\<lambda>v. DeleteVolume (v_id v)) (take n ?vs)\<rparr>"
        using for_each_do_call_prefix [OF del] by blast
      then have w1: "trail w1 = trail ?w @ map (\<lambda>v. DeleteVolume (v_id v)) (take n ?vs)" by simp
      have seen: "seen_available E (trail ?w) i"
        if dels: "DeleteVolume i \<in> set (map (\<lambda>v. DeleteVolume (v_id v)) (take n ?vs))" for i
      proof -
        from dels obtain v where v: "v \<in> set ?vs" "i = v_id v" by (auto dest: in_set_takeD)
        moreover have "v \<in> set vl" using v keyed_fold [of v_id "[]" vl] by (auto simp: vol_dict_def)
        moreover have "v_status v = ''available''" using False v by (auto simp: list_ex_iff)
        ultimately have "trail ?w = trail w @ [?q] @ [] \<and> ans_volumes E (trail w @ [?q]) = Inr vl
            \<and> v \<in> set vl \<and> v_id v = i \<and> v_status v = ''available''" using Inr by simp
        then show ?thesis unfolding seen_available_def by blast
      qed
      have one: "deletes_seen E (trail w) (?q # map (\<lambda>v. DeleteVolume (v_id v)) (take n ?vs))"
      proof -
        have "deletes_seen E (trail w @ [?q]) (map (\<lambda>v. DeleteVolume (v_id v)) (take n ?vs))"
          using seen by (intro deletes_seen_all) simp
        from deletes_seen_append [OF q this] show ?thesis by simp
      qed
      show ?thesis
      proof (cases "q1 = Inr () \<and> (\<exists>f. remove_instance_storage_for_role role (vfile w1) = Inr f)")
        case True
        then obtain f where "storage_delete E roles (w1\<lparr>vfile := f\<rparr>) = (r, w')"
          using run del by (auto simp: andthen_def bnd_def lift_sum_def on_vfile_def)
        from Cons.IH [OF this] obtain cs where "trail w' = trail w1 @ cs" "deletes_seen E (trail w1) cs" by auto
        with deletes_seen_append [OF one] w1 show ?thesis by fastforce
      next
        case False
        then have "trail w' = trail w1"
          using run del by (auto simp: andthen_def bnd_def lift_sum_def split: sum.splits)
        with one w1 show ?thesis by auto
      qed
    qed
  qed
qed

text \<open>
  No volume in use is deleted. On every path of the deletion, every volume that is deleted was
  listed by an earlier query of the same run, and there as available.
\<close>

theorem storage_delete_available:
  assumes "storage_delete E roles w = (r, w')"
  shows "\<exists>cs. trail w' = trail w @ cs \<and>
    (\<forall>pre post i. cs = pre @ DeleteVolume i # post \<longrightarrow> seen_available E (trail w @ pre) i)"
  using storage_delete_seen [OF assms] unfolding deletes_seen_def .

text \<open>
  A role that the file does not have deletes every volume of the account. The query then names
  no volume, which EC2 answers with all of them; when all are available, all are deleted, and
  only then the removal from the file fails.
\<close>

lemma delete_unknown_role_wipes:
  assumes "role \<notin> set (file_roles (vfile w))"
    and "ans_volumes E (trail w @ [GetAllVolumes []]) = Inr vl"
    and "\<forall>v \<in> set vl. v_status v = ''available''" and "distinct (map v_id vl)" and "\<forall>h. ans_unit E h = Inr ()"
  shows "storage_delete E (role # roles) w =
    (Inl (KeyError role), w\<lparr>trail := trail w @ GetAllVolumes [] # map (\<lambda>v. DeleteVolume (v_id v)) vl\<rparr>)"
proof -
  have unknown: "dget (load (vfile w)) role = None" using assms(1) by (simp add: file_roles_iff)
  have upd: "dset (v_id v) v d = d @ [(v_id v, v)]" if "v_id v \<notin> fst ` set d" for v and d :: "(string, volume) dict"
    using that by (induction d) auto
  have "foldl (\<lambda>d v. dset (v_id v) v d) d vl = d @ map (\<lambda>v. (v_id v, v)) vl"
    if "distinct (map fst d @ map v_id vl)" for d and vl :: "volume list"
    using that
  proof (induction vl arbitrary: d)
    case (Cons v vl)
    then have "v_id v \<notin> fst ` set d" by auto
    then have "dset (v_id v) v d = d @ [(v_id v, v)]" by (rule upd)
    with Cons show ?case by simp
  qed simp
  from this [of "[]" vl] have dict: "foldl (\<lambda>d v. dset (v_id v) v d) [] vl = map (\<lambda>v. (v_id v, v)) vl"
    using assms(4) by simp
  have calls: "for_each (\<lambda>v. do_call E (DeleteVolume (v_id v))) xs u =
      (Inr (), u\<lparr>trail := trail u @ map (\<lambda>v. DeleteVolume (v_id v)) xs\<rparr>)" for xs and u :: cloud_world
    using assms(5) by (intro for_each_do_call) simp
  have "\<not> list_ex (\<lambda>v. v_status v \<noteq> ''available'') vl" using assms(3) by (simp add: list_ex_iff)
  then show ?thesis
    using assms(2) by (simp add: get_instance_storage_for_role_def unknown get_ec2_volumes_dict_def bnd_def
        perform_def ret_def dict case_prod_beta andthen_def calls remove_instance_storage_for_role_def
        lift_sum_def comp_def)
qed


section \<open>Waiting for a volume\<close>

text \<open>
  Waiting for a volume has no deadline. When EC2 keeps answering that the volume is in another
  state than available (a volume that failed, for example), no number of rounds is enough.
\<close>

theorem wait_for_volume_hangs:
  assumes "\<forall>h. ans_volumes E h = Inr [v]" and "v_status v \<noteq> ''available''"
  shows "fst (wait_for_volume rounds E i w) = Inl StillRunning"
  unfolding wait_for_volume_def
proof (induction rounds arbitrary: w)
  case (Suc n)
  have "wait_for_volume_round E i w = (Inr None, w\<lparr>trail := trail w @ [GetAllVolumes [i], Os (Sleep 1)]\<rparr>)"
    using assms by (simp add: wait_for_volume_round_def st_defs perform_def sleep_def)
  with Suc show ?case by (simp add: bnd_def)
qed (simp add: raise_def)


section \<open>Witnesses\<close>

definition vol :: "string \<Rightarrow> string \<Rightarrow> volume" where
  "vol i state = \<lparr>v_id = i, v_status = state, v_attached_to = None\<rparr>"

definition mv1 :: mountable where
  "mv1 = \<lparr>mv_volume_id = ''v-1'', mv_mount_point = ''/data'', mv_device = ''/dev/sdj''\<rparr>"

definition host1 :: host where
  "host1 = \<lparr>h_id = ''i-1'', h_public_ip = [], h_private_ip = []\<rparr>"

definition env_vols :: "volume list \<Rightarrow> env" where
  "env_vols vl = env0\<lparr>ans_volumes := (\<lambda>_. Inr vl), ans_unit := (\<lambda>_. Inr ()), ans_volume := (\<lambda>_. Inr (vol ''v-1'' ''available''))\<rparr>"

definition world_vols :: "(string, mountable list list) dict \<Rightarrow> cloud_world" where
  "world_vols d = \<lparr>trail = [], vfile = Some d\<rparr>"

lemmas storage_examples = vol_def mv1_def host1_def env_vols_def world_vols_def env0_def

definition spec1 :: spec_file where
  "spec1 = [(''dn'', [\<lparr>sp_size_gb = Some (PInt 1), sp_mount_point = Some ''/data'', sp_device = Some ''/dev/sdj'',
     sp_snapshot_id = Some PNone\<rparr>])]"

theorem storage_create_records_witness:
  "\<exists>w' mvl. storage_create (env_vols []) ''dn'' 2 PNone (Inr spec1) (world_vols []) = (Inr (), w')
    \<and> get_instance_storage_for_role ''dn'' (vfile w') = mvl \<and> length mvl = 2"
proof -
  obtain w' where run: "storage_create (env_vols []) ''dn'' 2 PNone (Inr spec1) (world_vols []) = (Inr (), w')"
    by (simp add: storage_create_def storage_create_one_def st_defs volume_specs_for_role_def spec1_def
        dlookup_def volume_spec_of_def need_def create_volumes_def perform_def on_vfile_def modify_def
        storage_examples numeral_2_eq_2)
  from storage_create_records [OF this] obtain mvl where
    "get_instance_storage_for_role ''dn'' (vfile w') = get_instance_storage_for_role ''dn'' (vfile (world_vols [])) @ mvl"
    "length mvl = 2" by blast
  with run show ?thesis by (auto simp: get_instance_storage_for_role_def world_vols_def)
qed

theorem storage_attach_pairs_witness:
  "\<exists>w' pairs. storage_attach (\<lambda>d. d) (env_vols [vol ''v-1'' ''available'']) ''dn'' [host1] (world_vols [(''dn'', [[mv1]])]) = (Inr (), w')
    \<and> trail w' = GetAllVolumes [''v-1''] # concat (map attach_calls pairs) \<and> length pairs = 1"
proof -
  let ?w = "world_vols [(''dn'', [[mv1]])]"
  obtain w' where run: "storage_attach (\<lambda>d. d) (env_vols [vol ''v-1'' ''available'']) ''dn'' [host1] ?w = (Inr (), w')"
    by (simp add: storage_attach_def get_ec2_volumes_dict_def st_defs perform_def gets_def dlookup_def
        attach_group_def do_call_def get_instance_storage_for_role_def storage_examples)
  have mvl: "get_instance_storage_for_role ''dn'' (vfile ?w) = [[mv1]]"
    by (simp add: get_instance_storage_for_role_def world_vols_def)
  have "card {i. i = h_id host1 \<and> \<not> busy (vol_dict [vol ''v-1'' ''available'']) [mv1] i} = card {h_id host1}"
    by (rule arg_cong [of _ _ card]) (auto simp: busy_def vol_dict_def storage_examples)
  then show ?thesis
    using storage_attach_pairs [OF run _ mvl] run
    by (auto simp: mv1_def world_vols_def env_vols_def all_available_def vol_dict_def vol_def)
qed

theorem storage_delete_available_witness:
  "\<exists>r w' cs. storage_delete (env_vols [vol ''v-1'' ''available'']) [''dn''] (world_vols [(''dn'', [[mv1]])]) = (r, w')
    \<and> trail w' = cs \<and> (\<forall>pre post i. cs = pre @ DeleteVolume i # post \<longrightarrow>
          seen_available (env_vols [vol ''v-1'' ''available'']) pre i)"
proof -
  obtain r w' where run: "storage_delete (env_vols [vol ''v-1'' ''available'']) [''dn''] (world_vols [(''dn'', [[mv1]])]) = (r, w')"
    by fastforce
  from storage_delete_available [OF run] run show ?thesis by (simp add: world_vols_def)
qed

theorem wait_for_volume_hangs_witness:
  "fst (wait_for_volume 1000 (env_vols [vol ''v-1'' ''error'']) ''v-1'' (world_vols [])) = Inl StillRunning"
  by (rule wait_for_volume_hangs [of _ "vol ''v-1'' ''error''"]) (simp_all add: env_vols_def vol_def)

end
