(* ===== verification/ServiceFacts.thy ===== *)
theory ServiceFacts
  imports CloudCli StorageFacts
begin

text \<open>
  What the services and commands guarantee: consent before terminating, deletion of storage,
  waiting for Hadoop, what the hosts of a cluster are told about each other, and how the
  arguments of the launch commands reach the templates.
\<close>


section \<open>Consent\<close>

fun is_ending :: "call \<Rightarrow> bool" where
  "is_ending (TerminateInstances _) = True"
| "is_ending (CancelSpot _) = True"
| "is_ending _ = False"

text \<open>A result or state in which the user has just answered the prompt with something else.\<close>

definition consents :: "env \<Rightarrow> call list \<Rightarrow> string \<Rightarrow> bool" where
  "consents E h question \<longleftrightarrow> (\<exists>before later answer. h = before @ [Os (Prompt (question @ '' [yes or no]: ''))] @ later
     \<and> ans_text E (before @ [Os (Prompt (question @ '' [yes or no]: ''))]) = Inr answer \<and> py_lower answer = ''yes'')"

lemma only_calls_print_status:
  "only_calls (\<lambda>c. \<not> is_ending c) (print_status E cl roles s)"
  unfolding print_status_def get_instances_def say_def group_name_for_role_def check_role_name_def
  by (auto intro!: call_rules)

lemma only_calls_trail:
  "only_calls P m \<Longrightarrow> \<exists>cs. trail (snd (m w)) = trail w @ cs \<and> (\<forall>c \<in> set cs. P c)"
  by (force simp: only_calls_def list_all_iff)

lemma terminate_calls:
  fixes E :: env and w :: "'w world_scheme"
  defines "q \<equiv> Os (Prompt (''Terminate all instances?'' @ '' [yes or no]: ''))"
  obtains (stopped) cs where "trail (snd (terminate_cluster E cl False w)) = trail w @ cs" "\<forall>c \<in> set cs. \<not> is_ending c"
  | (agreed) cs ds answer where "trail (snd (terminate_cluster E cl False w)) = trail w @ cs @ q # ds"
      "\<forall>c \<in> set cs. \<not> is_ending c" "ans_text E (trail w @ cs @ [q]) = Inr answer" "py_lower answer = ''yes''"
proof -
  obtain r1 w1 where 1: "print_status E cl [] (Some ''running'') w = (r1, w1)" by fastforce
  obtain cs where cs: "trail w1 = trail w @ cs" "\<forall>c \<in> set cs. \<not> is_ending c"
    using only_calls_trail [OF only_calls_print_status, of E cl "[]" "Some ''running''" w] 1 by auto
  let ?w2 = "w1\<lparr>trail := trail w1 @ [q]\<rparr>"
  consider (failed) e where "r1 = Inl e" | (unanswered) u e where "r1 = Inr u" "ans_text E (trail w1 @ [q]) = Inl e"
    | (answered) u answer where "r1 = Inr u" "ans_text E (trail w1 @ [q]) = Inr answer"
    by (cases r1; cases "ans_text E (trail w1 @ [q])") auto
  then show thesis
  proof cases
    case failed
    with 1 cs show ?thesis by (intro stopped [of cs]) (simp_all add: terminate_cluster_def andthen_def bnd_def)
  next
    case unanswered
    with 1 cs show ?thesis
      by (intro stopped [of "cs @ [q]"]) (auto simp: terminate_cluster_def andthen_def bnd_def prompt_def perform_def q_def)
  next
    case answered
    show ?thesis
    proof (cases "py_lower answer = ''yes''")
      case False
      with 1 cs answered show ?thesis
        by (intro stopped [of "cs @ [q, Os (Print ''Not terminating cluster.'')]"])
          (auto simp: terminate_cluster_def andthen_def bnd_def prompt_def perform_def ret_def say_def do_call_def q_def)
    next
      case True
      have "only_calls (\<lambda>_. True) (andthen (say E ''Terminating cluster'') (terminate_cluster_instances E cl))"
        unfolding terminate_cluster_instances_def terminate_running_def get_instances_def say_def get_spot_requests_def
        by (cases "cl_class cl") (auto intro!: call_rules)
      then obtain ds where "trail (snd (andthen (say E ''Terminating cluster'') (terminate_cluster_instances E cl) ?w2)) = trail ?w2 @ ds"
        using only_calls_trail by blast
      then have "trail (snd (terminate_cluster E cl False w)) = trail ?w2 @ ds"
        using 1 answered True by (simp add: terminate_cluster_def andthen_def bnd_def prompt_def perform_def ret_def q_def)
      with cs answered True show ?thesis by (intro agreed [of cs ds answer]) simp_all
    qed
  qed
qed

text \<open>
  C14: nothing is terminated without consent. On every path of \<open>terminate_cluster\<close> without
  \<open>--force\<close>, before the first call that terminates instances or cancels a spot request the
  user was asked, and answered yes.
\<close>

theorem terminate_needs_consent:
  assumes "trail (snd (terminate_cluster E cl False w)) = trail w @ cs"
    and "cs = pre @ c # post" and "is_ending c"
  shows "consents E (trail w @ pre) ''Terminate all instances?''"
proof (rule terminate_calls [of E cl w], goal_cases)
  case (1 ds)
  with assms show ?case by auto
next
  case (2 cs1 ds answer)
  let ?q = "Os (Prompt (''Terminate all instances?'' @ '' [yes or no]: ''))"
  have "pre @ c # post = cs1 @ ?q # ds" using assms(1,2) 2(1) by simp
  then obtain later where "pre = cs1 @ ?q # later"
    using assms(3) 2(2) by (auto simp: append_eq_append_conv2 Cons_eq_append_conv append_eq_Cons_conv)
  then have "trail w @ pre = (trail w @ cs1) @ [?q] @ later" by simp
  with 2(3,4) show ?case unfolding consents_def by fastforce
qed

definition env_cluster :: env where
  "env_cluster = env0\<lparr>ans_instances := (\<lambda>_. Inr [\<lparr>r_groups = [''c''], r_instances = [inst_c]\<rparr>]),
     ans_text := (\<lambda>_. Inr ''yes''), ans_unit := (\<lambda>_. Inr ())\<rparr>"

theorem terminate_needs_consent_witness:
  "\<exists>pre post. trail (snd (terminate_cluster env_cluster cluster_c False world0)) = pre @ TerminateInstances [''i-1''] # post
     \<and> consents env_cluster pre ''Terminate all instances?''"
proof -
  let ?w = "snd (terminate_cluster env_cluster cluster_c False world0)"
  have t: "\<exists>pre. trail ?w = pre @ TerminateInstances [''i-1''] # []"
    by (simp add: terminate_cluster_def print_status_def get_instances_def in_group_def state_matches_def say_def
        prompt_def terminate_cluster_instances_def terminate_running_def st_defs perform_def do_call_def
        env_cluster_def env0_def cluster_c_def world0_def inst_c_def py_lower_def lower_char_def)
  then obtain pre where pre: "trail ?w = pre @ TerminateInstances [''i-1''] # []" by blast
  then have "trail ?w = trail world0 @ (pre @ TerminateInstances [''i-1''] # [])" by (simp add: world0_def)
  from terminate_needs_consent [OF this refl] have "consents env_cluster (trail world0 @ pre) ''Terminate all instances?''" by simp
  with pre show ?thesis by (auto simp: world0_def)
qed


section \<open>Storage through the service\<close>

text \<open>
  The status of a role with a recorded volume: EC2 is asked, and then either the volume is missing
  from the answer or the attribute is.
\<close>

lemma print_group_cases:
  "(mvs = [] \<longrightarrow> print_group vols role mvs w = (Inr (), w))
   \<and> (mvs \<noteq> [] \<longrightarrow> (\<exists>e. print_group vols role mvs w = (Inl e, w)))"
proof (cases mvs)
  case (Cons mv rest)
  then show ?thesis
    by (cases "dget vols (mv_volume_id mv)")
      (auto simp: print_group_def andthen_def bnd_def lift_sum_def dlookup_def print_volume_def raise_def)
qed (simp add: print_group_def ret_def)

lemma print_groups_cases:
  "\<exists>r. for_each (print_group vols role) mvl w = (r, w) \<and> (concat mvl \<noteq> [] \<longrightarrow> r \<noteq> Inr ())"
proof (induction mvl)
  case (Cons mvs mvl)
  show ?case
  proof (cases "mvs = []")
    case True
    then have "print_group vols role mvs w = (Inr (), w)" using print_group_cases [of mvs vols role w] by simp
    then have "for_each (print_group vols role) (mvs # mvl) w = for_each (print_group vols role) mvl w"
      by (simp add: andthen_def bnd_def)
    with Cons True show ?thesis by (simp only: concat.simps append_Nil)
  next
    case False
    then obtain e where "print_group vols role mvs w = (Inl e, w)" using print_group_cases [of mvs vols role w] by blast
    then show ?thesis by (simp add: andthen_def bnd_def)
  qed
qed (simp add: ret_def)

fun is_volume_query :: "call \<Rightarrow> bool" where
  "is_volume_query (GetAllVolumes _) = True"
| "is_volume_query _ = False"

lemma print_role_status_cases:
  "\<exists>r t. print_role_status E role w = (r, w\<lparr>trail := trail w @ [GetAllVolumes t]\<rparr>)
   \<and> (concat (get_instance_storage_for_role role (vfile w)) \<noteq> [] \<longrightarrow> r \<noteq> Inr ())"
proof -
  let ?mvl = "get_instance_storage_for_role role (vfile w)"
  let ?t = "map mv_volume_id (concat ?mvl)"
  let ?w = "w\<lparr>trail := trail w @ [GetAllVolumes ?t]\<rparr>"
  have "\<exists>r. print_role_status E role w = (r, ?w) \<and> (concat ?mvl \<noteq> [] \<longrightarrow> r \<noteq> Inr ())"
  proof (cases "ans_volumes E (trail w @ [GetAllVolumes ?t])")
    case (Inl e)
    then show ?thesis by (simp add: print_role_status_def get_ec2_volumes_dict_def bnd_def perform_def)
  next
    case (Inr vl)
    then have "get_ec2_volumes_dict E ?mvl w = (Inr (vol_dict vl), ?w)"
      by (simp add: get_ec2_volumes_dict_def bnd_def perform_def ret_def vol_dict_def)
    with print_groups_cases [of "vol_dict vl" role ?mvl ?w] show ?thesis
      by (simp add: print_role_status_def bnd_def)
  qed
  then show ?thesis by blast
qed

lemma status_trail:
  "\<exists>r cs. storage_print_status E (Some roles) w = (r, w\<lparr>trail := trail w @ cs\<rparr>) \<and> (\<forall>c \<in> set cs. is_volume_query c)
     \<and> ((\<exists>role \<in> set roles. concat (get_instance_storage_for_role role (vfile w)) \<noteq> []) \<longrightarrow> r \<noteq> Inr ())"
  unfolding storage_print_status_def option.case bnd_ret
proof (induction roles arbitrary: w)
  case Nil
  then show ?case by (intro exI [of _ "Inr ()"] exI [of _ "[]"]) (simp add: ret_def)
next
  case (Cons role roles)
  obtain r t where 1: "print_role_status E role w = (r, w\<lparr>trail := trail w @ [GetAllVolumes t]\<rparr>)"
    and 2: "concat (get_instance_storage_for_role role (vfile w)) \<noteq> [] \<longrightarrow> r \<noteq> Inr ()"
    using print_role_status_cases by blast
  let ?w = "w\<lparr>trail := trail w @ [GetAllVolumes t]\<rparr>"
  show ?case
  proof (cases r)
    case (Inl e)
    with 1 show ?thesis
      by (intro exI [of _ "Inl e"] exI [of _ "[GetAllVolumes t]"]) (simp add: andthen_def bnd_def)
  next
    case (Inr u)
    obtain r' cs where "for_each (print_role_status E) roles ?w = (r', ?w\<lparr>trail := trail ?w @ cs\<rparr>)"
      and "\<forall>c \<in> set cs. is_volume_query c"
      and "(\<exists>role \<in> set roles. concat (get_instance_storage_for_role role (vfile ?w)) \<noteq> []) \<longrightarrow> r' \<noteq> Inr ()"
      using Cons.IH [of ?w] by blast
    with 1 2 Inr show ?thesis
      by (intro exI [of _ r'] exI [of _ "GetAllVolumes t # cs"]) (auto simp: andthen_def bnd_def)
  qed
qed

lemma status_all: "storage_print_status E None w = storage_print_status E (Some (file_roles (vfile w))) w"
  by (simp add: storage_print_status_def)

text \<open>
  The storage command cannot delete recorded volumes. While the file records a volume of any
  role, \<open>delete_storage\<close> ends with an error in the status that it prints first: it only asks EC2
  for volumes, deletes nothing and leaves the file as it is, forced or not.
\<close>

theorem delete_storage_keeps_recorded:
  assumes "role \<in> set (file_roles (vfile w))" and "concat (get_instance_storage_for_role role (vfile w)) \<noteq> []"
  shows "\<exists>e cs. delete_storage E force w = (Inl e, w\<lparr>trail := trail w @ cs\<rparr>) \<and> (\<forall>c \<in> set cs. is_volume_query c)"
proof -
  obtain r cs where "storage_print_status E None w = (r, w\<lparr>trail := trail w @ cs\<rparr>)"
    and "\<forall>c \<in> set cs. is_volume_query c" and "r \<noteq> Inr ()"
    using status_trail [of E "file_roles (vfile w)" w] assms unfolding status_all by blast
  then show ?thesis by (cases r) (auto simp: delete_storage_def andthen_def bnd_def)
qed

theorem delete_storage_keeps_recorded_witness:
  "\<exists>e cs. delete_storage (env_vols [vol ''v-1'' ''available'']) True (world_vols [(''dn'', [[mv1]])]) =
     (Inl e, (world_vols [(''dn'', [[mv1]])])\<lparr>trail := cs\<rparr>) \<and> (\<forall>c \<in> set cs. is_volume_query c)"
  using delete_storage_keeps_recorded [of "''dn''" "world_vols [(''dn'', [[mv1]])]"]
  by (simp add: world_vols_def file_roles_def get_instance_storage_for_role_def)

text \<open>
  With an empty record the command deletes every volume of the account. When the file has
  a role without volumes and no role is named like the first character of the first one, a
  forced deletion asks EC2 for the volumes of no name, which are all, deletes them if all are
  available, and then fails because there is no role of that character.
\<close>

theorem delete_storage_deletes_account:
  assumes "file_roles (vfile w) = (c # role) # roles"
    and "\<forall>r \<in> set (file_roles (vfile w)). concat (get_instance_storage_for_role r (vfile w)) = []"
    and "[c] \<notin> set (file_roles (vfile w))"
    and "\<forall>h. ans_volumes E h = Inr vl" and "\<forall>v \<in> set vl. v_status v = ''available''"
    and "distinct (map v_id vl)" and "\<forall>h. ans_unit E h = Inr ()"
  shows "\<exists>w' h. delete_storage E True w = (Inl (KeyError [c]), w')
    \<and> trail w' = h @ map (\<lambda>v. DeleteVolume (v_id v)) vl"
proof -
  have status: "\<exists>cs. for_each (print_role_status E) rs u = (Inr (), u\<lparr>trail := trail u @ cs\<rparr>)"
    if "set rs \<subseteq> set (file_roles (vfile w))" "vfile u = vfile w" for rs u
    using that
  proof (induction rs arbitrary: u)
    case Nil
    then show ?case by (intro exI [of _ "[]"]) (simp add: ret_def)
  next
    case (Cons r rs)
    let ?mvl = "get_instance_storage_for_role r (vfile u)"
    let ?u = "u\<lparr>trail := trail u @ [GetAllVolumes []]\<rparr>"
    have empty: "concat ?mvl = []" using Cons.prems assms(2) by auto
    then have "\<forall>mvs \<in> set ?mvl. mvs = []" by simp
    then have "for_each (print_group (vol_dict vl) r) mvl v = (Inr (), v)" if "set mvl \<subseteq> set ?mvl" for mvl and v :: cloud_world
      using that by (induction mvl) (auto simp: ret_def andthen_def bnd_def print_group_def)
    then have "for_each (print_group (vol_dict vl) r) ?mvl ?u = (Inr (), ?u)" by blast
    moreover have "get_ec2_volumes_dict E ?mvl u = (Inr (vol_dict vl), ?u)"
      using assms(4) empty by (simp add: get_ec2_volumes_dict_def bnd_def perform_def ret_def vol_dict_def del: concat_eq_Nil_conv)
    ultimately have "print_role_status E r u = (Inr (), ?u)" by (simp add: print_role_status_def bnd_def)
    moreover obtain cs where "for_each (print_role_status E) rs ?u = (Inr (), ?u\<lparr>trail := trail ?u @ cs\<rparr>)"
      using Cons.IH [of ?u] Cons.prems by auto
    ultimately show ?case by (intro exI [of _ "GetAllVolumes [] # cs"]) (simp add: andthen_def bnd_def)
  qed
  obtain cs where st: "storage_print_status E None w = (Inr (), w\<lparr>trail := trail w @ cs\<rparr>)"
    using status [of "file_roles (vfile w)" w] by (auto simp: storage_print_status_def)
  let ?w = "w\<lparr>trail := trail w @ cs @ [Os (Print ''Deleting storage'')]\<rparr>"
  have del: "storage_delete E (map (\<lambda>c. [c]) (c # role)) ?w =
      (Inl (KeyError [c]), ?w\<lparr>trail := trail ?w @ GetAllVolumes [] # map (\<lambda>v. DeleteVolume (v_id v)) vl\<rparr>)"
    unfolding list.map(2) using assms(3-7)
    by (intro delete_unknown_role_wipes) auto
  have "delete_storage E True w =
      (Inl (KeyError [c]), ?w\<lparr>trail := trail ?w @ GetAllVolumes [] # map (\<lambda>v. DeleteVolume (v_id v)) vl\<rparr>)"
    using st del assms(1,7)
    by (simp add: delete_storage_def andthen_def bnd_def ret_def say_def do_call_def perform_def del: storage_delete.simps)
  then show ?thesis
    by (intro exI conjI) (assumption, simp add: append_assoc [symmetric] del: append_assoc)
qed

theorem delete_storage_deletes_account_witness:
  "\<exists>w' h. delete_storage (env_vols [vol ''v-1'' ''available'', vol ''v-2'' ''available'']) True (world_vols [(''dn'', [[]])])
       = (Inl (KeyError ''d''), w') \<and> trail w' = h @ [DeleteVolume ''v-1'', DeleteVolume ''v-2'']"
  using delete_storage_deletes_account [of "world_vols [(''dn'', [[]])]" "CHR ''d''" "''n''" "[]"
      "env_vols [vol ''v-1'' ''available'', vol ''v-2'' ''available'']" "[vol ''v-1'' ''available'', vol ''v-2'' ''available'']"]
  by (simp add: storage_examples file_roles_def get_instance_storage_for_role_def)


section \<open>Waiting for Hadoop\<close>

definition machines_link :: "nat \<Rightarrow> string" where
  "machines_link n = ''<a href=\"machines.jsp?type=active\">'' @ nat_str n @ ''</a>''"

lemma takeWhile_digits [simp]:
  "takeWhile is_digit (nat_str n @ CHR ''<'' # s) = nat_str n"
  "dropWhile is_digit (nat_str n @ CHR ''<'' # s) = CHR ''<'' # s"
proof -
  have "\<forall>c \<in> set (nat_str n). is_digit c" using nat_str_digits [of n] by (simp add: list_all_iff)
  moreover have "\<not> is_digit (CHR ''<'')" by (simp add: is_digit_def)
  ultimately show "takeWhile is_digit (nat_str n @ CHR ''<'' # s) = nat_str n"
    "dropWhile is_digit (nat_str n @ CHR ''<'' # s) = CHR ''<'' # s" by simp_all
qed

lemma tracker_link_reads: "tracker_link (machines_link n @ post) = Some n"
  by (simp add: tracker_link_def machines_link_def strip_prefix_def py_startswith_def Let_def)

lemma tracker_link_none: "c \<noteq> CHR ''<'' \<Longrightarrow> tracker_link (c # s) = None"
  by (simp add: tracker_link_def strip_prefix_def py_startswith_def)

lemma tracker_count_skip: "CHR ''<'' \<notin> set pre \<Longrightarrow> tracker_count (pre @ s) = tracker_count s"
  by (induction pre) (auto simp: tracker_link_none)

lemma tracker_count_reads: "CHR ''<'' \<notin> set pre \<Longrightarrow> tracker_count (pre @ machines_link n @ post) = n"
proof -
  obtain c s where "machines_link n @ post = c # s" by (auto simp: machines_link_def)
  moreover have "tracker_link (machines_link n @ post) = Some n" by (rule tracker_link_reads)
  moreover assume "CHR ''<'' \<notin> set pre"
  ultimately show ?thesis by (simp add: tracker_count_skip)
qed

text \<open>An answer was given that shows \<open>n\<close> task trackers.\<close>

definition page_shown :: "env \<Rightarrow> call list \<Rightarrow> string \<Rightarrow> nat \<Rightarrow> nat \<Rightarrow> bool" where
  "page_shown E h jt timeout n \<longleftrightarrow> (\<exists>before later page.
     h = before @ [Os (UrlOpen (''http://'' @ jt @ '':50030/jobtracker.jsp'') timeout)] @ later
     \<and> (\<forall>c \<in> set later. c = Os (Sleep 1))
     \<and> ans_text E (before @ [Os (UrlOpen (''http://'' @ jt @ '':50030/jobtracker.jsp'') timeout)]) = Inr page
     \<and> tracker_count page = n)"

lemma number_of_tasktrackers_shown:
  assumes "number_of_tasktrackers E jt timeout retries w = (Inr n, w')"
  shows "page_shown E (trail w') jt timeout n"
proof -
  let ?u = "''http://'' @ jt @ '':50030/jobtracker.jsp''"
  obtain page w1 where run: "url_get E ?u timeout retries w = (Inr page, w1)" and n: "n = tracker_count page" "w' = w1"
    using assms by (auto simp: number_of_tasktrackers_def ret_def elim!: bnd_InrE)
  obtain k where "url_get E ?u timeout retries w =
      (ans_text E (trail w @ replicate (Suc k) (Os (UrlOpen ?u timeout))), w\<lparr>trail := trail w @ replicate (Suc k) (Os (UrlOpen ?u timeout))\<rparr>)"
    using url_get_loop_outcome [of E ?u timeout retries 0 w] unfolding url_get_def by blast
  with run have page: "ans_text E (trail w @ replicate (Suc k) (Os (UrlOpen ?u timeout))) = Inr page"
    and t: "trail w1 = trail w @ replicate (Suc k) (Os (UrlOpen ?u timeout))" by auto
  have snoc: "trail w @ replicate (Suc k) (Os (UrlOpen ?u timeout))
      = (trail w @ replicate k (Os (UrlOpen ?u timeout))) @ [Os (UrlOpen ?u timeout)]"
    by (simp add: replicate_append_same)
  show ?thesis unfolding page_shown_def
    using page t n unfolding snoc
    by (intro exI [of _ "trail w @ replicate k (Os (UrlOpen ?u timeout))"] exI [of _ "[]"] exI [of _ page]) simp
qed

lemma page_shown_sleep: "page_shown E h jt timeout n \<Longrightarrow> page_shown E (h @ [Os (Sleep 1)]) jt timeout n"
proof -
  let ?c = "Os (UrlOpen (''http://'' @ jt @ '':50030/jobtracker.jsp'') timeout)"
  assume "page_shown E h jt timeout n"
  then obtain before later page where "h = before @ [?c] @ later" "\<forall>c \<in> set later. c = Os (Sleep 1)"
    "ans_text E (before @ [?c]) = Inr page" "tracker_count page = n" unfolding page_shown_def by blast
  then show ?thesis unfolding page_shown_def
    by (intro exI [of _ before] exI [of _ "later @ [Os (Sleep 1)]"] exI [of _ page]) simp
qed

lemma jobtracker_round_shown:
  assumes "jobtracker_round E start timeout jt w = (Inr (Some n), w')"
  shows "page_shown E (trail w') jt 1 n"
proof -
  obtain w1 where "try_except (bnd (number_of_tasktrackers E jt 1 0) (\<lambda>n. ret (Some n)))
                 (\<lambda>e. e = IOError) (\<lambda>_. ret None) w1 = (Inr (Some n), w')"
    using assms by (auto simp: jobtracker_round_def raise_def ret_def elim!: bnd_InrE andthen_InrE split: if_splits option.splits)
  then have "number_of_tasktrackers E jt 1 0 w1 = (Inr n, w')"
    by (auto simp: try_except_def bnd_def ret_def split: prod.splits sum.splits if_splits)
  then show ?thesis by (rule number_of_tasktrackers_shown)
qed

lemma tasktracker_round_shown:
  assumes "tasktracker_round E start timeout jt number w = (Inr (Some ()), w')"
  shows "\<exists>n. page_shown E (trail w') jt 5 n \<and> number \<le> int n"
proof -
  obtain w1 where "try_except
            (bnd (number_of_tasktrackers E jt 5 2) (\<lambda>n.
             andthen (sleep 1) (ret (if int n < number then None else Some ()))))
            (\<lambda>e. e = IOError) (\<lambda>_. ret None) w1 = (Inr (Some ()), w')"
    using assms by (auto simp: tasktracker_round_def raise_def elim!: bnd_InrE split: if_splits)
  then obtain n w2 where "number_of_tasktrackers E jt 5 2 w1 = (Inr n, w2)" "number \<le> int n"
      "w' = w2\<lparr>trail := trail w2 @ [Os (Sleep 1)]\<rparr>"
    by (auto simp: try_except_def bnd_def andthen_def ret_def sleep_def perform_def split: prod.splits sum.splits if_splits)
  then show ?thesis using number_of_tasktrackers_shown [of E jt 5 2 w1 n w2] page_shown_sleep by fastforce
qed


definition page3 :: string where
  "page3 = ''page '' @ machines_link 3"

definition env_jt :: env where
  "env_jt = env0\<lparr>ans_instances := (\<lambda>_. Inr [\<lparr>r_groups = [''c-jt''], r_instances = [inst_c]\<rparr>]),
     ans_text := (\<lambda>_. Inr (page3))\<rparr>"

lemma env_jt_tracker:
  "get_jobtracker env_jt cluster_c w = (Inr (Some (host_of inst_c)), w\<lparr>trail := trail w @ [GetAllInstances None None]\<rparr>)"
  by (simp add: get_jobtracker_def first_in_role_def JOBTRACKER_def get_instances_in_role_def check_role_name_def
      group_name_for_role_def role_ok_def drop_final_nl_def role_char_def get_instances_def in_group_def state_matches_def
      st_defs perform_def env_jt_def env0_def cluster_c_def inst_c_def)



section \<open>What the slaves are told\<close>

text \<open>
  The slaves never learn where the master is. The texts that \<open>launch_slaves\<close> adds to the
  environment of the boot script are the single characters of the three assignments.
\<close>

theorem slave_template_characters:
  assumes "it_env_strings it = PList (map PStr envs)"
  shows "\<exists>t. slave_template master it = Inr t \<and> env_string_texts (it_env_strings t) =
     Inr (envs @ map (\<lambda>c. [c]) (concat (map (\<lambda>role. host_env role master) [NAMENODE, SECONDARY_NAMENODE, JOBTRACKER])))"
proof -
  have add: "\<exists>t. add_env_strings (PStr s) it' = Inr t \<and> it_env_strings t = PList (map PStr (envs' @ map (\<lambda>c. [c]) s))"
    if "it_env_strings it' = PList (map PStr envs')" for s it' envs'
    using that by (simp add: add_env_strings_def)
  have texts: "map_sum need_text (map PStr xs) = Inr xs" for xs :: "string list" by (induction xs) auto
  obtain t1 where 1: "add_env_strings (PStr (host_env NAMENODE master)) it = Inr t1"
    "it_env_strings t1 = PList (map PStr (envs @ map (\<lambda>c. [c]) (host_env NAMENODE master)))" using add [OF assms] by blast
  obtain t2 where 2: "add_env_strings (PStr (host_env SECONDARY_NAMENODE master)) t1 = Inr t2"
    "it_env_strings t2 = PList (map PStr ((envs @ map (\<lambda>c. [c]) (host_env NAMENODE master)) @ map (\<lambda>c. [c]) (host_env SECONDARY_NAMENODE master)))"
    using add [OF 1(2)] by blast
  obtain t3 where 3: "add_env_strings (PStr (host_env JOBTRACKER master)) t2 = Inr t3"
    "it_env_strings t3 = PList (map PStr (((envs @ map (\<lambda>c. [c]) (host_env NAMENODE master)) @ map (\<lambda>c. [c]) (host_env SECONDARY_NAMENODE master)) @ map (\<lambda>c. [c]) (host_env JOBTRACKER master)))"
    using add [OF 2(2)] by blast
  have "host_env NAMENODE master \<noteq> []" by (simp add: host_env_def)
  with 1 2 3 show ?thesis
    by (simp add: slave_template_def env_string_texts_def texts del: map_append) (simp add: texts)
qed

text \<open>
  \<open>launch-cluster\<close> hands every option after the private key to the wrong field: the name of
  the zone is read as the boot script's file, the packages become the zone, and the security
  groups become the environment.
\<close>

theorem cluster_templates_shifted:
  assumes "cluster_templates cl opt args = Inr its" and "it \<in> set its"
  shows "it_user_data_file_template it = pget opt ''availability_zone'' \<and> it_placement it = pget opt ''user_packages''
    \<and> it_user_packages it = pget opt ''auto_shutdown'' \<and> it_auto_shutdown it = pget opt ''env''
    \<and> it_env_strings it = pget opt ''security_group''"
proof -
  let ?ok = "\<lambda>it. it_user_data_file_template it = pget opt ''availability_zone'' \<and> it_placement it = pget opt ''user_packages''
    \<and> it_user_packages it = pget opt ''auto_shutdown'' \<and> it_auto_shutdown it = pget opt ''env''
    \<and> it_env_strings it = pget opt ''security_group''"
  have pairs: "pair_templates cl opt as = Inr its \<Longrightarrow> \<forall>it \<in> set its. ?ok it" for as its
    by (induction cl opt as arbitrary: its rule: pair_templates.induct)
      (auto split: sum.splits simp: shifted_template_def)
  have "\<forall>it \<in> set its. ?ok it"
    using assms(1) pairs by (auto simp: cluster_templates_def shifted_template_def split: if_splits sum.splits)
  with assms(2) show ?thesis by blast
qed


theorem slave_template_characters_witness:
  "\<exists>t. slave_template (host_of inst_c) ((full_template cluster_c [] [DATANODE] 2)\<lparr>it_env_strings := PList [PStr ''A=1'']\<rparr>) = Inr t
     \<and> env_string_texts (it_env_strings t) = Inr (''A=1'' # map (\<lambda>c. [c]) ''NN_HOST=hSNN_HOST=hJT_HOST=h'')"
proof -
  have envs: "concat (map (\<lambda>role. host_env role (host_of inst_c)) [NAMENODE, SECONDARY_NAMENODE, JOBTRACKER])
      = ''NN_HOST=hSNN_HOST=hJT_HOST=h''" by code_simp
  show ?thesis
    using slave_template_characters [of "(full_template cluster_c [] [DATANODE] 2)\<lparr>it_env_strings := PList [PStr ''A=1'']\<rparr>"
        "[''A=1'']" "host_of inst_c"]
    unfolding envs by simp
qed

theorem cluster_templates_shifted_witness:
  "\<exists>its. cluster_templates cluster_c [(''availability_zone'', PStr ''us-east-1a'')] [''c'', ''1'', ''dn''] = Inr its
     \<and> it_user_data_file_template (hd its) = PStr ''us-east-1a''"
proof -
  let ?opt = "[(''availability_zone'', PStr ''us-east-1a'')]"
  have "\<exists>its. cluster_templates cluster_c ?opt [''c'', ''1'', ''dn''] = Inr its \<and> its \<noteq> []"
    by (simp add: cluster_templates_def py_int_def py_strip_def is_space_def is_digit_def Let_def)
  then obtain its where its: "cluster_templates cluster_c ?opt [''c'', ''1'', ''dn''] = Inr its" "hd its \<in> set its" by auto
  from cluster_templates_shifted [OF this] its show ?thesis by (simp add: pget_def)
qed

end
