(* ===== verification/Runner.thy ===== *)
theory Runner
  imports CloudProvider Usage
begin

text \<open>
  The scripts: \<open>ec2_runner.py\<close>, which students run with the privileges of the course account and
  to which \<open>cs61cec2.py\<close> sends its launches, \<open>ec2_active.py\<close>, which lists what a user runs,
  \<open>kill_all_accounts.py\<close> and \<open>usage_report.py\<close>. The dictionary of parsed options, the decoded
  JSON of the standard input, \<open>base64.b64decode\<close> and the layout of floats are parameters, being
  the standard library's.
\<close>


section \<open>\<open>ec2_runner.py\<close>\<close>

definition KEYS :: "string list" where
  "KEYS = [''image_id'', ''count'', ''key_name'', ''availability_zone'',
     ''placement_group'', ''instance_type'', ''security_groups'', ''user_data'', ''use_spot'']"

text \<open>
  The request comes from the standard input or from the options. \<open>b64decode\<close> of anything but a
  string raises \<open>TypeError\<close>.
\<close>

definition decode_user_data :: "(string \<Rightarrow> py_exc + string) \<Rightarrow> pydict \<Rightarrow> py_exc + pydict" where
  "decode_user_data b64decode request =
     (case dget request ''user_data'' of
        None \<Rightarrow> Inr request
      | Some (PStr s) \<Rightarrow> (case b64decode s of Inl e \<Rightarrow> Inl e
                          | Inr d \<Rightarrow> Inr (dset ''user_data'' (PStr d) request))
      | Some _ \<Rightarrow> Inl TypeError)"

fun picked_options :: "string list \<Rightarrow> pydict \<Rightarrow> pydict" where
  "picked_options [] opts = []"
| "picked_options (k # ks) opts =
     (case dget opts k of None \<Rightarrow> picked_options ks opts | Some v \<Rightarrow> (k, v) # picked_options ks opts)"

definition read_request ::
  "(string \<Rightarrow> py_exc + string) \<Rightarrow> env \<Rightarrow> py_exc + pydict \<Rightarrow> pydict \<Rightarrow> ('w world_scheme, pydict) st" where
  "read_request b64decode E stdin_json opts =
     bnd (item opts ''stdin_json'') (\<lambda>from_stdin.
     if py_truth from_stdin
     then andthen (do_call E (Os (Print (''Loading request from stdin'' @ [nl]))))
            (bnd (lift_sum stdin_json) (\<lambda>request. lift_sum (decode_user_data b64decode request)))
     else ret (picked_options KEYS opts))"

text \<open>\<open>str(v)\<close> is the identity on a string; \<open>str_val\<close> is what it makes of any other value.\<close>

definition key_accepted :: "(pyval \<Rightarrow> string) \<Rightarrow> string \<Rightarrow> pydict \<Rightarrow> bool" where
  "key_accepted str_val username request =
     (case dget request ''key_name'' of
        None \<Rightarrow> False
      | Some (PStr s) \<Rightarrow> py_startswith s username
      | Some v \<Rightarrow> py_startswith (str_val v) username)"

definition with_zone :: "pydict \<Rightarrow> pydict" where
  "with_zone request =
     (case (dget request ''placement'', dget request ''availability_zone'') of
        (Some p, None) \<Rightarrow> dset ''availability_zone'' p request
      | _ \<Rightarrow> request)"

definition launched_ids :: "launched \<Rightarrow> string list" where
  "launched_ids l = (case l of Spots xs \<Rightarrow> map s_id xs | Reserved r \<Rightarrow> map i_id (r_instances r))"

definition submit_request ::
  "(pydict \<Rightarrow> string) \<Rightarrow> env \<Rightarrow> account \<Rightarrow> pydict \<Rightarrow> (acct_world, string list) st" where
  "submit_request show E user request =
     (if acc_keys user = [] then raise (PlainError (''No access keys for '' @ acc_name user))
      else bnd (run_instances show E user request) (\<lambda>l. ret (launched_ids l)))"

text \<open>
  The whole script; the exit status of \<open>parser.error\<close> is 2. Its result is the list that it
  prints as JSON. The iteration at the end follows \<open>use_spot\<close>, as the launch does.
\<close>

definition ec2_runner ::
  "(pydict \<Rightarrow> string) \<Rightarrow> (pyval \<Rightarrow> string) \<Rightarrow> (string \<Rightarrow> py_exc + string) \<Rightarrow> env \<Rightarrow> string
     \<Rightarrow> pydict \<Rightarrow> string list \<Rightarrow> py_exc + pydict \<Rightarrow> py_exc + string \<Rightarrow> (acct_world, string list) st" where
  "ec2_runner show str_val b64decode E username opts args stdin_json stdin_text =
     bnd (new_user username) (\<lambda>user.
     if args \<noteq> [] then raise (SystemExit 2)
     else
       bnd (read_request b64decode E stdin_json opts) (\<lambda>request.
       if \<not> key_accepted str_val username request then raise (SystemExit 2)
       else
         bnd (if py_truth (pget opts ''stdin_user_data'')
              then bnd (lift_sum stdin_text) (\<lambda>t. ret (dset ''user_data'' (PStr t) (with_zone request)))
              else ret (with_zone request)) (submit_request show E user)))"


section \<open>\<open>ec2_active.py\<close>\<close>

definition ljust :: "nat \<Rightarrow> string \<Rightarrow> string" where
  "ljust n s = s @ replicate (n - length s) (CHR '' '')"

definition rjust :: "nat \<Rightarrow> string \<Rightarrow> string" where
  "rjust n s = replicate (n - length s) (CHR '' '') @ s"

definition listing_line :: "string \<Rightarrow> string \<Rightarrow> string \<Rightarrow> string \<Rightarrow> string \<Rightarrow> string" where
  "listing_line ident ty time host grps =
     ljust 13 ident @ '' '' @ ljust 8 ty @ '' '' @ rjust 15 time @ '' '' @ rjust 40 host
       @ '' '' @ rjust 20 grps"

text \<open>
  \<open>running_time\<close> uses \<open>datetime\<close>, which the script does not import; the format for spot requests is
  defined under the misspelt name \<open>SPOT_FROMAT\<close>; the loop that cancels requests refers to
  \<open>spot_request\<close>, which is not a name.
\<close>

definition running_time :: "string \<Rightarrow> ('s, string) st" where
  "running_time start_time = raise (NameError ''datetime'')"

definition print_instances :: "env \<Rightarrow> (ec2_instance \<times> string list) list \<Rightarrow> (acct_world, unit) st" where
  "print_instances E xs =
     (if xs = [] then do_call E (Os (Print ''No EC2 instances running.''))
      else andthen (do_call E (Os (Print ''Running EC2 Instances:'')))
          (andthen (do_call E (Os (Print (listing_line ''INSTANCE-ID'' ''INSTANCE-TYPE'' ''RUNNING FOR''
                      ''PUBLIC HOSTNAME'' ''SECURITY GROUPS''))))
          (andthen (for_each (\<lambda>(i, gs). bnd (running_time (i_launch_time i)) (\<lambda>t.
                      do_call E (Os (Print (listing_line (i_id i) (i_type i) t (i_dns_name i) (py_join '','' gs))))))
                    xs)
            (do_call E (Os (Print (int_str (int (length xs)) @ '' instances CURRENTLY running.'')))))))"

definition print_spot_requests :: "env \<Rightarrow> spot_request list \<Rightarrow> (acct_world, unit) st" where
  "print_spot_requests E requests =
     (if requests = [] then ret ()
      else andthen (do_call E (Os (Print ''Pending spot instance requests:'')))
             (raise (NameError ''SPOT_FORMAT'')))"

definition cancel_requests :: "env \<Rightarrow> spot_request list \<Rightarrow> (acct_world, unit) st" where
  "cancel_requests E requests = for_each (\<lambda>_. raise (NameError ''spot_request'')) requests"

text \<open>
  The message after a termination uses \<open>request\<close>, the variable of the loops before, which is
  unbound when there was no spot request; it is the last request otherwise.
\<close>

definition terminate_instances_of ::
  "env \<Rightarrow> spot_request list \<Rightarrow> (ec2_instance \<times> string list) list \<Rightarrow> (acct_world, unit) st" where
  "terminate_instances_of E requests xs =
     for_each (\<lambda>(i, _). andthen (do_call E (TerminateInstances [i_id i]))
       (if requests = [] then raise (NameError ''request'')
        else do_call E (Os (Print (''Terminated '' @ s_id (last requests)))))) xs"

definition print_hints :: "env \<Rightarrow> spot_request list \<Rightarrow> (acct_world, unit) st" where
  "print_hints E requests =
     andthen (do_call E (Os (Print ''Run '%s --terminate-all' to terminate all EC2 instances and cancel all spot requests.'')))
    (andthen (do_call E (Os (Print ''Run 'ec2-terminate-instance INSTANCE-ID' to terminate a particular instance.'')))
     (if requests = [] then ret ()
      else for_each (\<lambda>line. do_call E (Os (Print line)))
        [''Run '%s --cancel-spot-requests' to cancel all spot requests.'',
         ''Run 'ec2-cancel-spot-requset REQUEST-ID' to cancel a particular spot request.'',
         ''(Remember to double-check that no instances started before you cancelled'',
         '' the spot instance request; cancelling the request doesn't kill started '',
         '' instances.)'']))"

definition ec2_active :: "env \<Rightarrow> string \<Rightarrow> bool \<Rightarrow> bool \<Rightarrow> (acct_world, unit) st" where
  "ec2_active E username terminate_all cancel_spot_requests =
     bnd (new_user username) (\<lambda>user.
     bnd (running_instances E user) (\<lambda>xs.
     bnd (running_spot_requests E user) (\<lambda>requests.
     andthen (do_call E (Os (Print (''Username: '' @ username))))
    (andthen (print_instances E xs)
    (andthen (print_spot_requests E requests)
    (andthen (if cancel_spot_requests \<or> terminate_all then cancel_requests E requests else ret ())
    (andthen (if terminate_all then terminate_instances_of E requests xs else ret ())
      (if (xs \<noteq> [] \<or> requests \<noteq> []) \<and> \<not> cancel_spot_requests \<and> \<not> terminate_all
       then print_hints E requests else ret ()))))))))"


section \<open>\<open>kill_all_accounts.py\<close>\<close>

text \<open>
  \<open>sys\<close> is not imported. The creation of the tables leaves those of an existing database as they
  are. \<open>shown n\<close> is the line that prints the element of IAM's reply for user \<open>n\<close>.
\<close>

definition kill_all_accounts :: "(string \<Rightarrow> string) \<Rightarrow> env \<Rightarrow> (acct_world, unit) st" where
  "kill_all_accounts shown E =
     bnd (perform (ans_text E) (Os (Prompt ''Delete all identities on account? Are you sure? (yes/NO) ''))) (\<lambda>maybe_yes.
     if maybe_yes \<noteq> ''yes''
     then andthen (do_call E (Os (Print ''Not proceeding''))) (raise (NameError ''sys''))
     else bnd (perform (ans_texts E) (Iam IamListUsers)) (\<lambda>names.
          for_each (\<lambda>n. andthen (do_call E (Os (Print (shown n)))) (delete_user E n)) names))"


section \<open>\<open>usage_report.py\<close>\<close>

definition may_name_user :: "string \<Rightarrow> bool" where
  "may_name_user username \<longleftrightarrow>
     username = ''cs61c'' \<or> py_startswith username ''cs61c-t'' \<or> username = ''charles''"

text \<open>\<open>args\<close> is \<open>argv[1:]\<close>.\<close>

definition reported_user :: "string \<Rightarrow> string list \<Rightarrow> string" where
  "reported_user username args =
     (if may_name_user username \<and> args \<noteq> [] then hd args else username)"

text \<open>\<open>money\<close> is the format \<open>%6.3f\<close>.\<close>

fun report_totals ::
  "(string \<Rightarrow> (usage_world, string \<times> rat) st) \<Rightarrow> (rat \<Rightarrow> string) \<Rightarrow> env \<Rightarrow> string list \<Rightarrow> rat
     \<Rightarrow> (usage_world, rat) st" where
  "report_totals report money E [] overall = ret overall"
| "report_totals report money E (u # us) overall =
     bnd (report u) (\<lambda>(desc, t).
     andthen (do_call E (Os (Print (ljust 20 u @ '' $'' @ money t))))
       (report_totals report money E us (overall + t)))"

definition usage_report ::
  "(string \<Rightarrow> rat option) \<Rightarrow> (string \<Rightarrow> rat) \<Rightarrow> (rat \<Rightarrow> string \<Rightarrow> string \<Rightarrow> rat \<Rightarrow> rat \<Rightarrow> string)
     \<Rightarrow> (rat \<Rightarrow> string) \<Rightarrow> (rat \<Rightarrow> string) \<Rightarrow> env \<Rightarrow> string \<Rightarrow> string list \<Rightarrow> (usage_world, unit) st" where
  "usage_report jd num fmt fmt_total money E real_username args =
     (let username = reported_user real_username args in
      if username \<noteq> ''ALL''
      then bnd (user_report jd num fmt fmt_total E username True True) (\<lambda>(desc, t).
           andthen (do_call E (Os (Print (''Usage report for '' @ username @ '':'' @ [nl] @ desc))))
             (do_call E (Os (Print (''estimated total spending = $'' @ money t)))))
      else bnd (gets (\<lambda>w. known_users (udb w))) (\<lambda>us.
           bnd (report_totals (\<lambda>u. user_report jd num fmt fmt_total E u True False) money E us 0) (\<lambda>overall.
           do_call E (Os (Print (''(sum = $'' @ money overall @ '')''))))))"

end
