(* ===== verification/RunnerFacts.thy ===== *)
theory RunnerFacts
  imports Runner SpendLimit
begin

text \<open>
  What the scripts guarantee: the privileged runner launches nothing that the guard of
  \<open>run_instances\<close> does not allow, a cluster of the course reaches EC2 with exactly the fields it was
  launched with, and the options that should terminate, cancel or count do not work.
\<close>


section \<open>The privileged runner\<close>

lemma read_request_no_launch: "only_calls no_launch (read_request b64decode E stdin_json opts)"
  by (auto simp: read_request_def item_def intro!: call_rules)

lemma new_user_run: "\<exists>user. new_user n w = (Inr user, w) \<and> acc_name user = n \<and>
    (acc_keys user \<noteq> [] \<longrightarrow> acc_conn user = Some (hd (acc_keys user)))"
  by (auto simp: new_user_def init_access_keys_def Let_def)

lemma submit_request_cases:
  assumes "submit_request show E user rq w = (r, w')"
  shows "(\<exists>e. r = Inl e \<and> w' = w) \<or>
    (\<exists>l. run_instances show E user rq w = (l, w') \<and> r = map_sum id launched_ids l)"
  using assms by (auto simp: submit_request_def st_defs split: if_splits prod.splits sum.splits)

definition completed :: "pydict \<Rightarrow> py_exc + string \<Rightarrow> pydict \<Rightarrow> pydict \<Rightarrow> bool" where
  "completed opts stdin_text read request \<longleftrightarrow>
     (if py_truth (pget opts ''stdin_user_data'')
      then \<exists>t. stdin_text = Inr t \<and> request = dset ''user_data'' (PStr t) (with_zone read)
      else request = with_zone read)"

text \<open>
  A run of the script either ends with an exception before anything is launched or is a run of
  \<open>run_instances\<close> of the calling user.
\<close>

lemma ec2_runner_cases:
  assumes "ec2_runner show str_val b64decode E username opts args stdin_json stdin_text w = (r, w')"
  obtains (refused) cs e where "trail w' = trail w @ cs" "\<forall>c \<in> set cs. no_launch c" "r = Inl e"
  | (ran) user read request l w1 cs where "acc_name user = username" "trail w1 = trail w @ cs"
      "read_request b64decode E stdin_json opts w = (Inr read, w1)"
      "completed opts stdin_text read request"
      "\<forall>c \<in> set cs. no_launch c" "run_instances show E user request w1 = (l, w')"
      "r = map_sum id launched_ids l"
proof -
  obtain user where user: "new_user username w = (Inr user, w)" "acc_name user = username"
    using new_user_run by blast
  obtain q w1 where rd: "read_request b64decode E stdin_json opts w = (q, w1)" by fastforce
  with read_request_no_launch obtain cs where cs: "trail w1 = trail w @ cs" "\<forall>c \<in> set cs. no_launch c"
    using only_no_launch_trail by blast
  let ?stop = "\<exists>e. r = Inl e \<and> (w' = w \<or> w' = w1)"
  let ?run = "\<exists>read request l. q = Inr read \<and> completed opts stdin_text read request
    \<and> run_instances show E user request w1 = (l, w') \<and> r = map_sum id launched_ids l"
  have "?stop \<or> ?run"
  proof (cases q)
    case (Inl e)
    with assms user(1) rd show ?thesis
      by (auto simp: ec2_runner_def st_defs split: if_splits)
  next
    case (Inr request)
    have tail: "?stop \<or> ?run"
      if "submit_request show E user rq w1 = (r, w')" "completed opts stdin_text request rq" for rq
      using submit_request_cases [OF that(1)] that(2) Inr by blast
    have run: "ec2_runner show str_val b64decode E username opts args stdin_json stdin_text w =
      (if args \<noteq> [] then (Inl (SystemExit 2), w)
       else if \<not> key_accepted str_val username request then (Inl (SystemExit 2), w1)
       else if py_truth (pget opts ''stdin_user_data'')
       then (case stdin_text of Inl e \<Rightarrow> (Inl e, w1)
             | Inr t \<Rightarrow> submit_request show E user (dset ''user_data'' (PStr t) (with_zone request)) w1)
       else submit_request show E user (with_zone request) w1)"
      using user(1) rd Inr by (simp add: ec2_runner_def st_defs split: sum.splits)
    with assms tail show ?thesis by (auto simp: completed_def split: if_splits sum.splits)
  qed
  then show ?thesis
  proof
    assume "?stop"
    then show ?thesis using cs refused [of "[]"] refused [of cs] by auto
  next
    assume "?run"
    then show ?thesis using ran [OF user(2) cs(1) _ _ cs(2)] rd by blast
  qed
qed

lemma completed_keeps:
  assumes "completed opts stdin_text read request" and "k \<noteq> ''user_data''" and "k \<noteq> ''availability_zone''"
  shows "dget request k = dget read k"
  using assms by (auto simp: completed_def with_zone_def dget_dset split: if_splits option.splits)


lemma count_text_not_allowed:
  assumes "launch_allowed user old request" shows "dget request ''count'' \<noteq> Some (PStr n)"
proof
  assume "dget request ''count'' = Some (PStr n)"
  with assms obtain ty extra x where "cost_proposal ty (PStr n) = Inr extra" "as_num extra = Some x"
    by (auto simp: launch_allowed_def)
  then obtain c where "py_mul c (PStr n) = Inr extra" by (auto simp: cost_proposal_def split: sum.splits)
  with \<open>as_num extra = Some x\<close> show False
    by (cases c) (auto simp: py_mul_def split: if_splits)
qed

lemma dget_picked: "dget (picked_options ks opts) k = (if k \<in> set ks then dget opts k else None)"
  by (induction ks) (auto split: option.splits)

lemma picked_count: "dget (picked_options KEYS opts) ''count'' = dget opts ''count''"
  by (simp only: dget_picked) (simp add: KEYS_def)

text \<open>A student with one access key, whose cluster of the course is launched through the script.\<close>

definition acct_ab :: acct_world where
  "acct_ab = \<lparr>trail = [], db = \<lparr>users = [], access_keys = [\<lparr>ak_user = ''cs61c-ab'', ak_key = ''AK'', ak_secret = ''SK''\<rparr>],
     ssh_keys = []\<rparr>\<rparr>"

definition opts_json :: pydict where
  "opts_json = [(''stdin_json'', PBool True), (''stdin_user_data'', PBool False)]"

definition class_request :: pydict where
  "class_request = runner_request rev (PInt 2) (PStr ''ami-1'') (PStr ''m1.small'') ''abc'' (PList [PStr ''c''])
     [(''key_name'', PStr ''cs61c-ab-default''), (''placement'', PStr ''us-east-1a''), (''placement_group'', PStr ''pg'')]"

definition class_launch :: call where
  "class_launch = RunInstances \<lparr>rq_image_id = PStr ''ami-1'', rq_min_count = PInt 2, rq_max_count = PInt 2,
     rq_key_name = PStr ''cs61c-ab-default'', rq_security_groups = PList [PStr ''c''], rq_user_data = PStr ''abc'',
     rq_instance_type = PStr ''m1.small'', rq_placement = PStr ''us-east-1a''\<rparr>"

definition class_calls :: "call list" where
  "class_calls = [Os (Print (''Loading request from stdin'' @ [nl])),
     GetAllInstances None (Some [(''key-name'', ''cs61c-ab*'')]),
     Os (AuditLog (audit_message (''Making instance requset '' @ '' for cs61c-ab''))), class_launch]"

lemma class_run:
  "ec2_runner (\<lambda>_. []) (\<lambda>_. []) (\<lambda>s. Inr (rev s)) env_idle ''cs61c-ab'' opts_json [] (Inr class_request) (Inr []) acct_ab
     = (Inr [], acct_ab\<lparr>trail := class_calls\<rparr>)"
proof -
  have new: "new_user ''cs61c-ab'' acct_ab = (Inr user_ab, acct_ab)"
    by (simp add: new_user_def init_access_keys_def rows_of_def acct_ab_def user_ab_def)
  define request where "request = dset ''availability_zone'' (PStr ''us-east-1a'') (dset ''user_data'' (PStr ''abc'') class_request)"
  let ?w = "acct_ab\<lparr>trail := [Os (Print (''Loading request from stdin'' @ [nl]))]\<rparr>"
  have read: "read_request (\<lambda>s. Inr (rev s)) env_idle (Inr class_request) opts_json acct_ab
      = (Inr (dset ''user_data'' (PStr ''abc'') class_request), ?w)"
    by (simp add: read_request_def item_def dlookup_def opts_json_def decode_user_data_def class_request_def
        runner_request_def st_defs do_call_def perform_def env_idle_def acct_ab_def kw_get_def)
  have key: "key_accepted (\<lambda>_. []) ''cs61c-ab'' (dset ''user_data'' (PStr ''abc'') class_request)"
    by (simp add: key_accepted_def class_request_def runner_request_def kw_get_def py_startswith_def)
  have zone: "with_zone (dset ''user_data'' (PStr ''abc'') class_request) = request"
    by (simp add: with_zone_def request_def class_request_def runner_request_def kw_get_def)
  have "run_instances (\<lambda>_. []) env_idle user_ab request ?w =
      (Inr (Reserved \<lparr>r_groups = [], r_instances = []\<rparr>), acct_ab\<lparr>trail := class_calls\<rparr>)"
    by (simp add: run_defs env_idle_def user_ab_def request_def class_request_def runner_request_def kw_get_def
        acct_ab_def INSTANCE_COST_def py_mul_PInt py_add_PInt all_with_groups_def SPEND_LIMIT_def py_startswith_def
        pget_def class_calls_def class_launch_def)
  then have "submit_request (\<lambda>_. []) env_idle user_ab request ?w = (Inr [], acct_ab\<lparr>trail := class_calls\<rparr>)"
    by (simp add: submit_request_def st_defs user_ab_def launched_ids_def)
  then show ?thesis
    using new read key zone by (simp add: ec2_runner_def bnd_def opts_json_def pget_def)
qed


text \<open>
  The option for the number of instances cannot be used. Its value is a text, so that a request made
  of the options instead of JSON with an explicit count always ends with an exception, whoever
  calls and whatever runs, and launches nothing.
\<close>

theorem runner_count_option_fails:
  assumes "ec2_runner show str_val b64decode E username opts args stdin_json stdin_text w = (r, w')"
    and "dget opts ''stdin_json'' = Some (PBool False)" and "dget opts ''count'' = Some (PStr n)"
  shows "\<exists>e cs. r = Inl e \<and> trail w' = trail w @ cs \<and> (\<forall>c \<in> set cs. no_launch c)"
  using assms(1)
proof (cases rule: ec2_runner_cases)
  case (refused cs e)
  then show ?thesis by blast
next
  case (ran user read request l w1 ds)
  then have "read = picked_options KEYS opts"
    using assms(2) by (auto simp: read_request_def item_def st_defs dlookup_def)
  then have count: "dget request ''count'' = Some (PStr n)"
    using completed_keeps [OF ran(4), of "''count''"] picked_count assms(3) by simp
  from ran(6) show ?thesis
  proof (cases rule: run_instances_cases)
    case (refused cs e)
    with ran show ?thesis by auto
  next
    case (allowed old w2)
    with count count_text_not_allowed show ?thesis by blast
  qed
qed

definition opts_count :: pydict where
  "opts_count = [(''stdin_json'', PBool False), (''count'', PStr ''2''), (''key_name'', PStr ''cs61c-ab-default'')]"

theorem runner_count_option_fails_witness:
  "\<exists>e. fst (ec2_runner (\<lambda>_. []) (\<lambda>_. []) Inr env_idle ''cs61c-ab'' opts_count [] (Inr []) (Inr []) acct_ab) = Inl e"
  using runner_count_option_fails [of "\<lambda>_. []" "\<lambda>_. []" Inr env_idle "''cs61c-ab''" opts_count "[]" "Inr []" "Inr []"
      acct_ab _ _ "''2''", OF surjective_pairing]
  by (auto simp: opts_count_def)

text \<open>The launch of a demand request carries the fields of the request, in the code's order.\<close>

lemma launch_demand_last:
  assumes "launch_demand E info w = (Inr l, w')"
  shows "\<exists>image count key grps data ty rv. dget info ''image_id'' = Some image \<and> dget info ''count'' = Some count
    \<and> dget info ''key_name'' = Some key \<and> dget info ''security_groups'' = Some grps
    \<and> dget info ''user_data'' = Some data \<and> dget info ''instance_type'' = Some ty
    \<and> last (trail w') = RunInstances \<lparr>rq_image_id = image, rq_min_count = count, rq_max_count = count,
        rq_key_name = key, rq_security_groups = grps, rq_user_data = data, rq_instance_type = ty,
        rq_placement = pget info ''availability_zone''\<rparr>
    \<and> ans_reservation E (trail w') = Inr rv \<and> l = Reserved rv"
  using assms by (auto simp: launch_demand_def item_def lift_sum_def perform_def ret_def elim!: bnd_InrE)

lemma run_instances_demand:
  assumes "run_instances show E acc info w = (Inr l, w')"
    and "dget info ''use_spot'' = Some v" and "\<not> py_truth v"
  shows "\<exists>w1. launch_demand E info w1 = (Inr l, w')"
  using assms(1)
proof (cases rule: run_instances_cases)
  case (allowed old w1)
  with assms(2,3) show ?thesis
    by (auto simp: launch_request_def item_def lift_sum_def dlookup_def elim!: andthen_InrE bnd_InrE)
qed simp

text \<open>
  C4: a cluster of the course is launched as any other. The request that the course's class sends,
  when the runner accepts it, reaches EC2 with the image, number, key, groups, type and placement
  of the launch and with the user data decoded again: the very call that the plain EC2 class makes.
  The identifiers printed are those of EC2's reservation.
\<close>

theorem class_cluster_launch:
  assumes codec: "\<And>s. b64decode (b64 s) = Inr s"
    and run: "ec2_runner show str_val b64decode E username opts []
       (Inr (runner_request b64 number ami size_id data grps kwargs)) stdin_text w = (Inr ids, w')"
    and json: "dget opts ''stdin_json'' = Some (PBool True)"
    and no_stdin: "dget opts ''stdin_user_data'' = Some (PBool False)"
    and demand: "\<not> py_truth (kw_get kwargs ''use_spot'' (PBool False))"
  shows "\<exists>rv. ans_reservation E (trail w') = Inr rv \<and> ids = map i_id (r_instances rv)
    \<and> last (trail w') = RunInstances \<lparr>rq_image_id = ami, rq_min_count = number, rq_max_count = number,
        rq_key_name = kw_get kwargs ''key_name'' PNone, rq_security_groups = grps, rq_user_data = PStr data,
        rq_instance_type = size_id, rq_placement = kw_get kwargs ''placement'' PNone\<rparr>"
  using run
proof (cases rule: ec2_runner_cases)
  case (ran user read request l w1 ds)
  let ?sent = "runner_request b64 number ami size_id data grps kwargs"
  have "read = dset ''user_data'' (PStr data) ?sent"
    using ran(3) json codec
    by (auto simp: read_request_def item_def st_defs dlookup_def decode_user_data_def
        runner_request_def do_call_def perform_def split: sum.splits)
  then have request: "request = dset ''availability_zone'' (kw_get kwargs ''placement'' PNone) (dset ''user_data'' (PStr data) ?sent)"
    using ran(4) no_stdin by (simp add: completed_def pget_def with_zone_def runner_request_def)
  obtain l' where l: "l = Inr l'" "ids = launched_ids l'" using ran(7) by (cases l) auto
  have spot: "dget request ''use_spot'' = Some (kw_get kwargs ''use_spot'' (PBool False))"
    by (simp add: request runner_request_def)
  from run_instances_demand [OF ran(6) [unfolded l] spot demand] obtain w2
    where "launch_demand E request w2 = (Inr l', w')" ..
  from launch_demand_last [OF this] l(2) show ?thesis
    by (auto simp: request runner_request_def launched_ids_def pget_def)
qed simp

theorem class_cluster_launch_witness: "last class_calls = class_launch"
  using class_cluster_launch [of "\<lambda>s. Inr (rev s)" rev, OF _ class_run [unfolded class_request_def]]
  by (auto simp: opts_json_def kw_get_def acct_ab_def class_launch_def)


section \<open>Listing, deleting, reporting\<close>

definition always_fails :: "('s, 'a) st \<Rightarrow> bool" where
  "always_fails m \<longleftrightarrow> (\<forall>w. isl (fst (m w)))"

lemma always_failsD: "always_fails m \<Longrightarrow> m w = (r, w') \<Longrightarrow> \<exists>e. r = Inl e"
  unfolding always_fails_def by (metis fst_conv isl_def)

lemma only_calls_stop:
  assumes "always_fails m" and "only_calls P m" shows "only_calls P (andthen m m')"
proof -
  have "snd (andthen m m' w) = snd (m w)" for w
    using always_failsD [OF assms(1)] by (cases "m w") (fastforce simp: andthen_def bnd_def)
  with assms(2) show ?thesis by (simp add: only_calls_def)
qed

fun stops_something :: "call \<Rightarrow> bool" where
  "stops_something (TerminateInstances _) = True"
| "stops_something (CancelSpot _) = True"
| "stops_something _ = False"

abbreviation harmless :: "call \<Rightarrow> bool" where
  "harmless c \<equiv> \<not> stops_something c"

lemma print_instances_harmless: "only_calls harmless (print_instances E xs)"
  by (auto simp: print_instances_def running_time_def intro!: call_rules)

lemma print_instances_fails: "xs \<noteq> [] \<Longrightarrow> always_fails (print_instances E xs)"
  by (cases xs) (auto simp: print_instances_def running_time_def always_fails_def st_defs do_call_def perform_def
      split: sum.splits)

lemma print_spots_harmless: "only_calls harmless (print_spot_requests E xs)"
  by (auto simp: print_spot_requests_def intro!: call_rules)

lemma print_spots_fails: "xs \<noteq> [] \<Longrightarrow> always_fails (print_spot_requests E xs)"
  by (auto simp: print_spot_requests_def always_fails_def st_defs do_call_def perform_def split: sum.splits)

lemma active_listings_harmless:
  "only_calls harmless (running_instances E acc)" "only_calls harmless (running_spot_requests E acc)"
  by (auto simp: running_instances_def running_spot_requests_def has_conn_def intro!: call_rules)

text \<open>
  Listing with \<open>--terminate-all\<close> or \<open>--cancel-spot-requests\<close> never terminates an instance and
  never cancels a request, whatever EC2 answers: with anything to list the script fails before
  it gets there.
\<close>

theorem ec2_active_stops_nothing:
  "only_calls harmless (ec2_active E username terminate_all cancel_spot_requests)"
proof -
  have rest: "only_calls harmless
    (andthen (print_instances E xs) (andthen (print_spot_requests E requests)
      (andthen (if cancel_spot_requests \<or> terminate_all then cancel_requests E requests else ret ())
      (andthen (if terminate_all then terminate_instances_of E requests xs else ret ()) m))))"
    if "only_calls harmless m" for xs requests m
  proof (cases "xs = []")
    case False
    then show ?thesis by (intro only_calls_stop print_instances_fails print_instances_harmless)
  next
    case none: True
    show ?thesis
    proof (cases "requests = []")
      case False
      then show ?thesis
        by (intro only_calls_andthen print_instances_harmless only_calls_stop print_spots_fails print_spots_harmless)
    next
      case True
      with none that show ?thesis
        by (auto simp: cancel_requests_def terminate_instances_of_def
            intro!: call_rules print_instances_harmless print_spots_harmless)
    qed
  qed
  show ?thesis unfolding ec2_active_def
    by (intro call_rules active_listings_harmless rest)
      (auto simp: new_user_def init_access_keys_def print_hints_def intro!: call_rules)
qed

lemma delete_user_run:
  "delete_user E n w = (Inr (), w\<lparr>db := delete_user_row n (db w)\<rparr>)"
  by (simp add: delete_user_def iam_delete_user_def on_db_def st_defs)

lemma delete_loop:
  assumes "\<And>h. ans_unit E h = Inr ()"
  shows "for_each (\<lambda>n. andthen (do_call E (Os (Print (shown n)))) (delete_user E n)) names w =
    (Inr (), w\<lparr>trail := trail w @ map (\<lambda>n. Os (Print (shown n))) names,
               db := fold delete_user_row names (db w)\<rparr>)"
  using assms
  by (induction names arbitrary: w)
    (simp_all add: st_defs do_call_def perform_def delete_user_run)

lemma fold_delete_rows:
  "users (fold delete_user_row names d) = filter (\<lambda>r. u_name r \<notin> set names) (users d)"
  by (induction names arbitrary: d) (auto simp: delete_user_row_def intro: filter_cong)

text \<open>
  Deleting all accounts deletes none of them at IAM. When every call works and the answer is yes, the
  script goes through all users that IAM lists and forgets their rows, but makes no call to IAM
  other than the listing.
\<close>

theorem kill_all_keeps_identities:
  assumes "\<And>h. ans_unit E h = Inr ()" and "\<And>h. ans_text E h = Inr ''yes''" and "\<And>h. ans_texts E h = Inr names"
    and "kill_all_accounts shown E w = (r, w')"
  shows "r = Inr () \<and> users (db w') = filter (\<lambda>x. u_name x \<notin> set names) (users (db w))
    \<and> (\<exists>cs. trail w' = trail w @ cs \<and> (\<forall>c. Iam c \<in> set cs \<longrightarrow> c = IamListUsers))"
proof -
  have "w' = w\<lparr>trail := trail w @ [Os (Prompt ''Delete all identities on account? Are you sure? (yes/NO) ''), Iam IamListUsers]
        @ map (\<lambda>n. Os (Print (shown n))) names, db := fold delete_user_row names (db w)\<rparr>" "r = Inr ()"
    using assms(4) by (auto simp: kill_all_accounts_def bnd_def perform_def assms(2,3) delete_loop [OF assms(1)])
  then show ?thesis by (auto simp: fold_delete_rows)
qed

theorem kill_all_keeps_identities_witness:
  "users (db (snd (kill_all_accounts (\<lambda>n. n) (env_idle\<lparr>ans_text := \<lambda>_. Inr ''yes'', ans_texts := \<lambda>_. Inr [''cs61c-ab'']\<rparr>)
     (acct_ab\<lparr>db := (db acct_ab)\<lparr>users := [\<lparr>u_name = ''cs61c-ab'', u_create_time = [], u_create_account = [], u_password = None\<rparr>]\<rparr>\<rparr>)))) = []"
  using kill_all_keeps_identities [of "env_idle\<lparr>ans_text := \<lambda>_. Inr ''yes'', ans_texts := \<lambda>_. Inr [''cs61c-ab'']\<rparr>"
      "[''cs61c-ab'']" "\<lambda>n. n" _ _ "snd (kill_all_accounts _ _ _)", OF _ _ _ surjective_pairing]
  by (simp add: env_idle_def)

text \<open>What a report may ask EC2: the listings of a user's own keys.\<close>

fun asks_for :: "string \<Rightarrow> call \<Rightarrow> bool" where
  "asks_for u (GetAllInstances ids f) \<longleftrightarrow> ids = None \<and> f = name_filter ''key-name'' (Some u)"
| "asks_for u (GetAllSpotRequests ids f) \<longleftrightarrow> ids = None \<and> f = name_filter ''launch.key_name'' (Some u)"
| "asks_for u (Os _) \<longleftrightarrow> True"
| "asks_for u _ \<longleftrightarrow> False"

lemma quiet_calls: "(\<And>w. trail (snd (m w)) = trail w) \<Longrightarrow> only_calls P m"
  by (auto simp: only_calls_def)

lemma statement_calls: "only_calls P begin_tx" "only_calls P commit_tx" "only_calls P (insert_stop i t)"
  by (rule quiet_calls; simp add: begin_tx_def commit_tx_def insert_stop_def on_udb_def st_defs split: option.splits)+

lemma user_report_asks: "only_calls (asks_for u) (user_report jd num fmt fmt_total E u True True)"
  by (auto simp: user_report_def update_instances_def update_spot_requests_def record_instance_def record_spot_def
      on_udb_def intro!: call_rules statement_calls split: prod.splits)

text \<open>
  A student's report is about the student. Whatever arguments the command is given, a user that
  is not of the staff makes it ask EC2 for the listings of the user's own keys only, and change
  nothing there.
\<close>

theorem usage_report_own_keys:
  assumes "\<not> may_name_user u" and "u \<noteq> ''ALL''"
  shows "only_calls (asks_for u) (usage_report jd num fmt fmt_total money E u args)"
  using assms
  by (auto simp: usage_report_def reported_user_def Let_def intro!: call_rules user_report_asks split: prod.splits)

theorem usage_report_own_keys_witness:
  "only_calls (asks_for ''cs61c-ab'') (usage_report jd num fmt fmt_total money E ''cs61c-ab'' [''ALL''])"
  by (rule usage_report_own_keys) (simp_all add: may_name_user_def py_startswith_def)

end
