(* ===== verification/BotoText.thy ===== *)
theory BotoText
  imports PyString "HOL-Library.List_Lexorder" "HOL-Library.Char_ord"
begin

text \<open>
  Texts on the wire: \<open>urllib.quote\<close> of the standard library, which boto applies to the names and
  values of a request, the text of a value (\<open>boto.utils.get_utf8_value\<close>), and lists of quoted
  pairs joined by \<open>&\<close>. The point of the lemmas is that nothing is lost: the joined text
  determines the pairs.
\<close>


section \<open>Percent encoding\<close>

definition hex_digit :: "nat \<Rightarrow> char" where
  "hex_digit n = (if n < 10 then char_of (48 + n) else char_of (55 + n))"

definition hex_value :: "char \<Rightarrow> nat" where
  "hex_value c = (if (of_char c :: nat) < 58 then of_char c - 48 else of_char c - 55)"

definition always_safe :: "char \<Rightarrow> bool" where
  "always_safe c \<longleftrightarrow> is_digit c \<or> (65 \<le> (of_char c :: nat) \<and> (of_char c :: nat) \<le> 90)
     \<or> (97 \<le> (of_char c :: nat) \<and> (of_char c :: nat) \<le> 122) \<or> c \<in> set ''_.-''"

definition quote_char :: "string \<Rightarrow> char \<Rightarrow> string" where
  "quote_char safe c =
     (if always_safe c \<or> c \<in> set safe then [c]
      else [CHR ''%'', hex_digit (of_char c div 16), hex_digit (of_char c mod 16)])"

definition urllib_quote :: "string \<Rightarrow> string \<Rightarrow> string" where
  "urllib_quote safe s = concat (map (quote_char safe) s)"

text \<open>The reader of percent encoded text that the laws refer to.\<close>

fun unquote :: "string \<Rightarrow> string" where
  "unquote (c # a # b # s) =
     (if c = CHR ''%'' then char_of (16 * hex_value a + hex_value b) # unquote s else c # unquote (a # b # s))"
| "unquote s = s"

lemma hex_value_hex_digit [simp]: "n < 16 \<Longrightarrow> hex_value (hex_digit n) = n"
  by (simp add: hex_value_def hex_digit_def)

lemma unquote_plain: "c \<noteq> CHR ''%'' \<Longrightarrow> unquote (c # s) = c # unquote s"
  by (cases s; cases "tl s") auto

lemma of_char_less_256: "(of_char c :: nat) < 256"
  by (metis mod_less_divisor of_char_mod_256 zero_less_numeral)

lemma unquote_quote_char:
  assumes "CHR ''%'' \<notin> set safe"
  shows "unquote (quote_char safe c @ s) = c # unquote s"
proof (cases "always_safe c \<or> c \<in> set safe")
  case True
  moreover have "\<not> always_safe (CHR ''%'')" by (simp add: always_safe_def is_digit_def)
  ultimately have "c \<noteq> CHR ''%''" using assms by auto
  with True show ?thesis by (simp add: quote_char_def unquote_plain)
next
  case False
  have "(of_char c :: nat) < 256" by (rule of_char_less_256)
  then have "(of_char c :: nat) div 16 < 16" by (simp add: less_mult_imp_div_less)
  with False show ?thesis by (simp add: quote_char_def)
qed

lemma unquote_quote [str_laws]: "CHR ''%'' \<notin> set safe \<Longrightarrow> unquote (urllib_quote safe s) = s"
  by (induction s) (simp_all add: urllib_quote_def unquote_quote_char)

lemma urllib_quote_inj:
  "CHR ''%'' \<notin> set safe \<Longrightarrow> urllib_quote safe s = urllib_quote safe t \<longleftrightarrow> s = t"
  by (metis unquote_quote)

lemma always_safe_hex: "n < 16 \<Longrightarrow> always_safe (hex_digit n)"
  by (auto simp: always_safe_def hex_digit_def is_digit_def)

lemma quoted_chars: "c \<in> set (urllib_quote safe s) \<Longrightarrow> always_safe c \<or> c \<in> set safe \<or> c = CHR ''%''"
proof -
  have "(of_char d :: nat) div 16 < 16" for d :: char
    using of_char_less_256 [of d] by (simp add: less_mult_imp_div_less)
  then show "c \<in> set (urllib_quote safe s) \<Longrightarrow> ?thesis"
    by (auto simp: urllib_quote_def quote_char_def always_safe_hex split: if_splits)
qed

lemma quote_hides [str_laws]:
  assumes "c \<in> set [CHR ''='', CHR ''&'', nl]" and "c \<notin> set safe"
  shows "c \<notin> set (urllib_quote safe s)"
proof
  assume "c \<in> set (urllib_quote safe s)"
  from quoted_chars [OF this] assms show False by (auto simp: always_safe_def is_digit_def)
qed


section \<open>The text of a value\<close>

text \<open>
  \<open>get_utf8_value\<close>: a text is itself, anything else is printed. \<open>rep\<close> prints floats and
  containers, whose notation is left open.
\<close>

definition utf8_value :: "(pyval \<Rightarrow> string) \<Rightarrow> pyval \<Rightarrow> string" where
  "utf8_value rep v =
     (case v of
        PStr s \<Rightarrow> s
      | PInt i \<Rightarrow> int_str i
      | PBool b \<Rightarrow> (if b then ''True'' else ''False'')
      | PNone \<Rightarrow> ''None''
      | _ \<Rightarrow> rep v)"


section \<open>Query strings\<close>

definition quote_pair :: "string \<Rightarrow> string \<times> string \<Rightarrow> string" where
  "quote_pair safe p = urllib_quote [] (fst p) @ ''='' @ urllib_quote safe (snd p)"

definition query_text :: "string \<Rightarrow> (string \<times> string) list \<Rightarrow> string" where
  "query_text safe ps = py_join ''&'' (map (quote_pair safe) ps)"

definition read_pair :: "string \<Rightarrow> string \<times> string" where
  "read_pair s = (let xs = py_split (CHR ''='') s in (unquote (hd xs), unquote (last xs)))"

definition read_query :: "string \<Rightarrow> (string \<times> string) list" where
  "read_query s = map read_pair (py_split (CHR ''&'') s)"

lemma read_quote_pair:
  assumes "CHR ''%'' \<notin> set safe" and "CHR ''='' \<notin> set safe"
  shows "read_pair (quote_pair safe p) = p"
proof -
  have "CHR ''='' \<notin> set (urllib_quote [] (fst p))" "CHR ''='' \<notin> set (urllib_quote safe (snd p))"
    using assms by (simp_all add: quote_hides)
  then have "py_split (CHR ''='') (quote_pair safe p) = [urllib_quote [] (fst p), urllib_quote safe (snd p)]"
    by (simp add: quote_pair_def py_split_append py_split_free)
  then show ?thesis using assms by (simp add: read_pair_def unquote_quote)
qed

lemma read_query_text [str_laws]:
  assumes "ps \<noteq> []" and "CHR ''%'' \<notin> set safe" and "CHR ''='' \<notin> set safe" and "CHR ''&'' \<notin> set safe"
  shows "read_query (query_text safe ps) = ps"
proof -
  have "CHR ''&'' \<notin> set (quote_pair safe p)" for p
    using assms(4) by (simp add: quote_pair_def quote_hides)
  then have "py_split (CHR ''&'') (query_text safe ps) = map (quote_pair safe) ps"
    using assms(1) unfolding query_text_def by (intro py_split_join) auto
  then show ?thesis using assms by (simp add: read_query_def read_quote_pair map_idI)
qed

lemma query_text_one_line: "nl \<notin> set safe \<Longrightarrow> nl \<notin> set (query_text safe ps)"
proof -
  assume "nl \<notin> set safe"
  then have "nl \<notin> set (quote_pair safe p)" for p by (simp add: quote_pair_def quote_hides)
  moreover have "nl \<notin> set (py_join ''&'' xs)" if "\<forall>x \<in> set xs. nl \<notin> set x" for xs
    using that by (induction "''&''" xs rule: py_join.induct) auto
  ultimately show ?thesis by (simp add: query_text_def)
qed

end
