(* ===== verification/BotoQuery.thy ===== *)
theory BotoQuery
  imports BotoText
begin

text \<open>
  What the requests of boto's query interfaces are made of (\<open>AWSQueryConnection\<close> in
  \<open>boto/connection.py\<close>, the helpers of \<open>boto/ec2/connection.py\<close>): numbered lists, filters, tags and
  block devices become flat parameters. A method of the interface ends in \<open>get_list\<close>, \<open>get_object\<close>,
  \<open>get_status\<close> or \<open>get_response\<close> with an action and its parameters; the model of the method is that
  \<open>query\<close>, or the exception raised while it is put together. How a query is sent is in
  \<open>BotoConnection\<close>. The lemmas show that the flat parameters can be read back, and collect in
  \<open>query_intros\<close> what keeps the parameters well formed.
\<close>

named_theorems query_intros \<open>rules that show a query well formed\<close>


section \<open>Queries\<close>

text \<open>
  How the reply is parsed (a list of items of a class, one object, the status, or an element of
  IAM with its list marker), and what the method makes of the parsed reply.
\<close>

datatype reply_kind =
    ReplyList string
  | ReplyObject string
  | ReplyStatus
  | ReplyElement string

datatype reply_use =
    Whole
  | Attributes "string list"
  | AttributeOrNone string
  | FirstOrNone
  | WithAttributes "(string \<times> pyval) list"

record query =
  q_action :: string
  q_params :: pydict
  q_verb :: string
  q_reply :: reply_kind
  q_use :: reply_use

definition get_list :: "string \<Rightarrow> pydict \<Rightarrow> string \<Rightarrow> query" where
  "get_list action params cls =
     \<lparr>q_action = action, q_params = params, q_verb = ''GET'', q_reply = ReplyList cls, q_use = Whole\<rparr>"

definition get_object :: "string \<Rightarrow> pydict \<Rightarrow> string \<Rightarrow> query" where
  "get_object action params cls =
     \<lparr>q_action = action, q_params = params, q_verb = ''GET'', q_reply = ReplyObject cls, q_use = Whole\<rparr>"

definition get_status :: "string \<Rightarrow> pydict \<Rightarrow> query" where
  "get_status action params =
     \<lparr>q_action = action, q_params = params, q_verb = ''GET'', q_reply = ReplyStatus, q_use = Whole\<rparr>"

definition sbind :: "py_exc + 'a \<Rightarrow> ('a \<Rightarrow> py_exc + 'b) \<Rightarrow> py_exc + 'b" where
  "sbind r f = (case r of Inl e \<Rightarrow> Inl e | Inr x \<Rightarrow> f x)"

lemma sbind_simps [simp]: "sbind (Inl e) f = Inl e" "sbind (Inr x) f = f x"
  by (simp_all add: sbind_def)

lemma sbind_Inr_iff: "sbind r f = Inr y \<longleftrightarrow> (\<exists>x. r = Inr x \<and> f x = Inr y)"
  by (cases r) auto


section \<open>Parameters\<close>

text \<open>\<open>if v: params[name] = v\<close>, and the same with the text \<open>true\<close>.\<close>

definition opt_param :: "string \<Rightarrow> pyval \<Rightarrow> pydict \<Rightarrow> pydict" where
  "opt_param name v params = (if py_truth v then dset name v params else params)"

definition with_optional :: "pydict \<Rightarrow> pydict \<Rightarrow> pydict" where
  "with_optional params opts = fold (\<lambda>(name, v). opt_param name v) opts params"

definition opt_flag :: "string \<Rightarrow> pyval \<Rightarrow> pydict \<Rightarrow> pydict" where
  "opt_flag name v params = (if py_truth v then dset name (PStr ''true'') params else params)"

definition list_key :: "string \<Rightarrow> nat \<Rightarrow> string" where
  "list_key label i = label @ ''.'' @ nat_str i"

definition number_params :: "string \<Rightarrow> pyval list \<Rightarrow> pydict \<Rightarrow> pydict" where
  "number_params label xs params = fold (\<lambda>(i, x). dset (list_key label i) x) (enumerate 1 xs) params"

text \<open>A text is one item; only sequences have a length and can be indexed by numbers.\<close>

definition build_list_params :: "pydict \<Rightarrow> pyval \<Rightarrow> string \<Rightarrow> py_exc + pydict" where
  "build_list_params params items label =
     (case items of
        PStr s \<Rightarrow> Inr (number_params label [PStr s] params)
      | PList xs \<Rightarrow> Inr (number_params label xs params)
      | PDict d \<Rightarrow> if d = [] then Inr params else Inl (KeyError ''0'')
      | _ \<Rightarrow> Inl TypeError)"

definition opt_list :: "string \<Rightarrow> pyval \<Rightarrow> pydict \<Rightarrow> py_exc + pydict" where
  "opt_list label v params = (if py_truth v then build_list_params params v label else Inr params)"

text \<open>Filters are a dict from names to a value or a list of values; none is the empty dict.\<close>

definition filter_values :: "pyval \<Rightarrow> pyval list" where
  "filter_values v = (case v of PList xs \<Rightarrow> xs | _ \<Rightarrow> [v])"

definition filter_name_key :: "nat \<Rightarrow> string" where
  "filter_name_key i = ''Filter.'' @ nat_str i @ ''.Name''"

definition filter_value_label :: "nat \<Rightarrow> string" where
  "filter_value_label i = ''Filter.'' @ nat_str i @ ''.Value''"

definition add_filter :: "nat \<times> string \<times> pyval \<Rightarrow> pydict \<Rightarrow> pydict" where
  "add_filter f params =
     (case f of (i, name, v) \<Rightarrow>
        number_params (filter_value_label i) (filter_values v)
          (dset (filter_name_key i) (PStr (py_replace ''_'' ''-'' name)) params))"

definition build_filter_params :: "pydict \<Rightarrow> pydict \<Rightarrow> pydict" where
  "build_filter_params params filters = fold add_filter (enumerate 1 filters) params"

definition opt_filters :: "pydict \<Rightarrow> pydict \<Rightarrow> pydict" where
  "opt_filters filters params = (if filters \<noteq> [] then build_filter_params params filters else params)"

definition tag_key :: "nat \<Rightarrow> string" where "tag_key i = ''Tag.'' @ nat_str i @ ''.Key''"
definition tag_value_key :: "nat \<Rightarrow> string" where "tag_value_key i = ''Tag.'' @ nat_str i @ ''.Value''"

definition build_tag_param_list :: "pydict \<Rightarrow> pydict \<Rightarrow> pydict" where
  "build_tag_param_list params tags =
     fold (\<lambda>(i, key) p.
        let p' = dset (tag_key i) (PStr key) p; v = pget tags key in
        if v = PNone then p' else dset (tag_value_key i) v p')
       (enumerate 1 (sort (map fst tags))) params"

text \<open>\<open>BlockDeviceMapping\<close>, a dict from device names to the attributes of \<open>BlockDeviceType\<close>.\<close>

record block_device =
  bd_ephemeral_name :: pyval
  bd_no_device :: bool
  bd_snapshot_id :: pyval
  bd_size :: pyval
  bd_delete_on_termination :: bool

definition add_block_device :: "string \<Rightarrow> nat \<times> string \<times> block_device \<Rightarrow> pydict \<Rightarrow> pydict" where
  "add_block_device prefix d params =
     (case d of (i, dev_name, b) \<Rightarrow>
        let pre = prefix @ ''BlockDeviceMapping.'' @ nat_str i;
            p = dset (pre @ ''.DeviceName'') (PStr dev_name) params in
        if py_truth (bd_ephemeral_name b) then dset (pre @ ''.VirtualName'') (bd_ephemeral_name b) p
        else dset (pre @ ''.Ebs.DeleteOnTermination'')
               (PStr (if bd_delete_on_termination b then ''true'' else ''false''))
             (opt_param (pre @ ''.Ebs.VolumeSize'') (bd_size b)
             (opt_param (pre @ ''.Ebs.SnapshotId'') (bd_snapshot_id b)
             (opt_flag (pre @ ''.Ebs.NoDevice'') (PBool (bd_no_device b)) p))))"

definition block_device_params ::
  "string \<Rightarrow> (string, block_device) dict \<Rightarrow> pydict \<Rightarrow> pydict" where
  "block_device_params prefix m params = fold (add_block_device prefix) (enumerate 1 m) params"



section \<open>Reading the parameters back\<close>

fun read_list_from :: "nat \<Rightarrow> nat \<Rightarrow> string \<Rightarrow> pydict \<Rightarrow> pyval list" where
  "read_list_from 0 i label p = []"
| "read_list_from (Suc n) i label p =
     (case dget p (list_key label i) of None \<Rightarrow> [] | Some v \<Rightarrow> v # read_list_from n (Suc i) label p)"

definition read_list :: "string \<Rightarrow> pydict \<Rightarrow> pyval list" where
  "read_list label p = read_list_from (Suc (length p)) 1 label p"

lemma list_key_inj [simp]: "list_key label i = list_key label j \<longleftrightarrow> i = j"
  by (simp add: list_key_def)

text \<open>The items are found under their numbers, everything else is as before.\<close>

lemma dget_numbered_other:
  "\<forall>i < length xs. k \<noteq> list_key label (n + i) \<Longrightarrow>
     dget (fold (\<lambda>(i, x). dset (list_key label i) x) (enumerate n xs) p) k = dget p k"
proof (induction xs arbitrary: n p)
  case (Cons x xs)
  then have "k \<noteq> list_key label n" "\<forall>i < length xs. k \<noteq> list_key label (Suc n + i)"
    by (force, fastforce)
  with Cons.IH [of "Suc n"] show ?case by (simp add: dget_dset)
qed simp

lemma dget_numbered:
  "i < length xs \<Longrightarrow>
     dget (fold (\<lambda>(i, x). dset (list_key label i) x) (enumerate n xs) p) (list_key label (n + i)) = Some (xs ! i)"
proof (induction xs arbitrary: n p i)
  case (Cons x xs)
  show ?case
  proof (cases i)
    case 0
    have "\<forall>j < length xs. list_key label n \<noteq> list_key label (Suc n + j)" by simp
    from dget_numbered_other [OF this, of "dset (list_key label n) x p"] 0 show ?thesis by (simp add: dget_dset)
  next
    case (Suc j)
    with Cons show ?thesis using Cons.IH [of j "Suc n"] by simp
  qed
qed simp

lemma dget_number_params [simp]:
  "i < length xs \<Longrightarrow> dget (number_params label xs p) (list_key label (Suc i)) = Some (xs ! i)"
  using dget_numbered [of i xs label 1 p] by (simp add: number_params_def)

lemma dget_number_params_other:
  "\<forall>i < length xs. k \<noteq> list_key label (Suc i) \<Longrightarrow> dget (number_params label xs p) k = dget p k"
  using dget_numbered_other [of xs k label 1 p] by (simp add: number_params_def)

lemma read_list_from_exact:
  assumes "\<forall>i < length xs. dget p (list_key label (n + i)) = Some (xs ! i)"
    and "dget p (list_key label (n + length xs)) = None" and "length xs < fuel"
  shows "read_list_from fuel n label p = xs"
  using assms
proof (induction xs arbitrary: n fuel)
  case Nil
  then show ?case by (cases fuel) auto
next
  case (Cons x xs)
  then obtain f where f: "fuel = Suc f" "length xs < f" by (cases fuel) auto
  have "\<forall>i < length xs. dget p (list_key label (Suc n + i)) = Some (xs ! i)" using Cons.prems(1) by fastforce
  with Cons.IH [of "Suc n" f] Cons.prems f show ?case by fastforce
qed

lemma keys_fit:
  assumes "inj key" and "\<forall>i < n. dget p (key (Suc i)) \<noteq> None"
  shows "n \<le> length p"
proof -
  have "(\<lambda>i. key (Suc i)) ` {..<n} \<subseteq> set (map fst p)"
    using assms(2) by (fastforce simp: map_of_eq_None_iff)
  moreover have "card ((\<lambda>i. key (Suc i)) ` {..<n}) = n"
    using assms(1) by (subst card_image) (auto simp: inj_on_def)
  ultimately have "n \<le> card (set (map fst p))" by (metis card_mono finite_set)
  also have "\<dots> \<le> length p" by (metis card_length length_map)
  finally show ?thesis .
qed

lemma read_list_exact:
  assumes "\<forall>i < length xs. dget p (list_key label (Suc i)) = Some (xs ! i)"
    and "dget p (list_key label (Suc (length xs))) = None"
  shows "read_list label p = xs"
proof -
  have "length xs \<le> length p" using assms(1) by (intro keys_fit [of "list_key label"]) (auto simp: inj_def)
  with assms show ?thesis using read_list_from_exact [of xs p label 1]
    by (simp add: read_list_def del: read_list_from.simps)
qed


subsection \<open>Filters\<close>

lemma nat_str_dot_inj [simp]:
  "nat_str i @ CHR ''.'' # x = nat_str j @ CHR ''.'' # y \<longleftrightarrow> i = j \<and> x = y"
proof
  assume eq: "nat_str i @ CHR ''.'' # x = nat_str j @ CHR ''.'' # y"
  have "CHR ''.'' \<notin> set (nat_str k)" for k by (rule not_digit_not_in_nat_str) (simp add: is_digit_def)
  then have "takeWhile (\<lambda>c. c \<noteq> CHR ''.'') (nat_str k @ CHR ''.'' # z) = nat_str k" for k z
    by (subst takeWhile_append2) auto
  with arg_cong [OF eq, of "takeWhile (\<lambda>c. c \<noteq> CHR ''.'')"] have "nat_str i = nat_str j" by simp
  with eq show "i = j \<and> x = y" by simp
qed simp

definition is_filter_key :: "nat \<Rightarrow> string \<Rightarrow> bool" where
  "is_filter_key i k \<longleftrightarrow> (\<exists>r. k = ''Filter.'' @ nat_str i @ ''.'' @ r)"

lemma is_filter_key_unique: "is_filter_key i k \<Longrightarrow> is_filter_key j k \<Longrightarrow> i = j"
  by (auto simp: is_filter_key_def)

lemma filter_keys [simp]:
  "is_filter_key i (filter_name_key i)" "is_filter_key i (list_key (filter_value_label i) m)"
  by (auto simp: is_filter_key_def filter_name_key_def filter_value_label_def list_key_def)

lemma filter_name_not_value [simp]: "filter_name_key i \<noteq> list_key (filter_value_label j) m"
  by (auto simp: filter_name_key_def filter_value_label_def list_key_def)

lemma dget_add_filter_other: "\<not> is_filter_key i k \<Longrightarrow> dget (add_filter (i, n, v) p) k = dget p k"
proof -
  assume k: "\<not> is_filter_key i k"
  then have "\<forall>m < length (filter_values v). k \<noteq> list_key (filter_value_label i) (Suc m)" "k \<noteq> filter_name_key i"
    using filter_keys by blast+
  then show ?thesis by (simp add: add_filter_def dget_number_params_other dget_dset)
qed

lemma dget_add_filters_other:
  "\<forall>i < length fs. \<not> is_filter_key (n + i) k \<Longrightarrow> dget (fold add_filter (enumerate n fs) p) k = dget p k"
proof (induction fs arbitrary: n p)
  case (Cons f fs)
  have "\<not> is_filter_key n k" using Cons.prems by force
  moreover have "\<forall>i < length fs. \<not> is_filter_key (Suc n + i) k" using Cons.prems by force
  ultimately show ?case
    using Cons.IH [of "Suc n"] dget_add_filter_other [of n k "fst f" "snd f" p] by simp
qed simp

lemma dget_fold_dset_cong:
  "dget p k = dget p' k \<Longrightarrow> dget (fold (\<lambda>(i, x). dset (g i) x) xs p) k = dget (fold (\<lambda>(i, x). dset (g i) x) xs p') k"
proof (induction xs arbitrary: p p')
  case (Cons x xs)
  have "dget (dset (g (fst x)) (snd x) p) k = dget (dset (g (fst x)) (snd x) p') k"
    using Cons.prems by (simp add: dget_dset)
  from Cons.IH [OF this] show ?case by (simp add: case_prod_unfold)
qed simp

lemma dget_add_filter_cong: "dget p k = dget p' k \<Longrightarrow> dget (add_filter f p) k = dget (add_filter f p') k"
  unfolding add_filter_def number_params_def
  by (cases f) (auto intro!: dget_fold_dset_cong simp: dget_dset)

lemma dget_add_filters:
  "i < length fs \<Longrightarrow> is_filter_key (n + i) k \<Longrightarrow>
     dget (fold add_filter (enumerate n fs) p) k = dget (add_filter (n + i, fs ! i) p) k"
proof (induction fs arbitrary: n p i)
  case (Cons f fs)
  show ?case
  proof (cases i)
    case 0
    have "\<forall>j < length fs. \<not> is_filter_key (Suc n + j) k"
    proof (intro allI impI notI)
      fix j assume "is_filter_key (Suc n + j) k"
      from is_filter_key_unique [OF this Cons.prems(2)] 0 show False by simp
    qed
    with 0 show ?thesis using dget_add_filters_other [of fs "Suc n" k "add_filter (n, f) p"] by simp
  next
    case (Suc j)
    have "\<not> is_filter_key n k" using is_filter_key_unique [OF _ Cons.prems(2), of n] Suc by auto
    then have "dget (add_filter (n, f) p) k = dget p k" by (cases f) (simp add: dget_add_filter_other)
    with Suc Cons.prems Cons.IH [of j "Suc n" "add_filter (n, f) p"] show ?thesis
      using dget_add_filter_cong [of "add_filter (n, f) p" k p "(n + i, fs ! j)"] by simp
  qed
qed simp

fun read_filters_from :: "nat \<Rightarrow> nat \<Rightarrow> pydict \<Rightarrow> (pyval \<times> pyval list) list" where
  "read_filters_from 0 i p = []"
| "read_filters_from (Suc fuel) i p =
     (case dget p (filter_name_key i) of
        None \<Rightarrow> []
      | Some name \<Rightarrow> (name, read_list (filter_value_label i) p) # read_filters_from fuel (Suc i) p)"

definition read_filters :: "pydict \<Rightarrow> (pyval \<times> pyval list) list" where
  "read_filters p = read_filters_from (Suc (length p)) 1 p"

definition wire_filter :: "string \<times> pyval \<Rightarrow> pyval \<times> pyval list" where
  "wire_filter f = (PStr (py_replace ''_'' ''-'' (fst f)), filter_values (snd f))"

lemma read_filters_from_exact:
  assumes "\<forall>i < length fs. dget p (filter_name_key (n + i)) = Some (fst (wire_filter (fs ! i)))
      \<and> read_list (filter_value_label (n + i)) p = snd (wire_filter (fs ! i))"
    and "dget p (filter_name_key (n + length fs)) = None" and "length fs < fuel"
  shows "read_filters_from fuel n p = map wire_filter fs"
  using assms
proof (induction fs arbitrary: n fuel)
  case Nil
  then show ?case by (cases fuel) auto
next
  case (Cons f fs)
  then obtain g where g: "fuel = Suc g" "length fs < g" by (cases fuel) auto
  have "\<forall>i < length fs. dget p (filter_name_key (Suc n + i)) = Some (fst (wire_filter (fs ! i)))
      \<and> read_list (filter_value_label (Suc n + i)) p = snd (wire_filter (fs ! i))" using Cons.prems(1) by fastforce
  with Cons.IH [of "Suc n" g] Cons.prems g show ?case by fastforce
qed

text \<open>The parameters of a request without filters of its own give the filters back.\<close>

lemma read_filters_build:
  assumes "\<And>i k. is_filter_key i k \<Longrightarrow> dget p k = None"
  shows "read_filters (build_filter_params p fs) = map wire_filter fs"
proof -
  let ?q = "build_filter_params p fs"
  have at: "dget ?q k = dget (add_filter (Suc i, fs ! i) p) k" if "i < length fs" "is_filter_key (Suc i) k" for i k
    using dget_add_filters [of i fs 1 k p] that by (simp add: build_filter_params_def)
  have beyond: "dget ?q k = None" if "is_filter_key (Suc (length fs)) k" for k
  proof -
    have "\<forall>i < length fs. \<not> is_filter_key (1 + i) k" using is_filter_key_unique [OF that] by fastforce
    then show ?thesis using dget_add_filters_other [of fs 1 k p] assms [OF that] by (simp add: build_filter_params_def)
  qed
  have name: "dget ?q (filter_name_key (Suc i)) = Some (fst (wire_filter (fs ! i)))" if "i < length fs" for i
    using at [OF that filter_keys(1)]
    by (cases "fs ! i") (simp add: add_filter_def dget_number_params_other dget_dset wire_filter_def)
  have vals: "read_list (filter_value_label (Suc i)) ?q = snd (wire_filter (fs ! i))" if "i < length fs" for i
  proof (rule read_list_exact)
    have eq: "dget ?q (list_key (filter_value_label (Suc i)) m) = dget (add_filter (Suc i, fs ! i) p) (list_key (filter_value_label (Suc i)) m)" for m
      by (rule at [OF that filter_keys(2)])
    show "\<forall>m < length (snd (wire_filter (fs ! i))).
        dget ?q (list_key (filter_value_label (Suc i)) (Suc m)) = Some (snd (wire_filter (fs ! i)) ! m)"
      unfolding eq by (cases "fs ! i") (simp add: add_filter_def wire_filter_def)
    show "dget ?q (list_key (filter_value_label (Suc i)) (Suc (length (snd (wire_filter (fs ! i)))))) = None"
      unfolding eq using assms [OF filter_keys(2)]
      by (cases "fs ! i") (simp add: add_filter_def wire_filter_def dget_number_params_other dget_dset
          filter_name_not_value [symmetric] del: filter_name_not_value)
  qed
  have "length fs \<le> length ?q" using name by (intro keys_fit [of filter_name_key]) (auto simp: inj_def filter_name_key_def)
  then show ?thesis unfolding read_filters_def
    using name vals beyond [OF filter_keys(1)] by (intro read_filters_from_exact) auto
qed

lemma build_list_params_reads_back:
  assumes "build_list_params p items label = Inr q" and "\<And>i. dget p (list_key label i) = None"
  shows "read_list label q = (case items of PStr s \<Rightarrow> [PStr s] | PList xs \<Rightarrow> xs | _ \<Rightarrow> [])"
proof -
  have "read_list label (number_params label xs p) = xs" for xs
    by (rule read_list_exact) (simp_all add: dget_number_params_other assms(2))
  moreover have "read_list label p = []" by (rule read_list_exact) (simp_all add: assms(2))
  ultimately show ?thesis using assms(1) by (auto simp: build_list_params_def split: pyval.splits if_splits)
qed

section \<open>Well-formed queries\<close>

text \<open>
  The parameters that \<open>make_request\<close> and the signature add later. A method whose own parameter
  had one of these names would lose it; none does.
\<close>

definition reserved :: "string set" where
  "reserved = {''Action'', ''Version'', ''AWSAccessKeyId'', ''SignatureVersion'', ''Timestamp'', ''SignatureMethod'', ''Signature''}"

definition params_ok :: "pydict \<Rightarrow> bool" where
  "params_ok p \<longleftrightarrow> dict_ok p \<and> (\<forall>k \<in> fst ` set p. k \<notin> reserved)"

definition query_ok :: "query \<Rightarrow> bool" where
  "query_ok q \<longleftrightarrow> params_ok (q_params q) \<and> q_action q \<noteq> [] \<and> (q_verb q = ''GET'' \<or> q_verb q = ''POST'')"

lemma dotted_free [simp]: "CHR ''.'' \<in> set k \<Longrightarrow> k \<notin> reserved"
  by (auto simp: reserved_def)

lemma params_ok_Nil [query_intros]: "params_ok []"
  by (simp add: params_ok_def)

lemma params_ok_Cons:
  "params_ok ((k, v) # p) \<longleftrightarrow> k \<notin> reserved \<and> k \<notin> fst ` set p \<and> params_ok p"
  by (auto simp: params_ok_def dict_ok_def)

lemma params_ok_dset [query_intros]: "k \<notin> reserved \<Longrightarrow> params_ok p \<Longrightarrow> params_ok (dset k v p)"
proof -
  have "fst ` set (dset k v p) = insert k (fst ` set p)"
    by (induction p) auto
  then show "k \<notin> reserved \<Longrightarrow> params_ok p \<Longrightarrow> ?thesis" by (auto simp: params_ok_def)
qed

lemma params_ok_opt [query_intros]:
  "k \<notin> reserved \<Longrightarrow> params_ok p \<Longrightarrow> params_ok (opt_param k v p)"
  "k \<notin> reserved \<Longrightarrow> params_ok p \<Longrightarrow> params_ok (opt_flag k v p)"
  by (simp_all add: opt_param_def opt_flag_def params_ok_dset)

lemma params_ok_fold:
  assumes "\<And>x p. params_ok p \<Longrightarrow> params_ok (f x p)" and "params_ok p"
  shows "params_ok (fold f xs p)"
  using assms(2) by (induction xs arbitrary: p) (simp_all add: assms(1))

lemma params_ok_optional [query_intros]:
  "\<forall>k \<in> set (map fst opts). k \<notin> reserved \<Longrightarrow> params_ok p \<Longrightarrow> params_ok (with_optional p opts)"
  unfolding with_optional_def
  by (induction opts arbitrary: p) (auto simp: params_ok_opt)

lemma dget_opt_param: "dget (opt_param k v p) k' = (if k' = k \<and> py_truth v then Some v else dget p k')"
  by (simp add: opt_param_def dget_dset)

lemma dget_with_optional:
  "distinct (map fst opts) \<Longrightarrow> dget (with_optional p opts) k =
     (case dget opts k of Some v \<Rightarrow> if py_truth v then Some v else dget p k | None \<Rightarrow> dget p k)"
  unfolding with_optional_def
proof (induction opts arbitrary: p)
  case (Cons kv opts)
  obtain k' v where "kv = (k', v)" by fastforce
  with Cons show ?case
    by (auto simp: dget_opt_param map_of_eq_None_iff [THEN iffD2] split: option.splits)
qed simp

lemma params_ok_number [query_intros]: "params_ok p \<Longrightarrow> params_ok (number_params label xs p)"
  unfolding number_params_def by (rule params_ok_fold) (auto intro: params_ok_dset simp: list_key_def)

lemma params_ok_list:
  "params_ok p \<Longrightarrow> build_list_params p v label = Inr q \<Longrightarrow> params_ok q"
  "params_ok p \<Longrightarrow> opt_list label v p = Inr q \<Longrightarrow> params_ok q"
  by (auto simp: build_list_params_def opt_list_def intro: params_ok_number split: pyval.splits if_splits)

lemma params_ok_filters [query_intros]:
  "params_ok p \<Longrightarrow> params_ok (build_filter_params p fs)"
  "params_ok p \<Longrightarrow> params_ok (opt_filters fs p)"
proof -
  show 1: "params_ok (build_filter_params p fs)" if "params_ok p" for p
    using that unfolding build_filter_params_def
    by (intro params_ok_fold) (auto simp: add_filter_def filter_name_key_def intro!: params_ok_number params_ok_dset)
  then show "params_ok p \<Longrightarrow> params_ok (opt_filters fs p)" by (simp add: opt_filters_def)
qed

lemma params_ok_tags [query_intros]: "params_ok p \<Longrightarrow> params_ok (build_tag_param_list p tags)"
  unfolding build_tag_param_list_def
  by (rule params_ok_fold) (auto simp: Let_def tag_key_def tag_value_key_def intro!: params_ok_dset)

lemma params_ok_devices [query_intros]: "params_ok p \<Longrightarrow> params_ok (block_device_params prefix m p)"
  unfolding block_device_params_def
  by (rule params_ok_fold) (auto simp: add_block_device_def Let_def intro!: params_ok_dset params_ok_opt)

lemma query_ok_build [query_intros]:
  "params_ok p \<Longrightarrow> action \<noteq> [] \<Longrightarrow> query_ok (get_list action p cls)"
  "params_ok p \<Longrightarrow> action \<noteq> [] \<Longrightarrow> query_ok (get_object action p cls)"
  "params_ok p \<Longrightarrow> action \<noteq> [] \<Longrightarrow> query_ok (get_status action p)"
  "query_ok q \<Longrightarrow> query_ok (q\<lparr>q_verb := ''POST''\<rparr>)"
  "query_ok q \<Longrightarrow> query_ok (q\<lparr>q_use := u\<rparr>)"
  by (simp_all add: query_ok_def get_list_def get_object_def get_status_def)

end
