(* ===== verification/BotoEc2.thy ===== *)
theory BotoEc2
  imports BotoQuery World
begin

text \<open>
  \<open>boto/ec2/connection.py\<close>: the queries of \<open>EC2Connection\<close>, one definition per method, named like the
  method. An argument that is left out is its default; the dict of filters is empty when there are
  none. Methods that number the items of an argument fail on an argument that has no items.
\<close>

datatype named_ref = RefObject string | RefValue pyval

definition ref_value :: "named_ref \<Rightarrow> pyval" where
  "ref_value r = (case r of RefObject n \<Rightarrow> PStr n | RefValue v \<Rightarrow> v)"

definition ref_truth :: "named_ref \<Rightarrow> bool" where
  "ref_truth r = (case r of RefObject n \<Rightarrow> True | RefValue v \<Rightarrow> py_truth v)"


section \<open>Methods\<close>

subsection \<open>Images\<close>

definition get_all_images_query ::
  "pyval \<Rightarrow> pyval \<Rightarrow> pyval \<Rightarrow> pydict \<Rightarrow> py_exc + query" where
  "get_all_images_query image_ids owners executable_by filters =
     sbind (opt_list ''ImageId'' image_ids []) (\<lambda>p.
     sbind (opt_list ''Owner'' owners p) (\<lambda>p.
     sbind (opt_list ''ExecutableBy'' executable_by p) (\<lambda>p.
     Inr (get_list ''DescribeImages'' (opt_filters filters p) ''Image''))))"

definition get_all_kernels_query :: "pyval \<Rightarrow> pyval \<Rightarrow> py_exc + query" where
  "get_all_kernels_query kernel_ids owners =
     sbind (opt_list ''ImageId'' kernel_ids []) (\<lambda>p.
     sbind (opt_list ''Owner'' owners p) (\<lambda>p.
     Inr (get_list ''DescribeImages'' (build_filter_params p [(''image-type'', PStr ''kernel'')]) ''Image'')))"

definition get_all_ramdisks_query :: "pyval \<Rightarrow> pyval \<Rightarrow> py_exc + query" where
  "get_all_ramdisks_query ramdisk_ids owners =
     sbind (opt_list ''ImageId'' ramdisk_ids []) (\<lambda>p.
     sbind (opt_list ''Owner'' owners p) (\<lambda>p.
     Inr (get_list ''DescribeImages'' (build_filter_params p [(''image-type'', PStr ''ramdisk'')]) ''Image'')))"

text \<open>The first image of the reply, or \<open>None\<close> when there is none.\<close>

definition get_image_query :: "pyval \<Rightarrow> py_exc + query" where
  "get_image_query image_id =
     sbind (get_all_images_query (PList [image_id]) PNone PNone []) (\<lambda>q. Inr (q\<lparr>q_use := FirstOrNone\<rparr>))"

definition register_image_query ::
  "pyval \<Rightarrow> pyval \<Rightarrow> pyval \<Rightarrow> pyval \<Rightarrow> pyval \<Rightarrow> pyval \<Rightarrow> pyval \<Rightarrow> (string, block_device) dict \<Rightarrow> query" where
  "register_image_query name description image_location architecture kernel_id ramdisk_id root_device_name
        block_device_map =
     (get_object ''RegisterImage'' (block_device_params [] block_device_map
        (with_optional []
          [(''Name'', name), (''Description'', description), (''Architecture'', architecture),
           (''KernelId'', kernel_id), (''RamdiskId'', ramdisk_id), (''ImageLocation'', image_location),
           (''RootDeviceName'', root_device_name)])) ''ResultSet'')\<lparr>q_use := AttributeOrNone ''imageId''\<rparr>"

definition deregister_image_query :: "pyval \<Rightarrow> query" where
  "deregister_image_query image_id =
     get_status ''DeregisterImage'' [(''ImageId'', image_id)]"

definition create_image_query ::
  "pyval \<Rightarrow> pyval \<Rightarrow> pyval \<Rightarrow> pyval \<Rightarrow> query" where
  "create_image_query instance_id name description no_reboot =
     (get_object ''CreateImage'' (opt_flag ''NoReboot'' no_reboot (with_optional
        [(''InstanceId'', instance_id), (''Name'', name)] [(''Description'', description)])) ''Image'')
       \<lparr>q_use := Attributes [''id'']\<rparr>"

definition get_image_attribute_query :: "pyval \<Rightarrow> pyval \<Rightarrow> query" where
  "get_image_attribute_query image_id attribute =
     get_object ''DescribeImageAttribute'' [(''ImageId'', image_id), (''Attribute'', attribute)] ''ImageAttribute''"

definition modify_image_attribute_query ::
  "pyval \<Rightarrow> pyval \<Rightarrow> pyval \<Rightarrow> pyval \<Rightarrow> pyval \<Rightarrow> pyval \<Rightarrow> py_exc + query" where
  "modify_image_attribute_query image_id attribute operation user_ids groups product_codes =
     sbind (opt_list ''UserId'' user_ids
        [(''ImageId'', image_id), (''Attribute'', attribute), (''OperationType'', operation)]) (\<lambda>p.
     sbind (opt_list ''UserGroup'' groups p) (\<lambda>p.
     sbind (opt_list ''ProductCode'' product_codes p) (\<lambda>p.
     Inr (get_status ''ModifyImageAttribute'' p))))"

definition reset_image_attribute_query :: "pyval \<Rightarrow> pyval \<Rightarrow> query" where
  "reset_image_attribute_query image_id attribute =
     get_status ''ResetImageAttribute'' [(''ImageId'', image_id), (''Attribute'', attribute)]"


subsection \<open>Instances\<close>

definition get_all_instances_query :: "pyval \<Rightarrow> pydict \<Rightarrow> py_exc + query" where
  "get_all_instances_query instance_ids filters =
     sbind (opt_list ''InstanceId'' instance_ids []) (\<lambda>p.
     Inr (get_list ''DescribeInstances'' (opt_filters filters p) ''Reservation''))"

text \<open>
  The arguments of \<open>run_instances\<close>, in the order of the method. A security group is given by name or
  as an object; \<open>b64\<close> is base64 encoding, which needs a text.
\<close>

record run_args =
  ra_image_id :: pyval
  ra_min_count :: pyval
  ra_max_count :: pyval
  ra_key_name :: pyval
  ra_security_groups :: "named_ref list"
  ra_user_data :: pyval
  ra_addressing_type :: pyval
  ra_instance_type :: pyval
  ra_placement :: pyval
  ra_kernel_id :: pyval
  ra_ramdisk_id :: pyval
  ra_monitoring_enabled :: pyval
  ra_subnet_id :: pyval
  ra_block_device_map :: "(string, block_device) dict"
  ra_disable_api_termination :: pyval
  ra_shutdown_behavior :: pyval
  ra_private_ip_address :: pyval
  ra_placement_group :: pyval
  ra_client_token :: pyval

definition opt_groups :: "string \<Rightarrow> named_ref list \<Rightarrow> pydict \<Rightarrow> pydict" where
  "opt_groups label gs p = (if gs = [] then p else number_params label (map ref_value gs) p)"

definition opt_user_data :: "(string \<Rightarrow> string) \<Rightarrow> string \<Rightarrow> pyval \<Rightarrow> pydict \<Rightarrow> py_exc + pydict" where
  "opt_user_data b64 name v p =
     (if \<not> py_truth v then Inr p
      else (case v of PStr s \<Rightarrow> Inr (dset name (PStr (b64 s)) p) | _ \<Rightarrow> Inl TypeError))"

definition run_instances_query :: "(string \<Rightarrow> string) \<Rightarrow> run_args \<Rightarrow> py_exc + query" where
  "run_instances_query b64 a =
     sbind (opt_user_data b64 ''UserData'' (ra_user_data a)
        (opt_groups ''SecurityGroup'' (ra_security_groups a)
          (with_optional [(''ImageId'', ra_image_id a), (''MinCount'', ra_min_count a), (''MaxCount'',
        ra_max_count a)]
            [(''KeyName'', ra_key_name a)]))) (\<lambda>p.
     Inr ((get_object ''RunInstances''
        (with_optional (opt_flag ''DisableApiTermination'' (ra_disable_api_termination a)
          (block_device_params [] (ra_block_device_map a)
          (with_optional (opt_flag ''Monitoring.Enabled'' (ra_monitoring_enabled a)
            (with_optional p
              [(''AddressingType'', ra_addressing_type a), (''InstanceType'', ra_instance_type a),
               (''Placement.AvailabilityZone'', ra_placement a), (''Placement.GroupName'', ra_placement_group a),
               (''KernelId'', ra_kernel_id a), (''RamdiskId'', ra_ramdisk_id a)]))
            [(''SubnetId'', ra_subnet_id a), (''PrivateIpAddress'', ra_private_ip_address a)])))
          [(''InstanceInitiatedShutdownBehavior'', ra_shutdown_behavior a), (''ClientToken'', ra_client_token a)])
        ''Reservation'')\<lparr>q_verb := ''POST''\<rparr>))"

definition terminate_instances_query :: "pyval \<Rightarrow> py_exc + query" where
  "terminate_instances_query instance_ids =
     sbind (opt_list ''InstanceId'' instance_ids []) (\<lambda>p.
     Inr (get_list ''TerminateInstances'' p ''Instance''))"

definition stop_instances_query :: "pyval \<Rightarrow> pyval \<Rightarrow> py_exc + query" where
  "stop_instances_query instance_ids force =
     sbind (opt_list ''InstanceId'' instance_ids (opt_flag ''Force'' force [])) (\<lambda>p.
     Inr (get_list ''StopInstances'' p ''Instance''))"

definition start_instances_query :: "pyval \<Rightarrow> py_exc + query" where
  "start_instances_query instance_ids =
     sbind (opt_list ''InstanceId'' instance_ids []) (\<lambda>p.
     Inr (get_list ''StartInstances'' p ''Instance''))"

definition get_console_output_query :: "pyval \<Rightarrow> py_exc + query" where
  "get_console_output_query instance_id =
     sbind (build_list_params [] (PList [instance_id]) ''InstanceId'') (\<lambda>p.
     Inr (get_object ''GetConsoleOutput'' p ''ConsoleOutput''))"

definition reboot_instances_query :: "pyval \<Rightarrow> py_exc + query" where
  "reboot_instances_query instance_ids =
     sbind (opt_list ''InstanceId'' instance_ids []) (\<lambda>p.
     Inr (get_status ''RebootInstances'' p))"

definition confirm_product_instance_query :: "pyval \<Rightarrow> pyval \<Rightarrow> query" where
  "confirm_product_instance_query product_code instance_id =
     (get_object ''ConfirmProductInstance''
        [(''ProductCode'', product_code), (''InstanceId'', instance_id)] ''ResultSet'')
       \<lparr>q_use := Attributes [''status'', ''ownerId'']\<rparr>"

definition get_instance_attribute_query :: "pyval \<Rightarrow> pyval \<Rightarrow> query" where
  "get_instance_attribute_query instance_id attribute =
     get_object ''DescribeInstanceAttribute'' (with_optional [(''InstanceId'', instance_id)]
        [(''Attribute'', attribute)]) ''InstanceAttribute''"

text \<open>A boolean is accepted for one attribute and written as a text.\<close>

definition modify_instance_attribute_query :: "pyval \<Rightarrow> pyval \<Rightarrow> pyval \<Rightarrow> query" where
  "modify_instance_attribute_query instance_id attribute value =
     (let v = (case value of
                 PBool b \<Rightarrow> if attribute = PStr ''disableApiTermination''
                            then PStr (if b then ''true'' else ''false'') else value
               | _ \<Rightarrow> value) in
      (get_status ''ModifyInstanceAttribute''
        [(''InstanceId'', instance_id), (''Attribute'', attribute), (''Value'', v)])\<lparr>q_verb := ''POST''\<rparr>)"

definition reset_instance_attribute_query :: "pyval \<Rightarrow> pyval \<Rightarrow> query" where
  "reset_instance_attribute_query instance_id attribute =
     get_status ''ResetInstanceAttribute'' [(''InstanceId'', instance_id), (''Attribute'', attribute)]"


subsection \<open>Spot instances\<close>

definition get_all_spot_instance_requests_query ::
  "pyval \<Rightarrow> pydict \<Rightarrow> py_exc + query" where
  "get_all_spot_instance_requests_query request_ids filters =
     sbind (opt_list ''SpotInstanceRequestId'' request_ids []) (\<lambda>p.
     Inr (get_list ''DescribeSpotInstanceRequests'' (opt_filters filters p) ''SpotInstanceRequest''))"

definition get_spot_price_history_query ::
  "pyval \<Rightarrow> pyval \<Rightarrow> pyval \<Rightarrow> pyval \<Rightarrow> query" where
  "get_spot_price_history_query start_time end_time instance_type product_description =
     get_list ''DescribeSpotPriceHistory'' (with_optional [] 
        [(''StartTime'', start_time), (''EndTime'', end_time),
         (''InstanceType'', instance_type), (''ProductDescription'', product_description)]) ''SpotPriceHistory''"

record spot_args =
  sa_price :: pyval
  sa_image_id :: pyval
  sa_count :: pyval
  sa_type :: pyval
  sa_valid_from :: pyval
  sa_valid_until :: pyval
  sa_launch_group :: pyval
  sa_availability_zone_group :: pyval
  sa_key_name :: pyval
  sa_security_groups :: "named_ref list"
  sa_user_data :: pyval
  sa_addressing_type :: pyval
  sa_instance_type :: pyval
  sa_placement :: pyval
  sa_kernel_id :: pyval
  sa_ramdisk_id :: pyval
  sa_monitoring_enabled :: pyval
  sa_subnet_id :: pyval
  sa_block_device_map :: "(string, block_device) dict"

definition request_spot_instances_query :: "(string \<Rightarrow> string) \<Rightarrow> spot_args \<Rightarrow> py_exc + query" where
  "request_spot_instances_query b64 a =
     sbind (opt_user_data b64 ''LaunchSpecification.UserData'' (sa_user_data a)
        (opt_groups ''LaunchSpecification.SecurityGroup'' (sa_security_groups a)
          (with_optional
            [(''LaunchSpecification.ImageId'', sa_image_id a), (''Type'', sa_type a), (''SpotPrice'', sa_price a)]
            [(''InstanceCount'', sa_count a), (''ValidFrom'', sa_valid_from a), (''ValidUntil'', sa_valid_until a),
             (''LaunchGroup'', sa_launch_group a), (''AvailabilityZoneGroup'', sa_availability_zone_group a),
             (''LaunchSpecification.KeyName'', sa_key_name a)]))) (\<lambda>p.
     Inr ((get_list ''RequestSpotInstances''
        (block_device_params ''LaunchSpecification.'' (sa_block_device_map a)
        (opt_param ''LaunchSpecification.SubnetId'' (sa_subnet_id a)
        (opt_flag ''LaunchSpecification.Monitoring.Enabled'' (sa_monitoring_enabled a)
        (with_optional p
          [(''LaunchSpecification.AddressingType'', sa_addressing_type a),
           (''LaunchSpecification.InstanceType'', sa_instance_type a),
           (''LaunchSpecification.Placement.AvailabilityZone'', sa_placement a),
           (''LaunchSpecification.KernelId'', sa_kernel_id a), (''LaunchSpecification.RamdiskId'',
        sa_ramdisk_id a)]))))
        ''SpotInstanceRequest'')\<lparr>q_verb := ''POST''\<rparr>))"

definition cancel_spot_instance_requests_query :: "pyval \<Rightarrow> py_exc + query" where
  "cancel_spot_instance_requests_query request_ids =
     sbind (opt_list ''SpotInstanceRequestId'' request_ids []) (\<lambda>p.
     Inr (get_list ''CancelSpotInstanceRequests'' p ''Instance''))"

definition get_spot_datafeed_subscription_query :: "query" where
  "get_spot_datafeed_subscription_query =
     get_object ''DescribeSpotDatafeedSubscription'' [] ''SpotDatafeedSubscription''"

definition create_spot_datafeed_subscription_query :: "pyval \<Rightarrow> pyval \<Rightarrow> query" where
  "create_spot_datafeed_subscription_query bucket prefix =
     get_object ''CreateSpotDatafeedSubscription'' (with_optional [(''Bucket'', bucket)]
        [(''Prefix'', prefix)]) ''SpotDatafeedSubscription''"

definition delete_spot_datafeed_subscription_query :: "query" where
  "delete_spot_datafeed_subscription_query =
     get_status ''DeleteSpotDatafeedSubscription'' []"


subsection \<open>Zones and addresses\<close>

definition get_all_zones_query :: "pyval \<Rightarrow> pydict \<Rightarrow> py_exc + query" where
  "get_all_zones_query zones filters =
     sbind (opt_list ''ZoneName'' zones []) (\<lambda>p.
     Inr (get_list ''DescribeAvailabilityZones'' (opt_filters filters p) ''Zone''))"

definition get_all_addresses_query :: "pyval \<Rightarrow> pydict \<Rightarrow> py_exc + query" where
  "get_all_addresses_query addresses filters =
     sbind (opt_list ''PublicIp'' addresses []) (\<lambda>p.
     Inr (get_list ''DescribeAddresses'' (opt_filters filters p) ''Address''))"

definition allocate_address_query :: "query" where
  "allocate_address_query =
     get_object ''AllocateAddress'' [] ''Address''"

definition associate_address_query :: "pyval \<Rightarrow> pyval \<Rightarrow> query" where
  "associate_address_query instance_id public_ip =
     get_status ''AssociateAddress'' [(''InstanceId'', instance_id), (''PublicIp'', public_ip)]"

definition disassociate_address_query :: "pyval \<Rightarrow> query" where
  "disassociate_address_query public_ip =
     get_status ''DisassociateAddress'' [(''PublicIp'', public_ip)]"

definition release_address_query :: "pyval \<Rightarrow> query" where
  "release_address_query public_ip =
     get_status ''ReleaseAddress'' [(''PublicIp'', public_ip)]"


subsection \<open>Volumes and snapshots\<close>

definition get_all_volumes_query :: "pyval \<Rightarrow> pydict \<Rightarrow> py_exc + query" where
  "get_all_volumes_query volume_ids filters =
     sbind (opt_list ''VolumeId'' volume_ids []) (\<lambda>p.
     Inr (get_list ''DescribeVolumes'' (opt_filters filters p) ''Volume''))"

text \<open>A zone or a snapshot can be given as an object; its name or id is used.\<close>

definition create_volume_query :: "pyval \<Rightarrow> named_ref \<Rightarrow> named_ref \<Rightarrow> query" where
  "create_volume_query gigabytes zone snapshot =
     get_object ''CreateVolume''
       (let p = opt_param ''Size'' gigabytes [(''AvailabilityZone'', ref_value zone)] in
        if ref_truth snapshot then dset ''SnapshotId'' (ref_value snapshot) p else p) ''Volume''"

definition delete_volume_query :: "pyval \<Rightarrow> query" where
  "delete_volume_query volume_id =
     get_status ''DeleteVolume'' [(''VolumeId'', volume_id)]"

definition attach_volume_query :: "pyval \<Rightarrow> pyval \<Rightarrow> pyval \<Rightarrow> query" where
  "attach_volume_query volume_id instance_id device =
     get_status ''AttachVolume'' [(''InstanceId'', instance_id), (''VolumeId'', volume_id), (''Device'', device)]"

definition detach_volume_query ::
  "pyval \<Rightarrow> pyval \<Rightarrow> pyval \<Rightarrow> pyval \<Rightarrow> query" where
  "detach_volume_query volume_id instance_id device force =
     get_status ''DetachVolume'' (opt_flag ''Force'' force (with_optional [(''VolumeId'', volume_id)]
        [(''InstanceId'', instance_id), (''Device'', device)]))"

definition get_all_snapshots_query ::
  "pyval \<Rightarrow> pyval \<Rightarrow> pyval \<Rightarrow> pydict \<Rightarrow> py_exc + query" where
  "get_all_snapshots_query snapshot_ids owner restorable_by filters =
     sbind (opt_list ''SnapshotId'' snapshot_ids []) (\<lambda>p.
     Inr (get_list ''DescribeSnapshots'' (opt_filters filters (with_optional p
        [(''Owner'', owner), (''RestorableBy'', restorable_by)])) ''Snapshot''))"

text \<open>A description is cut after 255 characters; only sequences can be cut.\<close>

definition cut_text :: "nat \<Rightarrow> pyval \<Rightarrow> py_exc + pyval" where
  "cut_text n v = (case v of PStr s \<Rightarrow> Inr (PStr (take n s)) | PList xs \<Rightarrow> Inr (PList
        (take n xs)) | _ \<Rightarrow> Inl TypeError)"

definition create_snapshot_query :: "pyval \<Rightarrow> pyval \<Rightarrow> py_exc + query" where
  "create_snapshot_query volume_id description =
     sbind (if py_truth description
            then sbind (cut_text 255 description) (\<lambda>d. Inr (dset ''Description'' d [(''VolumeId'', volume_id)]))
            else Inr [(''VolumeId'', volume_id)]) (\<lambda>p.
     Inr (get_object ''CreateSnapshot'' p ''Snapshot''))"

definition delete_snapshot_query :: "pyval \<Rightarrow> query" where
  "delete_snapshot_query snapshot_id =
     get_status ''DeleteSnapshot'' [(''SnapshotId'', snapshot_id)]"

definition get_snapshot_attribute_query :: "pyval \<Rightarrow> pyval \<Rightarrow> query" where
  "get_snapshot_attribute_query snapshot_id attribute =
     get_object ''DescribeSnapshotAttribute'' (with_optional [(''Attribute'', attribute)]
        [(''SnapshotId'', snapshot_id)]) ''SnapshotAttribute''"

definition modify_snapshot_attribute_query ::
  "pyval \<Rightarrow> pyval \<Rightarrow> pyval \<Rightarrow> pyval \<Rightarrow> pyval \<Rightarrow> py_exc + query" where
  "modify_snapshot_attribute_query snapshot_id attribute operation user_ids groups =
     sbind (opt_list ''UserId'' user_ids
        [(''SnapshotId'', snapshot_id), (''Attribute'', attribute), (''OperationType'', operation)]) (\<lambda>p.
     sbind (opt_list ''UserGroup'' groups p) (\<lambda>p.
     Inr (get_status ''ModifySnapshotAttribute'' p)))"

definition reset_snapshot_attribute_query :: "pyval \<Rightarrow> pyval \<Rightarrow> query" where
  "reset_snapshot_attribute_query snapshot_id attribute =
     get_status ''ResetSnapshotAttribute'' [(''SnapshotId'', snapshot_id), (''Attribute'', attribute)]"


subsection \<open>Key pairs\<close>

definition get_all_key_pairs_query :: "pyval \<Rightarrow> pydict \<Rightarrow> py_exc + query" where
  "get_all_key_pairs_query keynames filters =
     sbind (opt_list ''KeyName'' keynames []) (\<lambda>p.
     Inr (get_list ''DescribeKeyPairs'' (opt_filters filters p) ''KeyPair''))"

definition get_key_pair_query :: "pyval \<Rightarrow> py_exc + query" where
  "get_key_pair_query keyname =
     sbind (get_all_key_pairs_query (PList [keyname]) []) (\<lambda>q. Inr (q\<lparr>q_use := FirstOrNone\<rparr>))"

definition create_key_pair_query :: "pyval \<Rightarrow> query" where
  "create_key_pair_query key_name =
     get_object ''CreateKeyPair'' [(''KeyName'', key_name)] ''KeyPair''"

definition delete_key_pair_query :: "pyval \<Rightarrow> query" where
  "delete_key_pair_query key_name =
     get_status ''DeleteKeyPair'' [(''KeyName'', key_name)]"

definition import_key_pair_query :: "pyval \<Rightarrow> pyval \<Rightarrow> query" where
  "import_key_pair_query key_name public_key_material =
     (get_object ''ImportKeyPair''
        [(''KeyName'', key_name), (''PublicKeyMaterial'', public_key_material)] ''KeyPair'')\<lparr>q_verb := ''POST''\<rparr>"


subsection \<open>Security groups\<close>

definition get_all_security_groups_query :: "pyval \<Rightarrow> pydict \<Rightarrow> py_exc + query" where
  "get_all_security_groups_query groupnames filters =
     sbind (opt_list ''GroupName'' groupnames []) (\<lambda>p.
     Inr (get_list ''DescribeSecurityGroups'' (opt_filters filters p) ''SecurityGroup''))"

definition create_security_group_query :: "pyval \<Rightarrow> pyval \<Rightarrow> query" where
  "create_security_group_query name description =
     (get_object ''CreateSecurityGroup''
        [(''GroupName'', name), (''GroupDescription'', description)] ''SecurityGroup'')
       \<lparr>q_use := WithAttributes [(''name'', name), (''description'', description)]\<rparr>"

definition delete_security_group_query :: "pyval \<Rightarrow> query" where
  "delete_security_group_query name =
     get_status ''DeleteSecurityGroup'' [(''GroupName'', name)]"

text \<open>
  The address range is quoted here, and once more when the query is written. A port 0 counts as
  not given.
\<close>

definition opt_cidr :: "pyval \<Rightarrow> pydict \<Rightarrow> py_exc + pydict" where
  "opt_cidr cidr_ip p =
     (if \<not> py_truth cidr_ip then Inr p
      else (case cidr_ip of
              PStr s \<Rightarrow> Inr (dset ''IpPermissions.1.IpRanges.1.CidrIp'' (PStr (urllib_quote ''/'' s)) p)
            | _ \<Rightarrow> Inl TypeError))"

definition authorize_deprecated_query :: "pyval \<Rightarrow> pyval \<Rightarrow> pyval \<Rightarrow> query" where
  "authorize_deprecated_query group_name src_name src_owner =
     get_status ''AuthorizeSecurityGroupIngress'' (with_optional [(''GroupName'', group_name)]
       [(''SourceSecurityGroupName'', src_name), (''SourceSecurityGroupOwnerId'', src_owner)])"

definition authorize_security_group_query ::
  "pyval \<Rightarrow> pyval \<Rightarrow> pyval \<Rightarrow> pyval \<Rightarrow> pyval \<Rightarrow> pyval \<Rightarrow> pyval \<Rightarrow> py_exc + query" where
  "authorize_security_group_query group_name src_name src_owner ip_protocol from_port to_port cidr_ip =
     (if py_truth src_name \<and> from_port = PNone \<and> to_port = PNone \<and> ip_protocol = PNone
      then Inr (authorize_deprecated_query group_name src_name src_owner)
      else sbind (opt_cidr cidr_ip (with_optional [(''GroupName'', group_name)]
             [(''IpPermissions.1.Groups.1.GroupName'', src_name), (''IpPermissions.1.Groups.1.UserId'', src_owner),
              (''IpPermissions.1.IpProtocol'', ip_protocol), (''IpPermissions.1.FromPort'', from_port),
              (''IpPermissions.1.ToPort'', to_port)])) (\<lambda>p.
           Inr (get_status ''AuthorizeSecurityGroupIngress'' p)))"

definition revoke_deprecated_query :: "pyval \<Rightarrow> pyval \<Rightarrow> pyval \<Rightarrow> query" where
  "revoke_deprecated_query group_name src_name src_owner =
     get_status ''RevokeSecurityGroupIngress'' (with_optional [(''GroupName'', group_name)]
       [(''SourceSecurityGroupName'', src_name), (''SourceSecurityGroupOwnerId'', src_owner)])"

definition revoke_security_group_query ::
  "pyval \<Rightarrow> pyval \<Rightarrow> pyval \<Rightarrow> pyval \<Rightarrow> pyval \<Rightarrow> pyval \<Rightarrow> pyval \<Rightarrow> py_exc + query" where
  "revoke_security_group_query group_name src_name src_owner ip_protocol from_port to_port cidr_ip =
     (if py_truth src_name \<and> from_port = PNone \<and> to_port = PNone \<and> ip_protocol = PNone
      then Inr (revoke_deprecated_query group_name src_name src_owner)
      else sbind (opt_cidr cidr_ip (with_optional [(''GroupName'', group_name)]
             [(''IpPermissions.1.Groups.1.GroupName'', src_name), (''IpPermissions.1.Groups.1.UserId'', src_owner),
              (''IpPermissions.1.IpProtocol'', ip_protocol), (''IpPermissions.1.FromPort'', from_port),
              (''IpPermissions.1.ToPort'', to_port)])) (\<lambda>p.
           Inr (get_status ''RevokeSecurityGroupIngress'' p)))"


subsection \<open>Regions, reservations, monitoring, bundles\<close>

definition get_all_regions_query :: "pydict \<Rightarrow> query" where
  "get_all_regions_query filters =
     (get_list ''DescribeRegions'' (opt_filters filters []) ''RegionInfo'')
       \<lparr>q_use := WithAttributes [(''connection_cls'', PStr ''EC2Connection'')]\<rparr>"

definition get_all_reserved_instances_offerings_query ::
  "pyval \<Rightarrow> pyval \<Rightarrow> pyval \<Rightarrow> pyval \<Rightarrow> pydict \<Rightarrow> query" where
  "get_all_reserved_instances_offerings_query reserved_instances_id instance_type availability_zone
        product_description filters =
     get_list ''DescribeReservedInstancesOfferings'' (opt_filters filters (with_optional [] 
        [(''ReservedInstancesId'', reserved_instances_id), (''InstanceType'', instance_type),
         (''AvailabilityZone'', availability_zone), (''ProductDescription'', product_description)]))
        ''ReservedInstancesOffering''"

definition get_all_reserved_instances_query :: "pyval \<Rightarrow> pydict \<Rightarrow> py_exc + query" where
  "get_all_reserved_instances_query reserved_instances_id filters =
     sbind (opt_list ''ReservedInstancesId'' reserved_instances_id []) (\<lambda>p.
     Inr (get_list ''DescribeReservedInstances'' (opt_filters filters p) ''ReservedInstance''))"

definition purchase_reserved_instance_offering_query :: "pyval \<Rightarrow> pyval \<Rightarrow> query" where
  "purchase_reserved_instance_offering_query reserved_instances_offering_id instance_count =
     get_object ''PurchaseReservedInstancesOffering''
        [(''ReservedInstancesOfferingId'', reserved_instances_offering_id), (''InstanceCount'',
        instance_count)] ''ReservedInstance''"

definition monitor_instance_query :: "pyval \<Rightarrow> query" where
  "monitor_instance_query instance_id =
     get_list ''MonitorInstances'' [(''InstanceId'', instance_id)] ''InstanceInfo''"

definition unmonitor_instance_query :: "pyval \<Rightarrow> query" where
  "unmonitor_instance_query instance_id =
     get_list ''UnmonitorInstances'' [(''InstanceId'', instance_id)] ''InstanceInfo''"

text \<open>\<open>sign\<close> is the signature of the upload policy with the key of the connection.\<close>

definition bundle_instance_query ::
  "string \<Rightarrow> (pyval \<Rightarrow> string) \<Rightarrow> pyval \<Rightarrow> pyval \<Rightarrow> pyval \<Rightarrow> pyval \<Rightarrow> query" where
  "bundle_instance_query access_key sign instance_id s3_bucket s3_prefix s3_upload_policy =
     get_object ''BundleInstance''
       [(''InstanceId'', instance_id), (''Storage.S3.Bucket'', s3_bucket), (''Storage.S3.Prefix'', s3_prefix),
        (''Storage.S3.UploadPolicy'', s3_upload_policy), (''Storage.S3.AWSAccessKeyId'', PStr access_key),
        (''Storage.S3.UploadPolicySignature'', PStr (sign s3_upload_policy))] ''BundleInstanceTask''"

definition get_all_bundle_tasks_query :: "pyval \<Rightarrow> pydict \<Rightarrow> py_exc + query" where
  "get_all_bundle_tasks_query bundle_ids filters =
     sbind (opt_list ''BundleId'' bundle_ids []) (\<lambda>p.
     Inr (get_list ''DescribeBundleTasks'' (opt_filters filters p) ''BundleInstanceTask''))"

definition cancel_bundle_task_query :: "pyval \<Rightarrow> query" where
  "cancel_bundle_task_query bundle_id =
     get_object ''CancelBundleTask'' [(''BundleId'', bundle_id)] ''BundleInstanceTask''"

definition get_password_data_query :: "pyval \<Rightarrow> query" where
  "get_password_data_query instance_id =
     (get_object ''GetPasswordData'' [(''InstanceId'', instance_id)] ''ResultSet'')
       \<lparr>q_use := Attributes [''passwordData'']\<rparr>"


subsection \<open>Placement groups and tags\<close>

definition get_all_placement_groups_query :: "pyval \<Rightarrow> pydict \<Rightarrow> py_exc + query" where
  "get_all_placement_groups_query groupnames filters =
     sbind (opt_list ''GroupName'' groupnames []) (\<lambda>p.
     Inr (get_list ''DescribePlacementGroups'' (opt_filters filters p) ''PlacementGroup''))"

definition create_placement_group_query :: "pyval \<Rightarrow> pyval \<Rightarrow> query" where
  "create_placement_group_query name strategy =
     get_status ''CreatePlacementGroup'' [(''GroupName'', name), (''Strategy'', strategy)]"

definition delete_placement_group_query :: "pyval \<Rightarrow> query" where
  "delete_placement_group_query name =
     get_status ''DeletePlacementGroup'' [(''GroupName'', name)]"

text \<open>With tags the method refers to a name that does not exist.\<close>

definition get_all_tags_query :: "pyval \<Rightarrow> pydict \<Rightarrow> py_exc + query" where
  "get_all_tags_query tags filters =
     (if py_truth tags then Inl (NameError ''instance_ids'')
      else Inr (get_list ''DescribeTags'' (opt_filters filters []) ''Tag''))"

definition create_tags_query :: "pyval \<Rightarrow> pydict \<Rightarrow> py_exc + query" where
  "create_tags_query resource_ids tags =
     sbind (build_list_params [] resource_ids ''ResourceId'') (\<lambda>p.
     Inr (get_status ''CreateTags'' (build_tag_param_list p tags)))"

text \<open>A list of keys stands for the dict that has no values for them.\<close>

definition delete_tags_query :: "pyval \<Rightarrow> string list + pydict \<Rightarrow> py_exc + query" where
  "delete_tags_query resource_ids tags =
     sbind (build_list_params [] resource_ids ''ResourceId'') (\<lambda>p.
     Inr (get_status ''DeleteTags'' (build_tag_param_list p
       (case tags of Inl keys \<Rightarrow> map (\<lambda>k. (k, PNone)) (remdups keys) | Inr d \<Rightarrow> d))))"


section \<open>Every query is well formed\<close>

lemmas ec2_query_defs =
  get_all_images_query_def get_all_kernels_query_def get_all_ramdisks_query_def get_image_query_def
  register_image_query_def deregister_image_query_def create_image_query_def get_image_attribute_query_def
  modify_image_attribute_query_def reset_image_attribute_query_def get_all_instances_query_def
  run_instances_query_def terminate_instances_query_def stop_instances_query_def start_instances_query_def
  get_console_output_query_def reboot_instances_query_def confirm_product_instance_query_def
  get_instance_attribute_query_def modify_instance_attribute_query_def reset_instance_attribute_query_def
  get_all_spot_instance_requests_query_def get_spot_price_history_query_def request_spot_instances_query_def
  cancel_spot_instance_requests_query_def get_spot_datafeed_subscription_query_def
  create_spot_datafeed_subscription_query_def delete_spot_datafeed_subscription_query_def
  get_all_zones_query_def get_all_addresses_query_def allocate_address_query_def associate_address_query_def
  disassociate_address_query_def release_address_query_def get_all_volumes_query_def create_volume_query_def
  delete_volume_query_def attach_volume_query_def detach_volume_query_def get_all_snapshots_query_def
  create_snapshot_query_def delete_snapshot_query_def get_snapshot_attribute_query_def
  modify_snapshot_attribute_query_def reset_snapshot_attribute_query_def get_all_key_pairs_query_def
  get_key_pair_query_def create_key_pair_query_def delete_key_pair_query_def import_key_pair_query_def
  get_all_security_groups_query_def create_security_group_query_def delete_security_group_query_def
  authorize_deprecated_query_def authorize_security_group_query_def revoke_deprecated_query_def
  revoke_security_group_query_def get_all_regions_query_def get_all_reserved_instances_offerings_query_def
  get_all_reserved_instances_query_def purchase_reserved_instance_offering_query_def
  monitor_instance_query_def unmonitor_instance_query_def bundle_instance_query_def
  get_all_bundle_tasks_query_def cancel_bundle_task_query_def get_password_data_query_def
  get_all_placement_groups_query_def create_placement_group_query_def delete_placement_group_query_def
  get_all_tags_query_def create_tags_query_def delete_tags_query_def

text \<open>The queries that the interface can make.\<close>

inductive ec2_query :: "query \<Rightarrow> bool" where
  "get_all_images_query image_ids owners executable_by filters = Inr q \<Longrightarrow> ec2_query q"
| "get_all_kernels_query kernel_ids owners = Inr q \<Longrightarrow> ec2_query q"
| "get_all_ramdisks_query ramdisk_ids owners = Inr q \<Longrightarrow> ec2_query q"
| "get_image_query image_id = Inr q \<Longrightarrow> ec2_query q"
| "ec2_query (register_image_query name description image_location architecture kernel_id ramdisk_id root_device_name block_device_map)"
| "ec2_query (deregister_image_query image_id)"
| "ec2_query (create_image_query instance_id name description no_reboot)"
| "ec2_query (get_image_attribute_query image_id attribute)"
| "modify_image_attribute_query image_id attribute operation user_ids groups product_codes = Inr q \<Longrightarrow> ec2_query q"
| "ec2_query (reset_image_attribute_query image_id attribute)"
| "get_all_instances_query instance_ids filters = Inr q \<Longrightarrow> ec2_query q"
| "run_instances_query b64 a = Inr q \<Longrightarrow> ec2_query q"
| "terminate_instances_query instance_ids = Inr q \<Longrightarrow> ec2_query q"
| "stop_instances_query instance_ids force = Inr q \<Longrightarrow> ec2_query q"
| "start_instances_query instance_ids = Inr q \<Longrightarrow> ec2_query q"
| "get_console_output_query instance_id = Inr q \<Longrightarrow> ec2_query q"
| "reboot_instances_query instance_ids = Inr q \<Longrightarrow> ec2_query q"
| "ec2_query (confirm_product_instance_query product_code instance_id)"
| "ec2_query (get_instance_attribute_query instance_id attribute)"
| "ec2_query (modify_instance_attribute_query instance_id attribute value)"
| "ec2_query (reset_instance_attribute_query instance_id attribute)"
| "get_all_spot_instance_requests_query request_ids filters = Inr q \<Longrightarrow> ec2_query q"
| "ec2_query (get_spot_price_history_query start_time end_time instance_type product_description)"
| "request_spot_instances_query b64 a = Inr q \<Longrightarrow> ec2_query q"
| "cancel_spot_instance_requests_query request_ids = Inr q \<Longrightarrow> ec2_query q"
| "ec2_query (get_spot_datafeed_subscription_query)"
| "ec2_query (create_spot_datafeed_subscription_query bucket prefix)"
| "ec2_query (delete_spot_datafeed_subscription_query)"
| "get_all_zones_query zones filters = Inr q \<Longrightarrow> ec2_query q"
| "get_all_addresses_query addresses filters = Inr q \<Longrightarrow> ec2_query q"
| "ec2_query (allocate_address_query)"
| "ec2_query (associate_address_query instance_id public_ip)"
| "ec2_query (disassociate_address_query public_ip)"
| "ec2_query (release_address_query public_ip)"
| "get_all_volumes_query volume_ids filters = Inr q \<Longrightarrow> ec2_query q"
| "ec2_query (create_volume_query gigabytes zone snapshot)"
| "ec2_query (delete_volume_query volume_id)"
| "ec2_query (attach_volume_query volume_id instance_id device)"
| "ec2_query (detach_volume_query volume_id instance_id device force)"
| "get_all_snapshots_query snapshot_ids owner restorable_by filters = Inr q \<Longrightarrow> ec2_query q"
| "create_snapshot_query volume_id description = Inr q \<Longrightarrow> ec2_query q"
| "ec2_query (delete_snapshot_query snapshot_id)"
| "ec2_query (get_snapshot_attribute_query snapshot_id attribute)"
| "modify_snapshot_attribute_query snapshot_id attribute operation user_ids groups = Inr q \<Longrightarrow> ec2_query q"
| "ec2_query (reset_snapshot_attribute_query snapshot_id attribute)"
| "get_all_key_pairs_query keynames filters = Inr q \<Longrightarrow> ec2_query q"
| "get_key_pair_query keyname = Inr q \<Longrightarrow> ec2_query q"
| "ec2_query (create_key_pair_query key_name)"
| "ec2_query (delete_key_pair_query key_name)"
| "ec2_query (import_key_pair_query key_name public_key_material)"
| "get_all_security_groups_query groupnames filters = Inr q \<Longrightarrow> ec2_query q"
| "ec2_query (create_security_group_query name description)"
| "ec2_query (delete_security_group_query name)"
| "ec2_query (authorize_deprecated_query group_name src_name src_owner)"
| "authorize_security_group_query group_name src_name src_owner ip_protocol from_port to_port cidr_ip = Inr q \<Longrightarrow> ec2_query q"
| "ec2_query (revoke_deprecated_query group_name src_name src_owner)"
| "revoke_security_group_query group_name src_name src_owner ip_protocol from_port to_port cidr_ip = Inr q \<Longrightarrow> ec2_query q"
| "ec2_query (get_all_regions_query filters)"
| "ec2_query (get_all_reserved_instances_offerings_query reserved_instances_id instance_type availability_zone product_description filters)"
| "get_all_reserved_instances_query reserved_instances_id filters = Inr q \<Longrightarrow> ec2_query q"
| "ec2_query (purchase_reserved_instance_offering_query reserved_instances_offering_id instance_count)"
| "ec2_query (monitor_instance_query instance_id)"
| "ec2_query (unmonitor_instance_query instance_id)"
| "ec2_query (bundle_instance_query access_key sign instance_id s3_bucket s3_prefix s3_upload_policy)"
| "get_all_bundle_tasks_query bundle_ids filters = Inr q \<Longrightarrow> ec2_query q"
| "ec2_query (cancel_bundle_task_query bundle_id)"
| "ec2_query (get_password_data_query instance_id)"
| "get_all_placement_groups_query groupnames filters = Inr q \<Longrightarrow> ec2_query q"
| "ec2_query (create_placement_group_query name strategy)"
| "ec2_query (delete_placement_group_query name)"
| "get_all_tags_query tags filters = Inr q \<Longrightarrow> ec2_query q"
| "create_tags_query resource_ids tags = Inr q \<Longrightarrow> ec2_query q"
| "delete_tags_query resource_ids tags = Inr q \<Longrightarrow> ec2_query q"

definition builds_ok :: "py_exc + query \<Rightarrow> bool" where
  "builds_ok r \<longleftrightarrow> (\<forall>q. r = Inr q \<longrightarrow> query_ok q)"

definition sum_ok :: "py_exc + pydict \<Rightarrow> bool" where
  "sum_ok r \<longleftrightarrow> (\<forall>p. r = Inr p \<longrightarrow> params_ok p)"

lemma builds_ok_intros [query_intros]:
  "builds_ok (Inl e)" "query_ok q \<Longrightarrow> builds_ok (Inr q)"
  "sum_ok r \<Longrightarrow> (\<And>p. params_ok p \<Longrightarrow> builds_ok (f p)) \<Longrightarrow> builds_ok (sbind r f)"
  "builds_ok r2 \<Longrightarrow> (\<And>q. query_ok q \<Longrightarrow> builds_ok (g q)) \<Longrightarrow> builds_ok (sbind r2 g)"
  by (auto simp: builds_ok_def sum_ok_def sbind_Inr_iff)

lemma sum_ok_intros [query_intros]:
  "params_ok p \<Longrightarrow> sum_ok (opt_list label v p)"
  "params_ok p \<Longrightarrow> sum_ok (build_list_params p v label)"
  "params_ok p \<Longrightarrow> k \<notin> reserved \<Longrightarrow> sum_ok (opt_user_data b64 k v p)"
  "params_ok p \<Longrightarrow> sum_ok (opt_cidr v p)"
  "(\<And>d. params_ok (f d)) \<Longrightarrow> sum_ok (sbind r (\<lambda>d. Inr (f d)))"
  by (auto simp: sum_ok_def opt_user_data_def opt_cidr_def sbind_Inr_iff dest: params_ok_list intro!: params_ok_dset
      split: pyval.splits if_splits)

lemma params_ok_groups [query_intros]: "params_ok p \<Longrightarrow> params_ok (opt_groups label gs p)"
  by (simp add: opt_groups_def params_ok_number)

lemma builds_okD: "r = Inr q \<Longrightarrow> builds_ok r \<Longrightarrow> query_ok q"
  by (simp add: builds_ok_def)

lemma builds_ok_if [query_intros]: "(b \<Longrightarrow> builds_ok r) \<Longrightarrow> (\<not> b \<Longrightarrow> builds_ok r') \<Longrightarrow> builds_ok (if b then r else r')"
  by simp

lemma ec2_query_ok: "ec2_query q \<Longrightarrow> query_ok q"
  by (erule ec2_query.cases; hypsubst; (erule builds_okD)?; unfold ec2_query_defs Let_def;
      (auto simp: params_ok_Cons reserved_def intro!: query_intros)?)

end
