(* ===== verification/BotoIam.thy ===== *)
theory BotoIam
  imports BotoQuery World
begin

text \<open>
  \<open>boto/iam/__init__.py\<close>: the queries of \<open>IAMConnection\<close>, one definition per method, named like
  the method. An argument that is left out is its default (\<open>PNone\<close>, or the text \<open>/\<close> for a path).
  At the end, the IAM calls of the account administration are tied to the queries that boto makes
  of them.
\<close>


section \<open>Methods\<close>

definition get_response :: "string \<Rightarrow> pydict \<Rightarrow> string \<Rightarrow> query" where
  "get_response action params list_marker =
     \<lparr>q_action = action, q_params = params, q_verb = ''GET'', q_reply = ReplyElement list_marker, q_use = Whole\<rparr>"

subsection \<open>Groups\<close>

definition get_all_groups_query :: "pyval \<Rightarrow> pyval \<Rightarrow> pyval \<Rightarrow> query" where
  "get_all_groups_query path_prefix marker max_items =
     get_response ''ListGroups'' (with_optional []
        [(''PathPrefix'', path_prefix), (''Marker'', marker), (''MaxItems'', max_items)]) ''Groups''"

definition get_group_query :: "pyval \<Rightarrow> pyval \<Rightarrow> pyval \<Rightarrow> query" where
  "get_group_query group_name marker max_items =
     get_response ''GetGroup'' (with_optional [(''GroupName'', group_name)]
        [(''Marker'', marker), (''MaxItems'', max_items)]) ''Users''"

definition create_group_query :: "pyval \<Rightarrow> pyval \<Rightarrow> query" where
  "create_group_query group_name path =
     get_response ''CreateGroup'' [(''GroupName'', group_name), (''Path'', path)] ''Set''"

definition delete_group_query :: "pyval \<Rightarrow> query" where
  "delete_group_query group_name =
     get_response ''DeleteGroup'' [(''GroupName'', group_name)] ''Set''"

definition update_group_query :: "pyval \<Rightarrow> pyval \<Rightarrow> pyval \<Rightarrow> query" where
  "update_group_query group_name new_group_name new_path =
     get_response ''UpdateGroup'' (with_optional [(''GroupName'', group_name)]
        [(''NewGroupName'', new_group_name), (''NewPath'', new_path)]) ''Set''"

definition add_user_to_group_query :: "pyval \<Rightarrow> pyval \<Rightarrow> query" where
  "add_user_to_group_query group_name user_name =
     get_response ''AddUserToGroup'' [(''GroupName'', group_name), (''UserName'', user_name)] ''Set''"

definition remove_user_from_group_query :: "pyval \<Rightarrow> pyval \<Rightarrow> query" where
  "remove_user_from_group_query group_name user_name =
     get_response ''RemoveUserFromGroup'' [(''GroupName'', group_name), (''UserName'', user_name)] ''Set''"

definition put_group_policy_query :: "pyval \<Rightarrow> pyval \<Rightarrow> pyval \<Rightarrow> query" where
  "put_group_policy_query group_name policy_name policy_json =
     (get_response ''PutGroupPolicy'' 
       [(''GroupName'', group_name), (''PolicyName'', policy_name), (''PolicyDocument'', policy_json)]
       ''Set'')\<lparr>q_verb := ''POST''\<rparr>"

definition get_all_group_policies_query :: "pyval \<Rightarrow> pyval \<Rightarrow> pyval \<Rightarrow> query" where
  "get_all_group_policies_query group_name marker max_items =
     get_response ''ListGroupPolicies'' (with_optional [(''GroupName'', group_name)]
        [(''Marker'', marker), (''MaxItems'', max_items)]) ''PolicyNames''"

definition get_group_policy_query :: "pyval \<Rightarrow> pyval \<Rightarrow> query" where
  "get_group_policy_query group_name policy_name =
     (get_response ''GetGroupPolicy'' [(''GroupName'', group_name), (''PolicyName'', policy_name)]
        ''Set'')\<lparr>q_verb := ''POST''\<rparr>"

definition delete_group_policy_query :: "pyval \<Rightarrow> pyval \<Rightarrow> query" where
  "delete_group_policy_query group_name policy_name =
     (get_response ''DeleteGroupPolicy'' [(''GroupName'', group_name), (''PolicyName'', policy_name)]
        ''Set'')\<lparr>q_verb := ''POST''\<rparr>"


subsection \<open>Users\<close>

definition get_all_users_query :: "pyval \<Rightarrow> pyval \<Rightarrow> pyval \<Rightarrow> query" where
  "get_all_users_query path_prefix marker max_items =
     get_response ''ListUsers'' (with_optional [(''PathPrefix'', path_prefix)]
        [(''Marker'', marker), (''MaxItems'', max_items)]) ''Users''"

definition create_user_query :: "pyval \<Rightarrow> pyval \<Rightarrow> query" where
  "create_user_query user_name path =
     get_response ''CreateUser'' [(''UserName'', user_name), (''Path'', path)] ''Set''"

definition delete_user_query :: "pyval \<Rightarrow> query" where
  "delete_user_query user_name =
     get_response ''DeleteUser'' [(''UserName'', user_name)] ''Set''"

definition get_user_query :: "pyval \<Rightarrow> query" where
  "get_user_query user_name =
     get_response ''GetUser'' (with_optional []
        [(''UserName'', user_name)]) ''Set''"

definition update_user_query :: "pyval \<Rightarrow> pyval \<Rightarrow> pyval \<Rightarrow> query" where
  "update_user_query user_name new_user_name new_path =
     get_response ''UpdateUser'' (with_optional [(''UserName'', user_name)]
        [(''NewUserName'', new_user_name), (''NewPath'', new_path)]) ''Set''"

definition get_all_user_policies_query :: "pyval \<Rightarrow> pyval \<Rightarrow> pyval \<Rightarrow> query" where
  "get_all_user_policies_query user_name marker max_items =
     get_response ''ListUserPolicies'' (with_optional [(''UserName'', user_name)]
        [(''Marker'', marker), (''MaxItems'', max_items)]) ''PolicyNames''"

definition put_user_policy_query :: "pyval \<Rightarrow> pyval \<Rightarrow> pyval \<Rightarrow> query" where
  "put_user_policy_query user_name policy_name policy_json =
     (get_response ''PutUserPolicy'' 
       [(''UserName'', user_name), (''PolicyName'', policy_name), (''PolicyDocument'', policy_json)]
       ''Set'')\<lparr>q_verb := ''POST''\<rparr>"

definition get_user_policy_query :: "pyval \<Rightarrow> pyval \<Rightarrow> query" where
  "get_user_policy_query user_name policy_name =
     (get_response ''GetUserPolicy'' [(''UserName'', user_name), (''PolicyName'', policy_name)]
        ''Set'')\<lparr>q_verb := ''POST''\<rparr>"

definition delete_user_policy_query :: "pyval \<Rightarrow> pyval \<Rightarrow> query" where
  "delete_user_policy_query user_name policy_name =
     (get_response ''DeleteUserPolicy'' [(''UserName'', user_name), (''PolicyName'', policy_name)]
        ''Set'')\<lparr>q_verb := ''POST''\<rparr>"

definition get_groups_for_user_query :: "pyval \<Rightarrow> pyval \<Rightarrow> pyval \<Rightarrow> query" where
  "get_groups_for_user_query user_name marker max_items =
     get_response ''ListGroupsForUser'' (with_optional [(''UserName'', user_name)]
        [(''Marker'', marker), (''MaxItems'', max_items)]) ''Groups''"


subsection \<open>Access keys\<close>

definition get_all_access_keys_query :: "pyval \<Rightarrow> pyval \<Rightarrow> pyval \<Rightarrow> query" where
  "get_all_access_keys_query user_name marker max_items =
     get_response ''ListAccessKeys'' (with_optional [(''UserName'', user_name)]
        [(''Marker'', marker), (''MaxItems'', max_items)]) ''AccessKeyMetadata''"

definition create_access_key_query :: "pyval \<Rightarrow> query" where
  "create_access_key_query user_name =
     get_response ''CreateAccessKey'' [(''UserName'', user_name)] ''Set''"

definition update_access_key_query :: "pyval \<Rightarrow> pyval \<Rightarrow> pyval \<Rightarrow> query" where
  "update_access_key_query access_key_id status user_name =
     get_response ''UpdateAccessKey'' (with_optional [(''AccessKeyId'', access_key_id), (''Status'', status)]
        [(''UserName'', user_name)]) ''Set''"

definition delete_access_key_query :: "pyval \<Rightarrow> pyval \<Rightarrow> query" where
  "delete_access_key_query access_key_id user_name =
     get_response ''DeleteAccessKey'' (with_optional [(''AccessKeyId'', access_key_id)]
        [(''UserName'', user_name)]) ''Set''"


subsection \<open>Signing certificates\<close>

definition get_all_signing_certs_query :: "pyval \<Rightarrow> pyval \<Rightarrow> pyval \<Rightarrow> query" where
  "get_all_signing_certs_query marker max_items user_name =
     get_response ''ListSigningCertificates'' (with_optional []
        [(''Marker'', marker), (''MaxItems'', max_items), (''UserName'', user_name)]) ''Certificates''"

definition update_signing_cert_query :: "pyval \<Rightarrow> pyval \<Rightarrow> pyval \<Rightarrow> query" where
  "update_signing_cert_query cert_id status user_name =
     get_response ''UpdateSigningCertificate'' (with_optional [(''CertificateId'', cert_id), (''Status'', status)]
        [(''UserName'', user_name)]) ''Set''"

definition upload_signing_cert_query :: "pyval \<Rightarrow> pyval \<Rightarrow> query" where
  "upload_signing_cert_query cert_body user_name =
     (get_response ''UploadSigningCertificate'' (with_optional [(''CertificateBody'', cert_body)]
        [(''UserName'', user_name)]) ''Set'')\<lparr>q_verb := ''POST''\<rparr>"

definition delete_signing_cert_query :: "pyval \<Rightarrow> pyval \<Rightarrow> query" where
  "delete_signing_cert_query cert_id user_name =
     get_response ''DeleteSigningCertificate'' (with_optional [(''CertificateId'', cert_id)]
        [(''UserName'', user_name)]) ''Set''"


subsection \<open>Server certificates\<close>

definition get_all_server_certs_query :: "pyval \<Rightarrow> pyval \<Rightarrow> pyval \<Rightarrow> query" where
  "get_all_server_certs_query path_prefix marker max_items =
     get_response ''ListServerCertificates'' (with_optional []
        [(''PathPrefix'', path_prefix), (''Marker'', marker), (''MaxItems'', max_items)])
        ''ServerCertificateMetadataList''"

definition update_server_cert_query :: "pyval \<Rightarrow> pyval \<Rightarrow> pyval \<Rightarrow> query" where
  "update_server_cert_query cert_name new_cert_name new_path =
     get_response ''UpdateServerCertificate'' (with_optional [(''ServerCertificateName'', cert_name)]
        [(''NewServerCertificateName'', new_cert_name), (''NewPath'', new_path)]) ''Set''"

definition upload_server_cert_query :: "pyval \<Rightarrow> pyval \<Rightarrow> pyval \<Rightarrow> pyval
        \<Rightarrow> pyval \<Rightarrow> query" where
  "upload_server_cert_query cert_name cert_body private_key cert_chain path =
     (get_response ''UploadServerCertificate'' (with_optional [(''ServerCertificateName'', cert_name),
        (''CertificateBody'', cert_body), (''PrivateKey'', private_key)]
        [(''CertificateChain'', cert_chain), (''Path'', path)]) ''Set'')\<lparr>q_verb := ''POST''\<rparr>"

definition get_server_certificate_query :: "pyval \<Rightarrow> query" where
  "get_server_certificate_query cert_name =
     get_response ''GetServerCertificate'' [(''ServerCertificateName'', cert_name)] ''Set''"

definition delete_server_cert_query :: "pyval \<Rightarrow> query" where
  "delete_server_cert_query cert_name =
     get_response ''DeleteServerCertificate'' [(''ServerCertificateName'', cert_name)] ''Set''"


subsection \<open>Devices\<close>

definition get_all_mfa_devices_query :: "pyval \<Rightarrow> pyval \<Rightarrow> pyval \<Rightarrow> query" where
  "get_all_mfa_devices_query user_name marker max_items =
     get_response ''ListMFADevices'' (with_optional [(''UserName'', user_name)]
        [(''Marker'', marker), (''MaxItems'', max_items)]) ''MFADevices''"

definition enable_mfa_device_query :: "pyval \<Rightarrow> pyval \<Rightarrow> pyval \<Rightarrow> pyval
        \<Rightarrow> query" where
  "enable_mfa_device_query user_name serial_number auth_code_1 auth_code_2 =
     get_response ''EnableMFADevice'' 
       [(''UserName'', user_name), (''SerialNumber'', serial_number), (''AuthenticationCode1'', auth_code_1),
        (''AuthenticationCode2'', auth_code_2)]
       ''Set''"

definition deactivate_mfa_device_query :: "pyval \<Rightarrow> pyval \<Rightarrow> query" where
  "deactivate_mfa_device_query user_name serial_number =
     get_response ''DeactivateMFADevice'' [(''UserName'', user_name), (''SerialNumber'', serial_number)] ''Set''"

definition resync_mfa_device_query :: "pyval \<Rightarrow> pyval \<Rightarrow> pyval \<Rightarrow> pyval
        \<Rightarrow> query" where
  "resync_mfa_device_query user_name serial_number auth_code_1 auth_code_2 =
     get_response ''ResyncMFADevice'' 
       [(''UserName'', user_name), (''SerialNumber'', serial_number), (''AuthenticationCode1'', auth_code_1),
        (''AuthenticationCode2'', auth_code_2)]
       ''Set''"


subsection \<open>Login profiles\<close>

definition create_login_profile_query :: "pyval \<Rightarrow> pyval \<Rightarrow> query" where
  "create_login_profile_query user_name password =
     get_response ''CreateLoginProfile'' [(''UserName'', user_name), (''Password'', password)] ''Set''"

definition delete_login_profile_query :: "pyval \<Rightarrow> query" where
  "delete_login_profile_query user_name =
     get_response ''DeleteLoginProfile'' [(''UserName'', user_name)] ''Set''"

definition update_login_profile_query :: "pyval \<Rightarrow> pyval \<Rightarrow> query" where
  "update_login_profile_query user_name password =
     get_response ''UpdateLoginProfile'' [(''UserName'', user_name), (''Password'', password)] ''Set''"



section \<open>Every query is well formed\<close>

lemmas iam_query_defs =
  get_all_groups_query_def get_group_query_def create_group_query_def delete_group_query_def
  update_group_query_def add_user_to_group_query_def remove_user_from_group_query_def
  put_group_policy_query_def get_all_group_policies_query_def get_group_policy_query_def
  delete_group_policy_query_def get_all_users_query_def create_user_query_def delete_user_query_def
  get_user_query_def update_user_query_def get_all_user_policies_query_def put_user_policy_query_def
  get_user_policy_query_def delete_user_policy_query_def get_groups_for_user_query_def
  get_all_access_keys_query_def create_access_key_query_def update_access_key_query_def
  delete_access_key_query_def get_all_signing_certs_query_def update_signing_cert_query_def
  upload_signing_cert_query_def delete_signing_cert_query_def get_all_server_certs_query_def
  update_server_cert_query_def upload_server_cert_query_def get_server_certificate_query_def
  delete_server_cert_query_def get_all_mfa_devices_query_def enable_mfa_device_query_def
  deactivate_mfa_device_query_def resync_mfa_device_query_def create_login_profile_query_def
  delete_login_profile_query_def update_login_profile_query_def

lemma query_ok_response [query_intros]:
  "params_ok p \<Longrightarrow> action \<noteq> [] \<Longrightarrow> query_ok (get_response action p marker)"
  by (simp add: query_ok_def get_response_def)

inductive iam_query :: "query \<Rightarrow> bool" where
  "iam_query (get_all_groups_query path_prefix marker max_items)"
| "iam_query (get_group_query group_name marker max_items)"
| "iam_query (create_group_query group_name path)"
| "iam_query (delete_group_query group_name)"
| "iam_query (update_group_query group_name new_group_name new_path)"
| "iam_query (add_user_to_group_query group_name user_name)"
| "iam_query (remove_user_from_group_query group_name user_name)"
| "iam_query (put_group_policy_query group_name policy_name policy_json)"
| "iam_query (get_all_group_policies_query group_name marker max_items)"
| "iam_query (get_group_policy_query group_name policy_name)"
| "iam_query (delete_group_policy_query group_name policy_name)"
| "iam_query (get_all_users_query path_prefix marker max_items)"
| "iam_query (create_user_query user_name path)"
| "iam_query (delete_user_query user_name)"
| "iam_query (get_user_query user_name)"
| "iam_query (update_user_query user_name new_user_name new_path)"
| "iam_query (get_all_user_policies_query user_name marker max_items)"
| "iam_query (put_user_policy_query user_name policy_name policy_json)"
| "iam_query (get_user_policy_query user_name policy_name)"
| "iam_query (delete_user_policy_query user_name policy_name)"
| "iam_query (get_groups_for_user_query user_name marker max_items)"
| "iam_query (get_all_access_keys_query user_name marker max_items)"
| "iam_query (create_access_key_query user_name)"
| "iam_query (update_access_key_query access_key_id status user_name)"
| "iam_query (delete_access_key_query access_key_id user_name)"
| "iam_query (get_all_signing_certs_query marker max_items user_name)"
| "iam_query (update_signing_cert_query cert_id status user_name)"
| "iam_query (upload_signing_cert_query cert_body user_name)"
| "iam_query (delete_signing_cert_query cert_id user_name)"
| "iam_query (get_all_server_certs_query path_prefix marker max_items)"
| "iam_query (update_server_cert_query cert_name new_cert_name new_path)"
| "iam_query (upload_server_cert_query cert_name cert_body private_key cert_chain path)"
| "iam_query (get_server_certificate_query cert_name)"
| "iam_query (delete_server_cert_query cert_name)"
| "iam_query (get_all_mfa_devices_query user_name marker max_items)"
| "iam_query (enable_mfa_device_query user_name serial_number auth_code_1 auth_code_2)"
| "iam_query (deactivate_mfa_device_query user_name serial_number)"
| "iam_query (resync_mfa_device_query user_name serial_number auth_code_1 auth_code_2)"
| "iam_query (create_login_profile_query user_name password)"
| "iam_query (delete_login_profile_query user_name)"
| "iam_query (update_login_profile_query user_name password)"

lemma iam_query_ok: "iam_query q \<Longrightarrow> query_ok q"
  by (erule iam_query.cases)
    (auto simp: iam_query_defs params_ok_Cons reserved_def intro!: query_intros)

section \<open>The calls of the account administration\<close>

text \<open>
  The query behind each abstract IAM call, with the arguments that \<open>subaccounts.py\<close> passes, the
  defaults written out.
\<close>

fun iam_call_query :: "iam_call \<Rightarrow> query" where
  "iam_call_query (IamGetUser u) = get_user_query (PStr u)"
| "iam_call_query (IamListPolicies u) = get_all_user_policies_query (PStr u) PNone PNone"
| "iam_call_query (IamDeletePolicy u p) = delete_user_policy_query (PStr u) (PStr p)"
| "iam_call_query (IamListGroups u) = get_groups_for_user_query (PStr u) PNone PNone"
| "iam_call_query (IamRemoveFromGroup g u) = remove_user_from_group_query (PStr g) (PStr u)"
| "iam_call_query (IamListCerts u) = get_all_signing_certs_query PNone PNone (PStr u)"
| "iam_call_query (IamDeleteCert c u) = delete_signing_cert_query (PStr c) (PStr u)"
| "iam_call_query (IamListAccessKeys u) = get_all_access_keys_query (PStr u) PNone PNone"
| "iam_call_query (IamCreateUser u) = create_user_query (PStr u) (PStr ''/'')"
| "iam_call_query (IamAddUserToGroup g u) = add_user_to_group_query (PStr g) (PStr u)"
| "iam_call_query (IamPutUserPolicy u p doc) = put_user_policy_query (PStr u) (PStr p) (PStr doc)"
| "iam_call_query (IamCreateLoginProfile u pw) = create_login_profile_query (PStr u) (PStr pw)"
| "iam_call_query (IamCreateAccessKey u) = create_access_key_query (PStr u)"
| "iam_call_query (IamDeleteAccessKey k u) = delete_access_key_query (PStr k) (PStr u)"
| "iam_call_query IamListUsers = get_all_users_query (PStr ''/'') PNone PNone"

lemmas iam_param_simps = get_response_def with_optional_def opt_param_def

lemma iam_call_query_ok: "query_ok (iam_call_query c)"
  by (cases c) (auto intro!: iam_query_ok iam_query.intros)

text \<open>The user that a call is about, and the user that the request names.\<close>

fun call_user :: "iam_call \<Rightarrow> string option" where
  "call_user (IamGetUser u) = Some u"
| "call_user (IamListPolicies u) = Some u"
| "call_user (IamDeletePolicy u p) = Some u"
| "call_user (IamListGroups u) = Some u"
| "call_user (IamRemoveFromGroup g u) = Some u"
| "call_user (IamListCerts u) = Some u"
| "call_user (IamDeleteCert c u) = Some u"
| "call_user (IamListAccessKeys u) = Some u"
| "call_user (IamCreateUser u) = Some u"
| "call_user (IamAddUserToGroup g u) = Some u"
| "call_user (IamPutUserPolicy u p doc) = Some u"
| "call_user (IamCreateLoginProfile u pw) = Some u"
| "call_user (IamCreateAccessKey u) = Some u"
| "call_user (IamDeleteAccessKey k u) = Some u"
| "call_user IamListUsers = None"

text \<open>
  The abstract calls are the requests. Different IAM calls of the administration become
  different requests, and the request names exactly the user that the call is about; only when
  that name is empty do four of the methods leave it out, and then IAM means the account that
  signed the request.
\<close>

theorem iam_calls_are_queries:
  "(iam_call_query c = iam_call_query d \<longleftrightarrow> c = d)
   \<and> (dget (q_params (iam_call_query c)) ''UserName'' = map_option PStr (call_user c)
      \<or> call_user c = Some [] \<and> dget (q_params (iam_call_query c)) ''UserName'' = None)"
proof
  show "iam_call_query c = iam_call_query d \<longleftrightarrow> c = d"
    by (cases c; cases d) (auto simp: iam_query_defs iam_param_simps)
  show "dget (q_params (iam_call_query c)) ''UserName'' = map_option PStr (call_user c)
      \<or> call_user c = Some [] \<and> dget (q_params (iam_call_query c)) ''UserName'' = None"
    by (cases c) (auto simp: iam_query_defs iam_param_simps)
qed

text \<open>
  \<open>create_access_key\<close> alone passes on a name that was left out: the request then carries the
  value \<open>None\<close>, which becomes the text \<open>None\<close>.
\<close>

lemma create_access_key_sends_none:
  "dget (q_params (create_access_key_query PNone)) ''UserName'' = Some PNone \<and> utf8_value rep PNone = ''None''"
  by (simp add: create_access_key_query_def get_response_def utf8_value_def)

end
