(* ===== verification/BotoConnection.thy ===== *)
theory BotoConnection
  imports BotoQuery
begin

text \<open>
  Requests of \<open>boto/connection.py\<close> and their signatures of \<open>boto/auth.py\<close>: the path and host, the
  string that is signed, and the request as it is sent. Hash functions and base64 are fields of
  the client record, as is the notation of floats and containers. How a request is sent is in
  \<open>BotoRetry\<close>. The theorems say that what is signed determines the request, and that what is
  sent gives the parameters back.
\<close>


section \<open>The client\<close>

record client =
  cn_host :: string
  cn_port :: int
  cn_path :: string
  cn_is_secure :: bool
  cn_proxy :: "(string \<times> int) option"
  cn_proxy_login :: "(string \<times> string) option"
  cn_version :: string
  cn_access_key :: string
  cn_sha256 :: bool
  cn_num_retries :: int
  cn_queue_size :: nat
  cn_python :: string
  cn_hmac :: "string \<Rightarrow> string"
  cn_b64 :: "string \<Rightarrow> string"
  cn_rep :: "pyval \<Rightarrow> string"

definition cn_protocol :: "client \<Rightarrow> string" where
  "cn_protocol C = (if cn_is_secure C then ''https'' else ''http'')"

text \<open>
  \<open>get_path\<close>: the path below that of the connection, without empty elements. The last character of
  an empty path is asked for, which raises.
\<close>

definition get_path :: "client \<Rightarrow> string \<Rightarrow> py_exc + string" where
  "get_path C path0 =
     (let path = takeWhile (\<lambda>c. c \<noteq> CHR ''?'') path0;
          query = dropWhile (\<lambda>c. c \<noteq> CHR ''?'') path0 in
      if path = [] then Inl IndexError
      else let elements = filter (\<lambda>p. p \<noteq> []) (py_split (CHR ''/'') (cn_path C) @ py_split (CHR ''/'') path);
               joined = ''/'' @ py_join ''/'' elements in
           Inr ((if last joined \<noteq> CHR ''/'' \<and> last path = CHR ''/'' then joined @ ''/'' else joined) @ query))"

text \<open>The name that is signed: the port is left out when it is the usual one.\<close>

definition signature_host :: "client \<Rightarrow> string \<Rightarrow> int \<Rightarrow> string" where
  "signature_host C host port =
     (if port = 80 then host
      else if (cn_python C = ''2.6'' \<or> cn_python C = ''2.7'') \<and> port = 443 then host
      else host @ '':'' @ int_str port)"

definition server_name :: "client \<Rightarrow> string" where
  "server_name C = signature_host C (cn_host C) (cn_port C)"


section \<open>Requests\<close>

record http_request =
  hr_method :: string
  hr_protocol :: string
  hr_host :: string
  hr_port :: int
  hr_path :: string
  hr_params :: pydict
  hr_headers :: "(string, string) dict"
  hr_body :: string

definition prefix_proxy_to_path :: "client \<Rightarrow> string \<Rightarrow> string \<Rightarrow> string" where
  "prefix_proxy_to_path C path host = cn_protocol C @ ''://'' @ (if host = [] then server_name C else host) @ path"

text \<open>\<open>encodestring\<close> ends its output with a newline, which becomes part of the header.\<close>

definition get_proxy_auth_header :: "client \<Rightarrow> string \<times> string \<Rightarrow> (string, string) dict" where
  "get_proxy_auth_header C login =
     [(''Proxy-Authorization'', ''Basic '' @ cn_b64 C (fst login @ '':'' @ snd login) @ [nl])]"

definition build_base_http_request ::
  "client \<Rightarrow> string \<Rightarrow> string \<Rightarrow> pydict \<Rightarrow> (string, string) dict \<Rightarrow> string \<Rightarrow> string \<Rightarrow> py_exc + http_request" where
  "build_base_http_request C verb path params headers data host0 =
     sbind (get_path C path) (\<lambda>p.
     let host = (if host0 = [] then cn_host C else host0) in
     Inr \<lparr>hr_method = verb, hr_protocol = cn_protocol C, hr_host = host, hr_port = cn_port C,
          hr_path = (if cn_proxy C \<noteq> None then prefix_proxy_to_path C p host else p),
          hr_params = params,
          hr_headers = (case cn_proxy_login C of
             Some login \<Rightarrow> if cn_proxy C \<noteq> None \<and> fst login \<noteq> [] \<and> snd login \<noteq> [] \<and> \<not> cn_is_secure C
                          then fold (\<lambda>(k, v). dset k v) (get_proxy_auth_header C login) headers else headers
           | None \<Rightarrow> headers),
          hr_body = data\<rparr>)"


subsection \<open>Signatures\<close>

definition signature_method :: "client \<Rightarrow> pyval" where
  "signature_method C = PStr (if cn_sha256 C then ''HmacSHA256'' else ''HmacSHA1'')"

text \<open>The text of every parameter, in the order of the sorted names.\<close>

definition sorted_pairs :: "client \<Rightarrow> pydict \<Rightarrow> (string \<times> string) list" where
  "sorted_pairs C params = map (\<lambda>k. (k, utf8_value (cn_rep C) (pget params k))) (sort (map fst params))"

definition string_to_sign :: "client \<Rightarrow> pydict \<Rightarrow> string \<Rightarrow> string \<Rightarrow> string \<Rightarrow> string" where
  "string_to_sign C params verb path server =
     verb @ [nl] @ py_lower server @ [nl] @ path @ [nl] @ query_text ''-_~'' (sorted_pairs C params)"

definition calc_signature_2 :: "client \<Rightarrow> pydict \<Rightarrow> string \<Rightarrow> string \<Rightarrow> string \<Rightarrow> string \<times> string" where
  "calc_signature_2 C params0 verb path server =
     (let params = dset ''SignatureMethod'' (signature_method C) params0 in
      (query_text ''-_~'' (sorted_pairs C params), cn_hmac C (string_to_sign C params verb path server)))"

text \<open>
  Version 1 sorts the names without regard to case and signs names and values one after the
  other, with nothing in between. Version 0 refers to a module that does not exist and always
  raises.
\<close>

definition pairs_1 :: "client \<Rightarrow> pydict \<Rightarrow> (string \<times> string) list" where
  "pairs_1 C params = map (\<lambda>k. (k, utf8_value (cn_rep C) (pget params k))) (sort_key py_lower (map fst params))"

definition string_to_sign_1 :: "client \<Rightarrow> pydict \<Rightarrow> string" where
  "string_to_sign_1 C params = concat (map (\<lambda>(k, v). k @ v) (pairs_1 C params))"

definition calc_signature_1 :: "client \<Rightarrow> pydict \<Rightarrow> string \<times> string" where
  "calc_signature_1 C params =
     (py_join ''&'' (map (\<lambda>(k, v). k @ ''='' @ urllib_quote ''/'' v) (pairs_1 C params)),
      cn_hmac C (string_to_sign_1 C params))"

definition calc_signature_0 :: "pydict \<Rightarrow> py_exc + string \<times> string" where
  "calc_signature_0 params =
     sbind (dlookup params ''Action'') (\<lambda>action.
     sbind (dlookup params ''Timestamp'') (\<lambda>timestamp.
     sbind (py_add action timestamp) (\<lambda>s. Inl (NameError ''bot''))))"

text \<open>\<open>add_auth\<close> of the version that EC2 and IAM use: the query moves to the path, or to the body.\<close>

definition add_auth :: "client \<Rightarrow> string \<Rightarrow> http_request \<Rightarrow> http_request" where
  "add_auth C now r =
     (let params = dset ''Timestamp'' (PStr now) (dset ''SignatureVersion'' (PInt 2)
                     (dset ''AWSAccessKeyId'' (PStr (cn_access_key C)) (hr_params r)));
          (qs, signature) = calc_signature_2 C params (hr_method r) (hr_path r)
                              (signature_host C (hr_host r) (hr_port r));
          query = qs @ ''&Signature='' @ urllib_quote ''/'' signature in
      if hr_method r = ''POST''
      then r\<lparr>hr_headers := dset ''Content-Type'' ''application/x-www-form-urlencoded; charset=UTF-8'' (hr_headers r),
             hr_body := query, hr_params := []\<rparr>
      else r\<lparr>hr_body := [], hr_path := hr_path r @ ''?'' @ query, hr_params := []\<rparr>)"

definition fill_in_auth :: "client \<Rightarrow> string \<Rightarrow> string \<Rightarrow> http_request \<Rightarrow> http_request" where
  "fill_in_auth C user_agent now r0 =
     (let r = add_auth C now r0;
          headers = dset ''User-Agent'' user_agent (hr_headers r) in
      r\<lparr>hr_headers := (if dget headers ''Content-Length'' \<noteq> None then headers
                        else dset ''Content-Length'' (nat_str (length (hr_body r))) headers)\<rparr>)"

text \<open>\<open>make_request\<close> of a query.\<close>

definition query_request :: "client \<Rightarrow> string \<Rightarrow> string \<Rightarrow> string \<Rightarrow> query \<Rightarrow> py_exc + http_request" where
  "query_request C user_agent now path q =
     sbind (build_base_http_request C (q_verb q) path (q_params q) [] [] []) (\<lambda>r.
     Inr (fill_in_auth C user_agent now
       (r\<lparr>hr_params := dset ''Version'' (PStr (cn_version C)) (dset ''Action'' (PStr (q_action q)) (hr_params r))\<rparr>)))"

section \<open>What is signed determines the request\<close>

definition param_text :: "client \<Rightarrow> pydict \<Rightarrow> string \<Rightarrow> string option" where
  "param_text C params k = map_option (utf8_value (cn_rep C)) (dget params k)"

lemma sorted_pairs_Nil [simp]: "sorted_pairs C p = [] \<longleftrightarrow> p = []"
proof -
  have "length (sorted_pairs C p) = length p" by (simp add: sorted_pairs_def)
  then show ?thesis by (cases p; cases "sorted_pairs C p") auto
qed

lemma map_of_sorted_pairs: "map_of (sorted_pairs C p) = param_text C p"
proof
  fix k
  have "map_of (map (\<lambda>k. (k, utf8_value (cn_rep C) (pget p k))) ks) k
      = (if k \<in> set ks then Some (utf8_value (cn_rep C) (pget p k)) else None)" for ks
    by (induction ks) auto
  then have "map_of (sorted_pairs C p) k = (if k \<in> set (map fst p) then Some (utf8_value (cn_rep C) (pget p k)) else None)"
    unfolding sorted_pairs_def by (simp only: set_sort)
  also have "\<dots> = param_text C p k"
    by (cases "dget p k") (auto simp: param_text_def pget_def map_of_eq_None_iff dest: map_of_SomeD intro: rev_image_eqI)
  finally show "map_of (sorted_pairs C p) k = param_text C p k" .
qed

lemma sorted_pairs_cong:
  assumes "dict_ok p" and "dict_ok p'" and "param_text C p = param_text C p'"
  shows "sorted_pairs C p = sorted_pairs C p'"
proof -
  have dom: "fst ` set d = dom (param_text C d)" for d
    by (simp add: param_text_def dom_map_of_conv_image_fst [symmetric] dom_def)
  have keys: "sort (map fst p) = sort (map fst p')"
    using assms dom [of p] dom [of p'] by (intro sorted_distinct_set_unique) (simp_all add: dict_ok_def)
  have at: "utf8_value (cn_rep C) (pget d k) = the (param_text C d k)" if "k \<in> set (map fst d)" for d k
    using that by (cases "dget d k") (auto simp: param_text_def pget_def map_of_eq_None_iff)
  have "\<forall>k \<in> set (sort (map fst p)). utf8_value (cn_rep C) (pget p k) = utf8_value (cn_rep C) (pget p' k)"
    using at [of _ p] at [of _ p'] keys assms(3) by (metis set_sort)
  then show ?thesis unfolding sorted_pairs_def keys by (intro map_cong) auto
qed

lemma split_at_newline:
  assumes "nl \<notin> set a" and "nl \<notin> set b" and "a @ [nl] @ x = b @ [nl] @ y"
  shows "a = b \<and> x = y"
proof -
  have "takeWhile (\<lambda>c. c \<noteq> nl) (s @ [nl] @ z) = s" if "nl \<notin> set s" for s z
    using that by (induction s) auto
  from this [OF assms(1), of x] this [OF assms(2), of y] assms(3) show ?thesis by simp
qed

lemma split_at_last_newline:
  assumes "nl \<notin> set x" and "nl \<notin> set y" and "a @ [nl] @ x = b @ [nl] @ y"
  shows "a = b \<and> x = y"
proof -
  have "rev x @ [nl] @ rev a = rev y @ [nl] @ rev b" using arg_cong [OF assms(3), of rev] by simp
  from split_at_newline [OF _ _ this] assms(1,2) show ?thesis by simp
qed

text \<open>
  C18: the signature pins the request down. The strings that are signed for two requests are equal
  exactly when the method, the host (but for case), the path and the text of every parameter
  agree; the order in which the parameters were added makes no difference.
\<close>

theorem signature_determines_request:
  assumes "dict_ok p" and "dict_ok p'" and "p \<noteq> []" and "p' \<noteq> []"
    and "nl \<notin> set verb" and "nl \<notin> set verb'" and "nl \<notin> set server" and "nl \<notin> set server'"
  shows "string_to_sign C p verb path server = string_to_sign C p' verb' path' server'
    \<longleftrightarrow> verb = verb' \<and> py_lower server = py_lower server' \<and> path = path' \<and> param_text C p = param_text C p'"
proof
  assume eq: "string_to_sign C p verb path server = string_to_sign C p' verb' path' server'"
  have low: "nl \<notin> set (py_lower s)" if "nl \<notin> set s" for s
  proof -
    have lc: "c = nl" if "lower_char c = nl" for c
    proof (rule ccontr)
      assume "c \<noteq> nl"
      with that have "char_of ((of_char c :: nat) + 32) = nl" "(of_char c :: nat) \<le> 90"
        by (auto simp: lower_char_def split: if_splits)
      from arg_cong [OF this(1), of "of_char :: char \<Rightarrow> nat"] this(2) show False by simp
    qed
    show ?thesis
    proof
      assume "nl \<in> set (py_lower s)"
      then obtain c where "c \<in> set s" "lower_char c = nl" unfolding py_lower_def set_map by (metis imageE)
      with lc that show False by metis
    qed
  qed
  let ?q = "query_text ''-_~'' (sorted_pairs C p)" and ?q' = "query_text ''-_~'' (sorted_pairs C p')"
  have 1: "verb = verb'" "py_lower server @ [nl] @ path @ [nl] @ ?q = py_lower server' @ [nl] @ path' @ [nl] @ ?q'"
    using split_at_newline [OF assms(5,6)] eq unfolding string_to_sign_def by blast+
  have 2: "py_lower server = py_lower server'" "path @ [nl] @ ?q = path' @ [nl] @ ?q'"
    using split_at_newline [OF low [OF assms(7)] low [OF assms(8)] 1(2)] by blast+
  have 3: "path = path'" "?q = ?q'"
    using split_at_last_newline [OF _ _ 2(2)] by (simp_all add: query_text_one_line)
  have "sorted_pairs C p \<noteq> []" "sorted_pairs C p' \<noteq> []"
    using assms(3,4) by simp_all
  then have "sorted_pairs C p = sorted_pairs C p'"
    using arg_cong [OF 3(2), of read_query] by (simp add: read_query_text)
  then have "param_text C p = param_text C p'" using map_of_sorted_pairs by metis
  with 1 2 3 show "verb = verb' \<and> py_lower server = py_lower server' \<and> path = path' \<and> param_text C p = param_text C p'"
    by blast
next
  assume "verb = verb' \<and> py_lower server = py_lower server' \<and> path = path' \<and> param_text C p = param_text C p'"
  with sorted_pairs_cong [OF assms(1,2)] show "string_to_sign C p verb path server = string_to_sign C p' verb' path' server'"
    by (simp add: string_to_sign_def)
qed

text \<open>Version 1 does not: a character can move from a value to the end of its name.\<close>

lemma signature_1_ambiguous:
  "string_to_sign_1 C [(k, PStr (c # v))] = string_to_sign_1 C [(k @ [c], PStr v)]"
  by (simp add: string_to_sign_1_def pairs_1_def pget_def utf8_value_def)

lemma signature_0_fails: "\<exists>e. calc_signature_0 params = Inl e"
  by (cases "dlookup params ''Action''"; cases "dlookup params ''Timestamp''")
    (auto simp: calc_signature_0_def sbind_def split: sum.splits)

definition client0 :: client where
  "client0 = \<lparr>cn_host = ''ec2.amazonaws.com'', cn_port = 443, cn_path = ''/'', cn_is_secure = True, cn_proxy = None,
     cn_proxy_login = None, cn_version = ''2010-08-31'', cn_access_key = ''AKIA'', cn_sha256 = True, cn_num_retries = 5,
     cn_queue_size = 20, cn_python = ''2.7'', cn_hmac = (\<lambda>s. ''sig''), cn_b64 = (\<lambda>s. s), cn_rep = (\<lambda>_. [])\<rparr>"

theorem signature_determines_request_witness:
  "string_to_sign client0 [(''A'', PStr ''x''), (''B'', PInt 1)] ''GET'' ''/'' ''EC2.amazonaws.com''
   = string_to_sign client0 [(''B'', PStr ''1''), (''A'', PStr ''x'')] ''GET'' ''/'' ''ec2.amazonaws.com''"
proof -
  have "py_lower ''EC2.amazonaws.com'' = py_lower ''ec2.amazonaws.com''" by code_simp
  moreover have "int_str 1 = ''1''" by code_simp
  ultimately show ?thesis
    using signature_determines_request [of "[(''A'', PStr ''x''), (''B'', PInt 1)]" "[(''B'', PStr ''1''), (''A'', PStr ''x'')]"
        "''GET''" "''GET''" "''EC2.amazonaws.com''" "''ec2.amazonaws.com''" client0 "''/''" "''/''"]
    by (simp add: dict_ok_def param_text_def fun_eq_iff utf8_value_def)
qed


section \<open>What is sent carries the query\<close>

lemma py_split_two: "py_split c (a @ c # b) = py_split c a @ py_split c b"
  by (induction a) (auto split: list.splits)

lemma read_signed_query:
  assumes "ps \<noteq> []"
  shows "read_query (query_text ''-_~'' ps @ ''&Signature='' @ urllib_quote ''/'' sig) = ps @ [(''Signature'', sig)]"
proof -
  let ?s = "''Signature='' @ urllib_quote ''/'' sig"
  have "CHR ''&'' \<notin> set (urllib_quote ''/'' sig)" "CHR ''='' \<notin> set (urllib_quote ''/'' sig)"
    by (simp_all add: quote_hides)
  then have one: "py_split (CHR ''&'') ?s = [?s]" and "py_split (CHR ''='') ?s = [''Signature'', urllib_quote ''/'' sig]"
    by (simp_all add: py_split_free)
  then have sig: "read_pair ?s = (''Signature'', sig)" by (simp add: read_pair_def unquote_quote)
  have "read_query (query_text ''-_~'' ps @ ''&Signature='' @ urllib_quote ''/'' sig)
      = read_query (query_text ''-_~'' ps) @ map read_pair (py_split (CHR ''&'') ?s)"
    using py_split_two [of "CHR ''&''" "query_text ''-_~'' ps" ?s] by (simp add: read_query_def)
  also have "\<dots> = ps @ [(''Signature'', sig)]" unfolding one using sig assms by (simp add: read_query_text)
  finally show ?thesis .
qed

definition signed_params :: "client \<Rightarrow> string \<Rightarrow> query \<Rightarrow> pydict" where
  "signed_params C now q =
     dset ''SignatureMethod'' (signature_method C) (dset ''Timestamp'' (PStr now) (dset ''SignatureVersion'' (PInt 2)
       (dset ''AWSAccessKeyId'' (PStr (cn_access_key C)) (dset ''Version'' (PStr (cn_version C))
         (dset ''Action'' (PStr (q_action q)) (q_params q))))))"

lemma add_auth_parts:
  fixes C now r
  defines "P \<equiv> dset ''SignatureMethod'' (signature_method C) (dset ''Timestamp'' (PStr now)
      (dset ''SignatureVersion'' (PInt 2) (dset ''AWSAccessKeyId'' (PStr (cn_access_key C)) (hr_params r))))"
  defines "sig \<equiv> cn_hmac C (string_to_sign C P (hr_method r) (hr_path r) (signature_host C (hr_host r) (hr_port r)))"
  defines "query \<equiv> query_text ''-_~'' (sorted_pairs C P) @ ''&Signature='' @ urllib_quote ''/'' sig"
  shows "hr_method r = ''POST'' \<Longrightarrow> hr_path (add_auth C now r) = hr_path r \<and> hr_body (add_auth C now r) = query"
    and "hr_method r \<noteq> ''POST'' \<Longrightarrow> hr_path (add_auth C now r) = hr_path r @ ''?'' @ query \<and> hr_body (add_auth C now r) = []"
  by (simp_all add: add_auth_def calc_signature_2_def Let_def P_def sig_def query_def)

lemma fill_in_auth_parts: "hr_path (fill_in_auth C ua now r) = hr_path (add_auth C now r)"
  "hr_body (fill_in_auth C ua now r) = hr_body (add_auth C now r)"
  by (simp_all add: fill_in_auth_def Let_def)

lemma query_request_text:
  assumes "query_request C ua now path q = Inr r"
  obtains query target sig where "query = query_text ''-_~'' (sorted_pairs C (signed_params C now q)) @ ''&Signature='' @ urllib_quote ''/'' sig"
    and "sig = cn_hmac C (string_to_sign C (signed_params C now q) (q_verb q) target (signature_host C (cn_host C) (cn_port C)))"
    and "if q_verb q = ''POST'' then hr_path r = target \<and> hr_body r = query else hr_path r = target @ ''?'' @ query \<and> hr_body r = []"
proof -
  from assms obtain r0 where r0: "build_base_http_request C (q_verb q) path (q_params q) [] [] [] = Inr r0"
    and r: "r = fill_in_auth C ua now (r0\<lparr>hr_params := dset ''Version'' (PStr (cn_version C)) (dset ''Action'' (PStr (q_action q)) (hr_params r0))\<rparr>)"
    by (auto simp: query_request_def sbind_Inr_iff)
  have parts: "hr_method r0 = q_verb q" "hr_params r0 = q_params q" "hr_host r0 = cn_host C" "hr_port r0 = cn_port C"
    using r0 by (auto simp: build_base_http_request_def sbind_Inr_iff Let_def)
  let ?r = "r0\<lparr>hr_params := dset ''Version'' (PStr (cn_version C)) (dset ''Action'' (PStr (q_action q)) (hr_params r0))\<rparr>"
  show thesis
  proof (rule that [OF refl refl, of "hr_path r0"], goal_cases)
    case 1
    show ?case
      using add_auth_parts [where C = C and now = now and r = ?r] unfolding r fill_in_auth_parts signed_params_def
      by (simp add: parts)
  qed
qed



end
