(* ===== verification/BotoFacts.thy ===== *)
theory BotoFacts
  imports BotoEc2 BotoIam BotoConnection
begin

text \<open>
  What the queries of EC2 and IAM carry: every one is well formed, lists and filters can be read
  back, and a launch request reaches EC2 with the fields that the program asked for.
\<close>


section \<open>Well-formed queries\<close>

text \<open>
  No request loses a parameter. Whatever the arguments, the parameter names of every
  request that the EC2 and IAM interfaces can make are distinct, and none is a name that
  \<open>make_request\<close> or the signature overwrites.
\<close>

theorem every_query_well_formed:
  assumes "ec2_query q \<or> iam_query q"
  shows "distinct (map fst (q_params q)) \<and> (\<forall>k \<in> set (map fst (q_params q)). k \<notin> reserved)
    \<and> (q_verb q = ''GET'' \<or> q_verb q = ''POST'')"
  using assms ec2_query_ok [of q] iam_query_ok [of q] by (auto simp: query_ok_def params_ok_def dict_ok_def)

theorem every_query_well_formed_witness:
  "distinct (map fst (q_params (delete_access_key_query (PStr ''AKIA'') (PStr ''cs61c-ab''))))"
  using every_query_well_formed [of "delete_access_key_query (PStr ''AKIA'') (PStr ''cs61c-ab'')"]
  by (simp add: iam_query.intros)


section \<open>Lists and filters\<close>

lemma dget_filters_other:
  assumes "\<And>i. \<not> is_filter_key i k"
  shows "dget (opt_filters fs p) k = dget p k"
  using assms dget_add_filters_other [of fs 1 k p] by (simp add: opt_filters_def build_filter_params_def)

lemma instance_key_no_filter: "\<not> is_filter_key i (list_key ''InstanceId'' j)"
  by (simp add: is_filter_key_def list_key_def)

text \<open>The items of an argument: a single text, or the elements of a list.\<close>

definition items_of :: "pyval \<Rightarrow> pyval list" where
  "items_of v = (case v of PStr s \<Rightarrow> if s = [] then [] else [PStr s] | PList xs \<Rightarrow> xs | _ \<Rightarrow> [])"

lemma opt_list_reads_back:
  assumes "opt_list label v [] = Inr p"
  shows "\<forall>i < length (items_of v). dget p (list_key label (Suc i)) = Some (items_of v ! i)"
    and "(\<forall>i. k \<noteq> list_key label (Suc i)) \<Longrightarrow> dget p k = None"
    and "dget p (list_key label (Suc (length (items_of v)))) = None"
  using assms
  by (cases v; auto simp: items_of_def opt_list_def build_list_params_def dget_number_params_other split: if_splits)+

text \<open>
  What is asked of EC2 can be read off the request. The numbered parameters of a description of
  instances give back the ids in their order, and its filters with all their values in their
  order, the underscores of the names turned into dashes.
\<close>

theorem instance_query_reads_back:
  assumes "get_all_instances_query ids filters = Inr q"
  shows "read_list ''InstanceId'' (q_params q) = items_of ids \<and> read_filters (q_params q) = map wire_filter filters"
proof -
  obtain p where p: "opt_list ''InstanceId'' ids [] = Inr p" and q: "q_params q = opt_filters filters p"
    using assms by (auto simp: get_all_instances_query_def get_list_def sbind_Inr_iff)
  have dget_q: "dget (q_params q) (list_key ''InstanceId'' i) = dget p (list_key ''InstanceId'' i)" for i
    unfolding q by (rule dget_filters_other) (rule instance_key_no_filter)
  have "read_list ''InstanceId'' (q_params q) = items_of ids"
    using opt_list_reads_back [OF p] by (intro read_list_exact) (simp_all add: dget_q)
  moreover have no_filter: "dget p k = None" if "is_filter_key i k" for i k
  proof -
    have "\<forall>j. k \<noteq> list_key ''InstanceId'' (Suc j)" using that instance_key_no_filter by blast
    then show ?thesis by (rule opt_list_reads_back(2) [OF p])
  qed
  have "read_filters (q_params q) = map wire_filter filters"
  proof (cases "filters = []")
    case True
    have "dget p (filter_name_key 1) = None" using no_filter [OF filter_keys(1)] .
    with True q show ?thesis by (simp add: opt_filters_def read_filters_def)
  next
    case False
    with q read_filters_build [of p filters, OF no_filter] show ?thesis by (simp add: opt_filters_def)
  qed
  ultimately show ?thesis by blast
qed

theorem instance_query_reads_back_witness:
  "\<exists>q. get_all_instances_query (PList [PStr ''i-1'', PStr ''i-2'']) [(''key_name'', PStr ''cs61c-ab-x'')] = Inr q
     \<and> read_list ''InstanceId'' (q_params q) = [PStr ''i-1'', PStr ''i-2'']
     \<and> read_filters (q_params q) = [(PStr ''key-name'', [PStr ''cs61c-ab-x''])]"
proof -
  obtain q where q: "get_all_instances_query (PList [PStr ''i-1'', PStr ''i-2'']) [(''key_name'', PStr ''cs61c-ab-x'')] = Inr q"
    by (simp add: get_all_instances_query_def opt_list_def build_list_params_def)
  have "py_replace ''_'' ''-'' ''key_name'' = ''key-name''" by (simp add: py_replace_char)
  with instance_query_reads_back [OF q] q show ?thesis by (simp add: items_of_def wire_filter_def filter_values_def)
qed


section \<open>Launch requests\<close>

text \<open>The call that \<open>RunInstances\<close> stands for in the model of the program.\<close>

definition run_request_query :: "(string \<Rightarrow> string) \<Rightarrow> run_request \<Rightarrow> py_exc + query" where
  "run_request_query b64 rq =
     run_instances_query b64
       \<lparr>ra_image_id = rq_image_id rq, ra_min_count = rq_min_count rq, ra_max_count = rq_max_count rq,
        ra_key_name = rq_key_name rq,
        ra_security_groups = (case rq_security_groups rq of PList gs \<Rightarrow> map RefValue gs | _ \<Rightarrow> []),
        ra_user_data = rq_user_data rq, ra_addressing_type = PNone, ra_instance_type = rq_instance_type rq,
        ra_placement = rq_placement rq, ra_kernel_id = PNone, ra_ramdisk_id = PNone, ra_monitoring_enabled = PBool False,
        ra_subnet_id = PNone, ra_block_device_map = [], ra_disable_api_termination = PBool False,
        ra_shutdown_behavior = PNone, ra_private_ip_address = PNone, ra_placement_group = PNone, ra_client_token = PNone\<rparr>"

definition given :: "pyval \<Rightarrow> pyval option" where
  "given v = (if py_truth v then Some v else None)"

text \<open>
  C5: a launch reaches EC2 as it was asked for. The request carries the image, the two counts,
  the key, the security groups in their order, the encoded user data, the type and the zone,
  each exactly when it was given.
\<close>

theorem launch_query_exact:
  assumes "rq_security_groups rq = PList gs" and "rq_user_data rq = PStr ud"
  shows "\<exists>q. run_request_query b64 rq = Inr q \<and> q_action q = ''RunInstances'' \<and> q_verb q = ''POST''
    \<and> dget (q_params q) ''ImageId'' = Some (rq_image_id rq) \<and> dget (q_params q) ''MinCount'' = Some (rq_min_count rq)
    \<and> dget (q_params q) ''MaxCount'' = Some (rq_max_count rq) \<and> dget (q_params q) ''KeyName'' = given (rq_key_name rq)
    \<and> read_list ''SecurityGroup'' (q_params q) = gs
    \<and> dget (q_params q) ''UserData'' = (if ud = [] then None else Some (PStr (b64 ud)))
    \<and> dget (q_params q) ''InstanceType'' = given (rq_instance_type rq)
    \<and> dget (q_params q) ''Placement.AvailabilityZone'' = given (rq_placement rq)"
proof -
  define p0 where "p0 = with_optional [(''ImageId'', rq_image_id rq), (''MinCount'', rq_min_count rq), (''MaxCount'', rq_max_count rq)]
            [(''KeyName'', rq_key_name rq)]"
  define p1 where "p1 = number_params ''SecurityGroup'' gs p0"
  define p2 where "p2 = (if ud = [] then p1 else dset ''UserData'' (PStr (b64 ud)) p1)"
  define p3 where "p3 = with_optional p2 [(''InstanceType'', rq_instance_type rq), (''Placement.AvailabilityZone'', rq_placement rq)]"
  have groups: "opt_groups ''SecurityGroup'' (map RefValue gs) p0 = p1"
    by (simp add: opt_groups_def p1_def number_params_def ref_value_def comp_def)
  have run: "run_request_query b64 rq = Inr ((get_object ''RunInstances'' p3 ''Reservation'')\<lparr>q_verb := ''POST''\<rparr>)"
    using assms groups unfolding p3_def p2_def p0_def
    by (simp add: run_request_query_def run_instances_query_def opt_user_data_def opt_flag_def with_optional_def opt_param_def
        block_device_params_def)
  have other: "dget p1 k = dget p0 k" if "\<forall>i. k \<noteq> list_key ''SecurityGroup'' i" for k
    using that unfolding p1_def by (simp add: dget_number_params_other)
  have key: "k \<noteq> list_key ''SecurityGroup'' i" if "take 3 k \<noteq> ''Sec''" for k i
    using that by (auto simp: list_key_def)
  have grp: "dget p3 (list_key ''SecurityGroup'' i) = dget p1 (list_key ''SecurityGroup'' i)" for i
    unfolding p3_def p2_def by (simp add: dget_with_optional dget_dset list_key_def)
  have none: "dget p0 (list_key ''SecurityGroup'' i) = None" for i
    unfolding p0_def by (simp add: dget_with_optional list_key_def)
  have "read_list ''SecurityGroup'' p3 = gs"
    by (rule read_list_exact) (simp_all add: grp, simp_all add: p1_def dget_number_params_other none)
  then show ?thesis
    unfolding run by (simp add: get_object_def p3_def p2_def dget_with_optional dget_dset other key given_def p0_def)
qed

definition rq0 :: run_request where
  "rq0 = \<lparr>rq_image_id = PStr ''ami-1'', rq_min_count = PInt 1, rq_max_count = PInt 1, rq_key_name = PStr ''cs61c-ab-x'',
     rq_security_groups = PList [PStr ''c'', PStr ''c-nn''], rq_user_data = PStr ''boot'', rq_instance_type = PStr ''m1.large'',
     rq_placement = PNone\<rparr>"

theorem launch_query_exact_witness:
  "\<exists>q. run_request_query (\<lambda>s. rev s) rq0 = Inr q \<and> read_list ''SecurityGroup'' (q_params q) = [PStr ''c'', PStr ''c-nn'']
     \<and> dget (q_params q) ''UserData'' = Some (PStr ''toob'') \<and> dget (q_params q) ''Placement.AvailabilityZone'' = None"
  using launch_query_exact [of rq0 "[PStr ''c'', PStr ''c-nn'']" "''boot''" "\<lambda>s. rev s"]
  by (auto simp: rq0_def given_def)

text \<open>
  A port 0 is left out of the request for a rule, so that a rule for the ports from 0 on is not
  asked for as such.
\<close>

lemma authorize_port_zero:
  "\<exists>q. authorize_security_group_query g PNone PNone (PStr ''tcp'') (PInt 0) to_port (PStr cidr) = Inr q
     \<and> dget (q_params q) ''IpPermissions.1.FromPort'' = None"
  by (cases "cidr = []")
    (auto simp: authorize_security_group_query_def opt_cidr_def get_status_def with_optional_def opt_param_def dget_dset)

end
