(* ===== verification/BotoLru.thy ===== *)
theory BotoLru
  imports Prelude
begin

text \<open>
  \<open>LRUCache\<close> of \<open>boto/utils.py\<close>, the store of the connection pool: a dict from keys to the items of
  a doubly linked list, most recently used first. The items live in a heap of addresses, so that
  the pointer updates of the code are modelled as they are written. The specification is a list
  of keys and values; every operation is shown to implement the operation on that list.
\<close>


section \<open>Items and pointers\<close>

record 'v cache_item =
  li_previous :: "nat option"
  li_next :: "nat option"
  li_key :: string
  li_value :: 'v

record 'v lru =
  lru_dict :: "(string, nat) dict"
  lru_capacity :: int
  lru_head :: "nat option"
  lru_tail :: "nat option"
  lru_heap :: "nat \<Rightarrow> 'v cache_item option"
  lru_fresh :: nat

definition lru_new :: "int \<Rightarrow> 'v lru" where
  "lru_new capacity =
     \<lparr>lru_dict = [], lru_capacity = capacity, lru_head = None, lru_tail = None,
      lru_heap = (\<lambda>_. None), lru_fresh = 0\<rparr>"

text \<open>Reading and writing an attribute of \<open>None\<close> raises.\<close>

definition deref :: "nat option \<Rightarrow> ('v lru, 'v cache_item) st" where
  "deref p s =
     (case p of
        None \<Rightarrow> (Inl (AttributeError ''NoneType''), s)
      | Some a \<Rightarrow> (case lru_heap s a of None \<Rightarrow> (Inl (AttributeError ''NoneType''), s) | Some it \<Rightarrow> (Inr it, s)))"

definition update_ref :: "nat option \<Rightarrow> ('v cache_item \<Rightarrow> 'v cache_item) \<Rightarrow> ('v lru, unit) st" where
  "update_ref p f =
     bnd (deref p) (\<lambda>it. modify (\<lambda>s. s\<lparr>lru_heap := (lru_heap s)(the p := Some (f it))\<rparr>))"

definition set_previous :: "nat option \<Rightarrow> nat option \<Rightarrow> ('v lru, unit) st" where
  "set_previous p q = update_ref p (\<lambda>it. it\<lparr>li_previous := q\<rparr>)"

definition set_next :: "nat option \<Rightarrow> nat option \<Rightarrow> ('v lru, unit) st" where
  "set_next p q = update_ref p (\<lambda>it. it\<lparr>li_next := q\<rparr>)"


section \<open>Operations\<close>

definition lru_contains :: "string \<Rightarrow> 'v lru \<Rightarrow> bool" where
  "lru_contains key s \<longleftrightarrow> dget (lru_dict s) key \<noteq> None"

definition lru_len :: "'v lru \<Rightarrow> nat" where
  "lru_len s = length (lru_dict s)"

text \<open>Iteration follows the list; it has at most as many items as the dict.\<close>

fun walk :: "nat \<Rightarrow> ('v lru \<Rightarrow> nat option \<Rightarrow> (string \<times> 'v) list)" where
  "walk 0 s p = []"
| "walk (Suc n) s None = []"
| "walk (Suc n) s (Some a) =
     (case lru_heap s a of None \<Rightarrow> [] | Some it \<Rightarrow> (li_key it, li_value it) # walk n s (li_next it))"

definition lru_items :: "'v lru \<Rightarrow> (string \<times> 'v) list" where
  "lru_items s = walk (lru_len s) s (lru_head s)"

definition lru_iter :: "'v lru \<Rightarrow> string list" where
  "lru_iter s = map fst (lru_items s)"

definition manage_round :: "('v lru, unit option) st" where
  "manage_round =
     bnd (gets (\<lambda>s. int (lru_len s) > lru_capacity s)) (\<lambda>full.
     if \<not> full then ret (Some ())
     else bnd (gets lru_tail) (\<lambda>tail.
          bnd (deref tail) (\<lambda>it.
          bnd (gets (\<lambda>s. dlookup (lru_dict s) (li_key it))) (\<lambda>r.
          andthen (bnd (lift_sum r) (\<lambda>_. modify (\<lambda>s. s\<lparr>lru_dict := ddel (li_key it) (lru_dict s)\<rparr>)))
         (bnd (gets lru_head) (\<lambda>head.
          if tail \<noteq> head
          then andthen (modify (\<lambda>s. s\<lparr>lru_tail := li_previous it\<rparr>))
              (andthen (set_next (li_previous it) None) (ret None))
          else andthen (modify (\<lambda>s. s\<lparr>lru_head := None, lru_tail := None\<rparr>)) (ret None)))))))"

text \<open>Every round deletes a key, so the loop ends within one round more than there are keys.\<close>

definition manage_size :: "('v lru, unit) st" where
  "manage_size = bnd (gets lru_len) (\<lambda>n. loop_st (Suc n) manage_round)"

definition link_front :: "nat \<Rightarrow> ('v lru, unit) st" where
  "link_front a =
     andthen (set_previous (Some a) None)
    (bnd (gets lru_head) (\<lambda>head.
     andthen (set_next (Some a) head)
    (andthen (if head \<noteq> None then set_previous head (Some a) else modify (\<lambda>s. s\<lparr>lru_tail := Some a\<rparr>))
       (modify (\<lambda>s. s\<lparr>lru_head := Some a\<rparr>)))))"

definition insert_item :: "nat \<Rightarrow> ('v lru, unit) st" where
  "insert_item a = andthen (link_front a) manage_size"

definition update_item :: "nat \<Rightarrow> ('v lru, unit) st" where
  "update_item a =
     bnd (gets lru_head) (\<lambda>head0.
     if head0 = Some a then ret ()
     else bnd (deref (Some a)) (\<lambda>it.
          andthen (set_next (li_previous it) (li_next it))
         (andthen (if li_next it \<noteq> None then set_previous (li_next it) (li_previous it)
                   else modify (\<lambda>s. s\<lparr>lru_tail := li_previous it\<rparr>))
         (andthen (set_previous (Some a) None)
         (bnd (gets lru_head) (\<lambda>head.
          andthen (set_next (Some a) head)
         (andthen (set_previous head (Some a))
            (modify (\<lambda>s. s\<lparr>lru_head := Some a\<rparr>)))))))))"

definition lru_getitem :: "string \<Rightarrow> ('v lru, 'v) st" where
  "lru_getitem key =
     bnd (gets (\<lambda>s. dlookup (lru_dict s) key)) (\<lambda>r.
     bnd (lift_sum r) (\<lambda>a.
     andthen (update_item a)
    (bnd (deref (Some a)) (\<lambda>it. ret (li_value it)))))"

definition new_item :: "string \<Rightarrow> 'v \<Rightarrow> ('v lru, nat) st" where
  "new_item key v s =
     (let a = lru_fresh s in
      (Inr a, s\<lparr>lru_heap := (lru_heap s)(a := Some \<lparr>li_previous = None, li_next = None, li_key = key, li_value = v\<rparr>),
                lru_fresh := Suc a\<rparr>))"

definition lru_setitem :: "string \<Rightarrow> 'v \<Rightarrow> ('v lru, unit) st" where
  "lru_setitem key v =
     bnd (gets (\<lambda>s. dget (lru_dict s) key)) (\<lambda>found.
     case found of
       None \<Rightarrow>
         bnd (new_item key v) (\<lambda>a.
         andthen (modify (\<lambda>s. s\<lparr>lru_dict := dset key a (lru_dict s)\<rparr>))
           (insert_item a))
     | Some a \<Rightarrow>
         andthen (update_ref (Some a) (\<lambda>it. it\<lparr>li_value := v\<rparr>))
        (andthen (update_item a) manage_size))"


section \<open>Linked lists in the heap\<close>

type_synonym 'v cell = "nat \<times> string \<times> 'v"

definition first :: "'v cell list \<Rightarrow> nat option \<Rightarrow> nat option" where
  "first xs n = (case xs of [] \<Rightarrow> n | x # _ \<Rightarrow> Some (fst x))"

definition final :: "nat option \<Rightarrow> 'v cell list \<Rightarrow> nat option" where
  "final p xs = (if xs = [] then p else Some (fst (last xs)))"

text \<open>\<open>linked h p xs n\<close>: the cells \<open>xs\<close> are linked in \<open>h\<close>, with \<open>p\<close> before and \<open>n\<close> after them.\<close>

fun linked :: "(nat \<Rightarrow> 'v cache_item option) \<Rightarrow> nat option \<Rightarrow> 'v cell list \<Rightarrow> nat option \<Rightarrow> bool" where
  "linked h p [] n = True"
| "linked h p ((a, k, v) # xs) n \<longleftrightarrow>
     h a = Some \<lparr>li_previous = p, li_next = first xs n, li_key = k, li_value = v\<rparr> \<and> linked h (Some a) xs n"

lemma first_simps [simp]: "first [] n = n" "first (x # xs) n = Some (fst x)"
  "first (xs @ ys) n = first xs (first ys n)"
  by (auto simp: first_def split: list.splits)

lemma final_simps [simp]: "final p [] = p" "final p (x # xs) = final (Some (fst x)) xs"
  "final p (xs @ ys) = final (final p xs) ys" "final p (xs @ [x]) = Some (fst x)"
  by (auto simp: final_def)

lemma linked_append [simp]:
  "linked h p (xs @ ys) n \<longleftrightarrow> linked h p xs (first ys n) \<and> linked h (final p xs) ys n"
  by (induction h p xs n rule: linked.induct) auto

lemma linked_frame [simp]: "a \<notin> fst ` set xs \<Longrightarrow> linked (h(a := it)) p xs n = linked h p xs n"
  by (induction h p xs n rule: linked.induct) auto

lemma linked_dom: "linked h p xs n \<Longrightarrow> a \<in> fst ` set xs \<Longrightarrow> h a \<noteq> None"
  by (induction h p xs n rule: linked.induct) auto

text \<open>Redirecting the pointer into a list, and the one out of it.\<close>

lemma linked_set_previous:
  assumes "linked h p ((a, k, v) # xs) n" and "a \<notin> fst ` set xs"
  shows "linked (h(a := Some ((the (h a))\<lparr>li_previous := q\<rparr>))) q ((a, k, v) # xs) n"
  using assms by simp

lemma linked_set_next:
  assumes "linked h p (xs @ [(a, k, v)]) n" and "a \<notin> fst ` set xs"
  shows "linked (h(a := Some ((the (h a))\<lparr>li_next := q\<rparr>))) p (xs @ [(a, k, v)]) q"
  using assms by simp

definition lru_rep :: "'v lru \<Rightarrow> 'v cell list \<Rightarrow> bool" where
  "lru_rep s xs \<longleftrightarrow> linked (lru_heap s) None xs None \<and> distinct (map fst xs)
     \<and> distinct (map (fst \<circ> snd) xs) \<and> lru_head s = first xs None \<and> lru_tail s = final None xs
     \<and> dict_ok (lru_dict s) \<and> map_of (lru_dict s) = map_of (map (\<lambda>(a, k, v). (k, a)) xs)
     \<and> (\<forall>a \<in> fst ` set xs. a < lru_fresh s)"



section \<open>The operations on linked lists\<close>

lemmas lru_run = bnd_def andthen_def ret_def set_next_def set_previous_def update_ref_def deref_def

lemma map_of_move:
  "distinct (map fst (us @ c # vs)) \<Longrightarrow> map_of (us @ c # vs) = map_of (c # us @ vs)"
  by (subst map_of_inject_set) auto

lemma lru_rep_distinct: "lru_rep s xs \<Longrightarrow> distinct (map fst xs)"
  by (simp add: lru_rep_def)

lemma update_item_head: "lru_rep s ((a, k, v) # vs) \<Longrightarrow> update_item a s = (Inr (), s)"
  by (simp add: update_item_def lru_rep_def ret_def)

lemma update_item_last:
  assumes "lru_rep s (us @ [(b, bk, bv), (a, k, v)])"
  shows "\<exists>s'. update_item a s = (Inr (), s') \<and> linked (lru_heap s') None ((a, k, v) # us @ [(b, bk, bv)]) None
    \<and> lru_head s' = Some a \<and> lru_tail s' = Some b \<and> lru_dict s' = lru_dict s \<and> lru_capacity s' = lru_capacity s
    \<and> lru_fresh s' = lru_fresh s"
proof (cases us)
  case Nil
  with assms show ?thesis by (simp add: lru_rep_def update_item_def lru_run)
next
  case (Cons d us')
  obtain da dk dv where d: "d = (da, dk, dv)" by (cases d)
  from assms have D: "da \<noteq> a" "da \<noteq> b" "a \<noteq> b" "da \<notin> fst ` set us'" "a \<notin> fst ` set us'" "b \<notin> fst ` set us'"
    and H: "lru_heap s da = Some \<lparr>li_previous = None, li_next = first us' (Some b), li_key = dk, li_value = dv\<rparr>"
      "linked (lru_heap s) (Some da) us' (Some b)"
      "lru_heap s b = Some \<lparr>li_previous = final (Some da) us', li_next = Some a, li_key = bk, li_value = bv\<rparr>"
      "lru_heap s a = Some \<lparr>li_previous = Some b, li_next = None, li_key = k, li_value = v\<rparr>"
      "lru_head s = Some da"
    unfolding lru_rep_def Cons d by auto
  from D H show ?thesis unfolding Cons d by (simp add: update_item_def lru_run)
qed

lemma update_item_middle:
  assumes "lru_rep s (us @ (b, bk, bv) # (a, k, v) # (c, ck, cv) # vs)"
  shows "\<exists>s'. update_item a s = (Inr (), s') \<and> linked (lru_heap s') None ((a, k, v) # us @ (b, bk, bv) # (c, ck, cv) # vs) None
    \<and> lru_head s' = Some a \<and> lru_tail s' = final (Some c) vs \<and> lru_dict s' = lru_dict s \<and> lru_capacity s' = lru_capacity s
    \<and> lru_fresh s' = lru_fresh s"
proof -
  from assms have D: "a \<noteq> b" "a \<noteq> c" "b \<noteq> c" "a \<notin> fst ` set us" "b \<notin> fst ` set us" "c \<notin> fst ` set us"
      "a \<notin> fst ` set vs" "b \<notin> fst ` set vs" "c \<notin> fst ` set vs"
    and H: "linked (lru_heap s) None us (Some b)"
      "lru_heap s b = Some \<lparr>li_previous = final None us, li_next = Some a, li_key = bk, li_value = bv\<rparr>"
      "lru_heap s a = Some \<lparr>li_previous = Some b, li_next = Some c, li_key = k, li_value = v\<rparr>"
      "lru_heap s c = Some \<lparr>li_previous = Some a, li_next = first vs None, li_key = ck, li_value = cv\<rparr>"
      "linked (lru_heap s) (Some c) vs None"
      "lru_head s = first us (Some b)" "lru_tail s = final (Some c) vs"
    unfolding lru_rep_def by auto
  show ?thesis
  proof (cases us)
    case Nil
    with D H show ?thesis by (simp add: update_item_def lru_run)
  next
    case (Cons d us')
    obtain da dk dv where d: "d = (da, dk, dv)" by (cases d)
    from assms have E: "da \<noteq> a" "da \<noteq> b" "da \<noteq> c" "da \<notin> fst ` set us'" "da \<notin> fst ` set vs"
      unfolding lru_rep_def Cons d by auto
    from D H E show ?thesis unfolding Cons d by (simp add: update_item_def lru_run)
  qed
qed


lemma update_item_rep:
  assumes rep: "lru_rep s (us @ (a, k, v) # vs)"
  shows "\<exists>s'. update_item a s = (Inr (), s') \<and> lru_rep s' ((a, k, v) # us @ vs) \<and> lru_capacity s' = lru_capacity s"
proof (cases us rule: rev_cases)
  case Nil
  with rep update_item_head [of s a k v vs] show ?thesis by auto
next
  case (snoc us' x)
  obtain b bk bv where x: "x = (b, bk, bv)" by (cases x)
  have "distinct (map fst (map (\<lambda>(a, k, v). (k, a)) (us @ (a, k, v) # vs)))"
    using rep by (simp add: lru_rep_def comp_def case_prod_unfold)
  then have dict: "map_of (lru_dict s) = map_of (map (\<lambda>(a, k, v). (k, a)) ((a, k, v) # us @ vs))"
    using map_of_move [of "map (\<lambda>(a, k, v). (k, a)) us" "(k, a)" "map (\<lambda>(a, k, v). (k, a)) vs"] rep
    by (simp add: lru_rep_def)
  have "\<exists>s'. update_item a s = (Inr (), s') \<and> linked (lru_heap s') None ((a, k, v) # us @ vs) None
    \<and> lru_head s' = Some a \<and> lru_tail s' = final None ((a, k, v) # us @ vs) \<and> lru_dict s' = lru_dict s
    \<and> lru_capacity s' = lru_capacity s \<and> lru_fresh s' = lru_fresh s"
  proof (cases vs)
    case Nil
    with rep snoc x update_item_last [of s us' b bk bv a k v] show ?thesis by simp
  next
    case (Cons y vs')
    obtain c ck cv where "y = (c, ck, cv)" by (cases y)
    with Cons rep snoc x update_item_middle [of s us' b bk bv a k v c ck cv vs'] show ?thesis by simp
  qed
  with rep dict show ?thesis unfolding lru_rep_def by auto
qed

lemma lru_len_rep: "lru_rep s xs \<Longrightarrow> lru_len s = length xs"
proof -
  assume rep: "lru_rep s xs"
  have "length (lru_dict s) = length (map fst (lru_dict s))" by simp
  also have "\<dots> = card (set (map fst (lru_dict s)))"
    using rep by (subst distinct_card) (auto simp: lru_rep_def dict_ok_def)
  also have "\<dots> = card (dom (map_of (lru_dict s)))" by (simp add: dom_map_of_conv_image_fst)
  also have "\<dots> = card (set (map (fst \<circ> snd) xs))"
    using rep by (simp add: lru_rep_def dom_map_of_conv_image_fst image_image comp_def case_prod_unfold)
  also have "\<dots> = length xs" using rep by (subst distinct_card) (auto simp: lru_rep_def)
  finally show ?thesis by (simp add: lru_len_def)
qed

lemma manage_round_full:
  assumes rep: "lru_rep s (xs @ [(a, k, v)])" and full: "lru_capacity s < int (Suc (length xs))"
  shows "\<exists>s'. manage_round s = (Inr None, s') \<and> lru_rep s' xs \<and> lru_capacity s' = lru_capacity s"
proof -
  have len: "lru_len s = Suc (length xs)" using lru_len_rep [OF rep] by simp
  have D: "a \<notin> fst ` set xs" "k \<notin> (fst \<circ> snd) ` set xs"
    and H: "linked (lru_heap s) None xs (Some a)"
      "lru_heap s a = Some \<lparr>li_previous = final None xs, li_next = None, li_key = k, li_value = v\<rparr>"
      "lru_head s = first xs (Some a)" "lru_tail s = Some a"
    and dict: "map_of (lru_dict s) = map_of (map (\<lambda>(a, k, v). (k, a)) (xs @ [(a, k, v)]))"
    using rep by (auto simp: lru_rep_def)
  have "k \<notin> fst ` set (map (\<lambda>(a, k, v). (k, a)) xs)" using D(2) by (force simp: image_iff)
  then have none: "map_of (map (\<lambda>(a, k, v). (k, a)) xs) k = None" unfolding map_of_eq_None_iff .
  then have found: "dget (lru_dict s) k = Some a" using dict by (simp add: map_add_def)
  have "map_of (ddel k (lru_dict s)) = (map_of (lru_dict s))(k := None)" by (simp add: delete_conv')
  also have "\<dots> = map_of (map (\<lambda>(a, k, v). (k, a)) xs)"
    unfolding dict using none by (auto simp: fun_eq_iff map_add_def split: option.splits)
  finally have del: "map_of (ddel k (lru_dict s)) = map_of (map (\<lambda>(a, k, v). (k, a)) xs)" .
  show ?thesis
  proof (cases xs rule: rev_cases)
    case Nil
    with rep H found len full del show ?thesis
      by (simp add: manage_round_def lru_run lift_sum_def dlookup_def lru_rep_def)
  next
    case (snoc ys x)
    obtain b bk bv where x: "x = (b, bk, bv)" by (cases x)
    have E: "a \<noteq> b" "b \<notin> fst ` set ys" "first ys (Some b) \<noteq> Some a"
      using rep D(1) unfolding snoc x by (auto simp: lru_rep_def first_def split: list.splits)
    from rep H found len full del E show ?thesis
      unfolding snoc x by (simp add: manage_round_def lru_run lift_sum_def dlookup_def lru_rep_def)
  qed
qed

lemma manage_size_rep:
  assumes "lru_rep s xs" and "0 \<le> lru_capacity s"
  shows "\<exists>s'. manage_size s = (Inr (), s') \<and> lru_rep s' (take (nat (lru_capacity s)) xs) \<and> lru_capacity s' = lru_capacity s"
proof -
  have "\<exists>s'. loop_st (Suc (length xs)) manage_round s = (Inr (), s')
      \<and> lru_rep s' (take (nat (lru_capacity s)) xs) \<and> lru_capacity s' = lru_capacity s"
    using assms
  proof (induction xs arbitrary: s rule: rev_induct)
    case Nil
    then show ?case
      using lru_len_rep [OF Nil(1)] by (auto simp: manage_round_def bnd_def ret_def)
  next
    case (snoc x xs)
    obtain a k v where x: "x = (a, k, v)" by (cases x)
    show ?case
    proof (cases "lru_capacity s < int (Suc (length xs))")
      case True
      obtain s1 where 1: "manage_round s = (Inr None, s1)" "lru_rep s1 xs" "lru_capacity s1 = lru_capacity s"
        using manage_round_full [of s xs a k v] snoc.prems True x by auto
      obtain s' where 2: "loop_st (Suc (length xs)) manage_round s1 = (Inr (), s')"
        "lru_rep s' (take (nat (lru_capacity s)) xs)" "lru_capacity s' = lru_capacity s"
        using snoc.IH [OF 1(2)] 1(3) snoc.prems(2) by auto
      have "loop_st (Suc (length (xs @ [x]))) manage_round s = (Inr (), s')"
        using 1(1) 2(1) by (simp add: bnd_def del: loop_st.simps) (simp only: loop_st.simps, simp add: bnd_def)
      with 2 True show ?thesis by auto
    next
      case False
      with snoc.prems lru_len_rep [OF snoc.prems(1)] show ?thesis
        by (intro exI [of _ s]) (simp add: manage_round_def bnd_def ret_def)
    qed
  qed
  with lru_len_rep [OF assms(1)] show ?thesis by (simp add: manage_size_def del: loop_st.simps)
qed

lemma walk_linked:
  "linked (lru_heap s) p xs None \<Longrightarrow> walk (length xs) s (first xs None) = map snd xs"
proof (induction xs arbitrary: p)
  case (Cons x xs)
  obtain a k v where "x = (a, k, v)" by (cases x)
  with Cons.IH [of "Some a"] Cons.prems show ?case by simp
qed simp

lemma lru_items_rep: "lru_rep s xs \<Longrightarrow> lru_items s = map snd xs"
proof -
  assume rep: "lru_rep s xs"
  then have "linked (lru_heap s) None xs None" "lru_head s = first xs None" by (simp_all add: lru_rep_def)
  with walk_linked [of s None xs] lru_len_rep [OF rep] show ?thesis by (simp add: lru_items_def)
qed

lemma dict_rep:
  assumes "lru_rep s (us @ (a, k, v) # vs)"
  shows "dget (lru_dict s) k = Some a"
proof -
  have "map_of (map (\<lambda>(a, k, v). (k, a)) (us @ (a, k, v) # vs)) k = Some a"
    using assms by (intro map_of_is_SomeI) (auto simp: lru_rep_def comp_def case_prod_unfold)
  moreover have "map_of (lru_dict s) = map_of (map (\<lambda>(a, k, v). (k, a)) (us @ (a, k, v) # vs))"
    using assms by (simp add: lru_rep_def)
  ultimately show ?thesis by (simp only:)
qed

lemma dict_rep_None:
  assumes "lru_rep s xs"
  shows "dget (lru_dict s) k = None \<longleftrightarrow> k \<notin> fst ` set (map snd xs)"
proof -
  have "map_of (lru_dict s) = map_of (map (\<lambda>(a, k, v). (k, a)) xs)" using assms by (simp add: lru_rep_def)
  then show ?thesis by (force simp: map_of_eq_None_iff image_iff)
qed

lemma cell_of:
  assumes "k \<in> fst ` set (map snd xs)"
  obtains us a v vs where "xs = us @ (a, k, v) # vs"
proof -
  from assms obtain a v where "(a, k, v) \<in> set xs" by auto
  with split_list that show thesis by metis
qed

lemma rep_filter:
  assumes "lru_rep s (us @ (a, k, v) # vs)"
  shows "filter (\<lambda>p. fst p \<noteq> k) (map snd (us @ (a, k, v) # vs)) = map snd (us @ vs)"
    and "map_of (map snd (us @ (a, k, v) # vs)) k = Some v"
proof -
  have k: "k \<notin> fst ` set (map snd us)" "k \<notin> fst ` set (map snd vs)"
    using assms by (simp_all add: lru_rep_def image_image comp_def)
  have "filter (\<lambda>p. fst p \<noteq> k) (map snd us) = map snd us" by (rule filter_True) (use k(1) in fastforce)
  moreover have "filter (\<lambda>p. fst p \<noteq> k) (map snd vs) = map snd vs" by (rule filter_True) (use k(2) in fastforce)
  ultimately show "filter (\<lambda>p. fst p \<noteq> k) (map snd (us @ (a, k, v) # vs)) = map snd (us @ vs)" by simp
  from k(1) have "map_of (map snd us) k = None" unfolding map_of_eq_None_iff .
  then show "map_of (map snd (us @ (a, k, v) # vs)) k = Some v" by (simp add: map_add_def)
qed

text \<open>Changing the value of an item in place.\<close>

lemma update_value_rep:
  assumes "lru_rep s (us @ (a, k, v) # vs)"
  shows "\<exists>s'. update_ref (Some a) (\<lambda>it. it\<lparr>li_value := v'\<rparr>) s = (Inr (), s')
    \<and> lru_rep s' (us @ (a, k, v') # vs) \<and> lru_capacity s' = lru_capacity s"
proof -
  have D: "a \<notin> fst ` set us" "a \<notin> fst ` set vs" using assms by (auto simp: lru_rep_def)
  with assms show ?thesis by (simp add: lru_run lru_rep_def)
qed

lemma insert_item_rep:
  assumes rep: "lru_rep s xs" and new: "k \<notin> fst ` set (map snd xs)" and cap: "0 \<le> lru_capacity s"
    and s1: "s1 = s\<lparr>lru_heap := (lru_heap s)(a := Some \<lparr>li_previous = None, li_next = None, li_key = k, li_value = v\<rparr>),
        lru_fresh := Suc a, lru_dict := dset k a (lru_dict s)\<rparr>" and a: "a = lru_fresh s"
  shows "\<exists>s'. insert_item a s1 = (Inr (), s') \<and> lru_rep s' (take (nat (lru_capacity s)) ((a, k, v) # xs))
    \<and> lru_capacity s' = lru_capacity s"
proof -
  have fresh: "a \<notin> fst ` set xs" using rep a by (auto simp: lru_rep_def)
  have dict: "map_of (dset k a (lru_dict s)) = map_of (map (\<lambda>(a, k, v). (k, a)) ((a, k, v) # xs))"
    using rep by (simp add: lru_rep_def update_conv')
  have "\<exists>s2. link_front a s1 = (Inr (), s2) \<and> lru_rep s2 ((a, k, v) # xs) \<and> lru_capacity s2 = lru_capacity s"
  proof (cases xs)
    case Nil
    with rep s1 a dict new show ?thesis by (simp add: link_front_def lru_run lru_rep_def dict_ok_def)
  next
    case (Cons x ys)
    obtain b bk bv where x: "x = (b, bk, bv)" by (cases x)
    from rep s1 a dict new fresh Cons x show ?thesis
      by (simp add: link_front_def lru_run lru_rep_def) (auto simp: image_iff less_Suc_eq)
  qed
  then obtain s2 where "link_front a s1 = (Inr (), s2)" "lru_rep s2 ((a, k, v) # xs)" "lru_capacity s2 = lru_capacity s"
    by blast
  then have "insert_item a s1 = manage_size s2" "lru_rep s2 ((a, k, v) # xs)" "lru_capacity s2 = lru_capacity s"
    by (simp_all add: insert_item_def andthen_def bnd_def)
  with manage_size_rep [of s2] cap show ?thesis by auto
qed


section \<open>The specification\<close>

text \<open>The cache as the list of its keys and values, most recently used first.\<close>

definition spec_touch :: "string \<Rightarrow> (string \<times> 'v) list \<Rightarrow> (string \<times> 'v) list" where
  "spec_touch k xs = (case map_of xs k of None \<Rightarrow> xs | Some v \<Rightarrow> (k, v) # filter (\<lambda>p. fst p \<noteq> k) xs)"

definition spec_put :: "int \<Rightarrow> string \<Rightarrow> 'v \<Rightarrow> (string \<times> 'v) list \<Rightarrow> (string \<times> 'v) list" where
  "spec_put capacity k v xs = take (nat capacity) ((k, v) # filter (\<lambda>p. fst p \<noteq> k) xs)"

definition lru_ok :: "'v lru \<Rightarrow> bool" where
  "lru_ok s \<longleftrightarrow> 0 \<le> lru_capacity s \<and> (\<exists>xs. lru_rep s xs)"

lemma lru_new_ok: "0 \<le> capacity \<Longrightarrow> lru_ok (lru_new capacity) \<and> lru_items (lru_new capacity) = []"
proof -
  assume "0 \<le> capacity"
  moreover have rep: "lru_rep (lru_new capacity) []" by (simp add: lru_rep_def lru_new_def)
  ultimately show ?thesis using lru_items_rep [OF rep] by (auto simp: lru_ok_def lru_new_def)
qed

lemma lru_getitem_ok:
  assumes "lru_ok s"
  shows "case dget (lru_items s) k of
      None \<Rightarrow> lru_getitem k s = (Inl (KeyError k), s)
    | Some v \<Rightarrow> \<exists>s'. lru_getitem k s = (Inr v, s') \<and> lru_ok s' \<and> lru_capacity s' = lru_capacity s
        \<and> lru_items s' = spec_touch k (lru_items s)"
proof -
  obtain xs where rep: "lru_rep s xs" using assms by (auto simp: lru_ok_def)
  have items: "lru_items s = map snd xs" using lru_items_rep [OF rep] .
  show ?thesis
  proof (cases "k \<in> fst ` set (map snd xs)")
    case False
    then have "dget (lru_items s) k = None" unfolding items map_of_eq_None_iff .
    moreover have "dget (lru_dict s) k = None" using dict_rep_None [OF rep, of k] False by blast
    ultimately show ?thesis by (simp add: lru_getitem_def bnd_def lift_sum_def dlookup_def raise_def)
  next
    case True
    then obtain us a v vs where xs: "xs = us @ (a, k, v) # vs" by (rule cell_of)
    note rep' = rep [unfolded xs]
    obtain s' where s': "update_item a s = (Inr (), s')" "lru_rep s' ((a, k, v) # us @ vs)" "lru_capacity s' = lru_capacity s"
      using update_item_rep [OF rep'] by blast
    have val: "deref (Some a) s' = (Inr \<lparr>li_previous = None, li_next = first (us @ vs) None, li_key = k, li_value = v\<rparr>, s')"
      using s'(2) by (simp add: lru_rep_def deref_def)
    have "lru_getitem k s = (Inr v, s')"
      using dict_rep [OF rep'] s'(1) val
      by (simp add: lru_getitem_def bnd_def lift_sum_def dlookup_def andthen_def ret_def)
    moreover have "dget (lru_items s) k = Some v" using rep_filter(2) [OF rep'] items xs by simp
    moreover have "lru_items s' = spec_touch k (lru_items s)"
      using lru_items_rep [OF s'(2)] rep_filter [OF rep'] items xs by (simp add: spec_touch_def)
    moreover have "lru_ok s'" using s'(2,3) assms by (auto simp: lru_ok_def)
    ultimately show ?thesis using s'(3) by simp
  qed
qed

lemma lru_setitem_ok:
  assumes "lru_ok s"
  shows "\<exists>s'. lru_setitem k v s = (Inr (), s') \<and> lru_ok s' \<and> lru_capacity s' = lru_capacity s
    \<and> lru_items s' = spec_put (lru_capacity s) k v (lru_items s)"
proof -
  obtain xs where rep: "lru_rep s xs" and cap: "0 \<le> lru_capacity s" using assms by (auto simp: lru_ok_def)
  have items: "lru_items s = map snd xs" using lru_items_rep [OF rep] .
  have "\<exists>s' ys. lru_setitem k v s = (Inr (), s') \<and> lru_rep s' (take (nat (lru_capacity s)) ys)
      \<and> lru_capacity s' = lru_capacity s \<and> map snd ys = (k, v) # filter (\<lambda>p. fst p \<noteq> k) (map snd xs)"
  proof (cases "k \<in> fst ` set (map snd xs)")
    case False
    let ?a = "lru_fresh s"
    let ?s1 = "s\<lparr>lru_heap := (lru_heap s)(?a := Some \<lparr>li_previous = None, li_next = None, li_key = k, li_value = v\<rparr>),
        lru_fresh := Suc ?a, lru_dict := dset k ?a (lru_dict s)\<rparr>"
    obtain s' where "insert_item ?a ?s1 = (Inr (), s')" "lru_rep s' (take (nat (lru_capacity s)) ((?a, k, v) # xs))"
        "lru_capacity s' = lru_capacity s"
      using insert_item_rep [OF rep False cap refl refl] by blast
    moreover have "dget (lru_dict s) k = None" using dict_rep_None [OF rep, of k] False by blast
    moreover have "filter (\<lambda>p. fst p \<noteq> k) (map snd xs) = map snd xs" using False by (auto simp: filter_id_conv)
    ultimately show ?thesis
      by (intro exI [of _ s'] exI [of _ "(?a, k, v) # xs"]) (simp add: lru_setitem_def new_item_def bnd_def Let_def)
  next
    case True
    then obtain us a v0 vs where xs: "xs = us @ (a, k, v0) # vs" by (rule cell_of)
    note rep' = rep [unfolded xs]
    obtain s1 where 1: "update_ref (Some a) (\<lambda>it. it\<lparr>li_value := v\<rparr>) s = (Inr (), s1)"
        "lru_rep s1 (us @ (a, k, v) # vs)" "lru_capacity s1 = lru_capacity s"
      using update_value_rep [OF rep', of v] by blast
    obtain s2 where 2: "update_item a s1 = (Inr (), s2)" "lru_rep s2 ((a, k, v) # us @ vs)" "lru_capacity s2 = lru_capacity s"
      using update_item_rep [OF 1(2)] 1(3) by auto
    obtain s' where 3: "manage_size s2 = (Inr (), s')" "lru_rep s' (take (nat (lru_capacity s)) ((a, k, v) # us @ vs))"
        "lru_capacity s' = lru_capacity s"
      using manage_size_rep [OF 2(2)] 2(3) cap by auto
    have "lru_setitem k v s = (Inr (), s')"
      using dict_rep [OF rep'] 1(1) 2(1) 3(1) by (simp add: lru_setitem_def andthen_def bnd_def)
    with 3 rep_filter(1) [OF rep'] show ?thesis
      unfolding xs by (intro exI [of _ s'] exI [of _ "(a, k, v) # us @ vs"]) simp
  qed
  then obtain s' ys where s': "lru_setitem k v s = (Inr (), s')" "lru_rep s' (take (nat (lru_capacity s)) ys)"
      "lru_capacity s' = lru_capacity s" "map snd ys = (k, v) # filter (\<lambda>p. fst p \<noteq> k) (map snd xs)"
    by (elim exE conjE) (rule that)
  have "lru_items s' = spec_put (lru_capacity s) k v (lru_items s)"
    unfolding spec_put_def items lru_items_rep [OF s'(2)] by (simp only: s'(4) [symmetric] take_map)
  moreover have "lru_ok s'" using s'(2,3) cap by (auto simp: lru_ok_def)
  ultimately show ?thesis using s'(1,3) by blast
qed


text \<open>
  C11: the linked list is a least recently used cache. Reading a key gives its value and moves it
  to the front, or fails on a missing key and changes nothing; writing puts the key to the front
  and drops the least recently used ones beyond the capacity. The pointers stay well formed.
\<close>

theorem lru_refines_list:
  assumes "lru_ok s"
  shows "(case dget (lru_items s) k of
        None \<Rightarrow> lru_getitem k s = (Inl (KeyError k), s)
      | Some v \<Rightarrow> \<exists>s'. lru_getitem k s = (Inr v, s') \<and> lru_ok s' \<and> lru_items s' = spec_touch k (lru_items s))
    \<and> (\<exists>s'. lru_setitem k v s = (Inr (), s') \<and> lru_ok s' \<and> lru_items s' = spec_put (lru_capacity s) k v (lru_items s))"
  using lru_getitem_ok [OF assms, of k] lru_setitem_ok [OF assms, of k v] by (auto split: option.splits)

definition lru_abc :: "nat lru" where
  "lru_abc = snd (for_each (\<lambda>(k, v). lru_setitem k v) [(''A'', 0), (''B'', 1), (''C'', 2)] (lru_new 3))"

lemma lru_abc_ok: "lru_ok lru_abc \<and> lru_capacity lru_abc = 3 \<and> lru_items lru_abc = [(''C'', 2), (''B'', 1), (''A'', 0)]"
proof -
  have new: "lru_ok (lru_new 3 :: nat lru) \<and> lru_items (lru_new 3 :: nat lru) = []" by (rule lru_new_ok) simp
  have 0: "lru_ok (lru_new 3 :: nat lru)" "lru_items (lru_new 3 :: nat lru) = []" "lru_capacity (lru_new 3 :: nat lru) = 3"
    using new by (blast, blast) (simp add: lru_new_def)
  obtain s1 where 1: "lru_setitem ''A'' 0 (lru_new 3) = (Inr (), s1)" "lru_ok s1" "lru_capacity s1 = 3"
      "lru_items s1 = [(''A'', 0 :: nat)]"
    using lru_setitem_ok [OF 0(1), of "''A''" 0] 0 by (auto simp: spec_put_def)
  obtain s2 where 2: "lru_setitem ''B'' 1 s1 = (Inr (), s2)" "lru_ok s2" "lru_capacity s2 = 3"
      "lru_items s2 = [(''B'', 1 :: nat), (''A'', 0)]"
    using lru_setitem_ok [OF 1(2), of "''B''" 1] 1 by (auto simp: spec_put_def)
  obtain s3 where 3: "lru_setitem ''C'' 2 s2 = (Inr (), s3)" "lru_ok s3" "lru_capacity s3 = 3"
      "lru_items s3 = [(''C'', 2 :: nat), (''B'', 1), (''A'', 0)]"
    using lru_setitem_ok [OF 2(2), of "''C''" 2] 2 by (auto simp: spec_put_def)
  have "lru_abc = s3" using 1(1) 2(1) 3(1) by (simp add: lru_abc_def andthen_def bnd_def ret_def)
  with 3 show ?thesis by simp
qed

text \<open>The example of the class's documentation: after reading A, writing D drops B.\<close>

theorem lru_refines_list_witness:
  "\<exists>s1 s2. lru_getitem ''A'' lru_abc = (Inr 0, s1) \<and> lru_setitem ''D'' 3 s1 = (Inr (), s2)
     \<and> lru_items s2 = [(''D'', 3), (''A'', 0), (''C'', 2)]"
proof -
  obtain s1 where 1: "lru_getitem ''A'' lru_abc = (Inr 0, s1)" "lru_ok s1" "lru_items s1 = [(''A'', 0), (''C'', 2), (''B'', 1)]"
    using lru_refines_list [of lru_abc "''A''"] lru_abc_ok by (auto simp: spec_touch_def)
  have "lru_capacity s1 = 3" using lru_getitem_ok [of lru_abc "''A''"] 1(1) lru_abc_ok by auto
  with 1 show ?thesis using lru_refines_list [of s1 "''D''" 3] by (auto simp: spec_put_def)
qed


section \<open>The interface\<close>

text \<open>
  What a client of the cache relies on. A client that keeps mutable values in the cache also
  changes a value in place (\<open>set_value\<close>), which moves nothing.
\<close>

definition lru_set_value :: "string \<Rightarrow> 'v \<Rightarrow> ('v lru, unit) st" where
  "lru_set_value key v =
     bnd (gets (\<lambda>s. dlookup (lru_dict s) key)) (\<lambda>r.
     bnd (lift_sum r) (\<lambda>a. update_ref (Some a) (\<lambda>it. it\<lparr>li_value := v\<rparr>)))"

definition spec_set :: "string \<Rightarrow> 'v \<Rightarrow> (string \<times> 'v) list \<Rightarrow> (string \<times> 'v) list" where
  "spec_set k v xs = map (\<lambda>p. if fst p = k then (k, v) else p) xs"

lemma lru_set_value_ok:
  assumes "lru_ok s" and "dget (lru_items s) k \<noteq> None"
  shows "\<exists>s'. lru_set_value k v s = (Inr (), s') \<and> lru_ok s' \<and> lru_capacity s' = lru_capacity s
    \<and> lru_items s' = spec_set k v (lru_items s)"
proof -
  obtain xs where rep: "lru_rep s xs" and cap: "0 \<le> lru_capacity s" using assms by (auto simp: lru_ok_def)
  have items: "lru_items s = map snd xs" using lru_items_rep [OF rep] .
  have "k \<in> fst ` set (map snd xs)" using assms(2) unfolding items by (metis map_of_eq_None_iff)
  then obtain us a v0 vs where xs: "xs = us @ (a, k, v0) # vs" by (rule cell_of)
  obtain s' where s': "update_ref (Some a) (\<lambda>it. it\<lparr>li_value := v\<rparr>) s = (Inr (), s')"
      "lru_rep s' (us @ (a, k, v) # vs)" "lru_capacity s' = lru_capacity s"
    using update_value_rep [OF rep [unfolded xs], of v] by blast
  have "k \<notin> fst ` set (map snd us)" "k \<notin> fst ` set (map snd vs)"
    using rep unfolding xs by (simp_all add: lru_rep_def image_image comp_def)
  then have "map snd us = spec_set k v (map snd us)" "map snd vs = spec_set k v (map snd vs)"
    unfolding spec_set_def by (intro map_idI [symmetric]; force)+
  then have "lru_items s' = spec_set k v (lru_items s)"
    unfolding lru_items_rep [OF s'(2)] items xs by (simp add: spec_set_def)
  moreover have "lru_set_value k v s = (Inr (), s')"
    using dict_rep [OF rep [unfolded xs]] s'(1) by (simp add: lru_set_value_def dlookup_def)
  ultimately show ?thesis using s'(2,3) cap by (auto simp: lru_ok_def)
qed

lemma lru_contains_items: "lru_ok s \<Longrightarrow> lru_contains k s \<longleftrightarrow> dget (lru_items s) k \<noteq> None"
proof -
  assume "lru_ok s"
  then obtain xs where rep: "lru_rep s xs" by (auto simp: lru_ok_def)
  show ?thesis using dict_rep_None [OF rep, of k]
    unfolding lru_contains_def lru_items_rep [OF rep] by (simp only: map_of_eq_None_iff)
qed

locale cache =
  fixes items :: "'s \<Rightarrow> (string \<times> 'v) list"
    and ok :: "'s \<Rightarrow> bool"
    and capacity :: "'s \<Rightarrow> int"
    and has :: "string \<Rightarrow> 's \<Rightarrow> bool"
    and get :: "string \<Rightarrow> ('s, 'v) st"
    and put :: "string \<Rightarrow> 'v \<Rightarrow> ('s, unit) st"
    and set_value :: "string \<Rightarrow> 'v \<Rightarrow> ('s, unit) st"
  assumes has_iff: "ok s \<Longrightarrow> has k s \<longleftrightarrow> dget (items s) k \<noteq> None"
    and get_law: "ok s \<Longrightarrow> (case dget (items s) k of
        None \<Rightarrow> get k s = (Inl (KeyError k), s)
      | Some v \<Rightarrow> \<exists>s'. get k s = (Inr v, s') \<and> ok s' \<and> capacity s' = capacity s \<and> items s' = spec_touch k (items s))"
    and put_law: "ok s \<Longrightarrow> \<exists>s'. put k v s = (Inr (), s') \<and> ok s' \<and> capacity s' = capacity s
        \<and> items s' = spec_put (capacity s) k v (items s)"
    and set_law: "ok s \<Longrightarrow> dget (items s) k \<noteq> None \<Longrightarrow> \<exists>s'. set_value k v s = (Inr (), s') \<and> ok s'
        \<and> capacity s' = capacity s \<and> items s' = spec_set k v (items s)"
begin

lemma get_hit:
  assumes "ok s" and "dget (items s) k = Some v"
  obtains s' where "get k s = (Inr v, s')" "ok s'" "capacity s' = capacity s" "items s' = spec_touch k (items s)"
  using get_law [OF assms(1), of k] assms(2) by auto

lemma get_miss: "ok s \<Longrightarrow> dget (items s) k = None \<Longrightarrow> get k s = (Inl (KeyError k), s)"
  using get_law [of s k] by simp

text \<open>A value that was just put is found, unless the cache holds nothing at all.\<close>

lemma put_get:
  assumes "ok s" and "0 < capacity s"
  obtains s' where "andthen (put k v) (get k) s = (Inr v, s')" "ok s'" "capacity s' = capacity s"
    "items s' = spec_put (capacity s) k v (items s)"
proof -
  obtain s1 where 1: "put k v s = (Inr (), s1)" "ok s1" "capacity s1 = capacity s"
      "items s1 = spec_put (capacity s) k v (items s)"
    using put_law [OF assms(1)] by blast
  obtain n where n: "nat (capacity s) = Suc n" using assms(2) by (metis gr0_implies_Suc zero_less_nat_eq)
  have i1: "items s1 = (k, v) # take n (filter (\<lambda>p. fst p \<noteq> k) (items s))"
    using 1(4) n by (simp add: spec_put_def)
  then have "dget (items s1) k = Some v" by simp
  then obtain s2 where 2: "get k s1 = (Inr v, s2)" "ok s2" "capacity s2 = capacity s1" "items s2 = spec_touch k (items s1)"
    using get_hit [OF 1(2)] by blast
  let ?rest = "take n (filter (\<lambda>p. fst p \<noteq> k) (items s))"
  have "fst p \<noteq> k" if "p \<in> set ?rest" for p using in_set_takeD [OF that] by simp
  then have filt: "filter (\<lambda>p. fst p \<noteq> k) ?rest = ?rest" by (intro filter_True) blast
  have "spec_touch k ((k, v) # ?rest) = (k, v) # ?rest"
    by (simp only: spec_touch_def map_of.simps fst_conv snd_conv fun_upd_same option.case filter.simps filt simp_thms if_False)
  then have "spec_touch k (items s1) = items s1" by (simp only: i1)
  then have "items s2 = spec_put (capacity s) k v (items s)" using 1(4) 2(4) by simp
  moreover have "andthen (put k v) (get k) s = (Inr v, s2)" using 1(1) 2(1) by (simp add: andthen_def bnd_def)
  moreover have "capacity s2 = capacity s" using 1(3) 2(3) by simp
  ultimately show thesis using that 2(2) by blast
qed

lemma put_get_zero:
  assumes "ok s" and "capacity s = 0"
  shows "fst (andthen (put k v) (get k) s) = Inl (KeyError k)"
proof -
  obtain s1 where 1: "put k v s = (Inr (), s1)" "ok s1" "items s1 = []"
    using put_law [OF assms(1), of k v] assms(2) by (auto simp: spec_put_def)
  then show ?thesis using get_miss [OF 1(2), of k] by (simp add: andthen_def bnd_def)
qed

end

interpretation lru: cache lru_items lru_ok lru_capacity lru_contains lru_getitem lru_setitem lru_set_value
  by unfold_locales
    ((rule lru_contains_items lru_getitem_ok lru_setitem_ok lru_set_value_ok; assumption)+)

end
