(* ===== verification/BotoRetry.thy ===== *)
theory BotoRetry
  imports BotoConnection BotoLru
begin

text \<open>
  Sending requests (\<open>boto/connection.py\<close>): the pool of connections on top of the cache, and the
  loop \<open>_mexe\<close>, which retries failed requests with growing pauses and follows redirects. The
  network answers each request as any function of all that happened before. The theorems say
  when the loop ends and when it does not, and which connection a later request gets.
\<close>


section \<open>The pool of connections\<close>

text \<open>A connection goes to a host, encrypted or not.\<close>

record http_conn =
  hc_host :: string
  hc_secure :: bool

record response =
  rs_status :: int
  rs_reason :: string
  rs_body :: string
  rs_location :: "string option"

datatype net_event =
    Connect http_conn
  | Request http_conn string string string
  | Pause nat
  | CloseConn http_conn

text \<open>
  The outcome of sending a request and waiting for the response: a response, one of the
  exceptions that are retried, or another exception.
\<close>

datatype answer = Reply response | Failed py_exc | Escaped py_exc

text \<open>
  The state of a connection object: what happened on the network, the pool, and the local variables
  of the call of \<open>_mexe\<close> in progress.
\<close>

record net =
  nt_log :: "net_event list"
  nt_pool :: "http_conn list lru"
  mx_i :: nat
  mx_host :: "string option"
  mx_path :: string
  mx_connection :: http_conn
  mx_response :: "response option"
  mx_body :: string
  mx_error :: "py_exc option"

definition log_event :: "net_event \<Rightarrow> (net, unit) st" where
  "log_event ev = modify (\<lambda>n. n\<lparr>nt_log := nt_log n @ [ev]\<rparr>)"

definition on_pool :: "(http_conn list lru, 'a) st \<Rightarrow> (net, 'a) st" where
  "on_pool m n = (case m (nt_pool n) of (r, p) \<Rightarrow> (r, n\<lparr>nt_pool := p\<rparr>))"

text \<open>\<open>ConnectionPool.__getitem__\<close>: the queue of a name, made when it is missing.\<close>

definition pool_queue :: "string \<Rightarrow> (http_conn list lru, http_conn list) st" where
  "pool_queue key =
     bnd (gets (lru_contains key)) (\<lambda>known.
     if known then lru_getitem key else andthen (lru_setitem key []) (lru_getitem key))"

definition cached_name :: "client \<Rightarrow> string option \<Rightarrow> bool \<Rightarrow> string" where
  "cached_name C host is_secure =
     (if is_secure then ''https://'' else ''http://'') @ (case host of None \<Rightarrow> server_name C | Some h \<Rightarrow> h)"

definition new_http_connection :: "client \<Rightarrow> string option \<Rightarrow> bool \<Rightarrow> (net, http_conn) st" where
  "new_http_connection C host is_secure =
     (let h = (case cn_proxy C of
                 Some (proxy, port) \<Rightarrow> proxy @ '':'' @ int_str port
               | None \<Rightarrow> (case host of None \<Rightarrow> server_name C | Some h \<Rightarrow> h));
          c = \<lparr>hc_host = h, hc_secure = is_secure\<rparr> in
      andthen (log_event (Connect c)) (ret c))"

definition get_http_connection :: "client \<Rightarrow> string option \<Rightarrow> bool \<Rightarrow> (net, http_conn) st" where
  "get_http_connection C host is_secure =
     (let key = cached_name C host is_secure in
      bnd (on_pool (pool_queue key)) (\<lambda>q.
      case q of
        [] \<Rightarrow> new_http_connection C host is_secure
      | c # rest \<Rightarrow> andthen (on_pool (lru_set_value key rest)) (ret c)))"

definition put_http_connection :: "client \<Rightarrow> string option \<Rightarrow> bool \<Rightarrow> http_conn \<Rightarrow> (net, unit) st" where
  "put_http_connection C host is_secure c =
     (let key = cached_name C host is_secure in
      bnd (on_pool (pool_queue key)) (\<lambda>q.
      if 0 < cn_queue_size C \<and> cn_queue_size C \<le> length q then log_event (CloseConn c)
      else on_pool (lru_set_value key (q @ [c]))))"


section \<open>Sending with retries and redirects\<close>

text \<open>\<open>urlparse\<close> of the standard library: scheme, host, path and query of an absolute address.\<close>

definition scheme_char :: "char \<Rightarrow> bool" where
  "scheme_char c \<longleftrightarrow> is_digit c \<or> (65 \<le> (of_char c :: nat) \<and> (of_char c :: nat) \<le> 90)
     \<or> (97 \<le> (of_char c :: nat) \<and> (of_char c :: nat) \<le> 122) \<or> c \<in> set ''+-.''"

definition cut_params :: "string \<Rightarrow> string" where
  "cut_params p =
     (let segment = rev (takeWhile (\<lambda>c. c \<noteq> CHR ''/'') (rev p)) in
      take (length p - length segment) p @ takeWhile (\<lambda>c. c \<noteq> CHR '';'') segment)"

definition urlparse :: "string \<Rightarrow> string \<times> string \<times> string \<times> string" where
  "urlparse url =
     (let s = takeWhile (\<lambda>c. c \<noteq> CHR '':'') url;
          has_scheme = (s \<noteq> [] \<and> length s < length url \<and> list_all scheme_char s);
          scheme = (if has_scheme then py_lower s else []);
          rest = (if has_scheme then drop (Suc (length s)) url else url);
          slashed = py_startswith rest ''//'';
          netloc = (if slashed then takeWhile (\<lambda>c. c \<notin> set ''/?#'') (drop 2 rest) else []);
          tail0 = (if slashed then dropWhile (\<lambda>c. c \<notin> set ''/?#'') (drop 2 rest) else rest);
          tail1 = takeWhile (\<lambda>c. c \<noteq> CHR ''#'') tail0;
          path = takeWhile (\<lambda>c. c \<noteq> CHR ''?'') tail1;
          query = drop 1 (dropWhile (\<lambda>c. c \<noteq> CHR ''?'') tail1) in
      (scheme, netloc, cut_params path, query))"

definition retry_pause :: "(net, bool option) st" where
  "retry_pause = bnd (gets mx_i) (\<lambda>i. andthen (log_event (Pause (2 ^ i)))
     (andthen (modify (\<lambda>n. n\<lparr>mx_i := Suc i\<rparr>)) (ret None)))"

text \<open>
  One round. The result \<open>Some True\<close> is the return of the response, \<open>Some False\<close> the end of the
  loop; a redirect goes on without counting as a try.
\<close>

definition mexe_answer :: "client \<Rightarrow> answer \<Rightarrow> (net, bool option) st" where
  "mexe_answer C a =
     (case a of
        Escaped e \<Rightarrow> raise e
      | Failed e \<Rightarrow>
          andthen (modify (\<lambda>n. n\<lparr>mx_error := Some e\<rparr>))
         (bnd (gets mx_host) (\<lambda>host.
          bnd (new_http_connection C host (cn_is_secure C)) (\<lambda>c.
          andthen (modify (\<lambda>n. n\<lparr>mx_connection := c\<rparr>)) retry_pause)))
      | Reply rs \<Rightarrow>
          andthen (modify (\<lambda>n. n\<lparr>mx_response := Some rs\<rparr>))
         (if rs_status rs = 500 \<or> rs_status rs = 503 \<or> rs_status rs = 408
          then andthen (modify (\<lambda>n. n\<lparr>mx_body := rs_body rs\<rparr>)) retry_pause
          else if rs_status rs < 300 \<or> rs_status rs \<ge> 400 \<or> rs_location rs = None \<or> rs_location rs = Some []
          then bnd (gets (\<lambda>n. (mx_host n, mx_connection n))) (\<lambda>(host, c).
               andthen (put_http_connection C host (cn_is_secure C) c) (ret (Some True)))
          else (case urlparse (the (rs_location rs)) of (scheme, host, path, query) \<Rightarrow>
               andthen (modify (\<lambda>n. n\<lparr>mx_host := Some host,
                                      mx_path := (if query = [] then path else path @ ''?'' @ query)\<rparr>))
              (bnd (get_http_connection C (Some host) (scheme = ''https'')) (\<lambda>c.
               andthen (modify (\<lambda>n. n\<lparr>mx_connection := c\<rparr>)) (ret None))))))"

definition mexe_round ::
  "client \<Rightarrow> (net_event list \<Rightarrow> answer) \<Rightarrow> string \<Rightarrow> string \<Rightarrow> int \<Rightarrow> (net, bool option) st" where
  "mexe_round C ans verb data num_retries =
     bnd (gets (\<lambda>n. int (mx_i n) \<le> num_retries)) (\<lambda>more.
     if \<not> more then ret (Some False)
     else bnd (gets (\<lambda>n. Request (mx_connection n) verb (mx_path n) data)) (\<lambda>req.
          andthen (log_event req)
         (bnd (gets (\<lambda>n. ans (nt_log n))) (mexe_answer C))))"

definition mexe_failure :: "(net, response) st" where
  "mexe_failure =
     bnd (gets (\<lambda>n. (mx_response n, mx_error n))) (\<lambda>(response, e).
     case response of
       Some rs \<Rightarrow> raise (ServiceError (rs_reason rs))
     | None \<Rightarrow> (case e of Some x \<Rightarrow> raise x
                | None \<Rightarrow> raise (ServiceError ''Please report this exception as a Boto Issue!'')))"

definition mexe ::
  "nat \<Rightarrow> client \<Rightarrow> (net_event list \<Rightarrow> answer) \<Rightarrow> string \<Rightarrow> string \<Rightarrow> string \<Rightarrow> string option \<Rightarrow> int option \<Rightarrow> (net, response) st" where
  "mexe rounds C ans verb path data host override =
     (let num_retries = (case override of None \<Rightarrow> cn_num_retries C | Some k \<Rightarrow> k) in
      bnd (get_http_connection C host (cn_is_secure C)) (\<lambda>c.
      andthen (modify (\<lambda>n. n\<lparr>mx_i := 0, mx_host := host, mx_path := path, mx_connection := c,
                             mx_response := None, mx_body := [], mx_error := None\<rparr>))
     (bnd (loop_st rounds (mexe_round C ans verb data num_retries)) (\<lambda>done.
      if \<not> done then mexe_failure
      else bnd (gets mx_response) (\<lambda>r. ret (the r))))))"

text \<open>\<open>get_list\<close> and its like: the reply is parsed (by \<open>parse\<close>) when the status is 200.\<close>

definition issue_query ::
  "nat \<Rightarrow> client \<Rightarrow> (net_event list \<Rightarrow> answer) \<Rightarrow> (reply_kind \<Rightarrow> string \<Rightarrow> py_exc + 'r) \<Rightarrow> string \<Rightarrow> string \<Rightarrow> string \<Rightarrow> query
     \<Rightarrow> (net, 'r) st" where
  "issue_query rounds C ans parse user_agent now path q =
     bnd (lift_sum (query_request C user_agent now path q)) (\<lambda>r.
     bnd (mexe rounds C ans (hr_method r) (hr_path r) (hr_body r) (Some (hr_host r)) None) (\<lambda>response.
     if rs_status response = 200 then lift_sum (parse (q_reply q) (rs_body response))
     else raise (ServiceError (rs_reason response))))"

section \<open>The pool\<close>

definition pool_ok :: "http_conn list lru \<Rightarrow> bool" where
  "pool_ok p \<longleftrightarrow> lru_ok p \<and> 0 < lru_capacity p"

definition queue_of :: "http_conn list lru \<Rightarrow> string \<Rightarrow> http_conn list" where
  "queue_of p key = (case dget (lru_items p) key of Some q \<Rightarrow> q | None \<Rightarrow> [])"

text \<open>Using a queue keeps the others, unless the cache is full.\<close>

definition keeps_others :: "string \<Rightarrow> http_conn list lru \<Rightarrow> http_conn list lru \<Rightarrow> bool" where
  "keeps_others key p p' \<longleftrightarrow> (int (length (lru_items p)) < lru_capacity p \<longrightarrow>
     length (lru_items p') \<le> Suc (length (lru_items p)) \<and> (\<forall>k. k \<noteq> key \<longrightarrow> queue_of p' k = queue_of p k))"

lemma dget_filter: "dget (filter (\<lambda>p. fst p \<noteq> key) xs) k = (if k = key then None else dget xs k)"
  by (induction xs) auto

lemma pool_queue_run:
  assumes "pool_ok p"
  obtains p' where "pool_queue key p = (Inr (queue_of p key), p')" "pool_ok p'" "lru_capacity p' = lru_capacity p"
    "dget (lru_items p') key = Some (queue_of p key)" "keeps_others key p p'"
proof (cases "dget (lru_items p) key")
  case None
  then have new: "\<not> lru_contains key p" using assms lru.has_iff [of p key] by (auto simp: pool_ok_def)
  obtain p' where p': "andthen (lru_setitem key []) (lru_getitem key) p = (Inr [], p')" "lru_ok p'"
      "lru_capacity p' = lru_capacity p" "lru_items p' = spec_put (lru_capacity p) key [] (lru_items p)"
    using lru.put_get [of p key "[]"] assms by (auto simp: pool_ok_def)
  have "pool_queue key p = (Inr [], p')" using new p'(1) by (simp add: pool_queue_def)
  moreover have "filter (\<lambda>q. fst q \<noteq> key) (lru_items p) = lru_items p"
    using None by (intro filter_True) (auto simp: map_of_eq_None_iff)
  then have items: "lru_items p' = take (nat (lru_capacity p)) ((key, []) # lru_items p)"
    using p'(4) by (simp add: spec_put_def)
  have "0 < nat (lru_capacity p)" using assms by (simp add: pool_ok_def)
  then have "dget (lru_items p') key = Some []" unfolding items by (cases "nat (lru_capacity p)") auto
  moreover have "keeps_others key p p'"
    unfolding keeps_others_def items by (auto simp: queue_of_def items)
  ultimately show thesis
    using that [of p'] p'(2,3) assms None by (simp add: pool_ok_def queue_of_def)
next
  case (Some q)
  then have "lru_contains key p" using assms lru.has_iff [of p key] by (auto simp: pool_ok_def)
  then have run: "pool_queue key p = lru_getitem key p" by (simp add: pool_queue_def)
  obtain p' where p': "lru_getitem key p = (Inr q, p')" "lru_ok p'" "lru_capacity p' = lru_capacity p"
      "lru_items p' = spec_touch key (lru_items p)"
    using lru.get_hit [of p key q] assms Some by (auto simp: pool_ok_def)
  have items: "lru_items p' = (key, q) # filter (\<lambda>q. fst q \<noteq> key) (lru_items p)"
    using p'(4) Some by (simp add: spec_touch_def)
  have "length (filter (\<lambda>q. fst q \<noteq> key) (lru_items p)) \<le> length (lru_items p)" by (rule length_filter_le)
  then have "keeps_others key p p'" by (simp add: keeps_others_def queue_of_def items dget_filter)
  with p'(1-3) run Some that [of p'] assms items show thesis by (simp add: pool_ok_def queue_of_def)
qed

lemma pool_set_run:
  assumes "pool_ok p" and "dget (lru_items p) key \<noteq> None"
  obtains p' where "lru_set_value key q p = (Inr (), p')" "pool_ok p'" "lru_capacity p' = lru_capacity p"
    "queue_of p' key = q" "length (lru_items p') = length (lru_items p)" "\<And>k. k \<noteq> key \<Longrightarrow> queue_of p' k = queue_of p k"
proof -
  obtain p' where p': "lru_set_value key q p = (Inr (), p')" "lru_ok p'" "lru_capacity p' = lru_capacity p"
      "lru_items p' = spec_set key q (lru_items p)"
    using lru.set_law [of p key q] assms by (auto simp: pool_ok_def)
  have set: "dget (spec_set key q xs) k = (if k = key \<and> dget xs k \<noteq> None then Some q else dget xs k)" for xs k
    by (induction xs) (auto simp: spec_set_def)
  show thesis using that [of p'] p' assms by (simp add: pool_ok_def queue_of_def set) (simp add: spec_set_def)
qed

text \<open>The network state as far as the pool goes: sound, and used for no other name than \<open>key\<close>.\<close>

definition pool_step :: "string \<Rightarrow> net \<Rightarrow> net \<Rightarrow> bool" where
  "pool_step key n n' \<longleftrightarrow> pool_ok (nt_pool n') \<and> lru_capacity (nt_pool n') = lru_capacity (nt_pool n)
     \<and> keeps_others key (nt_pool n) (nt_pool n')"

lemma get_http_connection_run:
  fixes C host is_secure
  defines "key \<equiv> cached_name C host is_secure"
  assumes "pool_ok (nt_pool n)"
  obtains c p' evs where
    "get_http_connection C host is_secure n = (Inr c, n\<lparr>nt_pool := p', nt_log := nt_log n @ evs\<rparr>)"
    "pool_step key n (n\<lparr>nt_pool := p', nt_log := nt_log n @ evs\<rparr>)"
    "queue_of p' key = tl (queue_of (nt_pool n) key)"
    "case queue_of (nt_pool n) key of c' # _ \<Rightarrow> c = c' \<and> evs = []
     | [] \<Rightarrow> evs = [Connect c] \<and> (cn_proxy C = None \<longrightarrow>
          c = \<lparr>hc_host = (case host of None \<Rightarrow> server_name C | Some h \<Rightarrow> h), hc_secure = is_secure\<rparr>)"
proof -
  obtain p1 where p1: "pool_queue key (nt_pool n) = (Inr (queue_of (nt_pool n) key), p1)" "pool_ok p1"
      "lru_capacity p1 = lru_capacity (nt_pool n)" "dget (lru_items p1) key = Some (queue_of (nt_pool n) key)"
      "keeps_others key (nt_pool n) p1"
    using pool_queue_run [OF assms(2)] by blast
  have q1: "queue_of p1 key = queue_of (nt_pool n) key" using p1(4) by (simp add: queue_of_def)
  show thesis
  proof (cases "queue_of (nt_pool n) key")
    case Nil
    define h where "h = (case cn_proxy C of Some (proxy, port) \<Rightarrow> proxy @ '':'' @ int_str port
        | None \<Rightarrow> (case host of None \<Rightarrow> server_name C | Some h \<Rightarrow> h))"
    let ?c = "\<lparr>hc_host = h, hc_secure = is_secure\<rparr>"
    have "get_http_connection C host is_secure n = (Inr ?c, n\<lparr>nt_pool := p1, nt_log := nt_log n @ [Connect ?c]\<rparr>)"
      using p1(1) Nil by (simp add: get_http_connection_def key_def [symmetric] Let_def bnd_def on_pool_def
          new_http_connection_def log_event_def andthen_def ret_def h_def)
    with Nil p1 q1 show thesis by (intro that [of ?c "[Connect ?c]" p1]) (auto simp: pool_step_def h_def)
  next
    case (Cons c rest)
    obtain p2 where p2: "lru_set_value key rest p1 = (Inr (), p2)" "pool_ok p2" "lru_capacity p2 = lru_capacity p1"
        "queue_of p2 key = rest" "length (lru_items p2) = length (lru_items p1)" "\<And>k. k \<noteq> key \<Longrightarrow> queue_of p2 k = queue_of p1 k"
      using pool_set_run [OF p1(2), of key rest] p1(4) by auto
    have "get_http_connection C host is_secure n = (Inr c, n\<lparr>nt_pool := p2\<rparr>)"
      using p1(1) p2(1) Cons by (simp add: get_http_connection_def key_def [symmetric] Let_def bnd_def on_pool_def
          andthen_def ret_def)
    moreover have "keeps_others key (nt_pool n) p2" using p1(5) p2(5,6) by (simp add: keeps_others_def)
    ultimately show thesis using Cons p1 p2 by (intro that [of c "[]" p2]) (auto simp: pool_step_def)
  qed
qed

lemma put_http_connection_run:
  fixes C host is_secure
  defines "key \<equiv> cached_name C host is_secure"
  assumes "pool_ok (nt_pool n)"
  obtains p' evs where
    "put_http_connection C host is_secure c n = (Inr (), n\<lparr>nt_pool := p', nt_log := nt_log n @ evs\<rparr>)"
    "pool_step key n (n\<lparr>nt_pool := p', nt_log := nt_log n @ evs\<rparr>)"
    "evs = [] \<and> queue_of p' key = queue_of (nt_pool n) key @ [c]
     \<or> evs = [CloseConn c] \<and> 0 < cn_queue_size C \<and> cn_queue_size C \<le> length (queue_of (nt_pool n) key)"
proof -
  obtain p1 where p1: "pool_queue key (nt_pool n) = (Inr (queue_of (nt_pool n) key), p1)" "pool_ok p1"
      "lru_capacity p1 = lru_capacity (nt_pool n)" "dget (lru_items p1) key = Some (queue_of (nt_pool n) key)"
      "keeps_others key (nt_pool n) p1"
    using pool_queue_run [OF assms(2)] by blast
  show thesis
  proof (cases "0 < cn_queue_size C \<and> cn_queue_size C \<le> length (queue_of (nt_pool n) key)")
    case True
    have "put_http_connection C host is_secure c n = (Inr (), n\<lparr>nt_pool := p1, nt_log := nt_log n @ [CloseConn c]\<rparr>)"
      using p1(1) True by (simp add: put_http_connection_def key_def [symmetric] Let_def bnd_def on_pool_def log_event_def)
    with True p1 show thesis by (intro that [of "[CloseConn c]" p1]) (auto simp: pool_step_def)
  next
    case False
    let ?q = "queue_of (nt_pool n) key @ [c]"
    obtain p2 where p2: "lru_set_value key ?q p1 = (Inr (), p2)" "pool_ok p2" "lru_capacity p2 = lru_capacity p1"
        "queue_of p2 key = ?q" "length (lru_items p2) = length (lru_items p1)" "\<And>k. k \<noteq> key \<Longrightarrow> queue_of p2 k = queue_of p1 k"
      using pool_set_run [OF p1(2), of key ?q] p1(4) by auto
    have "put_http_connection C host is_secure c n = (Inr (), n\<lparr>nt_pool := p2\<rparr>)"
      using p1(1) p2(1) False by (auto simp: put_http_connection_def key_def [symmetric] Let_def bnd_def on_pool_def)
    moreover have "keeps_others key (nt_pool n) p2" using p1(5) p2(5,6) by (simp add: keeps_others_def)
    ultimately show thesis using p1 p2 by (intro that [of "[]" p2]) (auto simp: pool_step_def)
  qed
qed


section \<open>The loop\<close>

text \<open>The requests of a log, and its pauses.\<close>

fun is_request :: "net_event \<Rightarrow> bool" where
  "is_request (Request _ _ _ _) = True"
| "is_request _ = False"

fun pause_of :: "net_event \<Rightarrow> nat" where
  "pause_of (Pause k) = k"
| "pause_of _ = 0"

definition requests :: "net_event list \<Rightarrow> nat" where
  "requests evs = length (filter is_request evs)"

definition paused :: "net_event list \<Rightarrow> nat" where
  "paused evs = sum_list (map pause_of evs)"

lemma log_count_simps [simp]:
  "requests [] = 0" "requests (e # evs) = (if is_request e then Suc (requests evs) else requests evs)"
  "requests (evs @ evs') = requests evs + requests evs'"
  "paused [] = 0" "paused (e # evs) = pause_of e + paused evs" "paused (evs @ evs') = paused evs + paused evs'"
  by (simp_all add: requests_def paused_def)

fun retried :: "response \<Rightarrow> bool" where
  "retried rs \<longleftrightarrow> rs_status rs = 500 \<or> rs_status rs = 503 \<or> rs_status rs = 408"

fun redirects :: "answer \<Rightarrow> bool" where
  "redirects (Reply rs) \<longleftrightarrow> \<not> retried rs \<and> 300 \<le> rs_status rs \<and> rs_status rs < 400
     \<and> rs_location rs \<noteq> None \<and> rs_location rs \<noteq> Some []"
| "redirects _ = False"

lemmas mexe_run = bnd_def andthen_def ret_def raise_def log_event_def retry_pause_def

text \<open>The cases of a round.\<close>

lemma mexe_round_over:
  "num_retries < int (mx_i n) \<Longrightarrow> mexe_round C ans verb data num_retries n = (Inr (Some False), n)"
  by (simp add: mexe_round_def bnd_def ret_def)

lemma mexe_round_sends:
  "int (mx_i n) \<le> num_retries \<Longrightarrow> mexe_round C ans verb data num_retries n =
     (let log = nt_log n @ [Request (mx_connection n) verb (mx_path n) data] in mexe_answer C (ans log) (n\<lparr>nt_log := log\<rparr>))"
  by (simp add: mexe_round_def bnd_def andthen_def log_event_def Let_def)

lemma mexe_answer_escaped: "mexe_answer C (Escaped e) n = (Inl e, n)"
  by (simp add: mexe_answer_def raise_def)

lemma mexe_answer_failed:
  obtains c where "mexe_answer C (Failed e) n =
    (Inr None, n\<lparr>mx_error := Some e, mx_connection := c, nt_log := nt_log n @ [Connect c, Pause (2 ^ mx_i n)], mx_i := Suc (mx_i n)\<rparr>)"
proof -
  let ?h = "case cn_proxy C of None \<Rightarrow> (case mx_host n of None \<Rightarrow> server_name C | Some h \<Rightarrow> h)
      | Some (proxy, port) \<Rightarrow> proxy @ '':'' @ int_str port"
  show thesis
    by (rule that [of "\<lparr>hc_host = ?h, hc_secure = cn_is_secure C\<rparr>"])
      (cases "cn_proxy C"; cases "mx_host n"; simp add: mexe_answer_def mexe_run new_http_connection_def Let_def split: prod.split)
qed

lemma mexe_answer_retried:
  "retried rs \<Longrightarrow> mexe_answer C (Reply rs) n =
    (Inr None, n\<lparr>mx_response := Some rs, mx_body := rs_body rs, nt_log := nt_log n @ [Pause (2 ^ mx_i n)], mx_i := Suc (mx_i n)\<rparr>)"
  by (auto simp: mexe_answer_def mexe_run)

lemma mexe_answer_final:
  assumes "\<not> retried rs" and "\<not> redirects (Reply rs)" and "pool_ok (nt_pool n)"
  obtains p' evs where "mexe_answer C (Reply rs) n =
      (Inr (Some True), n\<lparr>mx_response := Some rs, nt_pool := p', nt_log := nt_log n @ evs\<rparr>)"
    "pool_step (cached_name C (mx_host n) (cn_is_secure C)) n (n\<lparr>nt_pool := p'\<rparr>)"
    "requests evs = 0 \<and> paused evs = 0"
    "length (queue_of (nt_pool n) (cached_name C (mx_host n) (cn_is_secure C))) < cn_queue_size C \<longrightarrow>
      queue_of p' (cached_name C (mx_host n) (cn_is_secure C))
        = queue_of (nt_pool n) (cached_name C (mx_host n) (cn_is_secure C)) @ [mx_connection n]"
proof -
  let ?n = "n\<lparr>mx_response := Some rs\<rparr>"
  have ok: "pool_ok (nt_pool ?n)" using assms(3) by simp
  show thesis
  proof (rule put_http_connection_run [of ?n C "mx_host n" "cn_is_secure C" "mx_connection n", OF ok])
    fix evs p'
    assume 1: "put_http_connection C (mx_host n) (cn_is_secure C) (mx_connection n) ?n
        = (Inr (), ?n\<lparr>nt_pool := p', nt_log := nt_log ?n @ evs\<rparr>)"
      and 2: "pool_step (cached_name C (mx_host n) (cn_is_secure C)) ?n (?n\<lparr>nt_pool := p', nt_log := nt_log ?n @ evs\<rparr>)"
      and 3: "evs = [] \<and> queue_of p' (cached_name C (mx_host n) (cn_is_secure C))
            = queue_of (nt_pool ?n) (cached_name C (mx_host n) (cn_is_secure C)) @ [mx_connection n]
        \<or> evs = [CloseConn (mx_connection n)] \<and> 0 < cn_queue_size C
            \<and> cn_queue_size C \<le> length (queue_of (nt_pool ?n) (cached_name C (mx_host n) (cn_is_secure C)))"
    show thesis
    proof (rule that [where p' = p' and evs = evs])
      show "mexe_answer C (Reply rs) n = (Inr (Some True), n\<lparr>mx_response := Some rs, nt_pool := p', nt_log := nt_log n @ evs\<rparr>)"
        using assms(1,2) 1 by (auto simp: mexe_answer_def mexe_run)
    qed (use 2 3 in \<open>auto simp: pool_step_def\<close>)
  qed
qed

lemma mexe_answer_redirect:
  assumes "redirects (Reply rs)" and "pool_ok (nt_pool n)"
    and "urlparse (the (rs_location rs)) = (scheme, host, path, query)"
  obtains c p' evs where "mexe_answer C (Reply rs) n =
      (Inr None, n\<lparr>mx_response := Some rs, mx_host := Some host, mx_path := (if query = [] then path else path @ ''?'' @ query),
         nt_pool := p', nt_log := nt_log n @ evs, mx_connection := c\<rparr>)"
    "pool_step (cached_name C (Some host) (scheme = ''https'')) n (n\<lparr>nt_pool := p'\<rparr>)"
    "queue_of p' (cached_name C (Some host) (scheme = ''https'')) = tl (queue_of (nt_pool n) (cached_name C (Some host) (scheme = ''https'')))"
    "case queue_of (nt_pool n) (cached_name C (Some host) (scheme = ''https'')) of c' # _ \<Rightarrow> c = c'
     | [] \<Rightarrow> cn_proxy C = None \<longrightarrow> c = \<lparr>hc_host = host, hc_secure = (scheme = ''https'')\<rparr>"
    "requests evs = 0"
proof -
  let ?path = "if query = [] then path else path @ ''?'' @ query"
  let ?n = "n\<lparr>mx_response := Some rs, mx_host := Some host, mx_path := ?path\<rparr>"
  have ok: "pool_ok (nt_pool ?n)" using assms(2) by simp
  show thesis
  proof (rule get_http_connection_run [of ?n C "Some host" "scheme = ''https''", OF ok])
    fix c evs p'
    assume 1: "get_http_connection C (Some host) (scheme = ''https'') ?n = (Inr c, ?n\<lparr>nt_pool := p', nt_log := nt_log ?n @ evs\<rparr>)"
      and rest: "pool_step (cached_name C (Some host) (scheme = ''https'')) ?n (?n\<lparr>nt_pool := p', nt_log := nt_log ?n @ evs\<rparr>)"
        "queue_of p' (cached_name C (Some host) (scheme = ''https'')) = tl (queue_of (nt_pool ?n) (cached_name C (Some host) (scheme = ''https'')))"
        "case queue_of (nt_pool ?n) (cached_name C (Some host) (scheme = ''https'')) of c' # _ \<Rightarrow> c = c' \<and> evs = []
         | [] \<Rightarrow> evs = [Connect c] \<and> (cn_proxy C = None \<longrightarrow>
              c = \<lparr>hc_host = (case Some host of None \<Rightarrow> server_name C | Some h \<Rightarrow> h), hc_secure = (scheme = ''https'')\<rparr>)"
    show thesis
    proof (rule that [where c = c and p' = p' and evs = evs])
      show "mexe_answer C (Reply rs) n = (Inr None, n\<lparr>mx_response := Some rs, mx_host := Some host, mx_path := ?path,
         nt_pool := p', nt_log := nt_log n @ evs, mx_connection := c\<rparr>)"
        using assms(1,3) 1 by (auto simp: mexe_answer_def mexe_run)
    qed (use rest in \<open>auto simp: pool_step_def split: list.splits\<close>)
  qed
qed

definition mexe_retries :: "client \<Rightarrow> int option \<Rightarrow> int" where
  "mexe_retries C override = (case override of None \<Rightarrow> cn_num_retries C | Some k \<Rightarrow> k)"

definition loop_inv :: "int \<Rightarrow> net_event list \<Rightarrow> net \<Rightarrow> bool" where
  "loop_inv retries before n \<longleftrightarrow> pool_ok (nt_pool n) \<and> (\<exists>evs. nt_log n = before @ evs \<and> requests evs = mx_i n
     \<and> Suc (paused evs) = 2 ^ mx_i n) \<and> mx_i n \<le> nat (retries + 1) \<and> mx_error n \<noteq> Some StillRunning"

definition calm :: "(net_event list \<Rightarrow> answer) \<Rightarrow> bool" where
  "calm ans \<longleftrightarrow> (\<forall>h. \<not> redirects (ans h) \<and> ans h \<noteq> Escaped StillRunning \<and> ans h \<noteq> Failed StillRunning)"

lemma mexe_round_inv:
  assumes "calm ans" and "loop_inv retries before n" and "mexe_round C ans verb data retries n = (r, n')"
  shows "(r = Inr None \<longrightarrow> loop_inv retries before n' \<and> mx_i n' = Suc (mx_i n))
    \<and> (r = Inr (Some False) \<longrightarrow> n' = n)
    \<and> (r = Inr (Some True) \<longrightarrow> (\<exists>rs. mx_response n' = Some rs \<and> \<not> retried rs))
    \<and> r \<noteq> Inl StillRunning
    \<and> (\<exists>evs. nt_log n' = before @ evs \<and> requests evs \<le> nat (retries + 1) \<and> paused evs < 2 ^ nat (retries + 1))"
proof -
  obtain evs where log: "nt_log n = before @ evs" "requests evs = mx_i n" "Suc (paused evs) = 2 ^ mx_i n"
    and pool: "pool_ok (nt_pool n)" and i: "mx_i n \<le> nat (retries + 1)" and err: "mx_error n \<noteq> Some StillRunning"
    using assms(2) by (auto simp: loop_inv_def)
  have pow: "(2 :: nat) ^ mx_i n \<le> 2 ^ nat (retries + 1)" using i by (simp add: power_increasing)
  show ?thesis
  proof (cases "int (mx_i n) \<le> retries")
    case False
    then have "r = Inr (Some False)" "n' = n" using assms(3) mexe_round_over [of retries n C ans verb data] by auto
    moreover have "paused evs < 2 ^ nat (retries + 1)" using log(3) pow by linarith
    ultimately show ?thesis using log i by simp
  next
    case True
    define n1 where "n1 = n\<lparr>nt_log := nt_log n @ [Request (mx_connection n) verb (mx_path n) data]\<rparr>"
    have run: "mexe_answer C (ans (nt_log n1)) n1 = (r, n')"
      using assms(3) mexe_round_sends [OF True, of C ans verb data] by (simp add: n1_def Let_def)
    have i1: "Suc (mx_i n) \<le> nat (retries + 1)" using True by simp
    have next_pow: "(2 :: nat) ^ Suc (mx_i n) \<le> 2 ^ nat (retries + 1)" using i1 by (intro power_increasing) auto
    have n1: "nt_log n1 = before @ evs @ [Request (mx_connection n) verb (mx_path n) data]" "mx_i n1 = mx_i n"
        "pool_ok (nt_pool n1)" "mx_error n1 \<noteq> Some StillRunning"
      using log pool err by (simp_all add: n1_def)
    show ?thesis
    proof (cases "ans (nt_log n1)")
      case (Escaped e)
      with run have "r = Inl e" "n' = n1" by (auto simp: mexe_answer_escaped)
      moreover have "e \<noteq> StillRunning" using assms(1) Escaped unfolding calm_def by blast
      ultimately show ?thesis using n1 log i1 next_pow by simp
    next
      case (Failed e)
      obtain c where "mexe_answer C (Failed e) n1 =
          (Inr None, n1\<lparr>mx_error := Some e, mx_connection := c, nt_log := nt_log n1 @ [Connect c, Pause (2 ^ mx_i n1)], mx_i := Suc (mx_i n1)\<rparr>)"
        by (rule mexe_answer_failed)
      with run Failed have "r = Inr None" "nt_log n' = nt_log n1 @ [Connect c, Pause (2 ^ mx_i n1)]" "mx_i n' = Suc (mx_i n1)"
          "nt_pool n' = nt_pool n1" "mx_error n' = Some e" by auto
      moreover have "e \<noteq> StillRunning" using assms(1) Failed unfolding calm_def by blast
      ultimately show ?thesis using n1 log i1 next_pow by (simp add: loop_inv_def)
    next
      case (Reply rs)
      show ?thesis
      proof (cases "retried rs")
        case True
        from run Reply mexe_answer_retried [OF True, of C n1]
        have "r = Inr None" "nt_log n' = nt_log n1 @ [Pause (2 ^ mx_i n1)]" "mx_i n' = Suc (mx_i n1)" "nt_pool n' = nt_pool n1"
          "mx_error n' = mx_error n1" by auto
        with n1 log i1 next_pow show ?thesis by (simp add: loop_inv_def)
      next
        case False
        have "\<not> redirects (Reply rs)" using assms(1) Reply unfolding calm_def by metis
        from mexe_answer_final [OF False this n1(3), of C] obtain p' evs' where
          "mexe_answer C (Reply rs) n1 = (Inr (Some True), n1\<lparr>mx_response := Some rs, nt_pool := p', nt_log := nt_log n1 @ evs'\<rparr>)"
          "requests evs' = 0 \<and> paused evs' = 0" by metis
        with run Reply have "r = Inr (Some True)" "nt_log n' = nt_log n1 @ evs'" "mx_response n' = Some rs"
            "requests evs' = 0" "paused evs' = 0" by auto
        with n1 log i1 next_pow False show ?thesis by simp
      qed
    qed
  qed
qed

lemma mexe_loop_bounded:
  assumes calm: "calm ans" and inv: "loop_inv k before n0" and "mx_i n0 = 0" and "nat (k + 1) < rounds"
    and loop: "loop_st rounds (mexe_round C ans verb data k) n0 = (r, n1)"
  shows "r \<noteq> Inl StillRunning"
    and "\<exists>evs. nt_log n1 = before @ evs \<and> requests evs \<le> nat (k + 1) \<and> paused evs < 2 ^ nat (k + 1)"
    and "case r of Inl e \<Rightarrow> True | Inr True \<Rightarrow> (\<exists>rs. mx_response n1 = Some rs \<and> \<not> retried rs)
         | Inr False \<Rightarrow> mx_error n1 \<noteq> Some StillRunning"
proof -
  let ?body = "mexe_round C ans verb data k"
  have "fst (loop_st rounds ?body n0) \<noteq> Inl StillRunning"
  proof (rule loop_st_ends [where P = "loop_inv k before" and \<mu> = "\<lambda>n. nat (k + 1) - mx_i n"])
    fix s s' assume inv: "loop_inv k before s" and run: "?body s = (Inr None, s')"
    from mexe_round_inv [OF calm inv run] have "loop_inv k before s'" "mx_i s' = Suc (mx_i s)" by simp_all
    then show "loop_inv k before s' \<and> nat (k + 1) - mx_i s' < nat (k + 1) - mx_i s" by (auto simp: loop_inv_def)
  next
    fix s assume inv: "loop_inv k before s"
    then show "fst (?body s) \<noteq> Inl StillRunning" using mexe_round_inv [OF calm inv, of C verb data] by (metis prod.collapse)
  qed (use assms in simp_all)
  with loop show r: "r \<noteq> Inl StillRunning" by simp
  obtain s1 where s1: "loop_inv k before s1" "case r of Inl e \<Rightarrow> ?body s1 = (Inl e, n1) | Inr x \<Rightarrow> ?body s1 = (Inr (Some x), n1)"
    using loop_st_last_round [where P = "loop_inv k before", OF inv _ loop r] mexe_round_inv [OF calm] by blast
  then obtain r2 where last: "?body s1 = (r2, n1)" "case r of Inl e \<Rightarrow> r2 = Inl e | Inr x \<Rightarrow> r2 = Inr (Some x)"
    by (cases r) auto
  note facts = mexe_round_inv [OF calm s1(1) last(1)]
  from facts show "\<exists>evs. nt_log n1 = before @ evs \<and> requests evs \<le> nat (k + 1) \<and> paused evs < 2 ^ nat (k + 1)" by blast
  show "case r of Inl e \<Rightarrow> True | Inr True \<Rightarrow> (\<exists>rs. mx_response n1 = Some rs \<and> \<not> retried rs)
         | Inr False \<Rightarrow> mx_error n1 \<noteq> Some StillRunning"
    using last(2) facts s1(1) by (auto simp: loop_inv_def split: sum.splits bool.splits)
qed

lemma mexe_failure_result:
  assumes "mexe_failure n = (r, n')" and "mx_error n \<noteq> Some StillRunning"
  shows "\<exists>e. r = Inl e \<and> e \<noteq> StillRunning" and "nt_log n' = nt_log n"
  using assms by (auto simp: mexe_failure_def bnd_def raise_def split: option.splits)

lemma mexe_starts:
  assumes "pool_ok (nt_pool n)"
  obtains c p' evs where
    "mexe rounds C ans verb path data host override n =
      bnd (loop_st rounds (mexe_round C ans verb data (mexe_retries C override)))
        (\<lambda>finished. if \<not> finished then mexe_failure else bnd (gets mx_response) (\<lambda>r. ret (the r)))
        (n\<lparr>nt_pool := p', nt_log := nt_log n @ evs, mx_i := 0, mx_host := host, mx_path := path,
           mx_connection := c, mx_response := None, mx_body := [], mx_error := None\<rparr>)"
    "pool_step (cached_name C host (cn_is_secure C)) n (n\<lparr>nt_pool := p'\<rparr>)"
    "queue_of p' (cached_name C host (cn_is_secure C)) = tl (queue_of (nt_pool n) (cached_name C host (cn_is_secure C)))"
    "requests evs = 0" "paused evs = 0"
proof (rule get_http_connection_run [OF assms, of C host "cn_is_secure C"], goal_cases)
  case (1 c p' evs)
  have "requests evs = 0" "paused evs = 0" using 1(5) by (auto split: list.splits)
  with 1 show thesis
    by (intro that [where c = c and p' = p' and evs = evs])
      (simp_all add: mexe_def mexe_retries_def [symmetric] Let_def bnd_def andthen_def pool_step_def)
qed

text \<open>
  C20: a request is tried a bounded number of times. When the server never redirects, sending a
  request ends: at most \<open>num_retries + 1\<close> requests go out, the pauses in between add up to less
  than \<open>2 ^ (num_retries + 1)\<close> seconds, and a response that is handed out is not one of those
  that ask for another try.
\<close>

theorem mexe_bounded:
  assumes "pool_ok (nt_pool n)" and "calm ans" and "nat (mexe_retries C override + 1) < rounds"
    and "mexe rounds C ans verb path data host override n = (r, n')"
  shows "r \<noteq> Inl StillRunning
    \<and> (\<exists>evs. nt_log n' = nt_log n @ evs \<and> requests evs \<le> nat (mexe_retries C override + 1)
          \<and> paused evs < 2 ^ nat (mexe_retries C override + 1))
    \<and> (\<forall>rs. r = Inr rs \<longrightarrow> \<not> retried rs)"
proof (rule mexe_starts [OF assms(1), of rounds C ans verb path data host override], goal_cases)
  case (1 c p' evs0)
  let ?k = "mexe_retries C override" and ?before = "nt_log n @ evs0"
  define n0 where "n0 = n\<lparr>nt_pool := p', nt_log := ?before, mx_i := 0, mx_host := host, mx_path := path,
      mx_connection := c, mx_response := None, mx_body := [], mx_error := None\<rparr>"
  have inv: "loop_inv ?k ?before n0" using 1(2) by (simp add: loop_inv_def n0_def pool_step_def)
  obtain r1 n1 where loop: "loop_st rounds (mexe_round C ans verb data ?k) n0 = (r1, n1)" by fastforce
  have start: "mx_i n0 = 0" by (simp add: n0_def)
  note bounded = mexe_loop_bounded [OF assms(2) inv start assms(3) loop]
  have result: "bnd (loop_st rounds (mexe_round C ans verb data ?k))
      (\<lambda>finished. if \<not> finished then mexe_failure else bnd (gets mx_response) (\<lambda>r. ret (the r))) n0 = (r, n')"
    using 1(1) assms(4) by (simp add: n0_def)
  have "r \<noteq> Inl StillRunning \<and> nt_log n' = nt_log n1 \<and> (\<forall>rs. r = Inr rs \<longrightarrow> \<not> retried rs)"
  proof (cases r1)
    case (Inl e)
    with result loop bounded(1) show ?thesis by (auto simp: bnd_def)
  next
    case (Inr finished)
    with result loop bounded(3) show ?thesis
      by (cases finished) (auto simp: bnd_def ret_def dest: mexe_failure_result)
  qed
  moreover obtain evs where "nt_log n1 = nt_log n @ (evs0 @ evs)" "requests (evs0 @ evs) \<le> nat (?k + 1)"
      "paused (evs0 @ evs) < 2 ^ nat (?k + 1)"
    using bounded(2) 1(4,5) by auto
  ultimately show ?thesis by metis
qed


section \<open>Redirects\<close>

lemma loop_st_forever:
  "P s \<Longrightarrow> (\<And>s. P s \<Longrightarrow> \<exists>s'. body s = (Inr None, s') \<and> P s') \<Longrightarrow> fst (loop_st n body s) = Inl StillRunning"
proof (induction n arbitrary: s)
  case (Suc n)
  then obtain s' where "body s = (Inr None, s')" "P s'" by blast
  with Suc.IH [OF _ Suc.prems(2)] show ?case by (simp add: bnd_def)
qed (simp add: raise_def)

text \<open>
  Redirects are followed without a limit. A server that answers every request with a redirect
  keeps the client busy forever: a redirect does not count as a try, so no number of rounds is
  enough, whatever the number of retries.
\<close>

theorem redirects_never_end:
  assumes "pool_ok (nt_pool n)" and "\<forall>h. redirects (ans h)" and "0 \<le> mexe_retries C override"
  shows "fst (mexe rounds C ans verb path data host override n) = Inl StillRunning"
proof (rule mexe_starts [OF assms(1), of rounds C ans verb path data host override], goal_cases)
  case (1 c p' evs)
  let ?n0 = "n\<lparr>nt_pool := p', nt_log := nt_log n @ evs, mx_i := 0, mx_host := host, mx_path := path,
           mx_connection := c, mx_response := None, mx_body := [], mx_error := None\<rparr>"
  let ?P = "\<lambda>s. pool_ok (nt_pool s) \<and> mx_i s = 0"
  have "?P ?n0" using 1(2) by (simp add: pool_step_def)
  moreover have "\<exists>s'. mexe_round C ans verb data (mexe_retries C override) s = (Inr None, s') \<and> ?P s'" if P: "?P s" for s
  proof -
    define s1 where "s1 = s\<lparr>nt_log := nt_log s @ [Request (mx_connection s) verb (mx_path s) data]\<rparr>"
    have run: "mexe_round C ans verb data (mexe_retries C override) s = mexe_answer C (ans (nt_log s1)) s1"
      using mexe_round_sends [of s "mexe_retries C override" C ans verb data] P assms(3) by (simp add: s1_def Let_def)
    have s1: "pool_ok (nt_pool s1)" "mx_i s1 = 0" using P by (simp_all add: s1_def)
    obtain rs where rs: "ans (nt_log s1) = Reply rs" "redirects (Reply rs)"
      using assms(2) [rule_format, of "nt_log s1"] by (cases "ans (nt_log s1)") auto
    obtain scheme host path query where url: "urlparse (the (rs_location rs)) = (scheme, host, path, query)"
      by (cases "urlparse (the (rs_location rs))") auto
    show ?thesis
    proof (rule mexe_answer_redirect [OF rs(2) s1(1) url, of C], goal_cases)
      case (1 c p' evs)
      with run rs(1) s1(2) show ?case by (auto simp: pool_step_def)
    qed
  qed
  ultimately have "fst (loop_st rounds (mexe_round C ans verb data (mexe_retries C override)) ?n0) = Inl StillRunning"
    by (rule loop_st_forever [where P = ?P])
  with 1(1) show ?thesis by (auto simp: bnd_def split: prod.splits sum.splits)
qed

lemma plain_redirect_round:
  assumes "pool_ok (nt_pool s)" and "mx_i s = 0" and "0 \<le> k" and "cn_proxy C = None"
    and "queue_of (nt_pool s) (''http://'' @ h) = []" and "redirects (Reply rs)"
    and "urlparse (the (rs_location rs)) = (''http'', h, target, query)"
    and "\<forall>log. requests log = Suc (requests (nt_log s)) \<longrightarrow> ans log = Reply rs"
  shows "\<exists>s'. mexe_round C ans verb data k s = (Inr None, s') \<and> pool_ok (nt_pool s')
    \<and> keeps_others (''http://'' @ h) (nt_pool s) (nt_pool s') \<and> requests (nt_log s') = Suc (requests (nt_log s))
    \<and> mx_i s' = 0 \<and> mx_host s' = Some h \<and> mx_connection s' = \<lparr>hc_host = h, hc_secure = False\<rparr>"
proof -
  define n1 where "n1 = s\<lparr>nt_log := nt_log s @ [Request (mx_connection s) verb (mx_path s) data]\<rparr>"
  have n1: "pool_ok (nt_pool n1)" "nt_pool n1 = nt_pool s" "mx_i n1 = 0" "requests (nt_log n1) = Suc (requests (nt_log s))"
    using assms(1,2) by (simp_all add: n1_def)
  have run: "mexe_round C ans verb data k s = mexe_answer C (Reply rs) n1"
    using mexe_round_sends [of s k C ans verb data] assms(2,3,8) n1(4) by (simp add: n1_def Let_def)
  have key: "cached_name C (Some h) False = ''http://'' @ h" by (simp add: cached_name_def)
  show ?thesis
  proof (rule mexe_answer_redirect [OF assms(6) n1(1) assms(7), of C], goal_cases)
    case (1 c p' evs)
    then show ?case using run n1 assms(4,5) key by (auto simp: pool_step_def)
  qed
qed

lemma downgraded_loop:
  assumes "pool_ok (nt_pool s)" and "int (length (lru_items (nt_pool s))) + 1 \<le> lru_capacity (nt_pool s)"
    and "mx_i s = 0" and "0 \<le> k" and "2 \<le> rounds"
    and "cn_is_secure C" and "cn_proxy C = None" and "0 < cn_queue_size C"
    and "queue_of (nt_pool s) (''http://'' @ h) = []" and "queue_of (nt_pool s) (''https://'' @ h) = []"
    and "\<forall>log. requests log = Suc (requests (nt_log s)) \<longrightarrow> ans log = Reply rs1"
    and "\<forall>log. requests log = Suc (Suc (requests (nt_log s))) \<longrightarrow> ans log = Reply rs2"
    and "redirects (Reply rs1)" and "urlparse (the (rs_location rs1)) = (''http'', h, target, query)"
    and "\<not> retried rs2" and "\<not> redirects (Reply rs2)"
  shows "\<exists>s'. loop_st rounds (mexe_round C ans verb data k) s = (Inr True, s') \<and> mx_response s' = Some rs2
    \<and> pool_ok (nt_pool s') \<and> queue_of (nt_pool s') (''https://'' @ h) = [\<lparr>hc_host = h, hc_secure = False\<rparr>]"
proof -
  let ?body = "mexe_round C ans verb data k"
  obtain m where rounds: "rounds = Suc (Suc m)" using assms(5) by (metis Suc_le_D numeral_2_eq_2 Suc_le_mono)
  obtain s2 where s2: "?body s = (Inr None, s2)" "pool_ok (nt_pool s2)"
      "keeps_others (''http://'' @ h) (nt_pool s) (nt_pool s2)" "requests (nt_log s2) = Suc (requests (nt_log s))"
      "mx_i s2 = 0" "mx_host s2 = Some h" "mx_connection s2 = \<lparr>hc_host = h, hc_secure = False\<rparr>"
    using plain_redirect_round [OF assms(1,3,4,7,9,13,14,11)] by blast
  define n3 where "n3 = s2\<lparr>nt_log := nt_log s2 @ [Request (mx_connection s2) verb (mx_path s2) data]\<rparr>"
  have n3: "pool_ok (nt_pool n3)" "nt_pool n3 = nt_pool s2" "mx_host n3 = Some h"
      "mx_connection n3 = \<lparr>hc_host = h, hc_secure = False\<rparr>" "requests (nt_log n3) = Suc (Suc (requests (nt_log s)))"
    using s2 by (simp_all add: n3_def)
  have run: "?body s2 = mexe_answer C (Reply rs2) n3"
    using mexe_round_sends [of s2 k C ans verb data] assms(4,12) s2(5) n3(5) by (simp add: n3_def Let_def)
  have key: "cached_name C (Some h) True = ''https://'' @ h" by (simp add: cached_name_def)
  have q1: "queue_of (nt_pool s2) (''https://'' @ h) = []"
    using s2(3) assms(2,10) by (simp add: keeps_others_def)
  show ?thesis
  proof (rule mexe_answer_final [OF assms(15,16) n3(1), of C], goal_cases)
    case (1 p' evs)
    then show ?case using q1 n3 assms(6,8) key s2(1) run unfolding rounds
      by (auto simp: pool_step_def bnd_def ret_def)
  qed
qed

text \<open>
  C24: a redirect can take the encryption away from later requests. After a redirect from an
  encrypted connection to a plain address on the host \<open>h\<close>, the plain connection is put back under the
  name of encrypted connections to \<open>h\<close>, and the next request for an encrypted connection to \<open>h\<close>
  is given it.
\<close>

theorem redirect_downgrades_pool:
  assumes "pool_ok (nt_pool n)" and "int (length (lru_items (nt_pool n))) + 2 \<le> lru_capacity (nt_pool n)"
    and "cn_is_secure C" and "cn_proxy C = None" and "0 < cn_queue_size C"
    and "queue_of (nt_pool n) (''http://'' @ h) = []" and "queue_of (nt_pool n) (''https://'' @ h) = []"
    and "\<forall>log. requests log = Suc (requests (nt_log n)) \<longrightarrow> ans log = Reply rs1"
    and "\<forall>log. requests log = Suc (Suc (requests (nt_log n))) \<longrightarrow> ans log = Reply rs2"
    and "redirects (Reply rs1)" and "urlparse (the (rs_location rs1)) = (''http'', h, target, query)"
    and "\<not> retried rs2" and "\<not> redirects (Reply rs2)" and "0 \<le> mexe_retries C override" and "2 \<le> rounds"
  shows "\<exists>n' n''. mexe rounds C ans verb path data host override n = (Inr rs2, n')
    \<and> get_http_connection C (Some h) True n' = (Inr \<lparr>hc_host = h, hc_secure = False\<rparr>, n'')"
proof (rule mexe_starts [OF assms(1), of rounds C ans verb path data host override], goal_cases)
  case (1 c p0 evs)
  define n0 where "n0 = n\<lparr>nt_pool := p0, nt_log := nt_log n @ evs, mx_i := 0, mx_host := host, mx_path := path,
           mx_connection := c, mx_response := None, mx_body := [], mx_error := None\<rparr>"
  have keys: "cached_name C host (cn_is_secure C) \<noteq> ''http://'' @ h" "cached_name C (Some h) True = ''https://'' @ h"
    using assms(3) by (simp_all add: cached_name_def)
  have p0: "pool_ok p0" "lru_capacity p0 = lru_capacity (nt_pool n)"
      "keeps_others (cached_name C host (cn_is_secure C)) (nt_pool n) p0"
    using 1(2) by (simp_all add: pool_step_def)
  then have room: "int (length (lru_items p0)) + 1 \<le> lru_capacity p0"
    and q0: "queue_of p0 (''http://'' @ h) = []" "queue_of p0 (''https://'' @ h) = []"
    using assms(2,6,7) keys(1) 1(3) by (auto simp: keeps_others_def) (metis list.sel(2))
  obtain s' where s': "loop_st rounds (mexe_round C ans verb data (mexe_retries C override)) n0 = (Inr True, s')"
      "mx_response s' = Some rs2" "pool_ok (nt_pool s')"
      "queue_of (nt_pool s') (cached_name C (Some h) True) = [\<lparr>hc_host = h, hc_secure = False\<rparr>]"
    using downgraded_loop [where s = n0, OF _ _ _ assms(14,15,3,4,5) _ _ _ _ assms(10-13), of ans verb data]
      p0(1) room q0 assms(8,9) 1(4) keys(2) by (auto simp: n0_def)
  have result: "mexe rounds C ans verb path data host override n = (Inr rs2, s')"
    unfolding 1(1) n0_def [symmetric] by (simp add: bnd_def ret_def s')
  show ?thesis
  proof (rule get_http_connection_run [OF s'(3), of C "Some h" True], goal_cases)
    case (1 c p' evs)
    with result s'(4) show ?case by auto
  qed
qed


section \<open>Examples\<close>

definition net0 :: net where
  "net0 = \<lparr>nt_log = [], nt_pool = lru_new 20, mx_i = 0, mx_host = None, mx_path = [],
     mx_connection = \<lparr>hc_host = [], hc_secure = True\<rparr>, mx_response = None, mx_body = [], mx_error = None\<rparr>"

definition reply_to :: "int \<Rightarrow> string option \<Rightarrow> answer" where
  "reply_to status location = Reply \<lparr>rs_status = status, rs_reason = [], rs_body = [], rs_location = location\<rparr>"

definition ans_redirect_once :: "net_event list \<Rightarrow> answer" where
  "ans_redirect_once evs = (if requests evs = 1 then reply_to 302 (Some ''http://h/x'') else reply_to 200 None)"

lemma net0_pool: "pool_ok (nt_pool net0)" "lru_items (nt_pool net0) = []" "lru_capacity (nt_pool net0) = 20"
proof -
  have "lru_ok (lru_new 20 :: http_conn list lru) \<and> lru_items (lru_new 20 :: http_conn list lru) = []" by (rule lru_new_ok) simp
  then show "pool_ok (nt_pool net0)" "lru_items (nt_pool net0) = []"
    by (simp_all add: net0_def pool_ok_def) (simp add: lru_new_def)
  show "lru_capacity (nt_pool net0) = 20" by (simp add: net0_def lru_new_def)
qed

theorem mexe_bounded_witness:
  "\<exists>r n'. mexe 8 client0 (\<lambda>_. reply_to 503 None) ''GET'' ''/'' [] None None net0 = (r, n')
     \<and> r \<noteq> Inl StillRunning \<and> requests (nt_log n') \<le> 6 \<and> paused (nt_log n') < 64"
proof -
  have calm: "calm (\<lambda>_. reply_to 503 None)" by (simp add: calm_def reply_to_def)
  have k: "mexe_retries client0 None = 5" by (simp add: mexe_retries_def client0_def)
  obtain r n' where run: "mexe 8 client0 (\<lambda>_. reply_to 503 None) ''GET'' ''/'' [] None None net0 = (r, n')" by fastforce
  have "nt_log net0 = []" by (simp add: net0_def)
  with mexe_bounded [OF net0_pool(1) calm _ run] run k show ?thesis by auto
qed

theorem redirects_never_end_witness:
  "fst (mexe 1000 client0 (\<lambda>_. reply_to 302 (Some ''http://h/x'')) ''GET'' ''/'' [] None None net0) = Inl StillRunning"
  by (rule redirects_never_end [OF net0_pool(1)]) (simp_all add: reply_to_def mexe_retries_def client0_def)

theorem redirect_downgrades_pool_witness:
  "\<exists>rs n' n''. mexe 2 client0 ans_redirect_once ''GET'' ''/'' [] None None net0 = (Inr rs, n')
     \<and> get_http_connection client0 (Some ''h'') True n' = (Inr \<lparr>hc_host = ''h'', hc_secure = False\<rparr>, n'')"
proof -
  have url: "urlparse ''http://h/x'' = (''http'', ''h'', ''/x'', [])" by code_simp
  have none: "queue_of (nt_pool net0) k = []" for k by (simp add: queue_of_def net0_pool)
  show ?thesis
    using redirect_downgrades_pool [of net0 client0 "''h''" ans_redirect_once
        "\<lparr>rs_status = 302, rs_reason = [], rs_body = [], rs_location = Some ''http://h/x''\<rparr>"
        "\<lparr>rs_status = 200, rs_reason = [], rs_body = [], rs_location = None\<rparr>" "''/x''" "[]" None 2 "''GET''" "''/''" "[]" None]
      net0_pool url none
    by (auto simp: ans_redirect_once_def reply_to_def mexe_retries_def client0_def net0_def)
qed

end
