(* ===== verification/BotoTransfer.thy ===== *)
theory BotoTransfer
  imports BotoText
begin

text \<open>
  What resumable uploads and downloads of boto share: which failures are tried again, the reading of
  files in pieces, tags in quotes, and the contract of a loop that goes on as long as it makes
  progress.
\<close>


section \<open>Failures, tags and pieces\<close>

text \<open>
  \<open>RETRYABLE_EXCEPTIONS\<close> (\<open>socket.error\<close> is an \<open>IOError\<close>), and a transfer error whose disposition is
  not to abort.
\<close>

definition tried_again :: "py_exc \<Rightarrow> bool" where
  "tried_again e \<longleftrightarrow> e = HTTPException \<or> e = IOError \<or> (\<exists>d. e = TransferError d \<and> d \<noteq> ABORT)"

lemma tried_again_simps [simp]:
  "tried_again HTTPException" "tried_again IOError" "tried_again (TransferError d) \<longleftrightarrow> d \<noteq> ABORT"
  "\<not> tried_again (AttributeError n)" "\<not> tried_again InvalidUriError" "\<not> tried_again StillRunning"
  by (auto simp: tried_again_def)

text \<open>\<open>strip('"\'')\<close>: quotes at both ends.\<close>

definition is_quote :: "char \<Rightarrow> bool" where
  "is_quote c \<longleftrightarrow> c = CHR 0x22 \<or> c = squote"

definition strip_quotes :: "string \<Rightarrow> string" where
  "strip_quotes s = rev (dropWhile is_quote (rev (dropWhile is_quote s)))"

text \<open>What repeated \<open>read(n)\<close> delivers until it delivers nothing.\<close>

function pieces :: "nat \<Rightarrow> 'a list \<Rightarrow> 'a list list" where
  "pieces n xs = (if xs = [] \<or> n = 0 then [] else take n xs # pieces n (drop n xs))"
  by pat_completeness auto
termination
  by (relation "measure (\<lambda>(n, xs). length xs)") (auto simp: length_greater_0_conv)

declare pieces.simps [simp del]

lemma concat_pieces: "0 < n \<Longrightarrow> concat (pieces n xs) = xs"
  by (induction n xs rule: pieces.induct) (subst pieces.simps, simp)


section \<open>Computations that settle\<close>

text \<open>A computation settles if its outcome is never that a loop was cut off.\<close>

named_theorems settle_rules \<open>rules that show that a computation settles\<close>

definition settles :: "('s, 'a) st \<Rightarrow> bool" where
  "settles m \<longleftrightarrow> (\<forall>s. fst (m s) \<noteq> Inl StillRunning)"

lemma settles_basic [settle_rules]:
  "settles (ret x)" "e \<noteq> StillRunning \<Longrightarrow> settles (raise e)" "settles (gets f)" "settles (modify g)"
  by (simp_all add: settles_def ret_def raise_def)

lemma settles_bnd [settle_rules]: "settles m \<Longrightarrow> (\<And>x. settles (f x)) \<Longrightarrow> settles (bnd m f)"
  by (auto simp: settles_def bnd_def split: prod.splits sum.splits) (metis fst_conv)

lemma settles_andthen [settle_rules]: "settles m \<Longrightarrow> settles m' \<Longrightarrow> settles (andthen m m')"
  by (simp add: andthen_def settles_bnd)

lemma settles_try_except [settle_rules]:
  "settles m \<Longrightarrow> (\<And>e. settles (h e)) \<Longrightarrow> settles (try_except m p h)"
  by (auto simp: settles_def try_except_def split: prod.splits sum.splits) (metis fst_conv)+

lemma settles_if [settle_rules]:
  "(b \<Longrightarrow> settles m) \<Longrightarrow> (\<not> b \<Longrightarrow> settles m') \<Longrightarrow> settles (if b then m else m')"
  by simp

lemma settles_option [settle_rules]:
  "settles m \<Longrightarrow> (\<And>y. settles (f y)) \<Longrightarrow> settles (case x of None \<Rightarrow> m | Some y \<Rightarrow> f y)"
  by (cases x) simp_all


section \<open>Going on as long as there is progress\<close>

text \<open>
  The loop's state has a level and a count of rounds without progress. A round that goes on either
  raises the level, or leaves it and raises the count, which stays within the retries. The level is
  bounded. Then the loop ends.
\<close>

definition progress_budget :: "nat \<Rightarrow> nat \<Rightarrow> nat \<Rightarrow> nat \<Rightarrow> nat" where
  "progress_budget bound retries l i = (bound - l) * Suc retries + (retries - i)"

locale progress_loop =
  fixes body :: "('s, unit option) st" and inv :: "'s \<Rightarrow> bool"
    and level idle :: "'s \<Rightarrow> nat" and bound retries :: nat
  assumes round_law: "inv s \<Longrightarrow> body s = (Inr None, s') \<Longrightarrow> inv s' \<and> idle s' \<le> retries
      \<and> (level s < level s' \<or> level s \<le> level s' \<and> idle s' = Suc (idle s))"
    and level_law: "inv s \<Longrightarrow> level s \<le> bound"
    and body_law: "inv s \<Longrightarrow> fst (body s) \<noteq> Inl StillRunning"
begin

abbreviation budget :: "'s \<Rightarrow> nat" where
  "budget s \<equiv> progress_budget bound retries (level s) (idle s)"

lemma budget_falls:
  assumes "inv s" and "body s = (Inr None, s')"
  shows "budget s' < budget s"
proof -
  note law = round_law [OF assms] level_law [OF assms(1)]
  have top: "level s' \<le> bound" using law level_law by blast
  show ?thesis
  proof (cases "level s < level s'")
    case True
    then obtain k where k: "bound - level s = Suc k" "bound - level s' \<le> k"
      using top by (metis Suc_diff_Suc diff_le_mono2 le_trans less_le_trans Suc_leI)
    then have "(bound - level s') * Suc retries \<le> k * Suc retries" by (intro mult_le_mono1)
    then have "budget s' \<le> k * Suc retries + retries" by (simp add: progress_budget_def)
    also have "\<dots> < Suc k * Suc retries" by simp
    also have "\<dots> \<le> budget s" by (simp add: progress_budget_def k)
    finally show ?thesis .
  next
    case False
    then have "level s' = level s" "idle s' = Suc (idle s)" using law by auto
    moreover have "retries - Suc (idle s) < retries - idle s" using law calculation by auto
    ultimately show ?thesis by (simp add: progress_budget_def del: mult_Suc_right)
  qed
qed

lemma ends:
  assumes "inv s" and "budget s < rounds"
  shows "fst (loop_st rounds body s) \<noteq> Inl StillRunning"
  by (rule loop_st_ends [where P = inv and \<mu> = budget])
    (use assms budget_falls round_law body_law in blast)+

end

end
