(* ===== verification/BotoUpload.thy ===== *)
theory BotoUpload
  imports BotoTransfer BotoRetry
begin

text \<open>
  Resumable uploads: \<open>ResumableUploadHandler\<close> of \<open>boto/gs/resumable_upload_handler.py\<close>. The state is the
  handler with the tracker file on the disk and the log of what was done; the server, the disk and the
  connection answer every event by an arbitrary function of the log, with a reply or an exception. The
  file does not change during the upload; debugging output and the texts of messages are left out.
\<close>


section \<open>State and events\<close>

record up_reply =
  ur_status :: int
  ur_range :: "string option"
  ur_location :: "string option"
  ur_etag :: "string option"

datatype up_event =
    QueryState string string "(string \<times> string) list"
  | StartUpload "(string \<times> string) list"
  | NewConnection string
  | PutRequest string "(string \<times> string) list"
  | SendBytes string
  | PutResponse
  | CloseConnection
  | Progress int int
  | ReadTracker
  | WriteTracker string
  | RemoveTracker
  | ReadKey
  | DeleteKey
  | Wait nat

type_synonym up_env = "up_event list \<Rightarrow> py_exc + up_reply"

text \<open>The arguments: \<open>ua_tracker\<close> is whether a tracker file is named, \<open>ua_cb\<close> whether there is a callback.\<close>

record upload_args =
  ua_tracker :: bool
  ua_num_retries :: int
  ua_file :: string
  ua_headers :: "(string, string) dict"
  ua_md5 :: string
  ua_cb :: bool
  ua_num_cb :: int
  ua_resumable_header :: string

record upload =
  up_log :: "up_event list"
  up_disk :: "string option"
  up_uri :: "string option"
  up_host :: string
  up_path :: string
  up_server_has_bytes :: int
  up_start_point :: "int option"
  up_idle :: int

definition up_do :: "up_env \<Rightarrow> up_event \<Rightarrow> (upload, up_reply) st" where
  "up_do E e u = (E (up_log u @ [e]), u\<lparr>up_log := up_log u @ [e]\<rparr>)"

definition act :: "up_env \<Rightarrow> up_event \<Rightarrow> (upload, unit) st" where
  "act E e = andthen (up_do E e) (ret ())"

definition BUFFER_SIZE :: nat where "BUFFER_SIZE = 8192"

definition SERVER_HAS_NOTHING :: "int \<times> int" where "SERVER_HAS_NOTHING = (0, -1)"

definition up_length :: "upload_args \<Rightarrow> int" where
  "up_length A = int (length (ua_file A))"


section \<open>The tracker\<close>

text \<open>\<open>cgi.parse_qs\<close>: fields are separated by \<open>&\<close> or \<open>;\<close>, those without a value are dropped.\<close>

definition is_upload_id :: "string \<Rightarrow> bool" where
  "is_upload_id field =
     (case py_split1 (CHR ''='') field of
        [n, v] \<Rightarrow> v \<noteq> [] \<and> unquote (map (\<lambda>c. if c = CHR ''+'' then CHR '' '' else c) n) = ''upload_id''
      | _ \<Rightarrow> False)"

definition has_upload_id :: "string \<Rightarrow> bool" where
  "has_upload_id query \<longleftrightarrow>
     list_ex is_upload_id (concat (map (py_split (CHR '';'')) (py_split (CHR ''&'') query)))"

definition set_tracker_uri :: "string \<Rightarrow> (upload, unit) st" where
  "set_tracker_uri uri =
     (case urlparse uri of (scheme, netloc, path, query) \<Rightarrow>
        if (scheme \<noteq> ''http'' \<and> scheme \<noteq> ''https'') \<or> netloc = [] \<or> query = [] then raise InvalidUriError
        else if \<not> has_upload_id query then raise InvalidUriError
        else modify (\<lambda>u. u\<lparr>up_uri := Some uri, up_host := netloc, up_path := netloc @ ''/?'' @ query,
                           up_server_has_bytes := 0\<rparr>))"

definition load_tracker_uri :: "up_env \<Rightarrow> (upload, unit) st" where
  "load_tracker_uri E =
     try_except
       (andthen (act E ReadTracker)
         (bnd (gets up_disk) (\<lambda>d. case d of None \<Rightarrow> raise IOError
            | Some text \<Rightarrow> set_tracker_uri (py_strip (takeWhile (\<lambda>c. c \<noteq> nl) text)))))
       (\<lambda>e. e = IOError \<or> e = InvalidUriError) (\<lambda>_. ret ())"

definition upload_init :: "up_env \<Rightarrow> upload_args \<Rightarrow> string option \<Rightarrow> (upload, unit) st" where
  "upload_init E A disk =
     andthen (modify (\<lambda>_. \<lparr>up_log = [], up_disk = disk, up_uri = None, up_host = [], up_path = [],
                up_server_has_bytes = 0, up_start_point = None, up_idle = 0\<rparr>))
       (if ua_tracker A then load_tracker_uri E else ret ())"

definition save_tracker_uri :: "up_env \<Rightarrow> upload_args \<Rightarrow> (upload, unit) st" where
  "save_tracker_uri E A =
     (if \<not> ua_tracker A then ret ()
      else bnd (gets up_uri) (\<lambda>uri.
           try_except (andthen (act E (WriteTracker (the uri))) (modify (\<lambda>u. u\<lparr>up_disk := uri\<rparr>)))
             (\<lambda>e. e = IOError) (\<lambda>_. raise (TransferError ABORT))))"

definition remove_tracker_file :: "up_env \<Rightarrow> upload_args \<Rightarrow> (upload, unit) st" where
  "remove_tracker_file E A =
     bnd (gets up_disk) (\<lambda>d.
     if ua_tracker A \<and> d \<noteq> None
     then andthen (act E RemoveTracker) (modify (\<lambda>u. u\<lparr>up_disk := None\<rparr>)) else ret ())"


section \<open>Talking to the server\<close>

definition content_range :: "string \<Rightarrow> string \<Rightarrow> string" where
  "content_range range_spec length_spec = ''bytes '' @ range_spec @ ''/'' @ length_spec"

text \<open>\<open>re.search('bytes=(\d+)-(\d+)', s)\<close>: the first place where the pattern matches.\<close>

definition range_at :: "string \<Rightarrow> (int \<times> int) option" where
  "range_at s =
     (if py_startswith s ''bytes=''
      then (let r = drop 6 s; a = takeWhile is_digit r; r' = dropWhile is_digit r; b = takeWhile is_digit (drop 1 r')
            in if a \<noteq> [] \<and> r' \<noteq> [] \<and> hd r' = CHR ''-'' \<and> b \<noteq> []
               then Some (int (digits_val a), int (digits_val b)) else None)
      else None)"

fun search_range :: "string \<Rightarrow> (int \<times> int) option" where
  "search_range [] = None"
| "search_range (c # cs) = (case range_at (c # cs) of Some r \<Rightarrow> Some r | None \<Rightarrow> search_range cs)"

definition query_headers :: "upload_args \<Rightarrow> (string \<times> string) list" where
  "query_headers A =
     [(''Content-Range'', content_range ''*'' (int_str (up_length A))), (''Content-Length'', ''0'')]"

definition query_server_state :: "up_env \<Rightarrow> upload_args \<Rightarrow> (upload, int \<times> int) st" where
  "query_server_state E A =
     bnd (gets (\<lambda>u. QueryState (up_host u) (up_path u) (query_headers A))) (\<lambda>e.
     bnd (up_do E e) (\<lambda>resp.
     if ur_status resp = 200 then ret (0, up_length A)
     else if ur_status resp \<noteq> 308 then raise (TransferError START_OVER)
     else (case ur_range resp of
             None \<Rightarrow> ret SERVER_HAS_NOTHING
           | Some spec \<Rightarrow>
               if spec = [] then ret SERVER_HAS_NOTHING
               else (case search_range spec of None \<Rightarrow> raise (TransferError START_OVER) | Some r \<Rightarrow> ret r))))"

definition start_new_resumable_upload :: "up_env \<Rightarrow> upload_args \<Rightarrow> (upload, unit) st" where
  "start_new_resumable_upload E A =
     andthen (modify (\<lambda>u. u\<lparr>up_server_has_bytes := 0\<rparr>))
    (if list_ex (\<lambda>(k, v). py_lower k = ''content-length'') (ua_headers A) then raise (TransferError ABORT)
     else bnd (up_do E (StartUpload (dset (ua_resumable_header A) ''start'' (ua_headers A)))) (\<lambda>resp.
          if ur_status resp \<noteq> 201 then raise (TransferError WAIT_BEFORE_RETRY)
          else (case ur_location resp of
                  None \<Rightarrow> raise (TransferError WAIT_BEFORE_RETRY)
                | Some uri \<Rightarrow>
                    if uri = [] then raise (TransferError WAIT_BEFORE_RETRY)
                    else andthen (set_tracker_uri uri) (save_tracker_uri E A))))"

text \<open>Every \<open>cb_count\<close>-th piece is reported to the callback, every piece when it is -1.\<close>

definition callback_count :: "upload_args \<Rightarrow> int" where
  "callback_count A =
     (if ua_num_cb A > 2 then up_length A div int BUFFER_SIZE div (ua_num_cb A - 2)
      else if ua_num_cb A < 0 then -1 else 0)"

fun send_pieces :: "up_env \<Rightarrow> upload_args \<Rightarrow> string list \<Rightarrow> int \<Rightarrow> int \<Rightarrow> (upload, int) st" where
  "send_pieces E A [] uploaded i = ret uploaded"
| "send_pieces E A (buf # bufs) uploaded i =
     andthen (act E (SendBytes buf))
       (let uploaded' = uploaded + int (length buf) in
        if ua_cb A
        then if i + 1 = callback_count A \<or> callback_count A = -1
             then andthen (act E (Progress uploaded' (up_length A))) (send_pieces E A bufs uploaded' 0)
             else send_pieces E A bufs uploaded' (i + 1)
        else send_pieces E A bufs uploaded' i)"

definition report_progress :: "up_env \<Rightarrow> upload_args \<Rightarrow> int \<Rightarrow> (upload, unit) st" where
  "report_progress E A uploaded = (if ua_cb A then act E (Progress uploaded (up_length A)) else ret ())"

definition put_headers :: "upload_args \<Rightarrow> int \<Rightarrow> (string \<times> string) list" where
  "put_headers A uploaded =
     (if ua_file A \<noteq> [] then [(''Content-Range'', content_range (int_str uploaded @ ''-'' @ int_str (up_length A - 1))
                                 (int_str (up_length A)))] else [])
     @ [(''Content-Length'', int_str (up_length A - uploaded))]"

definition put_outcome :: "up_reply \<Rightarrow> (upload, string option) st" where
  "put_outcome resp =
     (if ur_status resp = 200 then ret (ur_etag resp)
      else if ur_status resp = 503 then raise (TransferError WAIT_BEFORE_RETRY)
      else raise (TransferError ABORT))"

definition upload_file_bytes :: "up_env \<Rightarrow> upload_args \<Rightarrow> int \<Rightarrow> (upload, string option) st" where
  "upload_file_bytes E A uploaded =
     andthen (report_progress E A uploaded)
    (bnd (gets up_path) (\<lambda>path.
     andthen (act E (PutRequest path (put_headers A uploaded)))
    (bnd (send_pieces E A (pieces BUFFER_SIZE (drop (nat uploaded) (ua_file A))) uploaded 0) (\<lambda>uploaded'.
     andthen (report_progress E A uploaded')
    (if uploaded' \<noteq> up_length A then raise (TransferError ABORT)
     else bnd (up_do E PutResponse) put_outcome)))))"


section \<open>Attempts and retries\<close>

text \<open>\<open>finally: http_conn.close()\<close>.\<close>

definition close_after :: "up_env \<Rightarrow> (upload, 'a) st \<Rightarrow> (upload, 'a) st" where
  "close_after E m u =
     (case m u of (r, u') \<Rightarrow>
        (case act E CloseConnection u' of (Inl e, u'') \<Rightarrow> (Inl e, u'') | (Inr _, u'') \<Rightarrow> (r, u'')))"

fun is_transfer_error :: "py_exc \<Rightarrow> bool" where
  "is_transfer_error (TransferError _) = True"
| "is_transfer_error _ = False"

text \<open>
  Resume or start: what the server has, as (first, last) byte. The code keeps the first of them as
  \<open>server_has_bytes\<close>.
\<close>

definition resume_or_start :: "up_env \<Rightarrow> upload_args \<Rightarrow> (upload, int \<times> int) st" where
  "resume_or_start E A =
     bnd (gets up_uri) (\<lambda>uri.
     if uri = None \<or> uri = Some [] then andthen (start_new_resumable_upload E A) (ret SERVER_HAS_NOTHING)
     else try_except
       (bnd (query_server_state E A) (\<lambda>(server_start, server_end).
        andthen (modify (\<lambda>u. u\<lparr>up_server_has_bytes := server_start\<rparr>)) (ret (server_start, server_end))))
       is_transfer_error
       (\<lambda>_. andthen (start_new_resumable_upload E A) (ret SERVER_HAS_NOTHING)))"

definition attempt_resumable_upload :: "up_env \<Rightarrow> upload_args \<Rightarrow> (upload, string option) st" where
  "attempt_resumable_upload E A =
     bnd (resume_or_start E A) (\<lambda>(server_start, server_end).
     andthen (modify (\<lambda>u. if up_start_point u = None then u\<lparr>up_start_point := Some server_end\<rparr> else u))
    (if server_end = up_length A then ret None
     else bnd (gets up_host) (\<lambda>host.
          andthen (act E (NewConnection host))
            (close_after E (upload_file_bytes E A (server_end + 1))))))"

definition check_upload_md5 :: "up_env \<Rightarrow> upload_args \<Rightarrow> string option \<Rightarrow> (upload, unit) st" where
  "check_upload_md5 E A etag =
     (case etag of
        None \<Rightarrow> raise (AttributeError ''strip'')
      | Some t \<Rightarrow>
          if ua_md5 A \<noteq> strip_quotes t
          then andthen (act E ReadKey) (andthen (act E DeleteKey) (raise (TransferError ABORT)))
          else ret ())"

definition upload_once :: "up_env \<Rightarrow> upload_args \<Rightarrow> (upload, bool) st" where
  "upload_once E A =
     try_except
       (bnd (attempt_resumable_upload E A) (\<lambda>etag.
        andthen (remove_tracker_file E A) (andthen (check_upload_md5 E A etag) (ret True))))
       tried_again (\<lambda>_. ret False)"

definition upload_failed :: "upload_args \<Rightarrow> int \<Rightarrow> (upload, unit option) st" where
  "upload_failed A before =
     andthen (modify (\<lambda>u. u\<lparr>up_idle := (if up_server_has_bytes u > before then 0 else up_idle u + 1)\<rparr>))
    (bnd (gets up_idle) (\<lambda>idle.
     if idle > ua_num_retries A then raise (TransferError ABORT)
     else andthen (modify (\<lambda>u. u\<lparr>up_log := up_log u @ [Wait (2 ^ nat idle)]\<rparr>)) (ret None)))"

definition send_round :: "up_env \<Rightarrow> upload_args \<Rightarrow> (upload, unit option) st" where
  "send_round E A =
     bnd (gets up_server_has_bytes) (\<lambda>before.
     bnd (upload_once E A) (\<lambda>finished.
     if finished then ret (Some ()) else upload_failed A before))"

definition upload_send_file :: "nat \<Rightarrow> up_env \<Rightarrow> upload_args \<Rightarrow> (upload, unit) st" where
  "upload_send_file rounds E A =
     andthen (modify (\<lambda>u. u\<lparr>up_idle := 0\<rparr>)) (loop_st rounds (send_round E A))"

end
