(* ===== verification/BotoUploadFacts.thy ===== *)
theory BotoUploadFacts
  imports BotoUpload
begin

text \<open>
  What resumable uploads guarantee: a return means that the server confirmed the rest of the file from
  the place it had asked for; the number of attempts is bounded whatever arrives; and an upload that
  was already complete cannot be resumed.
\<close>


section \<open>One attempt that succeeds\<close>

fun sent :: "up_event list \<Rightarrow> string" where
  "sent [] = []"
| "sent (SendBytes b # evs) = b @ sent evs"
| "sent (e # evs) = sent evs"

lemma sent_append [simp]: "sent (xs @ ys) = sent xs @ sent ys"
  by (induction xs rule: sent.induct) simp_all

lemma act_Inr: "act E e u = (Inr (), u') \<Longrightarrow> u' = u\<lparr>up_log := up_log u @ [e]\<rparr>"
  by (auto simp: act_def up_do_def andthen_def bnd_def ret_def split: sum.splits)

lemma send_pieces_run:
  "send_pieces E A bufs k i u = (Inr k', u') \<Longrightarrow>
   \<exists>evs. u' = u\<lparr>up_log := up_log u @ evs\<rparr> \<and> sent evs = concat bufs \<and> k' = k + int (length (concat bufs))"
proof (induction bufs arbitrary: k i u)
  case Nil
  then show ?case by (intro exI [of _ "[]"]) (simp add: ret_def)
next
  case (Cons b bufs)
  let ?k = "k + int (length b)"
  obtain j pre where rest: "send_pieces E A bufs ?k j (u\<lparr>up_log := up_log u @ SendBytes b # pre\<rparr>) = (Inr k', u')" "sent pre = []"
    using Cons.prems
    by (auto simp: Let_def elim!: andthen_InrE dest!: act_Inr split: if_splits
        intro: that [of _ "[Progress ?k (up_length A)]"] that [of _ "[]"])
  from Cons.IH [OF rest(1)] obtain evs where "u' = u\<lparr>up_log := up_log u @ SendBytes b # pre @ evs\<rparr>"
      "sent evs = concat bufs" "k' = ?k + int (length (concat bufs))" by auto
  with rest(2) show ?case by (intro exI [of _ "SendBytes b # pre @ evs"]) simp
qed

lemma report_progress_run: "report_progress E A k u = (Inr (), u') \<Longrightarrow> \<exists>evs. u' = u\<lparr>up_log := up_log u @ evs\<rparr> \<and> sent evs = []"
  by (auto simp: report_progress_def ret_def dest!: act_Inr split: if_splits intro: exI [of _ "[]"])

lemma upload_file_bytes_run:
  assumes "upload_file_bytes E A k u = (Inr etag, u')" and "0 \<le> k"
  shows "\<exists>pre path evs resp. u' = u\<lparr>up_log := up_log u @ pre @ PutRequest path (put_headers A k) # evs @ [PutResponse]\<rparr>
    \<and> sent evs = drop (nat k) (ua_file A) \<and> k \<le> up_length A
    \<and> E (up_log u') = Inr resp \<and> ur_status resp = 200 \<and> ur_etag resp = etag"
proof -
  let ?bufs = "pieces BUFFER_SIZE (drop (nat k) (ua_file A))"
  from assms(1) obtain u1 u2 u3 u4 k' where 1: "report_progress E A k u = (Inr (), u1)"
    and 2: "act E (PutRequest (up_path u1) (put_headers A k)) u1 = (Inr (), u2)"
    and 3: "send_pieces E A ?bufs k 0 u2 = (Inr k', u3)"
    and 4: "report_progress E A k' u3 = (Inr (), u4)"
    and 5: "(if k' \<noteq> up_length A then raise (TransferError ABORT) else bnd (up_do E PutResponse) put_outcome) u4 = (Inr etag, u')"
    by (auto simp: upload_file_bytes_def elim!: andthen_InrE bnd_InrE)
  obtain pre where pre: "u1 = u\<lparr>up_log := up_log u @ pre\<rparr>" using report_progress_run [OF 1] by blast
  have u2: "u2 = u1\<lparr>up_log := up_log u1 @ [PutRequest (up_path u1) (put_headers A k)]\<rparr>" using act_Inr [OF 2] .
  have "concat ?bufs = drop (nat k) (ua_file A)" by (simp add: concat_pieces BUFFER_SIZE_def)
  with send_pieces_run [OF 3] obtain evs where evs: "u3 = u2\<lparr>up_log := up_log u2 @ evs\<rparr>" "sent evs = drop (nat k) (ua_file A)"
      "k' = k + int (length (drop (nat k) (ua_file A)))" by auto
  obtain post where post: "u4 = u3\<lparr>up_log := up_log u3 @ post\<rparr>" "sent post = []" using report_progress_run [OF 4] by blast
  from 5 obtain resp where resp: "k' = up_length A" "u' = u4\<lparr>up_log := up_log u4 @ [PutResponse]\<rparr>"
      "E (up_log u') = Inr resp" "put_outcome resp u' = (Inr etag, u')"
    by (auto simp: up_do_def bnd_def put_outcome_def raise_def ret_def split: if_splits sum.splits)
  then have "ur_status resp = 200" "ur_etag resp = etag"
    by (auto simp: put_outcome_def ret_def raise_def split: if_splits)
  moreover have "k \<le> up_length A"
    using evs(3) resp(1) assms(2) by (cases "nat k \<le> length (ua_file A)") (auto simp: up_length_def)
  moreover have "u' = u\<lparr>up_log := up_log u @ pre @ PutRequest (up_path u1) (put_headers A k) # (evs @ post) @ [PutResponse]\<rparr>"
    using pre u2 evs(1) post(1) resp(2) by simp
  ultimately show ?thesis using evs(2) post(2) resp(3)
    by (intro exI [of _ pre] exI [of _ "up_path u1"] exI [of _ "evs @ post"] exI [of _ resp]) simp
qed

text \<open>The log tells that the server reported \<open>e\<close> as the last byte that it has.\<close>

definition server_reported :: "up_env \<Rightarrow> up_event list \<Rightarrow> int \<Rightarrow> bool" where
  "server_reported E evs e \<longleftrightarrow>
     (\<exists>pre post host path hs resp spec a. evs = pre @ QueryState host path hs # post
        \<and> E (pre @ [QueryState host path hs]) = Inr resp \<and> ur_status resp = 308
        \<and> ur_range resp = Some spec \<and> search_range spec = Some (a, e))"

lemma server_reported_append: "server_reported E evs e \<Longrightarrow> server_reported E (evs @ later) e"
  unfolding server_reported_def by (metis append.assoc append_Cons)

lemma range_at_nonneg: "range_at s = Some (a, b) \<Longrightarrow> 0 \<le> a \<and> 0 \<le> b"
  by (auto simp: range_at_def Let_def split: if_splits)

lemma search_range_nonneg: "search_range s = Some (a, b) \<Longrightarrow> 0 \<le> a \<and> 0 \<le> b"
  by (induction s) (auto split: option.splits dest: range_at_nonneg)

lemma query_server_state_run:
  assumes "query_server_state E A u = (Inr (a, e), u')"
  shows "e = up_length A \<or> e = -1 \<or> 0 \<le> e \<and> server_reported E (up_log u') e"
proof -
  let ?q = "QueryState (up_host u) (up_path u) (query_headers A)"
  obtain resp where resp: "E (up_log u @ [?q]) = Inr resp" "up_log u' = up_log u @ [?q]"
    and cases: "ur_status resp = 200 \<and> e = up_length A \<or> (a, e) = SERVER_HAS_NOTHING
      \<or> ur_status resp = 308 \<and> (\<exists>spec. ur_range resp = Some spec \<and> search_range spec = Some (a, e))"
    using assms by (auto simp: query_server_state_def up_do_def ret_def raise_def bnd_def
        split: sum.splits if_splits option.splits)
  from cases show ?thesis
  proof (elim disjE)
    assume "ur_status resp = 308 \<and> (\<exists>spec. ur_range resp = Some spec \<and> search_range spec = Some (a, e))"
    with resp show ?thesis using search_range_nonneg unfolding server_reported_def by fastforce
  qed (auto simp: SERVER_HAS_NOTHING_def)
qed

lemma resume_or_start_run:
  assumes "resume_or_start E A u = (Inr (a, e), u')"
  shows "e = up_length A \<or> e = -1 \<or> 0 \<le> e \<and> server_reported E (up_log u') e"
proof -
  have fresh: "e = -1" if "andthen (start_new_resumable_upload E A) (ret SERVER_HAS_NOTHING) w = (Inr (a, e), u')" for w
    using that by (auto simp: SERVER_HAS_NOTHING_def ret_def elim!: andthen_InrE)
  consider (start) w where "andthen (start_new_resumable_upload E A) (ret SERVER_HAS_NOTHING) w = (Inr (a, e), u')"
    | (resume) v where "query_server_state E A u = (Inr (a, e), v)" "up_log u' = up_log v"
    using assms by (auto simp: resume_or_start_def try_except_def ret_def bnd_def andthen_def
        split: if_splits prod.splits sum.splits)
  then show ?thesis
  proof cases
    case start
    with fresh show ?thesis by blast
  next
    case resume
    then show ?thesis using query_server_state_run [OF resume(1)] by simp
  qed
qed

lemma attempt_run:
  assumes "attempt_resumable_upload E A u = (Inr (Some t), u')"
  shows "\<exists>before path k evs resp. up_log u' = before @ PutRequest path (put_headers A k) # evs @ [PutResponse, CloseConnection]
    \<and> sent evs = drop (nat k) (ua_file A) \<and> 0 \<le> k \<and> k \<le> up_length A \<and> (k = 0 \<or> server_reported E before (k - 1))
    \<and> E (before @ PutRequest path (put_headers A k) # evs @ [PutResponse]) = Inr resp
    \<and> ur_status resp = 200 \<and> ur_etag resp = Some t"
proof -
  let ?mark = "\<lambda>e u. if up_start_point u = None then u\<lparr>up_start_point := Some e\<rparr> else u"
  from assms obtain a e u1 host u3 where 1: "resume_or_start E A u = (Inr (a, e), u1)"
    and e: "e \<noteq> up_length A" and 2: "act E (NewConnection host) (?mark e u1) = (Inr (), u3)"
    and 3: "close_after E (upload_file_bytes E A (e + 1)) u3 = (Inr (Some t), u')"
    by (auto simp: attempt_resumable_upload_def ret_def elim!: bnd_InrE andthen_InrE split: if_splits)
  have u3: "up_log u3 = up_log u1 @ [NewConnection host]" using act_Inr [OF 2] by simp
  from 3 obtain u4 where 4: "upload_file_bytes E A (e + 1) u3 = (Inr (Some t), u4)" "act E CloseConnection u4 = (Inr (), u')"
    by (auto simp: close_after_def split: prod.splits sum.splits)
  have from_: "e = -1 \<or> 0 \<le> e \<and> server_reported E (up_log u1) e" using resume_or_start_run [OF 1] e by blast
  then have "0 \<le> e + 1" by auto
  from upload_file_bytes_run [OF 4(1) this] obtain pre path evs resp where
    4: "u4 = u3\<lparr>up_log := up_log u3 @ pre @ PutRequest path (put_headers A (e + 1)) # evs @ [PutResponse]\<rparr>"
      "sent evs = drop (nat (e + 1)) (ua_file A)" "e + 1 \<le> up_length A"
      "E (up_log u4) = Inr resp" "ur_status resp = 200" "ur_etag resp = Some t" and "act E CloseConnection u4 = (Inr (), u')"
    using 4(2) by blast
  let ?before = "up_log u1 @ [NewConnection host] @ pre"
  have "up_log u4 = ?before @ PutRequest path (put_headers A (e + 1)) # evs @ [PutResponse]" using 4(1) u3 by simp
  moreover from this have "up_log u' = ?before @ PutRequest path (put_headers A (e + 1)) # evs @ [PutResponse, CloseConnection]"
    using act_Inr [OF \<open>act E CloseConnection u4 = _\<close>] by simp
  moreover have "e + 1 = 0 \<or> server_reported E ?before (e + 1 - 1)"
    using from_ server_reported_append [of E "up_log u1" e "[NewConnection host] @ pre"] by auto
  ultimately show ?thesis using 4(2-6) \<open>0 \<le> e + 1\<close>
    by (intro exI [of _ ?before] exI [of _ path] exI [of _ "e + 1"] exI [of _ evs] exI [of _ resp]) simp
qed

lemma send_round_finishes:
  assumes "send_round E A u = (Inr (Some ()), u')"
  shows "\<exists>t v. attempt_resumable_upload E A u = (Inr (Some t), v) \<and> remove_tracker_file E A v = (Inr (), u')
    \<and> strip_quotes t = ua_md5 A"
proof -
  from assms have "upload_once E A u = (Inr True, u')"
    by (auto simp: send_round_def upload_failed_def ret_def raise_def elim!: bnd_InrE andthen_InrE split: if_splits)
  then have "bnd (attempt_resumable_upload E A) (\<lambda>etag.
      andthen (remove_tracker_file E A) (andthen (check_upload_md5 E A etag) (ret True))) u = (Inr True, u')"
    by (auto simp: upload_once_def try_except_def ret_def split: prod.splits sum.splits if_splits)
  then show ?thesis
    by (auto simp: check_upload_md5_def ret_def raise_def elim!: bnd_InrE andthen_InrE split: option.splits if_splits)
qed

lemma remove_tracker_file_run:
  assumes "remove_tracker_file E A u = (Inr (), u')"
  shows "(up_log u' = up_log u \<or> up_log u' = up_log u @ [RemoveTracker]) \<and> (ua_tracker A \<longrightarrow> up_disk u' = None)"
  using assms by (auto simp: remove_tracker_file_def ret_def elim!: andthen_InrE dest!: act_Inr split: if_splits)

text \<open>
  C25: a finished upload is a whole one. When sending a file returns, the last request put the bytes of
  the file from some place on: the beginning, or the byte after the last one that the server had
  reported before. It carried all of them up to the end, announced as such, the server accepted
  them with a tag that is the checksum of the file, and the tracker file is gone.
\<close>

theorem upload_returns_checked:
  assumes "upload_send_file rounds E A u = (Inr (), u')"
  shows "\<exists>before path k evs resp t rest. up_log u' = before @ PutRequest path (put_headers A k) # evs @ PutResponse # CloseConnection # rest
    \<and> sent evs = drop (nat k) (ua_file A) \<and> 0 \<le> k \<and> k \<le> up_length A \<and> (k = 0 \<or> server_reported E before (k - 1))
    \<and> E (before @ PutRequest path (put_headers A k) # evs @ [PutResponse]) = Inr resp \<and> ur_status resp = 200
    \<and> ur_etag resp = Some t \<and> strip_quotes t = ua_md5 A \<and> set rest \<subseteq> {RemoveTracker}
    \<and> (ua_tracker A \<longrightarrow> up_disk u' = None)"
proof -
  from assms have loop: "loop_st rounds (send_round E A) (u\<lparr>up_idle := 0\<rparr>) = (Inr (), u')"
    by (simp add: upload_send_file_def)
  obtain s where "send_round E A s = (Inr (Some ()), u')"
    using loop_st_last_round [where P = "\<lambda>_. True", OF _ _ loop] by auto
  from send_round_finishes [OF this] obtain t v where v: "attempt_resumable_upload E A s = (Inr (Some t), v)"
      "remove_tracker_file E A v = (Inr (), u')" "strip_quotes t = ua_md5 A" by blast
  obtain rest where "up_log u' = up_log v @ rest" "set rest \<subseteq> {RemoveTracker}"
    using remove_tracker_file_run [OF v(2)] by (metis append_Nil2 empty_iff empty_set list.simps(15) order_refl subsetI)
  with attempt_run [OF v(1)] remove_tracker_file_run [OF v(2)] v(3) show ?thesis by fastforce
qed


section \<open>The number of attempts\<close>

fun waits :: "up_event list \<Rightarrow> nat list" where
  "waits [] = []"
| "waits (Wait n # evs) = n # waits evs"
| "waits (e # evs) = waits evs"

lemma waits_append [simp]: "waits (xs @ ys) = waits xs @ waits ys"
  by (induction xs rule: waits.induct) simp_all

text \<open>What the server is taken to do: ranges begin at 0, and no answer stands for a cut-off loop.\<close>

definition starts_at_zero :: "up_env \<Rightarrow> bool" where
  "starts_at_zero E \<longleftrightarrow> (\<forall>h. E h \<noteq> Inl StillRunning) \<and>
     (\<forall>h resp spec a e. E h = Inr resp \<longrightarrow> ur_range resp = Some spec \<longrightarrow> search_range spec = Some (a, e) \<longrightarrow> a = 0)"

definition steady :: "int \<Rightarrow> nat list \<Rightarrow> upload \<Rightarrow> bool" where
  "steady i ws u \<longleftrightarrow> up_server_has_bytes u = 0 \<and> up_idle u = i \<and> waits (up_log u) = ws"

named_theorems steady_rules \<open>what keeps the count of attempts\<close>

lemma keeps_up_do [steady_rules]: "waits [e] = [] \<Longrightarrow> keeps (steady i ws) (up_do E e)"
  by (auto simp: keeps_def hoare_def up_do_def steady_def)

lemma keeps_act [steady_rules]: "waits [e] = [] \<Longrightarrow> keeps (steady i ws) (act E e)"
  unfolding act_def by (intro hoare_rules steady_rules)

lemma keeps_set_tracker [steady_rules]: "keeps (steady i ws) (set_tracker_uri uri)"
  by (auto simp: set_tracker_uri_def steady_def split: prod.splits intro!: hoare_rules)

lemma keeps_save_tracker [steady_rules]: "keeps (steady i ws) (save_tracker_uri E A)"
  unfolding save_tracker_uri_def by (intro hoare_rules steady_rules) (auto simp: steady_def)

lemma keeps_start_new [steady_rules]: "keeps (steady i ws) (start_new_resumable_upload E A)"
  unfolding start_new_resumable_upload_def by (intro hoare_rules steady_rules) (auto simp: steady_def)

lemma keeps_query [steady_rules]: "keeps (steady i ws) (query_server_state E A)"
  by (rule keepsI) (auto simp: query_server_state_def up_do_def steady_def bnd_def ret_def raise_def
      split: sum.splits if_splits option.splits)

lemma query_zero:
  assumes "starts_at_zero E" and "query_server_state E A u = (Inr (a, e), u')" shows "a = 0"
  using assms by (fastforce simp: query_server_state_def up_do_def bnd_def ret_def raise_def SERVER_HAS_NOTHING_def
      starts_at_zero_def split: sum.splits if_splits option.splits)

lemma keeps_bnd_result:
  assumes "keeps I m" and "\<And>s x s'. m s = (Inr x, s') \<Longrightarrow> P x" and "\<And>x. P x \<Longrightarrow> keeps I (f x)"
  shows "keeps I (bnd m f)"
proof (rule keepsI)
  fix s r t assume I: "I s" and run: "bnd m f s = (r, t)"
  obtain q s' where m: "m s = (q, s')" by fastforce
  with keepsD [OF assms(1) I] have s': "I s'" by blast
  show "I t"
  proof (cases q)
    case (Inl e)
    with m run s' show ?thesis by (simp add: bnd_def)
  next
    case (Inr x)
    with m assms(2) have "P x" by blast
    from keepsD [OF assms(3) [OF this] s'] m Inr run show ?thesis by (simp add: bnd_def)
  qed
qed

lemma keeps_resume:
  assumes "starts_at_zero E" shows "keeps (steady i ws) (resume_or_start E A)"
proof -
  have q: "keeps (steady i ws) (bnd (query_server_state E A) (\<lambda>(a, e).
      andthen (modify (\<lambda>u. u\<lparr>up_server_has_bytes := a\<rparr>)) (ret (a, e))))"
    by (rule keeps_bnd_result [where P = "\<lambda>x. fst x = 0"])
      (auto simp: steady_def dest: query_zero [OF assms] intro!: hoare_rules keeps_query)
  show ?thesis unfolding resume_or_start_def by (intro hoare_rules steady_rules q)
qed

lemma keeps_report [steady_rules]: "keeps (steady i ws) (report_progress E A k)"
  unfolding report_progress_def by (intro hoare_rules steady_rules) simp

lemma keeps_send_pieces [steady_rules]: "keeps (steady i ws) (send_pieces E A bufs k j)"
proof (induction bufs arbitrary: k j)
  case (Cons b bufs)
  then show ?case by (simp add: Let_def) (intro conjI impI hoare_rules steady_rules Cons.IH; simp)
qed (simp add: hoare_rules)

lemma keeps_upload_bytes [steady_rules]: "keeps (steady i ws) (upload_file_bytes E A k)"
proof -
  have put: "keeps (steady i ws) (put_outcome resp)" for resp
    unfolding put_outcome_def by (intro hoare_rules)
  show ?thesis unfolding upload_file_bytes_def by (intro hoare_rules steady_rules put) simp_all
qed

lemma keeps_close_after:
  assumes "keeps (steady i ws) m" shows "keeps (steady i ws) (close_after E m)"
proof (rule keepsI)
  fix u r u' assume u: "steady i ws u" and run: "close_after E m u = (r, u')"
  obtain q v where v: "m u = (q, v)" by fastforce
  have "steady i ws (snd (act E CloseConnection v))"
    using keepsD [OF assms u v] keeps_act [of CloseConnection i ws E] by (auto simp: keeps_def hoare_def)
  with run v show "steady i ws u'" by (auto simp: close_after_def split: prod.splits sum.splits)
qed

lemma keeps_attempt: "starts_at_zero E \<Longrightarrow> keeps (steady i ws) (attempt_resumable_upload E A)"
  unfolding attempt_resumable_upload_def
  by (intro hoare_rules keeps_resume)
    (auto simp: steady_def split: prod.splits intro!: hoare_rules keeps_act keeps_close_after keeps_upload_bytes)

lemma keeps_remove [steady_rules]: "keeps (steady i ws) (remove_tracker_file E A)"
  unfolding remove_tracker_file_def by (intro hoare_rules steady_rules) (auto simp: steady_def)

lemma keeps_check [steady_rules]: "keeps (steady i ws) (check_upload_md5 E A etag)"
  unfolding check_upload_md5_def by (intro hoare_rules steady_rules) simp_all

definition calm_env :: "up_env \<Rightarrow> bool" where
  "calm_env E \<longleftrightarrow> (\<forall>h. E h \<noteq> Inl StillRunning)"

lemma settles_up_do: "calm_env E \<Longrightarrow> settles (up_do E e)"
  by (simp add: settles_def up_do_def calm_env_def)

lemma settles_act: "calm_env E \<Longrightarrow> settles (act E e)"
  unfolding act_def by (intro settle_rules settles_up_do)

lemma settles_set_tracker: "settles (set_tracker_uri uri)"
  by (auto simp: set_tracker_uri_def split: prod.splits intro!: settle_rules)

lemma settles_start_new: "calm_env E \<Longrightarrow> settles (start_new_resumable_upload E A)"
  unfolding start_new_resumable_upload_def save_tracker_uri_def
  by (intro settle_rules settles_up_do settles_act settles_set_tracker) simp_all

lemma settles_query: "calm_env E \<Longrightarrow> settles (query_server_state E A)"
  unfolding query_server_state_def by (intro settle_rules settles_up_do) simp_all

lemma settles_resume: "calm_env E \<Longrightarrow> settles (resume_or_start E A)"
  unfolding resume_or_start_def
  by (intro settle_rules settles_start_new settles_query) (auto intro!: settle_rules)

lemma settles_send_pieces: "calm_env E \<Longrightarrow> settles (send_pieces E A bufs k j)"
  by (induction bufs arbitrary: k j) (auto simp: Let_def intro!: settle_rules settles_act)

lemma settles_upload_bytes: "calm_env E \<Longrightarrow> settles (upload_file_bytes E A k)"
  unfolding upload_file_bytes_def report_progress_def put_outcome_def
  by (intro settle_rules settles_up_do settles_act settles_send_pieces) simp_all

lemma settles_close_after: "calm_env E \<Longrightarrow> settles m \<Longrightarrow> settles (close_after E m)"
  using settles_act [of E CloseConnection] by (auto simp: settles_def close_after_def split: prod.splits sum.splits) (metis fst_conv)+

lemma settles_attempt: "calm_env E \<Longrightarrow> settles (attempt_resumable_upload E A)"
  unfolding attempt_resumable_upload_def
  by (intro settle_rules settles_resume)
    (auto split: prod.splits intro!: settle_rules settles_act settles_close_after settles_upload_bytes)

lemma settles_send_round: "calm_env E \<Longrightarrow> settles (send_round E A)"
  unfolding send_round_def upload_once_def upload_failed_def remove_tracker_file_def check_upload_md5_def
  by (intro settle_rules settles_act settles_attempt) simp_all

text \<open>A round either ends the loop, without a pause, or counts one more attempt and pauses.\<close>

lemma send_round_counts:
  assumes zero: "starts_at_zero E" and u: "steady i ws u" and run: "send_round E A u = (r, u')"
  shows "r = Inr None \<and> i + 1 \<le> ua_num_retries A \<and> steady (i + 1) (ws @ [2 ^ nat (i + 1)]) u'
    \<or> r \<noteq> Inr None \<and> waits (up_log u') = ws"
proof -
  have "keeps (steady i ws) (upload_once E A)"
    unfolding upload_once_def by (intro hoare_rules steady_rules keeps_attempt zero)
  note kept = this
  obtain q v where v: "upload_once E A u = (q, v)" by fastforce
  have steady_v: "steady i ws v" by (rule keepsD [OF kept u v])
  show ?thesis
  proof (cases "q = Inr False")
    case True
    have "r = fst (upload_failed A 0 v)" "u' = snd (upload_failed A 0 v)"
      using run v True u by (simp_all add: send_round_def bnd_def steady_def)
    with steady_v show ?thesis
      by (auto simp: upload_failed_def andthen_def bnd_def ret_def raise_def steady_def)
  next
    case False
    then have "r \<noteq> Inr None \<and> u' = v"
      using run v by (cases q) (auto simp: send_round_def bnd_def ret_def)
    with steady_v show ?thesis by (simp add: steady_def)
  qed
qed

definition upload_retries :: "upload_args \<Rightarrow> nat" where
  "upload_retries A = nat (ua_num_retries A)"

interpretation upload_loop: progress_loop "send_round E A"
    "\<lambda>u. starts_at_zero E \<and> 0 \<le> up_idle u \<and> up_server_has_bytes u = 0" "\<lambda>_. 0" "\<lambda>u. nat (up_idle u)" 0 "upload_retries A"
  for E A
proof
  fix u u' :: upload assume inv: "starts_at_zero E \<and> 0 \<le> up_idle u \<and> up_server_has_bytes u = 0"
    and run: "send_round E A u = (Inr None, u')"
  from inv have "steady (up_idle u) (waits (up_log u)) u" by (simp add: steady_def)
  from send_round_counts [OF _ this run] inv
  show "(starts_at_zero E \<and> 0 \<le> up_idle u' \<and> up_server_has_bytes u' = 0) \<and> nat (up_idle u') \<le> upload_retries A
      \<and> (0 < (0::nat) \<or> 0 \<le> (0::nat) \<and> nat (up_idle u') = Suc (nat (up_idle u)))"
    by (auto simp: steady_def upload_retries_def)
next
  fix u :: upload assume "starts_at_zero E \<and> 0 \<le> up_idle u \<and> up_server_has_bytes u = 0"
  then show "fst (send_round E A u) \<noteq> Inl StillRunning"
    using settles_send_round [of E A] by (simp add: starts_at_zero_def settles_def calm_env_def)
qed simp


text \<open>
  An upload that the server has completed cannot be resumed. When the server answers the query with
  200, the attempt returns no tag, and checking it raises \<open>AttributeError\<close>: nothing is sent, but the
  tracker file is removed, so that the next try starts from scratch.
\<close>

theorem upload_completed_fails:
  assumes "up_uri u = Some uri" and "uri \<noteq> []" and "0 < rounds" and "\<And>h. E h = Inr resp" and "ur_status resp = 200"
  shows "\<exists>u' rest. upload_send_file rounds E A u = (Inl (AttributeError ''strip''), u')
    \<and> up_log u' = up_log u @ QueryState (up_host u) (up_path u) (query_headers A) # rest \<and> set rest \<subseteq> {RemoveTracker}
    \<and> (ua_tracker A \<longrightarrow> up_disk u' = None)"
proof -
  let ?q = "QueryState (up_host u) (up_path u) (query_headers A)"
  define v where "v = u\<lparr>up_idle := 0, up_log := up_log u @ [?q], up_server_has_bytes := 0,
      up_start_point := (if up_start_point u = None then Some (up_length A) else up_start_point u)\<rparr>"
  have try_: "attempt_resumable_upload E A (u\<lparr>up_idle := 0\<rparr>) = (Inr None, v)"
    using assms(1,2,4,5) by (simp add: attempt_resumable_upload_def resume_or_start_def query_server_state_def up_do_def
        st_defs v_def)
  define w where "w = (if ua_tracker A \<and> up_disk v \<noteq> None then v\<lparr>up_log := up_log v @ [RemoveTracker], up_disk := None\<rparr> else v)"
  have "remove_tracker_file E A v = (Inr (), w)"
    using assms(4) by (simp add: remove_tracker_file_def act_def up_do_def st_defs w_def)
  with try_ have "upload_once E A (u\<lparr>up_idle := 0\<rparr>) = (Inl (AttributeError ''strip''), w)"
    by (simp add: upload_once_def check_upload_md5_def st_defs)
  then have "send_round E A (u\<lparr>up_idle := 0\<rparr>) = (Inl (AttributeError ''strip''), w)"
    by (simp add: send_round_def bnd_def)
  moreover obtain k where "rounds = Suc k" using assms(3) by (cases rounds) auto
  ultimately have "upload_send_file rounds E A u = (Inl (AttributeError ''strip''), w)"
    by (simp add: upload_send_file_def bnd_def)
  moreover have "up_log w = up_log u @ ?q # (if ua_tracker A \<and> up_disk u \<noteq> None then [RemoveTracker] else [])"
      "ua_tracker A \<longrightarrow> up_disk w = None"
    by (auto simp: w_def v_def)
  ultimately show ?thesis by (intro exI [of _ w] exI [of _ "if ua_tracker A \<and> up_disk u \<noteq> None then [RemoveTracker] else []"]) auto
qed


section \<open>Examples\<close>

definition upload0 :: upload where
  "upload0 = \<lparr>up_log = [], up_disk = Some ''http://h/?upload_id=x'', up_uri = Some ''http://h/?upload_id=x'', up_host = ''h'',
     up_path = ''h/?upload_id=x'', up_server_has_bytes = 0, up_start_point = None, up_idle = 0\<rparr>"

definition args0 :: upload_args where
  "args0 = \<lparr>ua_tracker = True, ua_num_retries = 2, ua_file = ''data'', ua_headers = [], ua_md5 = ''m'', ua_cb = False, ua_num_cb = 10,
     ua_resumable_header = ''x-goog-resumable''\<rparr>"

definition has_two :: up_reply where
  "has_two = \<lparr>ur_status = 308, ur_range = Some ''bytes=0-1'', ur_location = None, ur_etag = None\<rparr>"

definition finished_put :: up_reply where
  "finished_put = \<lparr>ur_status = 200, ur_range = None, ur_location = None, ur_etag = Some [CHR 0x22, CHR ''m'', CHR 0x22]\<rparr>"

text \<open>A server that has two bytes and accepts the rest, and one that never gets further.\<close>

definition env_two :: up_env where
  "env_two evs = Inr (case last evs of QueryState _ _ _ \<Rightarrow> has_two | _ \<Rightarrow> finished_put)"

lemma two_range: "search_range ''bytes=0-1'' = Some (0, 1)"
  by code_simp

lemma upload_example: "\<exists>u'. upload_send_file 1 env_two args0 upload0 = (Inr (), u')"
proof -
  have piece: "pieces BUFFER_SIZE ''ta'' = [''ta'']"
    by (subst pieces.simps) (simp add: BUFFER_SIZE_def pieces.simps)
  have tag: "strip_quotes [CHR 0x22, CHR ''m'', CHR 0x22] = ''m''" by code_simp
  have args: "ua_file args0 = ''data''" "ua_cb args0 = False" "ua_md5 args0 = ''m''" "ua_tracker args0" "up_length args0 = 4"
    by (simp_all add: args0_def up_length_def)
  let ?u = "upload0\<lparr>up_idle := 0\<rparr>"
  have resume: "resume_or_start env_two args0 ?u
      = (Inr (0, 1), ?u\<lparr>up_log := [QueryState ''h'' ''h/?upload_id=x'' (query_headers args0)], up_server_has_bytes := 0\<rparr>)"
    by (simp add: resume_or_start_def query_server_state_def up_do_def st_defs env_two_def has_two_def two_range upload0_def del: search_range.simps)
  have put: "\<exists>w. upload_file_bytes env_two args0 2 v = (Inr (ur_etag finished_put), w) \<and> up_disk w = up_disk v" for v
    by (simp add: upload_file_bytes_def report_progress_def put_outcome_def act_def up_do_def st_defs env_two_def
        args piece finished_put_def)
  have close: "\<exists>w. close_after env_two (upload_file_bytes env_two args0 2) v = (Inr (ur_etag finished_put), w) \<and> up_disk w = up_disk v" for v
    using put [of v] by (auto simp: close_after_def act_def up_do_def st_defs env_two_def)
  have "\<exists>v. attempt_resumable_upload env_two args0 ?u = (Inr (ur_etag finished_put), v)"
    using close by (simp add: attempt_resumable_upload_def bnd_def andthen_def resume args act_def up_do_def env_two_def ret_def) blast
  then obtain v where v: "attempt_resumable_upload env_two args0 ?u = (Inr (ur_etag finished_put), v)" by blast
  have "\<exists>w. remove_tracker_file env_two args0 v = (Inr (), w)"
    by (simp add: remove_tracker_file_def act_def up_do_def st_defs env_two_def)
  then obtain w where w: "remove_tracker_file env_two args0 v = (Inr (), w)" by blast
  have "upload_once env_two args0 ?u = (Inr True, w)"
    using v w by (simp add: upload_once_def check_upload_md5_def st_defs finished_put_def tag args)
  then show ?thesis by (simp add: upload_send_file_def send_round_def bnd_def ret_def)
qed

theorem upload_returns_checked_witness:
  "\<exists>u' before path k evs rest. upload_send_file 1 env_two args0 upload0 = (Inr (), u')
     \<and> up_log u' = before @ PutRequest path (put_headers args0 k) # evs @ PutResponse # CloseConnection # rest
     \<and> sent evs = drop (nat k) ''data''"
proof -
  obtain u' where run: "upload_send_file 1 env_two args0 upload0 = (Inr (), u')" using upload_example by blast
  have "ua_file args0 = ''data''" by (simp add: args0_def)
  with upload_returns_checked [OF run] run show ?thesis by metis
qed


theorem upload_completed_fails_witness:
  "\<exists>u'. upload_send_file 5 (\<lambda>_. Inr finished_put) args0 upload0 = (Inl (AttributeError ''strip''), u') \<and> up_disk u' = None"
  using upload_completed_fails [of upload0 "''http://h/?upload_id=x''" 5 "\<lambda>_. Inr finished_put" finished_put args0]
  by (auto simp: upload0_def finished_put_def args0_def)

end
