(* ===== verification/BotoDownload.thy ===== *)
theory BotoDownload
  imports BotoTransfer
begin

text \<open>
  Resumable downloads: \<open>ResumableDownloadHandler\<close> of \<open>boto/s3/resumable_download_handler.py\<close> and the
  reading of a key by \<open>Key.get_file\<close> of \<open>boto/s3/key.py\<close>. The state is the handler, the key, the local
  file with its position, and the tracker file. A request is answered with a status, headers and a
  finite stream of pieces, which ends normally or with an exception (of the connection or of the
  disk). Debugging output and the texts of messages are left out.
\<close>


section \<open>State and events\<close>

record dl_reply =
  dr_status :: int
  dr_headers :: "(string \<times> string) list"
  dr_pieces :: "string list"
  dr_ending :: "py_exc option"

datatype dl_event =
    GetKey "(string, string) dict"
  | CloseKey
  | ReadTrackerFile
  | WriteTrackerFile string
  | RemoveTrackerFile
  | DeleteFile
  | Reported int int
  | Pausing nat

type_synonym dl_env = "dl_event list \<Rightarrow> py_exc + dl_reply"

record download_args =
  da_tracker :: bool
  da_append :: bool
  da_num_retries :: int
  da_headers :: "(string, string) dict"
  da_cb :: bool
  da_num_cb :: int
  da_md5 :: "string \<Rightarrow> string"

record download =
  dl_log :: "dl_event list"
  dl_file :: string
  dl_pos :: nat
  dl_deleted :: bool
  dl_disk :: "string option"
  dl_etag :: "string option"
  dl_start_point :: "int option"
  dl_key_size :: int
  dl_key_etag :: string
  dl_resp :: "(string list \<times> py_exc option) option"
  dl_idle :: int

definition dl_do :: "dl_env \<Rightarrow> dl_event \<Rightarrow> (download, dl_reply) st" where
  "dl_do E e d = (E (dl_log d @ [e]), d\<lparr>dl_log := dl_log d @ [e]\<rparr>)"

definition dl_act :: "dl_env \<Rightarrow> dl_event \<Rightarrow> (download, unit) st" where
  "dl_act E e = andthen (dl_do E e) (ret ())"

definition BufferSize :: int where "BufferSize = 8192"


section \<open>The local file\<close>

text \<open>
  Writing at a position beyond the end fills the gap with zero bytes; \<open>truncate\<close> keeps the position;
  a file opened for appending is written at its end.
\<close>

definition write_at :: "string \<Rightarrow> nat \<Rightarrow> string \<Rightarrow> string" where
  "write_at f pos s =
     (if s = [] then f
      else take pos f @ replicate (pos - length f) (CHR 0x00) @ s @ drop (pos + length s) f)"

definition write_pos :: "download_args \<Rightarrow> download \<Rightarrow> nat" where
  "write_pos A d = (if da_append A then length (dl_file d) else dl_pos d)"

definition file_write :: "download_args \<Rightarrow> string \<Rightarrow> (download, unit) st" where
  "file_write A s = modify (\<lambda>d.
     d\<lparr>dl_file := write_at (dl_file d) (write_pos A d) s, dl_pos := write_pos A d + length s\<rparr>)"

definition file_truncate :: "(download, unit) st" where
  "file_truncate = modify (\<lambda>d. d\<lparr>dl_file := []\<rparr>)"

definition get_cur_file_size :: "bool \<Rightarrow> (download, int) st" where
  "get_cur_file_size position_to_eof =
     bnd (gets (\<lambda>d. int (length (dl_file d)))) (\<lambda>cur_file_size.
     andthen (if position_to_eof then modify (\<lambda>d. d\<lparr>dl_pos := length (dl_file d)\<rparr>) else ret ())
       (ret cur_file_size))"


section \<open>Reading a key\<close>

text \<open>
  The headers of the reply set the attributes of the key, also those of the reply to a request for a
  range: \<open>Content-Length\<close> is then the length of the range.
\<close>

fun read_headers :: "(string \<times> string) list \<Rightarrow> (download, unit) st" where
  "read_headers [] = ret ()"
| "read_headers ((name, value) # hs) =
     andthen
       (if py_lower name = ''content-length''
        then bnd (lift_sum (py_int value)) (\<lambda>n. modify (\<lambda>d. d\<lparr>dl_key_size := n\<rparr>))
        else if py_lower name = ''etag'' then modify (\<lambda>d. d\<lparr>dl_key_etag := value\<rparr>)
        else ret ())
       (read_headers hs)"

definition open_read :: "dl_env \<Rightarrow> (string, string) dict \<Rightarrow> (download, unit) st" where
  "open_read E headers =
     bnd (gets dl_resp) (\<lambda>resp.
     if resp \<noteq> None then ret ()
     else bnd (dl_do E (GetKey headers)) (\<lambda>r.
          andthen (modify (\<lambda>d. d\<lparr>dl_resp := Some (dr_pieces r, dr_ending r)\<rparr>))
         (if dr_status r < 199 \<or> dr_status r > 299 then raise (ServiceError [])
          else read_headers (dr_headers r))))"

definition close_key :: "dl_env \<Rightarrow> (download, unit) st" where
  "close_key E =
     bnd (gets dl_resp) (\<lambda>resp.
     if resp = None then ret ()
     else andthen (dl_act E CloseKey) (modify (\<lambda>d. d\<lparr>dl_resp := None\<rparr>)))"

text \<open>
  The callback: of the caller, or translated by \<open>ByteTranslatingCallbackHandler\<close>, which calls the
  caller's even when there is none. \<open>start\<close> is the start of a resumed download.
\<close>

definition call_back :: "dl_env \<Rightarrow> download_args \<Rightarrow> int option \<Rightarrow> int \<Rightarrow> (download, unit) st" where
  "call_back E A start sofar =
     bnd (gets dl_key_size) (\<lambda>n.
     case start of
       None \<Rightarrow> if da_cb A then dl_act E (Reported sofar n) else ret ()
     | Some s \<Rightarrow> if da_cb A then dl_act E (Reported (s + sofar) (s + n)) else raise TypeError)"

definition has_callback :: "download_args \<Rightarrow> int option \<Rightarrow> bool" where
  "has_callback A start \<longleftrightarrow> da_cb A \<or> start \<noteq> None"

definition report_every :: "download_args \<Rightarrow> int \<Rightarrow> int" where
  "report_every A n =
     (if da_num_cb A > 2 then n div BufferSize div (da_num_cb A - 2)
      else if da_num_cb A < 0 then -1 else 0)"

text \<open>After a piece: the callback when it is due, and the new count of pieces since the last one.\<close>

definition piece_report ::
  "dl_env \<Rightarrow> download_args \<Rightarrow> int option \<Rightarrow> int \<Rightarrow> int \<Rightarrow> int \<Rightarrow> (download, int) st" where
  "piece_report E A start every total_bytes i =
     (if \<not> has_callback A start then ret i
      else if i + 1 = every \<or> every = -1 then andthen (call_back E A start total_bytes) (ret 0)
      else ret (i + 1))"

fun read_pieces ::
  "dl_env \<Rightarrow> download_args \<Rightarrow> int option \<Rightarrow> int \<Rightarrow> string list \<Rightarrow> py_exc option \<Rightarrow> int \<Rightarrow> int \<Rightarrow> (download, int) st" where
  "read_pieces E A start every [] None total_bytes i = ret total_bytes"
| "read_pieces E A start every [] (Some e) total_bytes i = raise e"
| "read_pieces E A start every (s # ss) ending total_bytes i =
     (if s = [] then ret total_bytes
      else andthen (file_write A s)
        (bnd (piece_report E A start every (total_bytes + int (length s)) i)
          (read_pieces E A start every ss ending (total_bytes + int (length s)))))"

definition key_get_file :: "dl_env \<Rightarrow> download_args \<Rightarrow> int option \<Rightarrow> (string, string) dict \<Rightarrow> (download, unit) st" where
  "key_get_file E A start headers =
     bnd (gets (\<lambda>d. report_every A (dl_key_size d))) (\<lambda>every.
     andthen (if has_callback A start then call_back E A start 0 else ret ())
    (andthen (open_read E headers)
    (bnd (gets (\<lambda>d. the (dl_resp d))) (\<lambda>(ps, ending).
     bnd (read_pieces E A start every ps ending 0 0) (\<lambda>total_bytes.
     andthen (modify (\<lambda>d. d\<lparr>dl_resp := None\<rparr>))
       (if has_callback A start then call_back E A start total_bytes else ret ()))))))"


section \<open>The tracker file\<close>

text \<open>\<open>re.search('([a-z0-9]{32})\n', line)\<close>: 32 characters before the end of the line, lower-case letters or digits.\<close>

definition etag_char :: "char \<Rightarrow> bool" where
  "etag_char c \<longleftrightarrow> c \<in> set ''abcdefghijklmnopqrstuvwxyz0123456789''"

definition read_etag_line :: "string \<Rightarrow> string option" where
  "read_etag_line content =
     (let line = takeWhile (\<lambda>c. c \<noteq> nl) content; tag = drop (length line - 32) line in
      if nl \<in> set content \<and> length tag = 32 \<and> list_all etag_char tag then Some tag else None)"

definition load_tracker_file_etag :: "dl_env \<Rightarrow> (download, unit) st" where
  "load_tracker_file_etag E =
     try_except
       (andthen (dl_act E ReadTrackerFile)
         (bnd (gets dl_disk) (\<lambda>disk. case disk of None \<Rightarrow> raise IOError
            | Some content \<Rightarrow> (case read_etag_line content of None \<Rightarrow> ret ()
                              | Some tag \<Rightarrow> modify (\<lambda>d. d\<lparr>dl_etag := Some tag\<rparr>)))))
       (\<lambda>e. e = IOError) (\<lambda>_. ret ())"

definition download_init :: "dl_env \<Rightarrow> download_args \<Rightarrow> (download, unit) st" where
  "download_init E A =
     andthen (modify (\<lambda>d. d\<lparr>dl_etag := None\<rparr>))
    (andthen (if da_tracker A then load_tracker_file_etag E else ret ())
       (modify (\<lambda>d. d\<lparr>dl_start_point := None\<rparr>)))"

definition save_tracker_info :: "dl_env \<Rightarrow> download_args \<Rightarrow> (download, unit) st" where
  "save_tracker_info E A =
     bnd (gets (\<lambda>d. strip_quotes (dl_key_etag d))) (\<lambda>tag.
     andthen (modify (\<lambda>d. d\<lparr>dl_etag := Some tag\<rparr>))
    (if \<not> da_tracker A then ret ()
     else try_except (andthen (dl_act E (WriteTrackerFile (tag @ [nl]))) (modify (\<lambda>d. d\<lparr>dl_disk := Some (tag @ [nl])\<rparr>)))
            (\<lambda>e. e = IOError) (\<lambda>_. raise (TransferError ABORT))))"

definition remove_download_tracker :: "dl_env \<Rightarrow> download_args \<Rightarrow> (download, unit) st" where
  "remove_download_tracker E A =
     bnd (gets dl_disk) (\<lambda>disk.
     if da_tracker A \<and> disk \<noteq> None
     then andthen (dl_act E RemoveTrackerFile) (modify (\<lambda>d. d\<lparr>dl_disk := None\<rparr>)) else ret ())"


section \<open>Attempts and retries\<close>

definition range_header :: "int \<Rightarrow> int \<Rightarrow> string" where
  "range_header cur n = ''bytes='' @ int_str cur @ ''-'' @ int_str (n - 1)"

definition resumes :: "int \<Rightarrow> download \<Rightarrow> bool" where
  "resumes cur d \<longleftrightarrow> cur \<noteq> 0 \<and> (case dl_etag d of None \<Rightarrow> False
     | Some tag \<Rightarrow> tag \<noteq> [] \<and> tag = strip_quotes (dl_key_etag d))"

definition attempt_resumable_download :: "dl_env \<Rightarrow> download_args \<Rightarrow> (download, unit) st" where
  "attempt_resumable_download E A =
     bnd (get_cur_file_size True) (\<lambda>cur.
     bnd (gets (\<lambda>d. (resumes cur d, dl_key_size d))) (\<lambda>(resuming, n).
     if resuming
     then if cur > n then raise (TransferError ABORT)
          else if cur = n then ret ()
          else andthen (modify (\<lambda>d. d\<lparr>dl_start_point := Some cur\<rparr>))
                 (key_get_file E A (Some cur) (dset ''Range'' (range_header cur n) (da_headers A)))
     else andthen (save_tracker_info E A)
         (andthen (modify (\<lambda>d. d\<lparr>dl_start_point := Some 0\<rparr>))
         (andthen file_truncate (key_get_file E A None (da_headers A))))))"

text \<open>\<open>compute_md5\<close> also sets the size of the key.\<close>

definition check_download_md5 :: "dl_env \<Rightarrow> download_args \<Rightarrow> (download, unit) st" where
  "check_download_md5 E A =
     bnd (gets (\<lambda>d. da_md5 A (dl_file d) = strip_quotes (dl_key_etag d))) (\<lambda>same.
     andthen (modify (\<lambda>d. d\<lparr>dl_key_size := int (length (dl_file d))\<rparr>))
    (if same then ret ()
     else andthen (dl_act E DeleteFile)
         (andthen (modify (\<lambda>d. d\<lparr>dl_deleted := True\<rparr>)) (raise (TransferError ABORT)))))"

definition download_once :: "dl_env \<Rightarrow> download_args \<Rightarrow> (download, bool) st" where
  "download_once E A =
     try_except
       (andthen (attempt_resumable_download E A)
       (andthen (remove_download_tracker E A)
       (andthen (check_download_md5 E A) (ret True))))
       tried_again (\<lambda>_. ret False)"

definition download_failed :: "dl_env \<Rightarrow> download_args \<Rightarrow> int \<Rightarrow> (download, unit option) st" where
  "download_failed E A before =
     bnd (get_cur_file_size False) (\<lambda>cur.
     andthen (modify (\<lambda>d. d\<lparr>dl_idle := (if cur > before then 0 else dl_idle d + 1)\<rparr>))
    (bnd (gets dl_idle) (\<lambda>idle.
     if idle > da_num_retries A then raise (TransferError ABORT)
     else andthen (close_key E)
         (andthen (modify (\<lambda>d. d\<lparr>dl_log := dl_log d @ [Pausing (2 ^ nat idle)]\<rparr>)) (ret None)))))"

definition download_round :: "dl_env \<Rightarrow> download_args \<Rightarrow> (download, unit option) st" where
  "download_round E A =
     bnd (get_cur_file_size False) (\<lambda>before.
     bnd (download_once E A) (\<lambda>finished.
     if finished then ret (Some ()) else download_failed E A before))"

definition download_get_file :: "nat \<Rightarrow> dl_env \<Rightarrow> download_args \<Rightarrow> (download, unit) st" where
  "download_get_file rounds E A =
     andthen (modify (\<lambda>d. d\<lparr>dl_idle := 0\<rparr>)) (loop_st rounds (download_round E A))"

end
