(* ===== verification/BotoDownloadFacts.thy ===== *)
theory BotoDownloadFacts
  imports BotoDownload "HOL-Library.Sublist"
begin

text \<open>
  What resumable downloads guarantee: whatever fails, the local file stays a beginning of the content; a
  return means that the checksum agrees; and the situations in which the handler cannot succeed.
\<close>


section \<open>One reading of the key\<close>

definition at_end :: "download_args \<Rightarrow> download \<Rightarrow> bool" where
  "at_end A d \<longleftrightarrow> da_append A \<or> dl_pos d = length (dl_file d)"

definition same_but_file :: "download \<Rightarrow> download \<Rightarrow> bool" where
  "same_but_file d d' \<longleftrightarrow> dl_disk d' = dl_disk d \<and> dl_etag d' = dl_etag d \<and> dl_start_point d' = dl_start_point d
     \<and> dl_idle d' = dl_idle d \<and> dl_deleted d' = dl_deleted d"

lemma file_write_end:
  "at_end A d \<Longrightarrow> file_write A s d = (Inr (), d\<lparr>dl_file := dl_file d @ s, dl_pos := length (dl_file d @ s)\<rparr>)"
  by (auto simp: file_write_def write_at_def write_pos_def at_end_def)

lemma dl_act_run: "dl_act E e d = (r, d') \<Longrightarrow> d' = d\<lparr>dl_log := dl_log d @ [e]\<rparr> \<and> (case E (dl_log d @ [e]) of Inl x \<Rightarrow> r = Inl x | Inr _ \<Rightarrow> r = Inr ())"
  by (auto simp: dl_act_def dl_do_def andthen_def bnd_def ret_def split: sum.splits)

lemma call_back_run: "call_back E A start k d = (r, d') \<Longrightarrow> \<exists>evs. d' = d\<lparr>dl_log := dl_log d @ evs\<rparr>"
  by (auto simp: call_back_def ret_def raise_def dest!: dl_act_run split: option.splits if_splits intro: exI [of _ "[]"])

lemma piece_report_run: "piece_report E A start every k i d = (r, d') \<Longrightarrow> \<exists>evs. d' = d\<lparr>dl_log := dl_log d @ evs\<rparr>"
  by (auto simp: piece_report_def ret_def andthen_def bnd_def dest!: call_back_run
      split: if_splits prod.splits sum.splits intro: exI [of _ "[]"])

lemma read_pieces_run:
  assumes "read_pieces E A start every ps ending k i d = (r, d')" and "at_end A d"
  shows "\<exists>evs s. d' = d\<lparr>dl_log := dl_log d @ evs, dl_file := dl_file d @ s, dl_pos := dl_pos d'\<rparr> \<and> at_end A d'
    \<and> prefix s (concat ps) \<and> (\<forall>k'. r = Inr k' \<longrightarrow> [] \<notin> set ps \<longrightarrow> s = concat ps \<and> ending = None)"
  using assms
proof (induction E A start every ps ending k i arbitrary: d rule: read_pieces.induct)
  case (1 E A start every k i)
  then show ?case by (intro exI [of _ "[]"]) (auto simp: ret_def)
next
  case (2 E A start every e k i)
  then show ?case by (intro exI [of _ "[]"]) (auto simp: raise_def)
next
  case (3 E A start every p ps ending k i)
  show ?case
  proof (cases "p = []")
    case True
    with 3 show ?thesis by (intro exI [of _ "[]"]) (simp add: ret_def)
  next
    case False
    let ?k = "k + int (length p)" and ?d = "d\<lparr>dl_file := dl_file d @ p, dl_pos := length (dl_file d @ p)\<rparr>"
    obtain q v where v: "piece_report E A start every ?k i ?d = (q, v)" by fastforce
    obtain evs where evs: "v = ?d\<lparr>dl_log := dl_log d @ evs\<rparr>" using piece_report_run [OF v] by auto
    have end_: "at_end A v" using evs by (simp add: at_end_def)
    have run: "bnd (piece_report E A start every ?k i) (read_pieces E A start every ps ending ?k) ?d = (r, d')"
      using "3.prems"(1) False by (simp add: andthen_def bnd_def file_write_end [OF "3.prems"(2)])
    show ?thesis
    proof (cases q)
      case (Inl e)
      with run v have "r = Inl e" "d' = v" by (simp_all add: bnd_def)
      with evs end_ show ?thesis by (intro exI [of _ evs] exI [of _ p]) simp
    next
      case (Inr j)
      with run v have "read_pieces E A start every ps ending ?k j v = (r, d')" by (simp add: bnd_def)
      from "3.IH" [OF False this end_] obtain evs' s where
        "d' = v\<lparr>dl_log := dl_log v @ evs', dl_file := dl_file v @ s, dl_pos := dl_pos d'\<rparr>" "at_end A d'"
        "prefix s (concat ps)" "\<forall>k'. r = Inr k' \<longrightarrow> [] \<notin> set ps \<longrightarrow> s = concat ps \<and> ending = None" by blast
      with evs show ?thesis by (intro exI [of _ "evs @ evs'"] exI [of _ "p @ s"]) auto
    qed
  qed
qed


section \<open>An honest server\<close>

text \<open>
  What a server that keeps its promises answers when it is asked for the bytes \<open>s\<close> of a key whose tag
  is \<open>tag\<close>: their number, the tag in quotes, and pieces of a beginning of them, all of them
  unless the reading breaks off. It may also not answer at all.
\<close>

definition quoted :: "string \<Rightarrow> string" where
  "quoted s = CHR 0x22 # s @ [CHR 0x22]"

definition delivers :: "string \<Rightarrow> string \<Rightarrow> dl_reply \<Rightarrow> bool" where
  "delivers s tag r \<longleftrightarrow> 199 \<le> dr_status r \<and> dr_status r \<le> 299
     \<and> dr_headers r = [(''Content-Length'', int_str (int (length s))), (''ETag'', quoted tag)]
     \<and> [] \<notin> set (dr_pieces r) \<and> prefix (concat (dr_pieces r)) s
     \<and> (dr_ending r = None \<longrightarrow> concat (dr_pieces r) = s) \<and> dr_ending r \<noteq> Some StillRunning"

definition honest :: "dl_env \<Rightarrow> download_args \<Rightarrow> string \<Rightarrow> string \<Rightarrow> bool" where
  "honest E A c tag \<longleftrightarrow> (\<forall>evs. E evs \<noteq> Inl StillRunning)
     \<and> (\<forall>evs r. E (evs @ [GetKey (da_headers A)]) = Inr r \<longrightarrow> delivers c tag r)
     \<and> (\<forall>evs r k m. 0 < k \<longrightarrow> k < m \<longrightarrow> m \<le> length c \<longrightarrow>
          E (evs @ [GetKey (dset ''Range'' (range_header (int k) (int m)) (da_headers A))]) = Inr r \<longrightarrow>
          delivers (drop k (take m c)) tag r)"

text \<open>What one reading of the key does to the state, when the bytes \<open>s\<close> were asked for.\<close>

definition read_some :: "string \<Rightarrow> string \<Rightarrow> download \<Rightarrow> download \<Rightarrow> bool" where
  "read_some s tag d d' \<longleftrightarrow> same_but_file d d' \<and> (\<exists>s'. prefix s' s \<and> dl_file d' = dl_file d @ s'
     \<and> (dl_key_size d' = int (length s) \<and> dl_key_etag d' = quoted tag
        \<or> dl_key_size d' = dl_key_size d \<and> dl_key_etag d' = dl_key_etag d \<and> s' = []))"

lemma read_headers_honest:
  "read_headers [(''Content-Length'', int_str n), (''ETag'', tag)] d
     = (Inr (), d\<lparr>dl_key_size := n, dl_key_etag := tag\<rparr>)"
proof -
  have "py_lower ''Content-Length'' = ''content-length''" "py_lower ''ETag'' = ''etag''" by code_simp+
  then show ?thesis by (simp add: andthen_def bnd_def ret_def lift_sum_def)
qed

lemma open_read_run:
  assumes "dl_resp d = None" and "\<And>r. E (dl_log d @ [GetKey hs]) = Inr r \<Longrightarrow> delivers s tag r"
    and "open_read E hs d = (q, d')"
  shows "(\<exists>e. q = Inl e \<and> E (dl_log d @ [GetKey hs]) = Inl e) \<and> d' = d\<lparr>dl_log := dl_log d @ [GetKey hs]\<rparr>
    \<or> q = Inr () \<and> (\<exists>r. delivers s tag r \<and> E (dl_log d @ [GetKey hs]) = Inr r \<and> d' = d\<lparr>dl_log := dl_log d @ [GetKey hs],
        dl_resp := Some (dr_pieces r, dr_ending r), dl_key_size := int (length s), dl_key_etag := quoted tag\<rparr>)"
proof (cases "E (dl_log d @ [GetKey hs])")
  case (Inl e)
  with assms(1,3) show ?thesis by (auto simp: open_read_def dl_do_def bnd_def)
next
  case (Inr r)
  from assms(2) [OF this] have r: "delivers s tag r" .
  then have "dr_headers r = [(''Content-Length'', int_str (int (length s))), (''ETag'', quoted tag)]"
      "\<not> (dr_status r < 199 \<or> dr_status r > 299)" by (auto simp: delivers_def)
  with assms(1,3) Inr r show ?thesis
    by (simp add: open_read_def dl_do_def bnd_def read_headers_honest del: read_headers.simps)
qed

lemma read_some_log: "read_some s tag (d\<lparr>dl_log := l\<rparr>) d' \<longleftrightarrow> read_some s tag d d'"
  by (simp add: read_some_def same_but_file_def)

lemma read_some_refl: "read_some s tag d (d\<lparr>dl_log := l\<rparr>)"
  by (auto simp: read_some_def same_but_file_def)

lemma key_read_pieces:
  assumes "delivers s tag rep" and "at_end A d" and "dl_key_size d = int (length s)" "dl_key_etag d = quoted tag"
    and "read_pieces E A start every (dr_pieces rep) (dr_ending rep) 0 0 d = (q, d')"
  shows "read_some s tag d d'" and "q = Inr k \<Longrightarrow> dl_file d' = dl_file d @ s"
proof -
  from read_pieces_run [OF assms(5,2)] obtain evs s' where
    d': "d' = d\<lparr>dl_log := dl_log d @ evs, dl_file := dl_file d @ s', dl_pos := dl_pos d'\<rparr>"
    and s': "prefix s' (concat (dr_pieces rep))"
    and done_: "\<forall>k'. q = Inr k' \<longrightarrow> [] \<notin> set (dr_pieces rep) \<longrightarrow> s' = concat (dr_pieces rep) \<and> dr_ending rep = None" by blast
  have "prefix s' s" using s' assms(1) by (auto simp: delivers_def intro: prefix_order.trans)
  then show "read_some s tag d d'"
    using assms(3,4) unfolding read_some_def same_but_file_def by (subst (1 2 3 4 5 6 7 8 9 10) d') auto
  assume "q = Inr k"
  with done_ assms(1) have "s' = s" by (auto simp: delivers_def)
  then show "dl_file d' = dl_file d @ s" by (subst d') simp
qed

lemma call_back_if_run:
  "(if has_callback A start then call_back E A start k else ret ()) d = (q, d') \<Longrightarrow> \<exists>l. d' = d\<lparr>dl_log := l\<rparr>"
  by (auto simp: ret_def dest!: call_back_run split: if_splits intro: exI [of _ "dl_log d"])

definition calm_dl :: "dl_env \<Rightarrow> bool" where
  "calm_dl E \<longleftrightarrow> (\<forall>h. E h \<noteq> Inl StillRunning)"

lemma settles_dl_act: "calm_dl E \<Longrightarrow> settles (dl_act E e)"
  by (auto simp: settles_def dl_act_def dl_do_def andthen_def bnd_def ret_def calm_dl_def split: sum.splits)

lemma settles_call_back: "calm_dl E \<Longrightarrow> settles (call_back E A start k)"
  unfolding call_back_def by (intro settle_rules settles_dl_act) simp_all

lemma settles_read_pieces: "calm_dl E \<Longrightarrow> ending \<noteq> Some StillRunning \<Longrightarrow> settles (read_pieces E A start every ps ending k i)"
  by (induction E A start every ps ending k i rule: read_pieces.induct)
    (auto simp: file_write_def piece_report_def intro!: settle_rules settles_call_back)

lemma key_get_file_run:
  assumes "dl_resp d = None" and "at_end A d" and law: "\<And>evs r. E (evs @ [GetKey hs]) = Inr r \<Longrightarrow> delivers s tag r"
    and run: "key_get_file E A start hs d = (q, d')"
  shows "read_some s tag d d' \<and> (q = Inr () \<longrightarrow> dl_file d' = dl_file d @ s \<and> dl_resp d' = None)
    \<and> (calm_dl E \<longrightarrow> q \<noteq> Inl StillRunning)"
proof -
  let ?call = "\<lambda>k. if has_callback A start then call_back E A start k else ret ()"
  obtain q1 d1 where 1: "?call 0 d = (q1, d1)" by fastforce
  then obtain l where d1: "d1 = d\<lparr>dl_log := l\<rparr>" using call_back_if_run by blast
  obtain q2 d2 where 2: "open_read E hs d1 = (q2, d2)" by fastforce
  have "dl_resp d1 = None" using assms(1) d1 by simp
  note opened = open_read_run [OF this law [of "dl_log d1"] 2]
  show ?thesis
  proof (cases "(\<exists>e. q1 = Inl e) \<or> (\<exists>e. q2 = Inl e)")
    case True
    then have "\<exists>e. q = Inl e \<and> (q1 = Inl e \<and> d' = d1 \<or> d' = d2 \<and> q2 = Inl e)"
      using run 1 2 by (auto simp: key_get_file_def andthen_def bnd_def split: sum.splits)
    moreover have "\<exists>l. d2 = d\<lparr>dl_log := l\<rparr>" if "\<exists>e. q2 = Inl e"
      using opened that d1 by auto
    moreover have "calm_dl E \<longrightarrow> q1 \<noteq> Inl StillRunning \<and> q2 \<noteq> Inl StillRunning"
      using 1 opened settles_call_back [of E A start 0]
      by (auto simp: settles_def calm_dl_def ret_def split: if_splits) (metis fst_conv)+
    ultimately show ?thesis using d1 read_some_refl by blast
  next
    case False
    with opened obtain r where r: "delivers s tag r"
      and d2: "d2 = d1\<lparr>dl_log := dl_log d1 @ [GetKey hs], dl_resp := Some (dr_pieces r, dr_ending r),
          dl_key_size := int (length s), dl_key_etag := quoted tag\<rparr>" by auto
    let ?every = "report_every A (dl_key_size d)"
    obtain q3 d3 where 3: "read_pieces E A start ?every (dr_pieces r) (dr_ending r) 0 0 d2 = (q3, d3)" by fastforce
    have "at_end A d2" using assms(2) d1 d2 by (simp add: at_end_def)
    note key = key_read_pieces [OF r this _ _ 3]
    have some: "read_some s tag d d3" using key(1) d1 d2 by (auto simp: read_some_def same_but_file_def)
    have q: "(case q3 of Inl e \<Rightarrow> (Inl e, d3) | Inr k \<Rightarrow> ?call k (d3\<lparr>dl_resp := None\<rparr>)) = (q, d')"
      using run 1 2 3 False d2
      by (auto simp: key_get_file_def andthen_def bnd_def gets_def split: sum.splits)
    show ?thesis
    proof (cases q3)
      case (Inl e)
      have "calm_dl E \<longrightarrow> q3 \<noteq> Inl StillRunning"
        using 3 r settles_read_pieces [of E "dr_ending r"] unfolding settles_def delivers_def by (metis fst_conv)
      with Inl q some show ?thesis by auto
    next
      case (Inr k)
      have "calm_dl E \<longrightarrow> q \<noteq> Inl StillRunning"
        using Inr q settles_call_back [of E A start k] by (auto simp: settles_def ret_def split: if_splits) (metis fst_conv)
      moreover from Inr q obtain l where "d' = d3\<lparr>dl_resp := None, dl_log := l\<rparr>" using call_back_if_run [of A start E k] by fastforce
      ultimately show ?thesis using some key(2) [OF _ _ Inr] d1 d2 by (auto simp: read_some_def same_but_file_def)
    qed
  qed
qed


section \<open>One attempt\<close>

definition plain_tag :: "string \<Rightarrow> bool" where
  "plain_tag tag \<longleftrightarrow> tag \<noteq> [] \<and> strip_quotes (quoted tag) = tag"

text \<open>
  The state is sound: the file holds a beginning of the content, and writing it will go on at its end. The
  level of the state grows with the file.
\<close>

definition sound :: "download_args \<Rightarrow> string \<Rightarrow> string \<Rightarrow> download \<Rightarrow> bool" where
  "sound A c tag d \<longleftrightarrow> prefix (dl_file d) c \<and> strip_quotes (dl_key_etag d) = tag \<and> dl_key_size d \<le> int (length c)
     \<and> (dl_file d = [] \<or> da_append A \<or> dl_etag d = Some tag)"

definition dl_level :: "string \<Rightarrow> download \<Rightarrow> nat" where
  "dl_level tag d = (if dl_etag d = Some tag then Suc (length (dl_file d)) else 0)"

definition resumed_by :: "string \<Rightarrow> download \<Rightarrow> download \<Rightarrow> bool" where
  "resumed_by c d d' \<longleftrightarrow> dl_etag d' = dl_etag d \<and> dl_idle d' = dl_idle d
     \<and> (\<exists>s. dl_file d' = dl_file d @ s \<and> prefix (dl_file d @ s) c \<and> (s \<noteq> [] \<longrightarrow> int (length (dl_file d')) \<le> dl_key_size d))
     \<and> strip_quotes (dl_key_etag d') = strip_quotes (dl_key_etag d)
     \<and> (dl_key_size d' = dl_key_size d \<and> dl_file d' = dl_file d \<or> dl_key_size d' = dl_key_size d - int (length (dl_file d)))"

lemma attempt_resumes:
  assumes E: "honest E A c tag" and tag: "plain_tag tag" and etag: "strip_quotes (dl_key_etag d) = tag" "dl_etag d = Some tag"
    and held: "prefix (dl_file d) c" "dl_file d \<noteq> []" and key: "dl_key_size d \<le> int (length c)" "dl_resp d = None"
    and run: "attempt_resumable_download E A d = (q, d')"
  shows "resumed_by c d d' \<and> (q = Inr () \<longrightarrow> dl_resp d' = None \<and> int (length (dl_file d')) = dl_key_size d) \<and> q \<noteq> Inl StillRunning"
proof -
  let ?k = "length (dl_file d)" and ?d = "d\<lparr>dl_pos := length (dl_file d)\<rparr>"
  have resumes: "resumes (int ?k) ?d" using etag held(2) tag by (simp add: resumes_def plain_tag_def)
  have same: "resumed_by c d ?d" using held by (simp add: resumed_by_def)
  show ?thesis
  proof (cases "int ?k < dl_key_size d")
    case False
    with run resumes have "d' = ?d" "q \<noteq> Inl StillRunning" "q = Inr () \<longrightarrow> int ?k = dl_key_size d" by (auto simp: attempt_resumable_download_def get_cur_file_size_def bnd_def andthen_def ret_def raise_def split: if_splits)
    with same key(2) show ?thesis by simp
  next
    case True
    define m where "m = nat (dl_key_size d)"
    have m: "dl_key_size d = int m" "?k < m" "m \<le> length c" using True key(1) by (simp_all add: m_def)
    let ?d1 = "?d\<lparr>dl_start_point := Some (int ?k)\<rparr>" and ?hs = "dset ''Range'' (range_header (int ?k) (int m)) (da_headers A)"
    have got: "key_get_file E A (Some (int ?k)) ?hs ?d1 = (q, d')"
      using run resumes m by (simp add: attempt_resumable_download_def get_cur_file_size_def bnd_def andthen_def ret_def)
    have law: "delivers (drop ?k (take m c)) tag r" if "E (evs @ [GetKey ?hs]) = Inr r" for evs r
      using E that held(2) m unfolding honest_def by (metis length_greater_0_conv)
    have "dl_resp ?d1 = None" "at_end A ?d1" using key by (simp_all add: at_end_def)
    then have "read_some (drop ?k (take m c)) tag ?d1 d' \<and> (q = Inr () \<longrightarrow> dl_file d' = dl_file ?d1 @ drop ?k (take m c) \<and> dl_resp d' = None)
        \<and> (calm_dl E \<longrightarrow> q \<noteq> Inl StillRunning)"
      by (rule key_get_file_run [OF _ _ _ got]) (rule law)
    then have some: "read_some (drop ?k (take m c)) tag ?d1 d'" and resp: "(q = Inr () \<longrightarrow> dl_resp d' = None \<and> int (length (dl_file d')) = dl_key_size d) \<and> q \<noteq> Inl StillRunning"
      using E m by (simp_all add: honest_def calm_dl_def)
    from some obtain s where s: "prefix s (drop ?k (take m c))" "dl_file d' = dl_file d @ s"
      by (auto simp: read_some_def)
    have k: "take ?k c = dl_file d" using held(1) by (auto simp: prefix_def)
    have "prefix (dl_file d @ s) (take ?k (take m c) @ drop ?k (take m c))" using s(1) k m by (simp add: min_def)
    then have "prefix (dl_file d @ s) (take m c)" by (simp only: append_take_drop_id)
    then have pre: "prefix (dl_file d @ s) c" "length (dl_file d @ s) \<le> m"
      using m by (auto intro: prefix_order.trans take_is_prefix dest: prefix_length_le)
    have sizes: "dl_key_size d' = dl_key_size d \<and> dl_file d' = dl_file d \<or> dl_key_size d' = dl_key_size d - int ?k" "strip_quotes (dl_key_etag d') = tag"
      using some m etag tag by (auto simp: read_some_def plain_tag_def)
    show ?thesis using some s(2) pre m sizes resp etag by (auto simp: resumed_by_def read_some_def same_but_file_def)
  qed
qed

lemma save_tracker_run:
  assumes "save_tracker_info E A d = (q, v)"
  shows "v = d\<lparr>dl_etag := Some (strip_quotes (dl_key_etag d)), dl_log := dl_log v, dl_disk := dl_disk v\<rparr>"
  using assms by (auto simp: save_tracker_info_def try_except_def andthen_def bnd_def ret_def raise_def dl_act_def dl_do_def
      split: if_splits sum.splits prod.splits)

lemma settles_save_tracker: "calm_dl E \<Longrightarrow> settles (save_tracker_info E A)"
  unfolding save_tracker_info_def by (intro settle_rules settles_dl_act) simp_all

lemma attempt_starts:
  assumes E: "honest E A c tag" and tag: "plain_tag tag" and d: "sound A c tag d" "dl_resp d = None"
    and fresh: "dl_etag d \<noteq> Some tag \<or> dl_file d = []" and run: "attempt_resumable_download E A d = (q, d')"
  shows "sound A c tag d' \<and> dl_idle d' = dl_idle d \<and> dl_etag d' = Some tag \<and> (q = Inr () \<longrightarrow> dl_file d' = c \<and> dl_resp d' = None) \<and> q \<noteq> Inl StillRunning"
proof -
  let ?d = "d\<lparr>dl_pos := length (dl_file d)\<rparr>"
  have etag: "strip_quotes (dl_key_etag d) = tag" using d by (simp add: sound_def)
  have no: "\<not> resumes (int (length (dl_file d))) ?d" using fresh etag by (auto simp: resumes_def split: option.splits)
  obtain q1 v where v: "save_tracker_info E A ?d = (q1, v)" by fastforce
  note save = save_tracker_run [OF this]
  have v_sound: "sound A c tag v" "dl_etag v = Some tag" "dl_idle v = dl_idle d" "dl_resp v = None" "dl_pos v = length (dl_file d)"
    using d etag by (subst save, simp add: sound_def)+
  let ?v = "v\<lparr>dl_start_point := Some 0, dl_file := []\<rparr>"
  have q: "(case q1 of Inl e \<Rightarrow> (Inl e, v) | Inr _ \<Rightarrow> key_get_file E A None (da_headers A) ?v) = (q, d')"
    using run no v by (auto simp: attempt_resumable_download_def get_cur_file_size_def file_truncate_def bnd_def andthen_def ret_def split: sum.splits)
  show ?thesis
  proof (cases q1)
    case (Inl e)
    moreover have "q1 \<noteq> Inl StillRunning"
      using v settles_save_tracker [of E A] E by (auto simp: settles_def honest_def calm_dl_def) (metis fst_conv)
    ultimately show ?thesis using q v_sound by auto
  next
    case (Inr u)
    with q have got: "key_get_file E A None (da_headers A) ?v = (q, d')" by simp
    have "at_end A ?v" using v_sound(5) d fresh by (auto simp: at_end_def sound_def)
    moreover have "dl_resp ?v = None" using v_sound(4) by simp
    moreover have "delivers c tag r" if "E (evs @ [GetKey (da_headers A)]) = Inr r" for evs r
      using E that unfolding honest_def by blast
    ultimately have "read_some c tag ?v d' \<and> (q = Inr () \<longrightarrow> dl_file d' = dl_file ?v @ c \<and> dl_resp d' = None)
        \<and> (calm_dl E \<longrightarrow> q \<noteq> Inl StillRunning)"
      by (intro key_get_file_run [OF _ _ _ got])
    with v_sound tag E show ?thesis by (auto simp: honest_def calm_dl_def sound_def read_some_def same_but_file_def plain_tag_def)
  qed
qed

lemma attempt_sound:
  assumes E: "honest E A c tag" "plain_tag tag" and d: "sound A c tag d" "dl_resp d = None"
    and run: "attempt_resumable_download E A d = (q, d')"
  shows "sound A c tag d' \<and> dl_idle d' = dl_idle d \<and> dl_etag d' = Some tag \<and> dl_level tag d \<le> dl_level tag d'
    \<and> (q = Inr () \<longrightarrow> dl_resp d' = None) \<and> q \<noteq> Inl StillRunning"
proof (cases "dl_etag d = Some tag \<and> dl_file d \<noteq> []")
  case True
  have "resumed_by c d d' \<and> (q = Inr () \<longrightarrow> dl_resp d' = None \<and> int (length (dl_file d')) = dl_key_size d) \<and> q \<noteq> Inl StillRunning"
    by (rule attempt_resumes [OF E _ _ _ _ _ d(2) run]) (use d True in \<open>simp_all add: sound_def\<close>)
  with d True show ?thesis by (auto simp: sound_def resumed_by_def dl_level_def)
next
  case False
  have "sound A c tag d' \<and> dl_idle d' = dl_idle d \<and> dl_etag d' = Some tag \<and> (q = Inr () \<longrightarrow> dl_file d' = c \<and> dl_resp d' = None) \<and> q \<noteq> Inl StillRunning"
    by (rule attempt_starts [OF E d _ run]) (use False in blast)
  with False show ?thesis by (auto simp: dl_level_def)
qed


section \<open>Rounds\<close>

text \<open>What follows an attempt leaves the file and its tag alone.\<close>

definition tidied :: "download \<Rightarrow> download \<Rightarrow> bool" where
  "tidied d d' \<longleftrightarrow> dl_file d' = dl_file d \<and> dl_etag d' = dl_etag d \<and> dl_key_etag d' = dl_key_etag d
     \<and> dl_idle d' = dl_idle d \<and> dl_key_size d' \<in> {dl_key_size d, int (length (dl_file d))}"

lemma remove_download_tracker_run:
  assumes "remove_download_tracker E A d = (q, d')"
  shows "tidied d d' \<and> (q = Inr () \<longrightarrow> da_tracker A \<longrightarrow> dl_disk d' = None)"
  using assms by (auto simp: tidied_def remove_download_tracker_def andthen_def bnd_def ret_def dl_act_def dl_do_def split: if_splits sum.splits)

lemma check_download_md5_run:
  assumes "check_download_md5 E A d = (q, d')"
  shows "tidied d d' \<and> dl_disk d' = dl_disk d \<and> dl_key_size d' = int (length (dl_file d)) \<and> (q = Inr () \<longrightarrow> da_md5 A (dl_file d) = strip_quotes (dl_key_etag d))"
  using assms by (auto simp: tidied_def check_download_md5_def andthen_def bnd_def ret_def raise_def dl_act_def dl_do_def split: if_splits sum.splits)

definition finish_download :: "dl_env \<Rightarrow> download_args \<Rightarrow> (download, bool) st" where
  "finish_download E A = andthen (remove_download_tracker E A) (andthen (check_download_md5 E A) (ret True))"

definition checked :: "download_args \<Rightarrow> download \<Rightarrow> bool" where
  "checked A d \<longleftrightarrow> da_md5 A (dl_file d) = strip_quotes (dl_key_etag d) \<and> (da_tracker A \<longrightarrow> dl_disk d = None)
     \<and> dl_key_size d = int (length (dl_file d))"

lemma finish_download_run:
  assumes "finish_download E A d = (q, d')"
  shows "tidied d d' \<and> q \<noteq> Inr False \<and> (q = Inr True \<longrightarrow> checked A d')"
proof -
  obtain q1 v where 1: "remove_download_tracker E A d = (q1, v)" by fastforce
  obtain q2 w where 2: "check_download_md5 E A v = (q2, w)" by fastforce
  note runs = remove_download_tracker_run [OF 1] check_download_md5_run [OF 2]
  have "tidied d v" "tidied d w" using runs by (auto simp: tidied_def)
  moreover have "(q, d') = (case q1 of Inl e \<Rightarrow> (Inl e, v) | Inr _ \<Rightarrow> (case q2 of Inl e \<Rightarrow> (Inl e, w) | Inr _ \<Rightarrow> (Inr True, w)))"
    using assms 1 2 by (auto simp: finish_download_def andthen_def bnd_def ret_def split: sum.splits)
  ultimately show ?thesis using runs by (auto simp: checked_def tidied_def split: sum.splits)
qed

lemma settles_finish: "calm_dl E \<Longrightarrow> settles (finish_download E A)"
  unfolding finish_download_def remove_download_tracker_def check_download_md5_def
  by (intro settle_rules settles_dl_act) simp_all

lemma download_once_alt:
  "download_once E A = try_except (andthen (attempt_resumable_download E A) (finish_download E A)) tried_again (\<lambda>_. ret False)"
  by (simp add: download_once_def finish_download_def)

lemma tidied_sound: "tidied d d' \<Longrightarrow> sound A c tag d \<Longrightarrow> sound A c tag d'"
  by (auto simp: tidied_def sound_def dest: prefix_length_le)

lemma download_once_cases:
  assumes "download_once E A d = (q, v)"
  obtains (attempt) e where "attempt_resumable_download E A d = (Inl e, v)" "q = Inl e \<or> q = Inr False \<and> tried_again e"
  | (finish) r u where "attempt_resumable_download E A d = (Inr (), u)" "finish_download E A u = (r, v)"
      "q = r \<or> q = Inr False \<and> (\<exists>e. r = Inl e \<and> tried_again e)"
  using assms by (auto simp: download_once_alt try_except_def andthen_def bnd_def ret_def split: sum.splits prod.splits if_splits)

lemma download_once_sound:
  assumes E: "honest E A c tag" "plain_tag tag" and d: "sound A c tag d" "dl_resp d = None" and run: "download_once E A d = (q, v)"
  shows "sound A c tag v \<and> dl_idle v = dl_idle d \<and> dl_etag v = Some tag \<and> dl_level tag d \<le> dl_level tag v
    \<and> q \<noteq> Inl StillRunning \<and> (q = Inr True \<longrightarrow> checked A v)"
  using run
proof (cases rule: download_once_cases)
  case (attempt e)
  with attempt_sound [OF E d attempt(1)] show ?thesis by auto
next
  case (finish r u)
  from finish_download_run [OF finish(2)] have "tidied u v" "r = Inr True \<longrightarrow> checked A v" by blast+
  moreover have "r \<noteq> Inl StillRunning"
    using finish(2) settles_finish [of E A] E(1) by (auto simp: settles_def honest_def calm_dl_def) (metis fst_conv)
  ultimately show ?thesis
    using attempt_sound [OF E d finish(1)] finish(3) tidied_sound [of u v] by (auto simp: tidied_def dl_level_def)
qed

definition paused_after :: "int \<Rightarrow> download \<Rightarrow> int" where
  "paused_after before d = (if int (length (dl_file d)) > before then 0 else dl_idle d + 1)"

lemma download_failed_run:
  assumes "download_failed E A before d = (q, d')"
  shows "dl_file d' = dl_file d \<and> dl_etag d' = dl_etag d \<and> dl_key_etag d' = dl_key_etag d \<and> dl_key_size d' = dl_key_size d
    \<and> dl_idle d' = paused_after before d
    \<and> (q = Inr None \<longrightarrow> dl_resp d' = None \<and> dl_idle d' \<le> da_num_retries A) \<and> (\<forall>x. q \<noteq> Inr (Some x))
    \<and> (calm_dl E \<longrightarrow> q \<noteq> Inl StillRunning)"
  using assms
  by (auto simp: paused_after_def download_failed_def get_cur_file_size_def close_key_def calm_dl_def andthen_def bnd_def ret_def raise_def
      dl_act_def dl_do_def split: if_splits sum.splits)

lemma download_round_cases:
  assumes "download_round E A d = (q, d')"
  obtains (finished) "download_once E A d = (Inr True, d')" "q = Inr (Some ())"
  | (raised) e where "download_once E A d = (Inl e, d')" "q = Inl e"
  | (failed) v where "download_once E A d = (Inr False, v)" "download_failed E A (int (length (dl_file d))) v = (q, d')"
proof -
  have "bnd (download_once E A) (\<lambda>f. if f then ret (Some ()) else download_failed E A (int (length (dl_file d)))) d = (q, d')"
    using assms by (simp add: download_round_def get_cur_file_size_def bnd_def andthen_def ret_def)
  then show thesis using that
    by (auto simp: bnd_def ret_def split: sum.splits prod.splits if_splits)
qed

definition going :: "dl_env \<Rightarrow> download_args \<Rightarrow> string \<Rightarrow> string \<Rightarrow> download \<Rightarrow> bool" where
  "going E A c tag d \<longleftrightarrow> honest E A c tag \<and> plain_tag tag \<and> sound A c tag d \<and> dl_resp d = None \<and> 0 \<le> dl_idle d"

lemma download_round_sound:
  assumes d: "going E A c tag d" and run: "download_round E A d = (q, d')"
  shows "sound A c tag d' \<and> q \<noteq> Inl StillRunning \<and> (q = Inr (Some ()) \<longrightarrow> checked A d')"
    and "q = Inr None \<Longrightarrow> going E A c tag d' \<and> dl_idle d' \<le> da_num_retries A
      \<and> (dl_level tag d < dl_level tag d' \<or> dl_level tag d \<le> dl_level tag d' \<and> dl_idle d' = dl_idle d + 1)"
proof -
  note d' = d [unfolded going_def]
  have once: "sound A c tag v \<and> dl_idle v = dl_idle d \<and> dl_etag v = Some tag \<and> dl_level tag d \<le> dl_level tag v
      \<and> q' \<noteq> Inl StillRunning \<and> (q' = Inr True \<longrightarrow> checked A v)" if "download_once E A d = (q', v)" for q' v
    using download_once_sound [OF _ _ _ _ that] d' by blast
  have calm: "calm_dl E" using d' by (simp add: honest_def calm_dl_def)
  have both: "(sound A c tag d' \<and> q \<noteq> Inl StillRunning \<and> (q = Inr (Some ()) \<longrightarrow> checked A d'))
    \<and> (q = Inr None \<longrightarrow> going E A c tag d' \<and> dl_idle d' \<le> da_num_retries A
      \<and> (dl_level tag d < dl_level tag d' \<or> dl_level tag d \<le> dl_level tag d' \<and> dl_idle d' = dl_idle d + 1))"
    using run
  proof (cases rule: download_round_cases)
    case (failed v)
    note v = once [OF failed(1)] and f = download_failed_run [OF failed(2)]
    have "sound A c tag d'" "dl_level tag d' = dl_level tag v" using v f by (auto simp: sound_def dl_level_def)
    moreover have "dl_level tag d < dl_level tag v" if "length (dl_file d) < length (dl_file v)"
      using v that by (auto simp: dl_level_def split: if_splits)
    ultimately show ?thesis using v f d' calm by (auto simp: going_def paused_after_def)
  qed (use once in auto)
  show "sound A c tag d' \<and> q \<noteq> Inl StillRunning \<and> (q = Inr (Some ()) \<longrightarrow> checked A d')" using both by blast
  show "going E A c tag d' \<and> dl_idle d' \<le> da_num_retries A
      \<and> (dl_level tag d < dl_level tag d' \<or> dl_level tag d \<le> dl_level tag d' \<and> dl_idle d' = dl_idle d + 1)" if "q = Inr None"
    using both that by blast
qed

definition download_retries :: "download_args \<Rightarrow> nat" where
  "download_retries A = nat (da_num_retries A)"

interpretation download_loop: progress_loop "download_round E A" "going E A c tag" "dl_level tag" "\<lambda>d. nat (dl_idle d)"
    "Suc (length c)" "download_retries A"
  for E A c tag
proof
  fix d d' :: download assume d: "going E A c tag d" and run: "download_round E A d = (Inr None, d')"
  from download_round_sound(2) [OF this refl] d
  show "going E A c tag d' \<and> nat (dl_idle d') \<le> download_retries A
      \<and> (dl_level tag d < dl_level tag d' \<or> dl_level tag d \<le> dl_level tag d' \<and> nat (dl_idle d') = Suc (nat (dl_idle d)))"
    by (auto simp: going_def download_retries_def)
next
  fix d :: download assume "going E A c tag d"
  then show "dl_level tag d \<le> Suc (length c)" by (auto simp: going_def sound_def dl_level_def dest: prefix_length_le)
next
  fix d :: download assume d: "going E A c tag d"
  obtain q d' where run: "download_round E A d = (q, d')" by fastforce
  with download_round_sound(1) [OF d run] show "fst (download_round E A d) \<noteq> Inl StillRunning" by simp
qed


text \<open>
  A finished download is a checked one, whatever the server does: when the handler returns, the
  checksum of the local file is the tag the key has, the size of the key is the length of the file, and the tracker
  file is gone.
\<close>

theorem download_returns_checked:
  assumes "download_get_file rounds E A d = (Inr (), d')"
  shows "da_md5 A (dl_file d') = strip_quotes (dl_key_etag d') \<and> dl_key_size d' = int (length (dl_file d'))
    \<and> (da_tracker A \<longrightarrow> dl_disk d' = None)"
proof -
  have loop: "loop_st rounds (download_round E A) (d\<lparr>dl_idle := 0\<rparr>) = (Inr (), d')"
    using assms by (simp add: download_get_file_def)
  obtain s where "download_round E A s = (Inr (Some ()), d')"
    using loop_st_last_round [where P = "\<lambda>_. True", OF _ _ loop] by auto
  then have "download_once E A s = (Inr True, d')"
    by (cases rule: download_round_cases) (auto dest: download_failed_run)
  then have "\<exists>u. finish_download E A u = (Inr True, d')" by (cases rule: download_once_cases) auto
  then have "checked A d'" using finish_download_run by blast
  then show ?thesis by (simp add: checked_def)
qed

end
