(* ===== verification/BotoDownloadFaults.thy ===== *)
theory BotoDownloadFaults
  imports BotoDownloadFacts
begin

text \<open>
  Three situations in which a resumable download cannot do its work: a resumed download that is
  interrupted, a new download onto a file that already holds something, and a resumed download without
  a callback. Then the examples that show that the hypotheses of the theorems can hold.
\<close>


section \<open>A second interruption\<close>

text \<open>
  The reply to a request for a range sets the size of the key to the length of the range, and the key
  stays too small from then on.
\<close>

definition stuck :: "dl_env \<Rightarrow> download_args \<Rightarrow> string \<Rightarrow> string \<Rightarrow> download \<Rightarrow> bool" where
  "stuck E A c tag d \<longleftrightarrow> honest E A c tag \<and> plain_tag tag \<and> strip_quotes (dl_key_etag d) = tag \<and> dl_etag d = Some tag
     \<and> prefix (dl_file d) c \<and> dl_file d \<noteq> [] \<and> dl_key_size d < int (length c) \<and> dl_resp d = None"

definition no_collision :: "download_args \<Rightarrow> string \<Rightarrow> string \<Rightarrow> bool" where
  "no_collision A c tag \<longleftrightarrow> (\<forall>s. strict_prefix s c \<longrightarrow> da_md5 A s \<noteq> tag)"

lemma stuck_attempt:
  assumes d: "stuck E A c tag d" and run: "attempt_resumable_download E A d = (q, u)"
  shows "u\<lparr>dl_resp := None\<rparr> \<in> Collect (stuck E A c tag)" and "q = Inr () \<Longrightarrow> strict_prefix (dl_file u) c"
proof -
  have "resumed_by c d u \<and> (q = Inr () \<longrightarrow> dl_resp u = None \<and> int (length (dl_file u)) = dl_key_size d) \<and> q \<noteq> Inl StillRunning"
    by (rule attempt_resumes [OF _ _ _ _ _ _ _ _ run]) (use d in \<open>simp_all add: stuck_def\<close>)
  then have u: "resumed_by c d u" "q = Inr () \<longrightarrow> int (length (dl_file u)) = dl_key_size d" by blast+
  show "u\<lparr>dl_resp := None\<rparr> \<in> Collect (stuck E A c tag)" using u(1) d by (auto simp: stuck_def resumed_by_def)
  show "strict_prefix (dl_file u) c" if "q = Inr ()"
    using u d that by (auto simp: stuck_def resumed_by_def strict_prefix_def)
qed

lemma stuck_tidied: "tidied d d' \<Longrightarrow> stuck E A c tag (d\<lparr>dl_resp := None\<rparr>) \<Longrightarrow> strict_prefix (dl_file d) c \<or> dl_key_size d' = dl_key_size d
    \<Longrightarrow> stuck E A c tag (d'\<lparr>dl_resp := None\<rparr>)"
  by (auto simp: tidied_def stuck_def dest: prefix_length_less)

text \<open>The start of the trouble: every reply to the first request for a range breaks off.\<close>

definition interrupted :: "dl_env \<Rightarrow> download_args \<Rightarrow> nat \<Rightarrow> nat \<Rightarrow> bool" where
  "interrupted E A k n \<longleftrightarrow> (\<forall>evs r. E (evs @ [GetKey (dset ''Range'' (range_header (int k) (int n)) (da_headers A))]) = Inr r \<longrightarrow>
     dr_ending r \<noteq> None)"

definition before_resuming :: "dl_env \<Rightarrow> download_args \<Rightarrow> string \<Rightarrow> string \<Rightarrow> download \<Rightarrow> bool" where
  "before_resuming E A c tag d \<longleftrightarrow> honest E A c tag \<and> plain_tag tag \<and> strip_quotes (dl_key_etag d) = tag \<and> dl_etag d = Some tag
     \<and> strict_prefix (dl_file d) c \<and> dl_file d \<noteq> [] \<and> dl_key_size d = int (length c) \<and> dl_resp d = None
     \<and> interrupted E A (length (dl_file d)) (length c)"

lemma open_read_opens:
  assumes "open_read E hs d = (Inr (), d')" and "dl_resp d = None"
  shows "\<exists>r. E (dl_log d @ [GetKey hs]) = Inr r \<and> dl_resp d' = Some (dr_pieces r, dr_ending r) \<and> dl_file d' = dl_file d \<and> dl_pos d' = dl_pos d"
proof -
  have heads: "dl_resp w = dl_resp v \<and> dl_file w = dl_file v \<and> dl_pos w = dl_pos v" if "read_headers hs v = (Inr (), w)" for hs v w
    using that by (induction hs arbitrary: v rule: read_headers.induct)
      (auto simp: andthen_def bnd_def ret_def lift_sum_def split: if_splits sum.splits)
  from assms show ?thesis
    by (auto simp: open_read_def dl_do_def bnd_def andthen_def raise_def split: sum.splits if_splits dest!: heads)
qed

lemma key_get_file_complete:
  assumes "dl_resp d = None" and "at_end A d" and "key_get_file E A start hs d = (Inr (), d')"
  shows "\<exists>evs r. E (evs @ [GetKey hs]) = Inr r \<and> ([] \<notin> set (dr_pieces r) \<longrightarrow> dr_ending r = None)"
proof -
  from assms(3) obtain d1 d2 k d3 where 1: "(if has_callback A start then call_back E A start 0 else ret ()) d = (Inr (), d1)"
    and 2: "open_read E hs d1 = (Inr (), d2)"
    and 3: "(case the (dl_resp d2) of (ps, ending) \<Rightarrow> read_pieces E A start (report_every A (dl_key_size d)) ps ending 0 0) d2 = (Inr k, d3)"
    unfolding key_get_file_def by (auto elim!: bnd_InrE andthen_InrE split: prod.splits)
  obtain l where d1: "d1 = d\<lparr>dl_log := l\<rparr>" using call_back_if_run [OF 1] by blast
  then obtain r where r: "E (l @ [GetKey hs]) = Inr r" "dl_resp d2 = Some (dr_pieces r, dr_ending r)" "at_end A d2"
    using open_read_opens [OF 2] assms(1,2) by (auto simp: at_end_def)
  have "read_pieces E A start (report_every A (dl_key_size d)) (dr_pieces r) (dr_ending r) 0 0 d2 = (Inr k, d3)" using 3 r(2) by simp
  from read_pieces_run [OF this r(3)] r(1) show ?thesis by blast
qed

lemma before_resuming_attempt:
  assumes d: "before_resuming E A c tag d" and run: "attempt_resumable_download E A d = (q, u)"
  shows "q \<noteq> Inr ()"
    and "stuck E A c tag (u\<lparr>dl_resp := None\<rparr>) \<or> before_resuming E A c tag (u\<lparr>dl_resp := None\<rparr>)"
proof -
  note d' = d [unfolded before_resuming_def]
  let ?k = "length (dl_file d)" and ?n = "length c"
  let ?d1 = "d\<lparr>dl_pos := ?k, dl_start_point := Some (int ?k)\<rparr>"
  let ?hs = "dset ''Range'' (range_header (int ?k) (int ?n)) (da_headers A)"
  have k: "?k < ?n" using d' by (auto dest: prefix_length_less)
  have got: "key_get_file E A (Some (int ?k)) ?hs ?d1 = (q, u)"
    using run d' k by (simp add: attempt_resumable_download_def get_cur_file_size_def bnd_def andthen_def ret_def resumes_def plain_tag_def)
  show "q \<noteq> Inr ()"
  proof
    assume q: "q = Inr ()"
    have "dl_resp ?d1 = None" "at_end A ?d1" using d' by (simp_all add: at_end_def)
    from key_get_file_complete [OF this got [unfolded q]] obtain evs r where
      r: "E (evs @ [GetKey ?hs]) = Inr r" "[] \<notin> set (dr_pieces r) \<longrightarrow> dr_ending r = None" by blast
    have "honest E A c tag" "0 < ?k" using d' by simp_all
    then have "delivers (drop ?k (take ?n c)) tag r" using r(1) k unfolding honest_def by blast
    then have "dr_ending r = None" using r(2) by (simp add: delivers_def)
    moreover have "interrupted E A ?k ?n" using d' by blast
    ultimately show False using r(1) unfolding interrupted_def by blast
  qed
  have "resumed_by c d u \<and> (q = Inr () \<longrightarrow> dl_resp u = None \<and> int (length (dl_file u)) = dl_key_size d) \<and> q \<noteq> Inl StillRunning"
    by (rule attempt_resumes [OF _ _ _ _ _ _ _ _ run]) (use d' in \<open>simp_all add: strict_prefix_def\<close>)
  then show "stuck E A c tag (u\<lparr>dl_resp := None\<rparr>) \<or> before_resuming E A c tag (u\<lparr>dl_resp := None\<rparr>)"
    using d' by (auto simp: stuck_def before_resuming_def resumed_by_def)
qed

definition doomed :: "dl_env \<Rightarrow> download_args \<Rightarrow> string \<Rightarrow> string \<Rightarrow> download \<Rightarrow> bool" where
  "doomed E A c tag d \<longleftrightarrow> stuck E A c tag d \<or> before_resuming E A c tag d"

lemma doomed_once:
  assumes d: "doomed E A c tag d" and md5: "no_collision A c tag" and run: "download_once E A d = (q, v)"
  shows "q \<noteq> Inr True \<and> doomed E A c tag (v\<lparr>dl_resp := None\<rparr>)"
proof -
  have att: "doomed E A c tag (u\<lparr>dl_resp := None\<rparr>) \<and> (r = Inr () \<longrightarrow> stuck E A c tag (u\<lparr>dl_resp := None\<rparr>) \<and> strict_prefix (dl_file u) c)"
    if "attempt_resumable_download E A d = (r, u)" for r u
  proof (cases "stuck E A c tag d")
    case True
    from stuck_attempt [OF this that] show ?thesis by (simp add: doomed_def)
  next
    case False
    with d have "before_resuming E A c tag d" by (simp add: doomed_def)
    from before_resuming_attempt [OF this that] show ?thesis by (auto simp: doomed_def)
  qed
  show ?thesis using run
  proof (cases rule: download_once_cases)
    case (attempt e)
    with att show ?thesis by auto
  next
    case (finish r u)
    from finish_download_run [OF finish(2)] have fin: "tidied u v" "r = Inr True \<longrightarrow> checked A v" by blast+
    have u: "stuck E A c tag (u\<lparr>dl_resp := None\<rparr>)" "strict_prefix (dl_file u) c" using att [OF finish(1)] by auto
    then have "da_md5 A (dl_file v) \<noteq> tag" "strip_quotes (dl_key_etag v) = tag"
      using fin(1) md5 by (auto simp: no_collision_def tidied_def stuck_def)
    then have "r \<noteq> Inr True" using fin(2) by (auto simp: checked_def)
    with finish(3) stuck_tidied [OF fin(1) u(1)] u(2) show ?thesis by (auto simp: doomed_def)
  qed
qed

lemma doomed_round:
  assumes d: "doomed E A c tag d" and md5: "no_collision A c tag" and run: "download_round E A d = (q, d')"
  shows "q \<noteq> Inr (Some ())" and "q = Inr None \<Longrightarrow> doomed E A c tag d'"
proof -
  have "q \<noteq> Inr (Some ()) \<and> (q = Inr None \<longrightarrow> doomed E A c tag d')"
    using run
  proof (cases rule: download_round_cases)
    case (failed v)
    from doomed_once [OF d md5 failed(1)] download_failed_run [OF failed(2)]
    show ?thesis by (auto simp: doomed_def stuck_def before_resuming_def)
  qed (use doomed_once [OF d md5] in auto)
  then show "q \<noteq> Inr (Some ())" and "q = Inr None \<Longrightarrow> doomed E A c tag d'" by blast+
qed

text \<open>
  C28: a resumed download that is interrupted once never succeeds. The local file holds a beginning of
  the content, its tag is known, and every reply to the request for the rest breaks off; all
  other requests may be answered in full. The handler still never returns: the reply to the request
  for a range has set the size of the key to the length of the range, and the next attempts ask
  for too little, or stop because the file is larger than the key.
\<close>

theorem second_interruption_fatal:
  assumes "before_resuming E A c tag d" and "no_collision A c tag"
  shows "fst (download_get_file rounds E A d) \<noteq> Inr ()"
proof
  assume "fst (download_get_file rounds E A d) = Inr ()"
  then obtain d' where run: "loop_st rounds (download_round E A) (d\<lparr>dl_idle := 0\<rparr>) = (Inr (), d')"
    by (cases "loop_st rounds (download_round E A) (d\<lparr>dl_idle := 0\<rparr>)") (auto simp: download_get_file_def)
  have start: "doomed E A c tag (d\<lparr>dl_idle := 0\<rparr>)" using assms(1) by (simp add: doomed_def before_resuming_def)
  have "\<exists>s. doomed E A c tag s \<and> (case Inr () of Inl e \<Rightarrow> download_round E A s = (Inl e, d') | Inr x \<Rightarrow> download_round E A s = (Inr (Some x), d'))"
    by (rule loop_st_last_round [where P = "doomed E A c tag", OF start _ run]) (use doomed_round(2) [OF _ assms(2)] in auto)
  then show False using doomed_round(1) [OF _ assms(2)] by auto
qed


section \<open>A new download onto an old file\<close>

definition answers :: "dl_env \<Rightarrow> bool" where
  "answers E \<longleftrightarrow> (\<forall>h. \<exists>x. E h = Inr x)"

lemma answers_act: "answers E \<Longrightarrow> dl_act E e d = (Inr (), d\<lparr>dl_log := dl_log d @ [e]\<rparr>)"
  unfolding answers_def by (auto simp: dl_act_def dl_do_def andthen_def bnd_def ret_def split: sum.splits) (metis sum.distinct(1))

lemma answers_save: "answers E \<Longrightarrow> \<exists>v. save_tracker_info E A d = (Inr (), v)"
  by (cases "da_tracker A") (simp_all add: save_tracker_info_def try_except_def andthen_def bnd_def ret_def answers_act)

lemma answers_remove:
  "answers E \<Longrightarrow> \<exists>u. remove_download_tracker E A d = (Inr (), u) \<and> dl_file u = dl_file d \<and> dl_key_etag u = dl_key_etag d"
  by (cases "da_tracker A \<and> dl_disk d \<noteq> None") (auto simp: remove_download_tracker_def andthen_def bnd_def ret_def answers_act)

lemma answers_call_back: "answers E \<Longrightarrow> \<exists>l. call_back E A None k d = (Inr (), d\<lparr>dl_log := l\<rparr>)"
  by (cases "da_cb A") (auto simp: call_back_def answers_act ret_def intro: exI [of _ "dl_log d"])

lemma piece_report_ends: "answers E \<Longrightarrow> \<exists>j v. piece_report E A None every k i d = (Inr j, v)"
proof -
  assume "answers E"
  then obtain l where "call_back E A None k d = (Inr (), d\<lparr>dl_log := l\<rparr>)" using answers_call_back by blast
  then have "andthen (call_back E A None k) (ret 0) d = (Inr 0, d\<lparr>dl_log := l\<rparr>)" for x
    by (simp add: andthen_def bnd_def ret_def)
  then show ?thesis by (auto simp: piece_report_def ret_def)
qed

lemma read_pieces_ends:
  assumes "answers E"
  shows "\<exists>k' v. read_pieces E A None every ps None k i d = (Inr k', v)"
proof (induction ps arbitrary: k i d)
  case (Cons p ps)
  let ?d = "snd (file_write A p d)"
  obtain j v where "piece_report E A None every (k + int (length p)) i ?d = (Inr j, v)"
    using piece_report_ends [OF assms] by blast
  with Cons.IH [of "k + int (length p)" j v] show ?case
    by (cases "p = []") (auto simp: ret_def andthen_def bnd_def file_write_def)
qed (simp add: ret_def)

lemma key_get_file_onto:
  assumes E: "answers E" and d: "dl_resp d = None" "dl_file d = []" and c: "c \<noteq> []"
    and law: "\<And>evs r. E (evs @ [GetKey hs]) = Inr r \<Longrightarrow> delivers c tag r \<and> dr_ending r = None"
  shows "\<exists>d'. key_get_file E A None hs d = (Inr (), d') \<and> dl_resp d' = None \<and> same_but_file d d' \<and> dl_key_etag d' = quoted tag
    \<and> dl_file d' = (if da_append A then [] else replicate (dl_pos d) (CHR 0x00)) @ c"
proof -
  have call: "\<exists>l. (if has_callback A None then call_back E A None k else ret ()) v = (Inr (), v\<lparr>dl_log := l\<rparr>)" for k v
    using answers_call_back [OF E] by (auto simp: ret_def intro: exI [of _ "dl_log v"])
  obtain l1 where 1: "(if has_callback A None then call_back E A None 0 else ret ()) d = (Inr (), d\<lparr>dl_log := l1\<rparr>)" using call by blast
  obtain r where r: "E (l1 @ [GetKey hs]) = Inr r" using E unfolding answers_def by blast
  from law [OF this] have rep: "delivers c tag r" "dr_ending r = None" by simp_all
  define d2 where "d2 = d\<lparr>dl_log := l1 @ [GetKey hs], dl_resp := Some (dr_pieces r, dr_ending r), dl_key_size := int (length c),
      dl_key_etag := quoted tag\<rparr>"
  have "dr_headers r = [(''Content-Length'', int_str (int (length c))), (''ETag'', quoted tag)]"
      "\<not> (dr_status r < 199 \<or> dr_status r > 299)" using rep by (auto simp: delivers_def)
  then have 2: "open_read E hs (d\<lparr>dl_log := l1\<rparr>) = (Inr (), d2)"
    using d r by (simp add: open_read_def dl_do_def bnd_def read_headers_honest d2_def del: read_headers.simps)
  let ?every = "report_every A (dl_key_size d)"
  obtain k d3 where 3: "read_pieces E A None ?every (dr_pieces r) None 0 0 d2 = (Inr k, d3)" using read_pieces_ends [OF E] by blast
  obtain p ps where ps: "dr_pieces r = p # ps" "p \<noteq> []" "p @ concat ps = c" "[] \<notin> set ps"
    using rep c by (cases "dr_pieces r") (auto simp: delivers_def)
  let ?z = "(if da_append A then [] else replicate (dl_pos d) (CHR 0x00))"
  define d2' where "d2' = snd (file_write A p d2)"
  have d2': "dl_file d2' = ?z @ p" "at_end A d2'" "same_but_file d2 d2'" "dl_key_etag d2' = quoted tag"
    using ps(2) d by (auto simp: d2'_def file_write_def write_at_def write_pos_def d2_def at_end_def same_but_file_def)
  obtain j v where v: "piece_report E A None ?every (int (length p)) 0 d2' = (Inr j, v)" using piece_report_ends [OF E] by blast
  from piece_report_run [OF this] obtain evs where evs: "v = d2'\<lparr>dl_log := dl_log d2' @ evs\<rparr>" by blast
  have rest: "read_pieces E A None ?every ps None (int (length p)) j v = (Inr k, d3)"
    using 3 v ps(1,2) by (simp add: andthen_def bnd_def d2'_def file_write_def)
  have "at_end A v" using d2' evs by (simp add: at_end_def)
  from read_pieces_run [OF rest this] ps(4) obtain evs' z where
    "d3 = v\<lparr>dl_log := dl_log v @ evs', dl_file := dl_file v @ concat ps, dl_pos := z\<rparr>" by blast
  then have "same_but_file d2' d3 \<and> dl_key_etag d3 = dl_key_etag d2' \<and> dl_file d3 = dl_file d2' @ concat ps"
    by (simp add: evs same_but_file_def)
  then have d3: "same_but_file d d3" "dl_key_etag d3 = quoted tag" "dl_file d3 = ?z @ c"
    using d2' ps(3) by (auto simp: same_but_file_def d2_def)
  obtain l where "(if has_callback A None then call_back E A None k else ret ()) (d3\<lparr>dl_resp := None\<rparr>)
      = (Inr (), d3\<lparr>dl_resp := None, dl_log := l\<rparr>)" using call [of k "d3\<lparr>dl_resp := None\<rparr>"] by auto
  then have "key_get_file E A None hs d = (Inr (), d3\<lparr>dl_resp := None, dl_log := l\<rparr>)"
    using 1 2 3 rep(2) by (simp add: key_get_file_def andthen_def bnd_def d2_def)
  with d3 show ?thesis by (intro exI [of _ "d3\<lparr>dl_resp := None, dl_log := l\<rparr>"]) (simp add: same_but_file_def)
qed

text \<open>
  A download from scratch, of which the server sends everything at once: unless the file was opened for
  appending, the content comes after as many zero bytes as the file was long.
\<close>

lemma fresh_download:
  assumes "answers E" and "dl_resp d = None" and "dl_etag d = None" and "strip_quotes (dl_key_etag d) = tag" and "plain_tag tag"
    and "c \<noteq> []" and "\<And>evs r. E (evs @ [GetKey (da_headers A)]) = Inr r \<Longrightarrow> delivers c tag r \<and> dr_ending r = None"
    and "0 < rounds"
  shows "\<exists>r d'. download_get_file rounds E A d = (r, d')
    \<and> dl_file d' = (if da_append A then [] else replicate (length (dl_file d)) (CHR 0x00)) @ c
    \<and> (if da_md5 A (dl_file d') = tag then r = Inr () else r = Inl (TransferError ABORT) \<and> dl_deleted d')"
proof -
  let ?d = "d\<lparr>dl_idle := 0, dl_pos := length (dl_file d)\<rparr>"
  obtain v where v: "save_tracker_info E A ?d = (Inr (), v)" using answers_save [OF assms(1)] by blast
  note save = save_tracker_run [OF v]
  let ?v = "v\<lparr>dl_start_point := Some 0, dl_file := []\<rparr>"
  have v': "dl_resp ?v = None" "dl_file ?v = []" "dl_pos ?v = length (dl_file d)"
    using assms(2) by (subst save, simp)+
  have "\<exists>w. key_get_file E A None (da_headers A) ?v = (Inr (), w) \<and> dl_resp w = None \<and> same_but_file ?v w \<and> dl_key_etag w = quoted tag
      \<and> dl_file w = (if da_append A then [] else replicate (dl_pos ?v) (CHR 0x00)) @ c"
    by (rule key_get_file_onto [OF assms(1) v'(1,2) assms(6)]) (rule assms(7))
  with v'(3) obtain w where w: "key_get_file E A None (da_headers A) ?v = (Inr (), w)"
    "dl_key_etag w = quoted tag" "dl_file w = (if da_append A then [] else replicate (length (dl_file d)) (CHR 0x00)) @ c" by metis
  have once: "download_once E A (d\<lparr>dl_idle := 0\<rparr>) = try_except (finish_download E A) tried_again (\<lambda>_. ret False) w"
    using assms(3) v w by (simp add: download_once_alt try_except_def attempt_resumable_download_def get_cur_file_size_def resumes_def
        file_truncate_def bnd_def andthen_def ret_def)
  obtain u where u: "remove_download_tracker E A w = (Inr (), u)" "dl_file u = dl_file w" "dl_key_etag u = dl_key_etag w"
    using answers_remove [OF assms(1)] by blast
  obtain x where "rounds = Suc x" using assms(8) by (cases rounds) auto
  then have loop: "download_get_file rounds E A d = (case download_once E A (d\<lparr>dl_idle := 0\<rparr>) of (Inl e, s) \<Rightarrow> (Inl e, s)
      | (Inr f, s) \<Rightarrow> if f then (Inr (), s) else download_get_file rounds E A d)" if "\<And>s. download_once E A (d\<lparr>dl_idle := 0\<rparr>) \<noteq> (Inr False, s)"
    using that by (auto simp: download_get_file_def download_round_def get_cur_file_size_def bnd_def andthen_def ret_def split: prod.splits sum.splits)
  have tag: "strip_quotes (dl_key_etag u) = tag" using u w assms(5) by (simp add: plain_tag_def)
  show ?thesis
  proof (cases "da_md5 A (dl_file w) = tag")
    case True
    then obtain s where "download_once E A (d\<lparr>dl_idle := 0\<rparr>) = (Inr True, s)" "dl_file s = dl_file w"
      using once u tag by (auto simp: try_except_def finish_download_def check_download_md5_def andthen_def bnd_def ret_def)
    with loop True w show ?thesis by auto
  next
    case False
    then obtain s where "download_once E A (d\<lparr>dl_idle := 0\<rparr>) = (Inl (TransferError ABORT), s)" "dl_file s = dl_file w" "dl_deleted s"
      using once u tag answers_act [OF assms(1)]
      by (auto simp: try_except_def finish_download_def check_download_md5_def andthen_def bnd_def ret_def raise_def)
    with loop False w show ?thesis by auto
  qed
qed


text \<open>
  A new download onto a file that holds something cannot succeed. Nothing is known of the tag, the server
  sends the whole key at once and nothing fails. The file is emptied, but the position stays at its old
  end: unless the file was opened for appending, zero bytes fill the gap before the content, the checksum
  is not the tag, and the file is deleted and the download refused.
\<close>

theorem download_over_file:
  assumes "answers E" and "dl_resp d = None" and "dl_etag d = None" and "strip_quotes (dl_key_etag d) = tag" and "plain_tag tag"
    and "c \<noteq> []" and "\<And>evs r. E (evs @ [GetKey (da_headers A)]) = Inr r \<Longrightarrow> delivers c tag r \<and> dr_ending r = None"
    and "0 < rounds" and "\<not> da_append A" and "da_md5 A (replicate (length (dl_file d)) (CHR 0x00) @ c) \<noteq> tag"
  shows "\<exists>d'. download_get_file rounds E A d = (Inl (TransferError ABORT), d') \<and> dl_deleted d'
    \<and> dl_file d' = replicate (length (dl_file d)) (CHR 0x00) @ c"
proof -
  have "\<exists>r d'. download_get_file rounds E A d = (r, d')
    \<and> dl_file d' = (if da_append A then [] else replicate (length (dl_file d)) (CHR 0x00)) @ c
    \<and> (if da_md5 A (dl_file d') = tag then r = Inr () else r = Inl (TransferError ABORT) \<and> dl_deleted d')"
    by (rule fresh_download [OF assms(1-6) _ assms(8)]) (rule assms(7))
  with assms(9,10) show ?thesis by auto
qed


section \<open>A resumed download without a callback\<close>

text \<open>
  A download cannot be resumed without a callback: reporting the start raises \<open>TypeError\<close>, which is not
  tried again, before anything is asked of the server.
\<close>

theorem resume_without_callback:
  assumes "\<not> da_cb A" and "resumes (int (length (dl_file d))) d" and "int (length (dl_file d)) < dl_key_size d" and "0 < rounds"
  shows "\<exists>d'. download_get_file rounds E A d = (Inl TypeError, d') \<and> dl_log d' = dl_log d \<and> dl_file d' = dl_file d"
proof -
  let ?k = "length (dl_file d)"
  obtain x where rounds: "rounds = Suc x" using assms(4) by (cases rounds) auto
  let ?d = "d\<lparr>dl_idle := 0, dl_pos := ?k, dl_start_point := Some (int ?k)\<rparr>"
  have "resumes (int ?k) (d\<lparr>dl_idle := 0, dl_pos := ?k\<rparr>)" using assms(2) by (auto simp: resumes_def split: option.splits)
  then have "attempt_resumable_download E A (d\<lparr>dl_idle := 0\<rparr>) = (Inl TypeError, ?d)"
    using assms(1,3) by (simp add: attempt_resumable_download_def get_cur_file_size_def key_get_file_def has_callback_def call_back_def
        bnd_def andthen_def ret_def raise_def)
  then have "download_once E A (d\<lparr>dl_idle := 0\<rparr>) = (Inl TypeError, ?d)"
    by (simp add: download_once_def try_except_def andthen_def bnd_def tried_again_def)
  then show ?thesis
    using rounds by (simp add: download_get_file_def download_round_def get_cur_file_size_def bnd_def andthen_def ret_def)
qed


section \<open>Examples\<close>

text \<open>A key that holds two bytes, of which the local file has one, and a server whose replies to requests for a range break off.\<close>

definition download0 :: download where
  "download0 = \<lparr>dl_log = [], dl_file = ''a'', dl_pos = 0, dl_deleted = False, dl_disk = Some (''t'' @ [nl]), dl_etag = Some ''t'',
     dl_start_point = None, dl_key_size = 2, dl_key_etag = quoted ''t'', dl_resp = None, dl_idle = 0\<rparr>"

definition dargs0 :: download_args where
  "dargs0 = \<lparr>da_tracker = True, da_append = False, da_num_retries = 2, da_headers = [], da_cb = True, da_num_cb = 10,
     da_md5 = (\<lambda>s. if s = ''ab'' then ''t'' else ''u'')\<rparr>"

definition reply_of :: "string \<Rightarrow> string list \<Rightarrow> py_exc option \<Rightarrow> dl_reply" where
  "reply_of s ps ending = \<lparr>dr_status = 206, dr_headers = [(''Content-Length'', int_str (int (length s))), (''ETag'', quoted ''t'')],
     dr_pieces = ps, dr_ending = ending\<rparr>"

definition env_broken :: dl_env where
  "env_broken evs = Inr (case last evs of GetKey hs \<Rightarrow> if hs = [] then reply_of ''ab'' [''ab''] None else reply_of ''b'' [] (Some IOError)
     | _ \<Rightarrow> reply_of [] [] None)"

lemma plain_t: "plain_tag ''t''" "strip_quotes (quoted ''t'') = ''t''"
  by code_simp+

lemma honest_broken: "honest env_broken dargs0 ''ab'' ''t''"
proof -
  have pair: "k = 1 \<and> m = 2" if "0 < k" "k < m" "m \<le> length ''ab''" for k m :: nat using that by simp
  show ?thesis
    by (auto simp: honest_def env_broken_def dargs0_def delivers_def reply_of_def dest!: pair)
qed

lemma before0: "before_resuming env_broken dargs0 ''ab'' ''t'' download0"
  using honest_broken plain_t
  by (auto simp: before_resuming_def download0_def interrupted_def env_broken_def dargs0_def reply_of_def strict_prefix_def)

theorem second_interruption_fatal_witness:
  "fst (download_get_file 9 env_broken dargs0 download0) \<noteq> Inr ()"
proof (rule second_interruption_fatal [OF before0])
  show "no_collision dargs0 ''ab'' ''t''" by (auto simp: no_collision_def dargs0_def)
qed


theorem download_over_file_witness:
  "\<exists>d'. download_get_file 1 env_broken dargs0 (download0\<lparr>dl_etag := None, dl_file := ''xyz''\<rparr>) = (Inl (TransferError ABORT), d')
     \<and> dl_file d' = [CHR 0x00, CHR 0x00, CHR 0x00, CHR ''a'', CHR ''b'']"
proof -
  let ?d = "download0\<lparr>dl_etag := None, dl_file := ''xyz''\<rparr>"
  have "answers env_broken" by (simp add: answers_def env_broken_def)
  moreover have "delivers ''ab'' ''t'' r \<and> dr_ending r = None" if "env_broken (evs @ [GetKey (da_headers dargs0)]) = Inr r" for evs r
    using that by (auto simp: env_broken_def dargs0_def delivers_def reply_of_def)
  ultimately have "\<exists>d'. download_get_file 1 env_broken dargs0 ?d = (Inl (TransferError ABORT), d') \<and> dl_deleted d'
      \<and> dl_file d' = replicate (length (dl_file ?d)) (CHR 0x00) @ ''ab''"
    by (intro download_over_file [of env_broken ?d "''t''" "''ab''" dargs0 1]) (simp_all add: download0_def plain_t dargs0_def numeral_3_eq_3)
  then show ?thesis by (auto simp: numeral_3_eq_3)
qed

theorem resume_without_callback_witness:
  "\<exists>d'. download_get_file 1 env_broken (dargs0\<lparr>da_cb := False\<rparr>) download0 = (Inl TypeError, d') \<and> dl_log d' = [] \<and> dl_file d' = ''a''"
  using resume_without_callback [of "dargs0\<lparr>da_cb := False\<rparr>" download0 1 env_broken] plain_t
  by (simp add: download0_def resumes_def)

text \<open>A server that sends everything.\<close>

definition env_full :: dl_env where
  "env_full evs = Inr (reply_of ''ab'' [''ab''] None)"

theorem download_returns_checked_witness:
  "\<exists>d'. download_get_file 1 env_full dargs0 (download0\<lparr>dl_etag := None, dl_file := []\<rparr>) = (Inr (), d')
     \<and> da_md5 dargs0 (dl_file d') = strip_quotes (dl_key_etag d') \<and> dl_disk d' = None"
proof -
  let ?d = "download0\<lparr>dl_etag := None, dl_file := []\<rparr>"
  have "answers env_full" by (simp add: answers_def env_full_def)
  moreover have "delivers ''ab'' ''t'' r \<and> dr_ending r = None" if "env_full (evs @ [GetKey (da_headers dargs0)]) = Inr r" for evs r
    using that by (auto simp: env_full_def delivers_def reply_of_def)
  ultimately have "\<exists>r d'. download_get_file 1 env_full dargs0 ?d = (r, d')
    \<and> dl_file d' = (if da_append dargs0 then [] else replicate (length (dl_file ?d)) (CHR 0x00)) @ ''ab''
    \<and> (if da_md5 dargs0 (dl_file d') = ''t'' then r = Inr () else r = Inl (TransferError ABORT) \<and> dl_deleted d')"
    by (intro fresh_download [of env_full ?d "''t''" "''ab''" dargs0 1]) (simp_all add: download0_def plain_t)
  then obtain d' where "download_get_file 1 env_full dargs0 ?d = (Inr (), d')" by (auto simp: dargs0_def)
  with download_returns_checked [OF this] show ?thesis by (auto simp: dargs0_def)
qed

end
