(* ===== verification/BotoSequence.thy ===== *)
theory BotoSequence
  imports BotoText
begin

text \<open>
  \<open>boto/sdb/db/sequence.py\<close>: generators of strings and counters that are kept in an item of SimpleDB and
  advanced by conditional writes. The service answers as an arbitrary function of the calls made
  before; the theorems about it assume what \<open>Domain.put_attributes\<close> documents. Several processes use a
  counter at the same time: a schedule says whose call comes next.
\<close>


section \<open>Generators\<close>

text \<open>
  The sequence is a list of texts of one positive length, or a text, as the list of its characters.
\<close>

record generator =
  sequence_string :: "string list"
  rollover :: bool

definition sequence_length :: "generator \<Rightarrow> nat" where
  "sequence_length G = length (hd (sequence_string G))"

fun position :: "'a \<Rightarrow> 'a list \<Rightarrow> nat option" where
  "position x [] = None"
| "position x (y # ys) = (if x = y then Some 0 else map_option Suc (position x ys))"

definition gen_inc :: "generator \<Rightarrow> string \<Rightarrow> py_exc + string" where
  "gen_inc G v =
     (case position v (sequence_string G) of
        None \<Rightarrow> Inl ValueError
      | Some i \<Rightarrow> Inr (sequence_string G ! ((i + 1) mod length (sequence_string G))))"

text \<open>The last item at the end of the text carries to what comes before it.\<close>

function gen_next :: "generator \<Rightarrow> string option \<Rightarrow> py_exc + string" where
  "gen_next G None = Inr (hd (sequence_string G))"
| "gen_next G (Some v) =
     (if length v < sequence_length G \<or> sequence_length G = 0 then Inr (hd (sequence_string G))
      else (let front = take (length v - sequence_length G) v; suffix = drop (length v - sequence_length G) v in
            case (if \<not> rollover G \<and> suffix = last (sequence_string G) then gen_next G (Some front) else Inr front) of
              Inl e \<Rightarrow> Inl e
            | Inr front' \<Rightarrow> (case gen_inc G suffix of Inl e \<Rightarrow> Inl e | Inr w \<Rightarrow> Inr (front' @ w))))"
  by pat_completeness auto
termination
  by (relation "measure (\<lambda>(G, v). case v of None \<Rightarrow> 0 | Some s \<Rightarrow> length s)") auto

declare gen_next.simps(2) [simp del]

definition increment_string :: generator where
  "increment_string = \<lparr>sequence_string = map (\<lambda>c. [c]) ''ABCDEFGHIJKLMNOPQRSTUVWXYZ'', rollover = False\<rparr>"

definition increment_by_one :: "int option \<Rightarrow> int option \<Rightarrow> int" where
  "increment_by_one cv lv = (case cv of None \<Rightarrow> 0 | Some c \<Rightarrow> c + 1)"

definition double :: "int option \<Rightarrow> int option \<Rightarrow> int" where
  "double cv lv = (case cv of None \<Rightarrow> 1 | Some c \<Rightarrow> c * 2)"

definition fib :: "int option \<Rightarrow> int option \<Rightarrow> int" where
  "fib cv lv = (case cv of None \<Rightarrow> 1 | Some c \<Rightarrow> c) + (case lv of None \<Rightarrow> 0 | Some l \<Rightarrow> l)"


section \<open>Counters\<close>

datatype sdb_call =
    GetDomain string
  | CreateDomain string
  | GetItem
  | PutItem "(string, string) dict" "string option"
  | DeleteItem

datatype sdb_answer = Refused int | Attributes "(string, string) dict"

type_synonym sdb_env = "sdb_call list \<Rightarrow> sdb_answer"

text \<open>
  The type of the values: the function that makes the next one, \<open>str\<close> and the type's constructor. The
  counter's object: \<open>sq_connected\<close> is whether it holds the domain; \<open>sq_log\<close> is what all processes
  together have asked of the service.
\<close>

record 'v seq_type =
  st_fnc :: "'v option \<Rightarrow> 'v option \<Rightarrow> 'v"
  st_show :: "'v \<Rightarrow> string"
  st_read :: "string \<Rightarrow> py_exc + 'v"

record 'v counter =
  sq_log :: "sdb_call list"
  sq_domain_name :: "string option"
  sq_connected :: bool
  sq_value :: "'v option"
  sq_last_value :: "'v option"
  sq_timestamp :: "string option"

definition sdb_do :: "sdb_env \<Rightarrow> sdb_call \<Rightarrow> ('v counter, sdb_answer) st" where
  "sdb_do E c s = (Inr (E (sq_log s @ [c])), s\<lparr>sq_log := sq_log s @ [c]\<rparr>)"

definition sdb_refused :: "int \<Rightarrow> ('v counter, 'a) st" where
  "sdb_refused status = raise (ServiceError (int_str status))"

text \<open>
  The connection is made, and named \<open>sdb\<close>, only where no domain is named: with a name, \<open>sdb\<close> is a local
  variable that was never set.
\<close>

definition seq_connect :: "sdb_env \<Rightarrow> string \<Rightarrow> ('v counter, unit) st" where
  "seq_connect E default_name =
     bnd (gets (\<lambda>s. (sq_connected s, sq_domain_name s))) (\<lambda>(connected, name).
     if connected then ret ()
     else if name \<noteq> None \<and> name \<noteq> Some [] then raise (NameError ''sdb'')
     else andthen (modify (\<lambda>s. s\<lparr>sq_domain_name := Some default_name\<rparr>))
         (bnd (sdb_do E (GetDomain default_name)) (\<lambda>a. case a of
            Attributes _ \<Rightarrow> modify (\<lambda>s. s\<lparr>sq_connected := True\<rparr>)
          | Refused status \<Rightarrow>
              if status \<noteq> 400 then sdb_refused status
              else bnd (sdb_do E (CreateDomain default_name)) (\<lambda>a. case a of
                     Attributes _ \<Rightarrow> modify (\<lambda>s. s\<lparr>sq_connected := True\<rparr>)
                   | Refused status \<Rightarrow> sdb_refused status))))"

definition read_value :: "'v seq_type \<Rightarrow> (string, string) dict \<Rightarrow> string \<Rightarrow> ('v option \<Rightarrow> 'v counter \<Rightarrow> 'v counter) \<Rightarrow> ('v counter, unit) st" where
  "read_value T attrs name store =
     (case dget attrs name of None \<Rightarrow> ret ()
      | Some t \<Rightarrow> bnd (lift_sum (st_read T t)) (\<lambda>v. modify (store (Some v))))"

definition seq_get :: "sdb_env \<Rightarrow> string \<Rightarrow> 'v seq_type \<Rightarrow> ('v counter, 'v option) st" where
  "seq_get E default_name T =
     andthen (seq_connect E default_name)
    (bnd (sdb_do E GetItem) (\<lambda>a. case a of
       Refused status \<Rightarrow> sdb_refused status
     | Attributes attrs \<Rightarrow>
         andthen (modify (\<lambda>s. case dget attrs ''timestamp'' of None \<Rightarrow> s | Some t \<Rightarrow> s\<lparr>sq_timestamp := Some t\<rparr>))
        (andthen (read_value T attrs ''current_value'' (\<lambda>v s. s\<lparr>sq_value := v\<rparr>))
        (andthen (read_value T attrs ''last_value'' (\<lambda>v s. s\<lparr>sq_last_value := v\<rparr>))
           (gets sq_value)))))"

definition new_attributes :: "'v seq_type \<Rightarrow> string \<Rightarrow> 'v option \<Rightarrow> 'v \<Rightarrow> (string, string) dict" where
  "new_attributes T now old v =
     (''timestamp'', now) # (case old of None \<Rightarrow> [] | Some w \<Rightarrow> [(''last_value'', st_show T w)])
       @ [(''current_value'', st_show T v)]"

definition seq_set :: "sdb_env \<Rightarrow> string \<Rightarrow> 'v seq_type \<Rightarrow> string \<Rightarrow> 'v \<Rightarrow> ('v counter, unit) st" where
  "seq_set E default_name T now v =
     bnd (gets sq_value) (\<lambda>old.
     andthen (seq_connect E default_name)
    (bnd (sdb_do E (PutItem (new_attributes T now old v) (map_option (st_show T) old))) (\<lambda>a. case a of
       Attributes _ \<Rightarrow> modify (\<lambda>s. s\<lparr>sq_timestamp := Some now\<rparr>)
     | Refused status \<Rightarrow> if status = 409 then raise ValueError else sdb_refused status)))"

text \<open>\<open>next\<close>: reads, writes the next value, and reads again for the value that it returns.\<close>

definition seq_next :: "sdb_env \<Rightarrow> string \<Rightarrow> 'v seq_type \<Rightarrow> string \<Rightarrow> ('v counter, 'v option) st" where
  "seq_next E default_name T now =
     bnd (seq_get E default_name T) (\<lambda>cv.
     bnd (gets sq_last_value) (\<lambda>lv.
     andthen (seq_set E default_name T now (st_fnc T cv lv)) (seq_get E default_name T)))"

definition seq_init :: "sdb_env \<Rightarrow> string \<Rightarrow> 'v seq_type \<Rightarrow> string \<Rightarrow> string option \<Rightarrow> string option \<Rightarrow> 'v option \<Rightarrow> ('v counter, unit) st" where
  "seq_init E default_name T now name domain_name init_val =
     andthen (modify (\<lambda>s. \<lparr>sq_log = sq_log s, sq_domain_name = domain_name, sq_connected = False, sq_value = None,
                sq_last_value = None, sq_timestamp = None\<rparr>))
    (andthen (if name \<noteq> None then ret ()
              else seq_set E default_name T now (case init_val of None \<Rightarrow> st_fnc T None None | Some v \<Rightarrow> v))
       (modify (\<lambda>s. s\<lparr>sq_timestamp := None\<rparr>)))"

text \<open>\<open>delete\<close>, which \<open>__del__\<close> calls when the object is collected.\<close>

definition seq_delete :: "sdb_env \<Rightarrow> string \<Rightarrow> ('v counter, unit) st" where
  "seq_delete E default_name =
     andthen (seq_connect E default_name) (bnd (sdb_do E DeleteItem) (\<lambda>a. case a of
       Attributes _ \<Rightarrow> ret () | Refused status \<Rightarrow> sdb_refused status))"


section \<open>Several processes\<close>

text \<open>
  Each process calls \<open>next\<close>, one call of the service at a time: reading, writing, reading again.
\<close>

datatype 'v progress = Idle | Computed 'v | Stored | Returned "'v option" | Failed py_exc

record 'v process =
  pr_counter :: "'v counter"
  pr_at :: "'v progress"

record 'v system =
  sys_log :: "sdb_call list"
  sys_processes :: "nat \<Rightarrow> 'v process"

definition run_on :: "nat \<Rightarrow> ('v counter, 'v progress) st \<Rightarrow> 'v system \<Rightarrow> 'v system" where
  "run_on i m S =
     (case m ((pr_counter (sys_processes S i))\<lparr>sq_log := sys_log S\<rparr>) of (r, s) \<Rightarrow>
        \<lparr>sys_log = sq_log s,
         sys_processes = (sys_processes S)(i := \<lparr>pr_counter = s, pr_at = (case r of Inl e \<Rightarrow> Failed e | Inr p \<Rightarrow> p)\<rparr>)\<rparr>)"

definition next_step :: "sdb_env \<Rightarrow> string \<Rightarrow> 'v seq_type \<Rightarrow> string \<Rightarrow> 'v progress \<Rightarrow> ('v counter, 'v progress) st" where
  "next_step E default_name T now p =
     (case p of
        Computed v \<Rightarrow> andthen (seq_set E default_name T now v) (ret Stored)
      | Stored \<Rightarrow> bnd (seq_get E default_name T) (\<lambda>v. ret (Returned v))
      | _ \<Rightarrow> bnd (seq_get E default_name T) (\<lambda>cv. bnd (gets sq_last_value) (\<lambda>lv. ret (Computed (st_fnc T cv lv)))))"

definition schedule_step :: "sdb_env \<Rightarrow> string \<Rightarrow> 'v seq_type \<Rightarrow> string \<Rightarrow> nat \<Rightarrow> 'v system \<Rightarrow> 'v system" where
  "schedule_step E default_name T now i S = run_on i (next_step E default_name T now (pr_at (sys_processes S i))) S"

fun run_schedule :: "sdb_env \<Rightarrow> string \<Rightarrow> 'v seq_type \<Rightarrow> string \<Rightarrow> nat list \<Rightarrow> 'v system \<Rightarrow> 'v system" where
  "run_schedule E default_name T now [] S = S"
| "run_schedule E default_name T now (i # is) S = run_schedule E default_name T now is (schedule_step E default_name T now i S)"

end
