(* ===== verification/BotoSequenceFacts.thy ===== *)
theory BotoSequenceFacts
  imports BotoSequence
begin

text \<open>
  What generators and counters guarantee: a generator enumerates all texts over its items, each once; the
  values that processes store in a counter increase; but the value that \<open>next\<close> returns need not be
  the one it stored.
\<close>


section \<open>Generators count\<close>

definition gen_ok :: "generator \<Rightarrow> bool" where
  "gen_ok G \<longleftrightarrow> sequence_string G \<noteq> [] \<and> distinct (sequence_string G) \<and> \<not> rollover G
     \<and> 0 < sequence_length G \<and> (\<forall>w \<in> set (sequence_string G). length w = sequence_length G)"

text \<open>The number of a text, read from its items as digits from 1 to the number of items.\<close>

definition digit :: "generator \<Rightarrow> string \<Rightarrow> nat" where
  "digit G w = Suc (the (position w (sequence_string G)))"

definition text_number :: "generator \<Rightarrow> string list \<Rightarrow> nat" where
  "text_number G = foldl (\<lambda>n w. n * length (sequence_string G) + digit G w) 0"

lemma text_number_simps [simp]:
  "text_number G [] = 0"
  "text_number G (ws @ [w]) = text_number G ws * length (sequence_string G) + digit G w"
  by (simp_all add: text_number_def)

lemma position_nth: "distinct xs \<Longrightarrow> i < length xs \<Longrightarrow> position (xs ! i) xs = Some i"
proof (induction xs arbitrary: i)
  case (Cons x xs)
  then show ?case by (cases i) (auto dest: nth_mem)
qed simp

lemma digit_nth: "gen_ok G \<Longrightarrow> i < length (sequence_string G) \<Longrightarrow> digit G (sequence_string G ! i) = Suc i"
  by (simp add: digit_def gen_ok_def position_nth)

lemma item_index:
  assumes "w \<in> set (sequence_string G)"
  obtains i where "i < length (sequence_string G)" "w = sequence_string G ! i"
  using assms by (metis in_set_conv_nth)

lemma gen_inc_nth:
  assumes "gen_ok G" and "i < length (sequence_string G)"
  shows "gen_inc G (sequence_string G ! i) = Inr (sequence_string G ! (Suc i mod length (sequence_string G)))"
  using assms by (simp add: gen_inc_def gen_ok_def position_nth)

lemma gen_next_snoc:
  assumes G: "gen_ok G" and w: "w \<in> set (sequence_string G)"
  shows "gen_next G (Some (s @ w)) = (case (if w = last (sequence_string G) then gen_next G (Some s) else Inr s) of
      Inl e \<Rightarrow> Inl e | Inr front \<Rightarrow> (case gen_inc G w of Inl e \<Rightarrow> Inl e | Inr w' \<Rightarrow> Inr (front @ w')))"
proof -
  have "length w = sequence_length G" "0 < sequence_length G" "\<not> rollover G" using G w by (auto simp: gen_ok_def)
  then show ?thesis by (subst gen_next.simps(2)) (simp add: Let_def)
qed

lemma gen_next_counts:
  assumes G: "gen_ok G" and "set ws \<subseteq> set (sequence_string G)"
  shows "\<exists>ws'. set ws' \<subseteq> set (sequence_string G) \<and> gen_next G (Some (concat ws)) = Inr (concat ws')
    \<and> text_number G ws' = Suc (text_number G ws)"
  using assms(2)
proof (induction ws rule: rev_induct)
  case Nil
  let ?w = "sequence_string G ! 0"
  have items: "sequence_string G \<noteq> []" using G by (simp add: gen_ok_def)
  have "gen_next G (Some []) = Inr ?w" using G items by (subst gen_next.simps(2)) (simp add: gen_ok_def hd_conv_nth)
  moreover have "text_number G ([] @ [?w]) = 1" by (simp only: text_number_simps) (simp add: digit_nth [OF G] items)
  ultimately show ?case using items by (intro exI [of _ "[?w]"]) (simp add: nth_mem)
next
  case (snoc w ws)
  let ?k = "length (sequence_string G)"
  have k: "0 < ?k" using G by (auto simp: gen_ok_def)
  have w: "w \<in> set (sequence_string G)" using snoc.prems by simp
  then obtain i where i: "i < ?k" "w = sequence_string G ! i" by (rule item_index)
  show ?case
  proof (cases "Suc i = ?k")
    case True
    then have last: "w = last (sequence_string G)" using i k True by (metis diff_Suc_1 last_conv_nth length_greater_0_conv)
    from snoc obtain ws' where ws': "set ws' \<subseteq> set (sequence_string G)" "gen_next G (Some (concat ws)) = Inr (concat ws')"
      "text_number G ws' = Suc (text_number G ws)" by auto
    have "gen_inc G w = Inr (sequence_string G ! 0)" using gen_inc_nth [OF G i(1)] i True by simp
    then have "gen_next G (Some (concat (ws @ [w]))) = Inr (concat (ws' @ [sequence_string G ! 0]))"
      using gen_next_snoc [OF G w, of "concat ws"] last ws'(2) by simp
    moreover have "text_number G (ws' @ [sequence_string G ! 0]) = Suc (text_number G (ws @ [w]))"
      using ws'(3) True i digit_nth [OF G i(1)] digit_nth [OF G k] by simp
    ultimately show ?thesis using ws'(1) k by (intro exI [of _ "ws' @ [sequence_string G ! 0]"]) (simp add: nth_mem)
  next
    case False
    then have si: "Suc i < ?k" using i by simp
    have "w \<noteq> last (sequence_string G)"
      using False i k G by (auto simp: last_conv_nth gen_ok_def nth_eq_iff_index_eq)
    moreover have "gen_inc G w = Inr (sequence_string G ! Suc i)" using gen_inc_nth [OF G i(1)] i si by simp
    ultimately have "gen_next G (Some (concat (ws @ [w]))) = Inr (concat (ws @ [sequence_string G ! Suc i]))"
      using gen_next_snoc [OF G w, of "concat ws"] by simp
    moreover have "text_number G (ws @ [sequence_string G ! Suc i]) = Suc (text_number G (ws @ [w]))"
      using i digit_nth [OF G i(1)] digit_nth [OF G si] by simp
    ultimately show ?thesis using snoc.prems si by (intro exI [of _ "ws @ [sequence_string G ! Suc i]"]) (simp add: nth_mem)
  qed
qed

text \<open>The numbers identify the texts.\<close>

lemma digit_bounds: "gen_ok G \<Longrightarrow> w \<in> set (sequence_string G) \<Longrightarrow> 0 < digit G w \<and> digit G w \<le> length (sequence_string G)"
  by (metis Suc_leI digit_nth item_index zero_less_Suc)

lemma digit_inj:
  assumes "gen_ok G" "v \<in> set (sequence_string G)" "w \<in> set (sequence_string G)" "digit G v = digit G w"
  shows "v = w"
  using assms by (metis digit_nth item_index nat.inject)

lemma mixed_digits:
  fixes a b d e k :: nat
  assumes "a * k + d = b * k + e" "0 < d" "d \<le> k" "0 < e" "e \<le> k"
  shows "a = b \<and> d = e"
proof -
  have "a * k + (d - 1) = b * k + (e - 1)" "d - 1 < k" "e - 1 < k" using assms by auto
  moreover have "(x * k + y) div k = x" if "y < k" for x y :: nat using that by simp
  ultimately have "a = b" by metis
  then show ?thesis using assms by auto
qed

lemma text_number_inj:
  assumes G: "gen_ok G"
  shows "set ws \<subseteq> set (sequence_string G) \<Longrightarrow> set vs \<subseteq> set (sequence_string G) \<Longrightarrow> text_number G ws = text_number G vs \<Longrightarrow> ws = vs"
proof (induction ws arbitrary: vs rule: rev_induct)
  case Nil
  then show ?case using digit_bounds [OF G] by (cases vs rule: rev_cases) fastforce+
next
  case (snoc w ws)
  then show ?case
  proof (cases vs rule: rev_cases)
    case Nil
    with snoc.prems show ?thesis using digit_bounds [OF G, of w] by auto
  next
    case (snoc vs' v)
    with \<open>text_number G (ws @ [w]) = _\<close> have "text_number G ws = text_number G vs' \<and> digit G w = digit G v"
      using \<open>set (ws @ [w]) \<subseteq> _\<close> \<open>set vs \<subseteq> _\<close> by (intro mixed_digits) (auto dest: digit_bounds [OF G])
    with snoc show ?thesis
      using \<open>set (ws @ [w]) \<subseteq> _\<close> \<open>set vs \<subseteq> _\<close> snoc.IH digit_inj [OF G] by auto
  qed
qed

lemma concat_items_inj:
  assumes "gen_ok G" and "set vs \<subseteq> set (sequence_string G)" and "set ws \<subseteq> set (sequence_string G)"
  shows "concat vs = concat ws \<longleftrightarrow> vs = ws"
  using assms(2,3)
proof (induction vs arbitrary: ws)
  case Nil
  then show ?case using assms(1) by (cases ws) (auto simp: gen_ok_def)
next
  case (Cons v vs)
  show ?case
  proof (cases ws)
    case Nil
    with Cons.prems show ?thesis using assms(1) by (auto simp: gen_ok_def)
  next
    case (Cons w ws')
    with Cons.prems have "length v = length w" using assms(1) by (simp add: gen_ok_def)
    with Cons.prems Cons.IH [of ws'] Cons show ?thesis by auto
  qed
qed

text \<open>What repeated calls give, from \<open>None\<close> on.\<close>

fun nth_text :: "generator \<Rightarrow> nat \<Rightarrow> py_exc + string" where
  "nth_text G 0 = gen_next G None"
| "nth_text G (Suc n) = (case nth_text G n of Inl e \<Rightarrow> Inl e | Inr s \<Rightarrow> gen_next G (Some s))"

lemma nth_text_number:
  assumes G: "gen_ok G"
  shows "\<exists>ws. set ws \<subseteq> set (sequence_string G) \<and> nth_text G n = Inr (concat ws) \<and> text_number G ws = Suc n"
proof (induction n)
  case 0
  have "0 < length (sequence_string G)" using G by (simp add: gen_ok_def)
  then have "text_number G ([] @ [sequence_string G ! 0]) = 1" by (simp only: text_number_simps) (simp add: digit_nth [OF G])
  with \<open>0 < length _\<close> show ?case by (intro exI [of _ "[sequence_string G ! 0]"]) (simp add: nth_mem hd_conv_nth)
next
  case (Suc n)
  then obtain ws where "set ws \<subseteq> set (sequence_string G)" "nth_text G n = Inr (concat ws)" "text_number G ws = Suc n" by blast
  with gen_next_counts [OF G, of ws] show ?case by auto
qed




section \<open>The service\<close>

text \<open>
  The item after some calls, and a service that does what \<open>Domain.put_attributes\<close> documents: a write with an
  expected value is refused with the status 409 unless the item has that value; a consistent read
  returns what was written last.
\<close>

definition as_expected :: "string option \<Rightarrow> (string, string) dict \<Rightarrow> bool" where
  "as_expected e attrs \<longleftrightarrow> e = None \<or> dget attrs ''current_value'' = e"

definition write_all :: "(string, string) dict \<Rightarrow> (string, string) dict \<Rightarrow> (string, string) dict" where
  "write_all new attrs = fold (\<lambda>(k, v). dset k v) new attrs"

fun after_call :: "sdb_call \<Rightarrow> (string, string) dict \<Rightarrow> (string, string) dict" where
  "after_call (PutItem new e) attrs = (if as_expected e attrs then write_all new attrs else attrs)"
| "after_call DeleteItem attrs = []"
| "after_call c attrs = attrs"

definition sdb_item :: "sdb_call list \<Rightarrow> (string, string) dict" where
  "sdb_item calls = fold after_call calls []"

definition documented :: "sdb_env \<Rightarrow> bool" where
  "documented E \<longleftrightarrow>
     (\<forall>calls. E (calls @ [GetItem]) = Attributes (sdb_item calls))
     \<and> (\<forall>calls new e. E (calls @ [PutItem new e]) = (if as_expected e (sdb_item calls) then Attributes [] else Refused 409))"

definition sdb_service :: sdb_env where
  "sdb_service calls = (case last calls of
      GetItem \<Rightarrow> Attributes (sdb_item (butlast calls))
    | PutItem new e \<Rightarrow> if as_expected e (sdb_item (butlast calls)) then Attributes [] else Refused 409
    | _ \<Rightarrow> Attributes [])"

lemma documented_service: "documented sdb_service"
  by (simp add: documented_def sdb_service_def)

lemma sdb_item_snoc [simp]: "sdb_item (calls @ [c]) = after_call c (sdb_item calls)"
  by (simp add: sdb_item_def)

lemma dget_write_all:
  "distinct (map fst new) \<Longrightarrow> dget (write_all new attrs) k = (case dget new k of None \<Rightarrow> dget attrs k | Some v \<Rightarrow> Some v)"
proof (induction new arbitrary: attrs)
  case Nil
  then show ?case by (simp add: write_all_def)
next
  case (Cons x new)
  have "dget new (fst x) = None" using Cons.prems by (simp add: map_of_eq_None_iff)
  with Cons show ?case by (cases x) (auto simp: write_all_def dget_dset split: option.splits)
qed

lemma new_attributes_simps [simp]:
  "dget (new_attributes T now old v) ''current_value'' = Some (st_show T v)"
  "dget (new_attributes T now old v) ''last_value'' = map_option (st_show T) old"
  "distinct (map fst (new_attributes T now old v))"
  by (cases old; simp add: new_attributes_def)+


section \<open>One step of a process\<close>

definition faithful :: "'v seq_type \<Rightarrow> bool" where
  "faithful T \<longleftrightarrow> (\<forall>v. st_read T (st_show T v) = Inr v)"

lemma faithful_inj: "faithful T \<Longrightarrow> st_show T v = st_show T w \<Longrightarrow> v = w"
  unfolding faithful_def by (metis sum.inject(2))

text \<open>The item holds a value, and a last value or none.\<close>

definition holds :: "'v seq_type \<Rightarrow> sdb_call list \<Rightarrow> 'v \<Rightarrow> 'v option \<Rightarrow> bool" where
  "holds T calls c l \<longleftrightarrow> dget (sdb_item calls) ''current_value'' = Some (st_show T c)
     \<and> dget (sdb_item calls) ''last_value'' = map_option (st_show T) l"

lemma seq_get_run:
  assumes "documented E" "faithful T" "sq_connected s" "holds T (sq_log s) c l"
  shows "\<exists>t. seq_get E dn T s = (Inr (Some c), s\<lparr>sq_log := sq_log s @ [GetItem], sq_timestamp := t, sq_value := Some c,
      sq_last_value := (if l = None then sq_last_value s else l)\<rparr>)"
proof -
  let ?a = "sdb_item (sq_log s)"
  have t: "(case w of None \<Rightarrow> x | Some t \<Rightarrow> x\<lparr>sq_timestamp := Some t\<rparr>)
      = x\<lparr>sq_timestamp := (case w of None \<Rightarrow> sq_timestamp x | Some t \<Rightarrow> Some t)\<rparr>" for x :: "'a counter" and w
    by (cases w) auto
  show ?thesis
    using assms by (cases l) (auto simp: seq_get_def seq_connect_def sdb_do_def documented_def holds_def read_value_def faithful_def
        andthen_def bnd_def ret_def lift_sum_def t)
qed

lemma seq_set_run:
  assumes "documented E" "faithful T" "sq_connected s" "holds T (sq_log s) c l" "sq_value s = Some w"
  shows "if w = c
    then seq_set E dn T now v s = (Inr (), s\<lparr>sq_log := sq_log s @ [PutItem (new_attributes T now (Some w) v) (Some (st_show T w))], sq_timestamp := Some now\<rparr>)
    else seq_set E dn T now v s = (Inl ValueError, s\<lparr>sq_log := sq_log s @ [PutItem (new_attributes T now (Some w) v) (Some (st_show T w))]\<rparr>)"
proof -
  have "as_expected (Some (st_show T w)) (sdb_item (sq_log s)) \<longleftrightarrow> w = c"
    using assms(2,4) by (auto simp: as_expected_def holds_def dest: faithful_inj)
  then show ?thesis
    using assms(1,3,5) by (cases "w = c") (simp_all add: seq_set_def seq_connect_def sdb_do_def documented_def andthen_def bnd_def ret_def raise_def)
qed

lemma holds_get [simp]: "holds T (calls @ [GetItem]) c l = holds T calls c l"
  by (simp add: holds_def)

lemma holds_put:
  assumes "holds T calls c l" and "faithful T"
  shows "if w = c then holds T (calls @ [PutItem (new_attributes T now (Some w) v) (Some (st_show T w))]) v (Some w)
    else holds T (calls @ [PutItem (new_attributes T now (Some w) v) (Some (st_show T w))]) c l"
  using assms by (auto simp: holds_def as_expected_def dget_write_all dest: faithful_inj)


section \<open>What is stored\<close>

text \<open>The values of the writes that the service did not refuse.\<close>

fun accepted_from :: "(string, string) dict \<Rightarrow> sdb_call list \<Rightarrow> string list" where
  "accepted_from attrs [] = []"
| "accepted_from attrs (c # cs) =
     (case c of PutItem new e \<Rightarrow> if as_expected e attrs then [the (dget new ''current_value'')] else [] | _ \<Rightarrow> [])
       @ accepted_from (after_call c attrs) cs"

definition accepted :: "sdb_call list \<Rightarrow> string list" where
  "accepted = accepted_from []"

lemma accepted_from_append: "accepted_from attrs (xs @ ys) = accepted_from attrs xs @ accepted_from (fold after_call xs attrs) ys"
  by (induction xs arbitrary: attrs) simp_all

lemma accepted_snoc:
  "accepted (calls @ [GetItem]) = accepted calls"
  "accepted (calls @ [PutItem new e]) = accepted calls @ (if as_expected e (sdb_item calls) then [the (dget new ''current_value'')] else [])"
  by (simp_all add: accepted_def accepted_from_append sdb_item_def)

definition increasing :: "('v :: linorder) seq_type \<Rightarrow> bool" where
  "increasing T \<longleftrightarrow> faithful T \<and> (\<forall>c l. c < st_fnc T (Some c) l)"

definition process_ok :: "('v :: linorder) process \<Rightarrow> bool" where
  "process_ok P \<longleftrightarrow> sq_connected (pr_counter P) \<and> (\<forall>v. pr_at P = Computed v \<longrightarrow> (\<exists>w < v. sq_value (pr_counter P) = Some w))"

text \<open>Since some point the values that were stored increase, and the last of them is in the item.\<close>

definition grown :: "('v :: linorder) seq_type \<Rightarrow> sdb_call list \<Rightarrow> 'v \<Rightarrow> sdb_call list \<Rightarrow> bool" where
  "grown T before c0 calls \<longleftrightarrow> (\<exists>vs l. accepted calls = accepted before @ map (st_show T) vs \<and> sorted_wrt (<) (c0 # vs)
     \<and> holds T calls (last (c0 # vs)) l)"

lemma grown_get: "grown T before c0 calls \<Longrightarrow> grown T before c0 (calls @ [GetItem])"
  by (simp add: grown_def accepted_snoc)

lemma grown_put:
  assumes "grown T before c0 calls" and faith: "faithful T" and "w < v"
  shows "grown T before c0 (calls @ [PutItem (new_attributes T now (Some w) v) (Some (st_show T w))])"
proof -
  let ?put = "PutItem (new_attributes T now (Some w) v) (Some (st_show T w))"
  obtain vs l where vs: "accepted calls = accepted before @ map (st_show T) vs" "sorted_wrt (<) (c0 # vs)"
      "holds T calls (last (c0 # vs)) l" using assms(1) by (auto simp: grown_def)
  have "as_expected (Some (st_show T w)) (sdb_item calls) \<longleftrightarrow> w = last (c0 # vs)"
    using vs(3) faith by (auto simp: as_expected_def holds_def dest: faithful_inj)
  then have acc: "accepted (calls @ [?put]) = accepted before @ map (st_show T) (vs @ (if w = last (c0 # vs) then [v] else []))"
    using vs(1) by (simp add: accepted_snoc)
  note put = holds_put [OF vs(3) faith, of w now v]
  show ?thesis
  proof (cases "w = last (c0 # vs)")
    case True
    have "sorted_wrt (<) (c0 # vs @ [v])"
      using vs(2) assms(3) True by (cases vs rule: rev_cases) (auto simp: sorted_wrt_append)
    moreover have "last (c0 # vs @ [v]) = v" by simp
    moreover have "accepted (calls @ [?put]) = accepted before @ map (st_show T) (vs @ [v])"
      "holds T (calls @ [?put]) v (Some w)" using acc put True by simp_all
    ultimately show ?thesis unfolding grown_def by metis
  next
    case False
    then have "accepted (calls @ [?put]) = accepted before @ map (st_show T) vs" "holds T (calls @ [?put]) (last (c0 # vs)) l"
      using acc put by simp_all
    with vs(2) show ?thesis unfolding grown_def by blast
  qed
qed

definition rising :: "('v :: linorder) seq_type \<Rightarrow> sdb_call list \<Rightarrow> 'v \<Rightarrow> 'v system \<Rightarrow> bool" where
  "rising T before c0 S \<longleftrightarrow> (\<forall>i. process_ok (sys_processes S i)) \<and> grown T before c0 (sys_log S)"

lemma run_on_rising:
  assumes "rising T before c0 S" and "m ((pr_counter (sys_processes S i))\<lparr>sq_log := sys_log S\<rparr>) = (r, s)"
    and "process_ok \<lparr>pr_counter = s, pr_at = (case r of Inl e \<Rightarrow> Failed e | Inr p \<Rightarrow> p)\<rparr>" and "grown T before c0 (sq_log s)"
  shows "rising T before c0 (run_on i m S)"
  using assms by (simp add: run_on_def rising_def)

lemma schedule_step_rising:
  assumes E: "documented E" and T: "increasing T" and S: "rising T before c0 S"
  shows "rising T before c0 (schedule_step E dn T now i S)"
proof -
  let ?P = "sys_processes S i" and ?s = "(pr_counter (sys_processes S i))\<lparr>sq_log := sys_log S\<rparr>"
  have faith: "faithful T" using T by (simp add: increasing_def)
  have P: "process_ok ?P" and grown: "grown T before c0 (sys_log S)" using S by (simp_all add: rising_def)
  obtain c l where holds: "holds T (sq_log ?s) c l" using grown by (auto simp: grown_def)
  have conn: "sq_connected ?s" using P by (simp add: process_ok_def)
  show ?thesis
  proof (cases "\<exists>v. pr_at ?P = Computed v")
    case True
    then obtain v w where v: "pr_at ?P = Computed v" "w < v" "sq_value ?s = Some w" using P by (auto simp: process_ok_def)
    obtain s r where run: "next_step E dn T now (pr_at ?P) ?s = (r, s)" "sq_connected s" "\<forall>v. r \<noteq> Inr (Computed v)"
        "sq_log s = sys_log S @ [PutItem (new_attributes T now (Some w) v) (Some (st_show T w))]"
      using seq_set_run [OF E faith conn holds v(3), of dn now v] conn v(1)
      by (cases "w = c") (auto simp: next_step_def andthen_def bnd_def ret_def)
    have "process_ok \<lparr>pr_counter = s, pr_at = (case r of Inl e \<Rightarrow> Failed e | Inr p \<Rightarrow> p)\<rparr>"
      using run(2,3) by (cases r) (auto simp: process_ok_def)
    with run_on_rising [where m = "next_step E dn T now (pr_at ?P)", OF S run(1)] grown_put [OF grown faith v(2)] run(4)
    show ?thesis by (simp add: schedule_step_def)
  next
    case False
    obtain s r where run: "next_step E dn T now (pr_at ?P) ?s = (r, s)" "sq_connected s" "sq_value s = Some c"
        "\<forall>v. r = Inr (Computed v) \<longrightarrow> c < v" "sq_log s = sys_log S @ [GetItem]"
      using seq_get_run [OF E faith conn holds, of dn] conn False T
      by (cases "pr_at ?P") (auto simp: next_step_def andthen_def bnd_def ret_def increasing_def)
    have "process_ok \<lparr>pr_counter = s, pr_at = (case r of Inl e \<Rightarrow> Failed e | Inr p \<Rightarrow> p)\<rparr>"
      using run(2-4) by (cases r) (auto simp: process_ok_def)
    with run_on_rising [where m = "next_step E dn T now (pr_at ?P)", OF S run(1)] grown_get [OF grown] run(5)
    show ?thesis by (simp add: schedule_step_def)
  qed
qed

lemma run_schedule_rising:
  "documented E \<Longrightarrow> increasing T \<Longrightarrow> rising T before c0 S \<Longrightarrow> rising T before c0 (run_schedule E dn T now is S)"
  by (induction "is" arbitrary: S) (simp_all add: schedule_step_rising)

text \<open>A counter that holds a value, and processes that have connected to it and are not in the middle of a call.\<close>

definition ready :: "'v seq_type \<Rightarrow> 'v \<Rightarrow> 'v option \<Rightarrow> 'v system \<Rightarrow> bool" where
  "ready T c l S \<longleftrightarrow> holds T (sys_log S) c l \<and> (\<forall>i. sq_connected (pr_counter (sys_processes S i)) \<and> pr_at (sys_processes S i) = Idle)"

text \<open>
  C30: no value is stored twice. However the calls of any number of processes that ask a counter for its
  next value are interleaved, the values that the service accepts increase from one to the next, from the
  value at the beginning to the one the counter holds at the end: the conditional writes let no update
  get lost.
\<close>

theorem counter_values_increase:
  assumes "documented E" and "increasing T" and "ready T c l S"
  shows "\<exists>vs l'. accepted (sys_log (run_schedule E dn T now is S)) = accepted (sys_log S) @ map (st_show T) vs
    \<and> sorted_wrt (<) (c # vs) \<and> holds T (sys_log (run_schedule E dn T now is S)) (last (c # vs)) l'"
proof -
  have "grown T (sys_log S) c (sys_log S)" using assms(3) by (auto simp: grown_def ready_def intro: exI [of _ "[]"])
  then have "rising T (sys_log S) c S" using assms(3) by (simp add: rising_def ready_def process_ok_def)
  from run_schedule_rising [OF assms(1,2) this] show ?thesis unfolding rising_def grown_def by blast
qed


section \<open>What is returned\<close>

text \<open>A process that is alone returns the value that it stored.\<close>

lemma next_alone:
  assumes "documented E" "faithful T" "sq_connected s" "holds T (sq_log s) c l"
  shows "\<exists>lv s'. seq_next E dn T now s = (Inr (Some (st_fnc T (Some c) lv)), s') \<and> holds T (sq_log s') (st_fnc T (Some c) lv) (Some c)"
proof -
  obtain t where 1: "seq_get E dn T s = (Inr (Some c), s\<lparr>sq_log := sq_log s @ [GetItem], sq_timestamp := t, sq_value := Some c,
      sq_last_value := (if l = None then sq_last_value s else l)\<rparr>)" (is "_ = (_, ?s1)")
    using seq_get_run [OF assms] by blast
  let ?v = "st_fnc T (Some c) (sq_last_value ?s1)"
  have s1: "sq_connected ?s1" "holds T (sq_log ?s1) c l" "sq_value ?s1 = Some c" using assms(3,4) by simp_all
  obtain s2 where 2: "seq_set E dn T now ?v ?s1 = (Inr (), s2)" "sq_connected s2"
      "sq_log s2 = sq_log ?s1 @ [PutItem (new_attributes T now (Some c) ?v) (Some (st_show T c))]"
    using seq_set_run [OF assms(1,2) s1, of dn now ?v] s1(1) by auto
  have "holds T (sq_log s2) ?v (Some c)" using holds_put [OF s1(2) assms(2), of c now ?v] 2(3) by simp
  then obtain s3 where 3: "seq_get E dn T s2 = (Inr (Some ?v), s3)" "sq_log s3 = sq_log s2 @ [GetItem]"
    using seq_get_run [OF assms(1,2) 2(2)] by fastforce
  have "seq_next E dn T now s = (Inr (Some ?v), s3)"
    using 1 2(1) 3(1) by (simp add: seq_next_def andthen_def bnd_def)
  moreover have "holds T (sq_log s3) ?v (Some c)" using \<open>holds T (sq_log s2) ?v (Some c)\<close> 3(2) by simp
  ultimately show ?thesis by blast
qed

lemma schedule_step_eq:
  assumes "next_step E dn T now (pr_at (sys_processes S i)) ((pr_counter (sys_processes S i))\<lparr>sq_log := sys_log S\<rparr>) = (Inr p, s)"
  shows "schedule_step E dn T now i S = \<lparr>sys_log = sq_log s, sys_processes = (sys_processes S)(i := \<lparr>pr_counter = s, pr_at = p\<rparr>)\<rparr>"
  using assms by (simp add: schedule_step_def run_on_def)

text \<open>The three steps of a call, when the counter holds \<open>c\<close> at the time.\<close>

lemma reading_step:
  assumes "documented E" "faithful T" "holds T (sys_log S) c l" "sq_connected (pr_counter (sys_processes S i))"
    and "pr_at (sys_processes S i) = Idle \<or> pr_at (sys_processes S i) = Stored"
  shows "\<exists>s v. schedule_step E dn T now i S
      = \<lparr>sys_log = sys_log S @ [GetItem], sys_processes = (sys_processes S)(i := \<lparr>pr_counter = s,
          pr_at = (if pr_at (sys_processes S i) = Stored then Returned (Some c) else Computed v)\<rparr>)\<rparr>
    \<and> sq_connected s \<and> sq_value s = Some c"
proof -
  let ?s = "(pr_counter (sys_processes S i))\<lparr>sq_log := sys_log S\<rparr>"
  have "sq_connected ?s" "holds T (sq_log ?s) c l" using assms(3,4) by simp_all
  from seq_get_run [OF assms(1,2) this, of dn] obtain s where get: "seq_get E dn T ?s = (Inr (Some c), s)" "sq_connected s"
      "sq_value s = Some c" "sq_log s = sys_log S @ [GetItem]" using assms(4) by fastforce
  let ?v = "st_fnc T (Some c) (sq_last_value s)"
  have "next_step E dn T now (pr_at (sys_processes S i)) ?s
      = (Inr (if pr_at (sys_processes S i) = Stored then Returned (Some c) else Computed ?v), s)"
    using assms(5) get(1) by (auto simp: next_step_def bnd_def ret_def)
  from schedule_step_eq [OF this] get show ?thesis by (intro exI [of _ s] exI [of _ ?v]) auto
qed

lemma writing_step:
  assumes "documented E" "faithful T" "holds T (sys_log S) c l" "sq_connected (pr_counter (sys_processes S i))"
    and "pr_at (sys_processes S i) = Computed v" "sq_value (pr_counter (sys_processes S i)) = Some c"
  shows "\<exists>s calls. schedule_step E dn T now i S
      = \<lparr>sys_log = calls, sys_processes = (sys_processes S)(i := \<lparr>pr_counter = s, pr_at = Stored\<rparr>)\<rparr>
    \<and> sq_connected s \<and> holds T calls v (Some c)"
proof -
  let ?s = "(pr_counter (sys_processes S i))\<lparr>sq_log := sys_log S\<rparr>"
  have "sq_connected ?s" "holds T (sq_log ?s) c l" "sq_value ?s = Some c" using assms(3,4,6) by simp_all
  from seq_set_run [OF assms(1,2) this, of dn now v] obtain s where set: "seq_set E dn T now v ?s = (Inr (), s)" "sq_connected s"
      "sq_log s = sys_log S @ [PutItem (new_attributes T now (Some c) v) (Some (st_show T c))]" using assms(4) by auto
  have "next_step E dn T now (pr_at (sys_processes S i)) ?s = (Inr Stored, s)"
    using assms(5) set(1) by (simp add: next_step_def andthen_def bnd_def ret_def)
  from schedule_step_eq [OF this] set holds_put [OF assms(3,2), of c now v] show ?thesis
    by (intro exI [of _ s] exI [of _ "sq_log s"]) simp_all
qed

text \<open>
  Two processes can be given the same value. The value that a call returns is read again after it was
  stored, so that when one process advances the counter between the writing and the last reading of
  another, both return the value that the later one stored.
\<close>

theorem counter_returns_twice:
  assumes "documented E" and "faithful T" and "ready T c l S"
  shows "\<exists>v. pr_at (sys_processes (run_schedule E dn T now [0, 0, 1, 1, 0, 1] S) 0) = Returned (Some v)
    \<and> pr_at (sys_processes (run_schedule E dn T now [0, 0, 1, 1, 0, 1] S) 1) = Returned (Some v)"
proof -
  have ready: "holds T (sys_log S) c l" "sq_connected (pr_counter (sys_processes S i))" "pr_at (sys_processes S i) = Idle" for i
    using assms(3) by (simp_all add: ready_def)
  note read = reading_step [OF assms(1,2), of _ _ _ _ dn now] and write_ = writing_step [OF assms(1,2), of _ _ _ _ _ dn now]
  obtain s1 v1 where 1: "schedule_step E dn T now 0 S
      = \<lparr>sys_log = sys_log S @ [GetItem], sys_processes = (sys_processes S)(0 := \<lparr>pr_counter = s1, pr_at = Computed v1\<rparr>)\<rparr>" (is "_ = ?S1")
    "sq_connected s1" "sq_value s1 = Some c" using read [OF ready(1,2), of 0] ready(3) [of 0] by auto
  obtain s2 calls2 where 2: "schedule_step E dn T now 0 ?S1
      = \<lparr>sys_log = calls2, sys_processes = (sys_processes S)(0 := \<lparr>pr_counter = s2, pr_at = Stored\<rparr>)\<rparr>" (is "_ = ?S2")
    "sq_connected s2" "holds T calls2 v1 (Some c)"
    using write_ [of ?S1 c l 0 v1] ready(1) 1(2,3) by auto
  obtain s3 v3 where 3: "schedule_step E dn T now 1 ?S2
      = \<lparr>sys_log = calls2 @ [GetItem], sys_processes = (sys_processes S)(0 := \<lparr>pr_counter = s2, pr_at = Stored\<rparr>, 1 := \<lparr>pr_counter = s3, pr_at = Computed v3\<rparr>)\<rparr>"
      (is "_ = ?S3")
    "sq_connected s3" "sq_value s3 = Some v1" using read [of ?S2 v1 "Some c" 1] 2(3) ready(2,3) [of 1] by auto
  obtain s4 calls4 where 4: "schedule_step E dn T now 1 ?S3
      = \<lparr>sys_log = calls4, sys_processes = (sys_processes S)(0 := \<lparr>pr_counter = s2, pr_at = Stored\<rparr>, 1 := \<lparr>pr_counter = s4, pr_at = Stored\<rparr>)\<rparr>"
      (is "_ = ?S4")
    "sq_connected s4" "holds T calls4 v3 (Some v1)"
    using write_ [of ?S3 v1 "Some c" 1 v3] 2(3) 3(2,3) by auto
  obtain s5 where 5: "schedule_step E dn T now 0 ?S4
      = \<lparr>sys_log = calls4 @ [GetItem], sys_processes = (sys_processes S)(0 := \<lparr>pr_counter = s5, pr_at = Returned (Some v3)\<rparr>, 1 := \<lparr>pr_counter = s4, pr_at = Stored\<rparr>)\<rparr>"
      (is "_ = ?S5")
    using read [of ?S4 v3 "Some v1" 0] 4(3) 2(2) by (auto simp: fun_upd_twist)
  obtain s6 where 6: "schedule_step E dn T now 1 ?S5
      = \<lparr>sys_log = calls4 @ [GetItem, GetItem], sys_processes = (sys_processes S)(0 := \<lparr>pr_counter = s5, pr_at = Returned (Some v3)\<rparr>,
          1 := \<lparr>pr_counter = s6, pr_at = Returned (Some v3)\<rparr>)\<rparr>"
    using read [of ?S5 v3 "Some v1" 1] 4(2,3) by auto
  show ?thesis by (simp add: 1(1) 2(1) 3(1) 4(1) 5(1) 6 del: One_nat_def)
qed

text \<open>A counter whose domain is named never reaches the service.\<close>

lemma named_domain_fails:
  assumes "\<not> sq_connected s" and "sq_domain_name s = Some n" and "n \<noteq> []"
  shows "seq_next E dn T now s = (Inl (NameError ''sdb''), s)"
  using assms by (simp add: seq_next_def seq_get_def seq_connect_def andthen_def bnd_def raise_def)


section \<open>Examples\<close>

definition int_counter :: "int seq_type" where
  "int_counter = \<lparr>st_fnc = increment_by_one, st_show = int_str, st_read = py_int\<rparr>"

lemma int_counter_increasing: "increasing int_counter"
  by (simp add: increasing_def faithful_def int_counter_def increment_by_one_def)

definition counter0 :: "int counter" where
  "counter0 = \<lparr>sq_log = [], sq_domain_name = Some ''db'', sq_connected = True, sq_value = None, sq_last_value = None, sq_timestamp = None\<rparr>"

definition system0 :: "int system" where
  "system0 = \<lparr>sys_log = [PutItem [(''current_value'', int_str 5)] None], sys_processes = (\<lambda>_. \<lparr>pr_counter = counter0, pr_at = Idle\<rparr>)\<rparr>"

lemma ready0: "ready int_counter 5 None system0"
  by (simp add: ready_def system0_def counter0_def holds_def sdb_item_def as_expected_def write_all_def int_counter_def)

theorem counter_values_increase_witness:
  "\<exists>vs. accepted (sys_log (run_schedule sdb_service ''db'' int_counter ''0'' [0, 1, 0, 1, 1, 1, 2] system0))
      = accepted (sys_log system0) @ map int_str vs \<and> sorted_wrt (<) (5 # vs)"
  using counter_values_increase [OF documented_service int_counter_increasing ready0, of "''db''" "''0''" "[0, 1, 0, 1, 1, 1, 2]"]
  by (auto simp: int_counter_def)

theorem counter_returns_twice_witness:
  "\<exists>v. pr_at (sys_processes (run_schedule sdb_service ''db'' int_counter ''0'' [0, 0, 1, 1, 0, 1] system0) 0) = Returned (Some v)
     \<and> pr_at (sys_processes (run_schedule sdb_service ''db'' int_counter ''0'' [0, 0, 1, 1, 0, 1] system0) 1) = Returned (Some v)"
  using int_counter_increasing by (intro counter_returns_twice [OF documented_service _ ready0]) (simp add: increasing_def)

end
