(* ===== verification/BotoXml.thy ===== *)
theory BotoXml
  imports BotoText
begin

text \<open>
  \<open>boto/handler.py\<close>: the handler that feeds the events of an XML parser to objects. It keeps a stack
  of named objects; the object on top is told of each element that starts and ends, and may give an object
  for the element, which is then on top until an element of that name ends. The objects are a parameter
  here; those of EC2 are in the theory after this one.
\<close>


section \<open>The handler\<close>

datatype sax = StartElement string "(string \<times> string) list" | EndElement string | Characters string

text \<open>
  An object's \<open>startElement\<close> gives the object as it is then, and maybe a new object with the place where
  it belongs; \<open>rd_attach\<close> puts it there. The code links the new object at once; since nobody looks at
  the parent while the child is being filled, it is the same to link it when it leaves the stack.
\<close>

record ('n, 'p) reader =
  rd_start :: "string \<Rightarrow> (string \<times> string) list \<Rightarrow> 'n \<Rightarrow> 'n \<times> ('p \<times> 'n) option"
  rd_end :: "string \<Rightarrow> string \<Rightarrow> 'n \<Rightarrow> py_exc + 'n"
  rd_attach :: "'p \<Rightarrow> 'n \<Rightarrow> 'n \<Rightarrow> 'n"

record ('n, 'p) handler =
  hd_nodes :: "(string \<times> 'p option \<times> 'n) list"
  hd_text :: string
  hd_root :: "'n option"

definition handler_init :: "'n \<Rightarrow> ('n, 'p) handler" where
  "handler_init x = \<lparr>hd_nodes = [(''root'', None, x)], hd_text = [], hd_root = None\<rparr>"

text \<open>The object that leaves the stack is linked to the one below it; the last one is the root.\<close>

fun pop_node :: "('n, 'p) reader \<Rightarrow> 'p option \<Rightarrow> 'n \<Rightarrow> (string \<times> 'p option \<times> 'n) list \<Rightarrow> ('n, 'p) handler" where
  "pop_node R p x ((m, q, y) # rest) =
     \<lparr>hd_nodes = (m, q, case p of None \<Rightarrow> y | Some place \<Rightarrow> rd_attach R place x y) # rest, hd_text = [], hd_root = None\<rparr>"
| "pop_node R p x [] = \<lparr>hd_nodes = [], hd_text = [], hd_root = Some x\<rparr>"

fun sax_step :: "('n, 'p) reader \<Rightarrow> sax \<Rightarrow> ('n, 'p) handler \<Rightarrow> py_exc + ('n, 'p) handler" where
  "sax_step R (Characters s) h = Inr (h\<lparr>hd_text := hd_text h @ s\<rparr>)"
| "sax_step R (StartElement name attrs) h =
     (case hd_nodes h of
        [] \<Rightarrow> Inl IndexError
      | (m, p, x) # rest \<Rightarrow>
          (case rd_start R name attrs x of
             (x', None) \<Rightarrow> Inr (h\<lparr>hd_nodes := (m, p, x') # rest, hd_text := []\<rparr>)
           | (x', Some (place, c)) \<Rightarrow> Inr (h\<lparr>hd_nodes := (name, Some place, c) # (m, p, x') # rest, hd_text := []\<rparr>)))"
| "sax_step R (EndElement name) h =
     (case hd_nodes h of
        [] \<Rightarrow> Inl IndexError
      | (m, p, x) # rest \<Rightarrow>
          (case rd_end R name (hd_text h) x of
             Inl e \<Rightarrow> Inl e
           | Inr x' \<Rightarrow> if m = name then Inr (pop_node R p x' rest)
                       else Inr (h\<lparr>hd_nodes := (m, p, x') # rest, hd_text := []\<rparr>)))"

fun sax_run :: "('n, 'p) reader \<Rightarrow> sax list \<Rightarrow> ('n, 'p) handler \<Rightarrow> py_exc + ('n, 'p) handler" where
  "sax_run R [] h = Inr h"
| "sax_run R (e # es) h = (case sax_step R e h of Inl x \<Rightarrow> Inl x | Inr h' \<Rightarrow> sax_run R es h')"

text \<open>The root as the caller of the parser holds it.\<close>

definition hd_result :: "('n, 'p) handler \<Rightarrow> 'n option" where
  "hd_result h = (case hd_root h of Some x \<Rightarrow> Some x | None \<Rightarrow> (case rev (hd_nodes h) of [] \<Rightarrow> None | (m, p, x) # _ \<Rightarrow> Some x))"


section \<open>Documents\<close>

datatype xml = Element string "(string \<times> string) list" "xml list" | Text string

fun events :: "xml \<Rightarrow> sax list" where
  "events (Text s) = [Characters s]"
| "events (Element name attrs cs) = StartElement name attrs # concat (map events cs) @ [EndElement name]"

definition parse :: "('n, 'p) reader \<Rightarrow> xml \<Rightarrow> 'n \<Rightarrow> py_exc + 'n" where
  "parse R t x = (case sax_run R (events t) (handler_init x) of Inl e \<Rightarrow> Inl e
     | Inr h \<Rightarrow> (case hd_result h of None \<Rightarrow> Inl IndexError | Some y \<Rightarrow> Inr y))"

text \<open>
  The same by recursion over the document: an element for which an object is given is read by that
  object, any other element by the object that it stands in.
\<close>

fun read_xml :: "('n, 'p) reader \<Rightarrow> xml \<Rightarrow> 'n \<times> string \<Rightarrow> py_exc + 'n \<times> string"
  and read_all :: "('n, 'p) reader \<Rightarrow> xml list \<Rightarrow> 'n \<times> string \<Rightarrow> py_exc + 'n \<times> string" where
  "read_xml R (Text s) (x, t) = Inr (x, t @ s)"
| "read_xml R (Element name attrs cs) (x, t) =
     (case rd_start R name attrs x of
        (x', None) \<Rightarrow>
          (case read_all R cs (x', []) of Inl e \<Rightarrow> Inl e
           | Inr (y, u) \<Rightarrow> (case rd_end R name u y of Inl e \<Rightarrow> Inl e | Inr z \<Rightarrow> Inr (z, [])))
      | (x', Some (place, c)) \<Rightarrow>
          (case read_all R cs (c, []) of Inl e \<Rightarrow> Inl e
           | Inr (y, u) \<Rightarrow> (case rd_end R name u y of Inl e \<Rightarrow> Inl e | Inr z \<Rightarrow> Inr (rd_attach R place z x', []))))"
| "read_all R [] (x, t) = Inr (x, t)"
| "read_all R (c # cs) (x, t) = (case read_xml R c (x, t) of Inl e \<Rightarrow> Inl e | Inr s \<Rightarrow> read_all R cs s)"

text \<open>
  When the two agree: no element that is left to an object has the name under which that object stands on
  the stack. Otherwise the end of the inner element takes the object off the stack too early.
\<close>

fun fits :: "('n, 'p) reader \<Rightarrow> string \<Rightarrow> xml \<Rightarrow> 'n \<times> string \<Rightarrow> bool"
  and fits_all :: "('n, 'p) reader \<Rightarrow> string \<Rightarrow> xml list \<Rightarrow> 'n \<times> string \<Rightarrow> bool" where
  "fits R m (Text s) (x, t) \<longleftrightarrow> True"
| "fits R m (Element name attrs cs) (x, t) \<longleftrightarrow>
     (case rd_start R name attrs x of
        (x', None) \<Rightarrow> name \<noteq> m \<and> fits_all R m cs (x', [])
      | (x', Some (place, c)) \<Rightarrow> fits_all R name cs (c, []))"
| "fits_all R m [] (x, t) \<longleftrightarrow> True"
| "fits_all R m (c # cs) (x, t) \<longleftrightarrow>
     fits R m c (x, t) \<and> (case read_xml R c (x, t) of Inl e \<Rightarrow> True | Inr s \<Rightarrow> fits_all R m cs s)"


section \<open>The stack and the recursion agree\<close>

lemma sax_run_append: "sax_run R (xs @ ys) h = (case sax_run R xs h of Inl e \<Rightarrow> Inl e | Inr h' \<Rightarrow> sax_run R ys h')"
  by (induction xs arbitrary: h) (auto split: sum.splits)

definition read_state :: "string \<Rightarrow> 'p option \<Rightarrow> (string \<times> 'p option \<times> 'n) list \<Rightarrow> 'n \<times> string \<Rightarrow> ('n, 'p) handler" where
  "read_state m p rest s = \<lparr>hd_nodes = (m, p, fst s) # rest, hd_text = snd s, hd_root = None\<rparr>"

definition agrees :: "('n, 'p) reader \<Rightarrow> sax list \<Rightarrow> (string \<Rightarrow> bool) \<Rightarrow> 'n \<times> string \<Rightarrow> py_exc + 'n \<times> string \<Rightarrow> bool" where
  "agrees R es P s r \<longleftrightarrow> (\<forall>m p rest. P m \<longrightarrow> sax_run R es (read_state m p rest s) = map_sum id (read_state m p rest) r)"

lemma sax_run_read:
  "agrees R (events t) (\<lambda>m. fits R m t s) s (read_xml R t s)"
  "agrees R (concat (map events ts)) (\<lambda>m. fits_all R m ts s) s (read_all R ts s)"
proof (induction R t s and R ts s rule: read_xml_read_all.induct)
  case (1 R w x t)
  then show ?case by (simp add: agrees_def read_state_def)
next
  case (2 R name attrs cs x t)
  obtain x' r where start: "rd_start R name attrs x = (x', r)" by fastforce
  show ?case
  proof (cases r)
    case None
    with 2(1) start have cs: "agrees R (concat (map events cs)) (\<lambda>m. fits_all R m cs (x', [])) (x', []) (read_all R cs (x', []))" by simp
    show ?thesis unfolding agrees_def
    proof (intro allI impI)
      fix m p rest assume fits: "fits R m (Element name attrs cs) (x, t)"
      have body: "sax_run R (events (Element name attrs cs)) (read_state m p rest (x, t))
          = sax_run R (concat (map events cs) @ [EndElement name]) (read_state m p rest (x', []))"
        using start None by (simp add: read_state_def)
      show "sax_run R (events (Element name attrs cs)) (read_state m p rest (x, t))
          = map_sum id (read_state m p rest) (read_xml R (Element name attrs cs) (x, t))"
        unfolding body using cs fits start None
        by (auto simp: agrees_def sax_run_append read_state_def split: sum.splits)
    qed
  next
    case (Some a)
    then obtain place c where r: "r = Some (place, c)" by (cases a) auto
    with 2(2) start have cs: "agrees R (concat (map events cs)) (\<lambda>m. fits_all R m cs (c, [])) (c, []) (read_all R cs (c, []))" by simp
    show ?thesis unfolding agrees_def
    proof (intro allI impI)
      fix m p rest assume fits: "fits R m (Element name attrs cs) (x, t)"
      have body: "sax_run R (events (Element name attrs cs)) (read_state m p rest (x, t))
          = sax_run R (concat (map events cs) @ [EndElement name]) (read_state name (Some place) ((m, p, x') # rest) (c, []))"
        using start r by (simp add: read_state_def)
      show "sax_run R (events (Element name attrs cs)) (read_state m p rest (x, t))
          = map_sum id (read_state m p rest) (read_xml R (Element name attrs cs) (x, t))"
        unfolding body using cs fits start r
        by (auto simp: agrees_def sax_run_append read_state_def split: sum.splits)
    qed
  qed
next
  case (3 R x t)
  then show ?case by (simp add: agrees_def)
next
  case (4 R c cs x t)
  then show ?case by (fastforce simp: agrees_def sax_run_append split: sum.splits)
qed

lemma parse_agrees:
  assumes "agrees R (events t) P (x, []) r" and "P ''root''"
  shows "parse R t x = map_sum id fst r"
proof -
  have init: "handler_init x = read_state ''root'' None [] (x, [])" by (simp add: handler_init_def read_state_def)
  show ?thesis
    using assms unfolding parse_def init
    by (cases r) (auto simp: agrees_def read_state_def hd_result_def)
qed


end
