(* ===== verification/BotoObjects.thy ===== *)
theory BotoObjects
  imports BotoXml
begin

text \<open>
  The objects that EC2's replies are read into: \<open>boto/resultset.py\<close> and the classes of \<open>boto/ec2\<close>. An object
  has its class, its attributes, the elements of its list and the entries of its dictionary, as far as
  the class is a list or a dictionary; each class has its \<open>startElement\<close> and \<open>endElement\<close>. The
  connection, which every object holds, and the counter of usage that it keeps are left out.
\<close>


section \<open>Objects\<close>

datatype (plugins only: code size) cls =
    CResultSet "(string \<times> cls) list" | CBooleanResult | CReservation | CInstance | CGroup | CConsoleOutput | CInstanceAttribute
  | CStateReason | CTagSet | CTag | CBlockDeviceType | CBlockDeviceMapping | CProductCodes | CImage | CImageAttribute
  | CVolume | CAttachmentSet | CSnapshot | CSnapshotAttribute | CSpotInstanceRequest | CSpotInstanceStateFault
  | CLaunchSpecification | CSecurityGroup | CIPPermissions | CGroupOrCIDR | CSpotDatafeedSubscription | CSpotPriceHistory
  | CKeyPair | CZone | CAddress | CInstanceInfo | CReservedInstancesOffering | CReservedInstance | CPlacementGroup
  | CBundleInstanceTask | CRegionInfo

datatype (plugins only: code size) field = FNone | FText string | FInt int | FBool bool | FNum rat | FTexts "string list" | FNodes "node list" | FNode node
and node = Node (n_cls: cls) (n_fields: "(string \<times> field) list") (n_elems: "field list") (n_entries: "(field \<times> field) list")

definition setf :: "string \<Rightarrow> field \<Rightarrow> node \<Rightarrow> node" where
  "setf f v x = Node (n_cls x) (dset f v (n_fields x)) (n_elems x) (n_entries x)"

definition getf :: "string \<Rightarrow> node \<Rightarrow> field" where
  "getf f x = (case dget (n_fields x) f of None \<Rightarrow> FNone | Some v \<Rightarrow> v)"

definition add_elem :: "field \<Rightarrow> node \<Rightarrow> node" where
  "add_elem v x = Node (n_cls x) (n_fields x) (n_elems x @ [v]) (n_entries x)"

definition set_entry :: "field \<Rightarrow> field \<Rightarrow> node \<Rightarrow> node" where
  "set_entry k v x = Node (n_cls x) (n_fields x) (n_elems x) (dset k v (n_entries x))"

definition get_entry :: "field \<Rightarrow> node \<Rightarrow> field option" where
  "get_entry k x = dget (n_entries x) k"

text \<open>Where a new object goes: the elements of the list, an attribute, the list in an attribute, the dictionary.\<close>

datatype place = PElem | PField string | PAppend string | PEntry string

fun attach :: "place \<Rightarrow> node \<Rightarrow> node \<Rightarrow> node" where
  "attach PElem c x = add_elem (FNode c) x"
| "attach (PField f) c x = setf f (FNode c) x"
| "attach (PAppend f) c x = setf f (FNodes ((case getf f x of FNodes cs \<Rightarrow> cs | _ \<Rightarrow> []) @ [c])) x"
| "attach (PEntry k) c x = set_entry (FText k) (FNode c) x"

text \<open>The attributes that the constructor of each class sets.\<close>

definition nones :: "string list \<Rightarrow> (string \<times> field) list" where
  "nones = map (\<lambda>f. (f, FNone))"

definition new_tags :: node where
  "new_tags = Node CTagSet (nones [''_current_key'', ''_current_value'']) [] []"

definition tagged :: "(string \<times> field) list \<Rightarrow> (string \<times> field) list" where
  "tagged fs = (''tags'', FNode new_tags) # fs"

definition result_set_fields :: "(string \<times> field) list" where
  "result_set_fields = nones [''marker'', ''key_marker'', ''next_key_marker'', ''next_version_id_marker'',
      ''version_id_marker''] @ [(''is_truncated'', FBool False), (''next_token'', FNone), (''status'', FBool True)]"

definition boolean_result_fields :: "(string \<times> field) list" where
  "boolean_result_fields = [(''status'', FBool True), (''request_id'', FNone), (''box_usage'', FNone)]"

definition reservation_fields :: "(string \<times> field) list" where
  "reservation_fields = nones [''id'', ''owner_id''] @ [(''groups'', FNodes []), (''instances'', FNodes [])]"

definition instance_fields :: "(string \<times> field) list" where
  "instance_fields = tagged (nones [''id'', ''dns_name'', ''public_dns_name'', ''private_dns_name'', ''state'', ''state_code'',
      ''key_name'', ''shutdown_state'', ''previous_state'', ''instance_type'', ''instance_class'', ''launch_time'', ''image_id'',
      ''placement'', ''kernel'', ''ramdisk'', ''ami_launch_index'', ''spot_instance_request_id'', ''subnet_id'', ''vpc_id'',
      ''private_ip_address'', ''ip_address'', ''requester_id'', ''root_device_name'', ''root_device_type'', ''block_device_mapping'',
      ''state_reason'', ''group_name'', ''client_token'']
    @ [(''product_codes'', FNode (Node CProductCodes [] [] [])), (''monitored'', FBool False), (''_in_monitoring_element'', FBool False),
       (''persistent'', FBool False)])"

definition group_fields :: "(string \<times> field) list" where
  "group_fields = nones [''id'']"

definition console_output_fields :: "(string \<times> field) list" where
  "console_output_fields = nones [''instance_id'', ''timestamp'', ''comment'']"

definition instance_attribute_fields :: "(string \<times> field) list" where
  "instance_attribute_fields = nones [''_current_value'']"

definition state_reason_fields :: "(string \<times> field) list" where
  "state_reason_fields = []"

definition tag_set_fields :: "(string \<times> field) list" where
  "tag_set_fields = nones [''_current_key'', ''_current_value'']"

definition tag_fields :: "(string \<times> field) list" where
  "tag_fields = nones [''res_id'', ''res_type'', ''name'', ''value'']"

definition block_device_type_fields :: "(string \<times> field) list" where
  "block_device_type_fields = nones [''ephemeral_name'', ''volume_id'', ''snapshot_id'', ''status'', ''attach_time'', ''size'']
    @ [(''no_device'', FBool False), (''delete_on_termination'', FBool False)]"

definition block_device_mapping_fields :: "(string \<times> field) list" where
  "block_device_mapping_fields = nones [''current_name'', ''current_value'']"

definition product_codes_fields :: "(string \<times> field) list" where
  "product_codes_fields = []"

definition image_fields :: "(string \<times> field) list" where
  "image_fields = tagged (nones [''id'', ''location'', ''state'', ''ownerId'', ''owner_id'', ''owner_alias'', ''architecture'', ''platform'',
      ''type'', ''kernel_id'', ''ramdisk_id'', ''name'', ''description'', ''block_device_mapping'', ''root_device_type'', ''root_device_name'',
      ''virtualization_type'', ''hypervisor'', ''instance_lifecycle'']
    @ [(''is_public'', FBool False), (''product_codes'', FNode (Node CProductCodes [] [] []))])"

definition image_attribute_fields :: "(string \<times> field) list" where
  "image_attribute_fields = nones [''name'', ''kernel'', ''ramdisk'']"

definition volume_fields :: "(string \<times> field) list" where
  "volume_fields = tagged (nones [''id'', ''create_time'', ''status'', ''size'', ''snapshot_id'', ''attach_data'', ''zone''])"

definition attachment_set_fields :: "(string \<times> field) list" where
  "attachment_set_fields = nones [''id'', ''instance_id'', ''status'', ''attach_time'', ''device'']"

definition snapshot_fields :: "(string \<times> field) list" where
  "snapshot_fields = tagged (nones [''id'', ''volume_id'', ''status'', ''progress'', ''start_time'', ''owner_id'', ''volume_size'', ''description''])"

definition snapshot_attribute_fields :: "(string \<times> field) list" where
  "snapshot_attribute_fields = nones [''snapshot_id'']"

definition spot_instance_request_fields :: "(string \<times> field) list" where
  "spot_instance_request_fields = tagged (nones [''id'', ''price'', ''type'', ''state'', ''fault'', ''valid_from'', ''valid_until'', ''launch_group'',
      ''product_description'', ''availability_zone_group'', ''create_time'', ''launch_specification'', ''instance_id''])"

definition spot_instance_state_fault_fields :: "(string \<times> field) list" where
  "spot_instance_state_fault_fields = nones [''code'', ''message'']"

definition launch_specification_fields :: "(string \<times> field) list" where
  "launch_specification_fields = nones [''key_name'', ''instance_type'', ''image_id'', ''placement'', ''kernel'', ''ramdisk'', ''subnet_id'',
      ''block_device_mapping''] @ [(''groups'', FNodes []), (''monitored'', FBool False), (''_in_monitoring_element'', FBool False)]"

definition security_group_fields :: "(string \<times> field) list" where
  "security_group_fields = nones [''owner_id'', ''name'', ''description''] @ [(''rules'', FNodes [])]"

definition ip_permissions_fields :: "(string \<times> field) list" where
  "ip_permissions_fields = nones [''ip_protocol'', ''from_port'', ''to_port''] @ [(''grants'', FNodes [])]"

definition group_or_cidr_fields :: "(string \<times> field) list" where
  "group_or_cidr_fields = nones [''owner_id'', ''name'', ''cidr_ip'']"

definition spot_datafeed_subscription_fields :: "(string \<times> field) list" where
  "spot_datafeed_subscription_fields = nones [''owner_id'', ''bucket'', ''prefix'', ''state'', ''fault'']"

definition spot_price_history_fields :: "(string \<times> field) list" where
  "spot_price_history_fields = (''price'', FNum 0) # nones [''instance_type'', ''product_description'', ''timestamp'']"

definition key_pair_fields :: "(string \<times> field) list" where
  "key_pair_fields = nones [''name'', ''fingerprint'', ''material'']"

definition zone_fields :: "(string \<times> field) list" where
  "zone_fields = nones [''name'', ''state'']"

definition address_fields :: "(string \<times> field) list" where
  "address_fields = nones [''public_ip'', ''instance_id'']"

definition instance_info_fields :: "(string \<times> field) list" where
  "instance_info_fields = nones [''id'', ''state'']"

definition reserved_instances_offering_fields :: "(string \<times> field) list" where
  "reserved_instances_offering_fields = nones [''id'', ''instance_type'', ''availability_zone'', ''duration'', ''fixed_price'', ''usage_price'', ''description'']"

definition reserved_instance_fields :: "(string \<times> field) list" where
  "reserved_instance_fields = nones [''id'', ''instance_type'', ''availability_zone'', ''duration'', ''fixed_price'', ''usage_price'', ''description'',
      ''instance_count'', ''state'']"

definition placement_group_fields :: "(string \<times> field) list" where
  "placement_group_fields = nones [''name'', ''strategy'', ''state'']"

definition bundle_instance_task_fields :: "(string \<times> field) list" where
  "bundle_instance_task_fields = nones [''id'', ''instance_id'', ''progress'', ''start_time'', ''state'', ''bucket'', ''prefix'', ''upload_policy'',
      ''upload_policy_signature'', ''update_time'', ''code'', ''message'']"

definition region_info_fields :: "(string \<times> field) list" where
  "region_info_fields = nones [''name'', ''endpoint'']"

fun init_fields :: "cls \<Rightarrow> (string \<times> field) list" where
  "init_fields (CResultSet ms) = result_set_fields"
| "init_fields CBooleanResult = boolean_result_fields"
| "init_fields CReservation = reservation_fields"
| "init_fields CInstance = instance_fields"
| "init_fields CGroup = group_fields"
| "init_fields CConsoleOutput = console_output_fields"
| "init_fields CInstanceAttribute = instance_attribute_fields"
| "init_fields CStateReason = state_reason_fields"
| "init_fields CTagSet = tag_set_fields"
| "init_fields CTag = tag_fields"
| "init_fields CBlockDeviceType = block_device_type_fields"
| "init_fields CBlockDeviceMapping = block_device_mapping_fields"
| "init_fields CProductCodes = product_codes_fields"
| "init_fields CImage = image_fields"
| "init_fields CImageAttribute = image_attribute_fields"
| "init_fields CVolume = volume_fields"
| "init_fields CAttachmentSet = attachment_set_fields"
| "init_fields CSnapshot = snapshot_fields"
| "init_fields CSnapshotAttribute = snapshot_attribute_fields"
| "init_fields CSpotInstanceRequest = spot_instance_request_fields"
| "init_fields CSpotInstanceStateFault = spot_instance_state_fault_fields"
| "init_fields CLaunchSpecification = launch_specification_fields"
| "init_fields CSecurityGroup = security_group_fields"
| "init_fields CIPPermissions = ip_permissions_fields"
| "init_fields CGroupOrCIDR = group_or_cidr_fields"
| "init_fields CSpotDatafeedSubscription = spot_datafeed_subscription_fields"
| "init_fields CSpotPriceHistory = spot_price_history_fields"
| "init_fields CKeyPair = key_pair_fields"
| "init_fields CZone = zone_fields"
| "init_fields CAddress = address_fields"
| "init_fields CInstanceInfo = instance_info_fields"
| "init_fields CReservedInstancesOffering = reserved_instances_offering_fields"
| "init_fields CReservedInstance = reserved_instance_fields"
| "init_fields CPlacementGroup = placement_group_fields"
| "init_fields CBundleInstanceTask = bundle_instance_task_fields"
| "init_fields CRegionInfo = region_info_fields"

definition new_node :: "cls \<Rightarrow> node" where
  "new_node c = Node c (init_fields c) [] []"


section \<open>Elements that start\<close>

type_synonym started = "node \<times> (place \<times> node) option"

definition no_child :: "node \<Rightarrow> started" where
  "no_child x = (x, None)"

text \<open>A child that is new, and one that an attribute holds already.\<close>

definition new_child :: "place \<Rightarrow> cls \<Rightarrow> node \<Rightarrow> started" where
  "new_child p c x = (x, Some (p, new_node c))"

definition held_child :: "string \<Rightarrow> node \<Rightarrow> started" where
  "held_child f x = (case getf f x of FNode c \<Rightarrow> (x, Some (PField f, c)) | _ \<Rightarrow> (x, None))"

fun result_set_start :: "(string \<times> cls) list \<Rightarrow> string \<Rightarrow> node \<Rightarrow> started" where
  "result_set_start [] name x = no_child x"
| "result_set_start ((m, c) # ms) name x = (if name = m then new_child PElem c x else result_set_start ms name x)"

definition reservation_start :: "string \<Rightarrow> node \<Rightarrow> started" where
  "reservation_start name x =
     (if name = ''instancesSet'' then new_child (PField ''instances'') (CResultSet [(''item'', CInstance)]) x
      else if name = ''groupSet'' then new_child (PField ''groups'') (CResultSet [(''item'', CGroup)]) x
      else no_child x)"

text \<open>An object that can be tagged reads its tags first.\<close>

definition tagged_start :: "(string \<Rightarrow> node \<Rightarrow> started) \<Rightarrow> string \<Rightarrow> node \<Rightarrow> started" where
  "tagged_start start name x =
     (case (if name = ''tagSet'' then held_child ''tags'' x else no_child x) of
        (y, Some c) \<Rightarrow> (y, Some c)
      | (y, None) \<Rightarrow> start name y)"

definition instance_start :: "string \<Rightarrow> node \<Rightarrow> started" where
  "instance_start = tagged_start (\<lambda>name x.
     if name = ''monitoring'' then no_child (setf ''_in_monitoring_element'' (FBool True) x)
     else if name = ''blockDeviceMapping'' then new_child (PField ''block_device_mapping'') CBlockDeviceMapping x
     else if name = ''productCodes'' then held_child ''product_codes'' x
     else if name = ''stateReason'' then new_child (PField ''state_reason'') CStateReason x
     else no_child x)"

definition tag_set_start :: "string \<Rightarrow> node \<Rightarrow> started" where
  "tag_set_start name x =
     no_child (if name = ''item'' then setf ''_current_value'' FNone (setf ''_current_key'' FNone x) else x)"

definition block_device_mapping_start :: "string \<Rightarrow> node \<Rightarrow> started" where
  "block_device_mapping_start name x =
     (if name = ''ebs'' then new_child (PField ''current_value'') CBlockDeviceType x else no_child x)"

definition image_start :: "string \<Rightarrow> node \<Rightarrow> started" where
  "image_start = tagged_start (\<lambda>name x.
     if name = ''blockDeviceMapping'' then new_child (PField ''block_device_mapping'') CBlockDeviceMapping x
     else if name = ''productCodes'' then held_child ''product_codes'' x
     else no_child x)"

definition image_attribute_start :: "string \<Rightarrow> node \<Rightarrow> started" where
  "image_attribute_start name x =
     (if name = ''blockDeviceMapping'' then new_child (PEntry ''block_device_mapping'') CBlockDeviceMapping x else no_child x)"

text \<open>The second test for \<open>tagSet\<close> is reached only when there are no tags, and names a module that is not imported.\<close>

definition volume_start :: "string \<Rightarrow> node \<Rightarrow> started" where
  "volume_start = tagged_start (\<lambda>name x.
     if name = ''attachmentSet'' then new_child (PField ''attach_data'') CAttachmentSet x else no_child x)"

definition spot_instance_request_start :: "string \<Rightarrow> node \<Rightarrow> started" where
  "spot_instance_request_start = tagged_start (\<lambda>name x.
     if name = ''launchSpecification'' then new_child (PField ''launch_specification'') CLaunchSpecification x
     else if name = ''fault'' then new_child (PField ''fault'') CSpotInstanceStateFault x
     else no_child x)"

definition launch_specification_start :: "string \<Rightarrow> node \<Rightarrow> started" where
  "launch_specification_start name x =
     (if name = ''groupSet'' then new_child (PField ''groups'') (CResultSet [(''item'', CGroup)]) x
      else if name = ''monitoring'' then no_child (setf ''_in_monitoring_element'' (FBool True) x)
      else if name = ''blockDeviceMapping'' then new_child (PField ''block_device_mapping'') CBlockDeviceMapping x
      else no_child x)"

definition security_group_start :: "string \<Rightarrow> node \<Rightarrow> started" where
  "security_group_start name x = (if name = ''item'' then new_child (PAppend ''rules'') CIPPermissions x else no_child x)"

definition ip_permissions_start :: "string \<Rightarrow> node \<Rightarrow> started" where
  "ip_permissions_start name x = (if name = ''item'' then new_child (PAppend ''grants'') CGroupOrCIDR x else no_child x)"

definition spot_datafeed_subscription_start :: "string \<Rightarrow> node \<Rightarrow> started" where
  "spot_datafeed_subscription_start name x =
     (if name = ''fault'' then new_child (PField ''fault'') CSpotInstanceStateFault x else no_child x)"

fun node_start :: "string \<Rightarrow> (string \<times> string) list \<Rightarrow> node \<Rightarrow> started" where
  "node_start name attrs x =
     (case n_cls x of
        CResultSet ms \<Rightarrow> result_set_start ms name x
      | CReservation \<Rightarrow> reservation_start name x
      | CInstance \<Rightarrow> instance_start name x
      | CTagSet \<Rightarrow> tag_set_start name x
      | CBlockDeviceMapping \<Rightarrow> block_device_mapping_start name x
      | CImage \<Rightarrow> image_start name x
      | CImageAttribute \<Rightarrow> image_attribute_start name x
      | CVolume \<Rightarrow> volume_start name x
      | CSnapshot \<Rightarrow> tagged_start (\<lambda>_. no_child) name x
      | CSpotInstanceRequest \<Rightarrow> spot_instance_request_start name x
      | CLaunchSpecification \<Rightarrow> launch_specification_start name x
      | CSecurityGroup \<Rightarrow> security_group_start name x
      | CIPPermissions \<Rightarrow> ip_permissions_start name x
      | CSpotDatafeedSubscription \<Rightarrow> spot_datafeed_subscription_start name x
      | _ \<Rightarrow> no_child x)"


section \<open>Elements that end\<close>

text \<open>
  Most elements set the attribute that a table gives for their name, all others the attribute of their own
  name. \<open>float\<close> and base64 decoding are parameters.
\<close>

record conversions =
  to_float :: "string \<Rightarrow> py_exc + rat"
  from_base64 :: "string \<Rightarrow> py_exc + string"

definition set_by :: "(string \<times> string) list \<Rightarrow> string \<Rightarrow> string \<Rightarrow> node \<Rightarrow> node" where
  "set_by table name v x = setf (case dget table name of Some f \<Rightarrow> f | None \<Rightarrow> name) (FText v) x"

definition set_int :: "string \<Rightarrow> string \<Rightarrow> node \<Rightarrow> py_exc + node" where
  "set_int f v x = map_sum id (\<lambda>i. setf f (FInt i) x) (py_int v)"

text \<open>An integer, or the text when it is none.\<close>

definition int_or_text :: "string \<Rightarrow> field" where
  "int_or_text v = (case py_int v of Inr i \<Rightarrow> FInt i | Inl _ \<Rightarrow> FText v)"

definition result_set_end :: "string \<Rightarrow> string \<Rightarrow> node \<Rightarrow> py_exc + node" where
  "result_set_end name v x =
     (if name = ''IsTruncated'' then Inr (setf ''is_truncated'' (FBool (v = ''true'')) x)
      else if name = ''MaxUploads'' then set_int ''max_uploads'' v x
      else if name = ''return'' then Inr (setf ''status'' (FBool (v = ''true'')) x)
      else if name = ''StatusCode'' then Inr (setf ''status'' (FBool (v = ''Success'')) x)
      else if name = ''IsValid'' then Inr (setf ''status'' (FBool (v = ''True'')) x)
      else if name = ''ItemName'' then Inr (add_elem (FText v) x)
      else if name = ''BoxUsage'' then Inr x
      else Inr (set_by [(''Marker'', ''marker''), (''KeyMarker'', ''key_marker''), (''NextKeyMarker'', ''next_key_marker''),
        (''VersionIdMarker'', ''version_id_marker''), (''NextVersionIdMarker'', ''next_version_id_marker''),
        (''UploadIdMarker'', ''upload_id_marker''), (''NextUploadIdMarker'', ''next_upload_id_marker''), (''Bucket'', ''bucket''),
        (''Prefix'', ''prefix''), (''NextToken'', ''next_token'')] name v x))"

definition reservation_end :: "string \<Rightarrow> string \<Rightarrow> node \<Rightarrow> node" where
  "reservation_end = set_by [(''reservationId'', ''id''), (''ownerId'', ''owner_id'')]"

definition instance_table :: "(string \<times> string) list" where
  "instance_table =
     [(''instanceId'', ''id''), (''imageId'', ''image_id''), (''privateDnsName'', ''private_dns_name''), (''keyName'', ''key_name''),
      (''amiLaunchIndex'', ''ami_launch_index''), (''shutdownState'', ''shutdown_state''), (''previousState'', ''previous_state''),
      (''name'', ''state''), (''instanceType'', ''instance_type''), (''instanceClass'', ''instance_class''),
      (''rootDeviceName'', ''root_device_name''), (''rootDeviceType'', ''root_device_type''), (''launchTime'', ''launch_time''),
      (''availabilityZone'', ''placement''), (''kernelId'', ''kernel''), (''ramdiskId'', ''ramdisk''),
      (''spotInstanceRequestId'', ''spot_instance_request_id''), (''subnetId'', ''subnet_id''), (''vpcId'', ''vpc_id''),
      (''privateIpAddress'', ''private_ip_address''), (''ipAddress'', ''ip_address''), (''requesterId'', ''requester_id''),
      (''clientToken'', ''client_token'')]"

definition instance_end :: "string \<Rightarrow> string \<Rightarrow> node \<Rightarrow> node" where
  "instance_end name v x =
     (if name = ''dnsName'' \<or> name = ''publicDnsName'' then setf ''public_dns_name'' (FText v) (setf ''dns_name'' (FText v) x)
      else if name = ''code'' then setf ''state_code'' (int_or_text v) x
      else if name = ''placement'' then x
      else if name = ''state'' then
        (if getf ''_in_monitoring_element'' x = FBool True
         then setf ''_in_monitoring_element'' (FBool False) (if v = ''enabled'' then setf ''monitored'' (FBool True) x else x)
         else x)
      else if name = ''persistent'' then setf ''persistent'' (FBool (v = ''true'')) x
      else if name = ''groupName'' then
        (if getf ''_in_monitoring_element'' x = FBool True then setf ''group_name'' (FText v) x else x)
      else set_by instance_table name v x)"

definition group_end :: "string \<Rightarrow> string \<Rightarrow> node \<Rightarrow> node" where
  "group_end = set_by [(''groupId'', ''id'')]"

definition console_output_end :: "conversions \<Rightarrow> string \<Rightarrow> string \<Rightarrow> node \<Rightarrow> py_exc + node" where
  "console_output_end K name v x =
     (if name = ''output'' then map_sum id (\<lambda>s. setf ''output'' (FText s) x) (from_base64 K v)
      else Inr (set_by [(''instanceId'', ''instance_id'')] name v x))"

definition instance_attribute_end :: "string \<Rightarrow> string \<Rightarrow> node \<Rightarrow> node" where
  "instance_attribute_end name v x =
     (if name = ''value'' then setf ''_current_value'' (FText v) x else set_entry (FText name) (getf ''_current_value'' x) x)"

definition state_reason_end :: "string \<Rightarrow> string \<Rightarrow> node \<Rightarrow> node" where
  "state_reason_end name v x = (if name \<noteq> ''stateReason'' then set_entry (FText name) (FText v) x else x)"

definition tag_set_end :: "string \<Rightarrow> string \<Rightarrow> node \<Rightarrow> node" where
  "tag_set_end name v x =
     (if name = ''key'' then setf ''_current_key'' (FText v) x
      else if name = ''value'' then setf ''_current_value'' (FText v) x
      else if name = ''item'' then set_entry (getf ''_current_key'' x) (getf ''_current_value'' x) x
      else x)"

definition tag_end :: "string \<Rightarrow> string \<Rightarrow> node \<Rightarrow> node" where
  "tag_end = set_by [(''resourceId'', ''res_id''), (''resourceType'', ''res_type''), (''key'', ''name''), (''value'', ''value'')]"

definition block_device_type_end :: "string \<Rightarrow> string \<Rightarrow> node \<Rightarrow> py_exc + node" where
  "block_device_type_end name v x =
     (if name = ''NoDevice'' then Inr (setf ''no_device'' (FBool (v = ''true'')) x)
      else if name = ''volumeSize'' then set_int ''size'' v x
      else if name = ''deleteOnTermination'' then Inr (setf ''delete_on_termination'' (FBool (v = ''true'')) x)
      else Inr (set_by [(''volumeId'', ''volume_id''), (''virtualName'', ''ephemeral_name''), (''snapshotId'', ''snapshot_id''),
        (''status'', ''status''), (''attachTime'', ''attach_time'')] name v x))"

definition block_device_mapping_end :: "string \<Rightarrow> string \<Rightarrow> node \<Rightarrow> node" where
  "block_device_mapping_end name v x =
     (if name = ''device'' \<or> name = ''deviceName'' then setf ''current_name'' (FText v) x
      else if name = ''item'' then set_entry (getf ''current_name'' x) (getf ''current_value'' x) x
      else x)"

definition product_codes_end :: "string \<Rightarrow> string \<Rightarrow> node \<Rightarrow> node" where
  "product_codes_end name v x = (if name = ''productCode'' then add_elem (FText v) x else x)"

definition image_end :: "string \<Rightarrow> string \<Rightarrow> node \<Rightarrow> py_exc + node" where
  "image_end name v x =
     (if name = ''imageOwnerId'' then Inr (setf ''owner_id'' (FText v) (setf ''ownerId'' (FText v) x))
      else if name = ''isPublic'' then
        (if v = ''false'' then Inr (setf ''is_public'' (FBool False) x)
         else if v = ''true'' then Inr (setf ''is_public'' (FBool True) x)
         else Inl (PlainError ''Unexpected value of isPublic''))
      else Inr (set_by [(''imageId'', ''id''), (''imageLocation'', ''location''), (''imageState'', ''state''), (''architecture'', ''architecture''),
        (''imageType'', ''type''), (''kernelId'', ''kernel_id''), (''ramdiskId'', ''ramdisk_id''), (''imageOwnerAlias'', ''owner_alias''),
        (''platform'', ''platform''), (''name'', ''name''), (''description'', ''description''), (''rootDeviceType'', ''root_device_type''),
        (''rootDeviceName'', ''root_device_name''), (''virtualizationType'', ''virtualization_type''), (''hypervisor'', ''hypervisor''),
        (''instanceLifecycle'', ''instance_lifecycle'')] name v x))"

text \<open>Values that are collected in a list of the dictionary \<open>attrs\<close>.\<close>

definition collect :: "string \<Rightarrow> string \<Rightarrow> node \<Rightarrow> node" where
  "collect k v x = set_entry (FText k) (FTexts ((case get_entry (FText k) x of Some (FTexts vs) \<Rightarrow> vs | _ \<Rightarrow> []) @ [v])) x"

definition image_attribute_end :: "string \<Rightarrow> string \<Rightarrow> node \<Rightarrow> node" where
  "image_attribute_end name v x =
     (if name = ''launchPermission'' then setf ''name'' (FText ''launch_permission'') x
      else if name = ''group'' then collect ''groups'' v x
      else if name = ''userId'' then collect ''user_ids'' v x
      else if name = ''productCode'' then collect ''product_codes'' v x
      else set_by [(''imageId'', ''image_id''), (''kernel'', ''kernel''), (''ramdisk'', ''ramdisk'')] name v x)"

definition volume_end :: "string \<Rightarrow> string \<Rightarrow> node \<Rightarrow> py_exc + node" where
  "volume_end name v x =
     (if name = ''status'' then Inr (if v \<noteq> [] then setf ''status'' (FText v) x else x)
      else if name = ''size'' then set_int ''size'' v x
      else Inr (set_by [(''volumeId'', ''id''), (''createTime'', ''create_time''), (''snapshotId'', ''snapshot_id''),
        (''availabilityZone'', ''zone'')] name v x))"

definition attachment_set_end :: "string \<Rightarrow> string \<Rightarrow> node \<Rightarrow> node" where
  "attachment_set_end = set_by [(''volumeId'', ''id''), (''instanceId'', ''instance_id''), (''status'', ''status''), (''attachTime'', ''attach_time''),
     (''device'', ''device'')]"

definition snapshot_end :: "string \<Rightarrow> string \<Rightarrow> node \<Rightarrow> node" where
  "snapshot_end name v x =
     (if name = ''volumeSize'' then setf ''volume_size'' (int_or_text v) x
      else set_by [(''snapshotId'', ''id''), (''volumeId'', ''volume_id''), (''status'', ''status''), (''startTime'', ''start_time''),
        (''ownerId'', ''owner_id''), (''description'', ''description'')] name v x)"

definition snapshot_attribute_end :: "string \<Rightarrow> string \<Rightarrow> node \<Rightarrow> node" where
  "snapshot_attribute_end name v x =
     (if name = ''createVolumePermission'' then setf ''name'' (FText ''create_volume_permission'') x
      else if name = ''group'' then collect ''groups'' v x
      else if name = ''userId'' then collect ''user_ids'' v x
      else set_by [(''snapshotId'', ''snapshot_id'')] name v x)"

definition spot_instance_request_end :: "conversions \<Rightarrow> string \<Rightarrow> string \<Rightarrow> node \<Rightarrow> py_exc + node" where
  "spot_instance_request_end K name v x =
     (if name = ''spotPrice'' then map_sum id (\<lambda>q. setf ''price'' (FNum q) x) (to_float K v)
      else Inr (set_by [(''spotInstanceRequestId'', ''id''), (''type'', ''type''), (''state'', ''state''), (''productDescription'', ''product_description''),
        (''validFrom'', ''valid_from''), (''validUntil'', ''valid_until''), (''launchGroup'', ''launch_group''),
        (''availabilityZoneGroup'', ''availability_zone_group''), (''createTime'', ''create_time''), (''instanceId'', ''instance_id'')] name v x))"

text \<open>The element's own attribute is set in any case.\<close>

definition spot_instance_state_fault_end :: "string \<Rightarrow> string \<Rightarrow> node \<Rightarrow> node" where
  "spot_instance_state_fault_end name v x = setf name (FText v) (if name = ''code'' \<or> name = ''message'' then setf name (FText v) x else x)"

definition launch_specification_end :: "string \<Rightarrow> string \<Rightarrow> node \<Rightarrow> node" where
  "launch_specification_end name v x =
     (if name = ''placement'' then x
      else if name = ''state'' then
        (if getf ''_in_monitoring_element'' x = FBool True
         then setf ''_in_monitoring_element'' (FBool False) (if v = ''enabled'' then setf ''monitored'' (FBool True) x else x)
         else x)
      else set_by [(''imageId'', ''image_id''), (''keyName'', ''key_name''), (''instanceType'', ''instance_type''), (''availabilityZone'', ''placement''),
        (''kernelId'', ''kernel''), (''ramdiskId'', ''ramdisk''), (''subnetId'', ''subnet_id'')] name v x)"

definition security_group_end :: "string \<Rightarrow> string \<Rightarrow> node \<Rightarrow> py_exc + node" where
  "security_group_end name v x =
     (if name = ''ipRanges'' then Inr x
      else if name = ''return'' then
        (if v = ''false'' then Inr (setf ''status'' (FBool False) x)
         else if v = ''true'' then Inr (setf ''status'' (FBool True) x)
         else Inl (PlainError ''Unexpected value of status''))
      else Inr (set_by [(''ownerId'', ''owner_id''), (''groupName'', ''name''), (''groupDescription'', ''description'')] name v x))"

definition ip_permissions_end :: "string \<Rightarrow> string \<Rightarrow> node \<Rightarrow> node" where
  "ip_permissions_end = set_by [(''ipProtocol'', ''ip_protocol''), (''fromPort'', ''from_port''), (''toPort'', ''to_port'')]"

definition group_or_cidr_end :: "string \<Rightarrow> string \<Rightarrow> node \<Rightarrow> node" where
  "group_or_cidr_end name v x =
     set_by [(''cidrIp'', ''cidr_ip'')] name v
       (if name = ''userId'' then setf ''owner_id'' (FText v) x else if name = ''groupName'' then setf ''name'' (FText v) x else x)"

definition spot_datafeed_subscription_end :: "string \<Rightarrow> string \<Rightarrow> node \<Rightarrow> node" where
  "spot_datafeed_subscription_end = set_by [(''ownerId'', ''owner_id''), (''bucket'', ''bucket''), (''prefix'', ''prefix''), (''state'', ''state'')]"

definition spot_price_history_end :: "conversions \<Rightarrow> string \<Rightarrow> string \<Rightarrow> node \<Rightarrow> py_exc + node" where
  "spot_price_history_end K name v x =
     (if name = ''spotPrice'' then map_sum id (\<lambda>q. setf ''price'' (FNum q) x) (to_float K v)
      else Inr (set_by [(''instanceType'', ''instance_type''), (''productDescription'', ''product_description''), (''timestamp'', ''timestamp'')] name v x))"

definition key_pair_end :: "string \<Rightarrow> string \<Rightarrow> node \<Rightarrow> node" where
  "key_pair_end = set_by [(''keyName'', ''name''), (''keyFingerprint'', ''fingerprint''), (''keyMaterial'', ''material'')]"

definition zone_end :: "string \<Rightarrow> string \<Rightarrow> node \<Rightarrow> node" where
  "zone_end = set_by [(''zoneName'', ''name''), (''zoneState'', ''state'')]"

definition address_end :: "string \<Rightarrow> string \<Rightarrow> node \<Rightarrow> node" where
  "address_end = set_by [(''publicIp'', ''public_ip''), (''instanceId'', ''instance_id'')]"

definition instance_info_end :: "string \<Rightarrow> string \<Rightarrow> node \<Rightarrow> node" where
  "instance_info_end = set_by [(''instanceId'', ''id''), (''InstanceId'', ''id''), (''state'', ''state'')]"

definition reserved_instances_offering_end :: "string \<Rightarrow> string \<Rightarrow> node \<Rightarrow> node" where
  "reserved_instances_offering_end = set_by [(''reservedInstancesOfferingId'', ''id''), (''instanceType'', ''instance_type''),
     (''availabilityZone'', ''availability_zone''), (''duration'', ''duration''), (''fixedPrice'', ''fixed_price''), (''usagePrice'', ''usage_price''),
     (''productDescription'', ''description'')]"

definition reserved_instance_end :: "string \<Rightarrow> string \<Rightarrow> node \<Rightarrow> py_exc + node" where
  "reserved_instance_end name v x =
     (let y = if name = ''reservedInstancesId'' then setf ''id'' (FText v) x else x in
      if name = ''instanceCount'' then set_int ''instance_count'' v y
      else if name = ''state'' then Inr (setf ''state'' (FText v) y)
      else Inr (reserved_instances_offering_end name v y))"

definition placement_group_end :: "string \<Rightarrow> string \<Rightarrow> node \<Rightarrow> node" where
  "placement_group_end = set_by [(''groupName'', ''name''), (''strategy'', ''strategy''), (''state'', ''state'')]"

definition bundle_instance_task_end :: "string \<Rightarrow> string \<Rightarrow> node \<Rightarrow> node" where
  "bundle_instance_task_end = set_by [(''bundleId'', ''id''), (''instanceId'', ''instance_id''), (''progress'', ''progress''), (''startTime'', ''start_time''),
     (''state'', ''state''), (''bucket'', ''bucket''), (''prefix'', ''prefix''), (''uploadPolicy'', ''upload_policy''),
     (''uploadPolicySignature'', ''upload_policy_signature''), (''updateTime'', ''update_time''), (''code'', ''code''), (''message'', ''message'')]"

definition region_info_end :: "string \<Rightarrow> string \<Rightarrow> node \<Rightarrow> node" where
  "region_info_end = set_by [(''regionName'', ''name''), (''regionEndpoint'', ''endpoint'')]"

definition boolean_result_end :: "string \<Rightarrow> string \<Rightarrow> node \<Rightarrow> node" where
  "boolean_result_end name v x =
     (if name = ''return'' then setf ''status'' (FBool (v = ''true'')) x
      else if name = ''StatusCode'' then setf ''status'' (FBool (v = ''Success'')) x
      else if name = ''IsValid'' then setf ''status'' (FBool (v = ''True'')) x
      else set_by [(''RequestId'', ''request_id''), (''requestId'', ''request_id''), (''BoxUsage'', ''request_id'')] name v x)"

fun node_end :: "conversions \<Rightarrow> string \<Rightarrow> string \<Rightarrow> node \<Rightarrow> py_exc + node" where
  "node_end K name v x =
     (case n_cls x of
        CResultSet ms \<Rightarrow> result_set_end name v x
      | CBooleanResult \<Rightarrow> Inr (boolean_result_end name v x)
      | CReservation \<Rightarrow> Inr (reservation_end name v x)
      | CInstance \<Rightarrow> Inr (instance_end name v x)
      | CGroup \<Rightarrow> Inr (group_end name v x)
      | CConsoleOutput \<Rightarrow> console_output_end K name v x
      | CInstanceAttribute \<Rightarrow> Inr (instance_attribute_end name v x)
      | CStateReason \<Rightarrow> Inr (state_reason_end name v x)
      | CTagSet \<Rightarrow> Inr (tag_set_end name v x)
      | CTag \<Rightarrow> Inr (tag_end name v x)
      | CBlockDeviceType \<Rightarrow> block_device_type_end name v x
      | CBlockDeviceMapping \<Rightarrow> Inr (block_device_mapping_end name v x)
      | CProductCodes \<Rightarrow> Inr (product_codes_end name v x)
      | CImage \<Rightarrow> image_end name v x
      | CImageAttribute \<Rightarrow> Inr (image_attribute_end name v x)
      | CVolume \<Rightarrow> volume_end name v x
      | CAttachmentSet \<Rightarrow> Inr (attachment_set_end name v x)
      | CSnapshot \<Rightarrow> Inr (snapshot_end name v x)
      | CSnapshotAttribute \<Rightarrow> Inr (snapshot_attribute_end name v x)
      | CSpotInstanceRequest \<Rightarrow> spot_instance_request_end K name v x
      | CSpotInstanceStateFault \<Rightarrow> Inr (spot_instance_state_fault_end name v x)
      | CLaunchSpecification \<Rightarrow> Inr (launch_specification_end name v x)
      | CSecurityGroup \<Rightarrow> security_group_end name v x
      | CIPPermissions \<Rightarrow> Inr (ip_permissions_end name v x)
      | CGroupOrCIDR \<Rightarrow> Inr (group_or_cidr_end name v x)
      | CSpotDatafeedSubscription \<Rightarrow> Inr (spot_datafeed_subscription_end name v x)
      | CSpotPriceHistory \<Rightarrow> spot_price_history_end K name v x
      | CKeyPair \<Rightarrow> Inr (key_pair_end name v x)
      | CZone \<Rightarrow> Inr (zone_end name v x)
      | CAddress \<Rightarrow> Inr (address_end name v x)
      | CInstanceInfo \<Rightarrow> Inr (instance_info_end name v x)
      | CReservedInstancesOffering \<Rightarrow> Inr (reserved_instances_offering_end name v x)
      | CReservedInstance \<Rightarrow> reserved_instance_end name v x
      | CPlacementGroup \<Rightarrow> Inr (placement_group_end name v x)
      | CBundleInstanceTask \<Rightarrow> Inr (bundle_instance_task_end name v x)
      | CRegionInfo \<Rightarrow> Inr (region_info_end name v x))"

definition ec2_reader :: "conversions \<Rightarrow> (node, place) reader" where
  "ec2_reader K = \<lparr>rd_start = node_start, rd_end = node_end K, rd_attach = attach\<rparr>"

end
