(* ===== verification/BotoObjectsFacts.thy ===== *)
theory BotoObjectsFacts
  imports BotoObjects World
begin

text \<open>
  What the program learns of its instances: the reply to \<open>DescribeInstances\<close>, in the form that EC2
  documents, is read into reservations and instances with exactly the attributes of the records that the
  rest of the development uses. And a form of reply on which the handler goes wrong.
\<close>


section \<open>Attributes\<close>

lemma cls_simps [simp]:
  "n_cls (setf f v x) = n_cls x" "n_cls (add_elem v x) = n_cls x" "n_cls (set_entry k v x) = n_cls x" "n_cls (new_node c) = c"
  by (simp_all add: setf_def add_elem_def set_entry_def new_node_def)

lemma getf_setf [simp]: "getf f (setf g v x) = (if f = g then v else getf f x)"
  by (simp add: getf_def setf_def dget_dset)

lemma getf_other [simp]: "getf f (add_elem v x) = getf f x" "getf f (set_entry k v x) = getf f x"
  by (simp_all add: getf_def add_elem_def set_entry_def)

lemma elems_simps [simp]: "n_elems (setf f v x) = n_elems x" "n_elems (add_elem v x) = n_elems x @ [v]" "n_elems (new_node c) = []"
  by (simp_all add: setf_def add_elem_def new_node_def)

definition leaf :: "string \<Rightarrow> string \<Rightarrow> xml" where
  "leaf name v = Element name [] [Text v]"

abbreviation R2 :: "conversions \<Rightarrow> (node, place) reader" where
  "R2 \<equiv> ec2_reader"

lemma read_leaf:
  assumes "node_start name [] x = (x', None)"
  shows "read_xml (R2 K) (leaf name v) (x, t) = map_sum id (\<lambda>y. (y, [])) (node_end K name v x')"
  using assms by (simp add: leaf_def ec2_reader_def split: sum.splits del: node_start.simps node_end.simps)

lemma read_all_Cons: "read_xml R c (x, t) = Inr s \<Longrightarrow> read_all R (c # cs) (x, t) = read_all R cs s"
  by simp

section \<open>Instances\<close>

text \<open>
  The element of an instance as EC2 documents it, with the elements that the program's records are made of
  and any further leaves whose names are none of those that an instance looks at in a special way.
\<close>

definition opt_leaf :: "string \<Rightarrow> string option \<Rightarrow> xml list" where
  "opt_leaf name v = (case v of None \<Rightarrow> [] | Some s \<Rightarrow> [leaf name s])"

definition instance_children :: "string \<Rightarrow> (string \<times> string) list \<Rightarrow> ec2_instance \<Rightarrow> xml list" where
  "instance_children code extra i =
     [leaf ''instanceId'' (i_id i), leaf ''imageId'' (i_image_id i),
      Element ''instanceState'' [] [leaf ''code'' code, leaf ''name'' (i_state i)],
      leaf ''privateDnsName'' (i_private_dns_name i), leaf ''dnsName'' (i_dns_name i)]
     @ opt_leaf ''keyName'' (i_key_name i)
     @ [leaf ''instanceType'' (i_type i), leaf ''launchTime'' (i_launch_time i),
        Element ''placement'' [] [leaf ''availabilityZone'' (i_placement i), leaf ''groupName'' []],
        Element ''monitoring'' [] [leaf ''state'' ''disabled'']]
     @ opt_leaf ''spotInstanceRequestId'' (i_spot_id i)
     @ map (\<lambda>(n, v). leaf n v) extra"

definition text_of :: "field \<Rightarrow> string" where
  "text_of v = (case v of FText s \<Rightarrow> s | _ \<Rightarrow> [])"

definition opt_text :: "field \<Rightarrow> string option" where
  "opt_text v = (case v of FText s \<Rightarrow> Some s | _ \<Rightarrow> None)"

definition instance_of :: "node \<Rightarrow> ec2_instance" where
  "instance_of x = \<lparr>i_id = text_of (getf ''id'' x), i_image_id = text_of (getf ''image_id'' x), i_dns_name = text_of (getf ''dns_name'' x),
     i_private_dns_name = text_of (getf ''private_dns_name'' x), i_state = text_of (getf ''state'' x), i_key_name = opt_text (getf ''key_name'' x),
     i_type = text_of (getf ''instance_type'' x), i_launch_time = text_of (getf ''launch_time'' x), i_placement = text_of (getf ''placement'' x),
     i_spot_id = opt_text (getf ''spot_instance_request_id'' x)\<rparr>"

text \<open>The attributes above, and the names of further elements: none that sets one of them, or starts an object or ends one.\<close>

definition recorded :: "string set" where
  "recorded = {''id'', ''image_id'', ''dns_name'', ''private_dns_name'', ''state'', ''key_name'', ''instance_type'', ''launch_time'', ''placement'',
     ''spot_instance_request_id''}"

definition harmless :: "string \<Rightarrow> bool" where
  "harmless n \<longleftrightarrow> n \<notin> {''tagSet'', ''monitoring'', ''blockDeviceMapping'', ''productCodes'', ''stateReason'', ''dnsName'', ''publicDnsName'', ''item''}
     \<and> (case dget instance_table n of Some f \<Rightarrow> f | None \<Rightarrow> n) \<notin> recorded"

lemma instance_of_setf:
  assumes "f \<notin> recorded"
  shows "instance_of (setf f v x) = instance_of x"
proof -
  have "getf g (setf f v x) = getf g x" if "g \<in> recorded" for g using assms that by auto
  then show ?thesis by (simp add: instance_of_def recorded_def del: getf_setf)
qed

lemma instance_plain_start:
  assumes "n_cls x = CInstance" and "n \<notin> {''tagSet'', ''monitoring'', ''blockDeviceMapping'', ''productCodes'', ''stateReason''}"
  shows "node_start n attrs x = (x, None)"
  using assms by (simp add: instance_start_def tagged_start_def no_child_def)

lemma instance_leaf:
  assumes "n_cls x = CInstance" and "n \<notin> {''tagSet'', ''monitoring'', ''blockDeviceMapping'', ''productCodes'', ''stateReason''}"
  shows "read_xml (R2 K) (leaf n v) (x, t) = Inr (instance_end n v x, [])"
  using read_leaf [OF instance_plain_start [OF assms], of K v t] assms(1) by simp

lemma instance_end_cls [simp]: "n_cls (instance_end n v x) = n_cls x"
  by (simp add: instance_end_def set_by_def)

lemma instance_wrapper:
  assumes "n_cls x = CInstance" and "n \<notin> {''tagSet'', ''monitoring'', ''blockDeviceMapping'', ''productCodes'', ''stateReason''}"
    and "read_all (R2 K) cs (x, []) = Inr (y, u)" and "n_cls y = CInstance"
  shows "read_xml (R2 K) (Element n [] cs) (x, t) = Inr (instance_end n u y, [])"
  using instance_plain_start [OF assms(1,2), of "[]"] assms(3,4) by (simp add: ec2_reader_def del: node_start.simps)

lemma read_all_append:
  "read_all R (cs @ ds) s = (case read_all R cs s of Inl e \<Rightarrow> Inl e | Inr s' \<Rightarrow> read_all R ds s')"
  by (induction cs arbitrary: s) (auto split: sum.splits prod.splits)

lemma read_all_seq: "read_all R cs s = Inr s' \<Longrightarrow> read_all R (cs @ ds) s = read_all R ds s'"
  by (simp add: read_all_append)

lemma instance_monitoring:
  assumes "n_cls x = CInstance"
  shows "read_xml (R2 K) (Element ''monitoring'' [] [leaf ''state'' v]) (x, t)
    = Inr (instance_end ''monitoring'' [] (instance_end ''state'' v (setf ''_in_monitoring_element'' (FBool True) x)), [])"
proof -
  let ?y = "setf ''_in_monitoring_element'' (FBool True) x"
  have start: "node_start ''monitoring'' [] x = (?y, None)" using assms by (simp add: instance_start_def tagged_start_def no_child_def)
  have "read_xml (R2 K) (leaf ''state'' v) (?y, []) = Inr (instance_end ''state'' v ?y, [])"
    by (rule instance_leaf) (simp_all add: assms)
  then show ?thesis using start assms by (simp add: ec2_reader_def del: node_start.simps)
qed

lemma instance_opt_leaf:
  assumes "n_cls x = CInstance" and "n \<notin> {''tagSet'', ''monitoring'', ''blockDeviceMapping'', ''productCodes'', ''stateReason''}"
  shows "read_all (R2 K) (opt_leaf n v) (x, []) = Inr (case v of None \<Rightarrow> x | Some s \<Rightarrow> instance_end n s x, [])"
  using instance_leaf [OF assms] by (simp add: opt_leaf_def split: option.splits)

lemma harmless_end:
  assumes "harmless n"
  shows "instance_of (instance_end n v x) = instance_of x"
proof -
  have flags: "{''_in_monitoring_element'', ''monitored'', ''persistent'', ''group_name'', ''state_code''} \<inter> recorded = {}"
    by (simp add: recorded_def)
  show ?thesis
    using assms flags by (simp add: instance_end_def set_by_def harmless_def instance_of_setf)
qed

text \<open>What the documented elements do.\<close>

lemma instance_end_table:
  "instance_end ''instanceId'' v x = setf ''id'' (FText v) x"
  "instance_end ''imageId'' v x = setf ''image_id'' (FText v) x"
  "instance_end ''code'' v x = setf ''state_code'' (int_or_text v) x"
  "instance_end ''name'' v x = setf ''state'' (FText v) x"
  "instance_end ''instanceState'' v x = setf ''instanceState'' (FText v) x"
  "instance_end ''privateDnsName'' v x = setf ''private_dns_name'' (FText v) x"
  "instance_end ''dnsName'' v x = setf ''public_dns_name'' (FText v) (setf ''dns_name'' (FText v) x)"
  "instance_end ''keyName'' v x = setf ''key_name'' (FText v) x"
  "instance_end ''instanceType'' v x = setf ''instance_type'' (FText v) x"
  "instance_end ''launchTime'' v x = setf ''launch_time'' (FText v) x"
  "instance_end ''availabilityZone'' v x = setf ''placement'' (FText v) x"
  "instance_end ''placement'' v x = x"
  "instance_end ''monitoring'' v x = setf ''monitoring'' (FText v) x"
  "instance_end ''spotInstanceRequestId'' v x = setf ''spot_instance_request_id'' (FText v) x"
  by (simp_all add: instance_end_def set_by_def instance_table_def)

lemma instance_of_recorded:
  "instance_of (setf ''id'' (FText v) x) = (instance_of x)\<lparr>i_id := v\<rparr>"
  "instance_of (setf ''image_id'' (FText v) x) = (instance_of x)\<lparr>i_image_id := v\<rparr>"
  "instance_of (setf ''dns_name'' (FText v) x) = (instance_of x)\<lparr>i_dns_name := v\<rparr>"
  "instance_of (setf ''private_dns_name'' (FText v) x) = (instance_of x)\<lparr>i_private_dns_name := v\<rparr>"
  "instance_of (setf ''state'' (FText v) x) = (instance_of x)\<lparr>i_state := v\<rparr>"
  "instance_of (setf ''key_name'' (FText v) x) = (instance_of x)\<lparr>i_key_name := Some v\<rparr>"
  "instance_of (setf ''instance_type'' (FText v) x) = (instance_of x)\<lparr>i_type := v\<rparr>"
  "instance_of (setf ''launch_time'' (FText v) x) = (instance_of x)\<lparr>i_launch_time := v\<rparr>"
  "instance_of (setf ''placement'' (FText v) x) = (instance_of x)\<lparr>i_placement := v\<rparr>"
  "instance_of (setf ''spot_instance_request_id'' (FText v) x) = (instance_of x)\<lparr>i_spot_id := Some v\<rparr>"
  by (simp_all add: instance_of_def text_of_def opt_text_def)

lemma instance_of_new:
  "instance_of (new_node CInstance) = \<lparr>i_id = [], i_image_id = [], i_dns_name = [], i_private_dns_name = [], i_state = [], i_key_name = None,
     i_type = [], i_launch_time = [], i_placement = [], i_spot_id = None\<rparr>"
  by (simp add: instance_of_def new_node_def getf_def instance_fields_def nones_def tagged_def text_of_def opt_text_def)

lemma instance_end_unrecorded:
  "instance_of (instance_end ''groupName'' v x) = instance_of x"
  "instance_of (instance_end ''state'' v x) = instance_of x"
  by (simp_all add: instance_end_def instance_of_setf recorded_def)

lemma read_extra:
  assumes "n_cls x = CInstance" and "\<forall>(n, v) \<in> set extra. harmless n"
  shows "\<exists>y u. read_all (R2 K) (map (\<lambda>(n, v). leaf n v) extra) (x, []) = Inr (y, u) \<and> n_cls y = CInstance \<and> instance_of y = instance_of x"
  using assms
proof (induction extra arbitrary: x)
  case (Cons e extra)
  obtain n v where e: "e = (n, v)" by fastforce
  with Cons.prems have n: "harmless n" by simp
  then have "read_xml (R2 K) (leaf n v) (x, []) = Inr (instance_end n v x, [])"
    by (intro instance_leaf) (use Cons.prems in \<open>simp_all add: harmless_def\<close>)
  moreover have "n_cls (instance_end n v x) = CInstance" using Cons.prems by simp
  ultimately show ?case using Cons.IH [of "instance_end n v x"] Cons.prems(2) harmless_end [OF n] e by simp
qed simp

lemma read_instance_children:
  assumes "\<forall>(n, v) \<in> set extra. harmless n"
  shows "\<exists>y u. read_all (R2 K) (instance_children code extra i) (new_node CInstance, []) = Inr (y, u) \<and> n_cls y = CInstance \<and> instance_of y = i"
proof -
  let ?x0 = "new_node CInstance"
  let ?x1 = "instance_end ''imageId'' (i_image_id i) (instance_end ''instanceId'' (i_id i) ?x0)"
  let ?x2 = "instance_end ''instanceState'' [] (instance_end ''name'' (i_state i) (instance_end ''code'' code ?x1))"
  let ?x3 = "instance_end ''dnsName'' (i_dns_name i) (instance_end ''privateDnsName'' (i_private_dns_name i) ?x2)"
  let ?x4 = "case i_key_name i of None \<Rightarrow> ?x3 | Some s \<Rightarrow> instance_end ''keyName'' s ?x3"
  let ?x5 = "instance_end ''launchTime'' (i_launch_time i) (instance_end ''instanceType'' (i_type i) ?x4)"
  let ?x6 = "instance_end ''placement'' [] (instance_end ''groupName'' [] (instance_end ''availabilityZone'' (i_placement i) ?x5))"
  let ?x7 = "instance_end ''monitoring'' [] (instance_end ''state'' ''disabled'' (setf ''_in_monitoring_element'' (FBool True) ?x6))"
  let ?x8 = "case i_spot_id i of None \<Rightarrow> ?x7 | Some s \<Rightarrow> instance_end ''spotInstanceRequestId'' s ?x7"
  have cls4: "n_cls ?x4 = CInstance" by (simp split: option.splits)
  have cls8: "n_cls ?x8 = CInstance" using cls4 by (simp split: option.splits)
  have state: "read_xml (R2 K) (Element ''instanceState'' [] [leaf ''code'' code, leaf ''name'' (i_state i)]) (?x1, []) = Inr (?x2, [])"
    by (rule instance_wrapper) (simp_all add: instance_leaf)
  have first: "read_all (R2 K) [leaf ''instanceId'' (i_id i), leaf ''imageId'' (i_image_id i),
      Element ''instanceState'' [] [leaf ''code'' code, leaf ''name'' (i_state i)],
      leaf ''privateDnsName'' (i_private_dns_name i), leaf ''dnsName'' (i_dns_name i)] (?x0, []) = Inr (?x3, [])"
    using state by (simp add: instance_leaf del: read_xml.simps)
  have place: "read_xml (R2 K) (Element ''placement'' [] [leaf ''availabilityZone'' (i_placement i), leaf ''groupName'' []]) (?x5, []) = Inr (?x6, [])"
    by (rule instance_wrapper) (simp_all add: instance_leaf cls4)
  have second: "read_all (R2 K) [leaf ''instanceType'' (i_type i), leaf ''launchTime'' (i_launch_time i),
        Element ''placement'' [] [leaf ''availabilityZone'' (i_placement i), leaf ''groupName'' []],
        Element ''monitoring'' [] [leaf ''state'' ''disabled'']] (?x4, []) = Inr (?x7, [])"
    using place by (simp add: instance_leaf instance_monitoring cls4 del: read_xml.simps)
  have keyname: "read_all (R2 K) (opt_leaf ''keyName'' (i_key_name i)) (?x3, []) = Inr (?x4, [])"
    by (rule instance_opt_leaf) simp_all
  have spot: "read_all (R2 K) (opt_leaf ''spotInstanceRequestId'' (i_spot_id i)) (?x7, []) = Inr (?x8, [])"
    by (rule instance_opt_leaf) (simp_all add: cls4)
  have "instance_of ?x8 = i"
    by (cases "i_key_name i"; cases "i_spot_id i")
      (simp_all add: instance_end_table instance_of_recorded instance_of_setf instance_end_unrecorded instance_of_new recorded_def)
  moreover obtain y u where "read_all (R2 K) (map (\<lambda>(n, v). leaf n v) extra) (?x8, []) = Inr (y, u)" "n_cls y = CInstance" "instance_of y = instance_of ?x8"
    using read_extra [OF cls8 assms] by blast
  moreover have "read_all (R2 K) (instance_children code extra i) (?x0, [])
      = read_all (R2 K) (map (\<lambda>(n, v). leaf n v) extra) (?x8, [])"
    unfolding instance_children_def read_all_seq [OF first] read_all_seq [OF keyname] read_all_seq [OF second] read_all_seq [OF spot] ..
  ultimately show ?thesis by metis
qed


section \<open>Reservations\<close>

definition item :: "xml list \<Rightarrow> xml" where
  "item cs = Element ''item'' [] cs"

definition group_children :: "string \<Rightarrow> xml list" where
  "group_children g = [leaf ''groupId'' g]"

text \<open>An instance with what the reply says of it beyond the record: the code of its state and further leaves.\<close>

type_synonym described = "string \<times> (string \<times> string) list \<times> ec2_instance"

definition described_children :: "described \<Rightarrow> xml list" where
  "described_children d = (case d of (code, extra, i) \<Rightarrow> instance_children code extra i)"

definition ordinary :: "described \<Rightarrow> bool" where
  "ordinary d = (case d of (code, extra, i) \<Rightarrow> list_all (\<lambda>(n, v). harmless n) extra)"

definition described_instance :: "described \<Rightarrow> ec2_instance" where
  "described_instance d = snd (snd d)"

type_synonym described_reservation = "string \<times> string \<times> string list \<times> described list"

definition reservation_children :: "described_reservation \<Rightarrow> xml list" where
  "reservation_children r = (case r of (rid, owner, groups, ds) \<Rightarrow>
     [leaf ''reservationId'' rid, leaf ''ownerId'' owner,
      Element ''groupSet'' [] (map (\<lambda>g. item (group_children g)) groups),
      Element ''instancesSet'' [] (map (\<lambda>d. item (described_children d)) ds)])"

definition described_reservation :: "described_reservation \<Rightarrow> reservation" where
  "described_reservation r = (case r of (rid, owner, groups, ds) \<Rightarrow> \<lparr>r_groups = groups, r_instances = map described_instance ds\<rparr>)"

definition describe_doc :: "string \<Rightarrow> described_reservation list \<Rightarrow> xml" where
  "describe_doc request_id rs = Element ''DescribeInstancesResponse'' []
     [leaf ''requestId'' request_id, Element ''reservationSet'' [] (map (\<lambda>r. item (reservation_children r)) rs)]"

text \<open>The objects in a list, and the records that the program works with.\<close>

definition nodes_of :: "field list \<Rightarrow> node list" where
  "nodes_of vs = concat (map (\<lambda>v. case v of FNode x \<Rightarrow> [x] | _ \<Rightarrow> []) vs)"

definition listed :: "field \<Rightarrow> node list" where
  "listed v = (case v of FNode x \<Rightarrow> nodes_of (n_elems x) | _ \<Rightarrow> [])"

definition reservation_of :: "node \<Rightarrow> reservation" where
  "reservation_of x = \<lparr>r_groups = map (\<lambda>g. text_of (getf ''id'' g)) (listed (getf ''groups'' x)),
     r_instances = map instance_of (listed (getf ''instances'' x))\<rparr>"

definition reservations_of :: "node \<Rightarrow> reservation list" where
  "reservations_of x = map reservation_of (nodes_of (n_elems x))"

definition result_set_of :: "cls \<Rightarrow> node" where
  "result_set_of c = new_node (CResultSet [(''item'', c)])"

definition add_nodes :: "node list \<Rightarrow> node \<Rightarrow> node" where
  "add_nodes ys x = Node (n_cls x) (n_fields x) (n_elems x @ map FNode ys) (n_entries x)"

lemma add_nodes_simps [simp]:
  "n_cls (add_nodes ys x) = n_cls x" "n_elems (add_nodes ys x) = n_elems x @ map FNode ys" "add_nodes [] x = x"
  by (simp_all add: add_nodes_def)

lemma add_nodes_Cons: "add_nodes (y # ys) x = add_nodes ys (add_elem (FNode y) x)"
  by (simp add: add_nodes_def add_elem_def)

lemma nodes_of_map [simp]: "nodes_of (map FNode ys) = ys"
  by (induction ys) (simp_all add: nodes_of_def)

text \<open>The items of a list: each is read by an object of its own.\<close>

definition reads :: "conversions \<Rightarrow> cls \<Rightarrow> xml list \<Rightarrow> (node \<Rightarrow> bool) \<Rightarrow> bool" where
  "reads K c cs P \<longleftrightarrow> (\<exists>y u z. read_all (R2 K) cs (new_node c, []) = Inr (y, u) \<and> node_end K ''item'' u y = Inr z \<and> P z)"

lemma read_item:
  assumes "n_cls x = CResultSet [(''item'', c)]" and "reads K c cs P"
  shows "\<exists>y. P y \<and> read_xml (R2 K) (item cs) (x, t) = Inr (add_elem (FNode y) x, [])"
proof -
  have "node_start ''item'' [] x = (x, Some (PElem, new_node c))" using assms(1) by (simp add: new_child_def)
  then show ?thesis
    using assms(2) by (auto simp: reads_def item_def ec2_reader_def simp del: node_start.simps node_end.simps)
qed

lemma read_items:
  assumes "n_cls x = CResultSet [(''item'', c)]" and "\<And>a. a \<in> set as \<Longrightarrow> reads K c (ch a) (P a)"
  shows "\<exists>ys. list_all2 P as ys \<and> read_all (R2 K) (map (\<lambda>a. item (ch a)) as) (x, []) = Inr (add_nodes ys x, [])"
  using assms
proof (induction as arbitrary: x)
  case (Cons a as)
  obtain y where y: "P a y" "read_xml (R2 K) (item (ch a)) (x, []) = Inr (add_elem (FNode y) x, [])"
    using read_item [OF Cons.prems(1) Cons.prems(2) [of a]] by auto
  obtain ys where "list_all2 P as ys" "read_all (R2 K) (map (\<lambda>a. item (ch a)) as) (add_elem (FNode y) x, [])
      = Inr (add_nodes ys (add_elem (FNode y) x), [])"
    using Cons.IH [of "add_elem (FNode y) x"] Cons.prems by auto
  with y show ?case
    by (intro exI [of _ "y # ys"]) (simp add: add_nodes_Cons del: read_xml.simps)
qed simp

lemma reads_group: "reads K CGroup (group_children g) (\<lambda>y. text_of (getf ''id'' y) = g)"
  by (simp add: reads_def group_children_def leaf_def ec2_reader_def no_child_def new_node_def group_end_def set_by_def text_of_def)

lemma reads_instance:
  assumes "ordinary d"
  shows "reads K CInstance (described_children d) (\<lambda>y. instance_of y = described_instance d)"
proof -
  obtain code extra i where d: "d = (code, extra, i)" using prod_cases3 by blast
  have "\<forall>(n, v) \<in> set extra. harmless n" using assms by (auto simp: ordinary_def d list_all_iff)
  then obtain y u where "read_all (R2 K) (described_children d) (new_node CInstance, []) = Inr (y, u)" "n_cls y = CInstance" "instance_of y = i"
    using read_instance_children [of extra K code i] by (auto simp: described_children_def d)
  moreover have "instance_of (instance_end ''item'' u y) = instance_of y"
    by (simp add: instance_end_def set_by_def instance_table_def instance_of_setf recorded_def)
  ultimately show ?thesis by (simp add: reads_def described_instance_def d)
qed

lemma list_all2_map_eq: "list_all2 (\<lambda>a y. f y = g a) as ys \<Longrightarrow> map f ys = map g as"
  by (induction rule: list_all2_induct) auto


lemma reads_reservation:
  assumes "\<forall>d \<in> set (snd (snd (snd r))). ordinary d"
  shows "reads K CReservation (reservation_children r) (\<lambda>y. reservation_of y = described_reservation r)"
proof -
  obtain rid owner groups ds where r: "r = (rid, owner, groups, ds)" using prod_cases4 by blast
  let ?x0 = "new_node CReservation"
  let ?x2 = "reservation_end ''ownerId'' owner (reservation_end ''reservationId'' rid ?x0)"
  have leaves: "read_all (R2 K) [leaf ''reservationId'' rid, leaf ''ownerId'' owner] (?x0, []) = Inr (?x2, [])"
    by (simp add: leaf_def ec2_reader_def reservation_start_def no_child_def reservation_end_def set_by_def)
  have cls2: "n_cls ?x2 = CReservation" by (simp add: reservation_end_def set_by_def)
  obtain gs where gs: "list_all2 (\<lambda>g y. text_of (getf ''id'' y) = g) groups gs"
    "read_all (R2 K) (map (\<lambda>g. item (group_children g)) groups) (result_set_of CGroup, []) = Inr (add_nodes gs (result_set_of CGroup), [])"
    using read_items [of "result_set_of CGroup" CGroup groups K group_children "\<lambda>g y. text_of (getf ''id'' y) = g"] reads_group
    by (auto simp: result_set_of_def)
  obtain ys where ys: "list_all2 (\<lambda>d y. instance_of y = described_instance d) ds ys"
    "read_all (R2 K) (map (\<lambda>d. item (described_children d)) ds) (result_set_of CInstance, []) = Inr (add_nodes ys (result_set_of CInstance), [])"
    using read_items [of "result_set_of CInstance" CInstance ds K described_children "\<lambda>d y. instance_of y = described_instance d"] reads_instance assms
    by (auto simp: result_set_of_def r)
  obtain G where G: "node_end K ''groupSet'' [] (add_nodes gs (result_set_of CGroup)) = Inr G" "n_elems G = map FNode gs"
    by (simp add: result_set_of_def result_set_end_def set_by_def)
  obtain I where I: "node_end K ''instancesSet'' [] (add_nodes ys (result_set_of CInstance)) = Inr I" "n_elems I = map FNode ys"
    by (simp add: result_set_of_def result_set_end_def set_by_def)
  let ?x3 = "setf ''groups'' (FNode G) ?x2"
  let ?x4 = "setf ''instances'' (FNode I) ?x3"
  have groups: "read_xml (R2 K) (Element ''groupSet'' [] (map (\<lambda>g. item (group_children g)) groups)) (?x2, []) = Inr (?x3, [])"
    using gs(2) G(1) cls2 by (simp add: ec2_reader_def reservation_start_def new_child_def result_set_of_def del: node_end.simps)
  have instances: "read_xml (R2 K) (Element ''instancesSet'' [] (map (\<lambda>d. item (described_children d)) ds)) (?x3, []) = Inr (?x4, [])"
    using ys(2) I(1) cls2 by (simp add: ec2_reader_def reservation_start_def new_child_def result_set_of_def del: node_end.simps)
  have "reservation_children r = [leaf ''reservationId'' rid, leaf ''ownerId'' owner]
      @ [Element ''groupSet'' [] (map (\<lambda>g. item (group_children g)) groups), Element ''instancesSet'' [] (map (\<lambda>d. item (described_children d)) ds)]"
    by (simp add: reservation_children_def r)
  then have all: "read_all (R2 K) (reservation_children r) (?x0, []) = Inr (?x4, [])"
    by (simp only: read_all_seq [OF leaves] read_all.simps groups instances sum.case)
  obtain z where z: "node_end K ''item'' [] ?x4 = Inr z" "getf ''groups'' z = FNode G" "getf ''instances'' z = FNode I"
    using cls2 by (simp add: reservation_end_def set_by_def)
  have "map (\<lambda>y. text_of (getf ''id'' y)) gs = map (\<lambda>g. g) groups" by (rule list_all2_map_eq) (rule gs(1))
  moreover have "map instance_of ys = map described_instance ds" by (rule list_all2_map_eq) (rule ys(1))
  ultimately have "reservation_of z = described_reservation r"
    using z G(2) I(2) by (simp add: reservation_of_def described_reservation_def r listed_def)
  with all z(1) show ?thesis unfolding reads_def by blast
qed

lemma read_describe_doc:
  assumes "\<forall>r \<in> set rs. \<forall>d \<in> set (snd (snd (snd r))). ordinary d"
  shows "\<exists>y. read_xml (R2 K) (describe_doc request_id rs) (result_set_of CReservation, []) = Inr (y, []) \<and> reservations_of y = map described_reservation rs"
proof -
  let ?x0 = "result_set_of CReservation"
  let ?x1 = "setf ''requestId'' (FText request_id) ?x0"
  have leaf: "read_xml (R2 K) (leaf ''requestId'' request_id) (?x0, []) = Inr (?x1, [])"
    by (simp add: leaf_def ec2_reader_def result_set_of_def no_child_def result_set_end_def set_by_def)
  obtain ys where ys: "list_all2 (\<lambda>r y. reservation_of y = described_reservation r) rs ys"
    "read_all (R2 K) (map (\<lambda>r. item (reservation_children r)) rs) (?x1, []) = Inr (add_nodes ys ?x1, [])"
    using read_items [of ?x1 CReservation rs K reservation_children "\<lambda>r y. reservation_of y = described_reservation r"] reads_reservation assms
    by (auto simp: result_set_of_def)
  let ?x2 = "setf ''reservationSet'' (FText []) (add_nodes ys ?x1)"
  let ?x3 = "setf ''DescribeInstancesResponse'' (FText []) ?x2"
  have set: "read_xml (R2 K) (Element ''reservationSet'' [] (map (\<lambda>r. item (reservation_children r)) rs)) (?x1, []) = Inr (?x2, [])"
    using ys(2) by (simp add: ec2_reader_def no_child_def result_set_of_def result_set_end_def set_by_def)
  have "read_xml (R2 K) (describe_doc request_id rs) (?x0, []) = Inr (?x3, [])"
    using leaf set by (simp add: describe_doc_def ec2_reader_def no_child_def result_set_of_def result_set_end_def set_by_def del: read_xml.simps(1))
  moreover have "map reservation_of ys = map described_reservation rs" by (rule list_all2_map_eq) (rule ys(1))
  ultimately show ?thesis by (simp add: reservations_of_def result_set_of_def)
qed


section \<open>The handler reads the reply as it is nested\<close>

text \<open>An element that stands in an object of class \<open>c\<close> without any object being given for it or for what is inside it.\<close>

fun plain :: "cls \<Rightarrow> string \<Rightarrow> xml \<Rightarrow> bool" where
  "plain c m (Text s) = True"
| "plain c m (Element n attrs cs) \<longleftrightarrow>
     n \<notin> {''item'', m} \<and> (c = CInstance \<and> n \<notin> {''tagSet'', ''blockDeviceMapping'', ''productCodes'', ''stateReason''}
       \<or> c = CReservation \<and> n \<notin> {''groupSet'', ''instancesSet''} \<or> c = CGroup \<or> c = CResultSet [(''item'', CReservation)])
     \<and> (\<forall>x \<in> set cs. plain c m x)"

lemma plain_start:
  assumes "plain c m (Element n attrs cs)" and "n_cls x = c"
  shows "\<exists>x'. node_start n attrs x = (x', None) \<and> n_cls x' = c"
  using assms by (auto simp: instance_start_def tagged_start_def no_child_def reservation_start_def)

lemma plain_end: "node_end K n v x = Inr y \<Longrightarrow> n_cls y = n_cls x"
  if "n_cls x = CInstance \<or> n_cls x = CReservation \<or> n_cls x = CGroup \<or> n_cls x = CResultSet ms"
  using that
  by (cases "py_int v") (auto simp: reservation_end_def group_end_def result_set_end_def set_by_def set_int_def split: if_splits)

definition stays :: "conversions \<Rightarrow> cls \<Rightarrow> py_exc + node \<times> string \<Rightarrow> bool" where
  "stays K c r \<longleftrightarrow> (case r of Inl e \<Rightarrow> True | Inr s \<Rightarrow> n_cls (fst s) = c)"

lemma fits_plain:
  "R = R2 K \<Longrightarrow> plain c m t \<Longrightarrow> n_cls (fst s) = c \<Longrightarrow> fits R m t s \<and> stays K c (read_xml R t s)"
  "R = R2 K \<Longrightarrow> \<forall>t \<in> set ts. plain c m t \<Longrightarrow> n_cls (fst s) = c \<Longrightarrow> fits_all R m ts s \<and> stays K c (read_all R ts s)"
proof (induction R t s and R ts s rule: read_xml_read_all.induct)
  case (2 R name attrs cs x t)
  obtain x' where start: "node_start name attrs x = (x', None)" "n_cls x' = c" using plain_start [OF 2(4)] 2(5) by auto
  then have start': "rd_start R name attrs x = (x', None)" using 2(3) by (simp add: ec2_reader_def)
  have IH: "fits_all R m cs (x', []) \<and> stays K c (read_all R cs (x', []))"
    using 2(1) [OF start' [symmetric]] 2(3-5) start(2) by auto
  have name: "name \<noteq> m" using 2(4) by auto
  have cls: "c = CInstance \<or> c = CReservation \<or> c = CGroup \<or> c = CResultSet [(''item'', CReservation)]" using 2(4) by auto
  have "stays K c (read_xml R (Element name attrs cs) (x, t))"
  proof (cases "read_all R cs (x', [])")
    case (Inr s)
    then have "n_cls (fst s) = c" using IH by (simp add: stays_def)
    then have "node_end K name (snd s) (fst s) = Inr z \<Longrightarrow> n_cls z = c" for z
      using plain_end [of "fst s" "[(''item'', CReservation)]" K name "snd s" z] cls by auto
    then show ?thesis using Inr start' 2(3)
      by (auto simp: stays_def ec2_reader_def simp del: node_end.simps split: prod.splits sum.splits)
  qed (simp add: start' stays_def)
  with IH start' name show ?case by simp
next
  case (4 R t ts s)
  then show ?case by (auto simp: stays_def split: sum.splits)
qed (auto simp: stays_def)


lemma fits_all_append:
  "fits_all R m (as @ bs) s \<longleftrightarrow> fits_all R m as s \<and> (case read_all R as s of Inl e \<Rightarrow> True | Inr s' \<Rightarrow> fits_all R m bs s')"
proof (induction as arbitrary: s)
  case (Cons a as)
  obtain x t where s: "s = (x, t)" by fastforce
  show ?case using Cons unfolding s by (auto split: sum.splits)
qed (auto split: prod.splits simp: case_prod_beta)

lemma fits_all_seq:
  "fits_all R m as s \<Longrightarrow> (\<And>s'. read_all R as s = Inr s' \<Longrightarrow> fits_all R m bs s') \<Longrightarrow> fits_all R m (as @ bs) s"
  by (simp add: fits_all_append split: sum.splits)

lemma fits_all_Cons: "fits R m a s \<Longrightarrow> (\<And>s'. read_xml R a s = Inr s' \<Longrightarrow> fits_all R m as s') \<Longrightarrow> fits_all R m (a # as) s"
  by (cases s) (simp split: sum.splits)

lemma fits_items:
  assumes "n_cls x = CResultSet [(''item'', c)]"
    and "\<And>a. a \<in> set as \<Longrightarrow> reads K c (ch a) (\<lambda>_. True)" and "\<And>a. a \<in> set as \<Longrightarrow> fits_all (R2 K) ''item'' (ch a) (new_node c, [])"
  shows "fits_all (R2 K) m (map (\<lambda>a. item (ch a)) as) (x, [])"
  using assms
proof (induction as arbitrary: x)
  case (Cons a as)
  have "fits (R2 K) m (item (ch a)) (x, [])"
    using Cons.prems by (simp add: item_def ec2_reader_def new_child_def)
  moreover obtain y where "read_xml (R2 K) (item (ch a)) (x, []) = Inr (add_elem (FNode y) x, [])"
    using read_item [OF Cons.prems(1) Cons.prems(2) [of a]] by auto
  moreover have "fits_all (R2 K) m (map (\<lambda>a. item (ch a)) as) (add_elem (FNode y) x, [])"
    using Cons by simp
  ultimately show ?case by simp
qed simp

lemma reads_True: "reads K c cs P \<Longrightarrow> reads K c cs (\<lambda>_. True)"
  by (auto simp: reads_def)

lemma fits_group: "fits_all (R2 K) ''item'' (group_children g) (new_node CGroup, [])"
  using fits_plain(2) [where R = "R2 K" and K = K and ts = "group_children g" and c = CGroup and s = "(new_node CGroup, [])" and m = "''item''"]
  by (simp add: group_children_def leaf_def)

lemma plain_opt_leaf: "x \<in> set (opt_leaf n v) \<Longrightarrow> \<exists>w. x = leaf n w"
  by (auto simp: opt_leaf_def split: option.splits)

lemma fits_instance:
  assumes "ordinary d"
  shows "fits_all (R2 K) ''item'' (described_children d) (new_node CInstance, [])"
proof -
  obtain code extra i where d: "d = (code, extra, i)" using prod_cases3 by blast
  have extra: "\<forall>(n, v) \<in> set extra. plain CInstance ''item'' (leaf n v)"
    using assms by (auto simp: ordinary_def d list_all_iff harmless_def leaf_def)
  have "\<forall>x \<in> set (described_children d). plain CInstance ''item'' x"
    using extra unfolding described_children_def d prod.case instance_children_def
    by (auto simp: leaf_def dest!: plain_opt_leaf)
  then show ?thesis using fits_plain(2) [where R = "R2 K" and K = K and ts = "described_children d" and c = CInstance and s = "(new_node CInstance, [])" and m = "''item''"] by simp
qed

lemma fits_reservation:
  assumes "\<forall>d \<in> set (snd (snd (snd r))). ordinary d"
  shows "fits_all (R2 K) ''item'' (reservation_children r) (new_node CReservation, [])"
proof -
  obtain rid owner groups ds where r: "r = (rid, owner, groups, ds)" using prod_cases4 by blast
  let ?leaves = "[leaf ''reservationId'' rid, leaf ''ownerId'' owner]"
  let ?groups = "Element ''groupSet'' [] (map (\<lambda>g. item (group_children g)) groups)"
  let ?instances = "Element ''instancesSet'' [] (map (\<lambda>d. item (described_children d)) ds)"
  have leaves: "fits_all (R2 K) ''item'' ?leaves (new_node CReservation, [])" "stays K CReservation (read_all (R2 K) ?leaves (new_node CReservation, []))"
    using fits_plain(2) [where R = "R2 K" and K = K and ts = "?leaves" and c = CReservation and s = "(new_node CReservation, [])" and m = "''item''"] by (simp_all add: leaf_def)
  have groups: "fits (R2 K) ''item'' ?groups (x, t)" if "n_cls x = CReservation" for x t
    using that fits_items [of "result_set_of CGroup" CGroup groups K group_children "''groupSet''"] reads_True [OF reads_group] fits_group
    by (simp add: ec2_reader_def reservation_start_def new_child_def result_set_of_def)
  have instances: "fits (R2 K) ''item'' ?instances (x, t)" if "n_cls x = CReservation" for x t
    using that fits_items [of "result_set_of CInstance" CInstance ds K described_children "''instancesSet''"] reads_True [OF reads_instance] fits_instance assms
    by (simp add: ec2_reader_def reservation_start_def new_child_def result_set_of_def r)
  have groups_stay: "stays K CReservation (read_xml (R2 K) ?groups (x, t))" if "n_cls x = CReservation" for x t
    using that by (auto simp: stays_def ec2_reader_def reservation_start_def new_child_def split: sum.splits prod.splits simp del: node_end.simps)
  have "fits_all (R2 K) ''item'' [?groups, ?instances] s" if s: "n_cls (fst s) = CReservation" for s
  proof (rule fits_all_Cons)
    show "fits (R2 K) ''item'' ?groups s" using groups [of "fst s" "snd s"] s by simp
    fix s' assume "read_xml (R2 K) ?groups s = Inr s'"
    then have "n_cls (fst s') = CReservation"
      using groups_stay [OF s, of "snd s"] by (simp only: prod.collapse) (simp add: stays_def)
    then show "fits_all (R2 K) ''item'' [?instances] s'"
      using instances [of "fst s'" "snd s'"] by (intro fits_all_Cons) (auto simp only: prod.collapse fits_all.simps)
  qed
  moreover have "reservation_children r = ?leaves @ [?groups, ?instances]" by (simp add: reservation_children_def r)
  ultimately show ?thesis
    using leaves by (simp only:) (rule fits_all_seq, auto simp: stays_def simp del: read_all.simps)
qed


lemma fits_describe_doc:
  assumes "\<forall>r \<in> set rs. \<forall>d \<in> set (snd (snd (snd r))). ordinary d"
  shows "fits (R2 K) ''root'' (describe_doc request_id rs) (result_set_of CReservation, [])"
proof -
  let ?x0 = "result_set_of CReservation"
  let ?x1 = "setf ''requestId'' (FText request_id) ?x0"
  let ?items = "map (\<lambda>r. item (reservation_children r)) rs"
  have leaf: "read_xml (R2 K) (leaf ''requestId'' request_id) (?x0, []) = Inr (?x1, [])"
    by (simp add: leaf_def ec2_reader_def result_set_of_def no_child_def result_set_end_def set_by_def)
  have "fits_all (R2 K) ''root'' ?items (?x1, [])"
    by (rule fits_items [where c = CReservation]) (use assms in \<open>auto simp: result_set_of_def intro: reads_True reads_reservation fits_reservation\<close>)
  then have "fits (R2 K) ''root'' (Element ''reservationSet'' [] ?items) (?x1, [])"
    by (simp add: ec2_reader_def no_child_def result_set_of_def)
  moreover have "fits (R2 K) ''root'' (leaf ''requestId'' request_id) (?x0, [])"
    by (simp add: leaf_def ec2_reader_def no_child_def result_set_of_def)
  ultimately have "fits_all (R2 K) ''root'' [leaf ''requestId'' request_id, Element ''reservationSet'' [] ?items] (?x0, [])"
    by (intro fits_all_Cons) (auto simp: leaf simp del: read_xml.simps fits.simps)
  then show ?thesis
    by (simp add: describe_doc_def ec2_reader_def no_child_def result_set_of_def)
qed

text \<open>
  C32: what EC2 says of its instances is what the program sees. The reply to \<open>DescribeInstances\<close> for any
  reservations, in the documented form and with any further leaves in the instances whose names an
  instance does not treat specially, is read by the handler into just these reservations: the groups of each
  and its instances, with the attributes that the program uses, in order.
\<close>

theorem describe_reads:
  assumes "\<forall>r \<in> set rs. \<forall>d \<in> set (snd (snd (snd r))). ordinary d"
  shows "\<exists>y. parse (ec2_reader K) (describe_doc request_id rs) (new_node (CResultSet [(''item'', CReservation)])) = Inr y
    \<and> reservations_of y = map described_reservation rs"
proof -
  obtain y where "read_xml (R2 K) (describe_doc request_id rs) (result_set_of CReservation, []) = Inr (y, [])"
      "reservations_of y = map described_reservation rs"
    using read_describe_doc [OF assms] by blast
  moreover have "parse (R2 K) (describe_doc request_id rs) (result_set_of CReservation)
      = map_sum id fst (read_xml (R2 K) (describe_doc request_id rs) (result_set_of CReservation, []))"
    by (rule parse_agrees [OF sax_run_read(1)]) (rule fits_describe_doc [OF assms])
  ultimately show ?thesis by (simp add: result_set_of_def)
qed

definition some_conversions :: conversions where
  "some_conversions = \<lparr>to_float = (\<lambda>_. Inr 0), from_base64 = Inr\<rparr>"

lemma describe_reads_witness:
  "\<exists>y. parse (ec2_reader some_conversions) (describe_doc ''req'' [(''r-1'', ''11'', [''default'', ''alice''],
      [(''16'', [(''kernelId'', ''aki-1''), (''architecture'', ''i386'')],
        \<lparr>i_id = ''i-1'', i_image_id = ''ami-1'', i_dns_name = ''a.com'', i_private_dns_name = ''b'', i_state = ''running'', i_key_name = Some ''alice-k'',
          i_type = ''m1.small'', i_launch_time = ''2012-01-01'', i_placement = ''us-east-1a'', i_spot_id = None\<rparr>)])])
      (new_node (CResultSet [(''item'', CReservation)])) = Inr y
    \<and> reservations_of y = [\<lparr>r_groups = [''default'', ''alice''], r_instances =
        [\<lparr>i_id = ''i-1'', i_image_id = ''ami-1'', i_dns_name = ''a.com'', i_private_dns_name = ''b'', i_state = ''running'', i_key_name = Some ''alice-k'',
          i_type = ''m1.small'', i_launch_time = ''2012-01-01'', i_placement = ''us-east-1a'', i_spot_id = None\<rparr>]\<rparr>]"
  using describe_reads [of "[(''r-1'', ''11'', [''default'', ''alice''],
      [(''16'', [(''kernelId'', ''aki-1''), (''architecture'', ''i386'')],
        \<lparr>i_id = ''i-1'', i_image_id = ''ami-1'', i_dns_name = ''a.com'', i_private_dns_name = ''b'', i_state = ''running'', i_key_name = Some ''alice-k'',
          i_type = ''m1.small'', i_launch_time = ''2012-01-01'', i_placement = ''us-east-1a'', i_spot_id = None\<rparr>)])]" some_conversions "''req''"]
  by (simp add: ordinary_def harmless_def recorded_def instance_table_def described_reservation_def described_instance_def)


section \<open>An element that the handler takes for the end of an instance\<close>

lemma new_instance_key: "getf ''key_name'' (new_node CInstance) = FNone"
  by (simp add: new_node_def getf_def instance_fields_def nones_def tagged_def)

text \<open>
  The handler goes by names alone. An instance whose element holds an element that instances do not know,
  with items in it, such as the groups of an instance in a private cloud, ends with the first of these items:
  the key name that follows is given to the list of instances, and the instance has none.
\<close>

theorem nested_item_ends_instance:
  "\<exists>y z. parse (ec2_reader K) (Element ''instancesSet'' []
        [item [leaf ''instanceId'' i, Element ''groupSet'' [] [item [leaf ''groupId'' g]], leaf ''keyName'' k]])
        (new_node (CResultSet [(''item'', CInstance)])) = Inr y
      \<and> n_elems y = [FNode z] \<and> getf ''id'' z = FText i \<and> getf ''key_name'' z = FNone \<and> getf ''keyName'' y = FText k"
  by (simp add: parse_def handler_init_def item_def leaf_def ec2_reader_def new_child_def instance_start_def tagged_start_def no_child_def
      instance_end_def set_by_def instance_table_def result_set_end_def hd_result_def new_instance_key)


section \<open>A document that fits\<close>


end
