(* ===== verification/BotoSdbValues.thy ===== *)
theory BotoSdbValues
  imports BotoText
begin

text \<open>
  \<open>SDBConverter\<close> in \<open>boto/sdb/db/manager/sdbmanager.py\<close>: the texts as which SimpleDB keeps the values
  of attributes. SimpleDB compares texts character by character, so that integers and floats are written
  in such a way that their texts are ordered as they are. Floats are exact rational numbers here; the format
  \<open>%e\<close>, of which the code reads the digits of a float, is a parameter. Blobs, whose encoding writes them to
  S3, are left out.
\<close>


section \<open>Values\<close>

datatype (plugins only: code size) sval =
    VNone
  | VBool bool
  | VInt int
  | VText string
  | VFloat rat
  | VDate "int \<times> int \<times> int"
  | VDatetime "int \<times> int \<times> int" "int \<times> int \<times> int" int
  | VModel string "string option"
  | VKey "string option"
  | VList "sval list"
  | VMap "(string \<times> sval) list"

text \<open>
  The last three parts of a time are its hour, minute and second, and the microseconds. A model object is
  its class and its id.
\<close>

datatype item_type = TText | TBool | TInt | TLong | TFloat | TModel string | TKey | TDatetime | TDate

text \<open>
  The parameters: the format \<open>%e\<close>, the orders in which dictionaries give their values, and \<open>str\<close> for
  values that are no texts.
\<close>

record conv_lib =
  cv_e :: "rat \<Rightarrow> string"
  cv_values :: "(sval, sval) dict \<Rightarrow> (sval, sval) dict"
  cv_items :: "(string, sval) dict \<Rightarrow> (string, sval) dict"
  cv_str :: "sval \<Rightarrow> string"


section \<open>Numbers as texts\<close>

definition zeros :: "nat \<Rightarrow> string" where
  "zeros n = replicate n CHR ''0''"

text \<open>\<open>'%0wd' % i\<close>, \<open>s.rjust(w, '0')\<close> and \<open>s.ljust(w, '0')\<close>.\<close>

definition rjust0 :: "nat \<Rightarrow> string \<Rightarrow> string" where
  "rjust0 w s = zeros (w - length s) @ s"

definition ljust0 :: "nat \<Rightarrow> string \<Rightarrow> string" where
  "ljust0 w s = s @ zeros (w - length s)"

definition zpad :: "nat \<Rightarrow> int \<Rightarrow> string" where
  "zpad w i = (if i < 0 then CHR ''-'' # rjust0 (w - 1) (nat_str (nat (- i))) else rjust0 w (nat_str (nat i)))"

text \<open>\<open>'%f' % q\<close>: six digits after the point.\<close>

definition micro_str :: "nat \<Rightarrow> string" where
  "micro_str m = nat_str (m div 1000000) @ ''.'' @ rjust0 6 (nat_str (m mod 1000000))"

definition fmt_f :: "rat \<Rightarrow> string" where
  "fmt_f q = (if q < 0 then CHR ''-'' # micro_str (nat (round (- q * 1000000))) else micro_str (nat (round (q * 1000000))))"

text \<open>\<open>float(s)\<close> for decimal fractions with or without an exponent.\<close>

definition dec_value :: "string \<Rightarrow> py_exc + rat" where
  "dec_value s =
     (let neg = (s \<noteq> [] \<and> hd s = CHR ''-''); t = (if s \<noteq> [] \<and> hd s \<in> {CHR ''-'', CHR ''+''} then tl s else s) in
      case py_split (CHR ''.'') t of
        [a] \<Rightarrow> if a \<noteq> [] \<and> list_all is_digit a then Inr ((if neg then -1 else 1) * of_nat (digits_val a)) else Inl ValueError
      | [a, b] \<Rightarrow> if a @ b \<noteq> [] \<and> list_all is_digit (a @ b)
          then Inr ((if neg then -1 else 1) * of_nat (digits_val (a @ b)) / 10 ^ length b) else Inl ValueError
      | _ \<Rightarrow> Inl ValueError)"

definition py_float :: "string \<Rightarrow> py_exc + rat" where
  "py_float s =
     (case py_split (CHR ''e'') s of
        [m] \<Rightarrow> dec_value m
      | [m, x] \<Rightarrow> (case dec_value m of Inl e \<Rightarrow> Inl e | Inr q \<Rightarrow> (case py_int x of Inl e \<Rightarrow> Inl e | Inr i \<Rightarrow>
            Inr (if 0 \<le> i then q * 10 ^ nat i else q / 10 ^ nat (- i))))
      | _ \<Rightarrow> Inl ValueError)"

text \<open>\<open>int(v)\<close> and \<open>long(v)\<close>; the latter also reads a text that ends in \<open>L\<close>.\<close>

fun to_int :: "sval \<Rightarrow> py_exc + int" where
  "to_int (VBool b) = Inr (if b then 1 else 0)"
| "to_int (VInt i) = Inr i"
| "to_int (VText s) = py_int s"
| "to_int (VFloat q) = Inr (if q < 0 then - \<lfloor>- q\<rfloor> else \<lfloor>q\<rfloor>)"
| "to_int _ = Inl TypeError"

definition unsuffixed :: "string \<Rightarrow> string" where
  "unsuffixed s = (let t = py_strip s in
     if t \<noteq> [] \<and> last t \<in> {CHR ''L'', CHR ''l''} \<and> butlast t \<noteq> [] \<and> is_digit (last (butlast t)) then butlast t else s)"

fun to_long :: "sval \<Rightarrow> py_exc + int" where
  "to_long (VText s) = py_int (unsuffixed s)"
| "to_long v = to_int v"


section \<open>Single values\<close>

definition INT_OFFSET :: int where
  "INT_OFFSET = 2147483648"

definition LONG_OFFSET :: int where
  "LONG_OFFSET = 9223372036854775808"

definition encode_int :: "sval \<Rightarrow> py_exc + sval" where
  "encode_int v = map_sum id (\<lambda>i. VText (zpad 10 (i + INT_OFFSET))) (to_int v)"

text \<open>What is no integer is logged and read as 0.\<close>

definition decode_int :: "sval \<Rightarrow> py_exc + sval" where
  "decode_int v = Inr (VInt ((case to_int v of Inr i \<Rightarrow> i | Inl e \<Rightarrow> 0) - INT_OFFSET))"

definition encode_long :: "sval \<Rightarrow> py_exc + sval" where
  "encode_long v = map_sum id (\<lambda>i. VText (zpad 20 (i + LONG_OFFSET))) (to_long v)"

definition decode_long :: "sval \<Rightarrow> py_exc + sval" where
  "decode_long v = map_sum id (\<lambda>i. VInt (i - LONG_OFFSET)) (to_long v)"

text \<open>\<open>value == True\<close>; \<open>str(value)\<close> can be one of the two words only for texts and for objects, which are printed as their ids.\<close>

fun is_true :: "sval \<Rightarrow> bool" where
  "is_true (VBool b) = b"
| "is_true (VInt i) = (i = 1)"
| "is_true (VFloat q) = (q = 1)"
| "is_true _ = False"

fun word_of :: "sval \<Rightarrow> string" where
  "word_of (VText s) = s"
| "word_of (VModel c (Some i)) = i"
| "word_of (VKey (Some i)) = i"
| "word_of _ = []"

definition encode_bool :: "sval \<Rightarrow> py_exc + sval" where
  "encode_bool v = Inr (VText (if is_true v \<or> py_lower (word_of v) = ''true'' \<or> py_lower (word_of v) = ''yes'' then ''true'' else ''false''))"

fun decode_bool :: "sval \<Rightarrow> py_exc + sval" where
  "decode_bool (VText s) = Inr (VBool (py_lower s = ''true''))"
| "decode_bool _ = Inl (AttributeError ''lower'')"

text \<open>The number that \<open>%e\<close> formats; anything that is no number is refused by the format.\<close>

fun as_float :: "sval \<Rightarrow> rat option" where
  "as_float (VBool b) = Some (if b then 1 else 0)"
| "as_float (VInt i) = Some (of_int i)"
| "as_float (VFloat q) = Some q"
| "as_float _ = None"

text \<open>
  A float becomes a digit for its sign and the sign of its exponent, three digits of an exponent and a
  mantissa, the latter two complemented where the order would be the wrong one.
\<close>

definition complemented :: "string \<Rightarrow> py_exc + string" where
  "complemented m = map_sum id (\<lambda>q. ljust0 18 (fmt_f (10 + q))) (dec_value m)"

definition float_text :: "bool \<Rightarrow> string \<Rightarrow> string \<Rightarrow> py_exc + string" where
  "float_text is_zero mantissa exponent =
     (let shown = (\<lambda>c x m. c @ '' '' @ x @ '' '' @ m); minus = (hd mantissa = CHR ''-'') in
      if is_zero then Inr (shown ''3'' ''000'' mantissa)
      else if exponent = [] then Inl IndexError
      else if \<not> minus \<and> hd exponent = CHR ''+'' then Inr (shown ''5'' (rjust0 3 (tl exponent)) mantissa)
      else if \<not> minus \<and> hd exponent = CHR ''-'' then
        map_sum id (\<lambda>i. shown ''4'' (zpad 3 (999 + i)) mantissa) (py_int exponent)
      else if minus \<and> hd exponent = CHR ''-'' then
        map_sum id (\<lambda>m. shown ''2'' (rjust0 3 (tl exponent)) m) (complemented mantissa)
      else (case complemented mantissa of Inl e \<Rightarrow> Inl e
            | Inr m \<Rightarrow> map_sum id (\<lambda>i. shown ''1'' (zpad 3 (999 - i)) m) (py_int exponent)))"

definition encode_float :: "conv_lib \<Rightarrow> sval \<Rightarrow> py_exc + sval" where
  "encode_float L v =
     (case as_float v of
        None \<Rightarrow> Inl TypeError
      | Some q \<Rightarrow>
          (case py_split (CHR ''e'') (cv_e L q) of
             m # x # _ \<Rightarrow> map_sum id VText (float_text (q = 0) (ljust0 18 m) x)
           | _ \<Rightarrow> Inl IndexError))"

definition decode_float :: "sval \<Rightarrow> py_exc + sval" where
  "decode_float v =
     (case v of
        VText s \<Rightarrow>
          (if s = [] then Inl IndexError
           else let c = hd s; exponent = take 3 (drop 2 s); mantissa = drop 6 s;
               uncomplemented = map_sum id (\<lambda>q. fmt_f (q - 10)) (dec_value mantissa) in
             if c = CHR ''3'' then Inr (VFloat 0)
             else map_sum id VFloat
               (if c = CHR ''5'' then py_float (mantissa @ ''e'' @ exponent)
                else if c = CHR ''4'' then
                  (case py_int exponent of Inl e \<Rightarrow> Inl e | Inr i \<Rightarrow> py_float (mantissa @ ''e'' @ zpad 3 (i - 999)))
                else if c = CHR ''2'' then
                  (case uncomplemented of Inl e \<Rightarrow> Inl e | Inr m \<Rightarrow> py_float (m @ ''e-'' @ exponent))
                else
                  (case uncomplemented of Inl e \<Rightarrow> Inl e
                   | Inr m \<Rightarrow> (case py_int exponent of Inl e \<Rightarrow> Inl e | Inr i \<Rightarrow> py_float (m @ ''e'' @ zpad 3 \<bar>i - 999\<bar>)))))
      | _ \<Rightarrow> Inl TypeError)"


section \<open>Dates and times\<close>

definition leap_year :: "int \<Rightarrow> bool" where
  "leap_year y \<longleftrightarrow> y mod 4 = 0 \<and> (y mod 100 \<noteq> 0 \<or> y mod 400 = 0)"

definition month_days :: "int \<Rightarrow> int \<Rightarrow> int" where
  "month_days y m = (if m = 2 then (if leap_year y then 29 else 28) else if m \<in> {4, 6, 9, 11} then 30 else 31)"

fun valid_date :: "int \<times> int \<times> int \<Rightarrow> bool" where
  "valid_date (y, m, d) \<longleftrightarrow> 1 \<le> y \<and> y \<le> 9999 \<and> 1 \<le> m \<and> m \<le> 12 \<and> 1 \<le> d \<and> d \<le> month_days y m"

fun valid_time :: "int \<times> int \<times> int \<Rightarrow> bool" where
  "valid_time (h, m, s) \<longleftrightarrow> 0 \<le> h \<and> h \<le> 23 \<and> 0 \<le> m \<and> m \<le> 59 \<and> 0 \<le> s \<and> s \<le> 59"

fun date_str :: "int \<times> int \<times> int \<Rightarrow> string" where
  "date_str (y, m, d) = zpad 4 y @ ''-'' @ zpad 2 m @ ''-'' @ zpad 2 d"

fun time_str :: "int \<times> int \<times> int \<Rightarrow> string" where
  "time_str (h, m, s) = zpad 2 h @ '':'' @ zpad 2 m @ '':'' @ zpad 2 s"

text \<open>\<open>strftime\<close> refuses years before 1900; a date has the time 0.\<close>

definition iso_text :: "int \<times> int \<times> int \<Rightarrow> int \<times> int \<times> int \<Rightarrow> py_exc + sval" where
  "iso_text d t = (if fst d < 1900 then Inl ValueError else Inr (VText (date_str d @ ''T'' @ time_str t @ ''Z'')))"

fun encode_datetime :: "sval \<Rightarrow> py_exc + sval" where
  "encode_datetime (VText s) = Inr (VText s)"
| "encode_datetime (VDatetime d t u) = iso_text d t"
| "encode_datetime (VDate d) = iso_text d (0, 0, 0)"
| "encode_datetime _ = Inl (AttributeError ''strftime'')"

text \<open>
  \<open>strptime\<close>: a field has one or two digits, a day may have a blank for its first digit, the letters may be small.
\<close>

definition field_value :: "int \<Rightarrow> int \<Rightarrow> string \<Rightarrow> int option" where
  "field_value lo hi s =
     (if (length s = 1 \<or> length s = 2) \<and> list_all is_digit s \<and> lo \<le> int (digits_val s) \<and> int (digits_val s) \<le> hi
      then Some (int (digits_val s)) else None)"

definition day_value :: "string \<Rightarrow> int option" where
  "day_value s = (if length s = 2 \<and> hd s = CHR '' '' then field_value 1 9 (tl s) else field_value 1 31 s)"

definition year_value :: "string \<Rightarrow> int option" where
  "year_value s = (if length s = 4 \<and> list_all is_digit s then Some (int (digits_val s)) else None)"

definition parse_time :: "string \<Rightarrow> (int \<times> int \<times> int) option" where
  "parse_time s =
     (case py_split (CHR '':'') s of
        [h, m, z] \<Rightarrow>
          (if z = [] \<or> last z \<noteq> CHR ''z'' then None
           else (case (field_value 0 23 h, field_value 0 59 m, field_value 0 59 (butlast z)) of
               (Some h, Some m, Some s) \<Rightarrow> Some (h, m, s)
             | _ \<Rightarrow> None))
      | _ \<Rightarrow> None)"

definition parse_iso :: "string \<Rightarrow> ((int \<times> int \<times> int) \<times> (int \<times> int \<times> int)) option" where
  "parse_iso s =
     (case py_split (CHR ''-'') (py_lower s) of
        [y, m, r] \<Rightarrow>
          (case py_split (CHR ''t'') r of
             [d, t] \<Rightarrow>
               (case (year_value y, field_value 1 12 m, day_value d, parse_time t) of
                  (Some y, Some m, Some d, Some t) \<Rightarrow> if valid_date (y, m, d) then Some ((y, m, d), t) else None
                | _ \<Rightarrow> None)
           | _ \<Rightarrow> None)
      | _ \<Rightarrow> None)"

fun decode_datetime :: "sval \<Rightarrow> py_exc + sval" where
  "decode_datetime (VText s) = Inr (case parse_iso s of None \<Rightarrow> VNone | Some (d, t) \<Rightarrow> VDatetime d t 0)"
| "decode_datetime _ = Inr VNone"

fun encode_date :: "sval \<Rightarrow> py_exc + sval" where
  "encode_date (VText s) = Inr (VText s)"
| "encode_date (VDate d) = Inr (VText (date_str d))"
| "encode_date (VDatetime d t u) = Inr (VText (date_str d @ ''T'' @ time_str t @ (if u = 0 then [] else ''.'' @ zpad 6 u)))"
| "encode_date _ = Inl (AttributeError ''isoformat'')"

definition date_parts :: "string list \<Rightarrow> (int \<times> int \<times> int) option" where
  "date_parts ps =
     (case ps of
        y # m # d # _ \<Rightarrow>
          (case (py_int y, py_int m, py_int d) of
             (Inr y, Inr m, Inr d) \<Rightarrow> if valid_date (y, m, d) then Some (y, m, d) else None
           | _ \<Rightarrow> None)
      | _ \<Rightarrow> None)"

fun decode_date :: "sval \<Rightarrow> py_exc + sval" where
  "decode_date (VText s) = Inr (case date_parts (py_split (CHR ''-'') s) of None \<Rightarrow> VNone | Some d \<Rightarrow> VDate d)"
| "decode_date _ = Inr VNone"


section \<open>References\<close>

definition opt_id :: "string option \<Rightarrow> sval" where
  "opt_id i = (case i of None \<Rightarrow> VNone | Some s \<Rightarrow> VText s)"

fun encode_reference :: "sval \<Rightarrow> py_exc + sval" where
  "encode_reference VNone = Inr VNone"
| "encode_reference (VText s) = Inr (if s \<in> {''None'', [], '' ''} then VNone else VText s)"
| "encode_reference (VModel c i) = Inr (opt_id i)"
| "encode_reference (VKey i) = Inr (opt_id i)"
| "encode_reference _ = Inl (AttributeError ''id'')"

definition decode_reference :: "sval \<Rightarrow> py_exc + sval" where
  "decode_reference v = Inr (if v \<in> {VNone, VText [], VText ''None'', VList []} then VNone else v)"


section \<open>Any value\<close>

definition encode :: "conv_lib \<Rightarrow> item_type \<Rightarrow> sval \<Rightarrow> py_exc + sval" where
  "encode L T v =
     (case T of
        TText \<Rightarrow> Inr v
      | TBool \<Rightarrow> encode_bool v
      | TInt \<Rightarrow> encode_int v
      | TLong \<Rightarrow> encode_long v
      | TFloat \<Rightarrow> encode_float L v
      | TModel c \<Rightarrow> encode_reference v
      | TKey \<Rightarrow> encode_reference v
      | TDatetime \<Rightarrow> encode_datetime v
      | TDate \<Rightarrow> encode_date v)"

text \<open>The class of a model object is no key of the table of decoders; a list or map of objects is decoded below.\<close>

definition decode :: "item_type \<Rightarrow> sval \<Rightarrow> py_exc + sval" where
  "decode T v =
     (case T of
        TText \<Rightarrow> Inr v
      | TBool \<Rightarrow> decode_bool v
      | TInt \<Rightarrow> decode_int v
      | TLong \<Rightarrow> decode_long v
      | TFloat \<Rightarrow> decode_float v
      | TModel c \<Rightarrow> Inr v
      | TKey \<Rightarrow> decode_reference v
      | TDatetime \<Rightarrow> decode_datetime v
      | TDate \<Rightarrow> decode_date v)"


section \<open>Lists and maps\<close>

text \<open>Lists are kept as maps from their indices: SimpleDB keeps a set of texts for an attribute.\<close>

definition entry_text :: "conv_lib \<Rightarrow> string \<Rightarrow> sval \<Rightarrow> string" where
  "entry_text L k v = k @ '':'' @ (case v of VText s \<Rightarrow> s | _ \<Rightarrow> cv_str L v)"

fun encode_entries :: "conv_lib \<Rightarrow> item_type \<Rightarrow> (string, sval) dict \<Rightarrow> py_exc + sval list" where
  "encode_entries L T [] = Inr []"
| "encode_entries L T ((k, v) # d) =
     (case encode L T v of
        Inl e \<Rightarrow> Inl e
      | Inr w \<Rightarrow> map_sum id (\<lambda>ws. if w = VNone then ws else VText (entry_text L k w) # ws) (encode_entries L T d))"

fun encode_map :: "conv_lib \<Rightarrow> item_type \<Rightarrow> sval \<Rightarrow> py_exc + sval" where
  "encode_map L T VNone = Inr VNone"
| "encode_map L T (VMap d) = map_sum id VList (encode_entries L T (cv_items L d))"
| "encode_map L T _ = Inl ValueError"

definition list_keys :: "sval list \<Rightarrow> (string, sval) dict" where
  "list_keys vs = map (\<lambda>(i, v). (zpad 3 (int i), v)) (enumerate 0 vs)"

fun encode_list :: "conv_lib \<Rightarrow> item_type \<Rightarrow> sval \<Rightarrow> py_exc + sval" where
  "encode_list L T VNone = Inr (VList [])"
| "encode_list L T (VList vs) = (if vs = [] then Inr (VList []) else encode_map L T (VMap (list_keys vs)))"
| "encode_list L T v = encode L T v"

fun decode_map_element :: "item_type \<Rightarrow> sval \<Rightarrow> py_exc + string \<times> sval" where
  "decode_map_element T (VText s) =
     (let (k, t) = (if CHR '':'' \<in> set s then (hd (py_split1 (CHR '':'') s), hd (tl (py_split1 (CHR '':'') s))) else (s, s)) in
      case T of
        TModel c \<Rightarrow> Inr (k, VModel c (Some t))
      | _ \<Rightarrow> map_sum id (Pair k) (decode T (VText t)))"
| "decode_map_element T v = Inl TypeError"

text \<open>Keys that are equal numbers are the same key.\<close>

definition key_of :: "sval \<Rightarrow> sval" where
  "key_of v = (case v of VBool b \<Rightarrow> VInt (if b then 1 else 0) | VFloat q \<Rightarrow> (if of_int \<lfloor>q\<rfloor> = q then VInt \<lfloor>q\<rfloor> else v) | _ \<Rightarrow> v)"

definition as_values :: "sval \<Rightarrow> sval list" where
  "as_values v = (case v of VList vs \<Rightarrow> vs | _ \<Rightarrow> [v])"

fun decode_entries :: "item_type \<Rightarrow> sval list \<Rightarrow> (sval, sval) dict \<Rightarrow> py_exc + (sval, sval) dict" where
  "decode_entries T [] d = Inr d"
| "decode_entries T (v # vs) d =
     (if v = VNone then decode_entries T vs d
      else (case decode_map_element T v of
          Inl e \<Rightarrow> Inl e
        | Inr (k, w) \<Rightarrow> decode_entries T vs (dset (case py_int k of Inr i \<Rightarrow> VInt i | Inl e \<Rightarrow> key_of w) w d)))"

definition decode_list :: "conv_lib \<Rightarrow> item_type \<Rightarrow> sval \<Rightarrow> py_exc + sval" where
  "decode_list L T v = map_sum id (\<lambda>d. VList (map snd (cv_values L d))) (decode_entries T (as_values v) [])"

fun decode_pairs :: "item_type \<Rightarrow> sval list \<Rightarrow> (string, sval) dict \<Rightarrow> py_exc + (string, sval) dict" where
  "decode_pairs T [] d = Inr d"
| "decode_pairs T (v # vs) d =
     (case decode_map_element T v of Inl e \<Rightarrow> Inl e | Inr (k, w) \<Rightarrow> decode_pairs T vs (dset k w d))"

definition decode_map :: "item_type \<Rightarrow> sval \<Rightarrow> py_exc + sval" where
  "decode_map T v = map_sum id VMap (decode_pairs T (as_values v) [])"

datatype shape = Single item_type | ListOf item_type | MapOf item_type

fun encode_prop :: "conv_lib \<Rightarrow> shape \<Rightarrow> sval \<Rightarrow> py_exc + sval" where
  "encode_prop L (ListOf T) v = encode_list L T v"
| "encode_prop L (MapOf T) v = encode_map L T v"
| "encode_prop L (Single T) v = encode L T v"

fun decode_prop :: "conv_lib \<Rightarrow> shape \<Rightarrow> sval \<Rightarrow> py_exc + sval" where
  "decode_prop L (ListOf T) v = decode_list L T v"
| "decode_prop L (MapOf T) v = decode_map T v"
| "decode_prop L (Single T) v = decode T v"

text \<open>A value for a name that is no property is written as it prints.\<close>

definition encode_value :: "conv_lib \<Rightarrow> shape option \<Rightarrow> sval \<Rightarrow> py_exc + sval" where
  "encode_value L prop v =
     (if v = VNone then Inr VNone
      else (case prop of None \<Rightarrow> Inr (VText (case v of VText s \<Rightarrow> s | _ \<Rightarrow> cv_str L v)) | Some p \<Rightarrow> encode_prop L p v))"

end
