(* ===== verification/BotoSdbModel.thy ===== *)
theory BotoSdbModel
  imports BotoSdbValues BotoQuery
begin

text \<open>
  The objects that boto keeps in SimpleDB: \<open>boto/sdb/db/property.py\<close>, \<open>boto/sdb/db/model.py\<close>,
  \<open>boto/sdb/db/query.py\<close> and \<open>SDBManager\<close> in \<open>boto/sdb/db/manager/sdbmanager.py\<close>. A class of objects has
  properties, each with its kind; an object has an id, the values of its properties and a mark whether it was
  loaded. SimpleDB answers as an arbitrary function of the calls made before. Properties for passwords,
  blobs, keys of S3, calculated values and the reverse of references are left out, as are hooks that a class may have
  for setting a property.
\<close>


section \<open>Classes and properties\<close>

datatype (plugins only: code size) kind =
    KString
  | KText "nat option"
  | KInteger int int
  | KLong
  | KBoolean
  | KFloat
  | KDateTime bool bool
  | KDate bool bool
  | KReference string
  | KList item_type
  | KMap item_type

record property =
  p_name :: string
  p_kind :: kind
  p_default :: sval
  p_required :: bool
  p_choices :: "sval list"
  p_unique :: bool

text \<open>The properties of a class: its own first, then those of its bases. The lineage ends with the class itself.\<close>

datatype model_class =
  ModelClass (mc_name: string) (mc_module: string) (mc_lineage: "string list") (mc_properties: "property list") (mc_sub_classes: "model_class list")

record obj =
  o_id :: "string option"
  o_loaded :: bool
  o_values :: "(string, sval) dict"

text \<open>The type of a property's values, which says how they are encoded.\<close>

fun kind_shape :: "kind \<Rightarrow> shape" where
  "kind_shape KString = Single TText"
| "kind_shape (KText m) = Single TText"
| "kind_shape (KInteger lo hi) = Single TInt"
| "kind_shape KLong = Single TLong"
| "kind_shape KBoolean = Single TBool"
| "kind_shape KFloat = Single TFloat"
| "kind_shape (KDateTime a b) = Single TDatetime"
| "kind_shape (KDate a b) = Single TDate"
| "kind_shape (KReference c) = Single TKey"
| "kind_shape (KList T) = ListOf T"
| "kind_shape (KMap T) = MapOf T"

text \<open>Every class is looked at and the last match counts: a property of a base hides that of the class itself.\<close>

definition find_property :: "model_class \<Rightarrow> string \<Rightarrow> property option" where
  "find_property C name =
     (case rev (filter (\<lambda>P. p_name P = name) (mc_properties C)) of [] \<Rightarrow> None | P # _ \<Rightarrow> Some P)"

definition get_lineage :: "model_class \<Rightarrow> string" where
  "get_lineage C = py_join ''.'' (mc_lineage C)"


section \<open>The database\<close>

datatype db_call =
    PutAttributes string "(string, sval) dict"
  | DeleteAttributes string "string list"
  | GetAttributes string
  | GetAttribute string string
  | Select string "string option"

datatype db_answer = DbDone | DbItem "(string, sval) dict" | DbPage "(string \<times> (string, sval) dict) list" "string option" | DbFailed py_exc

text \<open>
  The world of the manager: the library, the domain, the database, the clock, the classes that are
  found by their names, whether a class has another in its lineage, and the identifiers for new objects; the
  last as functions of what was done before.
\<close>

record db_env =
  en_lib :: conv_lib
  en_domain :: string
  en_answer :: "db_call list \<Rightarrow> db_answer"
  en_now :: "db_call list \<Rightarrow> sval"
  en_today :: "db_call list \<Rightarrow> sval"
  en_find_class :: "string \<Rightarrow> string \<Rightarrow> model_class option"
  en_derived :: "string \<Rightarrow> string \<Rightarrow> bool"
  en_uuid :: "db_call list \<Rightarrow> string"
  en_names :: "string list \<Rightarrow> string list"

record db_state =
  db_log :: "db_call list"
  db_obj :: obj

definition db_do :: "db_env \<Rightarrow> db_call \<Rightarrow> (db_state, db_answer) st" where
  "db_do E c s =
     (let log = db_log s @ [c] in
      (case en_answer E log of DbFailed e \<Rightarrow> (Inl e, s\<lparr>db_log := log\<rparr>) | a \<Rightarrow> (Inr a, s\<lparr>db_log := log\<rparr>)))"

definition get_attributes :: "db_env \<Rightarrow> string \<Rightarrow> (db_state, (string, sval) dict) st" where
  "get_attributes E i = bnd (db_do E (GetAttributes i)) (\<lambda>a. case a of DbItem d \<Rightarrow> ret d | _ \<Rightarrow> ret [])"


section \<open>Setting a property\<close>

fun truthy :: "sval \<Rightarrow> bool" where
  "truthy VNone = False"
| "truthy (VBool b) = b"
| "truthy (VInt i) = (i \<noteq> 0)"
| "truthy (VText s) = (s \<noteq> [])"
| "truthy (VFloat q) = (q \<noteq> 0)"
| "truthy (VList vs) = (vs \<noteq> [])"
| "truthy (VMap d) = (d \<noteq> [])"
| "truthy _ = True"

text \<open>\<open>isinstance\<close>: a boolean is an integer, a time is a date.\<close>

definition is_instance :: "db_env \<Rightarrow> item_type \<Rightarrow> sval \<Rightarrow> bool" where
  "is_instance E T v =
     (case v of
        VText s \<Rightarrow> T = TText
      | VBool b \<Rightarrow> T = TBool \<or> T = TInt \<or> T = TLong
      | VInt i \<Rightarrow> T = TInt \<or> T = TLong
      | VFloat q \<Rightarrow> T = TFloat
      | VDate d \<Rightarrow> T = TDate
      | VDatetime d t u \<Rightarrow> T = TDatetime \<or> T = TDate
      | VModel c i \<Rightarrow> (case T of TModel c' \<Rightarrow> en_derived E c c' | _ \<Rightarrow> False)
      | VKey i \<Rightarrow> T = TKey
      | _ \<Rightarrow> False)"

text \<open>\<open>default_value\<close>; the default of a map is always the empty map.\<close>

definition default_datetime :: "db_env \<Rightarrow> property \<Rightarrow> bool \<Rightarrow> (db_state, sval) st" where
  "default_datetime E P auto = (if auto then gets (\<lambda>s. en_now E (db_log s)) else ret (p_default P))"

definition default_date :: "db_env \<Rightarrow> property \<Rightarrow> bool \<Rightarrow> (db_state, sval) st" where
  "default_date E P auto = (if auto then gets (\<lambda>s. en_today E (db_log s)) else ret (p_default P))"

definition default_value :: "db_env \<Rightarrow> property \<Rightarrow> (db_state, sval) st" where
  "default_value E P =
     (case p_kind P of
        KDateTime now add \<Rightarrow> default_datetime E P (now \<or> add)
      | KDate now add \<Rightarrow> default_date E P (now \<or> add)
      | KMap T \<Rightarrow> ret (VMap [])
      | _ \<Rightarrow> ret (p_default P))"

definition validate_string :: "sval \<Rightarrow> py_exc + unit" where
  "validate_string v =
     (case v of VNone \<Rightarrow> Inr () | VText s \<Rightarrow> if 1024 < length s then Inl ValueError else Inr () | _ \<Rightarrow> Inl TypeError)"

text \<open>\<open>==\<close>: numbers by value, model objects by their ids.\<close>

definition same_as :: "sval \<Rightarrow> sval \<Rightarrow> bool" where
  "same_as v w =
     (case v of
        VModel c i \<Rightarrow> (case w of VModel c' j \<Rightarrow> i = j | _ \<Rightarrow> False)
      | _ \<Rightarrow> key_of v = key_of w)"

text \<open>\<open>Property.validate\<close> with the validator of the kind, or the type that its values must have.\<close>

definition common_checks :: "property \<Rightarrow> sval \<Rightarrow> (py_exc + unit) \<Rightarrow> py_exc + unit" where
  "common_checks P v r =
     (if p_required P \<and> v = VNone then Inl ValueError
      else if p_choices P \<noteq> [] \<and> truthy v \<and> \<not> list_ex (same_as v) (p_choices P) then Inl ValueError
      else r)"

definition typed_check :: "property \<Rightarrow> sval \<Rightarrow> bool \<Rightarrow> py_exc + unit" where
  "typed_check P v good = common_checks P v (if same_as v (p_default P) \<or> good then Inr () else Inl TypeError)"

definition MAXINT :: int where
  "MAXINT = 9223372036854775807"

definition in_range :: "int \<Rightarrow> int \<Rightarrow> int \<Rightarrow> py_exc + unit" where
  "in_range lo hi i = (if hi < i \<or> i < lo then Inl ValueError else Inr ())"

definition to_float :: "sval \<Rightarrow> py_exc + rat" where
  "to_float v = (case v of VText s \<Rightarrow> py_float s | _ \<Rightarrow> (case as_float v of None \<Rightarrow> Inl TypeError | Some q \<Rightarrow> Inr q))"

definition validate_text :: "nat option \<Rightarrow> sval \<Rightarrow> py_exc + unit" where
  "validate_text m v =
     (case v of
        VText s \<Rightarrow> (case m of Some n \<Rightarrow> if 0 < n \<and> n < length s then Inl ValueError else Inr () | None \<Rightarrow> Inr ())
      | _ \<Rightarrow> Inl TypeError)"

definition validate_integer :: "property \<Rightarrow> int \<Rightarrow> int \<Rightarrow> sval \<Rightarrow> py_exc + unit" where
  "validate_integer P lo hi v =
     sbind (to_int v) (\<lambda>i. sbind (typed_check P (VInt i) (- MAXINT - 1 \<le> i \<and> i \<le> MAXINT)) (\<lambda>_. in_range lo hi i))"

definition validate_long :: "property \<Rightarrow> sval \<Rightarrow> py_exc + unit" where
  "validate_long P v = sbind (to_long v) (\<lambda>i. sbind (typed_check P (VInt i) True) (\<lambda>_. in_range (- MAXINT - 1) MAXINT i))"

definition validate_float :: "property \<Rightarrow> sval \<Rightarrow> py_exc + unit" where
  "validate_float P v = sbind (to_float v) (\<lambda>q. typed_check P (VFloat q) True)"

definition validate_datetime :: "db_env \<Rightarrow> sval \<Rightarrow> py_exc + unit" where
  "validate_datetime E v = (if v = VNone \<or> is_instance E TDatetime v then Inr () else Inl TypeError)"

definition validate_date :: "db_env \<Rightarrow> sval \<Rightarrow> py_exc + unit" where
  "validate_date E v = (if v = VNone \<or> is_instance E TDate v then Inr () else Inl TypeError)"

text \<open>\<open>check_instance\<close> turns whatever goes wrong into one exception.\<close>

definition check_instance :: "db_env \<Rightarrow> string \<Rightarrow> sval \<Rightarrow> py_exc + unit" where
  "check_instance E c v = (case v of VModel c' i \<Rightarrow> if en_derived E c' c then Inr () else Inl ValueError | _ \<Rightarrow> Inl ValueError)"

definition validate_reference :: "db_env \<Rightarrow> property \<Rightarrow> string \<Rightarrow> sval \<Rightarrow> py_exc + unit" where
  "validate_reference E P c v =
     (if p_required P \<and> v = VNone then Inl ValueError
      else if same_as v (p_default P) \<or> is_instance E TText v then Inr ()
      else check_instance E c v)"

definition validate_items :: "db_env \<Rightarrow> item_type \<Rightarrow> sval list \<Rightarrow> py_exc + unit" where
  "validate_items E T vs =
     (let good = (if T \<in> {TInt, TLong} then (\<lambda>v. is_instance E TInt v) else is_instance E T) in
      if list_all good vs then Inr () else Inl ValueError)"

definition validate_list :: "db_env \<Rightarrow> item_type \<Rightarrow> sval \<Rightarrow> py_exc + unit" where
  "validate_list E T v = (case v of VNone \<Rightarrow> Inl TypeError | VList vs \<Rightarrow> validate_items E T vs | _ \<Rightarrow> validate_items E T [v])"

definition validate_map :: "db_env \<Rightarrow> item_type \<Rightarrow> sval \<Rightarrow> py_exc + unit" where
  "validate_map E T v = (case v of VNone \<Rightarrow> Inl TypeError | VMap d \<Rightarrow> validate_items E T (map snd d) | _ \<Rightarrow> Inl ValueError)"

definition validate :: "db_env \<Rightarrow> property \<Rightarrow> sval \<Rightarrow> py_exc + unit" where
  "validate E P v =
     (case p_kind P of
        KString \<Rightarrow> common_checks P v (validate_string v)
      | KText m \<Rightarrow> validate_text m v
      | KInteger lo hi \<Rightarrow> validate_integer P lo hi v
      | KLong \<Rightarrow> validate_long P v
      | KFloat \<Rightarrow> validate_float P v
      | KBoolean \<Rightarrow> typed_check P v (is_instance E TBool v)
      | KDateTime a b \<Rightarrow> validate_datetime E v
      | KDate a b \<Rightarrow> validate_date E v
      | KReference c \<Rightarrow> validate_reference E P c v
      | KList T \<Rightarrow> validate_list E T v
      | KMap T \<Rightarrow> validate_map E T v)"

text \<open>What \<open>__set__\<close> of some kinds makes of the value first; a reference must not be to the object itself.\<close>

definition given_integer :: "sval \<Rightarrow> sval" where
  "given_integer v = (if v = VText [] \<or> v = VNone then VInt 0 else v)"

definition given_list :: "db_env \<Rightarrow> item_type \<Rightarrow> sval \<Rightarrow> sval" where
  "given_list E T v =
     (if is_instance E (if T = TLong then TInt else T) v then VList [v] else if v = VNone then VList [] else v)"

definition given_reference :: "obj \<Rightarrow> sval \<Rightarrow> py_exc + sval" where
  "given_reference x v =
     (case v of
        VModel c i \<Rightarrow> if i = o_id x then Inl ValueError else Inr v
      | VKey i \<Rightarrow> if i = o_id x then Inl ValueError else Inr v
      | VText s \<Rightarrow> if o_id x = Some s then Inl ValueError else Inr v
      | _ \<Rightarrow> Inr v)"

definition given_value :: "db_env \<Rightarrow> property \<Rightarrow> obj \<Rightarrow> sval \<Rightarrow> py_exc + sval" where
  "given_value E P x v =
     (case p_kind P of
        KInteger lo hi \<Rightarrow> Inr (given_integer v)
      | KList T \<Rightarrow> Inr (given_list E T v)
      | KReference c \<Rightarrow> given_reference x v
      | _ \<Rightarrow> Inr v)"

text \<open>The property that an attribute of an object is: the class's own before those of its bases.\<close>

definition descriptor :: "model_class \<Rightarrow> property \<Rightarrow> property" where
  "descriptor C P = (case filter (\<lambda>Q. p_name Q = p_name P) (mc_properties C) of [] \<Rightarrow> P | Q # _ \<Rightarrow> Q)"

definition set_attr :: "db_env \<Rightarrow> property \<Rightarrow> sval \<Rightarrow> (db_state, unit) st" where
  "set_attr E P v =
     bnd (gets db_obj) (\<lambda>x.
     bnd (lift_sum (given_value E P x v)) (\<lambda>w.
     andthen (lift_sum (validate E P w))
       (modify (\<lambda>s. s\<lparr>db_obj := x\<lparr>o_values := dset (p_name P) w (o_values x)\<rparr>\<rparr>))))"

text \<open>An exception when a value is set that was read is only logged.\<close>

definition set_quietly :: "db_env \<Rightarrow> property \<Rightarrow> sval \<Rightarrow> (db_state, unit) st" where
  "set_quietly E P v = try_except (set_attr E P v) (\<lambda>e. is_standard_error e) (\<lambda>e. ret ())"

definition init_object :: "db_env \<Rightarrow> model_class \<Rightarrow> string option \<Rightarrow> (property \<times> sval) list \<Rightarrow> (db_state, unit) st" where
  "init_object E C i params =
     andthen (modify (\<lambda>s. s\<lparr>db_obj := \<lparr>o_id = None, o_loaded = False, o_values = []\<rparr>\<rparr>))
    (andthen (for_each (\<lambda>P. bnd (default_value E P) (set_attr E (descriptor C P))) (mc_properties C))
    (andthen (modify (\<lambda>s. s\<lparr>db_obj := (db_obj s)\<lparr>o_id := i\<rparr>\<rparr>))
      (for_each (\<lambda>(P, v). set_quietly E (descriptor C P) v) params)))"


section \<open>Queries\<close>

text \<open>A query: filters of a property and an operation, or several of them, with a value, or one text.\<close>

datatype filters = FilterText string | Filters "(string list \<times> sval) list"

record db_query =
  qu_filters :: filters
  qu_sort_by :: "string option"
  qu_select :: "string option"
  qu_limit :: "int option"

definition given_text :: "string option \<Rightarrow> bool" where
  "given_text s \<longleftrightarrow> s \<noteq> None \<and> s \<noteq> Some []"

definition opt_or_empty :: "string option \<Rightarrow> string" where
  "opt_or_empty s = (case s of None \<Rightarrow> [] | Some t \<Rightarrow> t)"

definition quoted_literal :: "string \<Rightarrow> string" where
  "quoted_literal s = squote # py_replace [squote] [squote, squote] s @ [squote]"

definition named :: "string \<Rightarrow> string" where
  "named s = ''`'' @ s @ ''`''"

definition is_list_property :: "property option \<Rightarrow> bool" where
  "is_list_property P = (case P of None \<Rightarrow> False | Some P \<Rightarrow> (case p_kind P of KList T \<Rightarrow> True | _ \<Rightarrow> False))"

text \<open>A list is compared by its entries, whatever their indices.\<close>

definition list_operation :: "string \<Rightarrow> string" where
  "list_operation op = (if op \<in> {''is'', ''=''} then ''like'' else if op \<in> {''!='', ''not''} then ''not like'' else op)"

definition entry_pattern :: "conv_lib \<Rightarrow> string \<Rightarrow> sval \<Rightarrow> py_exc + sval" where
  "entry_pattern L op v =
     (case v of
        VText s \<Rightarrow> Inr (VText (if op = ''like'' \<and> py_startswith s ''%'' then s else ''%:'' @ s))
      | _ \<Rightarrow> if op = ''like'' then Inl (AttributeError ''startswith'') else Inr (VText (''%:'' @ cv_str L v)))"

definition condition :: "string \<Rightarrow> string \<Rightarrow> sval \<Rightarrow> py_exc + string" where
  "condition name op v =
     (case v of VText s \<Rightarrow> Inr (named name @ '' '' @ op @ '' '' @ quoted_literal s) | _ \<Rightarrow> Inl (AttributeError ''replace''))"

definition build_filter :: "conv_lib \<Rightarrow> property option \<Rightarrow> string \<Rightarrow> string \<Rightarrow> sval \<Rightarrow> py_exc + string" where
  "build_filter L P name op v =
     (if v = VNone \<and> op \<in> {''is'', ''=''} then Inr (named name @ '' is null'')
      else if v = VNone \<and> op \<in> {''is not'', ''!=''} then Inr (named name @ '' is not null'')
      else
        (let w = (if v = VNone then VText [] else v) in
         if is_list_property P then sbind (entry_pattern L (list_operation op) w) (condition name (list_operation op))
         else condition name op w))"

fun map_sums :: "('a \<Rightarrow> py_exc + 'b) \<Rightarrow> 'a list \<Rightarrow> py_exc + 'b list" where
  "map_sums f [] = Inr []"
| "map_sums f (x # xs) = sbind (f x) (\<lambda>y. sbind (map_sums f xs) (\<lambda>ys. Inr (y # ys)))"

definition value_filters :: "conv_lib \<Rightarrow> property option \<Rightarrow> string \<Rightarrow> string \<Rightarrow> sval \<Rightarrow> py_exc + string list" where
  "value_filters L P name op v =
     sbind (encode_value L (map_option (\<lambda>P. kind_shape (p_kind P)) P) v) (\<lambda>w. map_sums (build_filter L P name op) (as_values w))"

definition bracketed :: "string \<Rightarrow> string list \<Rightarrow> string" where
  "bracketed sep parts = ''('' @ py_join sep parts @ '')''"

definition split_operation :: "string \<Rightarrow> py_exc + string \<times> string" where
  "split_operation f =
     (case py_split1 (CHR '' '') (py_strip f) of [name, op] \<Rightarrow> Inr (name, op) | _ \<Rightarrow> Inl ValueError)"

definition property_filters :: "conv_lib \<Rightarrow> model_class \<Rightarrow> sval \<Rightarrow> string \<Rightarrow> py_exc + string list" where
  "property_filters L C v f =
     sbind (split_operation f) (\<lambda>(name, op).
       (case v of
          VList vs \<Rightarrow> sbind (map_sums (value_filters L (find_property C name) name op) vs) (\<lambda>ps. Inr [bracketed '' OR '' (concat ps)])
        | _ \<Rightarrow> value_filters L (find_property C name) name op v))"

definition filter_part :: "conv_lib \<Rightarrow> model_class \<Rightarrow> string list \<times> sval \<Rightarrow> py_exc + string" where
  "filter_part L C f = sbind (map_sums (property_filters L C (snd f)) (fst f)) (\<lambda>ps. Inr (bracketed '' or '' (concat ps)))"

text \<open>The names of all classes below, as keys of a dictionary.\<close>

fun all_decendents :: "model_class \<Rightarrow> string list" where
  "all_decendents (ModelClass n m l ps subs) = concat (map (\<lambda>C. mc_name C # all_decendents C) subs)"

definition type_query :: "db_env \<Rightarrow> model_class \<Rightarrow> string" where
  "type_query E C =
     ''(`__type__` = '' @ (squote # mc_name C @ [squote])
       @ concat (map (\<lambda>n. '' or `__type__` = '' @ (squote # n @ [squote])) (en_names E (remdups (all_decendents C)))) @ '')''"

definition sort_name :: "string \<Rightarrow> string" where
  "sort_name s = (if hd s = CHR ''-'' then tl s else s)"

definition sort_method :: "string \<Rightarrow> string" where
  "sort_method s = (if hd s = CHR ''-'' then ''DESC'' else ''ASC'')"

definition order_by :: "string \<Rightarrow> string" where
  "order_by s = '' ORDER BY '' @ named (sort_name s) @ '' '' @ sort_method s"

text \<open>A sort order that no filter mentions is asked to be there; SimpleDB sorts by nothing else.\<close>

definition mentions :: "(string list \<times> sval) list \<Rightarrow> string \<Rightarrow> bool" where
  "mentions fs name = list_ex (\<lambda>f. list_ex (\<lambda>p. map_sum id fst (split_operation p) = Inr name) (fst f)) fs"

definition build_filter_part :: "db_env \<Rightarrow> model_class \<Rightarrow> db_query \<Rightarrow> py_exc + string" where
  "build_filter_part E C q =
     (case qu_filters q of
        FilterText t \<Rightarrow>
          (let head = ''WHERE `__type__` = '' @ (squote # mc_name C @ [squote]) @ '' AND '' @ t in
           case qu_sort_by q of
             None \<Rightarrow> Inr head
           | Some s \<Rightarrow> if s = [] then Inl (NameError ''order_by_method'') else Inr (head @ order_by s))
      | Filters fs \<Rightarrow>
          sbind (map_sums (filter_part (en_lib E) C) fs) (\<lambda>parts.
            (let sorted = given_text (qu_sort_by q); s = opt_or_empty (qu_sort_by q);
                 parts = parts @ [type_query E C]
                   @ (if sorted \<and> \<not> mentions fs (sort_name s) then [named (sort_name s) @ '' LIKE '' @ (squote # ''%'' @ [squote])] else [])
                   @ (if given_text (qu_select q) then [''('' @ opt_or_empty (qu_select q) @ '')''] else []) in
             Inr (''WHERE '' @ py_join '' AND '' parts @ '' '' @ (if sorted then order_by s else [])))))"

definition query_text_of :: "db_env \<Rightarrow> model_class \<Rightarrow> db_query \<Rightarrow> py_exc + string" where
  "query_text_of E C q =
     sbind (build_filter_part E C q) (\<lambda>t.
       Inr (''select * from '' @ named (en_domain E) @ '' '' @ t
         @ (case qu_limit q of None \<Rightarrow> [] | Some n \<Rightarrow> if n = 0 then [] else '' limit '' @ int_str n)))"


section \<open>Loading\<close>

text \<open>An object made beside the one at hand.\<close>

definition make_object :: "db_env \<Rightarrow> model_class \<Rightarrow> string \<Rightarrow> (property \<times> sval) list \<Rightarrow> (db_state, obj) st" where
  "make_object E C i params s =
     (case init_object E C (Some i) params s of
        (r, t) \<Rightarrow> (map_sum id (\<lambda>_. (db_obj t)\<lparr>o_loaded := True\<rparr>) r, t\<lparr>db_obj := db_obj s\<rparr>))"

fun decoded_params :: "conv_lib \<Rightarrow> (string, sval) dict \<Rightarrow> property list \<Rightarrow> py_exc + (property \<times> sval) list" where
  "decoded_params L a [] = Inr []"
| "decoded_params L a (P # Ps) =
     (case dget a (p_name P) of
        None \<Rightarrow> decoded_params L a Ps
      | Some u \<Rightarrow> sbind (decode_prop L (kind_shape (p_kind P)) u) (\<lambda>v. sbind (decoded_params L a Ps) (\<lambda>r. Inr ((P, v) # r))))"

definition class_of :: "db_env \<Rightarrow> model_class option \<Rightarrow> (string, sval) dict \<Rightarrow> sval \<Rightarrow> py_exc + model_class option" where
  "class_of E C a t =
     (case C of
        Some D \<Rightarrow> if t = VText (mc_name D) then Inr C
          else sbind (dlookup a ''__module__'') (\<lambda>m. Inr (case (m, t) of (VText m, VText n) \<Rightarrow> en_find_class E m n | _ \<Rightarrow> None))
      | None \<Rightarrow> sbind (dlookup a ''__module__'') (\<lambda>m. Inr (case (m, t) of (VText m, VText n) \<Rightarrow> en_find_class E m n | _ \<Rightarrow> None)))"

definition get_stored_object :: "db_env \<Rightarrow> model_class option \<Rightarrow> string \<Rightarrow> (string, sval) dict \<Rightarrow> (db_state, obj option) st" where
  "get_stored_object E C i a =
     bnd (if a = [] then get_attributes E i else ret a) (\<lambda>a.
       (case dget a ''__type__'' of
          None \<Rightarrow> ret None
        | Some t \<Rightarrow> bnd (lift_sum (class_of E C a t)) (\<lambda>D.
            (case D of
               None \<Rightarrow> ret None
             | Some D \<Rightarrow> bnd (lift_sum (decoded_params (en_lib E) a (mc_properties D))) (\<lambda>params.
                 bnd (make_object E D i params) (\<lambda>x. ret (Some x)))))))"

text \<open>
  \<open>load_object\<close>: nothing for an object that was loaded. What cannot be decoded raises, what cannot be set is
  logged. \<open>load\<close> is also what reading any property but a reference does first.
\<close>

definition load_value :: "db_env \<Rightarrow> model_class \<Rightarrow> (string, sval) dict \<Rightarrow> property \<Rightarrow> (db_state, unit) st" where
  "load_value E C a P =
     (case dget a (p_name P) of
        None \<Rightarrow> ret ()
      | Some u \<Rightarrow> bnd (lift_sum (decode_prop (en_lib E) (kind_shape (p_kind P)) u)) (\<lambda>v. set_quietly E (descriptor C P) v))"

definition load_object :: "db_env \<Rightarrow> model_class \<Rightarrow> (db_state, unit) st" where
  "load_object E C =
     bnd (gets db_obj) (\<lambda>x.
     if o_loaded x then ret ()
     else bnd (get_attributes E (opt_or_empty (o_id x))) (\<lambda>a.
       andthen (if dget a ''__type__'' \<noteq> None then for_each (load_value E C a) (mc_properties C) else ret ())
         (modify (\<lambda>s. s\<lparr>db_obj := (db_obj s)\<lparr>o_loaded := True\<rparr>\<rparr>))))"

definition load_model :: "db_env \<Rightarrow> model_class \<Rightarrow> (db_state, unit) st" where
  "load_model E C = bnd (gets db_obj) (\<lambda>x. if given_text (o_id x) \<and> \<not> o_loaded x then load_object E C else ret ())"

definition read_slot :: "property \<Rightarrow> obj \<Rightarrow> py_exc + sval" where
  "read_slot P x = (case dget (o_values x) (p_name P) of None \<Rightarrow> Inl (AttributeError (''_'' @ p_name P)) | Some v \<Rightarrow> Inr v)"

definition read :: "property \<Rightarrow> (db_state, sval) st" where
  "read P = bnd (gets db_obj) (\<lambda>x. lift_sum (read_slot P x))"

text \<open>A reference that is still an id becomes an object, which is not loaded, when it is read.\<close>

definition get_reference :: "db_env \<Rightarrow> property \<Rightarrow> string \<Rightarrow> (db_state, sval) st" where
  "get_reference E P c =
     bnd (read P) (\<lambda>v.
       (case v of
          VText i \<Rightarrow> if same_as v (p_default P) then ret v else andthen (set_attr E P (VModel c (Some i))) (ret (VModel c (Some i)))
        | _ \<Rightarrow> ret v))"

definition get_attr :: "db_env \<Rightarrow> model_class \<Rightarrow> property \<Rightarrow> (db_state, sval) st" where
  "get_attr E C P =
     (case p_kind P of
        KReference c \<Rightarrow> get_reference E P c
      | _ \<Rightarrow> andthen (load_model E C) (read P))"


section \<open>Finding and listing\<close>

primrec first_of :: "db_env \<Rightarrow> model_class \<Rightarrow> (string \<times> (string, sval) dict) list \<Rightarrow> (db_state, obj option) st" where
  "first_of E C [] = ret None"
| "first_of E C (row # rows) =
     bnd (get_stored_object E (Some C) (fst row) (snd row)) (\<lambda>x. case x of Some y \<Rightarrow> ret (Some y) | None \<Rightarrow> first_of E C rows)"

text \<open>The pages of a selection, one after the other for as long as a page has a token for the next; the first argument bounds the pages.\<close>

primrec first_object :: "nat \<Rightarrow> db_env \<Rightarrow> model_class \<Rightarrow> string \<Rightarrow> string option \<Rightarrow> (db_state, obj option) st" where
  "first_object 0 E C q token = raise StillRunning"
| "first_object (Suc n) E C q token =
     bnd (db_do E (Select q token)) (\<lambda>a.
       (case a of
          DbPage rows next \<Rightarrow> bnd (first_of E C rows) (\<lambda>x.
            if x \<noteq> None \<or> next = None then ret x else first_object n E C q next)
        | _ \<Rightarrow> ret None))"

text \<open>\<open>find\<close> with one property and its value, and the first object of what it finds.\<close>

definition equality_query :: "property \<Rightarrow> sval \<Rightarrow> db_query" where
  "equality_query P v = \<lparr>qu_filters = Filters [([p_name P @ '' =''], v)], qu_sort_by = None, qu_select = None, qu_limit = None\<rparr>"

definition find_first :: "nat \<Rightarrow> db_env \<Rightarrow> model_class \<Rightarrow> property \<Rightarrow> sval \<Rightarrow> (db_state, obj option) st" where
  "find_first n E C P v = bnd (lift_sum (query_text_of E C (equality_query P v))) (\<lambda>q. first_object n E C q None)"

text \<open>All items of a selection, up to a number of items when one is given.\<close>

definition full :: "int option \<Rightarrow> nat \<Rightarrow> bool" where
  "full limit got \<longleftrightarrow> (case limit of None \<Rightarrow> False | Some m \<Rightarrow> m \<noteq> 0 \<and> m \<le> int got)"

primrec take_rows :: "int option \<Rightarrow> nat \<Rightarrow> 'r list \<Rightarrow> 'r list" where
  "take_rows limit got [] = []"
| "take_rows limit got (r # rs) = (if full limit got then [] else r # take_rows limit (Suc got) rs)"

primrec select_items :: "nat \<Rightarrow> db_env \<Rightarrow> string \<Rightarrow> int option \<Rightarrow> nat \<Rightarrow> string option \<Rightarrow> (db_state, (string \<times> (string, sval) dict) list) st" where
  "select_items 0 E q limit got token = raise StillRunning"
| "select_items (Suc n) E q limit got token =
     bnd (db_do E (Select q token)) (\<lambda>a.
       (case a of
          DbPage rows next \<Rightarrow>
            (let taken = take_rows limit got rows; got' = got + length taken in
             if length taken < length rows \<or> full limit got' \<or> next = None then ret taken
             else bnd (select_items n E q limit got' next) (\<lambda>rest. ret (taken @ rest)))
        | _ \<Rightarrow> ret []))"


section \<open>Saving\<close>

text \<open>A time or date that is to be the current one is set first.\<close>

definition stamp :: "db_env \<Rightarrow> model_class \<Rightarrow> property \<Rightarrow> bool \<Rightarrow> (db_call list \<Rightarrow> sval) \<Rightarrow> (db_state, unit) st" where
  "stamp E C P auto_now now =
     (if auto_now then bnd (gets (\<lambda>s. now (db_log s))) (set_attr E (descriptor C P)) else ret ())"

definition get_value_for_datastore :: "db_env \<Rightarrow> model_class \<Rightarrow> property \<Rightarrow> (db_state, sval) st" where
  "get_value_for_datastore E C P =
     andthen (case p_kind P of
                KDateTime now add \<Rightarrow> stamp E C P now (en_now E)
              | KDate now add \<Rightarrow> stamp E C P now (en_today E)
              | _ \<Rightarrow> ret ())
       (get_attr E C (descriptor C P))"

text \<open>Whether another object has the value; the value that is looked for is the one that was encoded.\<close>

definition check_unique :: "nat \<Rightarrow> db_env \<Rightarrow> model_class \<Rightarrow> property \<Rightarrow> sval \<Rightarrow> (db_state, unit) st" where
  "check_unique n E C P v =
     (if p_unique P then
        bnd (find_first n E C P v) (\<lambda>y. bnd (gets db_obj) (\<lambda>x.
          case y of
            Some z \<Rightarrow> if o_id z \<noteq> o_id x then raise (PlainError ''must be unique'') else ret ()
          | None \<Rightarrow> ret ()))
      else ret ())"

text \<open>The attributes to write and the names of those to delete.\<close>

primrec encode_properties ::
  "nat \<Rightarrow> db_env \<Rightarrow> model_class \<Rightarrow> property list \<Rightarrow> (string, sval) dict \<Rightarrow> string list \<Rightarrow> (db_state, (string, sval) dict \<times> string list) st" where
  "encode_properties n E C [] attrs del = ret (attrs, del)"
| "encode_properties n E C (P # Ps) attrs del =
     bnd (get_value_for_datastore E C P) (\<lambda>v.
     bnd (lift_sum (encode_value (en_lib E) (Some (kind_shape (p_kind P))) v)) (\<lambda>w.
       if w = VNone \<or> w = VList [] then encode_properties n E C Ps attrs (del @ [p_name P])
       else andthen (check_unique n E C P w)
              (encode_properties n E C Ps (dset (p_name P) w attrs) del)))"

definition type_attributes :: "model_class \<Rightarrow> (string, sval) dict" where
  "type_attributes C = [(''__type__'', VText (mc_name C)), (''__module__'', VText (mc_module C)), (''__lineage__'', VText (get_lineage C))]"

definition ensure_id :: "db_env \<Rightarrow> (db_state, string) st" where
  "ensure_id E =
     bnd (gets db_obj) (\<lambda>x. bnd (gets (\<lambda>s. en_uuid E (db_log s))) (\<lambda>u.
       if given_text (o_id x) then ret (opt_or_empty (o_id x))
       else andthen (modify (\<lambda>s. s\<lparr>db_obj := x\<lparr>o_id := Some u\<rparr>\<rparr>)) (ret u)))"

definition save_object :: "nat \<Rightarrow> db_env \<Rightarrow> model_class \<Rightarrow> (db_state, unit) st" where
  "save_object n E C =
     bnd (ensure_id E) (\<lambda>i.
     bnd (encode_properties n E C (mc_properties C) (type_attributes C) []) (\<lambda>(attrs, del).
       andthen (bnd (db_do E (PutAttributes i attrs)) (\<lambda>_. ret ()))
         (if del \<noteq> [] then bnd (db_do E (DeleteAttributes i del)) (\<lambda>_. ret ()) else ret ())))"

definition delete_object :: "db_env \<Rightarrow> (db_state, unit) st" where
  "delete_object E = bnd (gets db_obj) (\<lambda>x. bnd (db_do E (DeleteAttributes (opt_or_empty (o_id x)) [])) (\<lambda>_. ret ()))"

definition set_property :: "nat \<Rightarrow> db_env \<Rightarrow> model_class \<Rightarrow> property \<Rightarrow> string \<Rightarrow> (db_state, unit) st" where
  "set_property n E C P name =
     bnd (get_value_for_datastore E C P) (\<lambda>v.
     bnd (lift_sum (encode_value (en_lib E) (Some (kind_shape (p_kind P))) v)) (\<lambda>w.
     andthen (check_unique n E C P w)
       (bnd (gets db_obj) (\<lambda>x. bnd (db_do E (PutAttributes (opt_or_empty (o_id x)) [(name, w)])) (\<lambda>_. ret ())))))"

definition get_property :: "db_env \<Rightarrow> model_class \<Rightarrow> property \<Rightarrow> string \<Rightarrow> (db_state, sval) st" where
  "get_property E C P name =
     bnd (gets db_obj) (\<lambda>x.
     bnd (get_attributes E (opt_or_empty (o_id x))) (\<lambda>a.
       (case dget a name of
          None \<Rightarrow> raise (AttributeError name)
        | Some u \<Rightarrow> bnd (lift_sum (decode_prop (en_lib E) (kind_shape (p_kind P)) u)) (\<lambda>v.
            andthen (set_attr E (descriptor C P) v) (ret v)))))"

text \<open>
  Attributes that are no properties, for objects that take any attribute. The connection sends the names of a list; a single name,
  a text, is not looked at, and without names all attributes are deleted.
\<close>

definition names_sent :: "string list + string \<Rightarrow> string list" where
  "names_sent attr_names = (case attr_names of Inl names \<Rightarrow> names | Inr name \<Rightarrow> [])"

definition set_key_value :: "db_env \<Rightarrow> string \<Rightarrow> sval \<Rightarrow> (db_state, unit) st" where
  "set_key_value E name v =
     bnd (gets db_obj) (\<lambda>x. bnd (db_do E (PutAttributes (opt_or_empty (o_id x)) [(name, v)])) (\<lambda>_. ret ()))"

definition delete_key_value :: "db_env \<Rightarrow> string \<Rightarrow> (db_state, unit) st" where
  "delete_key_value E name =
     bnd (gets db_obj) (\<lambda>x. bnd (db_do E (DeleteAttributes (opt_or_empty (o_id x)) (names_sent (Inr name)))) (\<lambda>_. ret ()))"

definition get_key_value :: "db_env \<Rightarrow> string \<Rightarrow> (db_state, sval option) st" where
  "get_key_value E name =
     bnd (gets db_obj) (\<lambda>x. bnd (db_do E (GetAttribute (opt_or_empty (o_id x)) name)) (\<lambda>a.
       ret (case a of DbItem d \<Rightarrow> dget d name | _ \<Rightarrow> None)))"

text \<open>\<open>reload\<close>, \<open>get_by_id\<close> and the sum over the rows of a selection of a number.\<close>

definition reload :: "db_env \<Rightarrow> model_class \<Rightarrow> (db_state, unit) st" where
  "reload E C =
     bnd (gets db_obj) (\<lambda>x. if given_text (o_id x)
       then andthen (modify (\<lambda>s. s\<lparr>db_obj := x\<lparr>o_loaded := False\<rparr>\<rparr>)) (load_object E C) else ret ())"

primrec get_by_ids :: "db_env \<Rightarrow> model_class \<Rightarrow> string list \<Rightarrow> (db_state, obj option list) st" where
  "get_by_ids E C [] = ret []"
| "get_by_ids E C (i # ids) =
     bnd (get_stored_object E (Some C) i []) (\<lambda>x. bnd (get_by_ids E C ids) (\<lambda>xs. ret (x # xs)))"

definition row_count :: "(string, sval) dict \<Rightarrow> py_exc + int" where
  "row_count row = sbind (dlookup row ''Count'') to_int"

definition count_query :: "db_env \<Rightarrow> model_class \<Rightarrow> db_query \<Rightarrow> py_exc + string" where
  "count_query E C q = sbind (build_filter_part E C q) (\<lambda>t. Inr (''select count(*) from '' @ named (en_domain E) @ '' '' @ t))"

fun sum_rows :: "(string \<times> (string, sval) dict) list \<Rightarrow> int \<Rightarrow> py_exc + int" where
  "sum_rows [] n = Inr n"
| "sum_rows (r # rs) n = sbind (row_count (snd r)) (\<lambda>m. sum_rows rs (n + m))"

text \<open>A quick count ends with the first row.\<close>

primrec count_pages :: "nat \<Rightarrow> db_env \<Rightarrow> string \<Rightarrow> bool \<Rightarrow> int \<Rightarrow> string option \<Rightarrow> (db_state, int) st" where
  "count_pages 0 E q quick n token = raise StillRunning"
| "count_pages (Suc k) E q quick n token =
     bnd (db_do E (Select q token)) (\<lambda>a.
       (case a of
          DbPage rows next \<Rightarrow>
            bnd (lift_sum (sum_rows (if quick then take 1 rows else rows) n)) (\<lambda>m.
              if quick \<and> rows \<noteq> [] \<or> next = None then ret m else count_pages k E q quick m next)
        | _ \<Rightarrow> ret n))"

definition count_objects :: "nat \<Rightarrow> db_env \<Rightarrow> model_class \<Rightarrow> db_query \<Rightarrow> bool \<Rightarrow> (db_state, int) st" where
  "count_objects k E C q quick = bnd (lift_sum (count_query E C q)) (\<lambda>t. count_pages k E t quick 0 None)"

end
