(* ===== verification/BotoSdbValuesFacts.thy ===== *)
theory BotoSdbValuesFacts
  imports BotoSdbValues "HOL-Library.Multiset"
begin

text \<open>
  What the texts of the converter are good for: they are ordered as the values are, and are read back as
  the values. And where they are not.
\<close>


section \<open>The order of texts\<close>

text \<open>SimpleDB compares the values of attributes character by character.\<close>

fun text_less :: "string \<Rightarrow> string \<Rightarrow> bool" where
  "text_less s [] = False"
| "text_less [] (y # ys) = True"
| "text_less (x # xs) (y # ys) = ((of_char x :: nat) < of_char y \<or> x = y \<and> text_less xs ys)"

lemma text_less_append: "length a = length b \<Longrightarrow> text_less (a @ s) (b @ t) \<longleftrightarrow> text_less a b \<or> a = b \<and> text_less s t"
  by (induction a b rule: list_induct2) auto

lemma text_less_irrefl [simp]: "\<not> text_less s s"
  by (induction s) auto

lemma text_less_same [simp]: "text_less (a @ s) (a @ t) \<longleftrightarrow> text_less s t"
  by (simp add: text_less_append)

lemma digits_val_Cons: "digits_val (c # s) = (of_char c - 48) * 10 ^ length s + digits_val s"
proof (induction s rule: rev_induct)
  case (snoc d s)
  then show ?case by (simp add: digits_val_snoc digits_val_snoc [of "c # s", simplified] algebra_simps)
qed (simp add: digits_val_def)

lemma leading_digit:
  fixes a b p u v :: nat
  assumes "a < b" and "u < p"
  shows "a * p + u < b * p + v"
proof -
  have "Suc a * p \<le> b * p" using assms(1) by (intro mult_right_mono) auto
  then show ?thesis using assms(2) by simp
qed

lemma digits_val_less: "list_all is_digit s \<Longrightarrow> digits_val s < 10 ^ length s"
proof (induction s)
  case (Cons c s)
  then have "(of_char c - 48 :: nat) < 10" by (auto simp: is_digit_def)
  then show ?case using leading_digit [of "of_char c - 48" 10 "digits_val s" "10 ^ length s" 0] Cons by (simp add: digits_val_Cons)
qed (simp add: digits_val_def)

lemma text_less_digits:
  assumes "length s = length t" and "list_all is_digit s" and "list_all is_digit t"
  shows "text_less s t \<longleftrightarrow> digits_val s < digits_val t"
  using assms
proof (induction s t rule: list_induct2)
  case (Cons x xs y ys)
  obtain a b where a: "(of_char x :: nat) = a + 48" and b: "(of_char y :: nat) = b + 48"
    using Cons.prems by (auto simp: is_digit_def dest!: le_Suc_ex)
  have v: "digits_val (x # xs) = a * 10 ^ length xs + digits_val xs" "digits_val (y # ys) = b * 10 ^ length xs + digits_val ys"
    using Cons.hyps by (simp_all add: digits_val_Cons a b)
  have less: "digits_val xs < 10 ^ length xs" "digits_val ys < 10 ^ length xs"
    using digits_val_less [of xs] digits_val_less [of ys] Cons by auto
  have eq: "x = y \<longleftrightarrow> a = b" using a b by (metis add_right_cancel of_char_eq_iff)
  show ?case
    using leading_digit [of a b, OF _ less(1), of "digits_val ys"] leading_digit [of b a, OF _ less(2), of "digits_val xs"] Cons
    unfolding v by (cases a b rule: linorder_cases) (auto simp: a b eq)
qed (simp add: digits_val_def)

lemma zeros_digits [simp]: "list_all is_digit (zeros n)"
  by (induction n) (auto simp: zeros_def is_digit_def)

lemma digits_val_zeros [simp]: "digits_val (zeros n @ s) = digits_val s"
  by (induction n) (simp_all add: zeros_def digits_val_Cons)

lemma length_zeros [simp]: "length (zeros n) = n"
  by (simp add: zeros_def)

lemma length_nat_str: "n < 10 ^ w \<Longrightarrow> 0 < w \<Longrightarrow> length (nat_str n) \<le> w"
proof (induction n arbitrary: w rule: nat_str.induct)
  case (1 n)
  show ?case
  proof (cases "n < 10")
    case True
    then show ?thesis using 1(3) by (subst nat_str.simps) simp
  next
    case False
    then obtain v where v: "w = Suc v" "0 < v" using 1(2,3) by (cases w; cases "w - 1") auto
    have "length (nat_str (n div 10)) \<le> v" using 1(1) [OF False, of v] 1(2) v by (simp add: less_mult_imp_div_less algebra_simps)
    then show ?thesis using False v by (subst nat_str.simps) simp
  qed
qed

definition digits :: "nat \<Rightarrow> nat \<Rightarrow> string" where
  "digits w n = rjust0 w (nat_str n)"

lemma digits_simps [simp]: "list_all is_digit (digits w n)" "digits_val (digits w n) = n" "digits w n \<noteq> []"
  using nat_str_digits [of n] by (simp_all add: digits_def rjust0_def)

lemma length_digits: "n < 10 ^ w \<Longrightarrow> 0 < w \<Longrightarrow> length (digits w n) = w"
  using length_nat_str [of n w] by (simp add: digits_def rjust0_def)

lemma text_less_rjust:
  assumes "m < 10 ^ w" and "n < 10 ^ w" and "0 < w"
  shows "text_less (digits w m) (digits w n) \<longleftrightarrow> m < n"
  using text_less_digits [of "digits w m" "digits w n"] assms by (simp add: length_digits)

lemma digits_inj: "digits w m = digits w n \<longleftrightarrow> m = n"
  by (metis digits_simps(2))

lemma zpad_nonneg: "0 \<le> i \<Longrightarrow> zpad w i = digits w (nat i)"
  by (simp add: zpad_def digits_def)

lemma py_int_zpad [simp]: "py_int (zpad w i) = Inr i"
proof (cases "i < 0")
  case True
  then show ?thesis
    using py_int_digits(2) [of "digits (w - 1) (nat (- i))"] by (simp add: zpad_def flip: digits_def)
next
  case False
  then show ?thesis using py_int_digits(1) [of "digits w (nat i)"] by (simp add: zpad_nonneg)
qed


section \<open>Decimal fractions\<close>

lemma no_point: "list_all is_digit a \<Longrightarrow> c \<in> {CHR ''.'', CHR ''e'', CHR ''-'', CHR ''+'', CHR '':'', CHR '' '', CHR ''t'', CHR ''z''} \<Longrightarrow> c \<notin> set a"
  by (auto simp: list_all_iff is_digit_def)

lemma dec_value_digits:
  assumes "list_all is_digit a" and "list_all is_digit b" and "a \<noteq> []"
  shows "dec_value (a @ ''.'' @ b) = Inr (of_nat (digits_val (a @ b)) / 10 ^ length b)"
    and "dec_value (CHR ''-'' # a @ ''.'' @ b) = Inr (- of_nat (digits_val (a @ b)) / 10 ^ length b)"
proof -
  have split: "py_split (CHR ''.'') (a @ CHR ''.'' # b) = [a, b]"
    using no_point [of a "CHR ''.''"] no_point [of b "CHR ''.''"] assms by (simp add: py_split_append py_split_free)
  have hd: "hd a \<noteq> CHR ''-''" "hd a \<noteq> CHR ''+''"
    using no_point [of a "CHR ''-''"] no_point [of a "CHR ''+''"] assms hd_in_set [of a] by fastforce+
  show "dec_value (a @ ''.'' @ b) = Inr (of_nat (digits_val (a @ b)) / 10 ^ length b)"
    using split hd assms by (simp add: dec_value_def)
  show "dec_value (CHR ''-'' # a @ ''.'' @ b) = Inr (- of_nat (digits_val (a @ b)) / 10 ^ length b)"
    using split assms by (simp add: dec_value_def)
qed

lemma digits_val_append: "digits_val (a @ b) = digits_val a * 10 ^ length b + digits_val b"
  by (induction b rule: rev_induct) (simp_all add: digits_val_snoc flip: append_assoc, simp add: digits_val_def)

lemma rjust0_digits: "n < 10 ^ v \<Longrightarrow> 0 < v \<Longrightarrow> u \<le> v \<Longrightarrow> rjust0 v (digits u n) = digits v n"
proof -
  assume "n < 10 ^ v" "0 < v" "u \<le> v"
  then have "length (nat_str n) \<le> v" using length_nat_str by blast
  with \<open>u \<le> v\<close> show ?thesis by (simp add: digits_def rjust0_def zeros_def flip: replicate_add append_assoc)
qed

lemma nat_str_digits1: "n < 10 \<Longrightarrow> nat_str n = digits 1 n"
  using length_nat_str [of n 1] by (simp add: digits_def rjust0_def zeros_def le_Suc_eq)

lemma micro_str_digits: "m < 10000000 \<Longrightarrow> micro_str m = digits 1 (m div 1000000) @ ''.'' @ digits 6 (m mod 1000000)"
  unfolding micro_str_def by (subst nat_str_digits1) (simp_all add: digits_def)

lemma micro_length: "m < 10000000 \<Longrightarrow> length (micro_str m) = 8"
  by (simp add: micro_str_digits length_digits)

lemma div_mod_less:
  fixes m n k :: nat
  assumes "0 < k"
  shows "m div k < n div k \<or> m div k = n div k \<and> m mod k < n mod k \<longleftrightarrow> m < n"
proof -
  have "m = m div k * k + m mod k" "n = n div k * k + n mod k" by simp_all
  then show ?thesis
    using leading_digit [of "m div k" "n div k" "m mod k" k "n mod k"] leading_digit [of "n div k" "m div k" "n mod k" k "m mod k"] assms
    by (cases "m div k" "n div k" rule: linorder_cases) (metis add_less_cancel_left less_irrefl less_not_sym mod_less_divisor)+
qed

lemma micro_less:
  assumes "m < 10000000" and "n < 10000000"
  shows "text_less (micro_str m) (micro_str n) \<longleftrightarrow> m < n"
proof -
  have "text_less (micro_str m) (micro_str n) \<longleftrightarrow>
      m div 1000000 < n div 1000000 \<or> m div 1000000 = n div 1000000 \<and> m mod 1000000 < n mod 1000000"
    using assms by (simp add: micro_str_digits text_less_append length_digits text_less_rjust digits_inj)
  also have "\<dots> \<longleftrightarrow> m < n" by (rule div_mod_less) simp
  finally show ?thesis .
qed

lemma micro_inj: "m < 10000000 \<Longrightarrow> n < 10000000 \<Longrightarrow> micro_str m = micro_str n \<longleftrightarrow> m = n"
  by (metis micro_less linorder_neq_iff text_less_irrefl)

lemma dec_value_micro:
  assumes "m < 10000000"
  shows "dec_value (micro_str m @ zeros k) = Inr (of_nat m / 1000000)" and "dec_value (CHR ''-'' # micro_str m @ zeros k) = Inr (- of_nat m / 1000000)"
proof -
  let ?a = "digits 1 (m div 1000000)" and ?b = "digits 6 (m mod 1000000) @ zeros k"
  have split: "micro_str m @ zeros k = ?a @ ''.'' @ ?b" using assms by (simp add: micro_str_digits)
  have z: "digits_val (zeros k) = 0" using digits_val_zeros [of k "[]"] by (simp add: digits_val_def)
  have val: "digits_val (?a @ ?b) = m * 10 ^ k"
    using z by (simp add: digits_val_append length_digits power_add) (metis div_mult_mod_eq add_mult_distrib mult.assoc)
  have len: "length ?b = 6 + k" by (simp add: length_digits)
  show "dec_value (micro_str m @ zeros k) = Inr (of_nat m / 1000000)" "dec_value (CHR ''-'' # micro_str m @ zeros k) = Inr (- of_nat m / 1000000)"
    using dec_value_digits [of ?a ?b] unfolding split val len by (simp_all add: power_add)
qed

lemma fmt_f_micro: "fmt_f (of_nat m / 1000000) = micro_str m"
  by (simp add: fmt_f_def)

lemma fmt_f_neg_micro: "0 < m \<Longrightarrow> fmt_f (- (of_nat m / 1000000)) = CHR ''-'' # micro_str m"
  by (simp add: fmt_f_def)


section \<open>Floats\<close>

text \<open>
  What \<open>%e\<close> documents: a sign, seven digits of which the first is not 0, and the exponent with its sign and
  at least two digits. \<open>shows_as L q neg m e\<close>: the format shows \<open>q\<close>, which it shows exactly, as \<open>m\<close> millionths
  times the power \<open>e\<close> of 10.
\<close>

definition shows_as :: "conv_lib \<Rightarrow> rat \<Rightarrow> bool \<Rightarrow> nat \<Rightarrow> int \<Rightarrow> bool" where
  "shows_as L q neg m e \<longleftrightarrow> 1000000 \<le> m \<and> m < 10000000 \<and> \<bar>e\<bar> < 1000
     \<and> q = (if neg then -1 else 1) * of_nat m / 1000000 * 10 powi e
     \<and> cv_e L q = (if neg then ''-'' else []) @ micro_str m @ ''e'' @ (if e < 0 then ''-'' else ''+'') @ digits 2 (nat \<bar>e\<bar>)"

definition float_key :: "bool \<Rightarrow> nat \<Rightarrow> int \<Rightarrow> nat \<times> nat \<times> nat" where
  "float_key neg m e =
     (if neg then (if e < 0 then (2, nat (- e), 10000000 - m) else (1, nat (999 - e), 10000000 - m))
      else (if e < 0 then (4, nat (999 + e), m) else (5, nat e, m)))"

definition key_text :: "nat \<times> nat \<times> nat \<Rightarrow> string" where
  "key_text k = (case k of (c, x, y) \<Rightarrow> digits 1 c @ '' '' @ digits 3 x @ '' '' @ micro_str y @ zeros 10)"

text \<open>The floats that are taken: 0, and those that are shown exactly.\<close>

inductive float_as :: "conv_lib \<Rightarrow> rat \<Rightarrow> nat \<times> nat \<times> nat \<Rightarrow> bool" for L where
  zero: "cv_e L 0 = ''0.000000e+00'' \<Longrightarrow> float_as L 0 (3, 0, 0)"
| shown: "shows_as L q neg m e \<Longrightarrow> float_as L q (float_key neg m e)"

inductive_cases float_asE: "float_as L q k"

lemma nat_str_small: "n < 10 \<Longrightarrow> nat_str n = [digit_char n]"
  by (subst nat_str.simps) simp

lemma digit_texts: "digits 1 1 = ''1''" "digits 1 2 = ''2''" "digits 1 3 = ''3''" "digits 1 4 = ''4''" "digits 1 5 = ''5''"
  by code_simp+

lemmas digit_texts' = digit_texts [unfolded One_nat_def]

lemma shows_as_mantissa:
  assumes "shows_as L q neg m e"
  shows "py_split (CHR ''e'') (cv_e L q) = [(if neg then ''-'' else []) @ micro_str m, (if e < 0 then ''-'' else ''+'') @ digits 2 (nat \<bar>e\<bar>)]"
proof -
  have m: "m < 10000000" using assms by (simp add: shows_as_def)
  let ?m = "(if neg then ''-'' else []) @ micro_str m" and ?x = "(if e < 0 then ''-'' else ''+'') @ digits 2 (nat \<bar>e\<bar>)"
  have no_e: "CHR ''e'' \<notin> set (digits w n)" for w n by (rule no_point) simp_all
  have "CHR ''e'' \<notin> set ?m" using m no_e by (simp add: micro_str_digits)
  moreover have x: "CHR ''e'' \<notin> set ?x" using no_e by simp
  ultimately have "py_split (CHR ''e'') (?m @ CHR ''e'' # ?x) = [?m, ?x]"
    using py_split_append [of "CHR ''e''" ?m ?x] unfolding py_split_free [OF x] by blast
  then show ?thesis using assms by (simp add: shows_as_def)
qed

lemma micro_pad: "m < 10000000 \<Longrightarrow> ljust0 18 (micro_str m) = micro_str m @ zeros 10" "m < 10000000 \<Longrightarrow> ljust0 18 (CHR ''-'' # micro_str m) = CHR ''-'' # micro_str m @ zeros 9"
  by (simp_all add: ljust0_def micro_length)

lemma hd_micro: "m < 10000000 \<Longrightarrow> hd (micro_str m @ zeros 10) \<noteq> CHR ''-''"
proof -
  assume "m < 10000000"
  then have "hd (micro_str m @ zeros 10) = hd (digits 1 (m div 1000000))" by (simp add: micro_str_digits)
  moreover have "CHR ''-'' \<notin> set (digits 1 (m div 1000000))" by (rule no_point) simp_all
  moreover have "hd (digits 1 (m div 1000000)) \<in> set (digits 1 (m div 1000000))" by (rule hd_in_set) simp
  ultimately show "hd (micro_str m @ zeros 10) \<noteq> CHR ''-''" by metis
qed

lemma py_int_sign: "py_int (CHR ''+'' # digits w n) = Inr (int n)" "py_int (CHR ''-'' # digits w n) = Inr (- int n)"
proof -
  have "is_digit (last (digits w n))"
    using last_in_set [of "digits w n"] digits_simps(1) [of w n] by (simp add: list_all_iff)
  then have "\<not> is_space (last (digits w n))" by (auto simp: is_digit_def is_space_def)
  then have "py_strip (CHR ''+'' # digits w n) = CHR ''+'' # digits w n" by (intro py_strip_id) (auto simp: is_space_def)
  then show "py_int (CHR ''+'' # digits w n) = Inr (int n)" by (simp add: py_int_def)
  show "py_int (CHR ''-'' # digits w n) = Inr (- int n)" using py_int_digits(2) [of "digits w n"] by simp
qed

lemma complement_micro:
  assumes "1000000 \<le> m" and "m < 10000000"
  shows "complemented (CHR ''-'' # micro_str m @ zeros 9) = Inr (micro_str (10000000 - m) @ zeros 10)"
proof -
  have "10 - of_nat m / 1000000 = (of_nat (10000000 - m) / 1000000 :: rat)" using assms by (simp add: of_nat_diff field_simps)
  then have "fmt_f (10 - of_nat m / 1000000) = micro_str (10000000 - m)" using fmt_f_micro [of "10000000 - m"] by (simp only:)
  then show ?thesis using assms by (simp add: complemented_def dec_value_micro micro_pad)
qed

lemma encode_shown:
  assumes "shows_as L q neg m e"
  shows "encode_float L (VFloat q) = Inr (VText (key_text (float_key neg m e)))"
proof -
  have m: "1000000 \<le> m" "m < 10000000" and e: "\<bar>e\<bar> < 1000" and q: "q \<noteq> 0"
    using assms by (auto simp: shows_as_def split: if_splits)
  have x: "rjust0 3 (digits 2 (nat \<bar>e\<bar>)) = digits 3 (nat \<bar>e\<bar>)" using e by (intro rjust0_digits) auto
  have neg_e: "e < 0 \<Longrightarrow> nat \<bar>e\<bar> = nat (- e)" by simp
  have y: "e < 0 \<Longrightarrow> - int (nat \<bar>e\<bar>) = e" "\<not> e < 0 \<Longrightarrow> int (nat \<bar>e\<bar>) = e" by simp_all
  show ?thesis
    unfolding encode_float_def as_float.simps option.case shows_as_mantissa [OF assms] list.case
    using m e q x hd_micro [OF m(2)] y
    by (cases neg; cases "e < 0")
      (simp_all add: float_text_def micro_pad complement_micro py_int_sign key_text_def float_key_def digit_texts' zpad_nonneg)
qed

lemma encode_float_as: "float_as L q k \<Longrightarrow> encode_float L (VFloat q) = Inr (VText (key_text k))"
proof (induction rule: float_as.induct)
  case zero
  have "digits 1 0 = ''0''" "digits 6 0 = ''000000''" and three: "digits 3 0 = ''000''" by code_simp+
  then have zero: "micro_str 0 = ''0.000000''" by (simp add: micro_str_digits)
  have "py_split (CHR ''e'') (cv_e L 0) = [''0.000000'', ''+00'']" by (simp add: zero.hyps)
  then have "encode_float L (VFloat 0) = map_sum id VText (float_text True (ljust0 18 (micro_str 0)) ''+00'')"
    by (simp only: encode_float_def as_float.simps option.case list.case zero refl simp_thms if_True)
  also have "\<dots> = Inr (VText (key_text (3, 0, 0)))"
    using micro_pad(1) [of 0] by (simp add: float_text_def key_text_def digit_texts' three)
  finally show ?case .
qed (rule encode_shown)


fun key_less :: "nat \<times> nat \<times> nat \<Rightarrow> nat \<times> nat \<times> nat \<Rightarrow> bool" where
  "key_less (c, x, y) (c', x', y') \<longleftrightarrow> c < c' \<or> c = c' \<and> (x < x' \<or> x = x' \<and> y < y')"

fun key_ok :: "nat \<times> nat \<times> nat \<Rightarrow> bool" where
  "key_ok (c, x, y) \<longleftrightarrow> c < 10 \<and> x < 1000 \<and> y < 10000000"

lemma text_less_key: "key_ok k \<Longrightarrow> key_ok k' \<Longrightarrow> text_less (key_text k) (key_text k') \<longleftrightarrow> key_less k k'"
  by (cases k; cases k')
    (simp add: key_text_def text_less_append length_digits text_less_rjust digits_inj micro_length micro_less micro_inj del: One_nat_def)

lemma float_as_ok: "float_as L q k \<Longrightarrow> key_ok k"
  by (auto elim!: float_as.cases simp: float_key_def shows_as_def)

lemma magnitude_less:
  fixes m m' :: nat and e e' :: int
  assumes "1000000 \<le> m" "m < 10000000" "1000000 \<le> m'" "m' < 10000000" and "e < e'"
  shows "(of_nat m :: rat) * 10 powi e < of_nat m' * 10 powi e'"
proof -
  have "(of_nat m :: rat) * 10 powi e < 10000000 * 10 powi e"
    using assms(2) by (intro mult_strict_right_mono) (simp_all add: of_nat_less_iff [of m 10000000, simplified])
  also have "\<dots> = 1000000 * 10 powi (e + 1)" by (simp add: power_int_add)
  also have "\<dots> \<le> 1000000 * 10 powi e'" using assms(5) by (intro mult_left_mono power_int_increasing) auto
  also have "\<dots> \<le> of_nat m' * 10 powi e'" using assms(3) by (intro mult_right_mono) (simp_all add: of_nat_le_iff [of 1000000, simplified])
  finally show ?thesis .
qed

lemma magnitude_iff:
  fixes m m' :: nat and e e' :: int
  assumes "1000000 \<le> m" "m < 10000000" "1000000 \<le> m'" "m' < 10000000"
  shows "(of_nat m :: rat) * 10 powi e < of_nat m' * 10 powi e' \<longleftrightarrow> e < e' \<or> e = e' \<and> m < m'"
  using magnitude_less [OF assms, of e e'] magnitude_less [OF assms(3,4,1,2), of e' e]
  by (cases e e' rule: linorder_cases) auto

lemma shows_as_sign:
  assumes "shows_as L q neg m e"
  shows "q = (if neg then -1 else 1) * (of_nat m * 10 powi e) / 1000000" and "0 < (of_nat m :: rat) * 10 powi e"
  using assms by (auto simp: shows_as_def)

lemma shows_as_positive:
  assumes "shows_as L q neg m e"
  shows "0 < q \<longleftrightarrow> \<not> neg" and "q < 0 \<longleftrightarrow> neg"
proof -
  obtain v where "q = (if neg then -1 else 1) * v / 1000000" and "0 < v" using shows_as_sign [OF assms] by blast
  then show "0 < q \<longleftrightarrow> \<not> neg" and "q < 0 \<longleftrightarrow> neg" by (cases neg; simp add: zero_less_divide_iff divide_less_0_iff)+
qed

lemma float_key_order:
  assumes "float_as L q k" and "float_as L q' k'"
  shows "key_less k k' \<longleftrightarrow> q < q'"
  using assms(1)
proof cases
  case zero
  from assms(2) show ?thesis
  proof cases
    case (shown neg m e)
    then show ?thesis using zero shows_as_positive [OF shown(2)] by (simp add: float_key_def)
  qed (simp add: zero)
next
  case (shown neg m e)
  note one = shown and signs = shows_as_sign [OF shown(2)]
  have m: "1000000 \<le> m" "m < 10000000" "\<bar>e\<bar> < 1000" using one by (auto simp: shows_as_def)
  from assms(2) show ?thesis
  proof cases
    case zero
    then show ?thesis using one shows_as_positive [OF one(2)] by (simp add: float_key_def)
  next
    case (shown neg' m' e')
    note signs' = shows_as_sign [OF shown(2)]
    have m': "1000000 \<le> m'" "m' < 10000000" "\<bar>e'\<bar> < 1000" using shown by (auto simp: shows_as_def)
    let ?v = "(of_nat m :: rat) * 10 powi e" and ?w = "(of_nat m' :: rat) * 10 powi e'"
    have "q < q' \<longleftrightarrow> (if neg then (if neg' then ?w < ?v else True) else (if neg' then False else ?v < ?w))"
      unfolding signs(1) signs'(1) using signs(2) signs'(2) by (auto simp: divide_less_cancel)
    moreover have "?v < ?w \<longleftrightarrow> e < e' \<or> e = e' \<and> m < m'" "?w < ?v \<longleftrightarrow> e' < e \<or> e' = e \<and> m' < m"
      using magnitude_iff [OF m(1,2) m'(1,2), of e e'] magnitude_iff [OF m'(1,2) m(1,2), of e' e] by auto
    moreover have "key_less (float_key neg m e) (float_key neg' m' e') \<longleftrightarrow>
        (if neg then (if neg' then e' < e \<or> e' = e \<and> m' < m else True) else (if neg' then False else e < e' \<or> e = e' \<and> m < m'))"
      using m m' by (cases neg; cases neg'; cases "e < 0"; cases "e' < 0") (auto simp: float_key_def)
    ultimately show ?thesis using one(1) shown(1) by simp
  qed
qed


lemma py_float_decimal:
  assumes "dec_value a = Inr v" and "CHR ''e'' \<notin> set a" and "py_int x = Inr i" and "CHR ''e'' \<notin> set x"
  shows "py_float (a @ ''e'' @ x) = Inr (v * 10 powi i)"
proof -
  have "py_split (CHR ''e'') (a @ ''e'' @ x) = [a, x]" using assms(2,4) by (simp add: py_split_append py_split_free)
  moreover have "(if 0 \<le> i then v * 10 ^ nat i else v / 10 ^ nat (- i)) = v * 10 powi i"
    by (cases "0 \<le> i") (simp_all only: power_int_def divide_inverse power_inverse if_True if_False)
  ultimately show ?thesis using assms(1,3) by (simp add: py_float_def)
qed

lemma e_not_in: "CHR ''e'' \<notin> set (digits w n)"
  by (rule no_point) simp_all

lemma e_not_in_micro: "m < 10000000 \<Longrightarrow> CHR ''e'' \<notin> set (micro_str m @ zeros k)"
  using no_point [OF zeros_digits, of "CHR ''e''" k] e_not_in by (simp add: micro_str_digits)

lemma e_not_in_zpad: "CHR ''e'' \<notin> set (zpad w i)"
  using e_not_in [of "w - 1" "nat (- i)"] e_not_in [of w "nat i"] by (simp add: zpad_def flip: digits_def)

lemma uncomplement_micro:
  assumes "1000000 \<le> m" and "m < 10000000"
  shows "map_sum id (\<lambda>q. fmt_f (q - 10)) (dec_value (micro_str (10000000 - m) @ zeros 10)) = Inr (CHR ''-'' # micro_str m)"
proof -
  have "of_nat (10000000 - m) / 1000000 - 10 = (- (of_nat m / 1000000) :: rat)" using assms by (simp add: of_nat_diff field_simps)
  then have "fmt_f (of_nat (10000000 - m) / 1000000 - 10) = CHR ''-'' # micro_str m" using fmt_f_neg_micro [of m] assms by (simp only:)
  moreover have "dec_value (micro_str (10000000 - m) @ zeros 10) = Inr (of_nat (10000000 - m) / 1000000)" using assms by (intro dec_value_micro) simp
  ultimately show ?thesis by simp
qed

lemma decode_shown:
  assumes "shows_as L q neg m e"
  shows "decode_float (VText (key_text (float_key neg m e))) = Inr (VFloat q)"
proof -
  have m: "1000000 \<le> m" "m < 10000000" and e: "\<bar>e\<bar> < 1000" and q: "q = (if neg then -1 else 1) * of_nat m / 1000000 * 10 powi e"
    using assms by (auto simp: shows_as_def)
  have len: "length (digits 3 (nat x)) = 3" if "\<bar>x\<bar> < 1000" for x using that by (intro length_digits) auto
  have take: "take 3 (digits 3 (nat x) @ s) = digits 3 (nat x)" and drop: "drop 4 (digits 3 (nat x) @ CHR '' '' # s) = s" if "\<bar>x\<bar> < 1000" for x s
    using len [OF that] by simp_all
  have pos: "dec_value (micro_str m @ zeros 10) = Inr (of_nat m / 1000000)" by (rule dec_value_micro(1) [OF m(2)])
  have neg: "dec_value (CHR ''-'' # micro_str m) = Inr (- of_nat m / 1000000)" using dec_value_micro(2) [OF m(2), of 0] by (simp add: zeros_def)
  have free: "CHR ''e'' \<notin> set (micro_str m @ zeros 10)" "CHR ''e'' \<notin> set (CHR ''-'' # micro_str m)"
    using e_not_in_micro [OF m(2)] by auto
  note reads = py_float_decimal [OF pos free(1)] py_float_decimal [OF neg free(2)]
  have int_digits: "py_int (digits w n) = Inr (int n)" for w n using py_int_digits(1) [of "digits w n"] by simp
  consider (1) "\<not> neg" "0 \<le> e" | (2) "\<not> neg" "e < 0" | (3) "neg" "e < 0" | (4) "neg" "0 \<le> e" by linarith
  then show ?thesis
  proof cases
    case 1
    have "py_float ((micro_str m @ zeros 10) @ ''e'' @ digits 3 (nat e)) = Inr (of_nat m / 1000000 * 10 powi e)"
      using reads(1) [OF int_digits, of 3 "nat e"] e_not_in 1 by simp
    then show ?thesis using 1 e q by (simp add: decode_float_def float_key_def key_text_def digit_texts' take drop del: take_append drop_append)
  next
    case 2
    have "py_float ((micro_str m @ zeros 10) @ ''e'' @ zpad 3 e) = Inr (of_nat m / 1000000 * 10 powi e)"
      by (rule reads(1) [OF py_int_zpad e_not_in_zpad])
    then show ?thesis using 2 e q by (simp add: decode_float_def float_key_def key_text_def digit_texts' take drop int_digits del: take_append drop_append)
  next
    case 3
    have "py_float ((CHR ''-'' # micro_str m) @ ''e'' @ CHR ''-'' # digits 3 (nat (- e))) = Inr (- of_nat m / 1000000 * 10 powi e)"
      using reads(2) [OF py_int_sign(2), of 3 "nat (- e)"] e_not_in 3 by simp
    then show ?thesis using 3 e q uncomplement_micro [OF m] by (simp add: decode_float_def float_key_def key_text_def digit_texts' take drop del: take_append drop_append)
  next
    case 4
    have "py_float ((CHR ''-'' # micro_str m) @ ''e'' @ zpad 3 e) = Inr (- of_nat m / 1000000 * 10 powi e)"
      by (rule reads(2) [OF py_int_zpad e_not_in_zpad])
    then show ?thesis using 4 e q uncomplement_micro [OF m] by (simp add: decode_float_def float_key_def key_text_def digit_texts' take drop int_digits del: take_append drop_append)
  qed
qed

lemma decode_float_as: "float_as L q k \<Longrightarrow> decode_float (VText (key_text k)) = Inr (VFloat q)"
proof (induction rule: float_as.induct)
  case zero
  then show ?case by (simp add: decode_float_def key_text_def digit_texts')
qed (rule decode_shown)


section \<open>Dates and times\<close>

lemma lower_digits: "list_all is_digit s \<Longrightarrow> py_lower s = s"
  by (induction s) (auto simp: py_lower_def lower_char_def is_digit_def)

lemma lower_append: "py_lower (s @ t) = py_lower s @ py_lower t"
  by (simp add: py_lower_def)

lemma lower_marks: "py_lower ''-'' = ''-''" "py_lower '':'' = '':''" "py_lower ''T'' = ''t''" "py_lower ''Z'' = ''z''"
  by code_simp+

lemma mark_not_in: "c \<in> {CHR ''.'', CHR ''e'', CHR ''-'', CHR ''+'', CHR '':'', CHR '' '', CHR ''t'', CHR ''z''} \<Longrightarrow> c \<notin> set (digits w n)"
  by (rule no_point) simp_all

lemma date_digits:
  assumes "valid_date (y, m, d)"
  shows "date_str (y, m, d) = digits 4 (nat y) @ ''-'' @ digits 2 (nat m) @ ''-'' @ digits 2 (nat d)"
    and "nat y < 10000" "nat m < 100" "nat d < 100" "0 \<le> y" "0 \<le> m" "0 \<le> d"
  using assms by (auto simp: zpad_nonneg month_days_def split: if_splits)

lemma time_digits:
  assumes "valid_time (h, m, s)"
  shows "time_str (h, m, s) = digits 2 (nat h) @ '':'' @ digits 2 (nat m) @ '':'' @ digits 2 (nat s)"
    and "nat h < 100" "nat m < 100" "nat s < 100" "0 \<le> h" "0 \<le> m" "0 \<le> s"
  using assms by (auto simp: zpad_nonneg)

lemma split_date:
  "py_split (CHR ''-'') (digits u a @ ''-'' @ digits v b @ ''-'' @ s) = digits u a # digits v b # py_split (CHR ''-'') s"
  using py_split_append [OF mark_not_in, of "CHR ''-''"] by simp

lemma split_time: "py_split (CHR '':'') (digits u a @ '':'' @ digits v b @ '':'' @ s) = digits u a # digits v b # py_split (CHR '':'') s"
  using py_split_append [OF mark_not_in, of "CHR '':''"] by simp

lemma py_int_digits_nat [simp]: "py_int (digits w n) = Inr (int n)"
  using py_int_digits(1) [of "digits w n"] by simp

lemma decode_encode_date:
  assumes "valid_date d"
  shows "decode_date (VText (date_str d)) = Inr (VDate d)"
proof -
  obtain y m dd where d: "d = (y, m, dd)" by (cases d)
  note D = date_digits [OF assms [unfolded d]]
  show ?thesis unfolding d D(1)
    using assms D(5-7) d split_date [of 4 "nat y" 2 "nat m" "digits 2 (nat dd)"]
    by (simp add: date_parts_def py_split_free mark_not_in)
qed

lemma field_digits: "lo \<le> int n \<Longrightarrow> int n \<le> hi \<Longrightarrow> n < 100 \<Longrightarrow> field_value lo hi (digits 2 n) = Some (int n)"
  by (simp add: field_value_def length_digits)

lemma hd_digits: "c \<in> {CHR ''.'', CHR ''e'', CHR ''-'', CHR ''+'', CHR '':'', CHR '' '', CHR ''t'', CHR ''z''} \<Longrightarrow> hd (digits w n) \<noteq> c"
  by (metis mark_not_in hd_in_set digits_simps(3))

lemma parse_time_str:
  assumes "valid_time t"
  shows "parse_time (py_lower (time_str t @ ''Z'')) = Some t"
proof -
  obtain h m s where t: "t = (h, m, s)" by (cases t)
  note D = time_digits [OF assms [unfolded t]]
  have "py_lower (time_str t @ ''Z'') = digits 2 (nat h) @ '':'' @ digits 2 (nat m) @ '':'' @ digits 2 (nat s) @ ''z''"
    unfolding t D(1) by (simp only: lower_append lower_marks lower_digits [OF digits_simps(1)] append_assoc)
  moreover have "py_split (CHR '':'') (digits 2 (nat s) @ ''z'') = [digits 2 (nat s) @ ''z'']"
    using mark_not_in [of "CHR '':''" 2 "nat s"] by (intro py_split_free) simp
  ultimately show ?thesis
    using assms D(2-7) unfolding t parse_time_def by (simp only: split_time list.case) (simp add: field_digits)
qed

lemma parse_iso_text:
  assumes "valid_date d" and "valid_time t"
  shows "parse_iso (date_str d @ ''T'' @ time_str t @ ''Z'') = Some (d, t)"
proof -
  obtain y m dd where d: "d = (y, m, dd)" by (cases d)
  note D = date_digits [OF assms(1) [unfolded d]]
  obtain h mi s where t: "t = (h, mi, s)" by (cases t)
  note T = time_digits [OF assms(2) [unfolded t]]
  let ?time = "py_lower (time_str t @ ''Z'')"
  have lower: "py_lower (date_str d @ ''T'' @ time_str t @ ''Z'') = digits 4 (nat y) @ ''-'' @ digits 2 (nat m) @ ''-'' @ digits 2 (nat dd) @ ''t'' @ ?time"
    unfolding d D(1) by (simp only: lower_append lower_marks lower_digits [OF digits_simps(1)] append_assoc)
  have time: "?time = digits 2 (nat h) @ '':'' @ digits 2 (nat mi) @ '':'' @ digits 2 (nat s) @ ''z''"
    unfolding t T(1) by (simp only: lower_append lower_marks lower_digits [OF digits_simps(1)] append_assoc)
  have "py_split (CHR ''-'') (digits 2 (nat dd) @ ''t'' @ ?time) = [digits 2 (nat dd) @ ''t'' @ ?time]"
    unfolding time by (intro py_split_free) (simp add: mark_not_in)
  moreover have "py_split (CHR ''t'') (digits 2 (nat dd) @ ''t'' @ ?time) = [digits 2 (nat dd), ?time]"
    using py_split_append [OF mark_not_in, of "CHR ''t''" 2 "nat dd"] unfolding time by (simp add: py_split_free mark_not_in)
  moreover have "day_value (digits 2 (nat dd)) = Some dd"
    using assms(1) D(2-7) hd_digits [of "CHR '' ''" 2 "nat dd"] month_days_def [of y m] unfolding d by (simp add: day_value_def field_digits split: if_splits)
  moreover have "year_value (digits 4 (nat y)) = Some y" using D(2,5) by (simp add: year_value_def length_digits)
  moreover have "field_value 1 12 (digits 2 (nat m)) = Some m" using assms(1) D(3,6) unfolding d by (simp add: field_digits)
  ultimately show ?thesis
    using assms(1) parse_time_str [OF assms(2)] unfolding parse_iso_def lower split_date by (simp add: d)
qed


section \<open>Single values\<close>

definition stores :: "conv_lib \<Rightarrow> item_type \<Rightarrow> sval \<Rightarrow> bool" where
  "stores L T v =
     (case v of
        VText s \<Rightarrow> T = TText \<or> T = TKey \<and> s \<notin> {''None'', [], '' ''}
      | VBool b \<Rightarrow> T = TBool
      | VInt i \<Rightarrow> T = TInt \<or> T = TLong
      | VFloat q \<Rightarrow> T = TFloat \<and> (\<exists>k. float_as L q k)
      | VDate d \<Rightarrow> T = TDate \<and> valid_date d
      | VDatetime d t u \<Rightarrow> T = TDatetime \<and> 1900 \<le> fst d \<and> valid_date d \<and> valid_time t \<and> u = 0
      | _ \<Rightarrow> False)"

lemma digit_no_space: "is_digit c \<Longrightarrow> \<not> is_space c"
  by (auto simp: is_digit_def is_space_def)

lemma ends_digits: "is_digit (hd (digits w n))" "is_digit (last (digits w n))"
  using digits_simps [of w n] by (metis list_all_iff hd_in_set, metis list_all_iff last_in_set)

lemma strip_zpad: "py_strip (zpad w i) = zpad w i" and last_zpad: "is_digit (last (zpad w i))" and zpad_not_Nil [simp]: "zpad w i \<noteq> []"
proof -
  have shape: "zpad w i = digits w (nat i) \<or> zpad w i = CHR ''-'' # digits (w - 1) (nat (- i))"
    by (simp add: zpad_def digits_def)
  then show last: "is_digit (last (zpad w i))" and "zpad w i \<noteq> []" using ends_digits by auto
  have "\<not> is_space (hd (zpad w i))" using shape ends_digits [THEN digit_no_space] by (auto simp: is_space_def)
  then show "py_strip (zpad w i) = zpad w i" using last digit_no_space by (intro py_strip_id) simp
qed

lemma long_zpad: "to_long (VText (zpad w i)) = Inr i"
proof -
  have "last (zpad w i) \<notin> {CHR ''L'', CHR ''l''}" using last_zpad [of w i] by (auto simp: is_digit_def)
  then have "unsuffixed (zpad w i) = zpad w i" by (simp add: unsuffixed_def strip_zpad)
  then show ?thesis by simp
qed

lemma lower_words: "py_lower ''true'' = ''true''" "py_lower ''false'' = ''false''" "py_lower [] = []"
  by code_simp+

lemma stored_reads_back:
  assumes "stores L T v"
  shows "\<exists>s. encode L T v = Inr (VText s) \<and> decode T (VText s) = Inr v"
proof (cases v)
  case (VBool b)
  then show ?thesis using assms by (cases b) (simp_all add: stores_def encode_def decode_def encode_bool_def lower_words)
next
  case (VInt i)
  then show ?thesis using assms long_zpad
    by (auto simp: stores_def encode_def decode_def encode_int_def decode_int_def encode_long_def decode_long_def)
next
  case (VText s)
  then show ?thesis using assms by (auto simp: stores_def encode_def decode_def decode_reference_def)
next
  case (VFloat q)
  then obtain k where "T = TFloat" "float_as L q k" using assms by (auto simp: stores_def)
  then show ?thesis using VFloat encode_float_as decode_float_as by (simp add: encode_def decode_def)
next
  case (VDate d)
  then show ?thesis using assms decode_encode_date [of d] by (simp add: stores_def encode_def decode_def)
next
  case (VDatetime d t u)
  then show ?thesis using assms parse_iso_text [of d t] by (simp add: stores_def encode_def decode_def iso_text_def)
qed (use assms in \<open>simp_all add: stores_def\<close>)

text \<open>
  The values whose texts are ordered as they are: integers for which the number of digits is enough, floats
  that are shown exactly, times without fractions.
\<close>

definition ordered :: "conv_lib \<Rightarrow> item_type \<Rightarrow> sval \<Rightarrow> bool" where
  "ordered L T v =
     (case v of
        VText s \<Rightarrow> T = TText
      | VBool b \<Rightarrow> T = TBool
      | VInt i \<Rightarrow> T = TInt \<and> - INT_OFFSET \<le> i \<and> i < 10000000000 - INT_OFFSET
          \<or> T = TLong \<and> - LONG_OFFSET \<le> i \<and> i < 100000000000000000000 - LONG_OFFSET
      | VFloat q \<Rightarrow> T = TFloat \<and> (\<exists>k. float_as L q k)
      | VDate d \<Rightarrow> T = TDate \<and> valid_date d
      | VDatetime d t u \<Rightarrow> T = TDatetime \<and> 1900 \<le> fst d \<and> valid_date d \<and> valid_time t \<and> u = 0
      | _ \<Rightarrow> False)"

fun triple_less :: "int \<times> int \<times> int \<Rightarrow> int \<times> int \<times> int \<Rightarrow> bool" where
  "triple_less (a, b, c) (a', b', c') \<longleftrightarrow> a < a' \<or> a = a' \<and> (b < b' \<or> b = b' \<and> c < c')"

definition value_less :: "sval \<Rightarrow> sval \<Rightarrow> bool" where
  "value_less v w =
     (case v of
        VText s \<Rightarrow> (case w of VText t \<Rightarrow> text_less s t | _ \<Rightarrow> False)
      | VBool a \<Rightarrow> (case w of VBool b \<Rightarrow> \<not> a \<and> b | _ \<Rightarrow> False)
      | VInt i \<Rightarrow> (case w of VInt j \<Rightarrow> i < j | _ \<Rightarrow> False)
      | VFloat q \<Rightarrow> (case w of VFloat r \<Rightarrow> q < r | _ \<Rightarrow> False)
      | VDate d \<Rightarrow> (case w of VDate e \<Rightarrow> triple_less d e | _ \<Rightarrow> False)
      | VDatetime d t u \<Rightarrow> (case w of VDatetime d' t' u' \<Rightarrow> triple_less d d' \<or> d = d' \<and> triple_less t t' | _ \<Rightarrow> False)
      | _ \<Rightarrow> False)"

lemma date_less:
  assumes "valid_date d" and "valid_date d'"
  shows "text_less (date_str d @ s) (date_str d' @ s') \<longleftrightarrow> triple_less d d' \<or> d = d' \<and> text_less s s'"
proof -
  obtain y m dd y' m' dd' where d: "d = (y, m, dd)" "d' = (y', m', dd')" by (cases d; cases d')
  note D = date_digits [OF assms(1) [unfolded d]] date_digits [OF assms(2) [unfolded d]]
  show ?thesis unfolding d D(1,8)
    using D(2-7,9-14) by (simp add: text_less_append length_digits text_less_rjust digits_inj) (auto simp: nat_less_eq_zless eq_nat_nat_iff)
qed

lemma time_less:
  assumes "valid_time d" and "valid_time d'"
  shows "text_less (time_str d @ s) (time_str d' @ s') \<longleftrightarrow> triple_less d d' \<or> d = d' \<and> text_less s s'"
proof -
  obtain y m dd y' m' dd' where d: "d = (y, m, dd)" "d' = (y', m', dd')" by (cases d; cases d')
  note D = time_digits [OF assms(1) [unfolded d]] time_digits [OF assms(2) [unfolded d]]
  show ?thesis unfolding d D(1,8)
    using D(2-7,9-14) by (simp add: text_less_append length_digits text_less_rjust digits_inj) (auto simp: nat_less_eq_zless eq_nat_nat_iff)
qed


lemma iso_less:
  assumes "valid_date d" and "valid_date d'" and "valid_time t" and "valid_time t'"
  shows "text_less (date_str d @ ''T'' @ time_str t @ ''Z'') (date_str d' @ ''T'' @ time_str t' @ ''Z'')
    \<longleftrightarrow> triple_less d d' \<or> d = d' \<and> triple_less t t'"
  using date_less [OF assms(1,2)] time_less [OF assms(3,4)] by simp

lemma zpad_less: "0 \<le> i \<Longrightarrow> i < 10 ^ w \<Longrightarrow> 0 \<le> j \<Longrightarrow> j < 10 ^ w \<Longrightarrow> 0 < w \<Longrightarrow> text_less (zpad w i) (zpad w j) \<longleftrightarrow> i < j"
  by (auto simp: zpad_nonneg text_less_rjust nat_less_iff)

lemma ordered_texts:
  assumes "ordered L T v" and "ordered L T w"
  shows "\<exists>s t. encode L T v = Inr (VText s) \<and> encode L T w = Inr (VText t) \<and> (text_less s t \<longleftrightarrow> value_less v w)"
proof (cases T)
  case TBool
  obtain a b where v: "v = VBool a" "w = VBool b" using assms TBool by (cases v; cases w) (auto simp: ordered_def)
  show ?thesis using TBool unfolding v by (cases a; cases b) (simp_all add: encode_def encode_bool_def lower_words value_less_def)
next
  case TInt
  obtain i j where v: "v = VInt i" "w = VInt j" using assms TInt by (cases v; cases w) (auto simp: ordered_def)
  then show ?thesis
    using assms TInt zpad_less [of "i + INT_OFFSET" 10 "j + INT_OFFSET"] by (simp add: encode_def encode_int_def ordered_def value_less_def)
next
  case TLong
  obtain i j where v: "v = VInt i" "w = VInt j" using assms TLong by (cases v; cases w) (auto simp: ordered_def)
  then show ?thesis
    using assms TLong zpad_less [of "i + LONG_OFFSET" 20 "j + LONG_OFFSET"] by (simp add: encode_def encode_long_def ordered_def value_less_def)
next
  case TFloat
  obtain q r where v: "v = VFloat q" "w = VFloat r" using assms TFloat by (cases v; cases w) (auto simp: ordered_def)
  then obtain k k' where "float_as L q k" "float_as L r k'" using assms TFloat by (auto simp: ordered_def)
  then show ?thesis
    using TFloat v text_less_key [OF float_as_ok float_as_ok, of L q k L r k'] float_key_order [of L q k r k'] by (simp add: encode_def encode_float_as ordered_def value_less_def)
next
  case TDate
  obtain d e where v: "v = VDate d" "w = VDate e" using assms TDate by (cases v; cases w) (auto simp: ordered_def)
  then show ?thesis using assms TDate date_less [of d e "[]" "[]"] by (simp add: encode_def ordered_def value_less_def)
next
  case TDatetime
  obtain d t u d' t' u' where v: "v = VDatetime d t u" "w = VDatetime d' t' u'" using assms TDatetime by (cases v; cases w) (auto simp: ordered_def)
  then show ?thesis using assms TDatetime iso_less [of d d' t t'] by (simp add: encode_def iso_text_def ordered_def value_less_def)
next
  case TText
  then show ?thesis using assms by (cases v; cases w) (simp_all add: encode_def ordered_def value_less_def)
qed (use assms in \<open>cases v; cases w; simp add: ordered_def\<close>)+


section \<open>Lists and maps\<close>

text \<open>A list of model objects is kept by their ids.\<close>

definition stores_item :: "conv_lib \<Rightarrow> item_type \<Rightarrow> sval \<Rightarrow> bool" where
  "stores_item L T v \<longleftrightarrow> stores L T v \<or> (\<exists>c i. T = TModel c \<and> v = VModel c (Some i))"

lemma stored_item_element:
  assumes "stores_item L T v"
  shows "\<exists>s. encode L T v = Inr (VText s) \<and> (\<forall>k. CHR '':'' \<notin> set k \<longrightarrow> decode_map_element T (VText (k @ '':'' @ s)) = Inr (k, v))"
proof -
  have split: "py_split1 (CHR '':'') (k @ CHR '':'' # s) = [k, s]" if "CHR '':'' \<notin> set k" for k s
    using that by (rule py_split1_append)
  show ?thesis
  proof (cases "\<exists>c i. T = TModel c \<and> v = VModel c (Some i)")
    case True
    then show ?thesis using split by (auto simp: encode_def opt_id_def)
  next
    case False
    then have stores: "stores L T v" using assms by (auto simp: stores_item_def)
    then have T: "\<And>c. T \<noteq> TModel c" by (auto simp: stores_def split: sval.splits)
    obtain s where "encode L T v = Inr (VText s)" "decode T (VText s) = Inr v" using stored_reads_back [OF stores] by blast
    then show ?thesis using split T by (cases T) auto
  qed
qed

text \<open>The text of an entry, and the texts of a dictionary.\<close>

definition text_for :: "conv_lib \<Rightarrow> item_type \<Rightarrow> string \<times> sval \<Rightarrow> sval" where
  "text_for L T e = (case encode L T (snd e) of Inr (VText s) \<Rightarrow> VText (fst e @ '':'' @ s) | _ \<Rightarrow> VNone)"

lemma text_for_stored:
  assumes "stores_item L T v" and "CHR '':'' \<notin> set k"
  shows "decode_map_element T (text_for L T (k, v)) = Inr (k, v)" and "text_for L T (k, v) \<noteq> VNone"
  using stored_item_element [OF assms(1)] assms(2) by (auto simp: text_for_def)

lemma text_for_text: "stores_item L T v \<Longrightarrow> \<exists>s. text_for L T (k, v) = VText s"
  using stored_item_element [of L T v] by (auto simp: text_for_def)

lemma encode_stored:
  "\<forall>(k, v) \<in> set d. stores_item L T v \<Longrightarrow> encode_entries L T d = Inr (map (text_for L T) d)"
proof (induction d)
  case (Cons e d)
  obtain k v where e: "e = (k, v)" by fastforce
  then obtain s where "encode L T v = Inr (VText s)" using stored_item_element [of L T v] Cons.prems by auto
  then show ?case using Cons e by (simp add: text_for_def entry_text_def)
qed simp

lemma decode_pairs_stored:
  assumes "\<forall>(k, v) \<in> set es. stores_item L T v \<and> CHR '':'' \<notin> set k"
  shows "decode_pairs T (map (text_for L T) es) d = Inr (fold (\<lambda>(k, v). dset k v) es d)"
  using assms by (induction es arbitrary: d) (auto simp: text_for_stored split: prod.splits)

lemma decode_entries_stored:
  assumes "\<forall>(k, v) \<in> set es. stores_item L T v \<and> CHR '':'' \<notin> set k" and "\<forall>(k, v) \<in> set es. py_int k = Inr (idx k)"
  shows "decode_entries T (map (text_for L T) es) d = Inr (fold (\<lambda>(k, v). dset (VInt (idx k)) v) es d)"
  using assms by (induction es arbitrary: d) (auto simp: text_for_stored split: prod.splits)

lemma fold_dset_fresh:
  "distinct (map fst es @ map fst d) \<Longrightarrow> fold (\<lambda>(k, v). dset k v) es d = d @ es"
proof (induction es arbitrary: d)
  case (Cons e es)
  obtain k v where e: "e = (k, v)" by fastforce
  have "k \<notin> fst ` set d" using Cons.prems e by auto
  then have "dset k v d = d @ [(k, v)]" by (induction d) auto
  then show ?case using Cons e by auto
qed simp

lemma mset_map_split: "mset us = image_mset f M \<Longrightarrow> \<exists>es. us = map f es \<and> mset es = M"
proof (induction us arbitrary: M)
  case (Cons u us)
  then have "image_mset f M = add_mset u (mset us)" by simp
  then obtain N e where "M = add_mset e N" "u = f e" "mset us = image_mset f N" by (auto dest!: msed_map_invR)
  moreover obtain es where "us = map f es" "mset es = N" using Cons.IH calculation(3) by blast
  ultimately show ?case by (intro exI [of _ "e # es"]) simp
qed simp


text \<open>What is asked of the two orders of dictionaries: they are orders, and small indices come in turn.\<close>

definition items_permuted :: "conv_lib \<Rightarrow> bool" where
  "items_permuted L \<longleftrightarrow> (\<forall>d. mset (cv_items L d) = mset d)"

definition index_dict :: "sval list \<Rightarrow> (sval, sval) dict" where
  "index_dict vs = map (\<lambda>(i, v). (VInt (int i), v)) (enumerate 0 vs)"

definition indices_in_turn :: "conv_lib \<Rightarrow> bool" where
  "indices_in_turn L \<longleftrightarrow> (\<forall>vs d. mset d = mset (index_dict vs) \<longrightarrow> cv_values L d = index_dict vs)"

lemma list_key_simps:
  assumes "(k, v) \<in> set (list_keys vs)"
  shows "CHR '':'' \<notin> set k" and "v \<in> set vs" and "\<exists>i. py_int k = Inr i"
  using assms mark_not_in [of "CHR '':''"] by (auto simp: list_keys_def zpad_nonneg in_set_enumerate_eq)

lemma map_over_indices: "map (\<lambda>x. f (fst x)) (enumerate 0 vs) = map f [0..<length vs]"
  using map_map [of f fst "enumerate 0 vs"] by (simp add: comp_def)

lemma list_keys_distinct: "distinct (map fst (list_keys vs))"
proof -
  have "map fst (list_keys vs) = map (\<lambda>i. zpad 3 (int i)) [0..<length vs]"
    using map_over_indices [of "\<lambda>i. zpad 3 (int i)" vs] by (simp add: list_keys_def comp_def case_prod_beta)
  moreover have "inj (\<lambda>i. zpad 3 (int i))" by (rule injI) (metis py_int_zpad sum.inject(2) of_nat_eq_iff)
  ultimately show ?thesis by (auto simp: distinct_map intro: inj_on_subset)
qed

definition read_index :: "string \<Rightarrow> int" where
  "read_index k = (case py_int k of Inr i \<Rightarrow> i | Inl e \<Rightarrow> 0)"

lemma index_dict_keys: "map (\<lambda>(k, v). (VInt (read_index k), v)) (list_keys vs) = index_dict vs"
  by (simp add: list_keys_def index_dict_def read_index_def comp_def case_prod_beta)

lemma index_dict_distinct: "distinct (map fst (index_dict vs))"
proof -
  have "map fst (index_dict vs) = map (\<lambda>i. VInt (int i)) [0..<length vs]"
    using map_over_indices [of "\<lambda>i. VInt (int i)" vs] by (simp add: index_dict_def comp_def case_prod_beta)
  then show ?thesis by (simp add: distinct_map inj_on_def)
qed

lemma index_dict_values: "map snd (index_dict vs) = vs"
  by (simp add: index_dict_def comp_def case_prod_beta)

lemma fold_map_keys: "fold (\<lambda>(k, v). dset (f k) v) es d = fold (\<lambda>(k, v). dset k v) (map (\<lambda>(k, v). (f k, v)) es) d"
  by (induction es arbitrary: d) auto

lemma stored_list_reads_back:
  assumes "vs \<noteq> []" and "\<forall>v \<in> set vs. stores_item L T v" and "items_permuted L" and "indices_in_turn L"
  shows "\<exists>ws. encode_list L T (VList vs) = Inr (VList ws) \<and> (\<forall>w \<in> set ws. \<exists>s. w = VText s)
    \<and> (\<forall>us. mset us = mset ws \<longrightarrow> decode_list L T (VList us) = Inr (VList vs))"
proof -
  let ?d = "cv_items L (list_keys vs)"
  let ?ws = "map (text_for L T) ?d"
  have perm: "mset ?d = mset (list_keys vs)" using assms(3) by (simp add: items_permuted_def)
  then have same: "set ?d = set (list_keys vs)" by (metis set_mset_mset)
  have ok: "\<forall>(k, v) \<in> set (list_keys vs). stores_item L T v \<and> CHR '':'' \<notin> set k"
    using assms(2) list_key_simps by fast
  have "encode_entries L T ?d = Inr ?ws" by (rule encode_stored) (use ok same in auto)
  then have enc: "encode_list L T (VList vs) = Inr (VList ?ws)" using assms(1) by simp
  have "decode_list L T (VList us) = Inr (VList vs)" if us: "mset us = mset ?ws" for us
  proof -
    obtain es where es: "us = map (text_for L T) es" "mset es = mset ?d" using mset_map_split [of us "text_for L T" "mset ?d"] us by auto
    then have set_es: "set es = set (list_keys vs)" using perm by (metis set_mset_mset)
    let ?f = "\<lambda>(k, v). (VInt (read_index k), v)"
    have mset_es: "mset (map ?f es) = mset (index_dict vs)"
      using es(2) perm index_dict_keys [of vs] by (metis mset_map)
    then have "mset (map fst (map ?f es)) = mset (map fst (index_dict vs))" by (metis mset_map)
    then have dist: "distinct (map fst (map ?f es))" using index_dict_distinct by (metis mset_eq_imp_distinct_iff)
    have idx: "\<forall>(k, v) \<in> set es. py_int k = Inr (read_index k)"
      unfolding set_es using list_key_simps(3) by (fastforce simp: read_index_def)
    have "decode_entries T us [] = Inr (fold (\<lambda>(k, v). dset (VInt (read_index k)) v) es [])"
      unfolding es(1) by (rule decode_entries_stored) (use ok set_es idx in auto)
    also have "\<dots> = Inr (map ?f es)"
      using fold_dset_fresh [of "map ?f es" "[]"] dist fold_map_keys [of "\<lambda>k. VInt (read_index k)" es "[]"] by simp
    finally have "decode_list L T (VList us) = Inr (VList (map snd (cv_values L (map ?f es))))" by (simp add: decode_list_def as_values_def)
    also have "cv_values L (map ?f es) = index_dict vs" using assms(4) mset_es by (simp add: indices_in_turn_def)
    finally show ?thesis by (simp add: index_dict_values)
  qed
  moreover have "\<forall>w \<in> set ?ws. \<exists>s. w = VText s" using ok same by (fastforce dest: text_for_text)
  ultimately show ?thesis using enc by blast
qed

lemma stored_map_reads_back:
  assumes "distinct (map fst d)" and "\<forall>(k, v) \<in> set d. stores_item L T v \<and> CHR '':'' \<notin> set k" and "items_permuted L"
  shows "\<exists>ws. encode_map L T (VMap d) = Inr (VList ws) \<and> (\<forall>w \<in> set ws. \<exists>s. w = VText s)
    \<and> (\<forall>us. mset us = mset ws \<longrightarrow> (\<exists>d'. decode_map T (VList us) = Inr (VMap d') \<and> mset d' = mset d))"
proof -
  let ?d = "cv_items L d"
  let ?ws = "map (text_for L T) ?d"
  have perm: "mset ?d = mset d" using assms(3) by (simp add: items_permuted_def)
  then have same: "set ?d = set d" by (metis set_mset_mset)
  have "encode_entries L T ?d = Inr ?ws" by (rule encode_stored) (use assms(2) same in auto)
  then have enc: "encode_map L T (VMap d) = Inr (VList ?ws)" by simp
  have "\<exists>d'. decode_map T (VList us) = Inr (VMap d') \<and> mset d' = mset d" if us: "mset us = mset ?ws" for us
  proof -
    obtain es where es: "us = map (text_for L T) es" "mset es = mset ?d" using mset_map_split [of us "text_for L T" "mset ?d"] us by auto
    then have "mset es = mset d" "set es = set d" using perm by (simp, metis set_mset_mset)
    then have "distinct (map fst es)" using assms(1) by (metis mset_eq_imp_distinct_iff mset_map)
    moreover have "decode_pairs T us [] = Inr (fold (\<lambda>(k, v). dset k v) es [])"
      unfolding es(1) by (rule decode_pairs_stored) (use assms(2) \<open>set es = set d\<close> in auto)
    ultimately show ?thesis using fold_dset_fresh [of es "[]"] \<open>mset es = mset d\<close> by (simp add: decode_map_def as_values_def)
  qed
  moreover have "\<forall>w \<in> set ?ws. \<exists>s. w = VText s" using assms(2) same by (fastforce dest: text_for_text)
  ultimately show ?thesis using enc by blast
qed


section \<open>The properties\<close>


text \<open>A format of two floats, for the examples.\<close>

definition some_lib :: conv_lib where
  "some_lib = \<lparr>cv_e = (\<lambda>q. if q = 3 / 2 then ''1.500000e+00'' else if q = - 25 then ''-2.500000e+01'' else ''0.000000e+00''),
     cv_values = sort_key (\<lambda>e. case fst e of VInt i \<Rightarrow> i | _ \<Rightarrow> 0), cv_items = (\<lambda>d. d), cv_str = (\<lambda>_. [])\<rparr>"

lemma digit_chars: "digit_char 0 = CHR ''0''" "digit_char 5 = CHR ''5''"
  by code_simp+

lemma some_floats: "shows_as some_lib (3 / 2) False 1500000 0" "shows_as some_lib (- 25) True 2500000 1"
proof -
  have "micro_str 1500000 = digits 1 1 @ ''.'' @ digits 6 500000" "micro_str 2500000 = digits 1 2 @ ''.'' @ digits 6 500000"
    by (simp_all add: micro_str_digits)
  moreover have "digits 6 500000 = ''500000''"
    by (simp add: digits_def rjust0_def zeros_def nat_str.simps [of 500000] nat_str.simps [of 50000] nat_str.simps [of 5000] nat_str.simps [of 500]
        nat_str.simps [of 50] nat_str_small digit_chars)
  moreover have "digits 2 0 = ''00''" "digits 2 1 = ''01''" by code_simp+
  ultimately show "shows_as some_lib (3 / 2) False 1500000 0" "shows_as some_lib (- 25) True 2500000 1"
    by (simp_all add: shows_as_def some_lib_def digit_texts')
qed


text \<open>
  The values of properties that survive, and what SimpleDB delivers of what it keeps: one text as it is, several texts
  as a list in any order. A map is the same if it has the same entries.
\<close>

definition survives :: "conv_lib \<Rightarrow> shape \<Rightarrow> sval \<Rightarrow> bool" where
  "survives L P v =
     (case P of
        Single T \<Rightarrow> stores L T v
      | ListOf T \<Rightarrow> (case v of VList vs \<Rightarrow> vs \<noteq> [] \<and> (\<forall>v \<in> set vs. stores_item L T v) | _ \<Rightarrow> False)
      | MapOf T \<Rightarrow> (case v of
            VMap d \<Rightarrow> d \<noteq> [] \<and> distinct (map fst d) \<and> (\<forall>(k, v) \<in> set d. stores_item L T v \<and> CHR '':'' \<notin> set k)
          | _ \<Rightarrow> False))"

definition delivered :: "sval \<Rightarrow> sval \<Rightarrow> bool" where
  "delivered w u =
     (case w of
        VText s \<Rightarrow> u = VText s
      | VList ws \<Rightarrow> if length ws = 1 then u = hd ws else (case u of VList us \<Rightarrow> mset us = mset ws | _ \<Rightarrow> False)
      | _ \<Rightarrow> False)"

definition same_value :: "sval \<Rightarrow> sval \<Rightarrow> bool" where
  "same_value v w = (case v of VMap d \<Rightarrow> (case w of VMap d' \<Rightarrow> mset d = mset d' | _ \<Rightarrow> False) | _ \<Rightarrow> v = w)"

lemma delivered_list:
  assumes "delivered (VList ws) u" and "\<forall>w \<in> set ws. \<exists>s. w = VText s"
  shows "mset (as_values u) = mset ws"
proof (cases "length ws = 1")
  case True
  then obtain w where "ws = [w]" by (auto simp: length_Suc_conv)
  then show ?thesis using assms by (auto simp: delivered_def as_values_def)
qed (use assms in \<open>auto simp: delivered_def as_values_def split: sval.splits\<close>)

lemma decode_as_values: "decode_list L T (VList (as_values u)) = decode_list L T u" "decode_map T (VList (as_values u)) = decode_map T u"
  by (simp_all add: decode_list_def decode_map_def as_values_def split: sval.splits)

text \<open>
  What is kept is what is read. A value, a list or a map of the kind of its property, encoded for SimpleDB and
  delivered in any order, is decoded as the same value. A list must not be empty, and no key of a map contain a
  colon.
\<close>

theorem kept_values_read_back:
  assumes "survives L P v" and "items_permuted L" and "indices_in_turn L"
  shows "\<exists>w. encode_prop L P v = Inr w \<and> (\<forall>u. delivered w u \<longrightarrow> (\<exists>v'. decode_prop L P u = Inr v' \<and> same_value v v'))"
proof (cases P)
  case (Single T)
  then obtain s where "encode L T v = Inr (VText s)" "decode T (VText s) = Inr v"
    using stored_reads_back [of L T v] assms(1) by (auto simp: survives_def)
  then show ?thesis using Single assms(1) by (auto simp: delivered_def same_value_def survives_def stores_def split: sval.splits)
next
  case (ListOf T)
  then obtain vs where v: "v = VList vs" "vs \<noteq> []" "\<forall>v \<in> set vs. stores_item L T v" using assms(1) by (cases v) (auto simp: survives_def)
  then obtain ws where ws: "encode_list L T (VList vs) = Inr (VList ws)" "\<forall>w \<in> set ws. \<exists>s. w = VText s"
      "\<And>us. mset us = mset ws \<Longrightarrow> decode_list L T (VList us) = Inr (VList vs)"
    using stored_list_reads_back [of vs L T] assms by auto
  have "decode_list L T u = Inr (VList vs)" if "delivered (VList ws) u" for u
    using delivered_list [OF that ws(2)] ws(3) decode_as_values(1) [of L T u] by metis
  then show ?thesis using ws(1) v ListOf by (auto simp: same_value_def)
next
  case (MapOf T)
  then obtain d where v: "v = VMap d" "distinct (map fst d)" "\<forall>(k, v) \<in> set d. stores_item L T v \<and> CHR '':'' \<notin> set k"
    using assms(1) by (cases v) (auto simp: survives_def)
  then obtain ws where ws: "encode_map L T (VMap d) = Inr (VList ws)" "\<forall>w \<in> set ws. \<exists>s. w = VText s"
      "\<And>us. mset us = mset ws \<Longrightarrow> \<exists>d'. decode_map T (VList us) = Inr (VMap d') \<and> mset d' = mset d"
    using stored_map_reads_back [of d L T] assms by auto
  have "\<exists>d'. decode_map T u = Inr (VMap d') \<and> mset d' = mset d" if "delivered (VList ws) u" for u
    using delivered_list [OF that ws(2)] ws(3) decode_as_values(2) [of T u] by metis
  then show ?thesis using ws(1) v(1) MapOf by (fastforce simp: same_value_def)
qed

lemma some_orders: "items_permuted some_lib" "indices_in_turn some_lib"
proof -
  show "items_permuted some_lib" by (simp add: items_permuted_def some_lib_def)
  have "cv_values some_lib d = index_dict vs" if d: "mset d = mset (index_dict vs)" for vs d
    unfolding some_lib_def conv_lib.select_convs
  proof (rule sort_key_inj_key_eq [OF d])
    have "set d = set (index_dict vs)" using d by (metis set_mset_mset)
    then show "inj_on (\<lambda>e. case fst e of VInt i \<Rightarrow> i | _ \<Rightarrow> 0) (set d)"
      by (auto simp: inj_on_def index_dict_def in_set_enumerate_eq)
    have "map (\<lambda>e. case fst e of VInt i \<Rightarrow> i | _ \<Rightarrow> 0) (index_dict vs) = map int [0..<length vs]"
      using map_over_indices [of int vs] by (simp add: index_dict_def comp_def case_prod_beta)
    then show "sorted (map (\<lambda>e. case fst e of VInt i \<Rightarrow> i | _ \<Rightarrow> 0) (index_dict vs))"
      by (simp add: sorted_map sorted_wrt_upt flip: sorted_wrt_map)
  qed
  then show "indices_in_turn some_lib" by (simp add: indices_in_turn_def)
qed

theorem kept_values_read_back_witness:
  "\<exists>w. encode_prop some_lib (ListOf TInt) (VList [VInt 5, VInt (- 3)]) = Inr w
    \<and> (\<forall>u. delivered w u \<longrightarrow> (\<exists>v'. decode_prop some_lib (ListOf TInt) u = Inr v' \<and> same_value (VList [VInt 5, VInt (- 3)]) v'))"
  by (rule kept_values_read_back) (simp_all add: some_orders survives_def stores_item_def stores_def)

text \<open>
  A colon in the key of a map moves into the value: the map that has the one key \<open>a:b\<close> is kept as one text, and this
  text is read as the map with the key \<open>a\<close>, whose value begins with \<open>b:\<close>.
\<close>

theorem colon_moves_key:
  assumes "items_permuted L" and "CHR '':'' \<notin> set a"
  shows "\<exists>w. encode_prop L (MapOf TText) (VMap [(a @ '':'' @ b, VText s)]) = Inr (VList [w])
    \<and> decode_prop L (MapOf TText) w = Inr (VMap [(a, VText (b @ '':'' @ s))])"
proof -
  have "cv_items L [(a @ '':'' @ b, VText s)] = [(a @ '':'' @ b, VText s)]"
    using assms(1) by (metis items_permuted_def mset_single_iff)
  then have "encode_prop L (MapOf TText) (VMap [(a @ '':'' @ b, VText s)]) = Inr (VList [VText (a @ '':'' @ b @ '':'' @ s)])"
    by (simp add: encode_def entry_text_def)
  moreover have "decode_prop L (MapOf TText) (VText (a @ '':'' @ b @ '':'' @ s)) = Inr (VMap [(a, VText (b @ '':'' @ s))])"
    using py_split1_append [OF assms(2), of "b @ '':'' @ s"] by (simp add: decode_map_def as_values_def decode_def)
  ultimately show ?thesis by blast
qed

theorem colon_moves_key_witness:
  "\<exists>w. encode_prop some_lib (MapOf TText) (VMap [(''a:b'', VText ''x'')]) = Inr (VList [w])
    \<and> decode_prop some_lib (MapOf TText) w = Inr (VMap [(''a'', VText ''b:x'')])"
  using colon_moves_key [OF some_orders(1), of "''a''" "''b''" "''x''"] by simp

end
