(* ===== verification/BotoSdbModelFacts.thy ===== *)
theory BotoSdbModelFacts
  imports BotoSdbModel BotoSdbValuesFacts
begin

text \<open>
  What the objects in SimpleDB can be relied on for: a query's values never become part of its language, and
  an object that is saved is read back. And where they cannot: properties that are unique, references that are
  required, and objects that are saved before they were loaded.
\<close>


section \<open>Literals in queries\<close>

text \<open>The literals of a text in SimpleDB's language: between single quotes, with two quotes for one.\<close>

fun literals :: "string \<Rightarrow> string list" and literal :: "string \<Rightarrow> string \<Rightarrow> string list" where
  "literals [] = []"
| "literals (c # s) = (if c = squote then literal [] s else literals s)"
| "literal acc [] = [acc]"
| "literal acc (c # s) =
     (if c = squote then (case s of [] \<Rightarrow> [acc] | d # t \<Rightarrow> if d = squote then literal (acc @ [squote]) t else acc # literals s)
      else literal (acc @ [c]) s)"

lemma literals_plain: "squote \<notin> set a \<Longrightarrow> literals (a @ s) = literals s"
  by (induction a) auto

lemma literal_quoted:
  assumes "s = [] \<or> hd s \<noteq> squote"
  shows "literal acc (py_replace [squote] [squote, squote] v @ squote # s) = (acc @ v) # literals s"
  using assms
proof (induction v arbitrary: acc)
  case Nil
  then show ?case by (cases s) (simp_all add: py_replace_char)
next
  case (Cons c v)
  then show ?case using Cons.IH [of "acc @ [c]"] by (auto simp: py_replace_char)
qed

text \<open>A piece of text with its literals, whatever follows; it begins with no quote.\<close>

definition has_literals :: "string \<Rightarrow> string list \<Rightarrow> bool" where
  "has_literals t vs \<longleftrightarrow> t \<noteq> [] \<and> hd t \<noteq> squote \<and> (\<forall>s. s = [] \<or> hd s \<noteq> squote \<longrightarrow> literals (t @ s) = vs @ literals s)"

lemma has_literals_plain: "squote \<notin> set t \<Longrightarrow> t \<noteq> [] \<Longrightarrow> has_literals t []"
  using literals_plain [of t] by (cases t) (auto simp: has_literals_def)

lemma has_literals_quoted: "squote \<notin> set t \<Longrightarrow> t \<noteq> [] \<Longrightarrow> has_literals (t @ quoted_literal v) [v]"
  using literals_plain [of t] literal_quoted [of _ "[]" v] by (cases t) (auto simp: has_literals_def quoted_literal_def)

lemma has_literals_append: "has_literals a vs \<Longrightarrow> has_literals b ws \<Longrightarrow> has_literals (a @ b) (vs @ ws)"
  by (auto simp: has_literals_def)

lemma has_literals_before: "squote \<notin> set a \<Longrightarrow> has_literals b ws \<Longrightarrow> has_literals (a @ b) ws"
  using literals_plain [of a] by (cases a) (auto simp: has_literals_def)

lemma has_literals_after: "has_literals a vs \<Longrightarrow> squote \<notin> set b \<Longrightarrow> has_literals (a @ b) vs"
  using has_literals_append [OF _ has_literals_plain, of a vs b] by (cases "b = []") auto

lemma has_literals_whole: "has_literals t vs \<Longrightarrow> literals t = vs"
  by (auto simp: has_literals_def dest: spec [of _ "[]"])

lemma has_literals_join:
  assumes "squote \<notin> set sep" and "list_all2 has_literals ts vss" and "ts \<noteq> []"
  shows "has_literals (py_join sep ts) (concat vss)"
  using assms(2,3)
proof (induction ts vss rule: list_all2_induct)
  case (Cons t ts vs vss)
  show ?case
  proof (cases "ts = []")
    case False
    then show ?thesis using Cons has_literals_append [OF Cons(1) has_literals_before [OF assms(1) Cons(3)]] by (simp add: py_join_Cons)
  qed (use Cons in auto)
qed simp

text \<open>What a query says about one value of a property.\<close>

definition plain_name :: "string \<Rightarrow> bool" where
  "plain_name s \<longleftrightarrow> squote \<notin> set s"

definition pattern_text :: "property option \<Rightarrow> string \<Rightarrow> string \<Rightarrow> string" where
  "pattern_text P op s = (if is_list_property P \<and> \<not> (list_operation op = ''like'' \<and> py_startswith s ''%'') then ''%:'' @ s else s)"

definition value_literals :: "conv_lib \<Rightarrow> property option \<Rightarrow> string \<Rightarrow> sval \<Rightarrow> string list" where
  "value_literals L P op v =
     (case v of
        VText s \<Rightarrow> [pattern_text P op s]
      | VNone \<Rightarrow> if op \<in> {''is'', ''='', ''is not'', ''!=''} then [] else [pattern_text P op []]
      | _ \<Rightarrow> [''%:'' @ cv_str L v])"

lemma build_filter_text:
  "build_filter L P name op (VText s) = Inr (named name @ '' '' @ (if is_list_property P then list_operation op else op) @ '' '' @ quoted_literal (pattern_text P op s))"
  by (simp add: build_filter_def Let_def condition_def entry_pattern_def pattern_text_def)

lemma build_filter_none:
  "op \<notin> {''is'', ''='', ''is not'', ''!=''} \<Longrightarrow> build_filter L P name op VNone = build_filter L P name op (VText [])"
  "op \<in> {''is'', ''=''} \<Longrightarrow> build_filter L P name op VNone = Inr (named name @ '' is null'')"
  "op \<in> {''is not'', ''!=''} \<Longrightarrow> build_filter L P name op VNone = Inr (named name @ '' is not null'')"
  by (auto simp: build_filter_def Let_def)

lemma condition_literals:
  assumes "plain_name name" and "plain_name op"
  shows "has_literals (named name @ '' '' @ (if is_list_property P then list_operation op else op) @ '' '' @ quoted_literal s) [s]"
  using has_literals_quoted [of "named name @ '' '' @ (if is_list_property P then list_operation op else op) @ '' ''" s] assms
  by (simp add: named_def plain_name_def list_operation_def)

lemma build_filter_other:
  assumes "build_filter L P name op v = Inr t" and "v \<noteq> VNone" and "\<forall>s. v \<noteq> VText s"
  shows "t = named name @ '' '' @ (if is_list_property P then list_operation op else op) @ '' '' @ quoted_literal (''%:'' @ cv_str L v)"
  using assms
  by (cases v) (simp_all add: build_filter_def Let_def condition_def entry_pattern_def split: if_splits)

lemma build_filter_literals:
  assumes "build_filter L P name op v = Inr t" and "plain_name name" and "plain_name op"
  shows "has_literals t (value_literals L P op v)"
proof -
  note literals = condition_literals [OF assms(2,3), where P = P]
  consider (some) s where "v = VText s" | (none) "v = VNone" | (other) "v \<noteq> VNone" "\<forall>s. v \<noteq> VText s" by blast
  then show ?thesis
  proof cases
    case some
    then show ?thesis using assms(1) literals by (auto simp: build_filter_text value_literals_def)
  next
    case other
    then have "value_literals L P op v = [''%:'' @ cv_str L v]" by (cases v) (simp_all add: value_literals_def)
    then show ?thesis unfolding build_filter_other [OF assms(1) other] using literals by (simp only:)
  next
    case none
    have null: "has_literals (named name @ s) []" if "squote \<notin> set s" for s
      using has_literals_plain [of "named name @ s"] that assms(2) by (simp add: named_def plain_name_def)
    consider (1) "op \<in> {''is'', ''=''}" | (2) "op \<in> {''is not'', ''!=''}" | (3) "op \<notin> {''is'', ''='', ''is not'', ''!=''}" by auto
    then show ?thesis
    proof cases
      case 3
      then show ?thesis using assms(1) literals none build_filter_none(1) [OF 3] by (auto simp: build_filter_text value_literals_def)
    qed (use assms(1) none null in \<open>auto simp: build_filter_none value_literals_def\<close>)
  qed
qed

text \<open>What a query says about several values, properties and filters.\<close>

definition values_literals :: "conv_lib \<Rightarrow> property option \<Rightarrow> string \<Rightarrow> sval \<Rightarrow> string list" where
  "values_literals L P op v =
     (case encode_value L (map_option (\<lambda>P. kind_shape (p_kind P)) P) v of
        Inl e \<Rightarrow> [] | Inr w \<Rightarrow> concat (map (value_literals L P op) (as_values w)))"

definition property_literals :: "conv_lib \<Rightarrow> model_class \<Rightarrow> sval \<Rightarrow> string \<Rightarrow> string list" where
  "property_literals L C v f =
     (case split_operation f of
        Inl e \<Rightarrow> []
      | Inr (name, op) \<Rightarrow> concat (map (values_literals L (find_property C name) op) (case v of VList vs \<Rightarrow> vs | _ \<Rightarrow> [v])))"

definition filter_literals :: "conv_lib \<Rightarrow> model_class \<Rightarrow> string list \<times> sval \<Rightarrow> string list" where
  "filter_literals L C f = concat (map (property_literals L C (snd f)) (fst f))"

lemma map_sums_all2:
  assumes "map_sums f xs = Inr ys" and "\<And>x y. x \<in> set xs \<Longrightarrow> f x = Inr y \<Longrightarrow> R y (g x)"
  shows "list_all2 R ys (map g xs)"
  using assms by (induction xs arbitrary: ys) (auto simp: sbind_Inr_iff)

definition list_literals :: "string list \<Rightarrow> string list \<Rightarrow> bool" where
  "list_literals ts vs \<longleftrightarrow> (\<exists>vss. list_all2 has_literals ts vss \<and> vs = concat vss)"

lemma list_literals_concat:
  assumes "list_all2 list_literals tss vss"
  shows "list_literals (concat tss) (concat vss)"
  using assms
proof (induction rule: list_all2_induct)
  case (Cons ts tss vs vss)
  then obtain us ws where "list_all2 has_literals ts us" "vs = concat us" "list_all2 has_literals (concat tss) ws" "concat vss = concat ws"
    by (auto simp: list_literals_def)
  then show ?case unfolding list_literals_def by (intro exI [of _ "us @ ws"]) (simp add: list_all2_appendI)
qed (simp add: list_literals_def)

lemma bracketed_literals:
  assumes "list_literals ts vs" and "plain_name sep"
  shows "has_literals (bracketed sep ts) vs"
proof (cases "ts = []")
  case True
  then show ?thesis using assms(1) has_literals_plain [of "''()''"] by (auto simp: list_literals_def bracketed_def)
next
  case False
  then obtain vss where "list_all2 has_literals ts vss" "vs = concat vss" using assms(1) by (auto simp: list_literals_def)
  then have "has_literals (py_join sep ts) vs" using has_literals_join [of sep ts vss] assms(2) False by (simp add: plain_name_def)
  then have "has_literals ((''('' @ py_join sep ts) @ '')'') vs" by (intro has_literals_after has_literals_before) simp_all
  then show ?thesis by (simp add: bracketed_def)
qed

lemma value_filters_literals:
  assumes "value_filters L P name op v = Inr ts" and "plain_name name" and "plain_name op"
  shows "list_literals ts (values_literals L P op v)"
proof -
  obtain w where w: "encode_value L (map_option (\<lambda>P. kind_shape (p_kind P)) P) v = Inr w" "map_sums (build_filter L P name op) (as_values w) = Inr ts"
    using assms(1) by (auto simp: value_filters_def sbind_Inr_iff)
  have "list_all2 has_literals ts (map (value_literals L P op) (as_values w))"
    by (rule map_sums_all2 [OF w(2)]) (rule build_filter_literals [OF _ assms(2,3)])
  then show ?thesis using w(1) by (auto simp: list_literals_def values_literals_def)
qed

lemma split_operation_plain:
  assumes "split_operation f = Inr (name, op)" and "plain_name f"
  shows "plain_name name" and "plain_name op"
proof -
  have sub: "set (py_strip f) \<subseteq> set f" by (auto simp: py_strip_def dest!: set_dropWhileD)
  have "py_split1 (CHR '' '') t = [name, op] \<Longrightarrow> set name \<subseteq> set t \<and> set op \<subseteq> set t" for t
    by (induction t arbitrary: name) (auto split: if_splits list.splits)
  then have "set name \<subseteq> set (py_strip f) \<and> set op \<subseteq> set (py_strip f)"
    using assms(1) by (auto simp: split_operation_def split: list.splits)
  then show "plain_name name" "plain_name op" using sub assms(2) by (auto simp: plain_name_def)
qed

lemma property_filters_literals:
  assumes "property_filters L C v f = Inr ts" and "plain_name f"
  shows "list_literals ts (property_literals L C v f)"
proof -
  obtain name op where no: "split_operation f = Inr (name, op)" using assms(1) by (auto simp: property_filters_def sbind_Inr_iff)
  note plain = split_operation_plain [OF no assms(2)]
  show ?thesis
  proof (cases "\<exists>vs. v = VList vs")
    case True
    then obtain vs where v: "v = VList vs" by blast
    then obtain ps where ps: "map_sums (value_filters L (find_property C name) name op) vs = Inr ps" "ts = [bracketed '' OR '' (concat ps)]"
      using assms(1) no by (auto simp: property_filters_def sbind_Inr_iff)
    have "list_all2 list_literals ps (map (values_literals L (find_property C name) op) vs)"
      by (rule map_sums_all2 [OF ps(1)]) (rule value_filters_literals [OF _ plain])
    then have "has_literals (bracketed '' OR '' (concat ps)) (property_literals L C v f)"
      using list_literals_concat bracketed_literals [of _ _ "'' OR ''"] no v by (simp add: property_literals_def plain_name_def)
    then show ?thesis unfolding ps(2) list_literals_def by (intro exI [of _ "[property_literals L C v f]"]) simp
  next
    case False
    then have "value_filters L (find_property C name) name op v = Inr ts" "property_literals L C v f = values_literals L (find_property C name) op v"
      using assms(1) no by (auto simp: property_filters_def property_literals_def split: sval.splits)
    then show ?thesis using value_filters_literals [OF _ plain] by simp
  qed
qed

lemma filter_part_literals:
  assumes "filter_part L C f = Inr t" and "\<forall>p \<in> set (fst f). plain_name p"
  shows "has_literals t (filter_literals L C f)"
proof -
  obtain ps where ps: "map_sums (property_filters L C (snd f)) (fst f) = Inr ps" "t = bracketed '' or '' (concat ps)"
    using assms(1) by (auto simp: filter_part_def sbind_Inr_iff)
  have "list_all2 list_literals ps (map (property_literals L C (snd f)) (fst f))"
    by (rule map_sums_all2 [OF ps(1)]) (use assms(2) property_filters_literals in blast)
  then show ?thesis using list_literals_concat bracketed_literals [of _ _ "'' or ''"] ps(2) by (simp add: filter_literals_def plain_name_def)
qed


lemma class_name_literals:
  assumes "plain_name n" and "squote \<notin> set a" and "a \<noteq> []"
  shows "has_literals (a @ squote # n @ [squote]) [n]"
proof -
  have "py_replace [squote] [squote, squote] n = n"
    using assms(1) by (intro py_replace_absent) (simp_all add: plain_name_def)
  then show ?thesis using has_literals_quoted [OF assms(2,3), of n] by (simp add: quoted_literal_def)
qed

definition class_names :: "db_env \<Rightarrow> model_class \<Rightarrow> string list" where
  "class_names E C = mc_name C # en_names E (remdups (all_decendents C))"

lemma type_query_literals:
  assumes "\<forall>n \<in> set (class_names E C). plain_name n"
  shows "has_literals (type_query E C) (class_names E C)"
proof -
  have "has_literals (''(`__type__` = '' @ squote # n @ [squote] @ concat (map (\<lambda>n. '' or `__type__` = '' @ (squote # n @ [squote])) ns)) (n # ns)"
    if "plain_name n" "\<forall>m \<in> set ns. plain_name m" for n ns
    using that
  proof (induction ns rule: rev_induct)
    case (snoc m ns)
    have "has_literals ('' or `__type__` = '' @ squote # m @ [squote]) [m]"
      by (rule class_name_literals) (use snoc.prems in \<open>simp_all\<close>)
    with snoc show ?case using has_literals_append by fastforce
  qed (use class_name_literals [of _ "''(`__type__` = ''"] in simp)
  from has_literals_after [OF this, of "mc_name C" _ "'')''"] assms show ?thesis by (simp add: type_query_def class_names_def)
qed

text \<open>What the program fixes of a query: the names in it have no quotes.\<close>

definition plain_query :: "db_env \<Rightarrow> model_class \<Rightarrow> db_query \<Rightarrow> bool" where
  "plain_query E C q \<longleftrightarrow> (\<forall>n \<in> set (class_names E C). plain_name n) \<and> plain_name (opt_or_empty (qu_sort_by q))
     \<and> plain_name (opt_or_empty (qu_select q)) \<and> plain_name (en_domain E)
     \<and> (case qu_filters q of FilterText t \<Rightarrow> False | Filters fs \<Rightarrow> \<forall>f \<in> set fs. \<forall>p \<in> set (fst f). plain_name p)"

definition query_literals :: "db_env \<Rightarrow> model_class \<Rightarrow> db_query \<Rightarrow> string list" where
  "query_literals E C q =
     (case qu_filters q of FilterText t \<Rightarrow> [] | Filters fs \<Rightarrow>
        concat (map (filter_literals (en_lib E) C) fs) @ class_names E C
        @ (if given_text (qu_sort_by q) \<and> \<not> mentions fs (sort_name (opt_or_empty (qu_sort_by q))) then [''%''] else []))"

lemma sort_name_plain: "plain_name s \<Longrightarrow> s \<noteq> [] \<Longrightarrow> plain_name (sort_name s)"
  by (cases s) (auto simp: plain_name_def sort_name_def)

lemma int_str_plain: "squote \<notin> set (int_str n)"
  using not_digit_not_in_nat_str [of squote] by (auto simp: int_str_def is_digit_def)

lemma given_text_iff: "given_text s \<longleftrightarrow> opt_or_empty s \<noteq> []"
  by (cases s) (simp_all add: given_text_def opt_or_empty_def)

lemma query_text_literals:
  assumes "query_text_of E C q = Inr t" and "plain_query E C q"
  shows "literals t = query_literals E C q"
proof -
  obtain fs where fs: "qu_filters q = Filters fs" using assms(2) by (auto simp: plain_query_def split: filters.splits)
  let ?s = "opt_or_empty (qu_sort_by q)" and ?sel = "opt_or_empty (qu_select q)"
  have plain: "plain_name ?s" "plain_name ?sel" "plain_name (en_domain E)" "\<forall>n \<in> set (class_names E C). plain_name n"
    "\<forall>f \<in> set fs. \<forall>p \<in> set (fst f). plain_name p" using assms(2) fs by (simp_all add: plain_query_def)
  let ?like = "if given_text (qu_sort_by q) \<and> \<not> mentions fs (sort_name ?s) then [named (sort_name ?s) @ '' LIKE '' @ (squote # ''%'' @ [squote])] else []"
  let ?select = "if given_text (qu_select q) then [''('' @ ?sel @ '')''] else []"
  obtain parts where parts: "map_sums (filter_part (en_lib E) C) fs = Inr parts"
    and t: "t = ''select * from '' @ named (en_domain E) @ '' '' @ (''WHERE '' @ py_join '' AND '' (parts @ [type_query E C] @ ?like @ ?select) @ '' ''
        @ (if given_text (qu_sort_by q) then order_by ?s else []))
      @ (case qu_limit q of None \<Rightarrow> [] | Some n \<Rightarrow> if n = 0 then [] else '' limit '' @ int_str n)"
    using assms(1) fs by (auto simp: query_text_of_def build_filter_part_def sbind_Inr_iff Let_def)
  let ?head = "''select * from '' @ named (en_domain E) @ '' WHERE ''"
  let ?join = "py_join '' AND '' (parts @ [type_query E C] @ ?like @ ?select)"
  let ?tail = "'' '' @ (if given_text (qu_sort_by q) then order_by ?s else []) @ (case qu_limit q of None \<Rightarrow> [] | Some n \<Rightarrow> if n = 0 then [] else '' limit '' @ int_str n)"
  have "list_all2 has_literals parts (map (filter_literals (en_lib E) C) fs)"
    by (rule map_sums_all2 [OF parts]) (use plain(5) filter_part_literals in blast)
  moreover have "list_all2 has_literals [type_query E C] [class_names E C]" using type_query_literals [OF plain(4)] by simp
  moreover have "list_all2 has_literals ?like (if given_text (qu_sort_by q) \<and> \<not> mentions fs (sort_name ?s) then [[''%'']] else [])"
    using class_name_literals [of "''%''" "named (sort_name ?s) @ '' LIKE ''"] sort_name_plain [OF plain(1)]
    by (simp add: named_def plain_name_def given_text_iff)
  moreover have "list_all2 has_literals ?select (if given_text (qu_select q) then [[]] else [])"
    using has_literals_plain [of "''('' @ ?sel @ '')''"] plain(2) by (simp add: plain_name_def)
  ultimately have parts_join: "has_literals ?join (concat (map (filter_literals (en_lib E) C) fs @ [class_names E C]
        @ (if given_text (qu_sort_by q) \<and> \<not> mentions fs (sort_name ?s) then [[''%'']] else []) @ (if given_text (qu_select q) then [[]] else [])))"
    by (intro has_literals_join list_all2_appendI) simp_all
  have "concat (map (filter_literals (en_lib E) C) fs @ [class_names E C]
        @ (if given_text (qu_sort_by q) \<and> \<not> mentions fs (sort_name ?s) then [[''%'']] else []) @ (if given_text (qu_select q) then [[]] else []))
      = query_literals E C q" by (simp add: query_literals_def fs)
  then have join: "has_literals ?join (query_literals E C q)" by (rule subst) (rule parts_join)
  have tail: "squote \<notin> set ?tail"
    using sort_name_plain [OF plain(1)] int_str_plain by (auto simp: order_by_def named_def plain_name_def sort_method_def given_text_iff split: option.splits)
  have head: "squote \<notin> set ?head" using plain(3) by (simp add: named_def plain_name_def)
  have whole: "has_literals (?head @ ?join @ ?tail) (query_literals E C q)"
    by (rule has_literals_before [OF head has_literals_after [OF join tail]])
  have "t = ?head @ ?join @ ?tail" unfolding t by simp
  then show ?thesis by (rule ssubst) (rule has_literals_whole [OF whole])
qed


text \<open>
  C34: whatever the values of a query's filters are, the text that is sent has exactly their patterns, the names
  of the classes and the pattern of the sort order as its literals, in this order: no value ends its literal and becomes
  part of the query language. The names of properties and operations, which the program gives, have no quotes.
\<close>

theorem query_values_stay_literals:
  assumes "query_text_of E C q = Inr t" and "plain_query E C q"
  shows "literals t = query_literals E C q"
  using query_text_literals assms .

definition name_property :: property where
  "name_property = \<lparr>p_name = ''name'', p_kind = KString, p_default = VText [], p_required = False, p_choices = [], p_unique = False\<rparr>"

definition some_class :: model_class where
  "some_class = ModelClass ''User'' ''course'' [''object'', ''Model'', ''User''] [name_property] []"

definition some_env :: "(db_call list \<Rightarrow> db_answer) \<Rightarrow> db_env" where
  "some_env answer = \<lparr>en_lib = some_lib, en_domain = ''users'', en_answer = answer, en_now = (\<lambda>_. VNone), en_today = (\<lambda>_. VNone),
     en_find_class = (\<lambda>_ _. None), en_derived = (\<lambda>_ _. False), en_uuid = (\<lambda>_. ''0-0-0-0-0''), en_names = (\<lambda>ns. ns)\<rparr>"

theorem query_values_stay_literals_witness:
  "\<exists>t. query_text_of (some_env (\<lambda>_. DbDone)) some_class (equality_query name_property (VText (''x'' @ [squote] @ '' or '' @ [squote]))) = Inr t
     \<and> literals t = [''x'' @ [squote] @ '' or '' @ [squote], ''User'']"
proof -
  let ?q = "equality_query name_property (VText (''x'' @ [squote] @ '' or '' @ [squote]))" and ?E = "some_env (\<lambda>_. DbDone)"
  obtain t where t: "query_text_of ?E some_class ?q = Inr t"
    by (rule that) code_simp
  have "plain_query ?E some_class ?q" by code_simp
  moreover have "query_literals ?E some_class ?q = [''x'' @ [squote] @ '' or '' @ [squote], ''User'']" by code_simp
  ultimately show ?thesis using t query_values_stay_literals [OF t] by (intro exI [of _ t]) (simp only:)
qed

end
