(* ===== verification/BotoSdbObjects.thy ===== *)
theory BotoSdbObjects
  imports BotoSdbModelFacts
begin

text \<open>
  Objects that are saved to SimpleDB and loaded from it: what comes back is what was kept, with the
  exceptions that the theorems state. A class is taken to have no property twice.
\<close>


section \<open>Saving\<close>

text \<open>Properties whose value does not depend on the clock, on other objects or on what else is stored.\<close>

definition plain_property :: "property \<Rightarrow> bool" where
  "plain_property P \<longleftrightarrow> \<not> p_unique P
     \<and> (case p_kind P of KReference c \<Rightarrow> False | KDateTime now add \<Rightarrow> \<not> now | KDate now add \<Rightarrow> \<not> now | _ \<Rightarrow> True)"

definition attribute :: "conv_lib \<Rightarrow> obj \<Rightarrow> property \<Rightarrow> sval option" where
  "attribute L x P =
     (case dget (o_values x) (p_name P) of
        None \<Rightarrow> None
      | Some v \<Rightarrow> (case encode_value L (Some (kind_shape (p_kind P))) v of
            Inl e \<Rightarrow> None | Inr w \<Rightarrow> if w = VNone \<or> w = VList [] then None else Some w))"

text \<open>Several properties that set their entries of a dictionary, or leave them.\<close>

definition put_some :: "(property \<Rightarrow> sval option) \<Rightarrow> property \<Rightarrow> (string, sval) dict \<Rightarrow> (string, sval) dict" where
  "put_some f P d = (case f P of None \<Rightarrow> d | Some w \<Rightarrow> dset (p_name P) w d)"

lemma dget_put_some: "dget (put_some f P d) k = (if k = p_name P \<and> f P \<noteq> None then f P else dget d k)"
  by (auto simp: put_some_def dget_dset split: option.splits)

lemma dget_put_others: "k \<notin> p_name ` set Ps \<Longrightarrow> dget (fold (put_some f) Ps d) k = dget d k"
  by (induction Ps arbitrary: d) (auto simp: dget_put_some)

lemma dget_puts:
  assumes "distinct (map p_name Ps)" and "P \<in> set Ps"
  shows "dget (fold (put_some f) Ps d) (p_name P) = (case f P of None \<Rightarrow> dget d (p_name P) | Some w \<Rightarrow> Some w)"
  using assms
proof (induction Ps arbitrary: d)
  case (Cons Q Ps)
  show ?case
  proof (cases "P = Q")
    case True
    then show ?thesis using Cons.prems(1) dget_put_others [of "p_name Q" Ps f] by (auto simp: dget_put_some split: option.splits)
  next
    case False
    then have "P \<in> set Ps" "p_name P \<noteq> p_name Q" using Cons.prems by (auto simp: image_iff)
    then show ?thesis using Cons.IH [of "put_some f Q d"] Cons.prems(1) by (simp add: dget_put_some split: option.splits)
  qed
qed simp

lemma descriptor_distinct:
  assumes "distinct (map p_name (mc_properties C))" and "P \<in> set (mc_properties C)"
  shows "descriptor C P = P"
proof -
  have "filter (\<lambda>Q. p_name Q = p_name P) Ps = [P]" if "distinct (map p_name Ps)" "P \<in> set Ps" for Ps
    using that
  proof (induction Ps)
    case (Cons Q Ps)
    then show ?case by (cases "P = Q") (force simp: filter_empty_conv image_iff)+
  qed simp
  then show ?thesis using assms by (simp add: descriptor_def)
qed

lemma value_for_datastore:
  assumes "plain_property P" and "descriptor C P = P" and "o_loaded (db_obj s)" and "dget (o_values (db_obj s)) (p_name P) = Some v"
  shows "get_value_for_datastore E C P s = (Inr v, s)"
proof -
  have "get_attr E C P s = (Inr v, s)"
    using assms by (auto simp: get_attr_def plain_property_def load_model_def read_def read_slot_def st_defs split: kind.splits)
  moreover have "get_value_for_datastore E C P = get_attr E C P"
    using assms(1,2) by (auto simp: get_value_for_datastore_def plain_property_def stamp_def split: kind.splits)
  ultimately show ?thesis by simp
qed

lemma encode_properties_plain:
  assumes "\<forall>P \<in> set Ps. plain_property P \<and> descriptor C P = P
      \<and> (\<exists>v w. dget (o_values (db_obj s)) (p_name P) = Some v \<and> encode_value (en_lib E) (Some (kind_shape (p_kind P))) v = Inr w)"
    and "o_loaded (db_obj s)"
  shows "encode_properties n E C Ps A D s =
     (Inr (fold (put_some (attribute (en_lib E) (db_obj s))) Ps A, D @ map p_name (filter (\<lambda>P. attribute (en_lib E) (db_obj s) P = None) Ps)), s)"
  using assms(1)
proof (induction Ps arbitrary: A D)
  case (Cons P Ps)
  then obtain v w where vw: "dget (o_values (db_obj s)) (p_name P) = Some v" "encode_value (en_lib E) (Some (kind_shape (p_kind P))) v = Inr w"
    by auto
  have got: "get_value_for_datastore E C P s = (Inr v, s)" using Cons.prems value_for_datastore [OF _ _ assms(2) vw(1)] by simp
  have not_unique: "check_unique n E C P w = ret ()" using Cons.prems by (simp add: check_unique_def plain_property_def)
  have "attribute (en_lib E) (db_obj s) P = (if w = VNone \<or> w = VList [] then None else Some w)" using vw by (simp add: attribute_def)
  then show ?case using Cons vw(2) not_unique by (simp add: bnd_run(1) [of "get_value_for_datastore E C P", OF got] put_some_def)
qed (simp add: ret_def)

text \<open>What saving sends to SimpleDB.\<close>

definition saved_attributes :: "conv_lib \<Rightarrow> model_class \<Rightarrow> obj \<Rightarrow> (string, sval) dict" where
  "saved_attributes L C x = fold (put_some (attribute L x)) (mc_properties C) (type_attributes C)"

definition cleared_names :: "conv_lib \<Rightarrow> model_class \<Rightarrow> obj \<Rightarrow> string list" where
  "cleared_names L C x = map p_name (filter (\<lambda>P. attribute L x P = None) (mc_properties C))"

definition last_write :: "db_call list \<Rightarrow> string \<Rightarrow> (string, sval) dict \<Rightarrow> string list \<Rightarrow> bool" where
  "last_write calls i A D \<longleftrightarrow> (\<exists>l. calls = l @ [PutAttributes i A] \<and> D = [] \<or> calls = l @ [PutAttributes i A, DeleteAttributes i D] \<and> D \<noteq> [])"

text \<open>
  SimpleDB, when it is read consistently after an item was written: what was deleted is absent, what was put
  is there, several texts in any order. This is what the theorem below relies on.
\<close>

definition answers_last :: "db_env \<Rightarrow> db_call list \<Rightarrow> string \<Rightarrow> bool" where
  "answers_last E calls i \<longleftrightarrow> (\<forall>A D. last_write calls i A D \<longrightarrow>
     (\<exists>d. en_answer E (calls @ [GetAttributes i]) = DbItem d \<and> (\<forall>k \<in> set D. dget d k = None)
        \<and> (\<forall>k w. k \<notin> set D \<longrightarrow> dget A k = Some w \<longrightarrow> (\<exists>u. dget d k = Some u \<and> delivered w u))))"

lemma db_do_ok: "db_do E c s = (Inr a, s') \<Longrightarrow> s' = s\<lparr>db_log := db_log s @ [c]\<rparr>"
  by (auto simp: db_do_def Let_def split: db_answer.splits)

lemma save_writes:
  assumes "save_object n E C s = (Inr (), s1)" and "o_loaded (db_obj s)" and "o_id (db_obj s) = Some i" and "i \<noteq> []"
    and "\<forall>P \<in> set (mc_properties C). plain_property P \<and> descriptor C P = P
      \<and> (\<exists>v w. dget (o_values (db_obj s)) (p_name P) = Some v \<and> encode_value (en_lib E) (Some (kind_shape (p_kind P))) v = Inr w)"
  shows "last_write (db_log s1) i (saved_attributes (en_lib E) C (db_obj s)) (cleared_names (en_lib E) C (db_obj s))"
proof -
  have id: "ensure_id E s = (Inr i, s)" using assms(3,4) by (simp add: ensure_id_def given_text_def opt_or_empty_def ret_def)
  let ?A = "saved_attributes (en_lib E) C (db_obj s)" and ?D = "cleared_names (en_lib E) C (db_obj s)"
  have enc: "encode_properties n E C (mc_properties C) (type_attributes C) [] s = (Inr (?A, ?D), s)"
    by (simp add: encode_properties_plain [OF assms(5,2)] saved_attributes_def cleared_names_def)
  have "(andthen (bnd (db_do E (PutAttributes i ?A)) (\<lambda>_. ret ()))
         (if ?D \<noteq> [] then bnd (db_do E (DeleteAttributes i ?D)) (\<lambda>_. ret ()) else ret ())) s = (Inr (), s1)"
    using assms(1) by (simp add: save_object_def bnd_run(1) [of "ensure_id E", OF id] bnd_run(1) [of "encode_properties n E C (mc_properties C) (type_attributes C) []", OF enc])
  then obtain a s2 where put: "db_do E (PutAttributes i ?A) s = (Inr a, s2)"
    and rest: "(if ?D \<noteq> [] then bnd (db_do E (DeleteAttributes i ?D)) (\<lambda>_. ret ()) else ret ()) s2 = (Inr (), s1)"
    by (elim andthen_InrE bnd_InrE) (auto simp: ret_def)
  show ?thesis
  proof (cases "?D = []")
    case True
    then show ?thesis using rest db_do_ok [OF put] by (force simp: ret_def last_write_def)
  next
    case False
    then obtain b where "db_do E (DeleteAttributes i ?D) s2 = (Inr b, s1)" using rest by (auto simp: ret_def elim!: bnd_InrE)
    from db_do_ok [OF this] db_do_ok [OF put] False show ?thesis by (simp add: last_write_def)
  qed
qed


section \<open>Loading\<close>

text \<open>What a property gets from an item.\<close>

definition loaded_value :: "conv_lib \<Rightarrow> (string, sval) dict \<Rightarrow> property \<Rightarrow> sval option" where
  "loaded_value L d P =
     (case dget d (p_name P) of
        None \<Rightarrow> None
      | Some u \<Rightarrow> (case decode_prop L (kind_shape (p_kind P)) u of Inl e \<Rightarrow> None | Inr v \<Rightarrow> Some v))"

definition loadable :: "db_env \<Rightarrow> (string, sval) dict \<Rightarrow> property \<Rightarrow> bool" where
  "loadable E d P \<longleftrightarrow> (\<forall>u. dget d (p_name P) = Some u \<longrightarrow>
     (\<exists>v. decode_prop (en_lib E) (kind_shape (p_kind P)) u = Inr v \<and> (\<forall>x. given_value E P x v = Inr v) \<and> validate E P v = Inr ()))"

definition put_values :: "(property \<Rightarrow> sval option) \<Rightarrow> property list \<Rightarrow> db_state \<Rightarrow> db_state" where
  "put_values f Ps s = s\<lparr>db_obj := (db_obj s)\<lparr>o_values := fold (put_some f) Ps (o_values (db_obj s))\<rparr>\<rparr>"

lemma load_value_sets:
  assumes "loadable E d P" and "descriptor C P = P"
  shows "load_value E C d P s = (Inr (), put_values (loaded_value (en_lib E) d) [P] s)"
proof (cases "dget d (p_name P)")
  case None
  then show ?thesis by (simp add: load_value_def put_values_def loaded_value_def put_some_def ret_def)
next
  case (Some u)
  then obtain v where "decode_prop (en_lib E) (kind_shape (p_kind P)) u = Inr v" "\<forall>x. given_value E P x v = Inr v" "validate E P v = Inr ()"
    using assms(1) by (auto simp: loadable_def)
  then show ?thesis using Some assms(2)
    by (simp add: load_value_def put_values_def loaded_value_def put_some_def set_quietly_def set_attr_def try_except_def andthen_def)
qed

lemma load_values_set:
  assumes "\<forall>P \<in> set Ps. loadable E d P \<and> descriptor C P = P"
  shows "for_each (load_value E C d) Ps s = (Inr (), put_values (loaded_value (en_lib E) d) Ps s)"
  using assms
proof (induction Ps arbitrary: s)
  case (Cons P Ps)
  then have "load_value E C d P s = (Inr (), put_values (loaded_value (en_lib E) d) [P] s)" using load_value_sets by simp
  then show ?case using Cons by (simp add: andthen_run(1) [of "load_value E C d P"] put_values_def)
qed (simp add: ret_def put_values_def)

lemma load_reads:
  assumes "en_answer E (db_log t @ [GetAttributes i]) = DbItem d" and "dget d ''__type__'' \<noteq> None"
    and "o_id (db_obj t) = Some i" and "i \<noteq> []" and "\<not> o_loaded (db_obj t)"
    and "\<forall>P \<in> set (mc_properties C). loadable E d P \<and> descriptor C P = P"
  shows "\<exists>t'. load_model E C t = (Inr (), t') \<and> o_loaded (db_obj t') \<and> db_log t' = db_log t @ [GetAttributes i]
     \<and> o_values (db_obj t') = fold (put_some (loaded_value (en_lib E) d)) (mc_properties C) (o_values (db_obj t))"
proof -
  let ?t = "t\<lparr>db_log := db_log t @ [GetAttributes i]\<rparr>"
  have got: "get_attributes E i t = (Inr d, ?t)" using assms(1) by (simp add: get_attributes_def db_do_def Let_def bnd_def ret_def)
  have "for_each (load_value E C d) (mc_properties C) ?t = (Inr (), put_values (loaded_value (en_lib E) d) (mc_properties C) ?t)"
    by (rule load_values_set) (rule assms(6))
  then have "load_model E C t = (Inr (), (put_values (loaded_value (en_lib E) d) (mc_properties C) ?t)
      \<lparr>db_obj := (db_obj (put_values (loaded_value (en_lib E) d) (mc_properties C) ?t))\<lparr>o_loaded := True\<rparr>\<rparr>)"
    using assms(2-5) by (simp add: load_model_def load_object_def given_text_def opt_or_empty_def bnd_run(1) [of "get_attributes E i", OF got] andthen_run(1))
  then show ?thesis using assms(3) by (simp add: put_values_def)
qed


section \<open>What was saved is loaded\<close>

text \<open>Values that are kept as they are, and those that stand for nothing and are deleted.\<close>

definition cleared :: "property \<Rightarrow> sval \<Rightarrow> bool" where
  "cleared P v \<longleftrightarrow> v = VNone \<or> (\<exists>T. p_kind P = KList T \<and> v = VList []) \<or> (\<exists>T. p_kind P = KMap T \<and> v = VMap [])"

lemma cleared_attribute:
  assumes "cleared P v" and "dget (o_values x) (p_name P) = Some v" and "items_permuted L"
  shows "attribute L x P = None" and "\<exists>w. encode_value L (Some (kind_shape (p_kind P))) v = Inr w"
proof -
  have "cv_items L [] = []" using assms(3) by (metis items_permuted_def mset_zero_iff)
  then show "attribute L x P = None" "\<exists>w. encode_value L (Some (kind_shape (p_kind P))) v = Inr w"
    using assms(1,2) by (auto simp: cleared_def attribute_def encode_value_def)
qed

lemma map_sum_Inr_iff: "map_sum id f r = Inr w \<longleftrightarrow> (\<exists>x. r = Inr x \<and> w = f x)"
  by (cases r) auto

lemma survivor_stored:
  assumes "survives L P v" and "items_permuted L" and "indices_in_turn L" and "encode_prop L P v = Inr w"
  shows "w \<noteq> VNone \<and> w \<noteq> VList []"
proof (cases P)
  case (Single T)
  then obtain s where "encode L T v = Inr (VText s)" using stored_reads_back [of L T v] assms(1) by (auto simp: survives_def)
  then show ?thesis using Single assms(4) by auto
next
  case (ListOf T)
  then obtain vs where v: "v = VList vs" "vs \<noteq> []" using assms(1) by (auto simp: survives_def split: sval.splits)
  then obtain ws where w: "w = VList ws" using ListOf assms(4) by (auto simp: map_sum_Inr_iff)
  have "cv_values L [] = []" using assms(3) by (auto simp: indices_in_turn_def index_dict_def dest: spec [of _ "[]"])
  then have "decode_prop L P (VList []) = Inr (VList [])" using ListOf by (simp add: decode_list_def as_values_def)
  then show ?thesis using kept_values_read_back [OF assms(1-3)] assms(4) v w by (auto simp: delivered_def same_value_def dest!: spec [of _ "VList []"])
next
  case (MapOf T)
  then obtain d where v: "v = VMap d" "d \<noteq> []" using assms(1) by (auto simp: survives_def split: sval.splits)
  then obtain ws where w: "w = VList ws" using MapOf assms(4) by (auto simp: map_sum_Inr_iff)
  have "decode_prop L P (VList []) = Inr (VMap [])" using MapOf by (simp add: decode_map_def as_values_def)
  then show ?thesis using kept_values_read_back [OF assms(1-3)] assms(4) v w by (auto simp: delivered_def same_value_def dest!: spec [of _ "VList []"])
qed

lemma survivor_attribute:
  assumes "survives L (kind_shape (p_kind P)) v" and "dget (o_values x) (p_name P) = Some v" and "items_permuted L" and "indices_in_turn L"
  shows "\<exists>w. attribute L x P = Some w \<and> encode_value L (Some (kind_shape (p_kind P))) v = Inr w
     \<and> (\<forall>u. delivered w u \<longrightarrow> (\<exists>v'. decode_prop L (kind_shape (p_kind P)) u = Inr v' \<and> same_value v v'))"
proof -
  obtain w where w: "encode_prop L (kind_shape (p_kind P)) v = Inr w"
      "\<forall>u. delivered w u \<longrightarrow> (\<exists>v'. decode_prop L (kind_shape (p_kind P)) u = Inr v' \<and> same_value v v')"
    using kept_values_read_back [OF assms(1,3,4)] by blast
  have full: "w \<noteq> VNone \<and> w \<noteq> VList []" using survivor_stored [OF assms(1,3,4) w(1)] .
  have "v \<noteq> VNone" using assms(1) by (auto simp: survives_def stores_def split: shape.splits)
  then have "encode_value L (Some (kind_shape (p_kind P))) v = Inr w" using w(1) by (simp add: encode_value_def)
  then show ?thesis using w(2) full assms(2) by (simp add: attribute_def)
qed

lemma same_value_valid:
  assumes "plain_property P" and "survives L (kind_shape (p_kind P)) v" and "same_value v v'" and "validate E P v = Inr ()"
  shows "validate E P v' = Inr ()" and "given_value E P x v' = Inr v'"
proof -
  consider (same) "v' = v" "\<forall>d. v \<noteq> VMap d" | (map) d d' where "v = VMap d" "v' = VMap d'" "mset d = mset d'"
    using assms(3) by (cases v; cases v') (auto simp: same_value_def)
  then show "validate E P v' = Inr ()"
  proof cases
    case (map d d')
    then obtain T where T: "p_kind P = KMap T" using assms(2) by (cases "p_kind P") (auto simp: survives_def stores_def)
    have "mset (map snd d) = mset (map snd d')" using map(3) by simp
    then have "set (map snd d) = set (map snd d')" by (metis set_mset_mset)
    then have "validate_items E T (map snd d') = validate_items E T (map snd d)" by (simp add: validate_items_def list_all_iff Let_def)
    then show ?thesis using assms(4) map T by (simp add: validate_def validate_map_def)
  qed (use assms(4) in simp)
  show "given_value E P x v' = Inr v'"
    using assms(1-3)
    by (cases "p_kind P"; cases v)
      (auto simp: given_value_def given_integer_def given_list_def is_instance_def plain_property_def survives_def stores_def same_value_def)
qed


definition marks_property :: property where
  "marks_property = \<lparr>p_name = ''marks'', p_kind = KList TInt, p_default = VList [], p_required = True, p_choices = [], p_unique = False\<rparr>"

definition student_class :: model_class where
  "student_class = ModelClass ''Student'' ''course'' [''object'', ''Model'', ''Student''] [name_property, marks_property] []"

definition student_item :: "(string, sval) dict" where
  "student_item = type_attributes student_class @ [(''name'', VText ''Ann'')]"

definition student_env :: db_env where
  "student_env = some_env (\<lambda>calls. case last calls of GetAttributes i \<Rightarrow> DbItem student_item | _ \<Rightarrow> DbDone)"

definition student :: "bool \<Rightarrow> string \<Rightarrow> obj" where
  "student loaded name = \<lparr>o_id = Some ''s1'', o_loaded = loaded, o_values = [(''name'', VText name), (''marks'', VList [])]\<rparr>"

definition student_log :: "db_call list" where
  "student_log = [PutAttributes ''s1'' student_item, DeleteAttributes ''s1'' [''marks'']]"

lemma student_saved: "save_object 1 student_env student_class \<lparr>db_log = [], db_obj = student True ''Ann''\<rparr>
    = (Inr (), \<lparr>db_log = student_log, db_obj = student True ''Ann''\<rparr>)"
  by code_simp

lemma student_answers: "answers_last student_env student_log ''s1''"
proof -
  have "(\<exists>u. dget student_item k = Some u \<and> delivered w u)" if "dget student_item k = Some w" for k w
  proof -
    have "\<exists>v. w = VText v" using map_of_SomeD [OF that] by (auto simp: student_item_def type_attributes_def)
    then show ?thesis using that by (auto simp: delivered_def)
  qed
  moreover have "en_answer student_env (student_log @ [GetAttributes ''s1'']) = DbItem student_item"
    by (simp add: student_env_def some_env_def)
  moreover have "dget student_item ''marks'' = None" by code_simp
  ultimately have "last_write student_log ''s1'' A D \<Longrightarrow> \<exists>d. en_answer student_env (student_log @ [GetAttributes ''s1'']) = DbItem d
      \<and> (\<forall>k \<in> set D. dget d k = None) \<and> (\<forall>k w. k \<notin> set D \<longrightarrow> dget A k = Some w \<longrightarrow> (\<exists>u. dget d k = Some u \<and> delivered w u))" for A D
    by (intro exI [of _ student_item]) (auto simp: last_write_def student_log_def)
  then show ?thesis by (simp add: answers_last_def)
qed



section \<open>Changes that are lost\<close>

text \<open>Before a property of an object that is not loaded is read, all properties are.\<close>

lemma value_for_datastore_loads:
  assumes "plain_property P" and "descriptor C P = P" and "load_model E C s = (Inr (), t)" and "o_loaded (db_obj t)"
  shows "get_value_for_datastore E C P s = get_value_for_datastore E C P t"
proof -
  have "load_model E C t = (Inr (), t)" using assms(4) by (simp add: load_model_def ret_def)
  then have "get_attr E C P s = get_attr E C P t"
    using assms(1,3) by (auto simp: get_attr_def plain_property_def andthen_run(1) [of "load_model E C"] split: kind.splits)
  moreover have "get_value_for_datastore E C P = get_attr E C P"
    using assms(1,2) by (auto simp: get_value_for_datastore_def plain_property_def stamp_def split: kind.splits)
  ultimately show ?thesis by simp
qed

lemma encode_properties_loads:
  assumes "\<forall>P \<in> set Ps. plain_property P \<and> descriptor C P = P" and "Ps \<noteq> []" and "load_model E C s = (Inr (), t)" and "o_loaded (db_obj t)"
  shows "encode_properties n E C Ps A D s = encode_properties n E C Ps A D t"
proof -
  obtain P Qs where Ps: "Ps = P # Qs" using assms(2) by (cases Ps) auto
  have "get_value_for_datastore E C P s = get_value_for_datastore E C P t"
    using value_for_datastore_loads [OF _ _ assms(3,4)] assms(1) Ps by simp
  then show ?thesis using Ps by (simp add: bnd_def)
qed

lemma attribute_cong: "dget (o_values x) (p_name P) = dget (o_values y) (p_name P) \<Longrightarrow> attribute L x P = attribute L y P"
  by (simp add: attribute_def)

text \<open>Writing depends only on the calls made before, not on the object.\<close>

lemma db_do_log: "db_log s = db_log t \<Longrightarrow> fst (db_do E c s) = fst (db_do E c t) \<and> db_log (snd (db_do E c s)) = db_log (snd (db_do E c t))"
  by (simp add: db_do_def Let_def split: db_answer.splits)

definition write_item :: "db_env \<Rightarrow> string \<Rightarrow> (string, sval) dict \<Rightarrow> string list \<Rightarrow> (db_state, unit) st" where
  "write_item E i A D =
     andthen (bnd (db_do E (PutAttributes i A)) (\<lambda>_. ret ()))
       (if D \<noteq> [] then bnd (db_do E (DeleteAttributes i D)) (\<lambda>_. ret ()) else ret ())"

lemma write_item_log:
  assumes "db_log s = db_log t"
  shows "db_log (snd (write_item E i A D s)) = db_log (snd (write_item E i A D t))"
proof -
  obtain r s1 where s1: "db_do E (PutAttributes i A) s = (r, s1)" by fastforce
  obtain r' t1 where t1: "db_do E (PutAttributes i A) t = (r', t1)" by fastforce
  have same: "r' = r" "db_log s1 = db_log t1" using db_do_log [OF assms, of E "PutAttributes i A"] s1 t1 by simp_all
  obtain q s2 where s2: "db_do E (DeleteAttributes i D) s1 = (q, s2)" by fastforce
  obtain q' t2 where t2: "db_do E (DeleteAttributes i D) t1 = (q', t2)" by fastforce
  have "q' = q" "db_log s2 = db_log t2" using db_do_log [OF same(2), of E "DeleteAttributes i D"] s2 t2 by simp_all
  then show ?thesis using s1 t1 s2 t2 same by (simp add: write_item_def andthen_def bnd_def ret_def split: sum.splits)
qed


definition stored_item :: "(string, sval) dict" where
  "stored_item = type_attributes some_class @ [(''name'', VText ''Ann'')]"



section \<open>References that are required\<close>

lemma for_each_fails:
  assumes "P \<in> set Ps" and "\<And>s. \<exists>e t. f P s = (Inl e, t)"
  shows "\<exists>e t. for_each f Ps s = (Inl e, t)"
  using assms(1)
proof (induction Ps arbitrary: s)
  case (Cons Q Ps)
  obtain r t where run: "f Q s = (r, t)" by fastforce
  show ?case
  proof (cases r)
    case (Inl e)
    then show ?thesis using run by (simp add: andthen_run(2))
  next
    case (Inr u)
    then have "P \<in> set Ps" using Cons.prems assms(2) [of s] run by auto
    then show ?thesis using Cons.IH [of t] run Inr by (simp add: andthen_run(1) [of "f Q"])
  qed
qed simp

text \<open>
  A class with a required reference that has no default has no objects. Making one always raises, whatever is given for
  its properties, because the default is set first; so does reading one that is stored.
\<close>

theorem required_reference_unusable:
  assumes "P \<in> set (mc_properties C)" and "distinct (map p_name (mc_properties C))"
    and "p_kind P = KReference c" and "p_required P" and "p_default P = VNone"
    and "a \<noteq> []" and "dget a ''__type__'' = Some (VText (mc_name C))"
  shows "(\<exists>e t. init_object E C i params s = (Inl e, t)) \<and> (\<exists>e t. get_stored_object E (Some C) j a s = (Inl e, t))"
proof -
  have fails: "andthen (lift_sum (Inl e)) m = raise e" for e and m :: "(db_state, unit) st" by (simp add: andthen_def)
  have never: "\<exists>e t. init_object E C i params s = (Inl e, t)" for i params s
  proof -
    have "\<exists>e t. bnd (default_value E P) (set_attr E (descriptor C P)) s = (Inl e, t)" for s
      using assms(3-5) descriptor_distinct [OF assms(2,1)]
      by (simp add: default_value_def set_attr_def given_value_def given_reference_def validate_def validate_reference_def fails raise_def)
    then have "\<exists>e t. for_each (\<lambda>P. bnd (default_value E P) (set_attr E (descriptor C P))) (mc_properties C) s = (Inl e, t)" for s
      by (rule for_each_fails [OF assms(1)])
    then obtain e t where "for_each (\<lambda>P. bnd (default_value E P) (set_attr E (descriptor C P))) (mc_properties C)
        (s\<lparr>db_obj := \<lparr>o_id = None, o_loaded = False, o_values = []\<rparr>\<rparr>) = (Inl e, t)" by blast
    then show ?thesis
      by (simp add: init_object_def andthen_run(2) [of "for_each (\<lambda>P. bnd (default_value E P) (set_attr E (descriptor C P))) (mc_properties C)"])
  qed
  have made: "\<exists>e t. make_object E C j params s = (Inl e, t)" for params s
    using never [of "Some j" params s] by (auto simp: make_object_def)
  have "\<exists>e t. bnd (lift_sum (decoded_params (en_lib E) a (mc_properties C))) (\<lambda>params. bnd (make_object E C j params) (\<lambda>x. ret (Some x))) s = (Inl e, t)"
  proof (cases "decoded_params (en_lib E) a (mc_properties C)")
    case (Inr params)
    obtain e t where "make_object E C j params s = (Inl e, t)" using made by blast
    then show ?thesis using Inr by (simp add: bnd_run(2) [of "make_object E C j params"])
  qed (simp add: raise_def)
  then have "\<exists>e t. get_stored_object E (Some C) j a s = (Inl e, t)" using assms(6,7) by (simp add: get_stored_object_def class_of_def)
  with never show ?thesis by blast
qed

definition owner_property :: property where
  "owner_property = \<lparr>p_name = ''owner'', p_kind = KReference ''User'', p_default = VNone, p_required = True, p_choices = [], p_unique = False\<rparr>"

definition owned_class :: model_class where
  "owned_class = ModelClass ''File'' ''course'' [''object'', ''Model'', ''File''] [owner_property] []"

theorem required_reference_unusable_witness:
  "(\<exists>e t. init_object student_env owned_class None [(owner_property, VText ''u1'')] \<lparr>db_log = [], db_obj = student True ''Ann''\<rparr> = (Inl e, t))
    \<and> (\<exists>e t. get_stored_object student_env (Some owned_class) ''f1'' (type_attributes owned_class) \<lparr>db_log = [], db_obj = student True ''Ann''\<rparr> = (Inl e, t))"
  by (rule required_reference_unusable [where P = owner_property and c = "''User''"])
    (simp_all add: owned_class_def owner_property_def type_attributes_def)


section \<open>Integers that are to be unique\<close>

text \<open>
  That an integer is unique is never checked. The search for another object with the value is given the text that the value was
  encoded as, which is encoded again: the query that is sent asks for a number larger by 2147483648 and for nothing else.
\<close>

theorem unique_integer_asks_other:
  assumes "find_property C (p_name P) = Some P" and "p_kind P = KInteger lo hi"
    and "split_operation (p_name P @ '' ='') = Inr (p_name P, ''='')"
    and "plain_query E C (equality_query P w)" and "encode_prop (en_lib E) (kind_shape (p_kind P)) (VInt i) = Inr w"
  shows "\<exists>t u. query_text_of E C (equality_query P w) = Inr t
    \<and> encode_prop (en_lib E) (kind_shape (p_kind P)) (VInt (i + 2147483648)) = Inr (VText u) \<and> literals t = u # class_names E C"
proof -
  let ?q = "equality_query P w" and ?L = "en_lib E"
  let ?u = "zpad 10 (i + 2147483648 + INT_OFFSET)"
  have w: "w = VText (zpad 10 (i + INT_OFFSET))" using assms(2,5) by (auto simp: encode_def encode_int_def)
  have again: "encode_value ?L (Some (kind_shape (p_kind P))) w = Inr (VText ?u)"
    using assms(2) unfolding w by (simp add: encode_value_def encode_def encode_int_def INT_OFFSET_def add.commute)
  obtain f where f: "build_filter ?L (Some P) (p_name P) ''='' (VText ?u) = Inr f" by (auto simp: build_filter_text)
  have part: "filter_part ?L C ([p_name P @ '' =''], w) = Inr (bracketed '' or '' [f])"
    using assms(1,3) again f w by (simp add: filter_part_def property_filters_def value_filters_def as_values_def)
  obtain t where t: "query_text_of E C ?q = Inr t"
    using part by (simp add: query_text_of_def build_filter_part_def equality_query_def given_text_def opt_or_empty_def Let_def)
  have "query_literals E C ?q = ?u # class_names E C"
    using assms(1-3) again w
    by (simp add: query_literals_def equality_query_def filter_literals_def property_literals_def values_literals_def as_values_def value_literals_def
        pattern_text_def is_list_property_def given_text_def)
  then have "literals t = ?u # class_names E C" using query_text_literals [OF t assms(4)] by simp
  moreover have "encode_prop ?L (kind_shape (p_kind P)) (VInt (i + 2147483648)) = Inr (VText ?u)"
    using assms(2) by (simp add: encode_def encode_int_def)
  ultimately show ?thesis using t by blast
qed

definition number_property :: property where
  "number_property = \<lparr>p_name = ''number'', p_kind = KInteger (- 2147483648) 2147483647, p_default = VInt 0, p_required = False, p_choices = [], p_unique = True\<rparr>"

definition numbered_class :: model_class where
  "numbered_class = ModelClass ''Seat'' ''course'' [''object'', ''Model'', ''Seat''] [number_property] []"

theorem unique_integer_asks_other_witness:
  "\<exists>t u. query_text_of student_env numbered_class (equality_query number_property (VText (zpad 10 (7 + INT_OFFSET)))) = Inr t
    \<and> encode_prop some_lib (Single TInt) (VInt 2147483655) = Inr (VText u) \<and> literals t = [u, ''Seat'']"
proof -
  let ?w = "VText (zpad 10 (7 + INT_OFFSET))"
  have lib: "en_lib student_env = some_lib" and names: "class_names student_env numbered_class = [''Seat'']"
    and domain: "en_domain student_env = ''users''"
    by (simp_all add: student_env_def some_env_def class_names_def numbered_class_def)
  have enc: "encode_prop some_lib (Single TInt) (VInt 7) = Inr ?w" by (simp add: encode_def encode_int_def)
  have "plain_query student_env numbered_class (equality_query number_property ?w)"
    by (simp add: plain_query_def names plain_name_def equality_query_def number_property_def domain opt_or_empty_def)
  moreover have "split_operation (p_name number_property @ '' ='') = Inr (p_name number_property, ''='')" by code_simp
  moreover have "find_property numbered_class (p_name number_property) = Some number_property"
    by (simp add: find_property_def numbered_class_def)
  ultimately show ?thesis
    using unique_integer_asks_other [of numbered_class number_property "- 2147483648" 2147483647 student_env ?w 7] enc
    by (simp add: lib names number_property_def)
qed



section \<open>Deleting one attribute\<close>

text \<open>
  Deleting one attribute of an object deletes the whole object: the name is a text, which the connection does not look at, so that
  the request is that of \<open>delete_object\<close>.
\<close>

lemma deleting_a_key_deletes_all: "delete_key_value E name = delete_object E"
  by (simp add: delete_key_value_def delete_object_def names_sent_def)

end
