(* ===== verification/BotoRds.thy ===== *)
theory BotoRds
  imports BotoEc2
begin

text \<open>
  \<open>boto/rds/__init__.py\<close> and \<open>boto/rds/parametergroup.py\<close>: the queries of \<open>RDSConnection\<close>, one definition per
  method, and the parameters of a parameter group with their types and allowed values. A time is given as the text
  that its \<open>isoformat\<close> is; security groups are a list of objects or names.
\<close>


section \<open>Regions\<close>

definition rds_regions :: "(string \<times> string) list" where
  "rds_regions =
     [(''us-east-1'', ''rds.amazonaws.com''), (''eu-west-1'', ''eu-west-1.rds.amazonaws.com''),
      (''us-west-1'', ''us-west-1.rds.amazonaws.com''), (''ap-southeast-1'', ''ap-southeast-1.rds.amazonaws.com'')]"

text \<open>The endpoint that is connected to, or nothing.\<close>

definition rds_connect_to_region :: "string \<Rightarrow> string option" where
  "rds_connect_to_region region_name = map_option snd (find (\<lambda>r. fst r = region_name) rds_regions)"


section \<open>Instances\<close>

definition opt_time :: "string \<Rightarrow> string option \<Rightarrow> pydict \<Rightarrow> pydict" where
  "opt_time name t p = (case t of None \<Rightarrow> p | Some s \<Rightarrow> dset name (PStr s) p)"

definition bool_text :: "bool \<Rightarrow> pyval" where
  "bool_text b = PStr (if b then ''true'' else ''false'')"

definition get_all_dbinstances_query :: "pyval \<Rightarrow> pyval \<Rightarrow> pyval \<Rightarrow> query" where
  "get_all_dbinstances_query instance_id max_records marker =
     get_list ''DescribeDBInstances'' (with_optional []
       [(''DBInstanceIdentifier'', instance_id), (''MaxRecords'', max_records), (''Marker'', marker)]) ''DBInstance''"

record dbinstance_args =
  db_id :: pyval
  db_allocated_storage :: pyval
  db_instance_class :: pyval
  db_master_username :: pyval
  db_master_password :: pyval
  db_port :: pyval
  db_engine :: pyval
  db_db_name :: pyval
  db_param_group :: pyval
  db_security_groups :: "named_ref list"
  db_availability_zone :: pyval
  db_preferred_maintenance_window :: pyval
  db_backup_retention_period :: pyval
  db_preferred_backup_window :: pyval
  db_multi_az :: pyval
  db_engine_version :: pyval
  db_auto_minor_version_upgrade :: pyval

definition create_dbinstance_query :: "dbinstance_args \<Rightarrow> query" where
  "create_dbinstance_query a =
     (let p = with_optional
            [(''DBInstanceIdentifier'', db_id a), (''AllocatedStorage'', db_allocated_storage a),
             (''DBInstanceClass'', db_instance_class a), (''Engine'', db_engine a),
             (''MasterUsername'', db_master_username a), (''MasterUserPassword'', db_master_password a)]
            [(''Port'', db_port a), (''DBName'', db_db_name a), (''DBParameterGroupName'', db_param_group a)];
          p = opt_groups ''DBSecurityGroups.member'' (db_security_groups a) p;
          p = with_optional p
            [(''AvailabilityZone'', db_availability_zone a), (''PreferredMaintenanceWindow'', db_preferred_maintenance_window a),
             (''BackupRetentionPeriod'', db_backup_retention_period a), (''PreferredBackupWindow'', db_preferred_backup_window a)];
          p = opt_param ''EngineVersion'' (db_engine_version a) (opt_flag ''MultiAZ'' (db_multi_az a) p) in
      get_object ''CreateDBInstance''
        (if db_auto_minor_version_upgrade a = PBool False then dset ''AutoMinorVersionUpgrade'' (PStr ''false'') p else p) ''DBInstance'')"

definition create_dbinstance_read_replica_query :: "pyval \<Rightarrow> pyval \<Rightarrow> pyval \<Rightarrow> pyval \<Rightarrow> pyval \<Rightarrow> pyval \<Rightarrow> query" where
  "create_dbinstance_read_replica_query ident source_id instance_class port availability_zone auto_minor_version_upgrade =
     (let p = with_optional [(''DBInstanceIdentifier'', ident), (''SourceDBInstanceIdentifier'', source_id)]
            [(''DBInstanceClass'', instance_class), (''Port'', port), (''AvailabilityZone'', availability_zone)] in
      get_object ''CreateDBInstanceReadReplica''
        (if auto_minor_version_upgrade = PNone then p
         else dset ''AutoMinorVersionUpgrade'' (bool_text (auto_minor_version_upgrade = PBool True)) p) ''DBInstance'')"

record modify_dbinstance_args =
  md_id :: pyval
  md_param_group :: pyval
  md_security_groups :: "named_ref list"
  md_preferred_maintenance_window :: pyval
  md_master_password :: pyval
  md_allocated_storage :: pyval
  md_instance_class :: pyval
  md_backup_retention_period :: pyval
  md_preferred_backup_window :: pyval
  md_multi_az :: pyval
  md_apply_immediately :: pyval

definition modify_dbinstance_query :: "modify_dbinstance_args \<Rightarrow> query" where
  "modify_dbinstance_query a =
     (let p = opt_param ''DBParameterGroupName'' (md_param_group a) [(''DBInstanceIdentifier'', md_id a)];
          p = opt_groups ''DBSecurityGroups.member'' (md_security_groups a) p;
          p = with_optional p
            [(''PreferredMaintenanceWindow'', md_preferred_maintenance_window a), (''MasterUserPassword'', md_master_password a),
             (''AllocatedStorage'', md_allocated_storage a), (''DBInstanceClass'', md_instance_class a),
             (''BackupRetentionPeriod'', md_backup_retention_period a), (''PreferredBackupWindow'', md_preferred_backup_window a)] in
      get_object ''ModifyDBInstance''
        (opt_flag ''ApplyImmediately'' (md_apply_immediately a) (opt_flag ''MultiAZ'' (md_multi_az a) p)) ''DBInstance'')"

definition delete_dbinstance_query :: "pyval \<Rightarrow> pyval \<Rightarrow> pyval \<Rightarrow> query" where
  "delete_dbinstance_query ident skip_final_snapshot final_snapshot_id =
     get_object ''DeleteDBInstance''
       (if py_truth skip_final_snapshot
        then [(''DBInstanceIdentifier'', ident), (''SkipFinalSnapshot'', PStr ''true'')]
        else [(''DBInstanceIdentifier'', ident), (''SkipFinalSnapshot'', PStr ''false''),
              (''FinalDBSnapshotIdentifier'', final_snapshot_id)]) ''DBInstance''"

definition reboot_dbinstance_query :: "pyval \<Rightarrow> query" where
  "reboot_dbinstance_query ident = get_object ''RebootDBInstance'' [(''DBInstanceIdentifier'', ident)] ''DBInstance''"


section \<open>Parameters\<close>

text \<open>
  A parameter of a group. The apply type is an attribute only once it was read; the type is a class of Python until one
  was read.
\<close>

record parameter =
  pm_name :: pyval
  pm_value :: pyval
  pm_type :: "string option"
  pm_apply_type :: "pyval option"
  pm_apply_method :: pyval
  pm_allowed_values :: pyval
  pm_source :: pyval
  pm_is_modifiable :: bool
  pm_description :: pyval

definition new_parameter :: "pyval \<Rightarrow> parameter" where
  "new_parameter name =
     \<lparr>pm_name = name, pm_value = PNone, pm_type = None, pm_apply_type = None, pm_apply_method = PNone, pm_allowed_values = PNone,
      pm_source = PNone, pm_is_modifiable = True, pm_description = PNone\<rparr>"

definition parameter_key :: "nat \<Rightarrow> string \<Rightarrow> string" where
  "parameter_key i field = ''Parameters.member.'' @ nat_str i @ ''.'' @ field"

definition merge :: "parameter \<Rightarrow> nat \<Rightarrow> pydict \<Rightarrow> py_exc + pydict" where
  "merge a i d =
     (let d = opt_param (parameter_key i ''ParameterValue'') (pm_value a)
            (opt_param (parameter_key i ''ParameterName'') (pm_name a) d) in
      case pm_apply_type a of
        None \<Rightarrow> Inl (AttributeError ''apply_type'')
      | Some t \<Rightarrow> Inr (if py_truth t then dset (parameter_key i ''ApplyMethod'') (pm_apply_method a) d else d))"

fun merge_all :: "parameter list \<Rightarrow> nat \<Rightarrow> pydict \<Rightarrow> py_exc + pydict" where
  "merge_all [] i d = Inr d"
| "merge_all (a # as) i d = sbind (merge a i d) (merge_all as (Suc i))"

text \<open>Setting a value checks its type and what is allowed: a list of texts, or a range from one integer to another.\<close>

definition set_string_value :: "parameter \<Rightarrow> pyval \<Rightarrow> py_exc + parameter" where
  "set_string_value a v =
     (case v of
        PStr s \<Rightarrow>
          (case pm_allowed_values a of
             PStr allowed \<Rightarrow> if allowed \<noteq> [] \<and> s \<notin> set (py_split (CHR '','') allowed) then Inl ValueError else Inr (a\<lparr>pm_value := v\<rparr>)
           | _ \<Rightarrow> Inr (a\<lparr>pm_value := v\<rparr>))
      | _ \<Rightarrow> Inl ValueError)"

text \<open>A boolean is an integer of Python.\<close>

definition as_integer :: "pyval \<Rightarrow> py_exc + int" where
  "as_integer v =
     (case v of
        PStr s \<Rightarrow> py_int s
      | PInt i \<Rightarrow> Inr i
      | PBool b \<Rightarrow> Inr (if b then 1 else 0)
      | _ \<Rightarrow> Inl ValueError)"

definition in_allowed_range :: "string \<Rightarrow> int \<Rightarrow> py_exc + unit" where
  "in_allowed_range allowed i =
     (case py_split (CHR ''-'') allowed of
        [lo, hi] \<Rightarrow> sbind (py_int lo) (\<lambda>l. if i < l then Inl ValueError else sbind (py_int hi) (\<lambda>h. if h < i then Inl ValueError else Inr ()))
      | _ \<Rightarrow> Inl ValueError)"

definition set_integer_value :: "parameter \<Rightarrow> pyval \<Rightarrow> py_exc + parameter" where
  "set_integer_value a v =
     sbind (as_integer v) (\<lambda>i.
     sbind (case pm_allowed_values a of PStr allowed \<Rightarrow> if allowed = [] then Inr () else in_allowed_range allowed i | _ \<Rightarrow> Inr ())
       (\<lambda>_. Inr (a\<lparr>pm_value := (case v of PStr s \<Rightarrow> PInt i | _ \<Rightarrow> v)\<rparr>)))"

definition set_boolean_value :: "parameter \<Rightarrow> pyval \<Rightarrow> py_exc + parameter" where
  "set_boolean_value a v =
     (case v of
        PBool b \<Rightarrow> Inr (a\<lparr>pm_value := v\<rparr>)
      | PStr s \<Rightarrow> Inr (a\<lparr>pm_value := PBool (py_lower s = ''true'')\<rparr>)
      | _ \<Rightarrow> Inl ValueError)"

definition set_parameter_value :: "parameter \<Rightarrow> pyval \<Rightarrow> py_exc + parameter" where
  "set_parameter_value a v =
     (if pm_type a = Some ''string'' then set_string_value a v
      else if pm_type a = Some ''integer'' then set_integer_value a v
      else if pm_type a = Some ''boolean'' then set_boolean_value a v
      else Inl TypeError)"

text \<open>Reading converts the text that was read from a reply, and keeps what it converted.\<close>

definition get_parameter_value :: "parameter \<Rightarrow> py_exc + pyval \<times> parameter" where
  "get_parameter_value a =
     (if pm_value a = PNone then Inr (PNone, a)
      else if pm_type a = Some ''string'' then Inr (pm_value a, a)
      else if pm_type a = Some ''integer'' then
        (case pm_value a of
           PInt i \<Rightarrow> Inr (PInt i, a) | PBool b \<Rightarrow> Inr (PBool b, a)
         | v \<Rightarrow> sbind (set_integer_value a v) (\<lambda>b. Inr (pm_value b, b)))
      else if pm_type a = Some ''boolean'' then
        (case pm_value a of PBool b \<Rightarrow> Inr (PBool b, a) | v \<Rightarrow> sbind (set_boolean_value a v) (\<lambda>b. Inr (pm_value b, b)))
      else Inl TypeError)"

text \<open>The end of an element of a parameter: what is not one of the known words is not taken.\<close>

definition parameter_end :: "string \<Rightarrow> string \<Rightarrow> parameter \<Rightarrow> parameter" where
  "parameter_end name v a =
     (if name = ''ParameterName'' then a\<lparr>pm_name := PStr v\<rparr>
      else if name = ''ParameterValue'' then a\<lparr>pm_value := PStr v\<rparr>
      else if name = ''DataType'' then (if v \<in> {''integer'', ''string'', ''boolean''} then a\<lparr>pm_type := Some v\<rparr> else a)
      else if name = ''Source'' then (if v \<in> {''user'', ''system'', ''engine-default''} then a\<lparr>pm_source := PStr v\<rparr> else a)
      else if name = ''IsModifiable'' then a\<lparr>pm_is_modifiable := (py_lower v = ''true'')\<rparr>
      else if name = ''Description'' then a\<lparr>pm_description := PStr v\<rparr>
      else if name = ''ApplyType'' then (if v \<in> {''static'', ''dynamic''} then a\<lparr>pm_apply_type := Some (PStr v)\<rparr> else a)
      else if name = ''AllowedValues'' then a\<lparr>pm_allowed_values := PStr v\<rparr>
      else a)"


section \<open>Parameter groups\<close>

definition get_all_dbparameter_groups_query :: "pyval \<Rightarrow> pyval \<Rightarrow> pyval \<Rightarrow> query" where
  "get_all_dbparameter_groups_query groupname max_records marker =
     get_list ''DescribeDBParameterGroups'' (with_optional []
       [(''DBParameterGroupName'', groupname), (''MaxRecords'', max_records), (''Marker'', marker)]) ''ParameterGroup''"

definition get_all_dbparameters_query :: "pyval \<Rightarrow> pyval \<Rightarrow> pyval \<Rightarrow> pyval \<Rightarrow> query" where
  "get_all_dbparameters_query groupname source max_records marker =
     (get_object ''DescribeDBParameters'' (with_optional [(''DBParameterGroupName'', groupname)]
       [(''Source'', source), (''MaxRecords'', max_records), (''Marker'', marker)]) ''ParameterGroup'')
       \<lparr>q_use := WithAttributes [(''name'', groupname)]\<rparr>"

definition create_parameter_group_query :: "pyval \<Rightarrow> pyval \<Rightarrow> pyval \<Rightarrow> query" where
  "create_parameter_group_query name engine description =
     get_object ''CreateDBParameterGroup''
       [(''DBParameterGroupName'', name), (''Engine'', engine), (''Description'', description)] ''ParameterGroup''"

text \<open>The reply is read with a class where a list of markers belongs: no part of it is kept.\<close>

definition modify_parameter_group_query :: "pyval \<Rightarrow> parameter list option \<Rightarrow> py_exc + query" where
  "modify_parameter_group_query name parameters =
     (case parameters of
        None \<Rightarrow> Inl TypeError
      | Some as \<Rightarrow> sbind (merge_all as 1 [(''DBParameterGroupName'', name)]) (\<lambda>p. Inr (get_list ''ModifyDBParameterGroup'' p [])))"

definition reset_parameter_group_query :: "pyval \<Rightarrow> pyval \<Rightarrow> parameter list option \<Rightarrow> py_exc + query" where
  "reset_parameter_group_query name reset_all_params parameters =
     (if py_truth reset_all_params
      then Inr (get_status ''ResetDBParameterGroup'' [(''DBParameterGroupName'', name), (''ResetAllParameters'', PStr ''true'')])
      else case parameters of
          None \<Rightarrow> Inl TypeError
        | Some as \<Rightarrow> sbind (merge_all as 1 [(''DBParameterGroupName'', name), (''ResetAllParameters'', PStr ''false'')])
            (\<lambda>p. Inr (get_status ''ResetDBParameterGroup'' p)))"

definition delete_parameter_group_query :: "pyval \<Rightarrow> query" where
  "delete_parameter_group_query name = get_status ''DeleteDBParameterGroup'' [(''DBParameterGroupName'', name)]"

text \<open>\<open>Parameter.apply\<close> sends the one parameter to its group.\<close>

definition apply_parameter :: "pyval \<Rightarrow> bool \<Rightarrow> parameter \<Rightarrow> py_exc + query" where
  "apply_parameter group_name immediate a =
     modify_parameter_group_query group_name
       (Some [a\<lparr>pm_apply_method := PStr (if immediate then ''immediate'' else ''pending-reboot'')\<rparr>])"


section \<open>Security groups\<close>

definition get_all_dbsecurity_groups_query :: "pyval \<Rightarrow> pyval \<Rightarrow> pyval \<Rightarrow> query" where
  "get_all_dbsecurity_groups_query groupname max_records marker =
     get_list ''DescribeDBSecurityGroups'' (with_optional []
       [(''DBSecurityGroupName'', groupname), (''MaxRecords'', max_records), (''Marker'', marker)]) ''DBSecurityGroup''"

definition create_dbsecurity_group_query :: "pyval \<Rightarrow> pyval \<Rightarrow> query" where
  "create_dbsecurity_group_query name description =
     (get_object ''CreateDBSecurityGroup'' (with_optional [(''DBSecurityGroupName'', name)]
       [(''DBSecurityGroupDescription'', description)]) ''DBSecurityGroup'')
       \<lparr>q_use := WithAttributes [(''name'', name), (''description'', description)]\<rparr>"

definition delete_dbsecurity_group_query :: "pyval \<Rightarrow> query" where
  "delete_dbsecurity_group_query name = get_status ''DeleteDBSecurityGroup'' [(''DBSecurityGroupName'', name)]"

text \<open>An address range is quoted when it is authorized, not when it is revoked; quoting refuses what is no text.\<close>

definition opt_quoted :: "string \<Rightarrow> pyval \<Rightarrow> pydict \<Rightarrow> py_exc + pydict" where
  "opt_quoted name v p =
     (if \<not> py_truth v then Inr p
      else (case v of PStr s \<Rightarrow> Inr (dset name (PStr (urllib_quote ''/'' s)) p) | _ \<Rightarrow> Inl TypeError))"

definition authorize_dbsecurity_group_query :: "pyval \<Rightarrow> pyval \<Rightarrow> pyval \<Rightarrow> pyval \<Rightarrow> py_exc + query" where
  "authorize_dbsecurity_group_query group_name cidr_ip ec2_security_group_name ec2_security_group_owner_id =
     sbind (opt_quoted ''CIDRIP'' cidr_ip (with_optional [(''DBSecurityGroupName'', group_name)]
       [(''EC2SecurityGroupName'', ec2_security_group_name), (''EC2SecurityGroupOwnerId'', ec2_security_group_owner_id)]))
     (\<lambda>p. Inr (get_object ''AuthorizeDBSecurityGroupIngress'' p ''DBSecurityGroup''))"

definition revoke_dbsecurity_group_query :: "pyval \<Rightarrow> pyval \<Rightarrow> pyval \<Rightarrow> pyval \<Rightarrow> query" where
  "revoke_dbsecurity_group_query group_name ec2_security_group_name ec2_security_group_owner_id cidr_ip =
     get_object ''RevokeDBSecurityGroupIngress'' (with_optional [(''DBSecurityGroupName'', group_name)]
       [(''EC2SecurityGroupName'', ec2_security_group_name), (''EC2SecurityGroupOwnerId'', ec2_security_group_owner_id),
        (''CIDRIP'', cidr_ip)]) ''DBSecurityGroup''"


section \<open>Snapshots and events\<close>

definition get_all_dbsnapshots_query :: "pyval \<Rightarrow> pyval \<Rightarrow> pyval \<Rightarrow> pyval \<Rightarrow> query" where
  "get_all_dbsnapshots_query snapshot_id instance_id max_records marker =
     get_list ''DescribeDBSnapshots'' (with_optional []
       [(''DBSnapshotIdentifier'', snapshot_id), (''DBInstanceIdentifier'', instance_id), (''MaxRecords'', max_records),
        (''Marker'', marker)]) ''DBSnapshot''"

definition create_dbsnapshot_query :: "pyval \<Rightarrow> pyval \<Rightarrow> query" where
  "create_dbsnapshot_query snapshot_id dbinstance_id =
     get_object ''CreateDBSnapshot'' [(''DBSnapshotIdentifier'', snapshot_id), (''DBInstanceIdentifier'', dbinstance_id)] ''DBSnapshot''"

definition delete_dbsnapshot_query :: "pyval \<Rightarrow> query" where
  "delete_dbsnapshot_query identifier = get_object ''DeleteDBSnapshot'' [(''DBSnapshotIdentifier'', identifier)] ''DBSnapshot''"

definition restore_dbinstance_from_dbsnapshot_query :: "pyval \<Rightarrow> pyval \<Rightarrow> pyval \<Rightarrow> pyval \<Rightarrow> pyval \<Rightarrow> query" where
  "restore_dbinstance_from_dbsnapshot_query identifier instance_id instance_class port availability_zone =
     get_object ''RestoreDBInstanceFromDBSnapshot'' (with_optional
       [(''DBSnapshotIdentifier'', identifier), (''DBInstanceIdentifier'', instance_id), (''DBInstanceClass'', instance_class)]
       [(''Port'', port), (''AvailabilityZone'', availability_zone)]) ''DBInstance''"

definition restore_dbinstance_from_point_in_time_query ::
  "pyval \<Rightarrow> pyval \<Rightarrow> pyval \<Rightarrow> string option \<Rightarrow> pyval \<Rightarrow> pyval \<Rightarrow> pyval \<Rightarrow> query" where
  "restore_dbinstance_from_point_in_time_query source_instance_id target_instance_id use_latest restore_time dbinstance_class port
        availability_zone =
     (let p = [(''SourceDBInstanceIdentifier'', source_instance_id), (''TargetDBInstanceIdentifier'', target_instance_id)];
          p = (if py_truth use_latest then dset ''UseLatestRestorableTime'' (PStr ''true'') p else opt_time ''RestoreTime'' restore_time p) in
      get_object ''RestoreDBInstanceToPointInTime'' (with_optional p
        [(''DBInstanceClass'', dbinstance_class), (''Port'', port), (''AvailabilityZone'', availability_zone)]) ''DBInstance'')"

definition get_all_events_query ::
  "pyval \<Rightarrow> pyval \<Rightarrow> string option \<Rightarrow> string option \<Rightarrow> pyval \<Rightarrow> pyval \<Rightarrow> query" where
  "get_all_events_query source_identifier source_type start_time end_time max_records marker =
     (let p = (if py_truth source_identifier \<and> py_truth source_type
               then [(''SourceIdentifier'', source_identifier), (''SourceType'', source_type)] else []) in
      get_list ''DescribeEvents'' (with_optional (opt_time ''EndTime'' end_time (opt_time ''StartTime'' start_time p))
        [(''MaxRecords'', max_records), (''Marker'', marker)]) ''Event'')"


section \<open>Well-formed queries\<close>

lemmas rds_query_defs = get_all_dbinstances_query_def create_dbinstance_query_def create_dbinstance_read_replica_query_def
  modify_dbinstance_query_def delete_dbinstance_query_def reboot_dbinstance_query_def get_all_dbparameter_groups_query_def
  get_all_dbparameters_query_def create_parameter_group_query_def modify_parameter_group_query_def reset_parameter_group_query_def
  delete_parameter_group_query_def get_all_dbsecurity_groups_query_def create_dbsecurity_group_query_def
  delete_dbsecurity_group_query_def authorize_dbsecurity_group_query_def revoke_dbsecurity_group_query_def
  get_all_dbsnapshots_query_def create_dbsnapshot_query_def delete_dbsnapshot_query_def restore_dbinstance_from_dbsnapshot_query_def
  restore_dbinstance_from_point_in_time_query_def get_all_events_query_def

inductive rds_query :: "query \<Rightarrow> bool" where
  "rds_query (get_all_dbinstances_query instance_id max_records marker)"
| "rds_query (create_dbinstance_query a)"
| "rds_query (create_dbinstance_read_replica_query ident source_id instance_class port availability_zone auto)"
| "rds_query (modify_dbinstance_query m)"
| "rds_query (delete_dbinstance_query ident skip_final_snapshot final_snapshot_id)"
| "rds_query (reboot_dbinstance_query ident)"
| "rds_query (get_all_dbparameter_groups_query groupname max_records marker)"
| "rds_query (get_all_dbparameters_query groupname source max_records marker)"
| "rds_query (create_parameter_group_query name engine description)"
| "modify_parameter_group_query name parameters = Inr q \<Longrightarrow> rds_query q"
| "reset_parameter_group_query name reset_all_params parameters = Inr q \<Longrightarrow> rds_query q"
| "rds_query (delete_parameter_group_query name)"
| "rds_query (get_all_dbsecurity_groups_query groupname max_records marker)"
| "rds_query (create_dbsecurity_group_query name description)"
| "rds_query (delete_dbsecurity_group_query name)"
| "authorize_dbsecurity_group_query group_name cidr_ip ec2_name ec2_owner = Inr q \<Longrightarrow> rds_query q"
| "rds_query (revoke_dbsecurity_group_query group_name ec2_name ec2_owner cidr_ip)"
| "rds_query (get_all_dbsnapshots_query snapshot_id instance_id max_records marker)"
| "rds_query (create_dbsnapshot_query snapshot_id dbinstance_id)"
| "rds_query (delete_dbsnapshot_query identifier)"
| "rds_query (restore_dbinstance_from_dbsnapshot_query identifier instance_id instance_class port availability_zone)"
| "rds_query (restore_dbinstance_from_point_in_time_query source_id target_id use_latest restore_time dbinstance_class port availability_zone)"
| "rds_query (get_all_events_query source_identifier source_type start_time end_time max_records marker)"

lemma params_ok_time [query_intros]: "k \<notin> reserved \<Longrightarrow> params_ok p \<Longrightarrow> params_ok (opt_time k t p)"
  by (auto simp: opt_time_def intro: params_ok_dset split: option.splits)

lemma sum_ok_quoted [query_intros]: "k \<notin> reserved \<Longrightarrow> params_ok p \<Longrightarrow> sum_ok (opt_quoted k v p)"
  by (auto simp: sum_ok_def opt_quoted_def intro: params_ok_dset split: pyval.splits if_splits)

lemma params_ok_merge: "params_ok d \<Longrightarrow> merge a i d = Inr d' \<Longrightarrow> params_ok d'"
  by (auto simp: merge_def Let_def parameter_key_def intro!: params_ok_opt params_ok_dset split: option.splits if_splits)

lemma sum_ok_merge_all [query_intros]: "params_ok d \<Longrightarrow> sum_ok (merge_all as i d)"
  by (induction as arbitrary: i d) (auto simp: sum_ok_def sbind_Inr_iff dest: params_ok_merge)

lemma builds_ok_option [query_intros]:
  "builds_ok r \<Longrightarrow> (\<And>x. builds_ok (f x)) \<Longrightarrow> builds_ok (case v of None \<Rightarrow> r | Some x \<Rightarrow> f x)"
  by (cases v) simp_all

lemma params_ok_if [query_intros]: "(b \<Longrightarrow> params_ok p) \<Longrightarrow> (\<not> b \<Longrightarrow> params_ok q) \<Longrightarrow> params_ok (if b then p else q)"
  by simp

lemma rds_query_ok: "rds_query q \<Longrightarrow> query_ok q"
  by (erule rds_query.cases; hypsubst; (erule builds_okD)?; unfold rds_query_defs Let_def;
      (auto simp: params_ok_Cons reserved_def intro!: query_intros)?)

end
