(* ===== verification/BotoScaling.thy ===== *)
theory BotoScaling
  imports BotoRds
begin

text \<open>
  Load balancers, groups of instances that scale, and metrics with alarms: the queries of
  \<open>boto/ec2/elb/__init__.py\<close>, \<open>boto/ec2/autoscale/__init__.py\<close> and \<open>boto/ec2/cloudwatch/__init__.py\<close>, one definition per
  method, and the methods of load balancers, groups, triggers, metrics and alarms that only call them.
\<close>


section \<open>Load balancers\<close>

text \<open>Numbers in the middle of a name.\<close>

definition between_key :: "string \<Rightarrow> string \<Rightarrow> nat \<Rightarrow> string" where
  "between_key pre suf i = pre @ nat_str i @ suf"

definition number_between :: "string \<Rightarrow> string \<Rightarrow> pyval list \<Rightarrow> pydict \<Rightarrow> pydict" where
  "number_between pre suf xs params = fold (\<lambda>(i, x). dset (between_key pre suf i) x) (enumerate 1 xs) params"

definition build_between_params :: "pydict \<Rightarrow> pyval \<Rightarrow> string \<Rightarrow> string \<Rightarrow> py_exc + pydict" where
  "build_between_params params items pre suf =
     (case items of
        PStr s \<Rightarrow> Inr (number_between pre suf [PStr s] params)
      | PList xs \<Rightarrow> Inr (number_between pre suf xs params)
      | PDict d \<Rightarrow> if d = [] then Inr params else Inl (KeyError ''0'')
      | _ \<Rightarrow> Inl TypeError)"

definition get_all_load_balancers_query :: "pyval \<Rightarrow> py_exc + query" where
  "get_all_load_balancers_query load_balancer_names =
     sbind (opt_list ''LoadBalancerNames.member'' load_balancer_names []) (\<lambda>p.
     Inr (get_list ''DescribeLoadBalancers'' p ''LoadBalancer''))"

text \<open>A listener is a tuple of two ports and a protocol, and the id of a certificate when the protocol is HTTPS.\<close>

definition nth_item :: "pyval list \<Rightarrow> nat \<Rightarrow> py_exc + pyval" where
  "nth_item xs n = (if n < length xs then Inr (xs ! n) else Inl IndexError)"

definition add_listener :: "nat \<Rightarrow> pyval list \<Rightarrow> pydict \<Rightarrow> py_exc + pydict" where
  "add_listener i l p =
     sbind (nth_item l 0) (\<lambda>lb_port. sbind (nth_item l 1) (\<lambda>port. sbind (nth_item l 2) (\<lambda>protocol.
       (let p = dset (between_key ''Listeners.member.'' ''.Protocol'' i) protocol
             (dset (between_key ''Listeners.member.'' ''.InstancePort'' i) port
             (dset (between_key ''Listeners.member.'' ''.LoadBalancerPort'' i) lb_port p)) in
        if protocol = PStr ''HTTPS''
        then sbind (nth_item l 3) (\<lambda>c. Inr (dset (between_key ''Listeners.member.'' ''.SSLCertificateId'' i) c p))
        else Inr p))))"

fun add_listeners :: "pyval list list \<Rightarrow> nat \<Rightarrow> pydict \<Rightarrow> py_exc + pydict" where
  "add_listeners [] i p = Inr p"
| "add_listeners (l # ls) i p = sbind (add_listener i l p) (add_listeners ls (Suc i))"

definition create_load_balancer_query :: "pyval \<Rightarrow> pyval \<Rightarrow> pyval list list \<Rightarrow> py_exc + query" where
  "create_load_balancer_query name zones listeners =
     sbind (add_listeners listeners 1 [(''LoadBalancerName'', name)]) (\<lambda>p.
     sbind (build_list_params p zones ''AvailabilityZones.member'') (\<lambda>p.
     Inr ((get_object ''CreateLoadBalancer'' p ''LoadBalancer'')
       \<lparr>q_use := WithAttributes [(''name'', name), (''listeners'', PList (map PList listeners)), (''availability_zones'', zones)]\<rparr>)))"

definition create_load_balancer_listeners_query :: "pyval \<Rightarrow> pyval list list \<Rightarrow> py_exc + query" where
  "create_load_balancer_listeners_query name listeners =
     sbind (add_listeners listeners 1 [(''LoadBalancerName'', name)]) (\<lambda>p. Inr (get_status ''CreateLoadBalancerListeners'' p))"

definition delete_load_balancer_query :: "pyval \<Rightarrow> query" where
  "delete_load_balancer_query name = get_status ''DeleteLoadBalancer'' [(''LoadBalancerName'', name)]"

definition delete_load_balancer_listeners_query :: "pyval \<Rightarrow> pyval list \<Rightarrow> query" where
  "delete_load_balancer_listeners_query name ports =
     get_status ''DeleteLoadBalancerListeners'' (number_params ''LoadBalancerPorts.member'' ports [(''LoadBalancerName'', name)])"

definition enable_availability_zones_query :: "pyval \<Rightarrow> pyval \<Rightarrow> py_exc + query" where
  "enable_availability_zones_query load_balancer_name zones_to_add =
     sbind (build_list_params [(''LoadBalancerName'', load_balancer_name)] zones_to_add ''AvailabilityZones.member'') (\<lambda>p.
     Inr (get_list ''EnableAvailabilityZonesForLoadBalancer'' p []))"

definition disable_availability_zones_query :: "pyval \<Rightarrow> pyval \<Rightarrow> py_exc + query" where
  "disable_availability_zones_query load_balancer_name zones_to_remove =
     sbind (build_list_params [(''LoadBalancerName'', load_balancer_name)] zones_to_remove ''AvailabilityZones.member'') (\<lambda>p.
     Inr (get_list ''DisableAvailabilityZonesForLoadBalancer'' p []))"

definition register_instances_query :: "pyval \<Rightarrow> pyval \<Rightarrow> py_exc + query" where
  "register_instances_query load_balancer_name instances =
     sbind (build_between_params [(''LoadBalancerName'', load_balancer_name)] instances ''Instances.member.'' ''.InstanceId'') (\<lambda>p.
     Inr (get_list ''RegisterInstancesWithLoadBalancer'' p ''InstanceInfo''))"

definition deregister_instances_query :: "pyval \<Rightarrow> pyval \<Rightarrow> py_exc + query" where
  "deregister_instances_query load_balancer_name instances =
     sbind (build_between_params [(''LoadBalancerName'', load_balancer_name)] instances ''Instances.member.'' ''.InstanceId'') (\<lambda>p.
     Inr (get_list ''DeregisterInstancesFromLoadBalancer'' p ''InstanceInfo''))"

definition describe_instance_health_query :: "pyval \<Rightarrow> pyval \<Rightarrow> py_exc + query" where
  "describe_instance_health_query load_balancer_name instances =
     sbind (opt_list ''Instances.member'' instances [(''LoadBalancerName'', load_balancer_name)]) (\<lambda>p.
     Inr (get_list ''DescribeInstanceHealth'' p ''InstanceState''))"

record health_check =
  hc_access_point :: pyval
  hc_interval :: pyval
  hc_target :: pyval
  hc_healthy_threshold :: pyval
  hc_timeout :: pyval
  hc_unhealthy_threshold :: pyval

definition configure_health_check_query :: "pyval \<Rightarrow> health_check \<Rightarrow> query" where
  "configure_health_check_query name h =
     get_object ''ConfigureHealthCheck''
       [(''LoadBalancerName'', name), (''HealthCheck.Timeout'', hc_timeout h), (''HealthCheck.Target'', hc_target h),
        (''HealthCheck.Interval'', hc_interval h), (''HealthCheck.UnhealthyThreshold'', hc_unhealthy_threshold h),
        (''HealthCheck.HealthyThreshold'', hc_healthy_threshold h)] ''HealthCheck''"

text \<open>\<open>HealthCheck.update\<close>: nothing without an access point; otherwise what the reply says is taken over.\<close>

definition update_health_check :: "health_check \<Rightarrow> (query \<Rightarrow> py_exc + health_check) \<Rightarrow> py_exc + health_check" where
  "update_health_check h send =
     (if \<not> py_truth (hc_access_point h) then Inr h
      else sbind (send (configure_health_check_query (hc_access_point h) h)) (\<lambda>r.
        Inr (r\<lparr>hc_access_point := hc_access_point h\<rparr>)))"

text \<open>The name of the port is spelled as in the code.\<close>

definition set_lb_listener_SSL_certificate_query :: "pyval \<Rightarrow> pyval \<Rightarrow> pyval \<Rightarrow> query" where
  "set_lb_listener_SSL_certificate_query lb_name lb_port ssl_certificate_id =
     get_status ''SetLoadBalancerListenerSSLCertificate''
       [(''LoadBalancerName'', lb_name), (''LoadBalaancerPort'', lb_port), (''SSLCertificateId'', ssl_certificate_id)]"

definition create_app_cookie_stickiness_policy_query :: "pyval \<Rightarrow> pyval \<Rightarrow> pyval \<Rightarrow> query" where
  "create_app_cookie_stickiness_policy_query name lb_name policy_name =
     get_status ''CreateAppCookieStickinessPolicy''
       [(''CookieName'', name), (''LoadBalancerName'', lb_name), (''PolicyName'', policy_name)]"

definition create_lb_cookie_stickiness_policy_query :: "pyval \<Rightarrow> pyval \<Rightarrow> pyval \<Rightarrow> query" where
  "create_lb_cookie_stickiness_policy_query cookie_expiration_period lb_name policy_name =
     get_status ''CreateLBCookieStickinessPolicy''
       [(''CookieExpirationPeriod'', cookie_expiration_period), (''LoadBalancerName'', lb_name), (''PolicyName'', policy_name)]"

definition delete_lb_policy_query :: "pyval \<Rightarrow> pyval \<Rightarrow> query" where
  "delete_lb_policy_query lb_name policy_name =
     get_status ''DeleteLoadBalancerPolicy'' [(''LoadBalancerName'', lb_name), (''PolicyName'', policy_name)]"

definition set_lb_policies_of_listener_query :: "pyval \<Rightarrow> pyval \<Rightarrow> pyval \<Rightarrow> py_exc + query" where
  "set_lb_policies_of_listener_query lb_name lb_port policies =
     sbind (build_list_params [(''LoadBalancerName'', lb_name), (''LoadBalancerPort'', lb_port)] policies ''PolicyNames.member'') (\<lambda>p.
     Inr (get_status ''SetLoadBalancerPoliciesOfListener'' p))"

text \<open>\<open>create_listener\<close> and \<open>delete_listener\<close> of a load balancer; the latter passes tuples where ports are expected.\<close>

definition create_listener_query :: "pyval \<Rightarrow> pyval \<Rightarrow> pyval \<Rightarrow> pyval \<Rightarrow> py_exc + query" where
  "create_listener_query name in_port out_port proto =
     create_load_balancer_listeners_query name [[in_port, if out_port = PNone then in_port else out_port, proto]]"

definition delete_listener_query :: "pyval \<Rightarrow> pyval \<Rightarrow> pyval \<Rightarrow> pyval \<Rightarrow> query" where
  "delete_listener_query name in_port out_port proto =
     delete_load_balancer_listeners_query name [PList [in_port, if out_port = PNone then in_port else out_port, proto]]"


section \<open>Groups that scale\<close>

text \<open>Dicts become several parameters, texts one; other items, numbers among them, are passed over. A text is a sequence of characters.\<close>

definition add_member :: "string \<Rightarrow> nat \<times> pyval \<Rightarrow> pydict \<Rightarrow> pydict" where
  "add_member label m p =
     (case snd m of
        PDict d \<Rightarrow> fold (\<lambda>(k, v). dset (label @ ''.member.'' @ nat_str (fst m) @ ''.'' @ k) v) d p
      | PStr s \<Rightarrow> dset (label @ ''.member.'' @ nat_str (fst m)) (PStr s) p
      | _ \<Rightarrow> p)"

definition add_members :: "string \<Rightarrow> pyval list \<Rightarrow> pydict \<Rightarrow> pydict" where
  "add_members label xs p = fold (add_member label) (enumerate 1 xs) p"

definition build_member_params :: "pydict \<Rightarrow> pyval \<Rightarrow> string \<Rightarrow> py_exc + pydict" where
  "build_member_params params items label =
     (case items of
        PStr s \<Rightarrow> Inr (add_members label (map (\<lambda>c. PStr [c]) s) params)
      | PList xs \<Rightarrow> Inr (add_members label xs params)
      | PDict d \<Rightarrow> if d = [] then Inr params else Inl (KeyError ''0'')
      | _ \<Rightarrow> Inl TypeError)"

definition opt_members :: "string \<Rightarrow> pyval \<Rightarrow> pydict \<Rightarrow> py_exc + pydict" where
  "opt_members label v p = (if py_truth v then build_member_params p v label else Inr p)"

record scaling_group =
  sg_name :: pyval
  sg_min_size :: pyval
  sg_max_size :: pyval
  sg_cooldown :: pyval
  sg_launch_config_name :: pyval
  sg_load_balancers :: "pyval list"
  sg_availability_zone :: pyval
  sg_availability_zones :: "pyval list"

definition scaling_update_query :: "string \<Rightarrow> scaling_group \<Rightarrow> query" where
  "scaling_update_query op g =
     (let p = [(''AutoScalingGroupName'', sg_name g), (''Cooldown'', sg_cooldown g),
               (''LaunchConfigurationName'', sg_launch_config_name g), (''MinSize'', sg_min_size g), (''MaxSize'', sg_max_size g)] in
      get_object op
        (if py_startswith op ''Create''
         then add_members ''AvailabilityZones'' (if sg_availability_zones g \<noteq> [] then sg_availability_zones g else [sg_availability_zone g])
             (add_members ''LoadBalancerNames'' (sg_load_balancers g) p)
         else p) ''Request'')"

definition create_auto_scaling_group_query :: "scaling_group \<Rightarrow> query" where
  "create_auto_scaling_group_query g = scaling_update_query ''CreateAutoScalingGroup'' g"

definition group_update_query :: "scaling_group \<Rightarrow> query" where
  "group_update_query g = scaling_update_query ''UpdateAutoScalingGroup'' g"

definition shutdown_instances_query :: "scaling_group \<Rightarrow> query \<times> scaling_group" where
  "shutdown_instances_query g = (let g = g\<lparr>sg_min_size := PInt 0, sg_max_size := PInt 0\<rparr> in (group_update_query g, g))"

definition set_capacity_query :: "scaling_group \<Rightarrow> pyval \<Rightarrow> query" where
  "set_capacity_query g capacity =
     get_object ''SetDesiredCapacity'' [(''AutoScalingGroupName'', sg_name g), (''DesiredCapacity'', capacity)] ''Request''"

definition delete_group_of_query :: "scaling_group \<Rightarrow> query" where
  "delete_group_of_query g = get_object ''DeleteAutoScalingGroup'' [(''AutoScalingGroupName'', sg_name g)] ''Request''"

record launch_config =
  lc_name :: pyval
  lc_image_id :: pyval
  lc_key_name :: pyval
  lc_security_groups :: pyval
  lc_user_data :: pyval
  lc_instance_type :: pyval
  lc_kernel_id :: pyval
  lc_ramdisk_id :: pyval
  lc_block_device_mappings :: pyval

definition create_launch_configuration_query :: "launch_config \<Rightarrow> py_exc + query" where
  "create_launch_configuration_query c =
     sbind (opt_members ''BlockDeviceMappings'' (lc_block_device_mappings c)
       (with_optional
          [(''ImageId'', lc_image_id c), (''KeyName'', lc_key_name c), (''LaunchConfigurationName'', lc_name c),
           (''InstanceType'', lc_instance_type c)]
          [(''UserData'', lc_user_data c), (''KernelId'', lc_kernel_id c), (''RamdiskId'', lc_ramdisk_id c)])) (\<lambda>p.
     sbind (build_member_params p (lc_security_groups c) ''SecurityGroups'') (\<lambda>p.
     Inr (get_object ''CreateLaunchConfiguration'' p ''Request'')))"

record trigger =
  tg_name :: pyval
  tg_group_name :: pyval
  tg_measure_name :: pyval
  tg_statistic :: pyval
  tg_period :: pyval
  tg_unit :: pyval
  tg_lower_threshold :: pyval
  tg_lower_breach_scale_increment :: pyval
  tg_upper_threshold :: pyval
  tg_upper_breach_scale_increment :: pyval
  tg_breach_duration :: pyval
  tg_dimensions :: "(pyval \<times> pyval) list"

definition create_trigger_query :: "trigger \<Rightarrow> query" where
  "create_trigger_query t =
     get_object ''CreateOrUpdateScalingTrigger''
       (add_members ''Dimensions'' (map (\<lambda>(name, v). PDict [(''Name'', name), (''Value'', v)]) (tg_dimensions t))
         [(''TriggerName'', tg_name t), (''AutoScalingGroupName'', tg_group_name t), (''MeasureName'', tg_measure_name t),
          (''Statistic'', tg_statistic t), (''Period'', tg_period t), (''Unit'', tg_unit t), (''LowerThreshold'', tg_lower_threshold t),
          (''LowerBreachScaleIncrement'', tg_lower_breach_scale_increment t), (''UpperThreshold'', tg_upper_threshold t),
          (''UpperBreachScaleIncrement'', tg_upper_breach_scale_increment t), (''BreachDuration'', tg_breach_duration t)]) ''Request''"

definition delete_trigger_query :: "trigger \<Rightarrow> query" where
  "delete_trigger_query t =
     get_object ''DeleteTrigger'' [(''TriggerName'', tg_name t), (''AutoScalingGroupName'', tg_group_name t)] ''Request''"

definition get_all_scaling_groups_query :: "pyval \<Rightarrow> py_exc + query" where
  "get_all_scaling_groups_query names =
     sbind (opt_members ''AutoScalingGroupNames'' names []) (\<lambda>p. Inr (get_list ''DescribeAutoScalingGroups'' p ''AutoScalingGroup''))"

definition get_all_launch_configurations_query :: "pyval \<Rightarrow> py_exc + query" where
  "get_all_launch_configurations_query names =
     sbind (opt_members ''LaunchConfigurationNames'' names []) (\<lambda>p. Inr (get_list ''DescribeLaunchConfigurations'' p ''LaunchConfiguration''))"

text \<open>The group by its object or name; the number of records is not used.\<close>

definition get_all_activities_query :: "named_ref \<Rightarrow> pyval \<Rightarrow> pyval \<Rightarrow> py_exc + query" where
  "get_all_activities_query autoscale_group activity_ids max_records =
     sbind (opt_members ''ActivityIds'' activity_ids [(''AutoScalingGroupName'', ref_value autoscale_group)]) (\<lambda>p.
     Inr (get_list ''DescribeScalingActivities'' p ''Activity''))"

definition get_all_triggers_query :: "pyval \<Rightarrow> query" where
  "get_all_triggers_query autoscale_group = get_list ''DescribeTriggers'' [(''AutoScalingGroupName'', autoscale_group)] ''Trigger''"

definition terminate_instance_query :: "pyval \<Rightarrow> pyval \<Rightarrow> query" where
  "terminate_instance_query instance_id decrement_capacity =
     get_object ''TerminateInstanceInAutoScalingGroup''
       [(''InstanceId'', instance_id), (''ShouldDecrementDesiredCapacity'', decrement_capacity)] ''Activity''"

definition set_instance_health_query :: "pyval \<Rightarrow> pyval \<Rightarrow> pyval \<Rightarrow> query" where
  "set_instance_health_query instance_id health_status should_respect_grace_period =
     get_status ''SetInstanceHealth''
       [(''InstanceId'', instance_id), (''HealthStatus'', health_status),
        (''ShouldRespectGracePeriod'', bool_text (py_truth should_respect_grace_period))]"


section \<open>Metrics and alarms\<close>

definition add_dimension :: "nat \<times> string \<times> pyval \<Rightarrow> pydict \<Rightarrow> pydict" where
  "add_dimension d p =
     (case d of (i, name, v) \<Rightarrow>
        dset (between_key ''Dimensions.member.'' ''.Value'' i) v (dset (between_key ''Dimensions.member.'' ''.Name'' i) (PStr name) p))"

text \<open>The dimensions are a dict; the unit is not used.\<close>

definition get_metric_statistics_query ::
  "pyval \<Rightarrow> string \<Rightarrow> string \<Rightarrow> pyval \<Rightarrow> pyval \<Rightarrow> pyval \<Rightarrow> pydict \<Rightarrow> pyval \<Rightarrow> py_exc + query" where
  "get_metric_statistics_query period start_time end_time metric_name namespace statistics dimensions unit =
     sbind (build_list_params
       [(''Period'', period), (''MetricName'', metric_name), (''Namespace'', namespace), (''StartTime'', PStr start_time),
        (''EndTime'', PStr end_time)] statistics ''Statistics.member'') (\<lambda>p.
     Inr (get_list ''GetMetricStatistics'' (fold add_dimension (enumerate 1 dimensions) p) ''Datapoint''))"

definition list_metrics_query :: "pyval \<Rightarrow> query" where
  "list_metrics_query next_token = get_list ''ListMetrics'' (opt_param ''NextToken'' next_token []) ''Metric''"

text \<open>A prefix leaves out the names.\<close>

definition describe_alarms_query :: "pyval \<Rightarrow> pyval \<Rightarrow> pyval \<Rightarrow> pyval \<Rightarrow> pyval \<Rightarrow> pyval \<Rightarrow> py_exc + query" where
  "describe_alarms_query action_prefix alarm_name_prefix alarm_names max_records state_value next_token =
     (let p = opt_param ''ActionPrefix'' action_prefix [] in
      sbind (if py_truth alarm_name_prefix then Inr (dset ''AlarmNamePrefix'' alarm_name_prefix p)
             else opt_list ''AlarmNames.member'' alarm_names p) (\<lambda>p.
      Inr (get_list ''DescribeAlarms'' (with_optional p
        [(''MaxRecords'', max_records), (''NextToken'', next_token), (''StateValue'', state_value)]) ''MetricAlarm'')))"

definition describe_alarm_history_query ::
  "pyval \<Rightarrow> string option \<Rightarrow> string option \<Rightarrow> pyval \<Rightarrow> pyval \<Rightarrow> pyval \<Rightarrow> query" where
  "describe_alarm_history_query alarm_name start_date end_date max_records history_item_type next_token =
     get_list ''DescribeAlarmHistory''
       (with_optional (opt_time ''EndDate'' end_date (opt_time ''StartDate'' start_date (opt_param ''AlarmName'' alarm_name [])))
         [(''HistoryItemType'', history_item_type), (''MaxRecords'', max_records), (''NextToken'', next_token)]) ''AlarmHistoryItem''"

definition describe_alarms_for_metric_query :: "pyval \<Rightarrow> pyval \<Rightarrow> pyval \<Rightarrow> pyval \<Rightarrow> pyval \<Rightarrow> pyval \<Rightarrow> py_exc + query" where
  "describe_alarms_for_metric_query metric_name namespace period statistic dimensions unit =
     sbind (opt_list ''Dimensions.member'' dimensions (with_optional [(''MetricName'', metric_name), (''Namespace'', namespace)]
       [(''Period'', period), (''Statistic'', statistic)])) (\<lambda>p.
     Inr (get_list ''DescribeAlarmsForMetric'' (opt_param ''Unit'' unit p) ''MetricAlarm''))"

definition cmp_map :: "(string \<times> string) list" where
  "cmp_map = [(''>='', ''GreaterThanOrEqualToThreshold''), (''>'', ''GreaterThanThreshold''),
     (''<'', ''LessThanThreshold''), (''<='', ''LessThanOrEqualToThreshold'')]"

definition rev_cmp_map :: "(string \<times> string) list" where
  "rev_cmp_map = map (\<lambda>(k, v). (v, k)) cmp_map"

record metric_alarm =
  ma_name :: pyval
  ma_metric :: pyval
  ma_namespace :: pyval
  ma_statistic :: pyval
  ma_comparison :: pyval
  ma_threshold :: pyval
  ma_period :: pyval
  ma_evaluation_periods :: pyval
  ma_actions_enabled :: pyval
  ma_alarm_actions :: pyval
  ma_description :: pyval
  ma_dimensions :: pyval
  ma_insufficient_data_actions :: pyval
  ma_ok_actions :: pyval
  ma_unit :: pyval

text \<open>
  A new alarm keeps the name that CloudWatch has for the comparison. The numbers are those that \<open>float\<close> and \<open>int\<close> give.
\<close>

definition new_alarm :: "pyval \<Rightarrow> pyval \<Rightarrow> pyval \<Rightarrow> pyval \<Rightarrow> string \<Rightarrow> rat option \<Rightarrow> int option \<Rightarrow> int option \<Rightarrow> metric_alarm" where
  "new_alarm name metric namespace statistic comparison threshold period evaluation_periods =
     \<lparr>ma_name = name, ma_metric = metric, ma_namespace = namespace, ma_statistic = statistic,
      ma_comparison = (case dget cmp_map comparison of None \<Rightarrow> PNone | Some c \<Rightarrow> PStr c),
      ma_threshold = (case threshold of None \<Rightarrow> PNone | Some x \<Rightarrow> PFloat x), ma_period = (case period of None \<Rightarrow> PNone | Some i \<Rightarrow> PInt i),
      ma_evaluation_periods = (case evaluation_periods of None \<Rightarrow> PNone | Some i \<Rightarrow> PInt i), ma_actions_enabled = PNone,
      ma_alarm_actions = PList [], ma_description = PStr [], ma_dimensions = PList [], ma_insufficient_data_actions = PList [],
      ma_ok_actions = PList [], ma_unit = PNone\<rparr>"

text \<open>The comparison of an alarm that is read from a reply.\<close>

definition alarm_comparison_end :: "string \<Rightarrow> metric_alarm \<Rightarrow> py_exc + metric_alarm" where
  "alarm_comparison_end v a = sbind (dlookup rev_cmp_map v) (\<lambda>c. Inr (a\<lparr>ma_comparison := PStr c\<rparr>))"

definition put_metric_alarm_query :: "metric_alarm \<Rightarrow> py_exc + query" where
  "put_metric_alarm_query a =
     sbind (case ma_comparison a of PStr c \<Rightarrow> dlookup cmp_map c | PList xs \<Rightarrow> Inl TypeError | PDict d \<Rightarrow> Inl TypeError | _ \<Rightarrow> Inl (KeyError [])) (\<lambda>c.
     (let p = [(''AlarmName'', ma_name a), (''MetricName'', ma_metric a), (''Namespace'', ma_namespace a), (''Statistic'', ma_statistic a),
             (''ComparisonOperator'', PStr c), (''Threshold'', ma_threshold a), (''EvaluationPeriods'', ma_evaluation_periods a),
             (''Period'', ma_period a)];
          p = (if ma_actions_enabled a = PNone then p else dset ''ActionsEnabled'' (ma_actions_enabled a) p) in
      sbind (opt_list ''AlarmActions.member'' (ma_alarm_actions a) p) (\<lambda>p.
      sbind (opt_list ''Dimensions.member'' (ma_dimensions a) (opt_param ''AlarmDescription'' (ma_description a) p)) (\<lambda>p.
      sbind (opt_list ''InsufficientDataActions.member'' (ma_insufficient_data_actions a) p) (\<lambda>p.
      sbind (opt_list ''OKActions.member'' (ma_ok_actions a) p) (\<lambda>p.
      Inr (get_status ''PutMetricAlarm'' (opt_param ''Unit'' (ma_unit a) p))))))))"

definition delete_alarms_query :: "pyval \<Rightarrow> py_exc + query" where
  "delete_alarms_query alarms =
     sbind (build_list_params [] alarms ''AlarmNames.member'') (\<lambda>p. Inr (get_status ''DeleteAlarms'' p))"

text \<open>The data of a reason is sent as JSON; \<open>dumps\<close> is a parameter.\<close>

definition set_alarm_state_query :: "(pyval \<Rightarrow> string) \<Rightarrow> pyval \<Rightarrow> pyval \<Rightarrow> pyval \<Rightarrow> pyval \<Rightarrow> query" where
  "set_alarm_state_query dumps alarm_name state_reason state_value state_reason_data =
     (let p = [(''AlarmName'', alarm_name), (''StateReason'', state_reason), (''StateValue'', state_value)] in
      get_status ''SetAlarmState''
        (if py_truth state_reason_data then dset ''StateReasonData'' (PStr (dumps state_reason_data)) p else p))"

definition enable_alarm_actions_query :: "pyval \<Rightarrow> py_exc + query" where
  "enable_alarm_actions_query alarm_names =
     sbind (build_list_params [] alarm_names ''AlarmNames.member'') (\<lambda>p. Inr (get_status ''EnableAlarmActions'' p))"

definition disable_alarm_actions_query :: "pyval \<Rightarrow> py_exc + query" where
  "disable_alarm_actions_query alarm_names =
     sbind (build_list_params [] alarm_names ''AlarmNames.member'') (\<lambda>p. Inr (get_status ''DisableAlarmActions'' p))"


section \<open>Well-formed queries\<close>

lemmas scaling_query_defs = get_all_load_balancers_query_def create_load_balancer_query_def create_load_balancer_listeners_query_def delete_load_balancer_query_def
  delete_load_balancer_listeners_query_def enable_availability_zones_query_def disable_availability_zones_query_def
  register_instances_query_def deregister_instances_query_def describe_instance_health_query_def configure_health_check_query_def
  set_lb_listener_SSL_certificate_query_def create_app_cookie_stickiness_policy_query_def create_lb_cookie_stickiness_policy_query_def
  delete_lb_policy_query_def set_lb_policies_of_listener_query_def create_listener_query_def delete_listener_query_def
  scaling_update_query_def create_auto_scaling_group_query_def group_update_query_def shutdown_instances_query_def
  set_capacity_query_def delete_group_of_query_def create_launch_configuration_query_def create_trigger_query_def
  delete_trigger_query_def get_all_scaling_groups_query_def get_all_launch_configurations_query_def get_all_activities_query_def
  get_all_triggers_query_def terminate_instance_query_def set_instance_health_query_def get_metric_statistics_query_def
  list_metrics_query_def describe_alarms_query_def describe_alarm_history_query_def describe_alarms_for_metric_query_def
  put_metric_alarm_query_def delete_alarms_query_def set_alarm_state_query_def enable_alarm_actions_query_def disable_alarm_actions_query_def
 

inductive scaling_query :: "query \<Rightarrow> bool" where
  "get_all_load_balancers_query load_balancer_names = Inr q \<Longrightarrow> scaling_query q"
| "create_load_balancer_query name zones listeners = Inr q \<Longrightarrow> scaling_query q"
| "create_load_balancer_listeners_query name listeners = Inr q \<Longrightarrow> scaling_query q"
| "scaling_query (delete_load_balancer_query name)"
| "scaling_query (delete_load_balancer_listeners_query name ports)"
| "enable_availability_zones_query load_balancer_name zones_to_add = Inr q \<Longrightarrow> scaling_query q"
| "disable_availability_zones_query load_balancer_name zones_to_remove = Inr q \<Longrightarrow> scaling_query q"
| "register_instances_query load_balancer_name instances = Inr q \<Longrightarrow> scaling_query q"
| "deregister_instances_query load_balancer_name instances = Inr q \<Longrightarrow> scaling_query q"
| "describe_instance_health_query load_balancer_name instances = Inr q \<Longrightarrow> scaling_query q"
| "scaling_query (configure_health_check_query name h)"
| "scaling_query (set_lb_listener_SSL_certificate_query lb_name lb_port ssl_certificate_id)"
| "scaling_query (create_app_cookie_stickiness_policy_query name lb_name policy_name)"
| "scaling_query (create_lb_cookie_stickiness_policy_query cookie_expiration_period lb_name policy_name)"
| "scaling_query (delete_lb_policy_query lb_name policy_name)"
| "set_lb_policies_of_listener_query lb_name lb_port policies = Inr q \<Longrightarrow> scaling_query q"
| "create_listener_query name in_port out_port proto = Inr q \<Longrightarrow> scaling_query q"
| "scaling_query (delete_listener_query name in_port out_port proto)"
| "scaling_query (create_auto_scaling_group_query g)"
| "scaling_query (group_update_query g)"
| "scaling_query (set_capacity_query g capacity)"
| "scaling_query (delete_group_of_query g)"
| "create_launch_configuration_query c = Inr q \<Longrightarrow> scaling_query q"
| "scaling_query (create_trigger_query t)"
| "scaling_query (delete_trigger_query t)"
| "get_all_scaling_groups_query names = Inr q \<Longrightarrow> scaling_query q"
| "get_all_launch_configurations_query names = Inr q \<Longrightarrow> scaling_query q"
| "get_all_activities_query autoscale_group activity_ids max_records = Inr q \<Longrightarrow> scaling_query q"
| "scaling_query (get_all_triggers_query autoscale_group)"
| "scaling_query (terminate_instance_query instance_id decrement_capacity)"
| "scaling_query (set_instance_health_query instance_id health_status should_respect_grace_period)"
| "get_metric_statistics_query period start_time end_time metric_name namespace statistics dimensions unit = Inr q \<Longrightarrow> scaling_query q"
| "scaling_query (list_metrics_query next_token)"
| "describe_alarms_query action_prefix alarm_name_prefix alarm_names max_records state_value next_token = Inr q \<Longrightarrow> scaling_query q"
| "scaling_query (describe_alarm_history_query alarm_name start_date end_date max_records history_item_type next_token)"
| "describe_alarms_for_metric_query metric_name namespace period statistic dimensions unit = Inr q \<Longrightarrow> scaling_query q"
| "put_metric_alarm_query a = Inr q \<Longrightarrow> scaling_query q"
| "delete_alarms_query alarms = Inr q \<Longrightarrow> scaling_query q"
| "scaling_query (set_alarm_state_query dumps alarm_name state_reason state_value state_reason_data)"
| "enable_alarm_actions_query alarm_names = Inr q \<Longrightarrow> scaling_query q"
| "disable_alarm_actions_query alarm_names = Inr q \<Longrightarrow> scaling_query q"

lemma params_ok_between [query_intros]: "CHR ''.'' \<in> set pre \<Longrightarrow> params_ok p \<Longrightarrow> params_ok (number_between pre suf xs p)"
  unfolding number_between_def by (rule params_ok_fold) (auto simp: between_key_def intro!: params_ok_dset)

lemma params_ok_member: "params_ok p \<Longrightarrow> params_ok (add_member label m p)"
proof -
  have "params_ok (fold (\<lambda>(k, v). dset (label @ ''.member.'' @ nat_str i @ ''.'' @ k) v) d p)" if "params_ok p" for i d p
    using that by (intro params_ok_fold) (auto intro!: params_ok_dset)
  then show "params_ok p \<Longrightarrow> ?thesis" by (auto simp: add_member_def intro!: params_ok_dset split: pyval.splits)
qed

lemma params_ok_members [query_intros]: "params_ok p \<Longrightarrow> params_ok (add_members label xs p)"
  unfolding add_members_def by (rule params_ok_fold) (auto intro: params_ok_member)

lemma params_ok_listener: "params_ok p \<Longrightarrow> add_listener i l p = Inr q \<Longrightarrow> params_ok q"
  by (auto simp: add_listener_def sbind_Inr_iff Let_def between_key_def intro!: params_ok_dset split: if_splits)

lemma params_ok_dimensions [query_intros]: "params_ok p \<Longrightarrow> params_ok (fold add_dimension xs p)"
  by (rule params_ok_fold) (auto simp: add_dimension_def between_key_def intro!: params_ok_dset)

lemma sum_ok_scaling [query_intros]:
  "CHR ''.'' \<in> set pre \<Longrightarrow> params_ok p \<Longrightarrow> sum_ok (build_between_params p v pre suf)"
  "params_ok p \<Longrightarrow> sum_ok (build_member_params p v label)"
  "params_ok p \<Longrightarrow> sum_ok (opt_members label v p)"
  "params_ok p \<Longrightarrow> sum_ok (add_listeners ls i p)"
proof -
  show "CHR ''.'' \<in> set pre \<Longrightarrow> params_ok p \<Longrightarrow> sum_ok (build_between_params p v pre suf)"
    by (auto simp: sum_ok_def build_between_params_def intro: params_ok_between split: pyval.splits if_splits)
  show *: "params_ok p \<Longrightarrow> sum_ok (build_member_params p v label)" for p v label
    by (auto simp: sum_ok_def build_member_params_def intro: params_ok_members split: pyval.splits if_splits)
  show "params_ok p \<Longrightarrow> sum_ok (opt_members label v p)" using * by (simp add: opt_members_def sum_ok_def)
  show "params_ok p \<Longrightarrow> sum_ok (add_listeners ls i p)"
    by (induction ls arbitrary: i p) (auto simp: sum_ok_def sbind_Inr_iff dest: params_ok_listener)
qed

lemma sum_ok_plain [query_intros]:
  "params_ok p \<Longrightarrow> sum_ok (Inr p)"
  "(b \<Longrightarrow> sum_ok r) \<Longrightarrow> (\<not> b \<Longrightarrow> sum_ok r') \<Longrightarrow> sum_ok (if b then r else r')"
  by (simp_all add: sum_ok_def)

lemma builds_ok_any: "(\<And>x. r = Inr x \<Longrightarrow> builds_ok (f x)) \<Longrightarrow> builds_ok (sbind r f)"
  by (cases r) (simp_all add: builds_ok_def)

lemma put_metric_alarm_ok: "builds_ok (put_metric_alarm_query a)"
  unfolding put_metric_alarm_query_def Let_def
  by (rule builds_ok_any) (auto simp: params_ok_Cons reserved_def intro!: query_intros)

lemma scaling_query_ok: "scaling_query q \<Longrightarrow> query_ok q"
  by (erule scaling_query.cases; hypsubst; (rule builds_okD [OF _ put_metric_alarm_ok], assumption)?; (erule builds_okD)?;
      unfold scaling_query_defs Let_def; (auto simp: params_ok_Cons reserved_def simp del: add_listeners.simps intro!: query_intros)?)

end
