(* ===== verification/BotoVpc.thy ===== *)
theory BotoVpc
  imports BotoScaling
begin

text \<open>
  \<open>boto/vpc/__init__.py\<close>: the queries of \<open>VPCConnection\<close>, one definition per method. Filters are a list of pairs.
\<close>


section \<open>Filters\<close>

text \<open>The name of the value's parameter is a format that nothing is put into.\<close>

definition vpc_value_key :: string where
  "vpc_value_key = ''Filter.%d.Value.1''"

definition add_vpc_filter :: "nat \<times> pyval \<times> pyval \<Rightarrow> pydict \<Rightarrow> pydict" where
  "add_vpc_filter f p =
     (case f of (i, name, v) \<Rightarrow> dset vpc_value_key v (dset (between_key ''Filter.'' ''.Key'' i) name p))"

definition vpc_filters :: "(pyval \<times> pyval) list \<Rightarrow> pydict \<Rightarrow> pydict" where
  "vpc_filters fs p = fold add_vpc_filter (enumerate 1 fs) p"


section \<open>Methods\<close>

definition get_all_vpcs_query :: "pyval \<Rightarrow> (pyval \<times> pyval) list \<Rightarrow> py_exc + query" where
  "get_all_vpcs_query vpc_ids filters =
     sbind (opt_list ''VpcId'' vpc_ids []) (\<lambda>p. Inr (get_list ''DescribeVpcs'' (vpc_filters filters p) ''VPC''))"

definition create_vpc_query :: "pyval \<Rightarrow> query" where
  "create_vpc_query cidr_block = get_object ''CreateVpc'' [(''CidrBlock'', cidr_block)] ''VPC''"

definition delete_vpc_query :: "pyval \<Rightarrow> query" where
  "delete_vpc_query vpc_id = get_status ''DeleteVpc'' [(''VpcId'', vpc_id)]"

definition get_all_customer_gateways_query :: "pyval \<Rightarrow> (pyval \<times> pyval) list \<Rightarrow> py_exc + query" where
  "get_all_customer_gateways_query customer_gateway_ids filters =
     sbind (opt_list ''CustomerGatewayId'' customer_gateway_ids []) (\<lambda>p.
     Inr (get_list ''DescribeCustomerGateways'' (vpc_filters filters p) ''CustomerGateway''))"

definition create_customer_gateway_query :: "pyval \<Rightarrow> pyval \<Rightarrow> pyval \<Rightarrow> query" where
  "create_customer_gateway_query gateway_type ip_address bgp_asn =
     get_object ''CreateCustomerGateway'' [(''Type'', gateway_type), (''IpAddress'', ip_address), (''BgpAsn'', bgp_asn)] ''CustomerGateway''"

definition delete_customer_gateway_query :: "pyval \<Rightarrow> query" where
  "delete_customer_gateway_query customer_gateway_id = get_status ''DeleteCustomerGateway'' [(''CustomerGatewayId'', customer_gateway_id)]"

definition get_all_vpn_gateways_query :: "pyval \<Rightarrow> (pyval \<times> pyval) list \<Rightarrow> py_exc + query" where
  "get_all_vpn_gateways_query vpn_gateway_ids filters =
     sbind (opt_list ''VpnGatewayId'' vpn_gateway_ids []) (\<lambda>p.
     Inr (get_list ''DescribeVpnGateways'' (vpc_filters filters p) ''VpnGateway''))"

definition create_vpn_gateway_query :: "pyval \<Rightarrow> pyval \<Rightarrow> query" where
  "create_vpn_gateway_query gateway_type availability_zone =
     get_object ''CreateVpnGateway'' (opt_param ''AvailabilityZone'' availability_zone [(''Type'', gateway_type)]) ''VpnGateway''"

definition delete_vpn_gateway_query :: "pyval \<Rightarrow> query" where
  "delete_vpn_gateway_query vpn_gateway_id = get_status ''DeleteVpnGateway'' [(''VpnGatewayId'', vpn_gateway_id)]"

definition attach_vpn_gateway_query :: "pyval \<Rightarrow> pyval \<Rightarrow> query" where
  "attach_vpn_gateway_query vpn_gateway_id vpc_id =
     get_object ''AttachVpnGateway'' [(''VpnGatewayId'', vpn_gateway_id), (''VpcId'', vpc_id)] ''Attachment''"

definition get_all_subnets_query :: "pyval \<Rightarrow> (pyval \<times> pyval) list \<Rightarrow> py_exc + query" where
  "get_all_subnets_query subnet_ids filters =
     sbind (opt_list ''SubnetId'' subnet_ids []) (\<lambda>p. Inr (get_list ''DescribeSubnets'' (vpc_filters filters p) ''Subnet''))"

definition create_subnet_query :: "pyval \<Rightarrow> pyval \<Rightarrow> pyval \<Rightarrow> query" where
  "create_subnet_query vpc_id cidr_block availability_zone =
     get_object ''CreateSubnet'' (opt_param ''AvailabilityZone'' availability_zone [(''VpcId'', vpc_id), (''CidrBlock'', cidr_block)]) ''Subnet''"

definition delete_subnet_query :: "pyval \<Rightarrow> query" where
  "delete_subnet_query subnet_id = get_status ''DeleteSubnet'' [(''SubnetId'', subnet_id)]"

definition get_all_dhcp_options_query :: "pyval \<Rightarrow> py_exc + query" where
  "get_all_dhcp_options_query dhcp_options_ids =
     sbind (opt_list ''DhcpOptionsId'' dhcp_options_ids []) (\<lambda>p. Inr (get_list ''DescribeDhcpOptions'' p ''DhcpOptions''))"

definition create_dhcp_options_query :: "pyval \<Rightarrow> pyval \<Rightarrow> pyval \<Rightarrow> query" where
  "create_dhcp_options_query vpc_id cidr_block availability_zone =
     get_object ''CreateDhcpOption'' (opt_param ''AvailabilityZone'' availability_zone [(''VpcId'', vpc_id), (''CidrBlock'', cidr_block)]) ''DhcpOptions''"

definition delete_dhcp_options_query :: "pyval \<Rightarrow> query" where
  "delete_dhcp_options_query dhcp_options_id = get_status ''DeleteDhcpOptions'' [(''DhcpOptionsId'', dhcp_options_id)]"

definition associate_dhcp_options_query :: "pyval \<Rightarrow> pyval \<Rightarrow> query" where
  "associate_dhcp_options_query dhcp_options_id vpc_id =
     get_status ''AssociateDhcpOptions'' [(''DhcpOptionsId'', dhcp_options_id), (''VpcId'', vpc_id)]"

definition get_all_vpn_connections_query :: "pyval \<Rightarrow> (pyval \<times> pyval) list \<Rightarrow> py_exc + query" where
  "get_all_vpn_connections_query vpn_connection_ids filters =
     sbind (opt_list ''Vpn_ConnectionId'' vpn_connection_ids []) (\<lambda>p.
     Inr (get_list ''DescribeVpnConnections'' (vpc_filters filters p) ''VpnConnection''))"

definition create_vpn_connection_query :: "pyval \<Rightarrow> pyval \<Rightarrow> pyval \<Rightarrow> query" where
  "create_vpn_connection_query connection_type customer_gateway_id vpn_gateway_id =
     get_object ''CreateVpnConnection''
       [(''Type'', connection_type), (''CustomerGatewayId'', customer_gateway_id), (''VpnGatewayId'', vpn_gateway_id)] ''VpnConnection''"

definition delete_vpn_connection_query :: "pyval \<Rightarrow> query" where
  "delete_vpn_connection_query vpn_connection_id = get_status ''DeleteVpnConnection'' [(''VpnConnectionId'', vpn_connection_id)]"

end
