(* ===== verification/BotoEmr.thy ===== *)
theory BotoEmr
  imports BotoScaling
begin

text \<open>
  \<open>boto/emr/connection.py\<close>, \<open>boto/emr/step.py\<close> and \<open>boto/emr/bootstrap_action.py\<close>: job flows with their steps. The default
  of the argument \<open>steps\<close> is one list for all calls, which \<open>run_jobflow\<close> changes: it is an argument and a result here.
\<close>


section \<open>Steps and actions\<close>

datatype step =
    JarStep (js_name: pyval) (js_jar: pyval) (js_main_class: pyval) (js_action_on_failure: pyval) (js_step_args: "pyval list")
  | StreamingStep (ss_name: pyval) (ss_mapper: pyval) (ss_reducer: pyval) (ss_action_on_failure: pyval) (ss_cache_files: "pyval list")
      (ss_cache_archives: "pyval list") (ss_step_args: "pyval list") (ss_input: pyval) (ss_output: pyval)

text \<open>\<open>__init__\<close>: arguments are a text, a list or nothing.\<close>

definition as_args :: "pyval \<Rightarrow> pyval list" where
  "as_args v = (case v of PStr s \<Rightarrow> [PStr s] | PList xs \<Rightarrow> xs | _ \<Rightarrow> [])"

fun step_name :: "step \<Rightarrow> pyval" where
  "step_name (JarStep n j c f as) = n"
| "step_name (StreamingStep n m r f cf ca as i out) = n"

fun step_action_on_failure :: "step \<Rightarrow> pyval" where
  "step_action_on_failure (JarStep n j c f as) = f"
| "step_action_on_failure (StreamingStep n m r f cf ca as i out) = f"

fun step_jar :: "step \<Rightarrow> pyval" where
  "step_jar (JarStep n j c f as) = j"
| "step_jar (StreamingStep n m r f cf ca as i out) = PStr ''/home/hadoop/contrib/streaming/hadoop-0.18-streaming.jar''"

fun step_main_class :: "step \<Rightarrow> pyval" where
  "step_main_class (JarStep n j c f as) = c"
| "step_main_class (StreamingStep n m r f cf ca as i out) = PNone"

definition flagged :: "string \<Rightarrow> pyval list \<Rightarrow> pyval list" where
  "flagged flag vs = concat (map (\<lambda>v. [PStr flag, v]) vs)"

definition streaming_args :: "step \<Rightarrow> pyval list" where
  "streaming_args s =
     [PStr ''-mapper'', ss_mapper s]
     @ (if py_truth (ss_reducer s) then [PStr ''-reducer'', ss_reducer s] else [])
     @ (if py_truth (ss_input s) then flagged ''-input'' (case ss_input s of PList xs \<Rightarrow> xs | v \<Rightarrow> [v]) else [])
     @ (if py_truth (ss_output s) then [PStr ''-output'', ss_output s] else [])
     @ flagged ''-cacheFile'' (ss_cache_files s) @ flagged ''-cacheArchive'' (ss_cache_archives s) @ ss_step_args s
     @ (if py_truth (ss_reducer s) then [] else [PStr ''-jobconf'', PStr ''mapred.reduce.tasks=0''])"

definition step_args :: "step \<Rightarrow> pyval list" where
  "step_args s = (case s of JarStep n j c f as \<Rightarrow> as | _ \<Rightarrow> streaming_args s)"

text \<open>An action's name may be missing when the action is not of the class of boto.\<close>

record bootstrap_action =
  ba_name :: "pyval option"
  ba_path :: pyval
  ba_args :: "pyval list"


section \<open>Parameters\<close>

definition build_step_args :: "step \<Rightarrow> pydict" where
  "build_step_args s =
     dset ''Name'' (step_name s)
       (number_params ''HadoopJarStep.Args.member'' (step_args s)
         (opt_param ''HadoopJarStep.MainClass'' (step_main_class s)
           [(''ActionOnFailure'', step_action_on_failure s), (''HadoopJarStep.Jar'', step_jar s)]))"

definition build_bootstrap_action_args :: "bootstrap_action \<Rightarrow> pydict" where
  "build_bootstrap_action_args a =
     number_params ''ScriptBootstrapAction.Args.member'' (ba_args a)
       (case ba_name a of None \<Rightarrow> [(''ScriptBootstrapAction.Path'', ba_path a)]
        | Some n \<Rightarrow> [(''ScriptBootstrapAction.Path'', ba_path a), (''Name'', n)])"

text \<open>The names are spelled as in the code.\<close>

definition numbered_dict :: "string \<Rightarrow> nat \<times> pydict \<Rightarrow> pydict \<Rightarrow> pydict" where
  "numbered_dict label d p = fold (\<lambda>(k, v). dset (label @ nat_str (fst d) @ ''.'' @ k) v) (snd d) p"

definition build_step_list :: "pydict list \<Rightarrow> pydict \<Rightarrow> pydict" where
  "build_step_list steps p = fold (numbered_dict ''Steps.memeber.'') (enumerate 1 steps) p"

definition build_bootstrap_action_list :: "pydict list \<Rightarrow> pydict \<Rightarrow> pydict" where
  "build_bootstrap_action_list actions p = fold (numbered_dict ''BootstrapActions.memeber.'') (enumerate 1 actions) p"

text \<open>\<open>str(keep_alive).lower()\<close> of a boolean.\<close>

definition build_instance_args :: "pyval \<Rightarrow> pyval \<Rightarrow> pyval \<Rightarrow> pyval \<Rightarrow> pyval \<Rightarrow> bool \<Rightarrow> pyval \<Rightarrow> pydict \<Rightarrow> pydict" where
  "build_instance_args ec2_keyname availability_zone master_instance_type slave_instance_type num_instances keep_alive hadoop_version p =
     with_optional
       (dset ''Instances.HadoopVersion'' hadoop_version
       (dset ''Instances.KeepJobFlowAliveWhenNoSteps'' (bool_text keep_alive)
       (dset ''Instances.InstanceCount'' num_instances
       (dset ''Instances.SlaveInstanceType'' slave_instance_type
       (dset ''Instances.MasterInstanceType'' master_instance_type p)))))
       [(''Instances.Ec2KeyName'', ec2_keyname), (''Placement'', availability_zone)]"


section \<open>Methods\<close>

definition describe_jobflows_query :: "pyval \<Rightarrow> pyval \<Rightarrow> string option \<Rightarrow> string option \<Rightarrow> py_exc + query" where
  "describe_jobflows_query states jobflow_ids created_after created_before =
     sbind (opt_list ''JobFlowStates.member'' states []) (\<lambda>p.
     sbind (opt_list ''JobFlowIds.member'' jobflow_ids p) (\<lambda>p.
     Inr (get_list ''DescribeJobFlows'' (opt_time ''CreatedBefore'' created_before (opt_time ''CreatedAfter'' created_after p)) ''JobFlow'')))"

definition describe_jobflow_query :: "pyval \<Rightarrow> py_exc + query" where
  "describe_jobflow_query jobflow_id =
     sbind (describe_jobflows_query PNone (PList [jobflow_id]) None None) (\<lambda>q. Inr (q\<lparr>q_use := FirstOrNone\<rparr>))"

definition terminate_jobflows_query :: "pyval \<Rightarrow> py_exc + query" where
  "terminate_jobflows_query jobflow_ids =
     sbind (build_list_params [] jobflow_ids ''JobFlowIds.member'') (\<lambda>p. Inr (get_status ''TerminateJobFlows'' p))"

definition terminate_jobflow_query :: "pyval \<Rightarrow> py_exc + query" where
  "terminate_jobflow_query jobflow_id = terminate_jobflows_query (PList [jobflow_id])"

definition add_jobflow_steps_query :: "pyval \<Rightarrow> step list \<Rightarrow> query" where
  "add_jobflow_steps_query jobflow_id steps =
     get_object ''AddJobFlowSteps'' (build_step_list (map build_step_args steps) [(''JobFlowId'', jobflow_id)]) ''RunJobFlowResponse''"

definition debugging_step :: step where
  "debugging_step = JarStep (PStr ''Setup Hadoop Debugging'')
     (PStr ''s3n://us-east-1.elasticmapreduce/libs/script-runner/script-runner.jar'') PNone (PStr ''TERMINATE_JOB_FLOW'')
     [PStr ''s3n://us-east-1.elasticmapreduce/libs/state-pusher/0.1/fetch'']"

record jobflow_args =
  jf_name :: pyval
  jf_log_uri :: pyval
  jf_ec2_keyname :: pyval
  jf_availability_zone :: pyval
  jf_master_instance_type :: pyval
  jf_slave_instance_type :: pyval
  jf_num_instances :: pyval
  jf_action_on_failure :: pyval
  jf_keep_alive :: bool
  jf_enable_debugging :: bool
  jf_hadoop_version :: pyval
  jf_bootstrap_actions :: "bootstrap_action list"

definition jobflow_params :: "jobflow_args \<Rightarrow> step list \<Rightarrow> pydict" where
  "jobflow_params a steps =
     (let p = dset ''LogUri'' (jf_log_uri a) (dset ''Name'' (jf_name a) (opt_param ''ActionOnFailure'' (jf_action_on_failure a) []));
          p = build_instance_args (jf_ec2_keyname a) (jf_availability_zone a) (jf_master_instance_type a) (jf_slave_instance_type a)
                (jf_num_instances a) (jf_keep_alive a) (jf_hadoop_version a) p in
      build_bootstrap_action_list (map build_bootstrap_action_args (jf_bootstrap_actions a)) (build_step_list (map build_step_args steps) p))"

text \<open>The list of steps that is used is changed when debugging is asked for, whether it is the caller's or the default.\<close>

definition run_jobflow :: "jobflow_args \<Rightarrow> step list \<Rightarrow> query \<times> step list" where
  "run_jobflow a steps =
     (let steps = (if jf_enable_debugging a then debugging_step # steps else steps) in
      ((get_object ''RunJobFlow'' (jobflow_params a steps) ''RunJobFlowResponse'')\<lparr>q_use := Attributes [''jobflowid'']\<rparr>, steps))"

text \<open>Calls without the argument, one after the other: the default that each finds is the one that the call before left.\<close>

fun run_jobflows :: "jobflow_args list \<Rightarrow> step list \<Rightarrow> query list \<times> step list" where
  "run_jobflows [] default_steps = ([], default_steps)"
| "run_jobflows (a # as) default_steps =
     (let (q, d) = run_jobflow a default_steps; (qs, d') = run_jobflows as d in (q # qs, d'))"

end
