(* ===== verification/BotoSimpleDb.thy ===== *)
theory BotoSimpleDb
  imports BotoScaling
begin

text \<open>
  \<open>boto/sdb/connection.py\<close> and \<open>boto/sdb/item.py\<close>: the queries of \<open>SDBConnection\<close>, how attributes with one or several values become
  numbered parameters, and items as they are read from replies. A converter of values is a function; without one it is the identity.
\<close>


section \<open>Attributes as parameters\<close>

type_synonym converter = "pyval \<Rightarrow> pyval"

text \<open>
  The numbers of the values. After a list the number is raised once more, so that one is left out. The keys are in order.
\<close>

fun number_values :: "nat \<Rightarrow> string \<Rightarrow> pyval list \<Rightarrow> (nat \<times> string \<times> pyval) list" where
  "number_values i k [] = []"
| "number_values i k (v # vs) = (i, k, v) # number_values (Suc i) k vs"

fun number_attributes :: "nat \<Rightarrow> pydict \<Rightarrow> (nat \<times> string \<times> pyval) list" where
  "number_attributes i [] = []"
| "number_attributes i ((k, v) # d) =
     (case v of
        PList vs \<Rightarrow> number_values i k vs @ number_attributes (i + length vs + 1) d
      | _ \<Rightarrow> (i, k, v) # number_attributes (i + 1) d)"

definition attribute_key :: "string \<Rightarrow> string \<Rightarrow> nat \<Rightarrow> string" where
  "attribute_key label field i = label @ ''.'' @ nat_str i @ ''.'' @ field"

definition add_attribute :: "converter \<Rightarrow> bool \<Rightarrow> string \<Rightarrow> nat \<times> string \<times> pyval \<Rightarrow> pydict \<Rightarrow> pydict" where
  "add_attribute conv replace label e p =
     (case e of (i, k, v) \<Rightarrow>
       (let p = dset (attribute_key label ''Value'' i) (conv v) (dset (attribute_key label ''Name'' i) (PStr k) p) in
        if replace then dset (attribute_key label ''Replace'' i) (PStr ''true'') p else p))"

definition in_key_order :: "pydict \<Rightarrow> pydict" where
  "in_key_order d = map (\<lambda>k. (k, pget d k)) (sort (map fst d))"

definition build_name_value_list :: "converter \<Rightarrow> pydict \<Rightarrow> bool \<Rightarrow> string \<Rightarrow> pydict \<Rightarrow> pydict" where
  "build_name_value_list conv attributes replace label p =
     fold (add_attribute conv replace label) (number_attributes 1 (in_key_order attributes)) p"

text \<open>A value that is expected, or that there is any or none.\<close>

definition build_expected_value :: "pyval \<Rightarrow> pyval \<Rightarrow> pydict \<Rightarrow> pydict" where
  "build_expected_value name v p =
     (let p = dset ''Expected.1.Name'' name p in
      case v of
        PBool b \<Rightarrow> dset ''Expected.1.Exists'' (bool_text b) p
      | _ \<Rightarrow> dset ''Expected.1.Value'' v p)"

definition opt_expected :: "(pyval \<times> pyval) option \<Rightarrow> pydict \<Rightarrow> pydict" where
  "opt_expected e p = (case e of None \<Rightarrow> p | Some (name, v) \<Rightarrow> build_expected_value name v p)"

text \<open>Items in a batch, and their attributes, are numbered from 0 without gaps.\<close>

fun number_batch :: "nat \<Rightarrow> pydict \<Rightarrow> (nat \<times> string \<times> pyval) list" where
  "number_batch j [] = []"
| "number_batch j ((k, v) # d) =
     (case v of
        PList vs \<Rightarrow> number_values j k vs @ number_batch (j + length vs) d
      | _ \<Rightarrow> (j, k, v) # number_batch (j + 1) d)"

definition add_item :: "converter \<Rightarrow> bool \<Rightarrow> nat \<times> string \<times> pydict option \<Rightarrow> pydict \<Rightarrow> pydict" where
  "add_item conv replace e p =
     (case e of (i, name, item) \<Rightarrow>
       fold (add_attribute conv replace (''Item.'' @ nat_str i @ ''.Attribute''))
         (case item of None \<Rightarrow> [] | Some d \<Rightarrow> number_batch 0 d)
         (dset (''Item.'' @ nat_str i @ ''.ItemName'') (PStr name) p))"

definition build_batch_list :: "converter \<Rightarrow> (string \<times> pydict option) list \<Rightarrow> bool \<Rightarrow> pydict \<Rightarrow> pydict" where
  "build_batch_list conv items replace p = fold (add_item conv replace) (enumerate 0 items) p"

definition build_name_list :: "string list \<Rightarrow> pydict \<Rightarrow> pydict" where
  "build_name_list names p = fold (\<lambda>(i, n). dset (attribute_key ''Attribute'' ''Name'' i) (PStr n)) (enumerate 1 (sort names)) p"


section \<open>Methods\<close>

definition get_all_domains_query :: "pyval \<Rightarrow> pyval \<Rightarrow> query" where
  "get_all_domains_query max_domains next_token =
     get_list ''ListDomains'' (with_optional [] [(''MaxNumberOfDomains'', max_domains), (''NextToken'', next_token)]) ''Domain''"

definition create_domain_query :: "pyval \<Rightarrow> query" where
  "create_domain_query domain_name =
     (get_object ''CreateDomain'' [(''DomainName'', domain_name)] ''Domain'')\<lparr>q_use := WithAttributes [(''name'', domain_name)]\<rparr>"

definition select_query :: "pyval \<Rightarrow> bool \<Rightarrow> pyval \<Rightarrow> query" where
  "select_query text consistent_read next_token =
     get_list ''Select'' (with_optional [(''SelectExpression'', text)]
       [(''ConsistentRead'', if consistent_read then PStr ''true'' else PNone), (''NextToken'', next_token)]) ''Item''"

text \<open>A domain is an object, or a name, for which a query is sent first that shows whether it exists.\<close>

definition validate_domain_query :: "string \<Rightarrow> query" where
  "validate_domain_query domain_name = select_query (PStr (''select * from `'' @ domain_name @ ''` limit 1'')) False PNone"

datatype domain_ref = DomainObject string | DomainNamed string

fun domain_and_name :: "domain_ref \<Rightarrow> query list \<times> pyval" where
  "domain_and_name (DomainObject n) = ([], PStr n)"
| "domain_and_name (DomainNamed n) = ([validate_domain_query n], PStr n)"

definition in_domain :: "domain_ref \<Rightarrow> (pyval \<Rightarrow> query) \<Rightarrow> query list" where
  "in_domain d f = (case domain_and_name d of (qs, n) \<Rightarrow> qs @ [f n])"

definition delete_domain_query :: "pyval \<Rightarrow> query" where
  "delete_domain_query n = get_status ''DeleteDomain'' [(''DomainName'', n)]"

definition delete_domain :: "domain_ref \<Rightarrow> query list" where
  "delete_domain d = in_domain d (\<lambda>n. delete_domain_query n)"

definition domain_metadata_query :: "pyval \<Rightarrow> query" where
  "domain_metadata_query n = get_object ''DomainMetadata'' [(''DomainName'', n)] ''DomainMetaData''"

definition domain_metadata :: "domain_ref \<Rightarrow> query list" where
  "domain_metadata d = in_domain d (\<lambda>n. domain_metadata_query n)"

definition put_attributes_query :: "converter \<Rightarrow> pyval \<Rightarrow> pyval \<Rightarrow> pydict \<Rightarrow> bool \<Rightarrow> (pyval \<times> pyval) option \<Rightarrow> query" where
  "put_attributes_query conv n item_name attributes replace expected =
     get_status ''PutAttributes''
       (opt_expected expected (build_name_value_list conv attributes replace ''Attribute'' [(''DomainName'', n), (''ItemName'', item_name)]))"

definition put_attributes :: "converter \<Rightarrow> domain_ref \<Rightarrow> pyval \<Rightarrow> pydict \<Rightarrow> bool \<Rightarrow> (pyval \<times> pyval) option \<Rightarrow> query list" where
  "put_attributes conv d item_name attributes replace expected =
     in_domain d (\<lambda>n. put_attributes_query conv n item_name attributes replace expected)"

definition batch_put_attributes_query :: "converter \<Rightarrow> pyval \<Rightarrow> (string \<times> pydict option) list \<Rightarrow> bool \<Rightarrow> query" where
  "batch_put_attributes_query conv n items replace =
     (get_status ''BatchPutAttributes'' (build_batch_list conv items replace [(''DomainName'', n)]))\<lparr>q_verb := ''POST''\<rparr>"

definition batch_put_attributes :: "converter \<Rightarrow> domain_ref \<Rightarrow> (string \<times> pydict option) list \<Rightarrow> bool \<Rightarrow> query list" where
  "batch_put_attributes conv d items replace = in_domain d (\<lambda>n. batch_put_attributes_query conv n items replace)"

definition sdb_get_attributes_query :: "pyval \<Rightarrow> pyval \<Rightarrow> pyval \<Rightarrow> bool \<Rightarrow> query" where
  "sdb_get_attributes_query n item_name attribute_names consistent_read =
     (let p = opt_flag ''ConsistentRead'' (PBool consistent_read) [(''DomainName'', n), (''ItemName'', item_name)] in
      get_object ''GetAttributes''
        (if py_truth attribute_names
         then number_params ''AttributeName'' (case attribute_names of PList xs \<Rightarrow> xs | v \<Rightarrow> [v]) p else p) ''Item'')"

definition sdb_get_attributes :: "domain_ref \<Rightarrow> pyval \<Rightarrow> pyval \<Rightarrow> bool \<Rightarrow> query list" where
  "sdb_get_attributes d item_name attribute_names consistent_read =
     in_domain d (\<lambda>n. sdb_get_attributes_query n item_name attribute_names consistent_read)"

text \<open>Which attributes to delete: names in a list, values in a dict; anything else is not looked at.\<close>

datatype selection = Everything | NameList "string list" | ValueDict pydict | OtherNames pyval

definition delete_attributes_query :: "converter \<Rightarrow> pyval \<Rightarrow> pyval \<Rightarrow> selection \<Rightarrow> (pyval \<times> pyval) option \<Rightarrow> query" where
  "delete_attributes_query conv n item_name attr_names expected =
     (let p = [(''DomainName'', n), (''ItemName'', item_name)] in
      get_status ''DeleteAttributes''
        (opt_expected expected
          (case attr_names of
             NameList names \<Rightarrow> build_name_list names p
           | ValueDict d \<Rightarrow> build_name_value_list conv d False ''Attribute'' p
           | _ \<Rightarrow> p)))"

definition sdb_delete_attributes :: "converter \<Rightarrow> domain_ref \<Rightarrow> pyval \<Rightarrow> selection \<Rightarrow> (pyval \<times> pyval) option \<Rightarrow> query list" where
  "sdb_delete_attributes conv d item_name attr_names expected =
     in_domain d (\<lambda>n. delete_attributes_query conv n item_name attr_names expected)"

definition batch_delete_attributes_query :: "converter \<Rightarrow> pyval \<Rightarrow> (string \<times> pydict option) list \<Rightarrow> query" where
  "batch_delete_attributes_query conv n items =
     (get_status ''BatchDeleteAttributes'' (build_batch_list conv items False [(''DomainName'', n)]))\<lparr>q_verb := ''POST''\<rparr>"

definition batch_delete_attributes :: "converter \<Rightarrow> domain_ref \<Rightarrow> (string \<times> pydict option) list \<Rightarrow> query list" where
  "batch_delete_attributes conv d items = in_domain d (\<lambda>n. batch_delete_attributes_query conv n items)"

definition select :: "domain_ref \<Rightarrow> pyval \<Rightarrow> bool \<Rightarrow> pyval \<Rightarrow> query list" where
  "select d text consistent_read next_token = in_domain d (\<lambda>n. select_query text consistent_read next_token)"

text \<open>A thread that reads items one after the other, by the name of the domain.\<close>

fun item_thread :: "string \<Rightarrow> pyval list \<Rightarrow> query list" where
  "item_thread domain_name [] = []"
| "item_thread domain_name (i # is) =
     sdb_get_attributes (DomainNamed domain_name) i PNone False @ item_thread domain_name is"


section \<open>Items of replies\<close>

record item_record =
  it_name :: string
  it_values :: pydict
  it_encoding :: "string option"
  it_in_attribute :: bool
  it_last_key :: "string option"
  it_request_id :: "string option"

definition new_sdb_item :: "string \<Rightarrow> item_record" where
  "new_sdb_item name = \<lparr>it_name = name, it_values = [], it_encoding = None, it_in_attribute = False, it_last_key = None, it_request_id = None\<rparr>"

definition item_start :: "string \<Rightarrow> string option \<Rightarrow> item_record \<Rightarrow> item_record" where
  "item_start name encoding x =
     (let y = (if name = ''Attribute'' then x\<lparr>it_in_attribute := True\<rparr> else x) in y\<lparr>it_encoding := encoding\<rparr>)"

text \<open>The decoding of base64 is a parameter.\<close>

definition item_decode :: "(string \<Rightarrow> string) \<Rightarrow> string \<Rightarrow> item_record \<Rightarrow> string \<times> item_record" where
  "item_decode unb64 v x = (if it_encoding x = Some ''base64'' then (unb64 v, x\<lparr>it_encoding := None\<rparr>) else (v, x))"

definition item_add :: "string \<Rightarrow> pyval \<Rightarrow> pydict \<Rightarrow> pydict" where
  "item_add k v d =
     (case dget d k of
        None \<Rightarrow> dset k v d
      | Some w \<Rightarrow> dset k (PList ((case w of PList vs \<Rightarrow> vs | _ \<Rightarrow> [w]) @ [v])) d)"

definition item_end :: "(string \<Rightarrow> string) \<Rightarrow> converter \<Rightarrow> string \<Rightarrow> string \<Rightarrow> item_record \<Rightarrow> py_exc + item_record" where
  "item_end unb64 conv name v x =
     (if name = ''ItemName'' \<or> name = ''Name'' \<and> \<not> it_in_attribute x
      then (case item_decode unb64 v x of (s, y) \<Rightarrow> Inr (y\<lparr>it_name := s\<rparr>))
      else if name = ''Name'' then (case item_decode unb64 v x of (s, y) \<Rightarrow> Inr (y\<lparr>it_last_key := Some s\<rparr>))
      else if name = ''Value'' then
        (case it_last_key x of
           None \<Rightarrow> Inl (AttributeError ''last_key'')
         | Some k \<Rightarrow> (case item_decode unb64 v x of (s, y) \<Rightarrow> Inr (y\<lparr>it_values := item_add k (conv (PStr s)) (it_values y)\<rparr>)))
      else if name = ''RequestId'' then Inr (x\<lparr>it_request_id := Some v\<rparr>)
      else if name = ''Attribute'' then Inr (x\<lparr>it_in_attribute := False\<rparr>)
      else Inr x)"

text \<open>\<open>save\<close>: the values are put, and the attributes that are nothing are then deleted.\<close>

definition item_save :: "converter \<Rightarrow> string \<Rightarrow> item_record \<Rightarrow> bool \<Rightarrow> query list" where
  "item_save conv domain_name x replace =
     put_attributes_query conv (PStr domain_name) (PStr (it_name x)) (it_values x) replace None
     # (let gone = map fst (filter (\<lambda>e. snd e = PNone) (it_values x)) in
        if replace \<and> gone \<noteq> [] then [delete_attributes_query conv (PStr domain_name) (PStr (it_name x)) (NameList gone) None] else [])"

end
