(* ===== verification/BotoMessages.thy ===== *)
theory BotoMessages
  imports BotoScaling
begin

text \<open>
  Notifications and queues: the queries of \<open>boto/sns/__init__.py\<close> and \<open>boto/sqs/connection.py\<close>, one definition per method, the
  queues of \<open>boto/sqs/queue.py\<close>, and the bodies of messages in \<open>boto/sqs/message.py\<close>. The service that answers is an
  arbitrary function of the calls made before; base64 and JSON are parameters.
\<close>


section \<open>Topics\<close>

text \<open>The reply of SNS is JSON as a whole.\<close>

definition sns_request :: "string \<Rightarrow> pydict \<Rightarrow> query" where
  "sns_request action params = get_object action ((''ContentType'', PStr ''JSON'') # params) ''json''"

definition get_all_topics_query :: "pyval \<Rightarrow> query" where
  "get_all_topics_query next_token = sns_request ''ListTopics'' (opt_param ''NextToken'' next_token [])"

definition get_topic_attributes_query :: "pyval \<Rightarrow> query" where
  "get_topic_attributes_query topic = sns_request ''GetTopicAttributes'' [(''TopicArn'', topic)]"

definition add_topic_permission_query :: "pyval \<Rightarrow> pyval \<Rightarrow> pyval \<Rightarrow> pyval \<Rightarrow> py_exc + query" where
  "add_topic_permission_query topic label account_ids actions =
     sbind (build_list_params [(''TopicArn'', topic), (''Label'', label)] account_ids ''AWSAccountId'') (\<lambda>p.
     sbind (build_list_params p actions ''ActionName'') (\<lambda>p. Inr (sns_request ''AddPermission'' p)))"

definition remove_topic_permission_query :: "pyval \<Rightarrow> pyval \<Rightarrow> query" where
  "remove_topic_permission_query topic label = sns_request ''RemovePermission'' [(''TopicArn'', topic), (''Label'', label)]"

definition create_topic_query :: "pyval \<Rightarrow> query" where
  "create_topic_query topic = sns_request ''CreateTopic'' [(''Name'', topic)]"

definition delete_topic_query :: "pyval \<Rightarrow> query" where
  "delete_topic_query topic = sns_request ''DeleteTopic'' [(''TopicArn'', topic)]"

definition publish_query :: "pyval \<Rightarrow> pyval \<Rightarrow> pyval \<Rightarrow> query" where
  "publish_query topic message subject =
     sns_request ''Publish'' (opt_param ''Subject'' subject [(''TopicArn'', topic), (''Message'', message)])"

definition subscribe_query :: "pyval \<Rightarrow> pyval \<Rightarrow> pyval \<Rightarrow> query" where
  "subscribe_query topic protocol endpoint =
     sns_request ''Subscribe'' [(''TopicArn'', topic), (''Protocol'', protocol), (''Endpoint'', endpoint)]"

definition confirm_subscription_query :: "pyval \<Rightarrow> pyval \<Rightarrow> pyval \<Rightarrow> query" where
  "confirm_subscription_query topic token authenticate_on_unsubscribe =
     sns_request ''ConfirmSubscription''
       (opt_flag ''AuthenticateOnUnsubscribe'' authenticate_on_unsubscribe [(''TopicArn'', topic), (''Token'', token)])"

definition unsubscribe_query :: "pyval \<Rightarrow> query" where
  "unsubscribe_query subscription = sns_request ''Unsubscribe'' [(''SubscriptionArn'', subscription)]"

definition get_all_subscriptions_query :: "pyval \<Rightarrow> query" where
  "get_all_subscriptions_query next_token = sns_request ''ListSubscriptions'' (opt_param ''NextToken'' next_token [])"

definition get_all_subscriptions_by_topic_query :: "pyval \<Rightarrow> pyval \<Rightarrow> query" where
  "get_all_subscriptions_by_topic_query topic next_token =
     sns_request ''ListSubscriptions'' (opt_param ''NextToken'' next_token [(''TopicArn'', topic)])"


section \<open>Queues\<close>

text \<open>A request to a queue goes to its path.\<close>

type_synonym queue_request = "string \<times> query"

definition fmt_d :: "pyval \<Rightarrow> py_exc + pyval" where
  "fmt_d v =
     (case v of
        PInt i \<Rightarrow> Inr (PStr (int_str i))
      | PBool b \<Rightarrow> Inr (PStr (if b then ''1'' else ''0''))
      | PFloat q \<Rightarrow> Inr (PStr (int_str (if q < 0 then - \<lfloor>- q\<rfloor> else \<lfloor>q\<rfloor>)))
      | _ \<Rightarrow> Inl TypeError)"

definition create_queue_query :: "pyval \<Rightarrow> pyval \<Rightarrow> py_exc + query" where
  "create_queue_query queue_name visibility_timeout =
     (let p = [(''QueueName'', queue_name)] in
      if py_truth visibility_timeout
      then sbind (fmt_d visibility_timeout) (\<lambda>t. Inr (get_object ''CreateQueue'' (dset ''DefaultVisibilityTimeout'' t p) ''Queue''))
      else Inr (get_object ''CreateQueue'' p ''Queue''))"

definition delete_queue_query :: query where
  "delete_queue_query = get_status ''DeleteQueue'' []"

definition get_queue_attributes_query :: "pyval \<Rightarrow> query" where
  "get_queue_attributes_query attribute = get_object ''GetQueueAttributes'' [(''AttributeName'', attribute)] ''Attributes''"

definition set_queue_attribute_query :: "pyval \<Rightarrow> pyval \<Rightarrow> query" where
  "set_queue_attribute_query attribute v =
     get_status ''SetQueueAttributes'' [(''Attribute.Name'', attribute), (''Attribute.Value'', v)]"

definition receive_message_query :: "pyval \<Rightarrow> pyval \<Rightarrow> pyval \<Rightarrow> py_exc + query" where
  "receive_message_query number_messages visibility_timeout attributes =
     sbind (opt_list ''AttributeName'' attributes
       (opt_param ''VisibilityTimeout'' visibility_timeout [(''MaxNumberOfMessages'', number_messages)])) (\<lambda>p.
     Inr (get_list ''ReceiveMessage'' p ''Message''))"

definition delete_message_query :: "pyval \<Rightarrow> query" where
  "delete_message_query receipt_handle = get_status ''DeleteMessage'' [(''ReceiptHandle'', receipt_handle)]"

definition send_message_query :: "pyval \<Rightarrow> query" where
  "send_message_query message_content =
     (get_object ''SendMessage'' [(''MessageBody'', message_content)] ''Message'')\<lparr>q_verb := ''POST''\<rparr>"

definition change_message_visibility_query :: "pyval \<Rightarrow> pyval \<Rightarrow> query" where
  "change_message_visibility_query receipt_handle visibility_timeout =
     get_status ''ChangeMessageVisibility'' [(''ReceiptHandle'', receipt_handle), (''VisibilityTimeout'', visibility_timeout)]"

definition get_all_queues_query :: "pyval \<Rightarrow> query" where
  "get_all_queues_query prefix = get_list ''ListQueues'' (opt_param ''QueueNamePrefix'' prefix []) ''Queue''"

definition add_queue_permission_query :: "pyval \<Rightarrow> pyval \<Rightarrow> pyval \<Rightarrow> query" where
  "add_queue_permission_query label aws_account_id action_name =
     get_status ''AddPermission'' [(''Label'', label), (''AWSAccountId'', aws_account_id), (''ActionName'', action_name)]"

definition remove_queue_permission_query :: "pyval \<Rightarrow> query" where
  "remove_queue_permission_query label = get_status ''RemovePermission'' [(''Label'', label)]"

text \<open>The first queue that is listed whose address ends with the name.\<close>

definition get_queue :: "string \<Rightarrow> string list \<Rightarrow> string option" where
  "get_queue queue_name urls = find (\<lambda>u. py_endswith u queue_name) urls"


section \<open>Subscribing a queue\<close>

definition queue_arn :: "string \<Rightarrow> string \<Rightarrow> py_exc + string" where
  "queue_arn region queue_id =
     (case py_split (CHR ''/'') queue_id of
        _ # account # name # _ \<Rightarrow> Inr (''arn:aws:sqs:'' @ region @ '':'' @ account @ '':'' @ name)
      | _ \<Rightarrow> Inl IndexError)"

definition queue_statement :: "string \<Rightarrow> string \<Rightarrow> pyval \<Rightarrow> pyval" where
  "queue_statement q_arn sid topic =
     PDict [(''Action'', PStr ''SQS:SendMessage''), (''Effect'', PStr ''Allow''), (''Principal'', PDict [(''AWS'', PStr ''*'')]),
       (''Resource'', PStr q_arn), (''Sid'', PStr sid),
       (''Condition'', PDict [(''StringLike'', PDict [(''aws:SourceArn'', topic)])])]"

text \<open>The attributes of the reply are taken for the policy.\<close>

definition extend_policy :: "pyval \<Rightarrow> pydict \<Rightarrow> py_exc + pydict" where
  "extend_policy statement attrs =
     (let p = (if dget attrs ''Version'' = None then dset ''Version'' (PStr ''2008-10-17'') attrs else attrs);
          p = (if dget p ''Statement'' = None then dset ''Statement'' (PList []) p else p) in
      case pget p ''Statement'' of
        PList xs \<Rightarrow> Inr (dset ''Statement'' (PList (xs @ [statement])) p)
      | _ \<Rightarrow> Inl (AttributeError ''append''))"

text \<open>
  The three requests, with what the second is answered with, as attributes and their values. The new statement has a random
  identifier.
\<close>

definition subscribe_sqs_queue ::
  "(pyval \<Rightarrow> string) \<Rightarrow> string \<Rightarrow> string \<Rightarrow> pyval \<Rightarrow> string \<Rightarrow> (string \<times> string) list \<Rightarrow> py_exc + query \<times> queue_request \<times> queue_request" where
  "subscribe_sqs_queue dumps sid region topic queue_id attrs =
     sbind (queue_arn region queue_id) (\<lambda>q_arn.
     sbind (extend_policy (queue_statement q_arn sid topic) (map (\<lambda>(k, v). (k, PStr v)) attrs)) (\<lambda>policy.
     Inr (subscribe_query topic (PStr ''sqs'') (PStr q_arn),
          (queue_id, get_queue_attributes_query (PStr ''Policy'')),
          (queue_id, set_queue_attribute_query (PStr ''Policy'') (PStr (dumps (PDict policy)))))))"


section \<open>Emptying and counting\<close>

datatype queue_call = Receive int int | DeleteHandle string | WriteFile string

record queue_message =
  qm_handle :: string
  qm_body :: string

text \<open>The messages that a call is answered with, as a function of the calls so far; the fuel bounds the pages.\<close>

definition queue_do :: "(queue_call list \<Rightarrow> queue_message list) \<Rightarrow> queue_call \<Rightarrow> (queue_call list, queue_message list) st" where
  "queue_do E c calls = (Inr (E (calls @ [c])), calls @ [c])"

primrec clear_queue :: "nat \<Rightarrow> (queue_call list \<Rightarrow> queue_message list) \<Rightarrow> int \<Rightarrow> int \<Rightarrow> nat \<Rightarrow> (queue_call list, nat) st" where
  "clear_queue 0 E page_size vtimeout n = raise StillRunning"
| "clear_queue (Suc k) E page_size vtimeout n =
     bnd (queue_do E (Receive page_size vtimeout)) (\<lambda>ms.
       if ms = [] then ret n
       else andthen (for_each (\<lambda>m. bnd (queue_do E (DeleteHandle (qm_handle m))) (\<lambda>_. ret ())) ms)
              (clear_queue k E page_size vtimeout (n + length ms)))"

primrec count_slow :: "nat \<Rightarrow> (queue_call list \<Rightarrow> queue_message list) \<Rightarrow> int \<Rightarrow> int \<Rightarrow> nat \<Rightarrow> (queue_call list, nat) st" where
  "count_slow 0 E page_size vtimeout n = raise StillRunning"
| "count_slow (Suc k) E page_size vtimeout n =
     bnd (queue_do E (Receive page_size vtimeout)) (\<lambda>ms.
       if ms = [] then ret n else count_slow k E page_size vtimeout (n + length ms))"

primrec dump_queue :: "nat \<Rightarrow> (queue_call list \<Rightarrow> queue_message list) \<Rightarrow> int \<Rightarrow> int \<Rightarrow> string \<Rightarrow> nat \<Rightarrow> (queue_call list, nat) st" where
  "dump_queue 0 E page_size vtimeout sep n = raise StillRunning"
| "dump_queue (Suc k) E page_size vtimeout sep n =
     bnd (queue_do E (Receive page_size vtimeout)) (\<lambda>ms.
       if ms = [] then ret n
       else andthen (for_each (\<lambda>m. bnd (queue_do E (WriteFile (qm_body m @ sep))) (\<lambda>_. ret ())) ms)
              (dump_queue k E page_size vtimeout sep (n + length ms)))"

text \<open>Messages from the lines of a file: one for the lines before each line that is the separator; what follows the last is left out.\<close>

fun messages_of_lines :: "string \<Rightarrow> string list \<Rightarrow> string \<Rightarrow> string list" where
  "messages_of_lines sep [] body = []"
| "messages_of_lines sep (l # ls) body =
     (if l = sep then body # messages_of_lines sep ls [] else messages_of_lines sep ls (body @ l))"


section \<open>Bodies of messages\<close>

definition newline :: char where
  "newline = CHR 0x0A"

text \<open>A line without a colon: the position is -1, so that the key lacks the last character and the value is the line.\<close>

definition header_line :: "string \<Rightarrow> string \<times> string" where
  "header_line l =
     (if CHR '':'' \<in> set l
      then (py_strip (takeWhile (\<lambda>c. c \<noteq> CHR '':'') l), py_strip (tl (dropWhile (\<lambda>c. c \<noteq> CHR '':'') l)))
      else (py_strip (butlast l), py_strip l))"

text \<open>Lines with their ends.\<close>

fun read_lines :: "string \<Rightarrow> string \<Rightarrow> string list" where
  "read_lines acc [] = (if acc = [] then [] else [acc])"
| "read_lines acc (c # s) = (if c = newline then (acc @ [c]) # read_lines [] s else read_lines (acc @ [c]) s)"

definition mh_decode :: "string \<Rightarrow> (string, string) dict" where
  "mh_decode s = fold (\<lambda>l. case header_line l of (k, v) \<Rightarrow> dset k v) (read_lines [] s) []"

definition mh_encode :: "(string, string) dict \<Rightarrow> string" where
  "mh_encode d = concat (map (\<lambda>(k, v). k @ '': '' @ v @ [newline]) d)"

definition encoded_mh_encode :: "(string \<Rightarrow> string) \<Rightarrow> (string, string) dict \<Rightarrow> string" where
  "encoded_mh_encode b64 d = b64 (mh_encode d)"

text \<open>What cannot be decoded raises the error of SQS.\<close>

definition encoded_mh_decode :: "(string \<Rightarrow> string option) \<Rightarrow> string \<Rightarrow> py_exc + (string, string) dict" where
  "encoded_mh_decode unb64 s = (case unb64 s of None \<Rightarrow> Inl (PlainError ''Unable to decode message'') | Some t \<Rightarrow> Inr (mh_decode t))"

end
