(* ===== verification/BotoMturk.thy ===== *)
theory BotoMturk
  imports BotoScaling
begin

text \<open>
  \<open>boto/mturk/connection.py\<close>: the queries of \<open>MTurkConnection\<close>, all sent by POST. Questions and qualifications are given as
  what their methods make of them: the text of \<open>get_as_xml\<close> and the parameters of \<open>get_as_params\<close>.
\<close>


section \<open>Helpers\<close>

definition mturk_request :: "string \<Rightarrow> pydict \<Rightarrow> string \<Rightarrow> query" where
  "mturk_request action params cls = (get_list action params cls)\<lparr>q_verb := ''POST''\<rparr>"

text \<open>\<open>if v is not None: params[name] = v\<close>.\<close>

definition given_param :: "string \<Rightarrow> pyval \<Rightarrow> pydict \<Rightarrow> pydict" where
  "given_param name v p = (if v = PNone then p else dset name v p)"

definition with_given :: "pydict \<Rightarrow> pydict \<Rightarrow> pydict" where
  "with_given params opts = fold (\<lambda>(name, v). given_param name v) opts params"

definition get_keywords_as_string :: "pyval \<Rightarrow> py_exc + string" where
  "get_keywords_as_string keywords =
     (case keywords of
        PList xs \<Rightarrow> sbind (if list_all (\<lambda>x. case x of PStr s \<Rightarrow> True | _ \<Rightarrow> False) xs
              then Inr (map (\<lambda>x. case x of PStr s \<Rightarrow> s | _ \<Rightarrow> []) xs) else Inl TypeError) (\<lambda>ss. Inr (py_join '', '' ss))
      | PStr s \<Rightarrow> Inr s
      | PNone \<Rightarrow> Inr []
      | _ \<Rightarrow> Inl TypeError)"

text \<open>A price is an amount, whose text \<open>str\<close> gives, and a currency; a number stands for an amount in dollars.\<close>

record price =
  pr_amount :: pyval
  pr_currency_code :: pyval

definition price_of :: "price + pyval \<Rightarrow> price" where
  "price_of r = (case r of Inl p \<Rightarrow> p | Inr v \<Rightarrow> \<lparr>pr_amount = v, pr_currency_code = PStr ''USD''\<rparr>)"

definition price_params :: "(pyval \<Rightarrow> string) \<Rightarrow> string \<Rightarrow> price \<Rightarrow> pydict \<Rightarrow> pydict" where
  "price_params str label r p =
     dset (label @ ''.1.CurrencyCode'') (pr_currency_code r) (dset (label @ ''.1.Amount'') (PStr (str (pr_amount r))) p)"

text \<open>A duration: days and seconds, or what \<open>int\<close> takes.\<close>

datatype duration = TimeDelta int int | Seconds pyval

definition duration_as_seconds :: "duration \<Rightarrow> py_exc + pyval" where
  "duration_as_seconds d =
     (case d of
        TimeDelta days secs \<Rightarrow> Inr (PInt (days * 86400 + secs))
      | Seconds v \<Rightarrow>
          (case v of
             PInt i \<Rightarrow> Inr (PInt i)
           | PBool b \<Rightarrow> Inr (PInt (if b then 1 else 0))
           | PFloat q \<Rightarrow> Inr (PInt (if q < 0 then - \<lfloor>- q\<rfloor> else \<lfloor>q\<rfloor>))
           | PStr s \<Rightarrow> sbind (py_int s) (\<lambda>i. Inr (PInt i))
           | _ \<Rightarrow> Inl TypeError))"

definition opt_duration :: "string \<Rightarrow> duration option \<Rightarrow> pydict \<Rightarrow> py_exc + pydict" where
  "opt_duration name d p = (case d of None \<Rightarrow> Inr p | Some t \<Rightarrow> sbind (duration_as_seconds t) (\<lambda>s. Inr (dset name s p)))"

text \<open>Parameters that another object gives.\<close>

definition update_params :: "pydict \<Rightarrow> pydict \<Rightarrow> pydict" where
  "update_params new p = fold (\<lambda>(k, v). dset k v) new p"


section \<open>Types of HITs and notifications\<close>

definition get_account_balance_query :: query where
  "get_account_balance_query = mturk_request ''GetAccountBalance'' [] ''Price''"

definition register_hit_type_query ::
  "(pyval \<Rightarrow> string) \<Rightarrow> pyval \<Rightarrow> pyval \<Rightarrow> price + pyval \<Rightarrow> duration \<Rightarrow> pyval \<Rightarrow> duration option \<Rightarrow> pydict \<Rightarrow> py_exc + query" where
  "register_hit_type_query str title description reward hit_duration keywords approval_delay qual_req =
     sbind (duration_as_seconds hit_duration) (\<lambda>secs.
     (let p = price_params str ''Reward'' (price_of reward)
            [(''Title'', title), (''Description'', description), (''AssignmentDurationInSeconds'', secs)] in
      sbind (if py_truth keywords then sbind (get_keywords_as_string keywords) (\<lambda>k. Inr (dset ''Keywords'' (PStr k) p)) else Inr p) (\<lambda>p.
      sbind (opt_duration ''AutoApprovalDelayInSeconds'' approval_delay p) (\<lambda>p.
      Inr (mturk_request ''RegisterHITType'' (update_params qual_req p) [])))))"

definition set_notification_query :: "pyval \<Rightarrow> string \<Rightarrow> pyval \<Rightarrow> pyval \<Rightarrow> py_exc + query" where
  "set_notification_query hit_type transport destination event_types =
     (case hit_type of
        PStr s \<Rightarrow>
          sbind (opt_list ''EventType'' event_types
            [(''Destination'', destination), (''Transport'', PStr transport), (''Version'', PStr ''2006-05-05''), (''Active'', PBool True)]) (\<lambda>n.
          Inr (mturk_request ''SetHITTypeNotification''
            (update_params (map (\<lambda>(k, v). (''Notification.1.'' @ k, v)) n) [(''HITTypeId'', hit_type)]) []))
      | _ \<Rightarrow> Inl AssertionError)"

definition set_email_notification_query :: "pyval \<Rightarrow> pyval \<Rightarrow> pyval \<Rightarrow> py_exc + query" where
  "set_email_notification_query hit_type email event_types = set_notification_query hit_type ''Email'' email event_types"

definition set_rest_notification_query :: "pyval \<Rightarrow> pyval \<Rightarrow> pyval \<Rightarrow> py_exc + query" where
  "set_rest_notification_query hit_type url event_types = set_notification_query hit_type ''REST'' url event_types"


section \<open>HITs\<close>

text \<open>
  The question is one object or several, not both; which form of it is sent is a matter of the classes of questions, and what it
  becomes is given by the one or the other.
\<close>

record hit_args =
  ht_hit_type :: pyval
  ht_question :: "string option"
  ht_questions :: "string option"
  ht_lifetime :: duration
  ht_max_assignments :: pyval
  ht_title :: pyval
  ht_description :: pyval
  ht_keywords :: pyval
  ht_reward :: "price + pyval"
  ht_duration :: duration
  ht_approval_delay :: "duration option"
  ht_annotation :: pyval
  ht_qualifications :: pydict
  ht_response_groups :: pyval

definition hit_type_params :: "(pyval \<Rightarrow> string) \<Rightarrow> hit_args \<Rightarrow> pydict \<Rightarrow> py_exc + pydict" where
  "hit_type_params str a p =
     (if py_truth (ht_hit_type a) then Inr (dset ''HITTypeId'' (ht_hit_type a) p)
      else
        sbind (get_keywords_as_string (ht_keywords a)) (\<lambda>keywords.
        sbind (duration_as_seconds (ht_duration a)) (\<lambda>secs.
        opt_duration ''AutoApprovalDelayInSeconds'' (ht_approval_delay a)
          (price_params str ''Reward'' (price_of (ht_reward a))
            (dset ''AssignmentDurationInSeconds'' secs (dset ''Keywords'' (PStr keywords)
              (dset ''Description'' (ht_description a) (dset ''Title'' (ht_title a) p))))))))"

definition create_hit_query :: "(pyval \<Rightarrow> string) \<Rightarrow> hit_args \<Rightarrow> py_exc + query" where
  "create_hit_query str a =
     (if (ht_question a = None) = (ht_questions a = None) then Inl ValueError
      else
        sbind (duration_as_seconds (ht_lifetime a)) (\<lambda>lifetime.
        sbind (hit_type_params str a
          [(''Question'', PStr (case ht_question a of Some x \<Rightarrow> x | None \<Rightarrow> the (ht_questions a))), (''LifetimeInSeconds'', lifetime),
           (''MaxAssignments'', ht_max_assignments a)]) (\<lambda>p.
        sbind (opt_list ''ResponseGroup'' (ht_response_groups a)
          (update_params (ht_qualifications a) (given_param ''RequesterAnnotation'' (ht_annotation a) p))) (\<lambda>p.
        Inr (mturk_request ''CreateHIT'' p ''HIT'')))))"

definition change_hit_type_of_hit_query :: "pyval \<Rightarrow> pyval \<Rightarrow> query" where
  "change_hit_type_of_hit_query hit_id hit_type =
     mturk_request ''ChangeHITTypeOfHIT'' [(''HITId'', hit_id), (''HITTypeId'', hit_type)] []"

definition get_reviewable_hits_query :: "pyval \<Rightarrow> pyval \<Rightarrow> pyval \<Rightarrow> pyval \<Rightarrow> pyval \<Rightarrow> pyval \<Rightarrow> query" where
  "get_reviewable_hits_query hit_type status sort_by sort_direction page_size page_number =
     mturk_request ''GetReviewableHITs'' (given_param ''HITTypeId'' hit_type
       [(''Status'', status), (''SortProperty'', sort_by), (''SortDirection'', sort_direction), (''PageSize'', page_size),
        (''PageNumber'', page_number)]) ''HIT''"

definition search_hits_query :: "pyval \<Rightarrow> pyval \<Rightarrow> pyval \<Rightarrow> pyval \<Rightarrow> pyval \<Rightarrow> py_exc + query" where
  "search_hits_query sort_by sort_direction page_size page_number response_groups =
     sbind (opt_list ''ResponseGroup'' response_groups
       [(''SortProperty'', sort_by), (''SortDirection'', sort_direction), (''PageSize'', page_size), (''PageNumber'', page_number)]) (\<lambda>p.
     Inr (mturk_request ''SearchHITs'' p ''HIT''))"

text \<open>The pages of all records, counted from 1.\<close>

definition get_pages :: "int \<Rightarrow> int \<Rightarrow> int list" where
  "get_pages page_size total_records =
     [1..(total_records div page_size + (if total_records mod page_size = 0 then 0 else 1))]"

text \<open>The first search tells how many there are; then each page is searched, the first once more.\<close>

definition get_all_hits_queries :: "int \<Rightarrow> (py_exc + query) list" where
  "get_all_hits_queries total_records =
     search_hits_query (PStr ''CreationTime'') (PStr ''Ascending'') (PInt 100) (PInt 1) PNone
     # map (\<lambda>page. search_hits_query (PStr ''CreationTime'') (PStr ''Ascending'') (PInt 100) (PInt page) PNone) (get_pages 100 total_records)"

definition get_assignments_query ::
  "pyval \<Rightarrow> pyval \<Rightarrow> pyval \<Rightarrow> pyval \<Rightarrow> pyval \<Rightarrow> pyval \<Rightarrow> pyval \<Rightarrow> py_exc + query" where
  "get_assignments_query hit_id status sort_by sort_direction page_size page_number response_groups =
     sbind (opt_list ''ResponseGroup'' response_groups (given_param ''AssignmentStatus'' status
       [(''HITId'', hit_id), (''SortProperty'', sort_by), (''SortDirection'', sort_direction), (''PageSize'', page_size),
        (''PageNumber'', page_number)])) (\<lambda>p.
     Inr (mturk_request ''GetAssignmentsForHIT'' p ''Assignment''))"

definition approve_assignment_query :: "pyval \<Rightarrow> pyval \<Rightarrow> query" where
  "approve_assignment_query assignment_id feedback =
     mturk_request ''ApproveAssignment'' (opt_param ''RequesterFeedback'' feedback [(''AssignmentId'', assignment_id)]) []"

definition reject_assignment_query :: "pyval \<Rightarrow> pyval \<Rightarrow> query" where
  "reject_assignment_query assignment_id feedback =
     mturk_request ''RejectAssignment'' (opt_param ''RequesterFeedback'' feedback [(''AssignmentId'', assignment_id)]) []"

definition get_hit_query :: "pyval \<Rightarrow> pyval \<Rightarrow> py_exc + query" where
  "get_hit_query hit_id response_groups =
     sbind (opt_list ''ResponseGroup'' response_groups [(''HITId'', hit_id)]) (\<lambda>p. Inr (mturk_request ''GetHIT'' p ''HIT''))"

definition set_reviewing_query :: "pyval \<Rightarrow> pyval \<Rightarrow> query" where
  "set_reviewing_query hit_id revert = mturk_request ''SetHITAsReviewing'' (opt_param ''Revert'' revert [(''HITId'', hit_id)]) []"

definition disable_hit_query :: "pyval \<Rightarrow> pyval \<Rightarrow> py_exc + query" where
  "disable_hit_query hit_id response_groups =
     sbind (opt_list ''ResponseGroup'' response_groups [(''HITId'', hit_id)]) (\<lambda>p. Inr (mturk_request ''DisableHIT'' p []))"

definition dispose_hit_query :: "pyval \<Rightarrow> query" where
  "dispose_hit_query hit_id = mturk_request ''DisposeHIT'' [(''HITId'', hit_id)] []"

definition expire_hit_query :: "pyval \<Rightarrow> query" where
  "expire_hit_query hit_id = mturk_request ''ForceExpireHIT'' [(''HITId'', hit_id)] []"

definition extend_hit_query :: "pyval \<Rightarrow> pyval \<Rightarrow> pyval \<Rightarrow> py_exc + query" where
  "extend_hit_query hit_id assignments_increment expiration_increment =
     (if (assignments_increment = PNone) = (expiration_increment = PNone) then Inl ValueError
      else Inr (mturk_request ''ExtendHIT'' (with_optional [(''HITId'', hit_id)]
        [(''MaxAssignmentsIncrement'', assignments_increment), (''ExpirationIncrementInSeconds'', expiration_increment)]) []))"

definition get_help_query :: "pyval \<Rightarrow> pyval \<Rightarrow> query" where
  "get_help_query about help_type = mturk_request ''Help'' [(''About'', about), (''HelpType'', help_type)] []"


section \<open>Workers and qualifications\<close>

definition grant_bonus_query :: "(pyval \<Rightarrow> string) \<Rightarrow> pyval \<Rightarrow> pyval \<Rightarrow> price \<Rightarrow> pyval \<Rightarrow> query" where
  "grant_bonus_query str worker_id assignment_id bonus_price reason =
     mturk_request ''GrantBonus'' (dset ''Reason'' reason (dset ''AssignmentId'' assignment_id (dset ''WorkerId'' worker_id
       (price_params str ''BonusAmount'' bonus_price [])))) []"

definition block_worker_query :: "pyval \<Rightarrow> pyval \<Rightarrow> query" where
  "block_worker_query worker_id reason = mturk_request ''BlockWorker'' [(''WorkerId'', worker_id), (''Reason'', reason)] []"

definition unblock_worker_query :: "pyval \<Rightarrow> pyval \<Rightarrow> query" where
  "unblock_worker_query worker_id reason = mturk_request ''UnblockWorker'' [(''WorkerId'', worker_id), (''Reason'', reason)] []"

definition notify_workers_query :: "pyval \<Rightarrow> pyval \<Rightarrow> pyval \<Rightarrow> query" where
  "notify_workers_query worker_ids subject message_text =
     mturk_request ''NotifyWorkers'' [(''WorkerId'', worker_ids), (''Subject'', subject), (''MessageText'', message_text)] []"

text \<open>A test is nothing, a form of questions with its text, or another value, of which only \<open>False\<close> matters.\<close>

datatype hit_test = NoTest | QuestionForm string | OtherTest pyval

definition answer_key_param :: "pyval \<Rightarrow> pydict \<Rightarrow> py_exc + pydict" where
  "answer_key_param answer_key p =
     (case answer_key of PNone \<Rightarrow> Inr p | PStr s \<Rightarrow> Inr (dset ''AnswerKey'' answer_key p) | _ \<Rightarrow> Inl TypeError)"

definition create_qualification_type_query ::
  "pyval \<Rightarrow> pyval \<Rightarrow> pyval \<Rightarrow> pyval \<Rightarrow> pyval \<Rightarrow> hit_test \<Rightarrow> pyval \<Rightarrow> pyval \<Rightarrow> pyval \<Rightarrow> pyval \<Rightarrow> py_exc + query" where
  "create_qualification_type_query name description status keywords retry_delay hit_test answer_key test_duration auto_granted
        auto_granted_value =
     (let p = given_param ''RetryDelay'' retry_delay
            [(''Name'', name), (''Description'', description), (''QualificationTypeStatus'', status)] in
      sbind (case hit_test of
               NoTest \<Rightarrow> Inr p
             | QuestionForm x \<Rightarrow> if test_duration = PNone then Inl AssertionError else Inr (dset ''Test'' (PStr x) p)
             | OtherTest v \<Rightarrow> Inl AssertionError) (\<lambda>p.
      sbind (answer_key_param answer_key (given_param ''TestDuration'' test_duration p)) (\<lambda>p.
      sbind (if \<not> py_truth auto_granted then Inr p
             else if hit_test = OtherTest (PBool False)
               then Inr (dset ''AutoGrantedValue'' auto_granted_value (dset ''AutoGranted'' (PBool True) p))
             else Inl AssertionError) (\<lambda>p.
      sbind (if py_truth keywords then sbind (get_keywords_as_string keywords) (\<lambda>k. Inr (dset ''Keywords'' (PStr k) p)) else Inr p) (\<lambda>p.
      Inr (mturk_request ''CreateQualificationType'' p []))))))"

definition get_qualification_type_query :: "pyval \<Rightarrow> query" where
  "get_qualification_type_query qualification_type_id =
     mturk_request ''GetQualificationType'' [(''QualificationTypeId'', qualification_type_id)] []"

definition update_qualification_type_query ::
  "pyval \<Rightarrow> pyval \<Rightarrow> pyval \<Rightarrow> pyval \<Rightarrow> hit_test \<Rightarrow> pyval \<Rightarrow> pyval \<Rightarrow> pyval \<Rightarrow> pyval \<Rightarrow> py_exc + query" where
  "update_qualification_type_query qualification_type_id description status retry_delay hit_test answer_key test_duration auto_granted
        auto_granted_value =
     (let p = with_given [(''QualificationTypeId'', qualification_type_id)]
            [(''Description'', description), (''QualificationTypeStatus'', status), (''RetryDelay'', retry_delay)] in
      sbind (case hit_test of NoTest \<Rightarrow> Inr p | QuestionForm x \<Rightarrow> Inr (dset ''Test'' (PStr x) p) | OtherTest v \<Rightarrow> Inl AssertionError) (\<lambda>p.
      sbind (answer_key_param answer_key (given_param ''TestDuration'' test_duration p)) (\<lambda>p.
      Inr (mturk_request ''UpdateQualificationType'' (with_given p
        [(''AutoGranted'', auto_granted), (''AutoGrantedValue'', auto_granted_value)]) []))))"

definition assign_qualification_query :: "pyval \<Rightarrow> pyval \<Rightarrow> pyval \<Rightarrow> pyval \<Rightarrow> query" where
  "assign_qualification_query qualification_type_id worker_id v send_notification =
     mturk_request ''AssignQualification''
       [(''QualificationTypeId'', qualification_type_id), (''WorkerId'', worker_id), (''IntegerValue'', v),
        (''SendNotification'', send_notification)] []"

end
