(* ===== verification/BotoServices.thy ===== *)
theory BotoServices
  imports BotoFacts BotoVpc BotoEmr BotoSimpleDb BotoMessages BotoMturk
begin

text \<open>
  What holds of the requests of all services: each has distinct parameters, none of which the signature overwrites. Then, for each
  service, what its requests carry of their arguments, and the arguments that they lose.
\<close>


section \<open>Well-formed queries\<close>

subsection \<open>Private clouds\<close>

lemmas vpc_query_defs = get_all_vpcs_query_def create_vpc_query_def delete_vpc_query_def get_all_customer_gateways_query_def create_customer_gateway_query_def
  delete_customer_gateway_query_def get_all_vpn_gateways_query_def create_vpn_gateway_query_def delete_vpn_gateway_query_def
  attach_vpn_gateway_query_def get_all_subnets_query_def create_subnet_query_def delete_subnet_query_def get_all_dhcp_options_query_def
  create_dhcp_options_query_def delete_dhcp_options_query_def associate_dhcp_options_query_def get_all_vpn_connections_query_def
  create_vpn_connection_query_def delete_vpn_connection_query_def

inductive vpc_query :: "query \<Rightarrow> bool" where
  "get_all_vpcs_query vpc_ids filters = Inr q \<Longrightarrow> vpc_query q"
| "vpc_query (create_vpc_query cidr_block)"
| "vpc_query (delete_vpc_query vpc_id)"
| "get_all_customer_gateways_query customer_gateway_ids filters = Inr q \<Longrightarrow> vpc_query q"
| "vpc_query (create_customer_gateway_query gateway_type ip_address bgp_asn)"
| "vpc_query (delete_customer_gateway_query customer_gateway_id)"
| "get_all_vpn_gateways_query vpn_gateway_ids filters = Inr q \<Longrightarrow> vpc_query q"
| "vpc_query (create_vpn_gateway_query gateway_type availability_zone)"
| "vpc_query (delete_vpn_gateway_query vpn_gateway_id)"
| "vpc_query (attach_vpn_gateway_query vpn_gateway_id vpc_id)"
| "get_all_subnets_query subnet_ids filters = Inr q \<Longrightarrow> vpc_query q"
| "vpc_query (create_subnet_query vpc_id cidr_block availability_zone)"
| "vpc_query (delete_subnet_query subnet_id)"
| "get_all_dhcp_options_query dhcp_options_ids = Inr q \<Longrightarrow> vpc_query q"
| "vpc_query (create_dhcp_options_query vpc_id cidr_block availability_zone)"
| "vpc_query (delete_dhcp_options_query dhcp_options_id)"
| "vpc_query (associate_dhcp_options_query dhcp_options_id vpc_id)"
| "get_all_vpn_connections_query vpn_connection_ids filters = Inr q \<Longrightarrow> vpc_query q"
| "vpc_query (create_vpn_connection_query connection_type customer_gateway_id vpn_gateway_id)"
| "vpc_query (delete_vpn_connection_query vpn_connection_id)"

lemma params_ok_vpc_filters [query_intros]: "params_ok p \<Longrightarrow> params_ok (vpc_filters fs p)"
  unfolding vpc_filters_def
  by (rule params_ok_fold) (auto simp: add_vpc_filter_def vpc_value_key_def between_key_def intro!: params_ok_dset)

lemma vpc_query_ok: "vpc_query q \<Longrightarrow> query_ok q"
  by (erule vpc_query.cases; hypsubst; (erule builds_okD)?; unfold vpc_query_defs Let_def;
      (auto simp: params_ok_Cons reserved_def intro!: query_intros)?)


subsection \<open>Job flows\<close>

lemmas emr_query_defs = describe_jobflows_query_def describe_jobflow_query_def terminate_jobflows_query_def terminate_jobflow_query_def
  add_jobflow_steps_query_def

inductive emr_query :: "query \<Rightarrow> bool" where
  "describe_jobflows_query states jobflow_ids created_after created_before = Inr q \<Longrightarrow> emr_query q"
| "describe_jobflow_query jobflow_id = Inr q \<Longrightarrow> emr_query q"
| "terminate_jobflows_query jobflow_ids = Inr q \<Longrightarrow> emr_query q"
| "terminate_jobflow_query jobflow_id = Inr q \<Longrightarrow> emr_query q"
| "emr_query (add_jobflow_steps_query jobflow_id steps)"
| "emr_query (fst (run_jobflow a steps))"

lemma params_ok_numbered_dict: "CHR ''.'' \<in> set label \<Longrightarrow> params_ok p \<Longrightarrow> params_ok (numbered_dict label d p)"
  unfolding numbered_dict_def by (rule params_ok_fold) (auto intro!: params_ok_dset)

lemma params_ok_emr [query_intros]:
  "params_ok p \<Longrightarrow> params_ok (build_step_list xs p)"
  "params_ok p \<Longrightarrow> params_ok (build_bootstrap_action_list xs p)"
  unfolding build_step_list_def build_bootstrap_action_list_def
  by (rule params_ok_fold; simp add: params_ok_numbered_dict)+

lemma params_ok_jobflow [query_intros]: "params_ok (jobflow_params a steps)"
  by (auto simp: jobflow_params_def build_instance_args_def Let_def reserved_def intro!: query_intros)

lemma emr_query_ok: "emr_query q \<Longrightarrow> query_ok q"
  by (erule emr_query.cases; hypsubst; (erule builds_okD)?; unfold emr_query_defs run_jobflow_def Let_def;
      (auto simp: params_ok_Cons reserved_def intro!: query_intros)?)


subsection \<open>SimpleDB\<close>

lemmas sdb_query_defs = get_all_domains_query_def create_domain_query_def select_query_def validate_domain_query_def delete_domain_query_def
  domain_metadata_query_def put_attributes_query_def batch_put_attributes_query_def sdb_get_attributes_query_def
  delete_attributes_query_def batch_delete_attributes_query_def

inductive sdb_query :: "query \<Rightarrow> bool" where
  "sdb_query (get_all_domains_query max_domains next_token)"
| "sdb_query (create_domain_query domain_name)"
| "sdb_query (select_query text consistent_read next_token)"
| "sdb_query (validate_domain_query domain_name)"
| "sdb_query (delete_domain_query n)"
| "sdb_query (domain_metadata_query n)"
| "sdb_query (put_attributes_query conv n item_name attributes replace expected)"
| "sdb_query (batch_put_attributes_query conv n items replace)"
| "sdb_query (sdb_get_attributes_query n item_name attribute_names consistent_read)"
| "sdb_query (delete_attributes_query conv n item_name attr_names expected)"
| "sdb_query (batch_delete_attributes_query conv n items)"

lemma params_ok_attributes: "params_ok p \<Longrightarrow> params_ok (fold (add_attribute conv replace label) es p)"
  by (rule params_ok_fold) (auto simp: add_attribute_def attribute_key_def Let_def intro!: params_ok_dset)

lemma params_ok_sdb [query_intros]:
  "params_ok p \<Longrightarrow> params_ok (build_name_value_list conv attributes replace label p)"
  "params_ok p \<Longrightarrow> params_ok (opt_expected e p)"
  "params_ok p \<Longrightarrow> params_ok (build_batch_list conv items replace p)"
  "params_ok p \<Longrightarrow> params_ok (build_name_list names p)"
proof -
  show "params_ok p \<Longrightarrow> params_ok (build_name_value_list conv attributes replace label p)"
    by (simp add: build_name_value_list_def params_ok_attributes)
  show "params_ok p \<Longrightarrow> params_ok (opt_expected e p)"
    by (auto simp: opt_expected_def build_expected_value_def Let_def intro!: params_ok_dset split: option.splits pyval.splits)
  show "params_ok p \<Longrightarrow> params_ok (build_batch_list conv items replace p)"
    unfolding build_batch_list_def
    by (rule params_ok_fold) (auto simp: add_item_def intro!: params_ok_attributes params_ok_dset)
  show "params_ok p \<Longrightarrow> params_ok (build_name_list names p)"
    unfolding build_name_list_def by (rule params_ok_fold) (auto simp: attribute_key_def intro!: params_ok_dset)
qed

lemma sdb_query_ok: "sdb_query q \<Longrightarrow> query_ok q"
  by (erule sdb_query.cases; hypsubst; (erule builds_okD)?; unfold sdb_query_defs Let_def;
      (auto simp: params_ok_Cons reserved_def intro!: query_intros split: selection.splits)?)


subsection \<open>Topics and queues\<close>

lemmas message_query_defs = get_all_topics_query_def get_topic_attributes_query_def add_topic_permission_query_def remove_topic_permission_query_def
  create_topic_query_def delete_topic_query_def publish_query_def subscribe_query_def confirm_subscription_query_def
  unsubscribe_query_def get_all_subscriptions_query_def get_all_subscriptions_by_topic_query_def create_queue_query_def
  delete_queue_query_def get_queue_attributes_query_def set_queue_attribute_query_def receive_message_query_def delete_message_query_def
  send_message_query_def change_message_visibility_query_def get_all_queues_query_def add_queue_permission_query_def
  remove_queue_permission_query_def

inductive message_query :: "query \<Rightarrow> bool" where
  "message_query (get_all_topics_query next_token)"
| "message_query (get_topic_attributes_query topic)"
| "add_topic_permission_query topic label account_ids actions = Inr q \<Longrightarrow> message_query q"
| "message_query (remove_topic_permission_query topic label)"
| "message_query (create_topic_query topic)"
| "message_query (delete_topic_query topic)"
| "message_query (publish_query topic message subject)"
| "message_query (subscribe_query topic protocol endpoint)"
| "message_query (confirm_subscription_query topic token authenticate_on_unsubscribe)"
| "message_query (unsubscribe_query subscription)"
| "message_query (get_all_subscriptions_query next_token)"
| "message_query (get_all_subscriptions_by_topic_query topic next_token)"
| "create_queue_query queue_name visibility_timeout = Inr q \<Longrightarrow> message_query q"
| "message_query delete_queue_query"
| "message_query (get_queue_attributes_query attribute)"
| "message_query (set_queue_attribute_query attribute v)"
| "receive_message_query number_messages visibility_timeout attributes = Inr q \<Longrightarrow> message_query q"
| "message_query (delete_message_query receipt_handle)"
| "message_query (send_message_query message_content)"
| "message_query (change_message_visibility_query receipt_handle visibility_timeout)"
| "message_query (get_all_queues_query prefix)"
| "message_query (add_queue_permission_query label aws_account_id action_name)"
| "message_query (remove_queue_permission_query label)"

lemma query_ok_sns [query_intros]:
  "params_ok p \<Longrightarrow> dget p ''ContentType'' = None \<Longrightarrow> action \<noteq> [] \<Longrightarrow> query_ok (sns_request action p)"
  by (auto simp: sns_request_def query_ok_build params_ok_Cons reserved_def map_of_eq_None_iff)

lemma list_key_no_content: "''ContentType'' \<noteq> list_key label i"
proof
  assume "''ContentType'' = list_key label i"
  then have "CHR ''.'' \<in> set ''ContentType''" by (simp only: list_key_def) simp
  then show False by simp
qed

lemma content_number_params: "dget (number_params label xs p) ''ContentType'' = dget p ''ContentType''"
  by (intro dget_number_params_other) (simp add: list_key_no_content)

lemma content_list_params: "build_list_params p v label = Inr q \<Longrightarrow> dget q ''ContentType'' = dget p ''ContentType''"
  by (cases v) (auto simp: build_list_params_def content_number_params split: if_splits)

lemma add_topic_permission_ok: "builds_ok (add_topic_permission_query topic label account_ids actions)"
proof -
  have "query_ok (sns_request ''AddPermission'' q)"
    if p: "build_list_params [(''TopicArn'', topic), (''Label'', label)] account_ids ''AWSAccountId'' = Inr p"
      and q: "build_list_params p actions ''ActionName'' = Inr q" for p q
  proof (rule query_ok_sns)
    have "params_ok p" by (rule params_ok_list(1) [OF _ p]) (simp add: params_ok_Cons params_ok_Nil reserved_def)
    then show "params_ok q" by (rule params_ok_list(1) [OF _ q])
    show "dget q ''ContentType'' = None"
      by (simp add: content_list_params [OF q] content_list_params [OF p])
  qed simp
  then show ?thesis unfolding builds_ok_def add_topic_permission_query_def sbind_Inr_iff Inr_inject by blast
qed

lemma create_queue_ok: "builds_ok (create_queue_query queue_name visibility_timeout)"
proof -
  have "builds_ok (sbind (fmt_d visibility_timeout)
      (\<lambda>t. Inr (get_object ''CreateQueue'' [(''QueueName'', queue_name), (''DefaultVisibilityTimeout'', t)] ''Queue'')))"
    by (rule builds_ok_any) (simp add: params_ok_Cons params_ok_Nil reserved_def builds_ok_intros query_ok_build)
  then show ?thesis
    by (auto simp: create_queue_query_def Let_def params_ok_Cons reserved_def intro!: query_intros)
qed

lemma message_query_ok: "message_query q \<Longrightarrow> query_ok q"
  by (erule message_query.cases; hypsubst; (rule builds_okD [OF _ add_topic_permission_ok], assumption)?;
      (rule builds_okD [OF _ create_queue_ok], assumption)?; (erule builds_okD)?;
      unfold message_query_defs Let_def; (auto simp: params_ok_Cons reserved_def dget_opt_param dget_dset opt_flag_def intro!: query_intros)?)


subsection \<open>Tasks\<close>

text \<open>Qualifications are taken to give only numbered parameters.\<close>

lemmas mturk_query_defs = get_account_balance_query_def register_hit_type_query_def set_email_notification_query_def
  set_rest_notification_query_def create_hit_query_def change_hit_type_of_hit_query_def get_reviewable_hits_query_def
  search_hits_query_def get_assignments_query_def approve_assignment_query_def reject_assignment_query_def get_hit_query_def
  set_reviewing_query_def disable_hit_query_def dispose_hit_query_def expire_hit_query_def extend_hit_query_def get_help_query_def
  grant_bonus_query_def block_worker_query_def unblock_worker_query_def notify_workers_query_def create_qualification_type_query_def
  get_qualification_type_query_def update_qualification_type_query_def assign_qualification_query_def

inductive mturk_query :: "query \<Rightarrow> bool" where
  "mturk_query get_account_balance_query"
| "\<forall>k \<in> set (map fst qual_req). CHR ''.'' \<in> set k \<Longrightarrow> register_hit_type_query str title description reward hit_duration keywords approval_delay qual_req = Inr q \<Longrightarrow> mturk_query q"
| "set_notification_query hit_type transport destination event_types = Inr q \<Longrightarrow> mturk_query q"
| "set_email_notification_query hit_type email event_types = Inr q \<Longrightarrow> mturk_query q"
| "set_rest_notification_query hit_type url event_types = Inr q \<Longrightarrow> mturk_query q"
| "\<forall>k \<in> set (map fst (ht_qualifications a)). CHR ''.'' \<in> set k \<Longrightarrow> create_hit_query str a = Inr q \<Longrightarrow> mturk_query q"
| "mturk_query (change_hit_type_of_hit_query hit_id hit_type)"
| "mturk_query (get_reviewable_hits_query hit_type status sort_by sort_direction page_size page_number)"
| "search_hits_query sort_by sort_direction page_size page_number response_groups = Inr q \<Longrightarrow> mturk_query q"
| "get_assignments_query hit_id status sort_by sort_direction page_size page_number response_groups = Inr q \<Longrightarrow> mturk_query q"
| "mturk_query (approve_assignment_query assignment_id feedback)"
| "mturk_query (reject_assignment_query assignment_id feedback)"
| "get_hit_query hit_id response_groups = Inr q \<Longrightarrow> mturk_query q"
| "mturk_query (set_reviewing_query hit_id revert)"
| "disable_hit_query hit_id response_groups = Inr q \<Longrightarrow> mturk_query q"
| "mturk_query (dispose_hit_query hit_id)"
| "mturk_query (expire_hit_query hit_id)"
| "extend_hit_query hit_id assignments_increment expiration_increment = Inr q \<Longrightarrow> mturk_query q"
| "mturk_query (get_help_query about help_type)"
| "mturk_query (grant_bonus_query str worker_id assignment_id bonus_price reason)"
| "mturk_query (block_worker_query worker_id reason)"
| "mturk_query (unblock_worker_query worker_id reason)"
| "mturk_query (notify_workers_query worker_ids subject message_text)"
| "create_qualification_type_query name description status keywords retry_delay hit_test answer_key test_duration auto_granted auto_granted_value = Inr q \<Longrightarrow> mturk_query q"
| "mturk_query (get_qualification_type_query qualification_type_id)"
| "update_qualification_type_query qualification_type_id description status retry_delay hit_test answer_key test_duration auto_granted auto_granted_value = Inr q \<Longrightarrow> mturk_query q"
| "mturk_query (assign_qualification_query qualification_type_id worker_id v send_notification)"

lemma params_ok_given [query_intros]:
  "k \<notin> reserved \<Longrightarrow> params_ok p \<Longrightarrow> params_ok (given_param k v p)"
  by (simp add: given_param_def params_ok_dset)

lemma params_ok_with_given [query_intros]:
  "\<forall>k \<in> set (map fst opts). k \<notin> reserved \<Longrightarrow> params_ok p \<Longrightarrow> params_ok (with_given p opts)"
  unfolding with_given_def by (induction opts arbitrary: p) (auto simp: params_ok_given)

lemma params_ok_update: "\<forall>k \<in> set (map fst new). CHR ''.'' \<in> set k \<Longrightarrow> params_ok p \<Longrightarrow> params_ok (update_params new p)"
  unfolding update_params_def by (induction new arbitrary: p) (auto simp: params_ok_dset)

lemma params_ok_price [query_intros]: "params_ok p \<Longrightarrow> params_ok (price_params str label r p)"
  by (auto simp: price_params_def intro!: params_ok_dset)

lemma query_ok_mturk [query_intros]: "params_ok p \<Longrightarrow> action \<noteq> [] \<Longrightarrow> query_ok (mturk_request action p cls)"
  by (simp add: mturk_request_def query_ok_build)

lemma sum_ok_duration [query_intros]: "k \<notin> reserved \<Longrightarrow> params_ok p \<Longrightarrow> sum_ok (opt_duration k d p)"
  by (auto simp: sum_ok_def opt_duration_def sbind_Inr_iff intro: params_ok_dset split: option.splits)

lemma sum_ok_any: "(\<And>x. r = Inr x \<Longrightarrow> sum_ok (f x)) \<Longrightarrow> sum_ok (sbind r f)"
  by (cases r) (simp_all add: sum_ok_def)

lemma sum_ok_error [query_intros]: "sum_ok (Inl e)"
  by (simp add: sum_ok_def)

lemma sum_ok_answer_key [query_intros]: "params_ok p \<Longrightarrow> sum_ok (answer_key_param v p)"
  by (auto simp: sum_ok_def answer_key_param_def reserved_def intro!: params_ok_dset split: pyval.splits)

lemma sum_ok_keywords [query_intros]:
  "params_ok p \<Longrightarrow> sum_ok (if b then sbind (get_keywords_as_string ks) (\<lambda>k. Inr (dset ''Keywords'' (PStr k) p)) else Inr p)"
  by (auto simp: reserved_def intro!: query_intros sum_ok_any params_ok_dset)

lemma sum_ok_test [query_intros]:
  "sum_ok r \<Longrightarrow> (\<And>x. sum_ok (f x)) \<Longrightarrow> (\<And>v. sum_ok (g v)) \<Longrightarrow>
     sum_ok (case t of NoTest \<Rightarrow> r | QuestionForm x \<Rightarrow> f x | OtherTest v \<Rightarrow> g v)"
  by (cases t) simp_all

lemma register_hit_type_ok:
  assumes "\<forall>k \<in> set (map fst qs). CHR ''.'' \<in> set k"
  shows "builds_ok (register_hit_type_query str title description reward d keywords approval qs)"
  unfolding register_hit_type_query_def Let_def
  by (rule builds_ok_any, rule builds_ok_intros, rule sum_ok_keywords)
     (auto simp: params_ok_Cons reserved_def intro!: query_intros params_ok_update [OF assms])

lemma set_notification_ok [query_intros]: "builds_ok (set_notification_query hit_type transport destination event_types)"
proof -
  have "params_ok (update_params (map (\<lambda>(k, v). (''Notification.1.'' @ k, v)) n) [(''HITTypeId'', hit_type)])" for n
    by (rule params_ok_update) (auto simp: params_ok_Cons reserved_def params_ok_Nil)
  then show ?thesis
    by (auto simp: set_notification_query_def builds_ok_def sbind_Inr_iff intro!: query_intros split: pyval.splits)
qed

lemma sum_ok_hit_type [query_intros]: "params_ok p \<Longrightarrow> sum_ok (hit_type_params str a p)"
  unfolding hit_type_params_def
  by (auto simp: reserved_def intro!: query_intros sum_ok_any)

lemma create_hit_ok:
  assumes "\<forall>k \<in> set (map fst (ht_qualifications a)). CHR ''.'' \<in> set k"
  shows "builds_ok (create_hit_query str a)"
proof (cases "(ht_question a = None) = (ht_questions a = None)")
  case False
  show ?thesis
    unfolding create_hit_query_def if_not_P [OF False]
    by (rule builds_ok_any) (auto simp: params_ok_Cons reserved_def intro!: query_intros params_ok_update [OF assms])
qed (simp add: create_hit_query_def builds_ok_def)

lemma mturk_query_ok: "mturk_query q \<Longrightarrow> query_ok q"
  by (erule mturk_query.cases; hypsubst; (rule builds_okD [OF _ register_hit_type_ok], assumption, assumption)?;
      (rule builds_okD [OF _ create_hit_ok], assumption, assumption)?; (erule builds_okD)?;
      (unfold mturk_query_defs Let_def)?; (auto simp: params_ok_Cons reserved_def intro!: query_intros)?)

end
