(* ===== verification/BotoServiceFacts.thy ===== *)
theory BotoServiceFacts
  imports BotoServices BotoIam BotoRds
begin

text \<open>
  What the requests of the services carry of their arguments, and the arguments that they lose: attributes of SimpleDB are read
  back from a request, a message with headers from its body; a queue is emptied; filters of private clouds, debugging steps of job
  flows, policies of queues and comparisons of alarms behave as the code has them.
\<close>


section \<open>Requests\<close>

definition service_query :: "query \<Rightarrow> bool" where
  "service_query q \<longleftrightarrow> ec2_query q \<or> iam_query q \<or> rds_query q \<or> scaling_query q \<or> vpc_query q \<or> emr_query q \<or> sdb_query q
     \<or> message_query q \<or> mturk_query q"




section \<open>Attributes of SimpleDB\<close>

lemma attribute_key_inj [simp]: "attribute_key label f i = attribute_key label g j \<longleftrightarrow> f = g \<and> i = j"
  by (auto simp: attribute_key_def)

text \<open>The values of an attribute: the items of a list, or the one value.\<close>

definition values_of :: "pyval \<Rightarrow> pyval list" where
  "values_of v = (case v of PList vs \<Rightarrow> vs | _ \<Rightarrow> [v])"

lemma number_values_exists: "(\<exists>i. (i, k, u) \<in> set (number_values n j vs)) \<longleftrightarrow> k = j \<and> u \<in> set vs"
  by (induction n j vs rule: number_values.induct) auto

lemma number_attributes_Cons:
  "number_attributes n ((j, v) # d) = number_values n j (values_of v)
     @ number_attributes (n + length (values_of v) + (case v of PList vs \<Rightarrow> 1 | _ \<Rightarrow> 0)) d"
  by (cases v) (simp_all add: values_of_def)

lemma number_attributes_exists:
  "(\<exists>i. (i, k, u) \<in> set (number_attributes n d)) \<longleftrightarrow> (\<exists>v. (k, v) \<in> set d \<and> u \<in> set (values_of v))"
proof (induction d arbitrary: n)
  case (Cons e d)
  obtain j v where e: "e = (j, v)" by fastforce
  show ?case
    unfolding e number_attributes_Cons set_append Un_iff ex_disj_distrib Cons.IH number_values_exists by auto
qed simp

lemma number_values_from: "e \<in> set (number_values n j vs) \<Longrightarrow> n \<le> fst e \<and> fst e < n + length vs"
  by (induction n j vs rule: number_values.induct) auto

lemma number_attributes_from: "e \<in> set (number_attributes n d) \<Longrightarrow> n \<le> fst e"
proof (induction d arbitrary: n)
  case (Cons kv d)
  obtain j v where kv: "kv = (j, v)" by fastforce
  from Cons.prems consider "e \<in> set (number_values n j (values_of v))" | m where "n \<le> m" "e \<in> set (number_attributes m d)"
    unfolding kv number_attributes_Cons by (auto intro: trans_le_add1)
  then show ?case by cases (auto dest: number_values_from Cons.IH)
qed simp

lemma number_values_distinct: "distinct (map fst (number_values n j vs))"
  by (induction n j vs rule: number_values.induct) (auto dest: number_values_from)

lemma number_attributes_distinct: "distinct (map fst (number_attributes n d))"
proof (induction d arbitrary: n)
  case (Cons e d)
  obtain j v where e: "e = (j, v)" by fastforce
  have "False" if "a \<in> set (number_values n j vs)" "b \<in> set (number_attributes (n + length vs + x) d)" "fst a = fst b" for a b vs x
    using number_values_from [OF that(1)] number_attributes_from [OF that(2)] that(3) by simp
  then show ?case
    unfolding e number_attributes_Cons map_append distinct_append
    using Cons.IH number_values_distinct by (auto; metis fst_conv)
qed simp

lemma dget_add_attribute:
  "dget (add_attribute conv replace label (j, k, u) p) (attribute_key label ''Name'' i) =
     (if i = j then Some (PStr k) else dget p (attribute_key label ''Name'' i))"
  "dget (add_attribute conv replace label (j, k, u) p) (attribute_key label ''Value'' i) =
     (if i = j then Some (conv u) else dget p (attribute_key label ''Value'' i))"
  by (auto simp: add_attribute_def Let_def dget_dset)

lemma dget_add_attributes:
  assumes "distinct (map fst es)"
  shows "dget (fold (add_attribute conv replace label) es p) (attribute_key label ''Name'' i) =
      (case map_of es i of None \<Rightarrow> dget p (attribute_key label ''Name'' i) | Some (k, u) \<Rightarrow> Some (PStr k))"
    and "dget (fold (add_attribute conv replace label) es p) (attribute_key label ''Value'' i) =
      (case map_of es i of None \<Rightarrow> dget p (attribute_key label ''Value'' i) | Some (k, u) \<Rightarrow> Some (conv u))"
  using assms
  by (induction es arbitrary: p) (auto simp: dget_add_attribute map_of_eq_None_iff [THEN iffD2] split: option.splits prod.splits)

lemma dget_opt_expected: "take 8 x \<noteq> ''Expected'' \<Longrightarrow> dget (opt_expected e p) x = dget p x"
  by (auto simp: opt_expected_def build_expected_value_def Let_def dget_dset split: option.splits pyval.splits)

lemma in_key_order_elems: "(k, v) \<in> set (in_key_order d) \<longleftrightarrow> dget d k = Some v"
proof -
  have "(k, v) \<in> set (in_key_order d) \<longleftrightarrow> k \<in> fst ` set d \<and> v = pget d k" by (auto simp: in_key_order_def)
  moreover have "k \<in> fst ` set d \<longleftrightarrow> dget d k \<noteq> None" by (simp add: map_of_eq_None_iff)
  ultimately show ?thesis by (auto simp: pget_def)
qed

lemma attribute_key_other:
  "take 8 (attribute_key ''Attribute'' f i) \<noteq> ''Expected''" "attribute_key ''Attribute'' f i \<noteq> ''DomainName''"
  "attribute_key ''Attribute'' f i \<noteq> ''ItemName''"
  by (simp_all add: attribute_key_def)

text \<open>How SimpleDB reads attributes: by their numbers, a name and a value.\<close>

definition carries :: "pydict \<Rightarrow> string \<Rightarrow> pyval \<Rightarrow> bool" where
  "carries p k w \<longleftrightarrow> (\<exists>i. dget p (attribute_key ''Attribute'' ''Name'' i) = Some (PStr k)
     \<and> dget p (attribute_key ''Attribute'' ''Value'' i) = Some w)"

text \<open>
  C38: the attributes that are put are read back from the request. Reading its parameters as SimpleDB does, by their numbers, a name
  comes with a value exactly if the attribute of that name has the value, or has it in its list; whatever is replaced or expected,
  in whatever order the attributes are given, and in spite of the number that is left out after each list.
\<close>

theorem attributes_read_back:
  "carries (q_params (put_attributes_query conv n item_name attributes replace expected)) k w
    \<longleftrightarrow> (\<exists>v u. dget attributes k = Some v \<and> u \<in> set (values_of v) \<and> w = conv u)"
proof -
  let ?p = "q_params (put_attributes_query conv n item_name attributes replace expected)"
  let ?es = "number_attributes 1 (in_key_order attributes)"
  have read: "dget ?p (attribute_key ''Attribute'' ''Name'' i) = map_option (PStr \<circ> fst) (map_of ?es i)"
    "dget ?p (attribute_key ''Attribute'' ''Value'' i) = map_option (conv \<circ> snd) (map_of ?es i)" for i
    by (auto simp: put_attributes_query_def get_status_def dget_opt_expected build_name_value_list_def
        dget_add_attributes [OF number_attributes_distinct] attribute_key_other split: option.splits)
  have "carries ?p k w \<longleftrightarrow> (\<exists>i u. map_of ?es i = Some (k, u) \<and> w = conv u)"
    unfolding carries_def read by (fastforce simp del: ex_simps)
  also have "\<dots> \<longleftrightarrow> (\<exists>u. (\<exists>i. (i, k, u) \<in> set ?es) \<and> w = conv u)"
    using map_of_eq_Some_iff [OF number_attributes_distinct] by auto
  also have "\<dots> \<longleftrightarrow> (\<exists>v u. dget attributes k = Some v \<and> u \<in> set (values_of v) \<and> w = conv u)"
    by (auto simp: number_attributes_exists in_key_order_elems)
  finally show ?thesis .
qed


section \<open>Emptying a queue\<close>

definition deleted_handles :: "queue_call list \<Rightarrow> string list" where
  "deleted_handles calls = concat (map (\<lambda>c. case c of DeleteHandle h \<Rightarrow> [h] | _ \<Rightarrow> []) calls)"

text \<open>
  A queue with the messages that it holds, each with a handle of its own: it answers with some of those that were not deleted, and
  with none only when all were.
\<close>

definition serves :: "(queue_call list \<Rightarrow> queue_message list) \<Rightarrow> queue_message list \<Rightarrow> bool" where
  "serves E held \<longleftrightarrow> (\<forall>calls p v. set (E (calls @ [Receive p v])) \<subseteq> {m \<in> set held. qm_handle m \<notin> set (deleted_handles calls)}
     \<and> distinct (E (calls @ [Receive p v]))
     \<and> (E (calls @ [Receive p v]) = [] \<longrightarrow> qm_handle ` set held \<subseteq> set (deleted_handles calls)))"

lemma deleted_handles_simps [simp]:
  "deleted_handles [] = []" "deleted_handles (xs @ ys) = deleted_handles xs @ deleted_handles ys"
  "deleted_handles (Receive p v # calls) = deleted_handles calls" "deleted_handles (DeleteHandle h # calls) = h # deleted_handles calls"
  by (simp_all add: deleted_handles_def)

lemma deleted_handles_map [simp]: "deleted_handles (map (DeleteHandle \<circ> f) ms) = map f ms"
  by (induction ms) simp_all

lemma delete_each:
  "for_each (\<lambda>m. bnd (queue_do E (DeleteHandle (qm_handle m))) (\<lambda>_. ret ())) ms calls = (Inr (), calls @ map (DeleteHandle \<circ> qm_handle) ms)"
  by (induction ms arbitrary: calls) (simp_all add: st_defs queue_do_def)

definition remaining :: "queue_message list \<Rightarrow> queue_call list \<Rightarrow> queue_message set" where
  "remaining held calls = {m \<in> set held. qm_handle m \<notin> set (deleted_handles calls)}"

lemma clear_queue_counts:
  assumes "serves E held" and "inj_on qm_handle (set held)" and "card (remaining held calls) < k"
  shows "\<exists>calls'. clear_queue k E p v n calls = (Inr (n + card (remaining held calls)), calls') \<and> remaining held calls' = {}
    \<and> set (deleted_handles calls') \<subseteq> set (deleted_handles calls) \<union> qm_handle ` set held"
  using assms(3)
proof (induction k arbitrary: n calls)
  case (Suc k)
  let ?ms = "E (calls @ [Receive p v])" and ?calls = "calls @ [Receive p v]"
  have ms: "set ?ms \<subseteq> remaining held calls" "distinct ?ms" "?ms = [] \<Longrightarrow> remaining held calls = {}"
    using assms(1) [unfolded serves_def, rule_format, of calls p v] by (auto simp: remaining_def)
  show ?case
  proof (cases "?ms = []")
    case True
    then show ?thesis using ms(3) by (simp add: bnd_def queue_do_def ret_def remaining_def)
  next
    case False
    let ?next = "?calls @ map (DeleteHandle \<circ> qm_handle) ?ms"
    have gone: "remaining held ?next = remaining held calls - set ?ms"
      using assms(2) ms(1) by (auto simp: remaining_def inj_on_def)
    have fin: "finite (remaining held calls)" by (simp add: remaining_def)
    have split: "card (remaining held calls) = length ?ms + card (remaining held ?next)"
      using card_Diff_subset [OF _ ms(1)] card_mono [OF fin ms(1)] distinct_card [OF ms(2)] unfolding gone by simp
    moreover have "0 < length ?ms" using False by simp
    ultimately have "card (remaining held ?next) < k" using Suc.prems by linarith
    from Suc.IH [OF this, of "n + length ?ms"] obtain calls'
      where run: "clear_queue k E p v (n + length ?ms) ?next = (Inr (n + length ?ms + card (remaining held ?next)), calls')"
        and rest: "remaining held calls' = {}" "set (deleted_handles calls') \<subseteq> set (deleted_handles ?next) \<union> qm_handle ` set held"
      by blast
    have "clear_queue (Suc k) E p v n calls = (Inr (n + card (remaining held calls)), calls')"
      using False run unfolding split by (simp add: bnd_def queue_do_def andthen_def delete_each add.assoc)
    moreover have "set (deleted_handles ?next) \<subseteq> set (deleted_handles calls) \<union> qm_handle ` set held"
      using ms(1) by (auto simp: remaining_def)
    ultimately show ?thesis using rest by blast
  qed
qed simp


text \<open>A queue that gives two messages at a time.\<close>

definition two_at_a_time :: "queue_message list \<Rightarrow> queue_call list \<Rightarrow> queue_message list" where
  "two_at_a_time held calls = take 2 (filter (\<lambda>m. qm_handle m \<notin> set (deleted_handles (butlast calls))) held)"

lemma two_at_a_time_serves: "distinct held \<Longrightarrow> serves (two_at_a_time held) held"
  by (auto simp: serves_def two_at_a_time_def dest: in_set_takeD) (auto simp: filter_empty_conv)

definition three_messages :: "queue_message list" where
  "three_messages = map (\<lambda>h. \<lparr>qm_handle = h, qm_body = ''x''\<rparr>) [''a'', ''b'', ''c'']"



section \<open>Messages with headers\<close>

text \<open>Texts that are a key or a value of a line: without a newline and without spaces at the ends; a key has no colon.\<close>

definition plain_text :: "string \<Rightarrow> bool" where
  "plain_text t \<longleftrightarrow> newline \<notin> set t \<and> (t = [] \<or> \<not> is_space (hd t) \<and> \<not> is_space (last t))"

definition header_dict :: "(string, string) dict \<Rightarrow> bool" where
  "header_dict d \<longleftrightarrow> distinct (map fst d) \<and> (\<forall>(k, v) \<in> set d. plain_text k \<and> plain_text v \<and> CHR '':'' \<notin> set k)"

definition text_line :: "string \<times> string \<Rightarrow> string" where
  "text_line e = fst e @ '': '' @ snd e @ [newline]"

lemma strip_padded:
  assumes "plain_text t"
  shows "py_strip (CHR '' '' # t @ [newline]) = t"
proof (cases "t = []")
  case False
  then have "dropWhile is_space (t @ [newline]) = t @ [newline]" "dropWhile is_space (rev t) = rev t"
    using assms by (auto simp: plain_text_def hd_rev intro!: dropWhile_space_id)
  then show ?thesis by (simp add: py_strip_def is_space_def newline_def)
qed (simp add: py_strip_def is_space_def newline_def)

lemma header_line_text:
  assumes "plain_text k" and "plain_text v" and "CHR '':'' \<notin> set k"
  shows "header_line (text_line (k, v)) = (k, v)"
proof -
  have colon: "c \<noteq> CHR '':''" if "c \<in> set k" for c using assms(3) that by auto
  have "takeWhile (\<lambda>c. c \<noteq> CHR '':'') (text_line (k, v)) = k"
    "dropWhile (\<lambda>c. c \<noteq> CHR '':'') (text_line (k, v)) = CHR '':'' # CHR '' '' # v @ [newline]"
    using colon by (simp_all add: text_line_def takeWhile_append2 dropWhile_append2)
  moreover have "py_strip k = k" using assms(1) by (intro py_strip_id) (auto simp: plain_text_def)
  ultimately show ?thesis using strip_padded [OF assms(2)] by (simp add: header_line_def text_line_def)
qed

lemma read_lines_append: "newline \<notin> set t \<Longrightarrow> read_lines acc (t @ newline # s) = (acc @ t @ [newline]) # read_lines [] s"
  by (induction t arbitrary: acc) auto

lemma read_lines_texts:
  assumes "\<forall>(k, v) \<in> set d. plain_text k \<and> plain_text v"
  shows "read_lines [] (concat (map text_line d)) = map text_line d"
  using assms
proof (induction d)
  case (Cons e d)
  obtain k v where e: "e = (k, v)" by fastforce
  have "newline \<notin> set (k @ '': '' @ v)" using Cons.prems by (auto simp: e plain_text_def newline_def)
  then have "read_lines [] (text_line e @ concat (map text_line d)) = text_line e # read_lines [] (concat (map text_line d))"
    using read_lines_append [of "k @ '': '' @ v" "[]" "concat (map text_line d)"] by (simp add: e text_line_def [of "(k, v)"])
  then show ?case using Cons by simp
qed simp

lemma dset_new: "k \<notin> fst ` set r \<Longrightarrow> dset k v r = r @ [(k, v)]"
  by (induction r) auto

lemma fold_dset_all: "distinct (map fst (r @ d)) \<Longrightarrow> fold (\<lambda>(k, v). dset k v) d r = r @ d"
proof (induction d arbitrary: r)
  case (Cons e d)
  obtain k v where e: "e = (k, v)" by fastforce
  have "dset k v r = r @ [(k, v)]" using Cons.prems by (intro dset_new) (auto simp: e)
  then show ?case using Cons.IH [of "r @ [(k, v)]"] Cons.prems by (simp add: e)
qed simp

text \<open>
  C40: a message with headers is read back from its body. A dictionary whose keys and values have no newline and no spaces at their
  ends, and whose keys have no colon, is what \<open>decode\<close> makes of what \<open>encode\<close> made of it, through base64 as well; values may have
  colons.
\<close>

theorem headers_read_back:
  assumes "header_dict d" and "unb64 (b64 (mh_encode d)) = Some (mh_encode d)"
  shows "encoded_mh_decode unb64 (encoded_mh_encode b64 d) = Inr d \<and> mh_decode (mh_encode d) = d"
proof -
  have enc: "mh_encode d = concat (map text_line d)"
    by (simp add: mh_encode_def) (rule arg_cong [of _ _ concat], simp add: text_line_def split_beta)
  have lines: "read_lines [] (mh_encode d) = map text_line d"
    unfolding enc using assms(1) by (intro read_lines_texts) (auto simp: header_dict_def)
  have "fold (\<lambda>l. case header_line l of (k, v) \<Rightarrow> dset k v) (map text_line d) r = fold (\<lambda>(k, v). dset k v) d r" for r
    unfolding fold_map using assms(1) by (intro fold_cong) (auto simp: header_dict_def header_line_text)
  then have "mh_decode (mh_encode d) = d"
    using fold_dset_all [of "[]" d] assms(1) by (simp add: mh_decode_def lines header_dict_def)
  then show ?thesis using assms(2) by (simp add: encoded_mh_decode_def encoded_mh_encode_def)
qed

theorem headers_read_back_witness:
  "mh_decode (mh_encode [(''OriginalFileName'', ''a b.txt''), (''Date'', ''12:30'')]) = [(''OriginalFileName'', ''a b.txt''), (''Date'', ''12:30'')]"
  using headers_read_back [of "[(''OriginalFileName'', ''a b.txt''), (''Date'', ''12:30'')]" Some "\<lambda>t. t"]
  by (simp add: header_dict_def plain_text_def newline_def is_space_def)

text \<open>A line without a colon is a key without its last character, whose value is the whole line.\<close>

lemma line_without_colon: "mh_decode ''Bucket'' = [(''Bucke'', ''Bucket'')]"
  by code_simp


section \<open>Arguments that are lost\<close>

text \<open>
  Job flows started without steps of their own share them. Each call that asks for debugging puts one more debugging step before
  the default list of all calls: the request of a call has as many debugging steps as there were such calls until then, itself
  included, before the steps that the default had at first.
\<close>

theorem debugging_steps_accumulate:
  assumes "i < length as"
  shows "q_params (fst (run_jobflows as d) ! i) =
      jobflow_params (as ! i) (replicate (length (filter jf_enable_debugging (take (Suc i) as))) debugging_step @ d)"
  using assms
proof (induction as arbitrary: d i)
  case (Cons a as)
  let ?d = "replicate (if jf_enable_debugging a then 1 else 0) debugging_step @ d"
  have steps: "run_jobflow a d = ((get_object ''RunJobFlow'' (jobflow_params a ?d) ''RunJobFlowResponse'')\<lparr>q_use := Attributes [''jobflowid'']\<rparr>, ?d)"
    by (simp add: run_jobflow_def Let_def)
  show ?case
  proof (cases i)
    case 0
    then show ?thesis by (simp add: steps get_object_def split_beta)
  next
    case (Suc j)
    then show ?thesis using Cons by (simp add: steps split_beta replicate_app_Cons_same)
  qed
qed simp

definition small_jobflow :: jobflow_args where
  "small_jobflow = \<lparr>jf_name = PStr ''wc'', jf_log_uri = PStr ''s3n://logs'', jf_ec2_keyname = PNone, jf_availability_zone = PNone,
     jf_master_instance_type = PStr ''m1.small'', jf_slave_instance_type = PStr ''m1.small'', jf_num_instances = PInt 1,
     jf_action_on_failure = PNone, jf_keep_alive = False, jf_enable_debugging = True, jf_hadoop_version = PStr ''0.18'', jf_bootstrap_actions = []\<rparr>"

theorem debugging_steps_accumulate_witness:
  "q_params (fst (run_jobflows [small_jobflow, small_jobflow] []) ! 1) = jobflow_params small_jobflow [debugging_step, debugging_step]"
  using debugging_steps_accumulate [of 1 "[small_jobflow, small_jobflow]" "[]"] by (simp add: small_jobflow_def)

lemma dset_after: "k \<in> fst ` set p \<Longrightarrow> k' \<noteq> k \<Longrightarrow> dset k' v' (dset k v p) = dset k v (dset k' v' p)"
  by (induction p) auto

lemma dset_again: "dset k v (dset k w p) = dset k v p"
  by (induction p) auto

lemma keys_dset: "fst ` set (dset k v p) = insert k (fst ` set p)"
  by (induction p) auto

lemma filter_key_not_value: "between_key ''Filter.'' ''.Key'' i \<noteq> vpc_value_key"
proof
  assume "between_key ''Filter.'' ''.Key'' i = vpc_value_key"
  then have "last (between_key ''Filter.'' ''.Key'' i) = last vpc_value_key" by simp
  then show False by (simp add: between_key_def vpc_value_key_def)
qed

lemma later_filters:
  "vpc_value_key \<in> fst ` set p \<Longrightarrow> fold add_vpc_filter (enumerate i fs) (dset vpc_value_key w p) =
     dset vpc_value_key (last (w # map snd fs))
       (fold (\<lambda>(j, n). dset (between_key ''Filter.'' ''.Key'' j) n) (enumerate i (map fst fs)) p)"
proof (induction fs arbitrary: i w p)
  case (Cons f fs)
  obtain n v where f: "f = (n, v)" by fastforce
  let ?p = "dset (between_key ''Filter.'' ''.Key'' i) n p"
  have "add_vpc_filter (i, n, v) (dset vpc_value_key w p) = dset vpc_value_key v ?p"
    using Cons.prems filter_key_not_value [of i] by (simp add: add_vpc_filter_def dset_after dset_again)
  moreover have "vpc_value_key \<in> fst ` set ?p" using Cons.prems by (simp add: keys_dset)
  ultimately show ?case using Cons.IH [of ?p "Suc i" v] by (simp add: f)
qed simp

lemma all_filters:
  "fold add_vpc_filter (enumerate i (f # fs)) p = dset vpc_value_key (last (snd f # map snd fs))
     (fold (\<lambda>(j, n). dset (between_key ''Filter.'' ''.Key'' j) n) (enumerate (Suc i) (map fst fs))
       (dset vpc_value_key PNone (dset (between_key ''Filter.'' ''.Key'' i) (fst f) p)))"
proof -
  let ?p = "dset vpc_value_key PNone (dset (between_key ''Filter.'' ''.Key'' i) (fst f) p)"
  have "add_vpc_filter (i, f) p = dset vpc_value_key (snd f) ?p" by (cases f) (simp add: add_vpc_filter_def dset_again)
  moreover have "vpc_value_key \<in> fst ` set ?p" by (simp add: keys_dset)
  ultimately show ?thesis using later_filters [of ?p "Suc i" fs "snd f"] by simp
qed

text \<open>
  Of the filters of a private cloud only the last value is sent. All values have the same parameter name, which has no number:
  two lists of filters with the same names and the same last value make the same request, whatever the other values are.
\<close>

theorem only_last_filter_value_sent:
  assumes "map fst fs = map fst gs" and "fs \<noteq> [] \<Longrightarrow> snd (last fs) = snd (last gs)"
  shows "get_all_vpcs_query ids fs = get_all_vpcs_query ids gs \<and> get_all_subnets_query ids fs = get_all_subnets_query ids gs
    \<and> get_all_vpn_connections_query ids fs = get_all_vpn_connections_query ids gs"
proof -
  have "vpc_filters fs p = vpc_filters gs p" for p
  proof (cases fs)
    case (Cons f fs')
    then obtain g gs' where gs: "gs = g # gs'" and tails: "fst f = fst g" "map fst fs' = map fst gs'" using assms(1) by (cases gs) auto
    have "last (snd f # map snd fs') = last (snd g # map snd gs')"
      using assms(2) Cons gs tails(2) by (cases fs'; cases gs') (auto simp: last_map)
    then show ?thesis using tails by (simp add: vpc_filters_def Cons gs all_filters del: enumerate_simps)
  qed (use assms(1) in simp)
  then show ?thesis by (simp add: get_all_vpcs_query_def get_all_subnets_query_def get_all_vpn_connections_query_def)
qed

theorem only_last_filter_value_sent_witness:
  "get_all_vpcs_query PNone [(PStr ''cidr'', PStr ''10.0.0.0/16''), (PStr ''state'', PStr ''available'')]
     = get_all_vpcs_query PNone [(PStr ''cidr'', PStr ''10.1.0.0/16''), (PStr ''state'', PStr ''available'')]"
  using only_last_filter_value_sent [of "[(PStr ''cidr'', PStr ''10.0.0.0/16''), (PStr ''state'', PStr ''available'')]"
      "[(PStr ''cidr'', PStr ''10.1.0.0/16''), (PStr ''state'', PStr ''available'')]" PNone] by simp

lemma parameter_key_inj [simp]: "parameter_key i f = parameter_key j g \<longleftrightarrow> i = j \<and> f = g"
  by (auto simp: parameter_key_def)

lemma merge_value:
  assumes "merge a i d = Inr p"
  shows "dget p (parameter_key j ''ParameterValue'') =
    (if j = i \<and> py_truth (pm_value a) then Some (pm_value a) else dget d (parameter_key j ''ParameterValue''))"
  using assms by (auto simp: merge_def Let_def dget_opt_param dget_dset split: option.splits if_splits)

lemma merge_all_values:
  "merge_all as n d = Inr p \<Longrightarrow> dget p (parameter_key j ''ParameterValue'') =
    (if n \<le> j \<and> j < n + length as \<and> py_truth (pm_value (as ! (j - n))) then Some (pm_value (as ! (j - n)))
     else dget d (parameter_key j ''ParameterValue''))"
proof (induction as n d rule: merge_all.induct)
  case (2 a as i d)
  then obtain d' where d': "merge a i d = Inr d'" "merge_all as (Suc i) d' = Inr p" by (auto simp: sbind_Inr_iff)
  from "2.IH" [OF d'(2)] merge_value [OF d'(1), of j] show ?case
    by (cases "j = i") (auto simp: nth_Cons' Suc_diff_le not_less_eq_eq)
qed auto

text \<open>
  Of the parameters of a database group that are modified, the request has the values that count as true in Python and no
  others: a parameter that is set to zero, to \<open>False\<close> or to an empty text is sent without its value. A parameter that was not
  read from a reply makes the request fail.
\<close>

theorem parameter_values_sent:
  assumes "i < length as"
  shows "(case modify_parameter_group_query name (Some as) of
      Inr q \<Rightarrow> dget (q_params q) (parameter_key (Suc i) ''ParameterValue'') =
        (if py_truth (pm_value (as ! i)) then Some (pm_value (as ! i)) else None)
    | Inl e \<Rightarrow> e = AttributeError ''apply_type'' \<and> (\<exists>a \<in> set as. pm_apply_type a = None))"
proof -
  have fails: "merge_all bs n d = Inl e \<Longrightarrow> e = AttributeError ''apply_type'' \<and> (\<exists>a \<in> set bs. pm_apply_type a = None)" for bs n d e
    by (induction bs n d rule: merge_all.induct) (auto simp: merge_def Let_def split: option.splits)
  have other: "parameter_key j f \<noteq> ''DBParameterGroupName''" for j f by (simp add: parameter_key_def)
  show ?thesis
    using fails [of as 1] assms
    by (cases "merge_all as 1 [(''DBParameterGroupName'', name)]")
       (auto simp: modify_parameter_group_query_def merge_all_values get_list_def other)
qed

theorem parameter_values_sent_witness:
  "\<exists>q. modify_parameter_group_query (PStr ''g'') (Some [(new_parameter (PStr ''max_connections''))\<lparr>pm_value := PInt 0, pm_apply_type := Some (PStr ''dynamic'')\<rparr>]) = Inr q
     \<and> dget (q_params q) (parameter_key 1 ''ParameterValue'') = None"
  using parameter_values_sent [of 0 "[(new_parameter (PStr ''max_connections''))\<lparr>pm_value := PInt 0, pm_apply_type := Some (PStr ''dynamic'')\<rparr>]" "PStr ''g''"]
  by (simp add: new_parameter_def split: sum.splits)

text \<open>
  An alarm that was made with a comparison cannot be put: it holds the long name, which is looked up among the short ones.
\<close>

lemma new_alarm_cannot_be_put:
  "\<exists>k. put_metric_alarm_query (new_alarm name metric namespace statistic comparison threshold period evaluation_periods) = Inl (KeyError k)"
proof (cases "dget cmp_map comparison")
  case None
  then show ?thesis by (simp add: put_metric_alarm_query_def new_alarm_def)
next
  case (Some c)
  then have "dget cmp_map c = None" by (auto simp: cmp_map_def split: if_splits)
  then show ?thesis using Some by (simp add: put_metric_alarm_query_def new_alarm_def dlookup_def)
qed

text \<open>A qualification that is to be granted without a test cannot be made: the check wants a test that is \<open>False\<close>, which is refused before.\<close>

lemma granting_always_fails:
  assumes "py_truth auto_granted"
  shows "\<exists>e. create_qualification_type_query name description status keywords retry_delay t answer_key test_duration auto_granted v = Inl e"
proof (cases t)
  case (OtherTest w)
  then show ?thesis by (simp add: create_qualification_type_query_def)
qed (use assms in \<open>auto simp: create_qualification_type_query_def Let_def answer_key_param_def split: pyval.splits\<close>)

text \<open>The policy of a queue that is subscribed to a topic has the new statement only: the old policy is an attribute, which is not read.\<close>

lemma subscribing_loses_policy:
  assumes "queue_arn region queue_id = Inr q_arn"
  shows "subscribe_sqs_queue dumps sid region topic queue_id [(''Policy'', old)] =
    Inr (subscribe_query topic (PStr ''sqs'') (PStr q_arn), (queue_id, get_queue_attributes_query (PStr ''Policy'')),
      (queue_id, set_queue_attribute_query (PStr ''Policy'') (PStr (dumps (PDict [(''Policy'', PStr old), (''Version'', PStr ''2008-10-17''),
        (''Statement'', PList [queue_statement q_arn sid topic])])))))"
  by (simp add: subscribe_sqs_queue_def assms extend_policy_def pget_def)

text \<open>A queue is found by the end of its address.\<close>

lemma get_queue_finds_other: "get_queue ''jobs'' [''/1234/old-jobs'', ''/1234/jobs''] = Some ''/1234/old-jobs''"
  by code_simp

end
